(* ===== verification/Vem_Prelude.thy ===== *)
theory Vem_Prelude
  imports Main
begin

text \<open>
  Shared vocabulary of the development.

  \<^item> \<open>bindR\<close> sequences fallible computations \<open>error + 'a\<close>: a \<open>throw\<close> of the source is \<open>Inl\<close>
    and skips everything after it, as an exception leaving an \<open>async\<close> function does.
  \<^item> \<open>foldR\<close> is an awaited loop whose body may throw.
  \<^item> \<open>upd_where\<close>, \<open>count_where\<close>, \<open>sum_where\<close> are the SQL \<open>update \<dots> where\<close>, row count and
    \<open>sum\<close> over a table kept as the list of its rows in insertion order.
  \<^item> \<open>commit\<close> is a database transaction run to its end: a thrown error rolls back.
  \<^item> two locales give the run-level consequences of one-step laws: \<open>reactive_machine\<close> for a
    component that maps a state and an input to a new state and an output, and \<open>transaction\<close>
    for an operation that may throw and roll back.
\<close>

named_theorems res_simps \<open>unfolding of fallible computations\<close>
named_theorems frame_simps \<open>which tables an operation leaves alone\<close>

subsection \<open>Fallible computations\<close>

definition bindR :: "'e + 'a \<Rightarrow> ('a \<Rightarrow> 'e + 'b) \<Rightarrow> 'e + 'b" where
  "bindR m f = (case m of Inl e \<Rightarrow> Inl e | Inr a \<Rightarrow> f a)"

lemma bindR_Inl [simp, res_simps]: "bindR (Inl e) f = Inl e"
  by (simp add: bindR_def)

lemma bindR_Inr [simp, res_simps]: "bindR (Inr a) f = f a"
  by (simp add: bindR_def)

lemma bindR_eq_Inr [res_simps]: "bindR m f = Inr b \<longleftrightarrow> (\<exists>a. m = Inr a \<and> f a = Inr b)"
  by (cases m) auto

lemma bindR_eq_Inl [res_simps]:
  "bindR m f = Inl e \<longleftrightarrow> m = Inl e \<or> (\<exists>a. m = Inr a \<and> f a = Inl e)"
  by (cases m) auto

lemma bindR_InrE [elim]:
  assumes "bindR m f = Inr b"
  obtains a where "m = Inr a" and "f a = Inr b"
  using assms by (auto simp: bindR_eq_Inr)

lemma bindR_assoc: "bindR (bindR m f) g = bindR m (\<lambda>a. bindR (f a) g)"
  by (cases m) simp_all

lemma bindR_cong [fundef_cong]:
  "m = m' \<Longrightarrow> (\<And>a. m' = Inr a \<Longrightarrow> f a = f' a) \<Longrightarrow> bindR m f = bindR m' f'"
  by (cases m') auto

fun foldR :: "('a \<Rightarrow> 's \<Rightarrow> 'e + 's) \<Rightarrow> 'a list \<Rightarrow> 's \<Rightarrow> 'e + 's" where
  "foldR f [] s = Inr s"
| "foldR f (x # xs) s = bindR (f x s) (foldR f xs)"

text \<open>The loop rule: what each iteration keeps, the loop keeps.\<close>

lemma foldR_invariant:
  assumes "foldR f xs s = Inr s'" and "I s"
    and "\<And>x s s'. x \<in> set xs \<Longrightarrow> I s \<Longrightarrow> f x s = Inr s' \<Longrightarrow> I s'"
  shows "I s'"
  using assms
proof (induction xs arbitrary: s)
  case Nil
  then show ?case by simp
next
  case (Cons x xs)
  from Cons.prems(1) obtain s1 where f: "f x s = Inr s1" and rest: "foldR f xs s1 = Inr s'"
    by (auto simp: bindR_eq_Inr)
  have "I s1" using Cons.prems(2,3) f by auto
  with Cons.IH [OF rest this] Cons.prems(3) show ?case by auto
qed

lemma foldR_frame:
  assumes "foldR f xs s = Inr s'" and "\<And>x s s'. f x s = Inr s' \<Longrightarrow> g s' = g s"
  shows "g s' = g s"
  using assms(1) by (rule foldR_invariant [where I = "\<lambda>t. g t = g s"]) (simp_all add: assms(2))

subsection \<open>Tables\<close>

definition upd_where :: "('r \<Rightarrow> bool) \<Rightarrow> ('r \<Rightarrow> 'r) \<Rightarrow> 'r list \<Rightarrow> 'r list" where
  "upd_where p f rows = map (\<lambda>r. if p r then f r else r) rows"

definition count_where :: "('r \<Rightarrow> bool) \<Rightarrow> 'r list \<Rightarrow> nat" where
  "count_where p rows = length (filter p rows)"

definition sum_where :: "('r \<Rightarrow> bool) \<Rightarrow> ('r \<Rightarrow> int) \<Rightarrow> 'r list \<Rightarrow> int" where
  "sum_where p f rows = sum_list (map f (filter p rows))"

lemma upd_where_simps [simp]:
  "upd_where p f [] = []"
  "upd_where p f (r # rows) = (if p r then f r else r) # upd_where p f rows"
  by (simp_all add: upd_where_def)

lemma sum_where_simps [simp]:
  "sum_where p f [] = 0"
  "sum_where p f (r # rows) = (if p r then f r else 0) + sum_where p f rows"
  by (simp_all add: sum_where_def)

lemma count_where_simps [simp]:
  "count_where p [] = 0"
  "count_where p (r # rows) = (if p r then Suc (count_where p rows) else count_where p rows)"
  by (simp_all add: count_where_def)

lemma length_upd_where [simp]: "length (upd_where p f rows) = length rows"
  by (simp add: upd_where_def)

lemma set_upd_where: "set (upd_where p f rows) = (\<lambda>r. if p r then f r else r) ` set rows"
  by (simp add: upd_where_def)

lemma upd_where_none: "(\<And>r. r \<in> set rows \<Longrightarrow> \<not> p r) \<Longrightarrow> upd_where p f rows = rows"
  by (induction rows) auto

lemma map_upd_where:
  "(\<And>r. p r \<Longrightarrow> g (f r) = g r) \<Longrightarrow> map g (upd_where p f rows) = map g rows"
  by (induction rows) auto

lemma count_where_zero: "count_where p rows = 0 \<longleftrightarrow> (\<forall>r\<in>set rows. \<not> p r)"
  by (auto simp: count_where_def filter_empty_conv)

lemma sum_where_append [simp]:
  "sum_where p f (xs @ ys) = sum_where p f xs + sum_where p f ys"
  by (simp add: sum_where_def)

lemma sum_where_cong:
  "(\<And>r. r \<in> set rows \<Longrightarrow> p r = q r) \<Longrightarrow> (\<And>r. r \<in> set rows \<Longrightarrow> q r \<Longrightarrow> f r = g r) \<Longrightarrow>
   sum_where p f rows = sum_where q g rows"
  by (induction rows) auto

lemma sum_where_zero: "(\<And>r. r \<in> set rows \<Longrightarrow> \<not> p r) \<Longrightarrow> sum_where p f rows = 0"
  by (induction rows) auto

lemma sum_where_nonneg:
  "(\<And>r. r \<in> set rows \<Longrightarrow> p r \<Longrightarrow> 0 \<le> f r) \<Longrightarrow> 0 \<le> sum_where p f rows"
  by (induction rows) force+

lemma sum_where_upd_same:
  assumes "\<And>r. r \<in> set rows \<Longrightarrow> c r \<Longrightarrow> p (h r) = p r"
    and "\<And>r. r \<in> set rows \<Longrightarrow> c r \<Longrightarrow> p r \<Longrightarrow> f (h r) = f r"
  shows "sum_where p f (upd_where c h rows) = sum_where p f rows"
  using assms by (induction rows) auto

text \<open>A sum over the rows that satisfy \<open>p\<close>, split by whether an update takes them out.\<close>

lemma sum_where_upd_leave:
  assumes "\<And>r. r \<in> set rows \<Longrightarrow> c r \<Longrightarrow> \<not> p (h r)"
  shows "sum_where p f (upd_where c h rows) =
         sum_where p f rows - sum_where (\<lambda>r. c r \<and> p r) f rows"
  using assms by (induction rows) auto

lemma sum_where_member_le:
  assumes "\<And>r. r \<in> set rows \<Longrightarrow> p r \<Longrightarrow> 0 \<le> f r" and "x \<in> set rows" and "p x"
  shows "f x \<le> sum_where p f rows"
  using assms
proof (induction rows)
  case Nil
  then show ?case by simp
next
  case (Cons r rows)
  have nn: "0 \<le> sum_where p f rows" using Cons.prems(1) by (intro sum_where_nonneg) auto
  show ?case
  proof (cases "x = r")
    case True
    then show ?thesis using nn Cons.prems(3) by simp
  next
    case False
    then have "f x \<le> sum_where p f rows" using Cons by auto
    moreover have "p r \<Longrightarrow> 0 \<le> f r" using Cons.prems(1) by simp
    ultimately show ?thesis by auto
  qed
qed

lemma sum_where_mono_pred:
  assumes "\<And>r. r \<in> set rows \<Longrightarrow> q r \<Longrightarrow> 0 \<le> f r" and "\<And>r. r \<in> set rows \<Longrightarrow> p r \<Longrightarrow> q r"
  shows "sum_where p f rows \<le> sum_where q f rows"
  using assms by (induction rows) (auto simp: add_increasing)

lemma find_SomeD: "List.find p rows = Some r \<Longrightarrow> r \<in> set rows \<and> p r"
  by (induction rows) (auto split: if_splits)

lemma find_NoneD: "List.find p rows = None \<Longrightarrow> r \<in> set rows \<Longrightarrow> \<not> p r"
  by (induction rows) (auto split: if_splits)

text \<open>In a table whose key is distinct, the rows with one key are one row or none.\<close>

lemma filter_key_unique:
  assumes "distinct (map k rows)" and "r \<in> set rows"
  shows "filter (\<lambda>x. k x = k r) rows = [r]"
  using assms
proof (induction rows)
  case Nil
  then show ?case by simp
next
  case (Cons a rows)
  show ?case
  proof (cases "a = r")
    case True
    then have "\<forall>x\<in>set rows. k x \<noteq> k r" using Cons.prems(1) by auto (metis image_eqI)
    then have "filter (\<lambda>x. k x = k r) rows = []" by (simp add: filter_empty_conv)
    with True show ?thesis by simp
  next
    case False
    then have "r \<in> set rows" and "k a \<noteq> k r" using Cons.prems by force+
    with Cons show ?thesis by simp
  qed
qed

lemma key_unique:
  "distinct (map k rows) \<Longrightarrow> r \<in> set rows \<Longrightarrow> r' \<in> set rows \<Longrightarrow> k r = k r' \<Longrightarrow> r = r'"
  by (metis distinct_map inj_onD)

lemma sum_where_key:
  assumes "distinct (map k rows)" and "r \<in> set rows" and "p r"
  shows "sum_where (\<lambda>x. k x = k r \<and> p x) f rows = f r"
proof -
  have "filter (\<lambda>x. k x = k r \<and> p x) rows = filter p (filter (\<lambda>x. k x = k r) rows)"
    by (simp add: conj_commute)
  then show ?thesis
    using assms by (simp add: sum_where_def filter_key_unique)
qed

lemma filter_upd_where_key:
  assumes "\<And>r. p r \<Longrightarrow> k (f r) = k r"
  shows "filter (\<lambda>x. k x = a) (upd_where p f rows) = upd_where p f (filter (\<lambda>x. k x = a) rows)"
  using assms by (induction rows) auto

subsection \<open>Transactions and reactive machines\<close>

definition commit :: "('s \<Rightarrow> 'e + 'r \<times> 's) \<Rightarrow> 's \<Rightarrow> 's" where
  "commit tx s = (case tx s of Inl _ \<Rightarrow> s | Inr (_, s') \<Rightarrow> s')"

fun commit_run :: "('i \<Rightarrow> 's \<Rightarrow> 'e + 'r \<times> 's) \<Rightarrow> 'i list \<Rightarrow> 's \<Rightarrow> 's" where
  "commit_run tx [] s = s"
| "commit_run tx (i # is) s = commit_run tx is (commit (tx i) s)"

lemma commit_Inl [simp]: "tx s = Inl e \<Longrightarrow> commit tx s = s"
  by (simp add: commit_def)

lemma commit_Inr [simp]: "tx s = Inr (r, s') \<Longrightarrow> commit tx s = s'"
  by (simp add: commit_def)

text \<open>
  An operation that is not one transaction: it commits some, then may throw, and what it has
  committed stays. \<open>atomic\<close> runs one transaction inside such an operation.
\<close>

definition atomic :: "('s \<Rightarrow> 'e + 'r \<times> 's) \<Rightarrow> 's \<Rightarrow> 's \<times> ('e + 'r)" where
  "atomic tx s = (case tx s of Inl e \<Rightarrow> (s, Inl e) | Inr (r, s') \<Rightarrow> (s', Inr r))"

definition bindS :: "'s \<times> ('e + 'a) \<Rightarrow> ('a \<Rightarrow> 's \<Rightarrow> 's \<times> ('e + 'b)) \<Rightarrow> 's \<times> ('e + 'b)" where
  "bindS m f = (case m of (s, Inl e) \<Rightarrow> (s, Inl e) | (s, Inr a) \<Rightarrow> f a s)"

lemma bindS_simps [simp]:
  "bindS (s, Inl e) f = (s, Inl e)"
  "bindS (s, Inr a) f = f a s"
  by (simp_all add: bindS_def)

lemma atomic_simps [simp]:
  "tx s = Inl e \<Longrightarrow> atomic tx s = (s, Inl e)"
  "tx s = Inr (r, s') \<Longrightarrow> atomic tx s = (s', Inr r)"
  by (simp_all add: atomic_def)

text \<open>An invariant kept by every transaction and every continuation is kept by the whole.\<close>

lemma atomic_keeps:
  assumes "I s" and "\<And>r s'. tx s = Inr (r, s') \<Longrightarrow> I s'"
  shows "I (fst (atomic tx s))"
  using assms by (auto simp: atomic_def split: sum.splits)

lemma bindS_keeps:
  assumes "I (fst m)" and "\<And>a s. I s \<Longrightarrow> I (fst (f a s))"
  shows "I (fst (bindS m f))"
  using assms by (auto simp: bindS_def split: prod.splits sum.splits)

text \<open>
  The contract of a database operation: when it returns, it has kept the invariant. What
  follows is that any sequence of its runs, with the thrown ones rolled back, keeps it.
\<close>

locale transaction =
  fixes tx :: "'i \<Rightarrow> 's \<Rightarrow> 'e + 'r \<times> 's"
    and inv :: "'s \<Rightarrow> bool"
  assumes keeps: "\<And>i s r s'. inv s \<Longrightarrow> tx i s = Inr (r, s') \<Longrightarrow> inv s'"
begin

lemma commit_keeps: "inv s \<Longrightarrow> inv (commit (tx i) s)"
  using keeps by (auto simp: commit_def split: sum.splits)

lemma run_keeps: "inv s \<Longrightarrow> inv (commit_run tx is s)"
  by (induction "is" arbitrary: s) (auto intro: commit_keeps)

end

fun run_machine :: "('s \<Rightarrow> 'i \<Rightarrow> 's \<times> 'o) \<Rightarrow> 's \<Rightarrow> 'i list \<Rightarrow> 's \<times> 'o list" where
  "run_machine step s [] = (s, [])"
| "run_machine step s (i # is) =
     (let (s1, out) = step s i; (s2, outs) = run_machine step s1 is in (s2, out # outs))"

text \<open>
  The contract of a reactive component: its initial state satisfies the invariant, each step
  keeps it and, from a state that satisfies it, emits only outputs that satisfy \<open>good\<close>.
\<close>

locale reactive_machine =
  fixes step :: "'s \<Rightarrow> 'i \<Rightarrow> 's \<times> 'o"
    and init :: 's
    and inv :: "'s \<Rightarrow> bool"
    and good :: "'s \<Rightarrow> 'i \<Rightarrow> 'o \<Rightarrow> bool"
  assumes inv_init: "inv init"
    and inv_step: "\<And>s i. inv s \<Longrightarrow> inv (fst (step s i))"
    and good_step: "\<And>s i. inv s \<Longrightarrow> good s i (snd (step s i))"
begin

lemma run_inv: "inv s \<Longrightarrow> inv (fst (run_machine step s is))"
proof (induction "is" arbitrary: s)
  case Nil
  then show ?case by simp
next
  case (Cons i "is")
  from Cons.prems have "inv (fst (step s i))" by (rule inv_step)
  from Cons.IH [OF this] show ?case by (simp add: split_beta Let_def)
qed

lemma reachable_inv: "inv (fst (run_machine step init is))"
  by (rule run_inv [OF inv_init])

lemma reachable_good: "good (fst (run_machine step init is)) i
    (snd (step (fst (run_machine step init is)) i))"
  by (rule good_step [OF reachable_inv])

end

lemma run_machine_append:
  "run_machine step s (is @ js) =
     (let (s1, o1) = run_machine step s is; (s2, o2) = run_machine step s1 js in (s2, o1 @ o2))"
  by (induction "is" arbitrary: s) (auto simp: split_beta Let_def)

end
