(* ===== verification/Shared_Enums.thy ===== *)
theory Shared_Enums
  imports Vem_Prelude
begin

text \<open>
  The shared contracts of \<open>packages/shared/src\<close>: the enumerations of \<open>enums/*.ts\<close> as datatypes
  with one constructor per literal (constructors carry a prefix where two enumerations share a
  literal), the hardware error table of \<open>enums/hardware.ts\<close>, and the slot coordinate rules of
  \<open>schemas/machine-slot-coordinate.ts\<close>.

  A JavaScript \<open>number\<close> is \<open>js_number\<close>: an integer, or any other number (a fraction, \<open>NaN\<close>, an
  infinity), which the coordinate rules only tell apart by \<open>Number.isInteger\<close>. An absent
  property is \<open>None\<close>.
\<close>

subsection \<open>Enumerations\<close>

datatype order_status =
  OsPendingPayment | OsPaymentExpired | OsCanceled | OsPaid | OsDispensing | OsFulfilled
| OsDispenseFailed | OsManualHandling | OsRefundPending | OsRefunded | OsClosed

fun order_status_string :: "order_status \<Rightarrow> string" where
  "order_status_string OsPendingPayment = ''pending_payment''"
| "order_status_string OsPaymentExpired = ''payment_expired''"
| "order_status_string OsCanceled = ''canceled''"
| "order_status_string OsPaid = ''paid''"
| "order_status_string OsDispensing = ''dispensing''"
| "order_status_string OsFulfilled = ''fulfilled''"
| "order_status_string OsDispenseFailed = ''dispense_failed''"
| "order_status_string OsManualHandling = ''manual_handling''"
| "order_status_string OsRefundPending = ''refund_pending''"
| "order_status_string OsRefunded = ''refunded''"
| "order_status_string OsClosed = ''closed''"

datatype order_payment_state =
  PsAwaitingPayment | PsPaid | PsPaymentFailed | PsPaymentExpired | PsPaymentUnknown | PsCanceled
| PsRefundPending | PsPartialRefundPending | PsManualHandling | PsRefunded | PsPartialRefunded

datatype order_fulfillment_state =
  FsAwaitingFulfillment | FsDispensing | FsDispensed | FsPartialDispensed | FsDispenseFailed
| FsManualHandling | FsCanceled

datatype line_fulfillment_status =
  LfPending | LfDispensing | LfDispensed | LfDispenseFailed | LfManualHandling

datatype line_refund_status =
  LrNotRequired | LrPending | LrRefunded | LrFailed | LrManualHandling

datatype payment_status =
  PayCreated | PayPending | PayProcessing | PaySucceeded | PayFailed | PayExpired | PayCanceled
| PayUnknown | PayRefundPending | PayPartialRefundPending | PayManualHandling | PayRefunded
| PayPartialRefunded

datatype payment_method = PmMock | PmQrCode | PmPaymentCode | PmFacePay

datatype code_attempt_status =
  CaCreated | CaSubmitting | CaUserConfirming | CaQuerying | CaSucceeded | CaFailed | CaReversing
| CaReversed | CaUnknown | CaReversalUnknown | CaManualHandling | CaCanceled

datatype product_status = PrDraft | PrActive | PrInactive

datatype variant_status = VaActive | VaInactive

datatype refund_status = RfCreated | RfProcessing | RfSucceeded | RfFailed | RfCanceled

datatype reservation_status = RsActive | RsConfirmed | RsReleased | RsExpired

datatype movement_reason =
  MrRefill | MrAdjust | MrPurchaseReserved | MrPurchaseConfirmed | MrReservationReleased
| MrRefundReturn | MrHardwareSync

datatype vending_command_status =
  VcPending | VcSent | VcAcknowledged | VcSucceeded | VcFailed | VcResultUnknown | VcTimeout

datatype machine_status = MsOnline | MsOffline | MsMaintenance | MsDisabled

datatype slot_status = SsEnabled | SsDisabled | SsFaulted

datatype notification_type =
  NtLowStock | NtSoldOut | NtMachineOffline | NtPaymentFailed | NtPaymentWebhookInvalid
| NtPaymentReconciliationFailed | NtPaymentRefundFailed | NtPaymentCertificateExpiring
| NtPaymentProviderUnready | NtDispenseFailed | NtWorkOrderCreated

datatype severity = SevInfo | SevWarning | SevCritical

datatype notification_status = NsUnread | NsRead | NsArchived

datatype work_order_status = WoOpen | WoInProgress | WoResolved | WoCanceled

datatype work_order_priority = WpLow | WpMedium | WpHigh | WpCritical

subsection \<open>Hardware error policies\<close>

datatype hardware_error_code = NO_DROP | JAMMED | DOOR_OPEN | MOTOR_TIMEOUT | UNKNOWN

record hardware_error_rule =
  hr_errorCode :: "hardware_error_code option"
  hr_restoreInventory :: bool
  hr_faultSlot :: bool
  hr_requestRefund :: bool
  hr_createWorkOrder :: bool
  hr_severity :: severity

text \<open>
  The table is keyed by strings: the five error codes and \<open>NULL_ERROR\<close>, which is \<open>None\<close> here.
\<close>

fun HARDWARE_ERROR_HANDLING :: "hardware_error_code option \<Rightarrow> hardware_error_rule" where
  "HARDWARE_ERROR_HANDLING (Some NO_DROP) =
     \<lparr>hr_errorCode = Some NO_DROP, hr_restoreInventory = True, hr_faultSlot = False,
      hr_requestRefund = True, hr_createWorkOrder = False, hr_severity = SevWarning\<rparr>"
| "HARDWARE_ERROR_HANDLING (Some JAMMED) =
     \<lparr>hr_errorCode = Some JAMMED, hr_restoreInventory = False, hr_faultSlot = True,
      hr_requestRefund = True, hr_createWorkOrder = True, hr_severity = SevCritical\<rparr>"
| "HARDWARE_ERROR_HANDLING (Some DOOR_OPEN) =
     \<lparr>hr_errorCode = Some DOOR_OPEN, hr_restoreInventory = False, hr_faultSlot = True,
      hr_requestRefund = True, hr_createWorkOrder = True, hr_severity = SevCritical\<rparr>"
| "HARDWARE_ERROR_HANDLING (Some MOTOR_TIMEOUT) =
     \<lparr>hr_errorCode = Some MOTOR_TIMEOUT, hr_restoreInventory = False, hr_faultSlot = True,
      hr_requestRefund = True, hr_createWorkOrder = True, hr_severity = SevCritical\<rparr>"
| "HARDWARE_ERROR_HANDLING (Some UNKNOWN) =
     \<lparr>hr_errorCode = Some UNKNOWN, hr_restoreInventory = False, hr_faultSlot = True,
      hr_requestRefund = True, hr_createWorkOrder = True, hr_severity = SevCritical\<rparr>"
| "HARDWARE_ERROR_HANDLING None =
     \<lparr>hr_errorCode = None, hr_restoreInventory = False, hr_faultSlot = True,
      hr_requestRefund = True, hr_createWorkOrder = True, hr_severity = SevCritical\<rparr>"

subsection \<open>Decimal rendering of integers\<close>

fun digits :: "nat \<Rightarrow> string" where
  "digits n = (if n < 10 then [char_of (48 + n)]
               else digits (n div 10) @ [char_of (48 + n mod 10)])"

declare digits.simps [simp del]

definition show_int :: "int \<Rightarrow> string" where
  "show_int i = (if i < 0 then CHR ''-'' # digits (nat (- i)) else digits (nat i))"

text \<open>The decimal digits of a natural number, read back.\<close>

definition digit_val :: "char \<Rightarrow> nat" where
  "digit_val c = of_char c - 48"

definition read_digits :: "string \<Rightarrow> nat" where
  "read_digits s = foldl (\<lambda>n c. 10 * n + digit_val c) 0 s"

lemma of_char_digit: "n < 10 \<Longrightarrow> of_char (char_of (48 + n) :: char) = (48 + n :: nat)"
  by (simp add: of_char_of)

lemma digit_val_char: "n < 10 \<Longrightarrow> digit_val (char_of (48 + n)) = n"
  by (simp add: digit_val_def of_char_digit)

lemma read_digits_digits [simp]: "read_digits (digits n) = n"
proof (induction n rule: digits.induct)
  case (1 n)
  show ?case
  proof (cases "n < 10")
    case True
    then show ?thesis by (subst digits.simps) (simp add: read_digits_def digit_val_char)
  next
    case False
    then have "read_digits (digits (n div 10)) = n div 10" using "1.IH" by simp
    with False show ?thesis
      by (subst digits.simps) (simp add: read_digits_def digit_val_char)
  qed
qed

lemma digits_set: "c \<in> set (digits n) \<Longrightarrow> 48 \<le> (of_char c :: nat) \<and> (of_char c :: nat) < 58"
proof (induction n rule: digits.induct)
  case (1 n)
  show ?case
  proof (cases "n < 10")
    case True
    with "1.prems" have "c = char_of (48 + n)" by (subst (asm) digits.simps) simp
    then show ?thesis using of_char_digit [OF True] True by simp
  next
    case False
    from "1.prems" False have "c \<in> set (digits (n div 10)) \<or> c = char_of (48 + n mod 10)"
      by (subst (asm) digits.simps) auto
    then show ?thesis
    proof
      assume "c \<in> set (digits (n div 10))"
      then show ?thesis using "1.IH" False by simp
    next
      assume c: "c = char_of (48 + n mod 10)"
      have m: "n mod 10 < 10" by simp
      show ?thesis using of_char_digit [OF m] m unfolding c by linarith
    qed
  qed
qed

lemma digits_no_char: "of_char c < (48::nat) \<or> 58 \<le> (of_char c :: nat) \<Longrightarrow> c \<notin> set (digits n)"
  using digits_set by fastforce

lemma show_int_inject [simp]: "show_int i = show_int j \<longleftrightarrow> i = j"
proof
  assume eq: "show_int i = show_int j"
  have minus: "CHR ''-'' \<notin> set (digits n)" for n by (rule digits_no_char) simp
  have ne: "digits n \<noteq> []" for n by (subst digits.simps) simp
  have hd: "hd (digits n) \<noteq> CHR ''-''" for n using minus ne by (metis list.set_sel(1))
  show "i = j"
  proof (cases "i < 0"; cases "j < 0")
    assume "i < 0" "j < 0"
    with eq have "digits (nat (- i)) = digits (nat (- j))" by (simp add: show_int_def)
    then have "nat (- i) = nat (- j)" by (metis read_digits_digits)
    with \<open>i < 0\<close> \<open>j < 0\<close> show ?thesis by simp
  next
    assume "\<not> i < 0" "\<not> j < 0"
    with eq have "digits (nat i) = digits (nat j)" by (simp add: show_int_def)
    then have "nat i = nat j" by (metis read_digits_digits)
    with \<open>\<not> i < 0\<close> \<open>\<not> j < 0\<close> show ?thesis by simp
  next
    assume "i < 0" "\<not> j < 0"
    with eq hd [of "nat j"] have False by (simp add: show_int_def) (metis list.sel(1))
    then show ?thesis ..
  next
    assume "\<not> i < 0" "j < 0"
    with eq hd [of "nat i"] have False by (simp add: show_int_def)
    then show ?thesis ..
  qed
qed simp

subsection \<open>Slot coordinates\<close>

datatype js_number = IntNum int | OtherNum

record slot_band =
  maxRowNo :: int
  maxCellNo :: int

definition minRowNo :: int where
  "minRowNo = 1"

definition bands :: "slot_band list" where
  "bands = [\<lparr>maxRowNo = 6, maxCellNo = 5\<rparr>, \<lparr>maxRowNo = 8, maxCellNo = 4\<rparr>,
            \<lparr>maxRowNo = 9, maxCellNo = 3\<rparr>]"

definition MACHINE_SLOT_MAX_ROW_NO :: int where
  "MACHINE_SLOT_MAX_ROW_NO = maxRowNo (last bands)"

definition MACHINE_SLOT_LOWER_MAX_CELL_NO :: int where
  "MACHINE_SLOT_LOWER_MAX_CELL_NO = maxCellNo (hd bands)"

fun band_lookup :: "slot_band list \<Rightarrow> int \<Rightarrow> int option" where
  "band_lookup [] rowNo = None"
| "band_lookup (b # bs) rowNo = (if rowNo \<le> maxRowNo b then Some (maxCellNo b)
                                 else band_lookup bs rowNo)"

fun getMachineSlotMaxCellNo :: "js_number \<Rightarrow> int option" where
  "getMachineSlotMaxCellNo OtherNum = None"
| "getMachineSlotMaxCellNo (IntNum rowNo) =
     (if rowNo < minRowNo then None else band_lookup bands rowNo)"

definition rowOutOfBounds :: "int \<Rightarrow> string" where
  "rowOutOfBounds r = ''rowNo '' @ show_int r @ '' is out of hardware bounds ('' @
     show_int minRowNo @ ''-'' @ show_int MACHINE_SLOT_MAX_ROW_NO @ '')''"

definition machineSlotCoordinateErrorMessage ::
    "js_number option \<Rightarrow> js_number option \<Rightarrow> string option" where
  "machineSlotCoordinateErrorMessage rowNo cellNo =
     (case rowNo of
        Some (IntNum r) \<Rightarrow>
          if r < minRowNo \<or> r > MACHINE_SLOT_MAX_ROW_NO then Some (rowOutOfBounds r)
          else (case cellNo of
             Some (IntNum c) \<Rightarrow>
               (case getMachineSlotMaxCellNo (IntNum r) of
                  None \<Rightarrow> Some (rowOutOfBounds r)
                | Some maxCell \<Rightarrow>
                    if c < 1 \<or> c > maxCell
                    then Some (''cellNo '' @ show_int c @ '' is out of hardware bounds for row '' @
                               show_int r @ '' (1-'' @ show_int maxCell @ '')'')
                    else None)
           | _ \<Rightarrow> Some ''cellNo must be an integer'')
      | _ \<Rightarrow> Some ''rowNo must be an integer'')"

definition isValidMachineSlotCoordinate :: "js_number option \<Rightarrow> js_number option \<Rightarrow> bool" where
  "isValidMachineSlotCoordinate rowNo cellNo =
     (machineSlotCoordinateErrorMessage rowNo cellNo = None)"

fun formatCoordinatePart :: "js_number option \<Rightarrow> string" where
  "formatCoordinatePart (Some (IntNum n)) = show_int n"
| "formatCoordinatePart _ = ''--''"

definition machineSlotCoordinateCode :: "js_number option \<Rightarrow> js_number option \<Rightarrow> string" where
  "machineSlotCoordinateCode rowNo cellNo =
     ''R'' @ formatCoordinatePart rowNo @ ''C'' @ formatCoordinatePart cellNo"

datatype coord_path = PathRowNo | PathCellNo

text \<open>
  The issue that \<open>superRefine\<close> records: the path of the offending property and the message.
\<close>

definition addMachineSlotCoordinateIssue ::
    "js_number option \<Rightarrow> js_number option \<Rightarrow> (coord_path \<times> string) option" where
  "addMachineSlotCoordinateIssue rowNo cellNo =
     (case machineSlotCoordinateErrorMessage rowNo cellNo of
        None \<Rightarrow> None
      | Some message \<Rightarrow>
          Some (if take 5 message = ''rowNo'' then PathRowNo else PathCellNo, message))"

text \<open>The abstract layout the rules are meant to describe: rows and the width of each.\<close>

definition slot_layout :: "(int \<times> int) set" where
  "slot_layout = {1..6} \<times> {1..5} \<union> {7..8} \<times> {1..4} \<union> {9} \<times> {1..3}"

lemma layout_constants:
  "MACHINE_SLOT_MAX_ROW_NO = 9" "MACHINE_SLOT_LOWER_MAX_CELL_NO = 5" "minRowNo = 1"
  by (simp_all add: MACHINE_SLOT_MAX_ROW_NO_def MACHINE_SLOT_LOWER_MAX_CELL_NO_def minRowNo_def
      bands_def)

lemma getMachineSlotMaxCellNo_int:
  "getMachineSlotMaxCellNo (IntNum r) =
     (if r < 1 \<or> 9 < r then None else if r \<le> 6 then Some 5 else if r \<le> 8 then Some 4
      else Some 3)"
  by (simp add: minRowNo_def bands_def)

lemma valid_coordinate_iff:
  "isValidMachineSlotCoordinate rowNo cellNo \<longleftrightarrow>
     (\<exists>r c. rowNo = Some (IntNum r) \<and> cellNo = Some (IntNum c) \<and> (r, c) \<in> slot_layout)"
proof (cases "\<exists>r c. rowNo = Some (IntNum r) \<and> cellNo = Some (IntNum c)")
  case True
  then obtain r c where "rowNo = Some (IntNum r)" "cellNo = Some (IntNum c)" by blast
  then show ?thesis
    by (simp add: isValidMachineSlotCoordinate_def machineSlotCoordinateErrorMessage_def
        getMachineSlotMaxCellNo_int layout_constants slot_layout_def del:
        getMachineSlotMaxCellNo.simps)
next
  case False
  then show ?thesis
    by (auto simp: isValidMachineSlotCoordinate_def machineSlotCoordinateErrorMessage_def
        split: option.splits js_number.splits if_splits)
qed

lemma split_at_marker:
  assumes "xs @ m # ys = xs' @ m # ys'" and "m \<notin> set xs" and "m \<notin> set xs'"
  shows "xs = xs' \<and> ys = ys'"
  using assms
proof (induction xs arbitrary: xs')
  case Nil
  then show ?case by (cases xs') auto
next
  case (Cons x xs)
  then show ?case by (cases xs') auto
qed

lemma marker_not_in_show_int: "CHR ''C'' \<notin> set (show_int i)"
proof -
  have "CHR ''C'' \<notin> set (digits n)" for n by (rule digits_no_char) simp
  then show ?thesis by (simp add: show_int_def)
qed

lemma coordinate_code_inject:
  "machineSlotCoordinateCode (Some (IntNum r)) (Some (IntNum c)) =
   machineSlotCoordinateCode (Some (IntNum r')) (Some (IntNum c')) \<longleftrightarrow> r = r' \<and> c = c'"
  by (auto simp: machineSlotCoordinateCode_def
      dest: split_at_marker [OF _ marker_not_in_show_int marker_not_in_show_int])

end
