(* ===== verification/Db_Schema.thy ===== *)
theory Db_Schema
  imports Shared_Enums
begin

text \<open>
  The database that the service modules share: the tables of
  \<open>packages/db/src/drizzle/schema/schema.ts\<close> that the sale core reads and writes, each a list of
  row records in insertion order, and the constraints PostgreSQL enforces on them.

  \<^item> A \<open>uuid\<close> primary key (\<open>defaultRandom\<close>) is a number taken from the counter \<open>db_next\<close>, so a
    new row's key is fresh. A timestamp is a number of milliseconds.
  \<^item> A query with \<open>limit 1\<close> or a destructured first row reads the first matching row; an
    \<open>orderBy createdAt\<close> reads rows in insertion order.
  \<^item> Each record keeps the columns that the modelled operations read or write, and
    \<open>updatedAt\<close> where every write sets it. A \<open>jsonb\<close> document is a record of the fields the code
    reads from it, or (\<open>metadata\<close>) a list of named values. Foreign keys are not modelled.
  \<^item> A string is the list of its UTF-16 code units, for strings whose units are below 256;
    a fixed text in another script is a constructor (\<open>text_template\<close>).
  \<^item> A transaction runs alone: the row locks of \<open>database/machine-transaction-lock.ts\<close> serialise
    it against others, so it is a function from the database to an error or a new database.
\<close>

type_synonym uuid = nat
type_synonym ms = int

datatype api_error =
  NotFoundException string
| BadRequestException string
| UnauthorizedException string
| ConflictException string
| UnprocessableEntityException string
| ConstraintViolation string  \<comment> \<open>SQLSTATE 23505 or 23514, with the constraint's name\<close>
| ZodError
| OrderBoundDispenseConfirmationFailedError string
| OtherError string

datatype json =
  JNull | JBool bool | JInt int | JStr string | JId uuid | JArr "json list"
| JObj "(string \<times> json) list"

type_synonym metadata = "(string \<times> json) list"

subsection \<open>Rows\<close>

record machine_row =
  m_id :: uuid
  m_code :: string
  m_status :: machine_status
  m_lastSeenAt :: "ms option"
  m_updatedAt :: ms
  m_deletedAt :: "ms option"

record slot_row =
  sl_id :: uuid
  sl_machineId :: uuid
  sl_rowNo :: int
  sl_cellNo :: int
  sl_capacity :: int
  sl_status :: slot_status
  sl_updatedAt :: ms
  sl_deletedAt :: "ms option"

datatype planogram_status = PgPublished | PgActive | PgRetired

record media_asset_row =
  mas_id :: uuid
  mas_purpose :: string
  mas_deletedAt :: "ms option"

record product_row =
  pd_id :: uuid
  pd_status :: product_status
  pd_displayImageMediaAssetId :: "uuid option"
  pd_deletedAt :: "ms option"

record variant_row =
  va_id :: uuid
  va_productId :: uuid
  va_priceCents :: int
  va_status :: variant_status
  va_deletedAt :: "ms option"

record planogram_version_row =
  pv_id :: uuid
  pv_machineId :: uuid
  pv_planogramVersion :: string
  pv_status :: planogram_status
  pv_publishedAt :: ms
  pv_acknowledgedAt :: "ms option"
  pv_activeAt :: "ms option"
  pv_updatedAt :: ms

text \<open>
  A stored \<open>cover_image_url\<close> is a reference to a managed media asset, or any other text. The last
  column holds those that are only copied: names, description, category, sku, size, colour.
\<close>

datatype media_reference = ManagedMedia uuid | OtherReference string

record planogram_slot_row =
  pg_id :: uuid
  pg_machinePlanogramVersionId :: uuid
  pg_slotId :: uuid
  pg_rowNo :: int
  pg_cellNo :: int
  pg_capacity :: int
  pg_parLevel :: int
  pg_inventoryId :: uuid
  pg_variantId :: uuid
  pg_productId :: uuid
  pg_coverImageUrl :: "media_reference option"
  pg_priceCents :: int
  pg_productSortOrder :: int
  pg_targetGender :: "string option"
  pg_texts :: "(string \<times> string option) list"

record inventory_row =
  inv_id :: uuid
  inv_machineId :: uuid
  inv_slotId :: uuid
  inv_variantId :: uuid
  inv_onHandQty :: int
  inv_reservedQty :: int
  inv_lowStockThreshold :: int
  inv_updatedAt :: ms

record reservation_row =
  rv_id :: uuid
  rv_orderId :: uuid
  rv_inventoryId :: uuid
  rv_orderItemId :: "uuid option"
  rv_quantity :: int
  rv_status :: reservation_status
  rv_expiresAt :: ms
  rv_updatedAt :: ms

record movement_row =
  mv_id :: uuid
  mv_inventoryId :: uuid
  mv_deltaQty :: int
  mv_reason :: movement_reason
  mv_orderId :: "uuid option"
  mv_operatorAdminUserId :: "uuid option"
  mv_note :: "string option"

record order_row =
  o_id :: uuid
  o_orderNo :: string
  o_machineId :: uuid
  o_status :: order_status
  o_paymentState :: order_payment_state
  o_fulfillmentState :: order_fulfillment_state
  o_totalAmountCents :: int
  o_paymentId :: "uuid option"
  o_dispensedAt :: "ms option"
  o_updatedAt :: ms
  o_paymentCreationIdempotencyKey :: "string option"
  o_paidAt :: "ms option"
  o_canceledAt :: "ms option"

text \<open>The fields of the \<open>product_snapshot\<close> document that SQL reads with \<open>->>\<close>.\<close>

record product_snapshot =
  ps_planogramVersion :: "string option"
  ps_slotId :: "uuid option"
  ps_inventoryId :: "uuid option"
  ps_variantId :: "uuid option"
  ps_productId :: "uuid option"
  ps_vendingCommandQuantity :: "int option"

record order_item_row =
  oi_id :: uuid
  oi_orderId :: uuid
  oi_variantId :: uuid
  oi_inventoryId :: uuid
  oi_slotId :: uuid
  oi_quantity :: int
  oi_unitPriceCents :: int
  oi_productSnapshot :: product_snapshot
  oi_fulfillmentStatus :: line_fulfillment_status
  oi_refundStatus :: line_refund_status
  oi_refundId :: "uuid option"
  oi_fulfilledAt :: "ms option"
  oi_failedAt :: "ms option"
  oi_refundUpdatedAt :: "ms option"
  oi_planogramVersion :: string

record order_status_event_row =
  ose_orderId :: uuid
  ose_fromStatus :: "order_status option"
  ose_toStatus :: order_status
  ose_reason :: string
  ose_metadata :: "metadata option"

text \<open>
  Titles and contents of notifications and work orders: fixed texts in Chinese, with what is
  interpolated, or a plain string.
\<close>

datatype text_template =
  PlainText string
| TitleSoldOut | TitleLowStock | TitleDispenseFailed | TitleHeartbeatTimeout
| TitleHeartbeatRecovered
| ContentStock uuid uuid int
| ContentHeartbeatTimeout string "ms option" int
| ContentHeartbeatRecovered string ms
| TitleWorkOrderDispenseFailed "hardware_error_code option"
| MsgCodeExpiredBeforeSubmission | MsgCodeOrderCanceled | MsgCodeManualVerification
| MsgCodeNotAdmitted | MsgCodeFailed | MsgCodeReverseUnknown

datatype provider_status = PcEnabled | PcDisabled

record payment_provider_row =
  pp_id :: uuid
  pp_code :: string
  pp_status :: provider_status

record payment_row =
  p_id :: uuid
  p_paymentNo :: string
  p_orderId :: uuid
  p_providerId :: uuid
  p_paymentProviderConfigId :: "uuid option"
  p_status :: payment_status
  p_amountCents :: int
  p_providerTradeNo :: "string option"
  p_updatedAt :: ms
  p_method :: payment_method
  p_paymentUrl :: "string option"
  p_intentLeaseExpiresAt :: "ms option"
  p_intentLeaseOwnerToken :: "string option"
  p_intentLeaseFence :: int
  p_expiresAt :: "ms option"
  p_paidAt :: "ms option"
  p_failedReason :: "string option"
  p_createdAt :: ms

record payment_event_row =
  pe_paymentId :: uuid
  pe_providerId :: uuid
  pe_eventType :: string
  pe_providerEventId :: string
  pe_signatureValid :: bool
  pe_handledAt :: "ms option"

record code_attempt_row =
  ca_id :: uuid
  ca_paymentId :: uuid
  ca_orderId :: uuid
  ca_providerId :: uuid
  ca_paymentProviderConfigId :: "uuid option"
  ca_attemptNo :: nat
  ca_providerPaymentNo :: string
  ca_idempotencyKey :: string
  ca_status :: code_attempt_status
  ca_isActive :: bool
  ca_amountCents :: int
  ca_authCodeHash :: string
  ca_authCodeMasked :: string
  ca_source :: string
  ca_providerTradeNo :: "string option"
  ca_providerStatus :: "string option"
  ca_failureCode :: "string option"
  ca_failureMessage :: "text_template option"
  ca_submittedAt :: "ms option"
  ca_lastCheckedAt :: "ms option"
  ca_reversedAt :: "ms option"
  ca_finishedAt :: "ms option"
  ca_manualReason :: "string option"
  ca_leaseExpiresAt :: "ms option"
  ca_leaseOwnerToken :: "string option"
  ca_leaseFence :: int
  ca_recoveryAttemptCount :: int
  ca_recoveryNextAt :: "ms option"
  ca_createdAt :: ms
  ca_updatedAt :: ms

datatype payment_attempt_trigger = PtScheduled | PtManual | PtExpireCompensation | PtMachineStatusPoll

record payment_attempt_row =
  pa_id :: uuid
  pa_paymentId :: uuid
  pa_providerId :: uuid
  pa_trigger :: payment_attempt_trigger
  pa_attemptNo :: nat
  pa_status :: string
  pa_providerPaymentStatus :: "payment_status option"
  pa_providerTradeNo :: "string option"
  pa_errorCode :: "string option"
  pa_errorMessage :: "string option"
  pa_nextRetryAt :: "ms option"
  pa_startedAt :: ms
  pa_finishedAt :: "ms option"

datatype recovery_action_name =
  ConfirmDispensed | ConfirmNotDispensed | RequestRefund | CompensationDispense

datatype recovery_action_status = ReStarted | ReCompleted | ReFailed

record recovery_action_row =
  ora_id :: uuid
  ora_orderId :: uuid
  ora_commandId :: uuid
  ora_action :: recovery_action_name
  ora_status :: recovery_action_status
  ora_note :: string
  ora_requestedByAdminUserId :: uuid
  ora_updatedAt :: ms

record refund_row =
  rf_id :: uuid
  rf_refundNo :: string
  rf_paymentId :: uuid
  rf_orderId :: uuid
  rf_amountCents :: int
  rf_status :: refund_status
  rf_providerRefundNo :: "string option"
  rf_reason :: string
  rf_requestedByAdminUserId :: "uuid option"
  rf_refundedAt :: "ms option"
  rf_updatedAt :: ms

record refund_event_row =
  re_refundId :: uuid
  re_paymentId :: uuid
  re_providerId :: uuid
  re_eventType :: string
  re_providerEventId :: string
  re_providerRefundNo :: "string option"
  re_status :: refund_status

datatype attempt_status =
  RaPending | RaNetworkError | RaProcessing | RaSucceeded | RaFailed | RaAlreadyTerminal
| RaMaxAttemptsExceeded

datatype attempt_trigger = Manual | Scheduled

record refund_attempt_row =
  ra_id :: uuid
  ra_refundId :: uuid
  ra_providerId :: uuid
  ra_trigger :: attempt_trigger
  ra_attemptNo :: nat
  ra_status :: attempt_status
  ra_providerRefundStatus :: "refund_status option"
  ra_providerRefundNo :: "string option"
  ra_errorCode :: "string option"
  ra_errorMessage :: "string option"
  ra_nextRetryAt :: "ms option"
  ra_startedAt :: ms
  ra_finishedAt :: "ms option"

record recovery =
  rc_originalCommandNo :: string
  rc_note :: string

record dispense_payload =
  dp_commandNo :: string
  dp_orderNo :: string
  dp_rowNo :: int
  dp_cellNo :: int
  dp_quantity :: int
  dp_timeoutSeconds :: int
  dp_recovery :: "recovery option"

datatype command_kind = Dispatch | Compensation

record command_row =
  vc_id :: uuid
  vc_commandNo :: string
  vc_orderId :: uuid
  vc_machineId :: uuid
  vc_slotId :: uuid
  vc_orderItemId :: "uuid option"
  vc_commandKind :: command_kind
  vc_recoveryActionId :: "uuid option"
  vc_payloadJson :: dispense_payload
  vc_status :: vending_command_status
  vc_sentAt :: "ms option"
  vc_ackAt :: "ms option"
  vc_resultAt :: "ms option"
  vc_retryCount :: int
  vc_lastError :: "string option"
  vc_updatedAt :: ms

text \<open>The signed result message of a machine (\<open>dispenseResultPayloadSchema\<close>).\<close>

record dispense_result =
  dr_commandNo :: string
  dr_success :: bool
  dr_errorCode :: "hardware_error_code option"
  dr_message :: string
  dr_reportedAt :: ms

datatype event_payload = EvDispenseResult dispense_result | EvHeartbeat json ms

record machine_event_row =
  me_machineId :: uuid
  me_eventType :: string
  me_payloadJson :: event_payload
  me_mqttTopic :: string
  me_messageId :: string

record heartbeat_row =
  hb_machineId :: uuid
  hb_statusPayloadJson :: json
  hb_reportedAt :: ms

text \<open>
  A \<open>dedupeKey\<close> is a prefix and identifiers joined by colons; uuids hold no colon, so the key is
  the constructor with its identifiers.
\<close>

datatype dedupe_key =
  KeyLowStock uuid uuid | KeyDispenseFailed uuid | KeyMachineOffline uuid | KeyOther string

record notification_row =
  nt_id :: uuid
  nt_type :: notification_type
  nt_title :: text_template
  nt_content :: text_template
  nt_severity :: severity
  nt_resourceType :: string
  nt_resourceId :: "uuid option"
  nt_status :: notification_status
  nt_dedupeKey :: dedupe_key
  nt_updatedAt :: ms

record work_order_row =
  wo_id :: uuid
  wo_workOrderNo :: string
  wo_machineId :: "uuid option"
  wo_slotId :: "uuid option"
  wo_orderId :: "uuid option"
  wo_commandId :: "uuid option"
  wo_title :: text_template
  wo_description :: string
  wo_priority :: work_order_priority
  wo_status :: work_order_status
  wo_assigneeAdminUserId :: "uuid option"
  wo_resolutionNote :: "string option"
  wo_dedupeKey :: dedupe_key
  wo_resolvedAt :: "ms option"
  wo_updatedAt :: ms

text \<open>\<open>error_code\<close> is unique; the key \<open>NULL_ERROR\<close> is \<open>None\<close>.\<close>

record error_config_row =
  hc_errorCode :: "hardware_error_code option"
  hc_restoreInventory :: bool
  hc_faultSlot :: bool
  hc_requestRefund :: bool
  hc_createWorkOrder :: bool
  hc_severity :: severity
  hc_status :: provider_status
  hc_updatedByAdminUserId :: "uuid option"

datatype movement_type = PlannedRefill | StockCountCorrection | DispenseSucceeded

record slot_mapping =
  sm_capacity :: int
  sm_inventoryId :: "uuid option"
  sm_variantId :: "uuid option"

record order_context =
  oc_orderNo :: string
  oc_orderItemId :: uuid
  oc_vendingCommandNo :: string
  oc_inventoryId :: uuid

text \<open>
  \<open>rawMachineStockMovementSchema\<close>; \<open>occurredAt\<close>, an ISO date, is the instant it denotes.
\<close>

record raw_movement =
  rm_machineCode :: "string option"
  rm_movementId :: string
  rm_planogramVersion :: string
  rm_slotId :: uuid
  rm_movementType :: movement_type
  rm_quantity :: int
  rm_beforeQuantity :: "int option"
  rm_afterQuantity :: "int option"
  rm_slotMappingSnapshot :: "slot_mapping option"
  rm_source :: string
  rm_attributedTo :: "string option"
  rm_orderContext :: "order_context option"
  rm_occurredAt :: ms

datatype raw_status = RwAccepted | RwRejected | RwReconciliation

datatype review_status = RvOpen | RvResolved

datatype blocker_state =
  NeedsCount | BlockedForPlanogramChange | MovementRejected | NeedsPlatformReview

datatype recon_reason =
  RrUnknownSlot | RrUnknownPlanogramVersion | RrInactivePlanogramVersion | RrMappingMismatch
| RrLocalMaintenance | RrWeakAttribution | RrAbnormalVariance | RrMovementIdPayloadConflict
| RrOrderContextMissing | RrOrderContextMismatch

record raw_movement_row =
  rw_id :: uuid
  rw_machineId :: uuid
  rw_movementId :: string
  rw_payloadHash :: string
  rw_payloadJson :: raw_movement
  rw_normalizedJson :: metadata
  rw_receivedAt :: ms
  rw_status :: raw_status
  rw_reconciliationReason :: "recon_reason option"
  rw_platformReviewStatus :: "review_status option"
  rw_saleSafetyBlockerState :: "blocker_state option"
  rw_saleSafetyBlockerSlotId :: "uuid option"

record raw_conflict_row =
  cf_id :: uuid
  cf_rawMovementId :: uuid
  cf_machineId :: uuid
  cf_movementId :: string
  cf_payloadHash :: string
  cf_payloadJson :: raw_movement
  cf_normalizedJson :: metadata
  cf_receivedAt :: ms
  cf_reconciliationReason :: recon_reason
  cf_platformReviewStatus :: review_status
  cf_saleSafetyBlockerState :: "blocker_state option"
  cf_saleSafetyBlockerSlotId :: "uuid option"

subsection \<open>The database\<close>

record db =
  db_next :: nat
  db_machines :: "machine_row list"
  db_slots :: "slot_row list"
  db_planogramVersions :: "planogram_version_row list"
  db_planogramSlots :: "planogram_slot_row list"
  db_inventories :: "inventory_row list"
  db_reservations :: "reservation_row list"
  db_movements :: "movement_row list"
  db_orders :: "order_row list"
  db_orderItems :: "order_item_row list"
  db_orderStatusEvents :: "order_status_event_row list"
  db_providers :: "payment_provider_row list"
  db_payments :: "payment_row list"
  db_refunds :: "refund_row list"
  db_refundEvents :: "refund_event_row list"
  db_refundAttempts :: "refund_attempt_row list"
  db_commands :: "command_row list"
  db_machineEvents :: "machine_event_row list"
  db_heartbeats :: "heartbeat_row list"
  db_rawMovements :: "raw_movement_row list"
  db_rawConflicts :: "raw_conflict_row list"
  db_notifications :: "notification_row list"
  db_workOrders :: "work_order_row list"
  db_errorConfigs :: "error_config_row list"
  db_products :: "product_row list"
  db_variants :: "variant_row list"
  db_mediaAssets :: "media_asset_row list"
  db_paymentEvents :: "payment_event_row list"
  db_codeAttempts :: "code_attempt_row list"
  db_paymentAttempts :: "payment_attempt_row list"
  db_recoveryActions :: "recovery_action_row list"

definition empty_db :: db where
  "empty_db = \<lparr>db_next = 0, db_machines = [], db_slots = [], db_planogramVersions = [],
     db_planogramSlots = [], db_inventories = [], db_reservations = [], db_movements = [],
     db_orders = [], db_orderItems = [], db_orderStatusEvents = [], db_providers = [],
     db_payments = [], db_refunds = [], db_refundEvents = [], db_refundAttempts = [], db_commands = [],
     db_machineEvents = [], db_heartbeats = [], db_rawMovements = [], db_rawConflicts = [],
     db_notifications = [], db_workOrders = [], db_errorConfigs = [],
     db_products = [], db_variants = [], db_mediaAssets = [], db_paymentEvents = [], db_codeAttempts = [],
     db_paymentAttempts = [], db_recoveryActions = []\<rparr>"

text \<open>
  What the code takes from its surroundings in one call: the clock, \<open>Date.toISOString\<close>,
  \<open>randomUUID\<close> (the n-th identifier drawn) and \<open>sha256\<close> of \<open>node:crypto\<close>, and the payment
  providers that \<open>PaymentProviderRegistry\<close> knows (\<open>None\<close>: \<open>get\<close> throws and \<open>has\<close> is false). A
  provider is a remote service: what it answers to a request, \<open>Inl\<close> the message of what it
  throws (a deadline that passes is such an error). Its \<open>queryRefund\<close> is optional, an absent
  \<open>supportsPartialRefund\<close> is False. The merchant configuration passed along and the raw payload
  passed back are not modelled.
\<close>

record refund_request =
  rq_refundNo :: string
  rq_paymentNo :: string
  rq_providerTradeNo :: "string option"
  rq_amountCents :: int
  rq_totalAmountCents :: int
  rq_reason :: string

record refund_query =
  rq2_refundNo :: string
  rq2_paymentNo :: string
  rq2_providerRefundNo :: "string option"
  rq2_providerTradeNo :: "string option"
  rq2_amountCents :: int

datatype answer_status = AnsProcessing | AnsSucceeded | AnsFailed | AnsCanceled

record refund_answer =
  an_status :: answer_status
  an_providerRefundNo :: "string option"
  an_refundedAt :: "ms option"

record payment_intent_input =
  pi_paymentNo :: string
  pi_orderNo :: string
  pi_amountCents :: int
  pi_expiresAt :: ms

datatype intent_status = IntentPending | IntentProcessing

record payment_intent_result =
  ir_providerTradeNo :: "string option"
  ir_paymentUrl :: string
  ir_initialStatus :: "intent_status option"

record payment_query_input =
  pq_paymentNo :: string
  pq_providerTradeNo :: "string option"
  pq_amountCents :: int

datatype reconciliation_state = ProviderTradeNotExist | WaitBuyerPay

datatype query_status = QPending | QProcessing | QSucceeded | QFailed | QExpired | QCanceled

record payment_query_result =
  pqr_status :: query_status
  pqr_providerTradeNo :: "string option"
  pqr_paidAt :: "ms option"
  pqr_failedReason :: "string option"
  pqr_reconciliationState :: "reconciliation_state option"

record cancel_input =
  cn_paymentNo :: string
  cn_providerTradeNo :: "string option"

datatype cancel_status = CancelCanceled | CancelExpired

text \<open>\<open>PaymentProviderRequestNotSentError\<close>, or any other error, with its message.\<close>

datatype provider_error = RequestNotSent string | ProviderThrew string

fun provider_message :: "provider_error \<Rightarrow> string" where
  "provider_message (RequestNotSent m) = m"
| "provider_message (ProviderThrew m) = m"

datatype code_status = CsSucceeded | CsUserConfirming | CsProcessing | CsFailed | CsReversed | CsUnknown

record charge_input =
  ch_paymentNo :: string
  ch_orderNo :: string
  ch_amountCents :: int
  ch_authCode :: string

record code_result =
  cd_status :: code_status
  cd_providerTradeNo :: "string option"
  cd_paidAt :: "ms option"
  cd_providerStatus :: "string option"
  cd_failureCode :: "string option"
  cd_failureMessage :: "string option"

datatype reverse_status = RevReversed | RevProcessing | RevFailed | RevUnknown

record reverse_result =
  rr_status :: reverse_status
  rr_providerStatus :: "string option"
  rr_failureCode :: "string option"
  rr_failureMessage :: "string option"

record code_provider =
  cp_charge :: "charge_input \<Rightarrow> string + code_result"
  cp_query :: "cancel_input \<Rightarrow> string + code_result"
  cp_reverse :: "cancel_input \<Rightarrow> string + reverse_result"

record payment_provider =
  rp_supportsPartialRefund :: bool
  rp_refundPayment :: "refund_request \<Rightarrow> string + refund_answer"
  rp_queryRefund :: "(refund_query \<Rightarrow> string + refund_answer) option"
  rp_createPaymentIntent :: "payment_intent_input \<Rightarrow> provider_error + payment_intent_result"
  rp_queryPayment :: "payment_query_input \<Rightarrow> string + payment_query_result"
  rp_cancelPayment :: "cancel_input \<Rightarrow> provider_error + cancel_status"
  rp_paymentCode :: "code_provider option"

text \<open>
  The merchant configurations, as the config service answers them: whether a channel is available
  to a machine (\<open>Some\<close>: it throws), the configuration for a new payment and that bound to an
  existing one, and the public configuration stored for a provider and a machine.
\<close>

record runtime_config =
  cfg_id :: "uuid option"
  cfg_providerCode :: string
  cfg_merchantNo :: "string option"
  cfg_appId :: "string option"
  cfg_publicConfigJson :: metadata

record config_service =
  cs_unavailable :: "string \<Rightarrow> payment_method \<Rightarrow> uuid \<Rightarrow> api_error option"
  cs_resolveForPayment :: "string \<Rightarrow> uuid \<Rightarrow> api_error + runtime_config"
  cs_resolveForExisting :: "string \<Rightarrow> uuid option \<Rightarrow> api_error + runtime_config"
  cs_publicConfig :: "uuid \<Rightarrow> uuid \<Rightarrow> metadata option"

record env =
  e_now :: ms
  e_toISOString :: "ms \<Rightarrow> string"
  e_randomUUID :: "nat \<Rightarrow> string"
  e_sha256 :: "metadata \<Rightarrow> string"
  e_sha256Hex :: "string \<Rightarrow> string"
  e_registry :: "string \<Rightarrow> payment_provider option"
  e_configs :: config_service
  e_paymentMockEnabled :: bool

subsection \<open>Constraints enforced on write\<close>

definition INT4_MAX :: int where
  "INT4_MAX = 2147483647"

text \<open>The check constraints of \<open>inventories\<close>; \<open>integer\<close> columns hold 32 bits.\<close>

definition inventory_checks :: "inventory_row \<Rightarrow> bool" where
  "inventory_checks r \<longleftrightarrow> 0 \<le> inv_onHandQty r \<and> 0 \<le> inv_reservedQty r \<and>
     0 \<le> inv_lowStockThreshold r \<and> inv_reservedQty r \<le> inv_onHandQty r \<and>
     inv_onHandQty r \<le> INT4_MAX"

text \<open>\<open>update inventories set f where p\<close>: the rows it updates must satisfy the checks.\<close>

definition update_inventories ::
    "(inventory_row \<Rightarrow> bool) \<Rightarrow> (inventory_row \<Rightarrow> inventory_row) \<Rightarrow> db \<Rightarrow> api_error + nat \<times> db" where
  "update_inventories p f db =
     (if list_all (\<lambda>r. p r \<longrightarrow> inventory_checks (f r)) (db_inventories db)
      then Inr (count_where p (db_inventories db),
                db\<lparr>db_inventories := upd_where p f (db_inventories db)\<rparr>)
      else Inl (ConstraintViolation ''inventories''))"

text \<open>\<open>inventory_reservations_quantity_positive\<close>\<close>

definition insert_reservation :: "reservation_row \<Rightarrow> db \<Rightarrow> api_error + db" where
  "insert_reservation r db =
     (if 0 < rv_quantity r then Inr (db\<lparr>db_reservations := db_reservations db @ [r]\<rparr>)
      else Inl (ConstraintViolation ''inventory_reservations_quantity_positive''))"

text \<open>
  \<open>vending_commands\<close>: unique command number, one dispatch per order and slot, one command per
  recovery action.
\<close>

definition command_conflict :: "command_row \<Rightarrow> command_row \<Rightarrow> bool" where
  "command_conflict a b \<longleftrightarrow> vc_commandNo a = vc_commandNo b \<or>
     (vc_commandKind a = Dispatch \<and> vc_commandKind b = Dispatch \<and>
      vc_orderId a = vc_orderId b \<and> vc_slotId a = vc_slotId b) \<or>
     (vc_recoveryActionId a \<noteq> None \<and> vc_recoveryActionId a = vc_recoveryActionId b)"

text \<open>
  \<open>refunds\<close>: unique refund number, and one created, processing or succeeded refund per order
  and reason.
\<close>

definition refund_active :: "refund_row \<Rightarrow> bool" where
  "refund_active r \<longleftrightarrow> rf_status r \<in> {RfCreated, RfProcessing, RfSucceeded}"

definition refund_conflict :: "refund_row \<Rightarrow> refund_row \<Rightarrow> bool" where
  "refund_conflict a b \<longleftrightarrow> rf_refundNo a = rf_refundNo b \<or>
     (refund_active a \<and> refund_active b \<and> rf_orderId a = rf_orderId b \<and>
      rf_reason a = rf_reason b)"

text \<open>\<open>onConflictDoNothing\<close>: the row goes in unless it conflicts with a stored one.\<close>

definition insert_or_ignore :: "('r \<Rightarrow> 'r \<Rightarrow> bool) \<Rightarrow> 'r \<Rightarrow> 'r list \<Rightarrow> 'r option \<times> 'r list" where
  "insert_or_ignore conflict r rows =
     (if list_ex (conflict r) rows then (None, rows) else (Some r, rows @ [r]))"

text \<open>\<open>machine_events_machine_message_unique\<close> and \<open>refund_events_provider_event_unique\<close>\<close>

definition event_conflict :: "machine_event_row \<Rightarrow> machine_event_row \<Rightarrow> bool" where
  "event_conflict a b \<longleftrightarrow> me_machineId a = me_machineId b \<and> me_messageId a = me_messageId b"

definition refund_event_conflict :: "refund_event_row \<Rightarrow> refund_event_row \<Rightarrow> bool" where
  "refund_event_conflict a b \<longleftrightarrow> re_providerId a = re_providerId b \<and>
     re_providerEventId a = re_providerEventId b"

text \<open>An update of \<open>refunds\<close> may not leave two conflicting rows.\<close>

fun no_conflict :: "('r \<Rightarrow> 'r \<Rightarrow> bool) \<Rightarrow> 'r list \<Rightarrow> bool" where
  "no_conflict c [] = True"
| "no_conflict c (r # rs) = (\<not> list_ex (c r) rs \<and> no_conflict c rs)"

definition update_refunds ::
    "(refund_row \<Rightarrow> bool) \<Rightarrow> (refund_row \<Rightarrow> refund_row) \<Rightarrow> db \<Rightarrow> api_error + nat \<times> db" where
  "update_refunds p f db =
     (let rows = upd_where p f (db_refunds db) in
      if no_conflict refund_conflict rows
      then Inr (count_where p (db_refunds db), db\<lparr>db_refunds := rows\<rparr>)
      else Inl (ConstraintViolation ''refunds_order_reason_active_unique''))"

text \<open>Every insert that is ignored on conflict keeps a table free of conflicts.\<close>

lemma no_conflict_append:
  "no_conflict c (xs @ [r]) \<longleftrightarrow> no_conflict c xs \<and> \<not> list_ex (\<lambda>x. c x r) xs"
  by (induction xs) auto

lemma insert_or_ignore_no_conflict:
  assumes "no_conflict c rows" and "\<And>a b. c a b = c b a"
  shows "no_conflict c (snd (insert_or_ignore c r rows))"
proof (cases "list_ex (c r) rows")
  case True
  with assms(1) show ?thesis by (simp add: insert_or_ignore_def)
next
  case False
  then have "\<not> list_ex (\<lambda>x. c x r) rows" using assms(2) [of _ r] by (simp add: list_ex_iff)
  with False assms(1) show ?thesis by (simp add: insert_or_ignore_def no_conflict_append)
qed

lemma insert_or_ignore_again:
  assumes "\<And>a b. c a b = c b a" and "c r r"
  shows "insert_or_ignore c r (snd (insert_or_ignore c r rows)) =
         (None, snd (insert_or_ignore c r rows))"
  using assms by (auto simp: insert_or_ignore_def)

lemma event_conflict_sym: "event_conflict a b = event_conflict b a"
  by (auto simp: event_conflict_def)

lemma event_conflict_refl [simp]: "event_conflict a a"
  by (simp add: event_conflict_def)

lemma refund_conflict_sym: "refund_conflict a b = refund_conflict b a"
  by (auto simp: refund_conflict_def)

lemma update_inventories_InrD:
  "update_inventories p f db = Inr (n, db') \<Longrightarrow>
     n = count_where p (db_inventories db) \<and>
     db' = db\<lparr>db_inventories := upd_where p f (db_inventories db)\<rparr> \<and>
     (\<forall>r\<in>set (db_inventories db). p r \<longrightarrow> inventory_checks (f r))"
  by (auto simp: update_inventories_def list_all_iff split: if_splits)

subsection \<open>Lookups and updates by key\<close>

definition find_order :: "uuid \<Rightarrow> db \<Rightarrow> order_row option" where
  "find_order i db = List.find (\<lambda>r. o_id r = i) (db_orders db)"

definition find_payment :: "uuid \<Rightarrow> db \<Rightarrow> payment_row option" where
  "find_payment i db = List.find (\<lambda>r. p_id r = i) (db_payments db)"

definition find_provider :: "uuid \<Rightarrow> db \<Rightarrow> payment_provider_row option" where
  "find_provider i db = List.find (\<lambda>r. pp_id r = i) (db_providers db)"

definition find_machine :: "uuid \<Rightarrow> db \<Rightarrow> machine_row option" where
  "find_machine i db = List.find (\<lambda>r. m_id r = i) (db_machines db)"

definition upd_orders :: "(order_row \<Rightarrow> bool) \<Rightarrow> (order_row \<Rightarrow> order_row) \<Rightarrow> db \<Rightarrow> db" where
  "upd_orders p f db = db\<lparr>db_orders := upd_where p f (db_orders db)\<rparr>"

definition upd_items :: "(order_item_row \<Rightarrow> bool) \<Rightarrow> (order_item_row \<Rightarrow> order_item_row) \<Rightarrow> db \<Rightarrow> db"
  where
  "upd_items p f db = db\<lparr>db_orderItems := upd_where p f (db_orderItems db)\<rparr>"

definition upd_payments :: "(payment_row \<Rightarrow> bool) \<Rightarrow> (payment_row \<Rightarrow> payment_row) \<Rightarrow> db \<Rightarrow> db" where
  "upd_payments p f db = db\<lparr>db_payments := upd_where p f (db_payments db)\<rparr>"

definition log_status ::
    "uuid \<Rightarrow> order_status option \<Rightarrow> order_status \<Rightarrow> string \<Rightarrow> metadata option \<Rightarrow> db \<Rightarrow> db" where
  "log_status orderId fromStatus toStatus reason meta db = db
     \<lparr>db_orderStatusEvents := db_orderStatusEvents db @
        [\<lparr>ose_orderId = orderId, ose_fromStatus = fromStatus, ose_toStatus = toStatus,
          ose_reason = reason, ose_metadata = meta\<rparr>]\<rparr>"

lemmas upd_defs = upd_orders_def upd_items_def upd_payments_def log_status_def

end
