(* ===== verification/Order_Projection.thy ===== *)
theory Order_Projection
  imports Db_Schema
begin

text \<open>
  What the service modules share: \<open>projectOrderStatus\<close> (\<open>orders/order-state-projection.ts\<close>),
  business numbers (\<open>common/business-no.util.ts\<close>) and the row locks
  (\<open>database/machine-transaction-lock.ts\<close>). A lock is the check that the rows exist.
\<close>

subsection \<open>Order status\<close>

definition projectOrderStatus ::
    "order_payment_state \<Rightarrow> order_fulfillment_state \<Rightarrow> order_status" where
  "projectOrderStatus paymentState fulfillmentState =
     (if paymentState = PsPaymentUnknown then OsManualHandling
      else if paymentState = PsPaymentExpired then OsPaymentExpired
      else if paymentState = PsPaymentFailed \<or> paymentState = PsCanceled then OsCanceled
      else if paymentState = PsRefundPending \<or> paymentState = PsPartialRefundPending
        then OsRefundPending
      else if paymentState = PsManualHandling then OsManualHandling
      else if paymentState = PsRefunded \<or> paymentState = PsPartialRefunded then OsRefunded
      else if fulfillmentState = FsManualHandling then OsManualHandling
      else if fulfillmentState = FsDispenseFailed \<or> fulfillmentState = FsPartialDispensed
        then OsDispenseFailed
      else if fulfillmentState = FsDispensed then OsFulfilled
      else if fulfillmentState = FsDispensing then OsDispensing
      else if paymentState = PsPaid then OsPaid
      else OsPendingPayment)"

text \<open>The payment states in which the projection lets the fulfilment state through.\<close>

definition payment_open :: "order_payment_state \<Rightarrow> bool" where
  "payment_open p \<longleftrightarrow> p \<in> {PsAwaitingPayment, PsPaid}"

lemma project_payment_decides:
  "\<not> payment_open p \<Longrightarrow> projectOrderStatus p f = projectOrderStatus p f'"
  by (cases p) (simp_all add: projectOrderStatus_def payment_open_def)

lemma project_fulfilled_iff:
  "projectOrderStatus p f = OsFulfilled \<longleftrightarrow> payment_open p \<and> f = FsDispensed"
  by (cases p; cases f) (simp_all add: projectOrderStatus_def payment_open_def)

lemma project_never_closed: "projectOrderStatus p f \<noteq> OsClosed"
  by (simp add: projectOrderStatus_def)

subsection \<open>Business numbers\<close>

datatype business_no_prefix = ORD | PAY | PCA | CMD | MCMD | DCOM | RFD

fun prefix_string :: "business_no_prefix \<Rightarrow> string" where
  "prefix_string ORD = ''ORD''"
| "prefix_string PAY = ''PAY''"
| "prefix_string PCA = ''PCA''"
| "prefix_string CMD = ''CMD''"
| "prefix_string MCMD = ''MCMD''"
| "prefix_string DCOM = ''DCOM''"
| "prefix_string RFD = ''RFD''"

definition upper_char :: "char \<Rightarrow> char" where
  "upper_char c = (let n = of_char c :: nat in
     if 97 \<le> n \<and> n \<le> 122 then char_of (n - 32) else c)"

text \<open>
  \<open>drawn\<close> counts the identifiers drawn so far: it selects the \<open>randomUUID\<close> of this call.
\<close>

definition createBusinessNo :: "env \<Rightarrow> nat \<Rightarrow> business_no_prefix \<Rightarrow> string" where
  "createBusinessNo e drawn pre =
     (let timestamp = take 14 (filter (\<lambda>c. c \<notin> set ''-:.TZ'') (e_toISOString e (e_now e)));
          suffix = map upper_char
                     (take 8 (filter (\<lambda>c. c \<noteq> CHR ''-'') (e_randomUUID e drawn)))
      in prefix_string pre @ timestamp @ suffix)"

subsection \<open>Row locks\<close>

definition lockMachineForVendingMutation :: "uuid \<Rightarrow> db \<Rightarrow> api_error + unit" where
  "lockMachineForVendingMutation machineId db =
     (if count_where (\<lambda>m. m_id m = machineId) (db_machines db) \<noteq> 1
      then Inl (NotFoundException ''Machine not found'') else Inr ())"

definition lockOrderForVendingMutation :: "uuid \<Rightarrow> db \<Rightarrow> api_error + unit" where
  "lockOrderForVendingMutation orderId db =
     (if count_where (\<lambda>r. o_id r = orderId) (db_orders db) \<noteq> 1
      then Inl (NotFoundException ''Order not found'') else Inr ())"

definition lockInventoriesForVendingMutation :: "uuid list \<Rightarrow> db \<Rightarrow> api_error + unit" where
  "lockInventoriesForVendingMutation inventoryIds db =
     (let ids = remdups inventoryIds in
      if ids = [] then Inr ()
      else if count_where (\<lambda>r. inv_id r \<in> set ids) (db_inventories db) \<noteq> length ids
        then Inl (NotFoundException ''Inventory not found'')
      else Inr ())"

lemmas lock_defs = lockMachineForVendingMutation_def lockOrderForVendingMutation_def
  lockInventoriesForVendingMutation_def

subsection \<open>The stored status is the projection\<close>

definition order_projected :: "order_row \<Rightarrow> bool" where
  "order_projected x \<longleftrightarrow> o_status x = projectOrderStatus (o_paymentState x) (o_fulfillmentState x)"

definition orders_projected :: "db \<Rightarrow> bool" where
  "orders_projected db \<longleftrightarrow> list_all order_projected (db_orders db)"

lemma orders_projected_frame:
  "orders_projected db \<Longrightarrow> db_orders db' = db_orders db \<Longrightarrow> orders_projected db'"
  by (simp add: orders_projected_def)

lemma orders_projected_upd:
  assumes "orders_projected db" and "\<And>x. x \<in> set (db_orders db) \<Longrightarrow> p x \<Longrightarrow> order_projected (f x)"
  shows "orders_projected (upd_orders p f db)"
  using assms by (auto simp: orders_projected_def upd_orders_def list_all_iff set_upd_where)

lemma orders_projected_other [simp]:
  "orders_projected (upd_items p f db) = orders_projected db"
  "orders_projected (upd_payments q g db) = orders_projected db"
  "orders_projected (log_status ord fr tos why meta db) = orders_projected db"
  by (simp_all add: orders_projected_def upd_defs)

end
