(* ===== verification/Notifications.thy ===== *)
theory Notifications
  imports Order_Projection
begin

text \<open>
  \<open>notifications/notifications.service.ts\<close> and
  \<open>maintenance-work-orders/maintenance-work-orders.service.ts\<close>: writes that run inside the
  caller's transaction. Notifications are unique by \<open>dedupeKey\<close>; work orders are unique by
  \<open>dedupeKey\<close> and by \<open>workOrderNo\<close>, and only the first conflict is ignored. The paged
  listings (\<open>list\<close>) return rows, before their response mappers.
\<close>

subsection \<open>Notifications\<close>

definition insert_notification :: "notification_row \<Rightarrow> db \<Rightarrow> db" where
  "insert_notification n db = db
     \<lparr>db_notifications := snd (insert_or_ignore
        (\<lambda>a b. nt_dedupeKey a = nt_dedupeKey b) n (db_notifications db)),
      db_next := db_next db + 1\<rparr>"

definition createLowStockNotification :: "env \<Rightarrow> uuid \<Rightarrow> uuid \<Rightarrow> int \<Rightarrow> db \<Rightarrow> db" where
  "createLowStockNotification e machineId slotId availableQty db = insert_notification
     \<lparr>nt_id = db_next db,
      nt_type = (if availableQty = 0 then NtSoldOut else NtLowStock),
      nt_title = (if availableQty = 0 then TitleSoldOut else TitleLowStock),
      nt_content = ContentStock machineId slotId availableQty,
      nt_severity = (if availableQty = 0 then SevCritical else SevWarning),
      nt_resourceType = ''machine_slot'', nt_resourceId = Some slotId, nt_status = NsUnread,
      nt_dedupeKey = KeyLowStock machineId slotId, nt_updatedAt = e_now e\<rparr> db"

definition createDispenseFailedNotification ::
    "env \<Rightarrow> uuid \<Rightarrow> uuid \<Rightarrow> string \<Rightarrow> db \<Rightarrow> db" where
  "createDispenseFailedNotification e orderId commandId message db = insert_notification
     \<lparr>nt_id = db_next db, nt_type = NtDispenseFailed, nt_title = TitleDispenseFailed,
      nt_content = PlainText message, nt_severity = SevCritical,
      nt_resourceType = ''order'', nt_resourceId = Some orderId, nt_status = NsUnread,
      nt_dedupeKey = KeyDispenseFailed commandId, nt_updatedAt = e_now e\<rparr> db"

definition createMachineOfflineNotification ::
    "uuid \<Rightarrow> string \<Rightarrow> ms option \<Rightarrow> int \<Rightarrow> ms \<Rightarrow> db \<Rightarrow> db" where
  "createMachineOfflineNotification machineId machineCode lastSeenAt timeoutSeconds detectedAt db =
     (let content = ContentHeartbeatTimeout machineCode lastSeenAt timeoutSeconds;
          key = KeyMachineOffline machineId in
      if list_ex (\<lambda>n. nt_dedupeKey n = key) (db_notifications db)
      then db\<lparr>db_notifications := upd_where (\<lambda>n. nt_dedupeKey n = key)
             (\<lambda>n. n\<lparr>nt_title := TitleHeartbeatTimeout, nt_content := content,
                    nt_severity := SevCritical, nt_status := NsUnread,
                    nt_updatedAt := detectedAt\<rparr>) (db_notifications db)\<rparr>
      else insert_notification
        \<lparr>nt_id = db_next db, nt_type = NtMachineOffline, nt_title = TitleHeartbeatTimeout,
         nt_content = content, nt_severity = SevCritical, nt_resourceType = ''machine'',
         nt_resourceId = Some machineId, nt_status = NsUnread, nt_dedupeKey = key,
         nt_updatedAt = detectedAt\<rparr> db)"

definition resolveMachineOfflineNotification ::
    "uuid \<Rightarrow> string \<Rightarrow> ms \<Rightarrow> ms \<Rightarrow> db \<Rightarrow> db" where
  "resolveMachineOfflineNotification machineId machineCode recoveredAt lastSeenAt db = db
     \<lparr>db_notifications := upd_where
        (\<lambda>n. nt_type n = NtMachineOffline \<and> nt_dedupeKey n = KeyMachineOffline machineId)
        (\<lambda>n. n\<lparr>nt_title := TitleHeartbeatRecovered,
               nt_content := ContentHeartbeatRecovered machineCode lastSeenAt,
               nt_severity := SevInfo, nt_status := NsArchived, nt_updatedAt := recoveredAt\<rparr>)
        (db_notifications db)\<rparr>"

definition createOperationalNotification ::
    "env \<Rightarrow> notification_type \<Rightarrow> string \<Rightarrow> string \<Rightarrow> severity \<Rightarrow> string \<Rightarrow> uuid option \<Rightarrow>
     string \<Rightarrow> db \<Rightarrow> db" where
  "createOperationalNotification e ntype title content sev resourceType resourceId key db =
     insert_notification
     \<lparr>nt_id = db_next db, nt_type = ntype, nt_title = PlainText title,
      nt_content = PlainText content, nt_severity = sev, nt_resourceType = resourceType,
      nt_resourceId = resourceId, nt_status = NsUnread, nt_dedupeKey = KeyOther key,
      nt_updatedAt = e_now e\<rparr> db"

definition markRead :: "env \<Rightarrow> uuid \<Rightarrow> db \<Rightarrow> api_error + uuid \<times> db" where
  "markRead e notificationId db =
     (if list_ex (\<lambda>n. nt_id n = notificationId) (db_notifications db)
      then Inr (notificationId, db\<lparr>db_notifications := upd_where (\<lambda>n. nt_id n = notificationId)
             (\<lambda>n. n\<lparr>nt_status := NsRead, nt_updatedAt := e_now e\<rparr>) (db_notifications db)\<rparr>)
      else Inl (NotFoundException ''Notification not found''))"

subsection \<open>Maintenance work orders\<close>

text \<open>\<open>WO${Date.now()}\<close>: the number is the clock, so it is not fresh within a millisecond.\<close>

definition createWorkOrder ::
    "env \<Rightarrow> uuid option \<Rightarrow> uuid option \<Rightarrow> uuid option \<Rightarrow> uuid option \<Rightarrow> text_template \<Rightarrow> string \<Rightarrow>
     work_order_priority option \<Rightarrow> dedupe_key \<Rightarrow> db \<Rightarrow> api_error + db" where
  "createWorkOrder e machineId slotId orderId commandId title description priority key db =
     (let no = ''WO'' @ show_int (e_now e) in
      if list_ex (\<lambda>w. wo_dedupeKey w = key) (db_workOrders db) then Inr db
      else if list_ex (\<lambda>w. wo_workOrderNo w = no) (db_workOrders db)
        then Inl (ConstraintViolation ''maintenance_work_orders_no_unique'')
      else Inr (db\<lparr>db_workOrders := db_workOrders db @
             [\<lparr>wo_id = db_next db, wo_workOrderNo = no, wo_machineId = machineId,
               wo_slotId = slotId, wo_orderId = orderId, wo_commandId = commandId,
               wo_title = title, wo_description = description,
               wo_priority = (case priority of None \<Rightarrow> WpMedium | Some p \<Rightarrow> p),
               wo_status = WoOpen, wo_assigneeAdminUserId = None, wo_resolutionNote = None,
               wo_dedupeKey = key, wo_resolvedAt = None, wo_updatedAt = e_now e\<rparr>],
             db_next := db_next db + 1\<rparr>))"

text \<open>\<open>String.prototype.trim\<close> on the code units below 256.\<close>

definition js_space :: "char \<Rightarrow> bool" where
  "js_space c = (let n = of_char c :: nat in (9 \<le> n \<and> n \<le> 13) \<or> n = 32 \<or> n = 160)"

definition js_trim :: "string \<Rightarrow> string" where
  "js_trim s = rev (dropWhile js_space (rev (dropWhile js_space s)))"

definition resolve :: "env \<Rightarrow> uuid \<Rightarrow> uuid \<Rightarrow> string \<Rightarrow> db \<Rightarrow> api_error + work_order_row option \<times> db"
  where
  "resolve e workOrderId adminUserId resolutionNote db =
     (let open_order = (\<lambda>w. wo_id w = workOrderId \<and> wo_status w \<in> {WoOpen, WoInProgress});
          patch = (\<lambda>w. w\<lparr>wo_status := WoResolved, wo_assigneeAdminUserId := Some adminUserId,
                     wo_resolutionNote := Some (js_trim resolutionNote),
                     wo_resolvedAt := Some (e_now e), wo_updatedAt := e_now e\<rparr>) in
      if list_ex open_order (db_workOrders db)
      then Inr (map_option patch (List.find open_order (db_workOrders db)),
                db\<lparr>db_workOrders := upd_where open_order patch (db_workOrders db)\<rparr>)
      else Inl (NotFoundException ''Work order not found or already resolved''))"

subsection \<open>Paged listings\<close>

text \<open>\<open>common/pagination.util.ts\<close>: page numbers start at 1 (the query schema asks for that).\<close>

record 'r page_result =
  pr_items :: "'r list"
  pr_page :: nat
  pr_pageSize :: nat
  pr_total :: nat

definition getOffset :: "nat \<Rightarrow> nat \<Rightarrow> nat" where
  "getOffset page pageSize = (page - 1) * pageSize"

definition toPageResult :: "'r list \<Rightarrow> nat \<Rightarrow> nat \<Rightarrow> nat \<Rightarrow> 'r page_result" where
  "toPageResult items page pageSize totalRows =
     \<lparr>pr_items = items, pr_page = page, pr_pageSize = pageSize, pr_total = totalRows\<rparr>"

text \<open>\<open>where p order by created_at desc limit pageSize offset \<dots>\<close>\<close>

definition paged_query :: "('r \<Rightarrow> bool) \<Rightarrow> nat \<Rightarrow> nat \<Rightarrow> 'r list \<Rightarrow> 'r page_result" where
  "paged_query p page pageSize rows =
     toPageResult (take pageSize (drop (getOffset page pageSize) (rev (filter p rows))))
       page pageSize (count_where p rows)"

definition list_notifications ::
    "notification_status option \<Rightarrow> nat \<Rightarrow> nat \<Rightarrow> db \<Rightarrow> notification_row page_result" where
  "list_notifications status page pageSize db =
     paged_query (\<lambda>n. case status of None \<Rightarrow> True | Some s \<Rightarrow> nt_status n = s) page pageSize
       (db_notifications db)"

definition list_work_orders ::
    "work_order_status option \<Rightarrow> nat \<Rightarrow> nat \<Rightarrow> db \<Rightarrow> work_order_row page_result" where
  "list_work_orders status page pageSize db =
     paged_query (\<lambda>w. case status of None \<Rightarrow> True | Some s \<Rightarrow> wo_status w = s) page pageSize
       (db_workOrders db)"

text \<open>The pages of a listing, in order, are the listing.\<close>

lemma pages_partition:
  "concat (map (\<lambda>k. take n (drop (k * n) xs)) [0..<m]) = take (m * n) xs"
proof (induction m)
  case 0
  then show ?case by simp
next
  case (Suc m)
  have "take (m * n) xs @ take n (drop (m * n) xs) = take (m * n + n) xs"
    by (simp add: take_add)
  with Suc show ?case by (simp add: add.commute)
qed

lemma paged_query_pages:
  assumes "count_where p rows \<le> m * n"
  shows "concat (map (\<lambda>page. pr_items (paged_query p page n rows)) [1..<Suc m]) =
         rev (filter p rows)"
proof -
  have "map (\<lambda>page. pr_items (paged_query p page n rows)) [1..<Suc m] =
      map (\<lambda>k. take n (drop (k * n) (rev (filter p rows)))) [0..<m]"
    by (rule nth_equalityI) (simp_all add: paged_query_def toPageResult_def getOffset_def
        del: upt_Suc)
  then show ?thesis using assms by (simp add: pages_partition count_where_def)
qed

subsection \<open>Frame and uniqueness\<close>

definition notification_keys_unique :: "db \<Rightarrow> bool" where
  "notification_keys_unique db \<longleftrightarrow> distinct (map nt_dedupeKey (db_notifications db))"

lemmas notification_defs = insert_notification_def createLowStockNotification_def
  createDispenseFailedNotification_def createMachineOfflineNotification_def
  resolveMachineOfflineNotification_def createOperationalNotification_def

lemma insert_notification_unique:
  "notification_keys_unique db \<Longrightarrow> notification_keys_unique (insert_notification n db)"
  by (auto simp: notification_keys_unique_def insert_notification_def insert_or_ignore_def
      list_ex_iff)

lemma notification_keys_upd:
  "(\<And>n. nt_dedupeKey (f n) = nt_dedupeKey n) \<Longrightarrow>
   map nt_dedupeKey (upd_where p f rows) = map nt_dedupeKey rows"
  by (induction rows) auto

lemma createMachineOffline_unique:
  "notification_keys_unique db \<Longrightarrow>
   notification_keys_unique (createMachineOfflineNotification m c l t d db)"
  by (simp add: createMachineOfflineNotification_def Let_def insert_notification_unique)
    (simp add: notification_keys_unique_def notification_keys_upd)

lemma resolveMachineOffline_unique:
  "notification_keys_unique db \<Longrightarrow>
   notification_keys_unique (resolveMachineOfflineNotification m c r l db)"
  by (simp add: resolveMachineOfflineNotification_def notification_keys_unique_def
      notification_keys_upd)

text \<open>What these writes leave alone: the stock tables, the orders and the commands.\<close>

definition stock_view :: "db \<Rightarrow> inventory_row list \<times> reservation_row list \<times> movement_row list" where
  "stock_view db = (db_inventories db, db_reservations db, db_movements db)"

definition sale_view :: "db \<Rightarrow> order_row list \<times> order_item_row list \<times> command_row list" where
  "sale_view db = (db_orders db, db_orderItems db, db_commands db)"

lemma insert_notification_frame [frame_simps]:
  "stock_view (insert_notification n db) = stock_view db"
  "sale_view (insert_notification n db) = sale_view db"
  "db_rawMovements (insert_notification n db) = db_rawMovements db"
  "db_machines (insert_notification n db) = db_machines db"
  "db_refunds (insert_notification n db) = db_refunds db"
  "db_next db \<le> db_next (insert_notification n db)"
  by (simp_all add: insert_notification_def stock_view_def sale_view_def)

lemma notifications_frame [frame_simps]:
  "stock_view (createLowStockNotification e m s q db) = stock_view db"
  "sale_view (createLowStockNotification e m s q db) = sale_view db"
  "stock_view (createDispenseFailedNotification e ord c msg db) = stock_view db"
  "sale_view (createDispenseFailedNotification e ord c msg db) = sale_view db"
  by (simp_all add: createLowStockNotification_def createDispenseFailedNotification_def
      frame_simps)

lemma createWorkOrder_frame [frame_simps]:
  assumes "createWorkOrder e m s ord cmd ti de pr key db = Inr db'"
  shows "stock_view db' = stock_view db" and "sale_view db' = sale_view db"
  using assms
  by (auto simp: createWorkOrder_def Let_def stock_view_def sale_view_def split: if_splits)

lemma createWorkOrder_dedupe:
  "createWorkOrder e m s ord cmd ti de pr key db = Inr db' \<Longrightarrow>
   \<exists>w\<in>set (db_workOrders db'). wo_dedupeKey w = key"
  by (auto simp: createWorkOrder_def Let_def list_ex_iff split: if_splits)

text \<open>
  Two different failures reported in the same millisecond compete for one work order number:
  the second insert does not become a second work order, it throws and rolls back its caller.
\<close>

lemma createWorkOrder_same_millisecond:
  assumes "createWorkOrder e m s ord cmd ti de pr key db = Inr db'"
    and "db_workOrders db' \<noteq> db_workOrders db" and "key' \<noteq> key"
    and "\<forall>w\<in>set (db_workOrders db). wo_dedupeKey w \<noteq> key'"
  shows "createWorkOrder e m2 s2 ord2 cmd2 ti2 de2 pr2 key' db' =
         Inl (ConstraintViolation ''maintenance_work_orders_no_unique'')"
  using assms
  by (auto simp: createWorkOrder_def Let_def list_ex_iff split: if_splits)

end
