(* ===== verification/Inventory.thy ===== *)
theory Inventory
  imports Notifications
begin

text \<open>
  \<open>inventory/inventory.service.ts\<close>, \<open>inventory/expired-inventory-reservations.ts\<close>,
  \<open>inventory/inventory.contract-mappers.ts\<close> (the insert mappers) and
  \<open>hardware-error-policies/hardware-error-policies.service.ts\<close>.

  Stock is an inventory row per slot with the quantity on hand and the part of it that is
  reserved, a reservation per order line, and the ledger \<open>inventory_movements\<close>. The listings
  (\<open>listInventories\<close> after its release of expired reservations, \<open>listMovements\<close>,
  \<open>listPolicies\<close>) only read.
\<close>

subsection \<open>Hardware error policies\<close>

definition getPolicy :: "hardware_error_code option \<Rightarrow> db \<Rightarrow> hardware_error_rule" where
  "getPolicy errorCode db =
     (case List.find (\<lambda>c. hc_errorCode c = errorCode \<and> hc_status c = PcEnabled)
             (db_errorConfigs db) of
        Some c \<Rightarrow> \<lparr>hr_errorCode = hc_errorCode c,
                   hr_restoreInventory = hc_restoreInventory c,
                   hr_faultSlot = hc_faultSlot c, hr_requestRefund = hc_requestRefund c,
                   hr_createWorkOrder = hc_createWorkOrder c, hr_severity = hc_severity c\<rparr>
      | None \<Rightarrow> HARDWARE_ERROR_HANDLING errorCode)"

definition upsertPolicy :: "uuid \<Rightarrow> hardware_error_rule \<Rightarrow> db \<Rightarrow> db" where
  "upsertPolicy adminUserId input db =
     (let key = hr_errorCode input in
      if list_ex (\<lambda>c. hc_errorCode c = key) (db_errorConfigs db)
      then db\<lparr>db_errorConfigs := upd_where (\<lambda>c. hc_errorCode c = key)
             (\<lambda>c. c\<lparr>hc_restoreInventory := hr_restoreInventory input,
                    hc_faultSlot := hr_faultSlot input,
                    hc_requestRefund := hr_requestRefund input,
                    hc_createWorkOrder := hr_createWorkOrder input,
                    hc_severity := hr_severity input,
                    hc_updatedByAdminUserId := Some adminUserId\<rparr>) (db_errorConfigs db)\<rparr>
      else db\<lparr>db_errorConfigs := db_errorConfigs db @
             [\<lparr>hc_errorCode = key, hc_restoreInventory = hr_restoreInventory input,
               hc_faultSlot = hr_faultSlot input, hc_requestRefund = hr_requestRefund input,
               hc_createWorkOrder = hr_createWorkOrder input, hc_severity = hr_severity input,
               hc_status = PcEnabled, hc_updatedByAdminUserId = Some adminUserId\<rparr>]\<rparr>)"

subsection \<open>Ledger entries and reservations\<close>

text \<open>Both tables reference \<open>inventories\<close>: a dangling key is refused.\<close>

definition inventory_exists :: "uuid \<Rightarrow> db \<Rightarrow> bool" where
  "inventory_exists inventoryId db = list_ex (\<lambda>r. inv_id r = inventoryId) (db_inventories db)"

definition insert_movement ::
    "uuid \<Rightarrow> int \<Rightarrow> movement_reason \<Rightarrow> uuid option \<Rightarrow> uuid option \<Rightarrow> string option \<Rightarrow> db \<Rightarrow>
     api_error + db" where
  "insert_movement inventoryId deltaQty reason orderId operator note db =
     (if inventory_exists inventoryId db
      then Inr (db\<lparr>db_movements := db_movements db @
             [\<lparr>mv_id = db_next db, mv_inventoryId = inventoryId, mv_deltaQty = deltaQty,
               mv_reason = reason, mv_orderId = orderId, mv_operatorAdminUserId = operator,
               mv_note = note\<rparr>], db_next := db_next db + 1\<rparr>)
      else Inl (ConstraintViolation ''inventory_movements_inventory_id_fk''))"

definition insert_active_reservation ::
    "env \<Rightarrow> uuid \<Rightarrow> uuid option \<Rightarrow> uuid \<Rightarrow> int \<Rightarrow> ms \<Rightarrow> db \<Rightarrow> api_error + db" where
  "insert_active_reservation e orderId orderItemId inventoryId quantity expiresAt db =
     (if inventory_exists inventoryId db
      then insert_reservation
             \<lparr>rv_id = db_next db, rv_orderId = orderId, rv_inventoryId = inventoryId,
              rv_orderItemId = orderItemId, rv_quantity = quantity, rv_status = RsActive,
              rv_expiresAt = expiresAt, rv_updatedAt = e_now e\<rparr>
             (db\<lparr>db_next := db_next db + 1\<rparr>)
      else Inl (ConstraintViolation ''inventory_reservations_inventory_id_fk''))"

subsection \<open>Administration: adjust and createInventory\<close>

definition adjust ::
    "env \<Rightarrow> uuid \<Rightarrow> uuid \<Rightarrow> int \<Rightarrow> string option \<Rightarrow> db \<Rightarrow> api_error + inventory_row option \<times> db" where
  "adjust e adminUserId inventoryId deltaQty note db =
     bindR (update_inventories
        (\<lambda>r. inv_id r = inventoryId \<and> 0 \<le> inv_onHandQty r + deltaQty \<and>
             inv_reservedQty r \<le> inv_onHandQty r + deltaQty)
        (\<lambda>r. r\<lparr>inv_onHandQty := inv_onHandQty r + deltaQty, inv_updatedAt := e_now e\<rparr>) db)
     (\<lambda>(rowCount, db1).
        if rowCount = 0
        then (if inventory_exists inventoryId db1
              then Inl (ConflictException
                ''Adjustment would make inventory negative or below reserved quantity'')
              else Inl (NotFoundException ''Inventory not found''))
        else bindR (insert_movement inventoryId deltaQty MrAdjust None (Some adminUserId) note db1)
          (\<lambda>db2. Inr (List.find (\<lambda>r. inv_id r = inventoryId) (db_inventories db1), db2)))"

definition createInventory ::
    "env \<Rightarrow> uuid \<Rightarrow> uuid \<Rightarrow> uuid \<Rightarrow> uuid \<Rightarrow> int \<Rightarrow> int \<Rightarrow> int \<Rightarrow> string option \<Rightarrow> db \<Rightarrow>
     api_error + inventory_row \<times> db" where
  "createInventory e adminUserId machineId slotId variantId onHandQty reservedQty
       lowStockThreshold note db =
     (let created = \<lparr>inv_id = db_next db, inv_machineId = machineId, inv_slotId = slotId,
            inv_variantId = variantId, inv_onHandQty = onHandQty, inv_reservedQty = reservedQty,
            inv_lowStockThreshold = lowStockThreshold, inv_updatedAt = e_now e\<rparr> in
      if list_ex (\<lambda>r. inv_slotId r = slotId) (db_inventories db)
      then Inl (ConstraintViolation ''inventories_slot_id_unique'')
      else if \<not> inventory_checks created then Inl (ConstraintViolation ''inventories'')
      else bindR (insert_movement (inv_id created) onHandQty MrAdjust None (Some adminUserId)
             (case note of None \<Rightarrow> Some ''initial inventory binding'' | Some n \<Rightarrow> Some n)
             (db\<lparr>db_inventories := db_inventories db @ [created], db_next := db_next db + 1\<rparr>))
           (\<lambda>db1. Inr (created, db1)))"

subsection \<open>Reservation life cycle\<close>

definition reserveForOrder ::
    "env \<Rightarrow> uuid \<Rightarrow> uuid option \<Rightarrow> uuid \<Rightarrow> int \<Rightarrow> ms \<Rightarrow> db \<Rightarrow> api_error + db" where
  "reserveForOrder e orderId orderItemId inventoryId quantity expiresAt db =
     bindR (update_inventories
        (\<lambda>r. inv_id r = inventoryId \<and> quantity \<le> inv_onHandQty r - inv_reservedQty r)
        (\<lambda>r. r\<lparr>inv_reservedQty := inv_reservedQty r + quantity, inv_updatedAt := e_now e\<rparr>) db)
     (\<lambda>(rowCount, db1).
        if rowCount \<noteq> 1 then Inl (ConflictException ''Inventory is not available'')
        else bindR (insert_active_reservation e orderId orderItemId inventoryId quantity
                      expiresAt db1)
          (\<lambda>db2. insert_movement inventoryId 0 MrPurchaseReserved (Some orderId) None None db2))"

text \<open>The first active reservation of an order on an inventory, of one line when it is given.\<close>

definition find_active_reservation ::
    "uuid \<Rightarrow> uuid option \<Rightarrow> uuid \<Rightarrow> db \<Rightarrow> reservation_row option" where
  "find_active_reservation orderId orderItemId inventoryId db =
     List.find (\<lambda>r. rv_orderId r = orderId \<and> rv_inventoryId r = inventoryId \<and>
        (case orderItemId of None \<Rightarrow> True | Some i \<Rightarrow> rv_orderItemId r = Some i) \<and>
        rv_status r = RsActive) (db_reservations db)"

definition set_reservation_status ::
    "env \<Rightarrow> uuid \<Rightarrow> reservation_status \<Rightarrow> db \<Rightarrow> db" where
  "set_reservation_status e reservationId st db =
     db\<lparr>db_reservations := upd_where (\<lambda>r. rv_id r = reservationId)
          (\<lambda>r. r\<lparr>rv_status := st, rv_updatedAt := e_now e\<rparr>) (db_reservations db)\<rparr>"

text \<open>The inner joins ask for the slot and the machine of the inventory.\<close>

definition checkAndCreateLowStockNotification :: "env \<Rightarrow> uuid \<Rightarrow> db \<Rightarrow> db" where
  "checkAndCreateLowStockNotification e inventoryId db =
     (case List.find (\<lambda>r. inv_id r = inventoryId \<and>
             list_ex (\<lambda>s. sl_id s = inv_slotId r) (db_slots db) \<and>
             list_ex (\<lambda>m. m_id m = inv_machineId r) (db_machines db)) (db_inventories db) of
        None \<Rightarrow> db
      | Some r \<Rightarrow>
          (let availableQty = inv_onHandQty r - inv_reservedQty r in
           if availableQty \<le> inv_lowStockThreshold r
           then createLowStockNotification e (inv_machineId r) (inv_slotId r) availableQty db
           else db))"

definition confirmReservation ::
    "env \<Rightarrow> uuid \<Rightarrow> uuid option \<Rightarrow> uuid \<Rightarrow> int \<Rightarrow> db \<Rightarrow> api_error + db" where
  "confirmReservation e orderId orderItemId inventoryId inputQuantity db =
     (case find_active_reservation orderId orderItemId inventoryId db of
        None \<Rightarrow> Inr db
      | Some reservation \<Rightarrow>
          (let quantity = min inputQuantity (rv_quantity reservation) in
           bindR (update_inventories
              (\<lambda>r. inv_id r = inventoryId \<and> quantity \<le> inv_onHandQty r \<and>
                   quantity \<le> inv_reservedQty r)
              (\<lambda>r. r\<lparr>inv_onHandQty := inv_onHandQty r - quantity,
                     inv_reservedQty := inv_reservedQty r - quantity,
                     inv_updatedAt := e_now e\<rparr>) db)
           (\<lambda>(rowCount, db1).
              if rowCount \<noteq> 1 then Inl (ConflictException ''Inventory confirmation failed'')
              else bindR (insert_movement inventoryId (- quantity) MrPurchaseConfirmed
                            (Some orderId) None None
                            (set_reservation_status e (rv_id reservation) RsConfirmed db1))
                (\<lambda>db2. Inr (checkAndCreateLowStockNotification e inventoryId db2)))))"

definition releaseReservation ::
    "env \<Rightarrow> uuid \<Rightarrow> uuid option \<Rightarrow> uuid \<Rightarrow> int \<Rightarrow> string \<Rightarrow> db \<Rightarrow> api_error + db" where
  "releaseReservation e orderId orderItemId inventoryId inputQuantity reason db =
     (case find_active_reservation orderId orderItemId inventoryId db of
        None \<Rightarrow> Inr db
      | Some reservation \<Rightarrow>
          (let quantity = min inputQuantity (rv_quantity reservation) in
           bindR (update_inventories
              (\<lambda>r. inv_id r = inventoryId \<and> quantity \<le> inv_reservedQty r)
              (\<lambda>r. r\<lparr>inv_reservedQty := inv_reservedQty r - quantity,
                     inv_updatedAt := e_now e\<rparr>) db)
           (\<lambda>(rowCount, db1).
              if rowCount \<noteq> 1
              then Inl (ConflictException ''Inventory reservation release failed'')
              else insert_movement inventoryId 0 MrReservationReleased (Some orderId) None
                     (Some reason)
                     (set_reservation_status e (rv_id reservation) RsReleased db1))))"

subsection \<open>Compensation of failed dispenses\<close>

text \<open>The lines of an order that a failed command affects: its line, or its slot's lines.\<close>

definition affected_line :: "uuid \<Rightarrow> uuid option \<Rightarrow> uuid \<Rightarrow> order_item_row \<Rightarrow> bool" where
  "affected_line orderId orderItemId slotId oi \<longleftrightarrow> oi_orderId oi = orderId \<and>
     (case orderItemId of Some i \<Rightarrow> oi_id oi = i | None \<Rightarrow> oi_slotId oi = slotId)"

definition fault_slot :: "env \<Rightarrow> uuid \<Rightarrow> db \<Rightarrow> db" where
  "fault_slot e slotId db = db\<lparr>db_slots := upd_where (\<lambda>s. sl_id s = slotId)
     (\<lambda>s. s\<lparr>sl_status := SsFaulted, sl_updatedAt := e_now e\<rparr>) (db_slots db)\<rparr>"

definition return_to_stock :: "env \<Rightarrow> uuid \<Rightarrow> string \<Rightarrow> order_item_row \<Rightarrow> db \<Rightarrow> api_error + db" where
  "return_to_stock e orderId note row db =
     bindR (update_inventories (\<lambda>r. inv_id r = oi_inventoryId row)
        (\<lambda>r. r\<lparr>inv_onHandQty := inv_onHandQty r + oi_quantity row, inv_updatedAt := e_now e\<rparr>) db)
     (\<lambda>(_, db1). insert_movement (oi_inventoryId row) (oi_quantity row) MrRefundReturn
        (Some orderId) None (Some note) db1)"

definition restoreConfirmedOrderItemsForDispatchFailure ::
    "env \<Rightarrow> uuid \<Rightarrow> string \<Rightarrow> db \<Rightarrow> api_error + int \<times> db" where
  "restoreConfirmedOrderItemsForDispatchFailure e orderId note db =
     (if 0 < count_where (\<lambda>m. mv_orderId m = Some orderId \<and> mv_reason m = MrRefundReturn \<and>
             mv_note m = Some note) (db_movements db)
      then Inr (0, db)
      else (let rows = filter (\<lambda>oi. oi_orderId oi = orderId) (db_orderItems db) in
        bindR (foldR (return_to_stock e orderId note) rows db)
          (\<lambda>db1. Inr (sum_list (map oi_quantity rows), db1))))"

datatype compensation_sales_state = Suspect | Frozen

record dispense_failure_compensation =
  releasedQuantity :: int
  slotFaulted :: bool
  slotSalesState :: compensation_sales_state

definition releaseAffectedReservationForDispenseFailure ::
    "env \<Rightarrow> uuid \<Rightarrow> uuid option \<Rightarrow> uuid \<Rightarrow> hardware_error_code option \<Rightarrow> db \<Rightarrow>
     api_error + dispense_failure_compensation \<times> db" where
  "releaseAffectedReservationForDispenseFailure e orderId orderItemId slotId errorCode db =
     (let policy = getPolicy errorCode db;
          rows = filter (affected_line orderId orderItemId slotId) (db_orderItems db) in
      bindR (foldR (\<lambda>row. releaseReservation e orderId orderItemId (oi_inventoryId row)
                            (oi_quantity row) ''dispense_failed'') rows db)
        (\<lambda>db1. Inr (\<lparr>releasedQuantity = sum_list (map oi_quantity rows),
                     slotFaulted = hr_faultSlot policy,
                     slotSalesState = (if hr_faultSlot policy then Frozen else Suspect)\<rparr>,
                    if hr_faultSlot policy then fault_slot e slotId db1 else db1)))"

fun error_code_string :: "hardware_error_code option \<Rightarrow> string" where
  "error_code_string (Some NO_DROP) = ''NO_DROP''"
| "error_code_string (Some JAMMED) = ''JAMMED''"
| "error_code_string (Some DOOR_OPEN) = ''DOOR_OPEN''"
| "error_code_string (Some MOTOR_TIMEOUT) = ''MOTOR_TIMEOUT''"
| "error_code_string (Some UNKNOWN) = ''UNKNOWN''"
| "error_code_string None = ''null''"

definition compensateDispenseFailure ::
    "env \<Rightarrow> uuid \<Rightarrow> uuid option \<Rightarrow> uuid \<Rightarrow> hardware_error_code option \<Rightarrow> string \<Rightarrow> db \<Rightarrow>
     api_error + (int \<times> bool) \<times> db" where
  "compensateDispenseFailure e orderId orderItemId slotId errorCode message db =
     (let policy = getPolicy errorCode db;
          rows = filter (affected_line orderId orderItemId slotId) (db_orderItems db);
          note = ''dispense_failed:'' @ error_code_string errorCode @ '':'' @ message in
      bindR (if hr_restoreInventory policy then foldR (return_to_stock e orderId note) rows db
             else Inr db)
        (\<lambda>db1. Inr ((if hr_restoreInventory policy then sum_list (map oi_quantity rows) else 0,
                     hr_faultSlot policy),
                    if hr_faultSlot policy then fault_slot e slotId db1 else db1)))"

subsection \<open>Expired reservations\<close>

text \<open>
  One SQL statement: its parts all read the table before the update. The released quantity is
  summed per inventory, \<open>greatest(0, \<dots>)\<close> keeps the reserved quantity from going negative, and
  every released reservation leaves a ledger entry.
\<close>

definition reservation_expired :: "ms \<Rightarrow> reservation_row \<Rightarrow> bool" where
  "reservation_expired now r \<longleftrightarrow> rv_status r = RsActive \<and> rv_expiresAt r \<le> now"

definition releaseExpiredInventoryReservations ::
    "env \<Rightarrow> ms \<Rightarrow> db \<Rightarrow> api_error + nat \<times> db" where
  "releaseExpiredInventoryReservations e now db =
     (let expired = filter (reservation_expired now) (db_reservations db);
          released = (\<lambda>i. sum_where (\<lambda>r. rv_inventoryId r = i) rv_quantity expired) in
      bindR (update_inventories (\<lambda>r. inv_id r \<in> set (map rv_inventoryId expired))
        (\<lambda>r. r\<lparr>inv_reservedQty := max 0 (inv_reservedQty r - released (inv_id r)),
               inv_updatedAt := e_now e\<rparr>)
        (db\<lparr>db_reservations := upd_where (reservation_expired now)
              (\<lambda>r. r\<lparr>rv_status := RsReleased, rv_updatedAt := e_now e\<rparr>) (db_reservations db)\<rparr>))
      (\<lambda>(_, db1). bindR (foldR (\<lambda>r. insert_movement (rv_inventoryId r) 0 MrReservationReleased
                              (Some (rv_orderId r)) None (Some ''payment_expired'')) expired db1)
        (\<lambda>db2. Inr (length expired, db2))))"

end
