(* ===== verification/Refunds.thy ===== *)
theory Refunds
  imports Order_Projection
begin

text \<open>
  \<open>refunds/refunds.service.ts\<close>, with \<open>reconcileBackoffMs\<close> of
  \<open>payments/payment-redaction.util.ts\<close>: refunds are staged inside the dispense transaction or
  requested by an administrator, dispatched to the payment provider, settled by its answer, by a
  query or by a webhook.

  A call to the provider lies between two transactions, so the operations are split where the
  code commits: another operation may run at each of these points. The composed definitions
  (\<open>dispatchClaimedRefund\<close>, \<open>requestFullRefund\<close>, \<dots>) run the phases one after the other. The
  timers of \<open>onModuleInit\<close> call \<open>dispatchPendingRefunds\<close> and \<open>reconcileProcessingRefunds\<close>.
\<close>

subsection \<open>Constants and rows\<close>

definition MAX_REFUND_ATTEMPTS :: nat where
  "MAX_REFUND_ATTEMPTS = 3"

definition REFUND_DISPATCH_LEASE_MS :: int where
  "REFUND_DISPATCH_LEASE_MS = 30000"

datatype full_refund_reason = AutoDispenseFailed | AdminRefund

fun reason_string :: "full_refund_reason \<Rightarrow> string" where
  "reason_string AutoDispenseFailed = ''auto_dispense_failed''"
| "reason_string AdminRefund = ''admin_refund''"

definition partial_reason :: string where
  "partial_reason = ''auto_partial_dispense_failed''"

text \<open>An order with the payment its \<open>paymentId\<close> names (both inner joins).\<close>

definition order_payment :: "uuid \<Rightarrow> db \<Rightarrow> (order_row \<times> payment_row) option" where
  "order_payment orderId db =
     (case find_order orderId db of
        None \<Rightarrow> None
      | Some ord \<Rightarrow> (case o_paymentId ord of
            None \<Rightarrow> None
          | Some paymentId \<Rightarrow> map_option (\<lambda>p. (ord, p)) (find_payment paymentId db)))"

definition refund_event ::
    "refund_row \<Rightarrow> uuid \<Rightarrow> string \<Rightarrow> string \<Rightarrow> string option \<Rightarrow> refund_status \<Rightarrow> refund_event_row"
  where
  "refund_event refund providerId eventType eventId providerRefundNo status =
     \<lparr>re_refundId = rf_id refund, re_paymentId = rf_paymentId refund, re_providerId = providerId,
      re_eventType = eventType, re_providerEventId = eventId,
      re_providerRefundNo = providerRefundNo, re_status = status\<rparr>"

definition record_event :: "refund_event_row \<Rightarrow> db \<Rightarrow> db" where
  "record_event ev db = db\<lparr>db_refundEvents :=
     snd (insert_or_ignore refund_event_conflict ev (db_refundEvents db))\<rparr>"

text \<open>A plain insert: a conflict throws.\<close>

definition insert_event :: "refund_event_row \<Rightarrow> db \<Rightarrow> api_error + db" where
  "insert_event ev db =
     (if list_ex (refund_event_conflict ev) (db_refundEvents db)
      then Inl (ConstraintViolation ''refund_events_provider_event_unique'')
      else Inr (record_event ev db))"

definition new_refund ::
    "env \<Rightarrow> uuid \<Rightarrow> uuid \<Rightarrow> int \<Rightarrow> refund_status \<Rightarrow> string \<Rightarrow> uuid option \<Rightarrow> db \<Rightarrow> refund_row" where
  "new_refund e paymentId orderId amountCents status reason adminUserId db =
     \<lparr>rf_id = db_next db, rf_refundNo = createBusinessNo e (db_next db) RFD,
      rf_paymentId = paymentId, rf_orderId = orderId, rf_amountCents = amountCents,
      rf_status = status, rf_providerRefundNo = None, rf_reason = reason,
      rf_requestedByAdminUserId = adminUserId, rf_refundedAt = None, rf_updatedAt = e_now e\<rparr>"

text \<open>
  \<open>insert(refunds).onConflictDoNothing().returning()\<close>; \<open>refunds_amount_cents_non_negative\<close>.
\<close>

definition insert_refund :: "refund_row \<Rightarrow> db \<Rightarrow> api_error + refund_row option \<times> db" where
  "insert_refund refund db =
     (if rf_amountCents refund < 0
      then Inl (ConstraintViolation ''refunds_amount_cents_non_negative'')
      else (let (inserted, rows) = insert_or_ignore refund_conflict refund (db_refunds db) in
        Inr (inserted, db\<lparr>db_refunds := rows, db_next := db_next db + 1\<rparr>)))"

subsection \<open>Staging inside the dispense transaction\<close>

definition item_pending :: "uuid \<Rightarrow> order_item_row \<Rightarrow> bool" where
  "item_pending orderId oi \<longleftrightarrow> oi_orderId oi = orderId \<and> oi_refundStatus oi = LrPending"

definition stageAutomaticFullRefund :: "env \<Rightarrow> uuid \<Rightarrow> metadata \<Rightarrow> db \<Rightarrow> api_error + db" where
  "stageAutomaticFullRefund e orderId meta db =
     (case order_payment orderId db of
        None \<Rightarrow> Inl (NotFoundException ''Order payment not found'')
      | Some (ord, payment) \<Rightarrow>
          bindR (insert_refund (new_refund e (p_id payment) orderId (p_amountCents payment)
                   RfCreated (reason_string AutoDispenseFailed) None db) db)
          (\<lambda>(inserted, db1). case inserted of
             None \<Rightarrow> Inr db1
           | Some refund \<Rightarrow>
              (let db2 = upd_items (item_pending orderId)
                    (\<lambda>oi. oi\<lparr>oi_refundId := Some (rf_id refund),
                            oi_refundUpdatedAt := Some (e_now e)\<rparr>) db1;
                   db3 = upd_orders (\<lambda>x. o_id x = orderId)
                    (\<lambda>x. x\<lparr>o_status := OsRefundPending, o_paymentState := PsRefundPending,
                           o_updatedAt := e_now e\<rparr>) db2;
                   db4 = upd_payments (\<lambda>p. p_id p = p_id payment)
                    (\<lambda>p. p\<lparr>p_status := PayRefundPending, p_updatedAt := e_now e\<rparr>) db3;
                   db5 = log_status orderId (Some (o_status ord)) OsRefundPending
                    (reason_string AutoDispenseFailed) (Some meta) db4
               in insert_event (refund_event refund (p_providerId payment) ''refund.created''
                    (''created:'' @ rf_refundNo refund) None RfCreated) db5)))"

definition partial_unsupported ::
    "env \<Rightarrow> order_row \<Rightarrow> payment_row \<Rightarrow> uuid list \<Rightarrow> metadata option \<Rightarrow> db \<Rightarrow> db" where
  "partial_unsupported e ord payment orderItemIds meta db =
     (let db1 = upd_items (\<lambda>oi. oi_id oi \<in> set orderItemIds)
           (\<lambda>oi. oi\<lparr>oi_refundStatus := LrManualHandling,
                   oi_refundUpdatedAt := Some (e_now e)\<rparr>) db;
          db2 = upd_payments (\<lambda>p. p_id p = p_id payment)
           (\<lambda>p. p\<lparr>p_status := PayManualHandling, p_updatedAt := e_now e\<rparr>) db1;
          db3 = upd_orders (\<lambda>x. o_id x = o_id ord)
           (\<lambda>x. x\<lparr>o_status := OsManualHandling, o_paymentState := PsManualHandling,
                  o_fulfillmentState := o_fulfillmentState ord, o_updatedAt := e_now e\<rparr>) db2
      in log_status (o_id ord) (Some (o_status ord)) OsManualHandling
           ''partial_refund_unsupported'' meta db3)"

text \<open>
  The first checks of both partial refund paths: the amount, the order with its payment and
  provider row, and the provider of the registry.
\<close>

definition partial_refund_checks ::
    "env \<Rightarrow> uuid \<Rightarrow> uuid list \<Rightarrow> int \<Rightarrow> db \<Rightarrow>
     api_error + order_row \<times> payment_row \<times> payment_provider_row \<times> payment_provider" where
  "partial_refund_checks e orderId orderItemIds amountCents db =
     (if amountCents \<le> 0 \<or> orderItemIds = []
      then Inl (ConflictException ''Partial refund requires failed order lines'')
      else case order_payment orderId db of
        None \<Rightarrow> Inl (NotFoundException ''Order payment not found'')
      | Some (ord, payment) \<Rightarrow>
         (case find_provider (p_providerId payment) db of
            None \<Rightarrow> Inl (NotFoundException ''Order payment not found'')
          | Some prov \<Rightarrow>
             if p_amountCents payment \<le> amountCents
             then Inl (ConflictException ''Partial refund amount must be less than payment amount'')
             else case e_registry e (pp_code prov) of
               None \<Rightarrow> Inl (NotFoundException
                         (''Payment provider '' @ pp_code prov @ '' not found''))
             | Some provider \<Rightarrow> Inr (ord, payment, prov, provider)))"

definition stageAutomaticPartialRefund ::
    "env \<Rightarrow> uuid \<Rightarrow> uuid list \<Rightarrow> int \<Rightarrow> metadata \<Rightarrow> db \<Rightarrow> api_error + db" where
  "stageAutomaticPartialRefund e orderId orderItemIds amountCents meta db =
     bindR (partial_refund_checks e orderId orderItemIds amountCents db)
     (\<lambda>(ord, payment, _, provider).
        if \<not> rp_supportsPartialRefund provider
        then Inr (partial_unsupported e ord payment orderItemIds (Some meta) db)
        else bindR (insert_refund (new_refund e (p_id payment) orderId amountCents RfCreated
                      partial_reason None db) db)
          (\<lambda>(inserted, db1). case inserted of
             None \<Rightarrow> Inr db1
           | Some refund \<Rightarrow>
              (let db2 = upd_items (\<lambda>oi. oi_id oi \<in> set orderItemIds \<and>
                                        oi_refundStatus oi = LrPending)
                    (\<lambda>oi. oi\<lparr>oi_refundId := Some (rf_id refund),
                            oi_refundUpdatedAt := Some (e_now e)\<rparr>) db1;
                   db3 = upd_orders (\<lambda>x. o_id x = orderId)
                    (\<lambda>x. x\<lparr>o_status := OsRefundPending,
                           o_paymentState := PsPartialRefundPending,
                           o_updatedAt := e_now e\<rparr>) db2;
                   db4 = upd_payments (\<lambda>p. p_id p = p_id payment)
                    (\<lambda>p. p\<lparr>p_status := PayPartialRefundPending, p_updatedAt := e_now e\<rparr>) db3;
                   db5 = log_status orderId (Some (o_status ord)) OsRefundPending
                    partial_reason (Some meta) db4
               in insert_event (refund_event refund (p_providerId payment) ''refund.created''
                    (''created:'' @ rf_refundNo refund) None RfCreated) db5)))"

subsection \<open>Terminal states\<close>

record terminal_input =
  ti_refund :: refund_row
  ti_providerId :: uuid
  ti_providerRefundNo :: "string option"
  ti_succeeded :: bool
  ti_eventType :: string
  ti_providerEventId :: string
  ti_orderEventReason :: string
  ti_failureMessage :: "string option"
  ti_refundedAt :: "ms option"
  ti_requireOpen :: bool

text \<open>
  The update of the refund itself; the result tells whether to go on (\<open>False\<close>: an open refund was
  required and none was found).
\<close>

definition close_refund :: "env \<Rightarrow> terminal_input \<Rightarrow> db \<Rightarrow> api_error + bool \<times> db" where
  "close_refund e ti db =
     bindR (update_refunds
        (\<lambda>r. rf_id r = rf_id (ti_refund ti) \<and>
             (ti_requireOpen ti \<longrightarrow> rf_status r \<in> {RfCreated, RfProcessing}))
        (\<lambda>r. r\<lparr>rf_status := (if ti_succeeded ti then RfSucceeded else RfFailed),
               rf_providerRefundNo := ti_providerRefundNo ti,
               rf_refundedAt := (if ti_succeeded ti
                  then Some (case ti_refundedAt ti of None \<Rightarrow> e_now e | Some t \<Rightarrow> t) else None),
               rf_updatedAt := e_now e\<rparr>) db)
     (\<lambda>(updated, db1). Inr (\<not> (ti_requireOpen ti \<and> updated = 0), db1))"

definition terminal_event :: "terminal_input \<Rightarrow> refund_event_row" where
  "terminal_event ti = refund_event (ti_refund ti) (ti_providerId ti) (ti_eventType ti)
     (ti_providerEventId ti) (ti_providerRefundNo ti)
     (if ti_succeeded ti then RfSucceeded else RfFailed)"

definition refund_metadata :: "terminal_input \<Rightarrow> metadata" where
  "refund_metadata ti =
     [(''refundNo'', JStr (rf_refundNo (ti_refund ti))),
      (''providerRefundNo'', case ti_providerRefundNo ti of None \<Rightarrow> JNull | Some n \<Rightarrow> JStr n)]"

definition failure_metadata :: "terminal_input \<Rightarrow> metadata" where
  "failure_metadata ti = refund_metadata ti @
     [(''message'', case ti_failureMessage ti of None \<Rightarrow> JNull | Some m \<Rightarrow> JStr m)]"

definition set_item_refund ::
    "env \<Rightarrow> line_refund_status \<Rightarrow> uuid \<Rightarrow> (order_item_row \<Rightarrow> bool) \<Rightarrow> db \<Rightarrow> db" where
  "set_item_refund e status refundId p = upd_items p
     (\<lambda>oi. oi\<lparr>oi_refundStatus := status, oi_refundId := Some refundId,
             oi_refundUpdatedAt := Some (e_now e)\<rparr>)"

definition set_payment_status :: "env \<Rightarrow> payment_status \<Rightarrow> uuid \<Rightarrow> db \<Rightarrow> db" where
  "set_payment_status e status paymentId = upd_payments (\<lambda>p. p_id p = paymentId)
     (\<lambda>p. p\<lparr>p_status := status, p_updatedAt := e_now e\<rparr>)"

definition applyPartialRefundTerminalState ::
    "env \<Rightarrow> order_fulfillment_state \<Rightarrow> terminal_input \<Rightarrow> db \<Rightarrow> api_error + bool \<times> db" where
  "applyPartialRefundTerminalState e fulfillmentState ti db =
     bindR (close_refund e ti db) (\<lambda>(go, db1).
       if \<not> go then Inr (False, db1)
       else (let refund = ti_refund ti; orderId = rf_orderId refund;
                 db2 = record_event (terminal_event ti) db1 in
         if ti_succeeded ti
         then (let refundedStatus = projectOrderStatus PsPartialRefunded fulfillmentState;
                   db3 = set_item_refund e LrRefunded (rf_id refund)
                           (\<lambda>oi. oi_refundId oi = Some (rf_id refund)) db2;
                   db4 = set_payment_status e PayPartialRefunded (rf_paymentId refund) db3;
                   db5 = upd_orders (\<lambda>x. o_id x = orderId)
                     (\<lambda>x. x\<lparr>o_status := refundedStatus, o_paymentState := PsPartialRefunded,
                            o_fulfillmentState := fulfillmentState, o_updatedAt := e_now e\<rparr>) db4
               in Inr (True, log_status orderId (Some OsRefundPending) refundedStatus
                        (ti_orderEventReason ti) (Some (refund_metadata ti)) db5))
         else (let db3 = set_item_refund e LrFailed (rf_id refund)
                           (\<lambda>oi. oi_refundId oi = Some (rf_id refund)) db2;
                   db4 = set_payment_status e PayManualHandling (rf_paymentId refund) db3;
                   db5 = upd_orders (\<lambda>x. o_id x = orderId)
                     (\<lambda>x. x\<lparr>o_status := OsManualHandling, o_paymentState := PsManualHandling,
                            o_fulfillmentState := fulfillmentState, o_updatedAt := e_now e\<rparr>) db4
               in Inr (True, log_status orderId (Some OsRefundPending) OsManualHandling
                        (ti_orderEventReason ti) (Some (failure_metadata ti)) db5))))"

definition applyRefundTerminalState ::
    "env \<Rightarrow> terminal_input \<Rightarrow> db \<Rightarrow> api_error + bool \<times> db" where
  "applyRefundTerminalState e ti db =
     bindR (close_refund e ti db) (\<lambda>(go, db1).
       if \<not> go then Inr (False, db1)
       else (let refund = ti_refund ti; orderId = rf_orderId refund;
                 db2 = record_event (terminal_event ti) db1 in
         if ti_succeeded ti
         then (let refundedStatus = projectOrderStatus PsRefunded FsManualHandling;
                   db3 = set_item_refund e LrRefunded (rf_id refund) (item_pending orderId) db2;
                   db4 = set_payment_status e PayRefunded (rf_paymentId refund) db3;
                   db5 = upd_orders (\<lambda>x. o_id x = orderId)
                     (\<lambda>x. x\<lparr>o_status := refundedStatus, o_paymentState := PsRefunded,
                            o_updatedAt := e_now e\<rparr>) db4
               in Inr (True, log_status orderId (Some OsRefundPending) refundedStatus
                        (ti_orderEventReason ti) (Some (refund_metadata ti)) db5))
         else (let failedRefundStatus = projectOrderStatus PsPaid FsManualHandling;
                   db3 = set_item_refund e LrFailed (rf_id refund) (item_pending orderId) db2;
                   db4 = set_payment_status e PaySucceeded (rf_paymentId refund) db3;
                   db5 = upd_orders (\<lambda>x. o_id x = orderId)
                     (\<lambda>x. x\<lparr>o_status := failedRefundStatus, o_paymentState := PsPaid,
                            o_fulfillmentState := FsManualHandling, o_updatedAt := e_now e\<rparr>) db4
               in Inr (True, log_status orderId (Some OsRefundPending) failedRefundStatus
                        (ti_orderEventReason ti) (Some (failure_metadata ti)) db5))))"

text \<open>\<open>auto_partial_dispense_failed\<close> refunds settle their own lines, every other the whole order.\<close>

definition settle_refund ::
    "env \<Rightarrow> order_fulfillment_state \<Rightarrow> terminal_input \<Rightarrow> db \<Rightarrow> api_error + bool \<times> db" where
  "settle_refund e fulfillmentState ti db =
     (if rf_reason (ti_refund ti) = partial_reason
      then applyPartialRefundTerminalState e fulfillmentState ti db
      else applyRefundTerminalState e ti db)"

definition mark_processing ::
    "env \<Rightarrow> refund_row \<Rightarrow> string option \<Rightarrow> db \<Rightarrow> api_error + db" where
  "mark_processing e refund providerRefundNo db =
     bindR (update_refunds (\<lambda>r. rf_id r = rf_id refund)
        (\<lambda>r. r\<lparr>rf_status := RfProcessing, rf_providerRefundNo := providerRefundNo,
               rf_updatedAt := e_now e\<rparr>) db)
     (\<lambda>(_, db1). Inr db1)"

definition recordRefundRequestUncertain :: "env \<Rightarrow> refund_row \<Rightarrow> uuid \<Rightarrow> db \<Rightarrow> api_error + unit \<times> db"
  where
  "recordRefundRequestUncertain e refund providerId db =
     bindR (mark_processing e refund None db)
     (\<lambda>db1. Inr ((), record_event (refund_event refund providerId ''refund.request_uncertain''
        (''request_uncertain:'' @ rf_refundNo refund @ '':'' @ show_int (e_now e)) None
        RfProcessing) db1))"

subsection \<open>Dispatch to the provider\<close>

text \<open>A refund with its payment, provider and order (inner joins, the machine among them).\<close>

record refund_context =
  cx_refund :: refund_row
  cx_payment :: payment_row
  cx_provider :: payment_provider_row
  cx_order :: order_row

definition join_refund :: "bool \<Rightarrow> db \<Rightarrow> refund_row \<Rightarrow> refund_context option" where
  "join_refund withMachine db r =
     (case find_payment (rf_paymentId r) db of
        None \<Rightarrow> None
      | Some p \<Rightarrow> (case find_provider (p_providerId p) db of
           None \<Rightarrow> None
         | Some pr \<Rightarrow> (case find_order (rf_orderId r) db of
              None \<Rightarrow> None
            | Some ord \<Rightarrow>
                if withMachine \<and> find_machine (o_machineId ord) db = None then None
                else Some \<lparr>cx_refund = r, cx_payment = p, cx_provider = pr, cx_order = ord\<rparr>)))"

definition find_refund :: "uuid \<Rightarrow> db \<Rightarrow> refund_row option" where
  "find_refund i db = List.find (\<lambda>r. rf_id r = i) (db_refunds db)"

definition has_event :: "string list \<Rightarrow> uuid \<Rightarrow> db \<Rightarrow> bool" where
  "has_event types refundId db =
     list_ex (\<lambda>ev. re_refundId ev = refundId \<and> re_eventType ev \<in> set types) (db_refundEvents db)"

definition dispatched_types :: "string list" where
  "dispatched_types = [''refund.processing'', ''refund.request_uncertain'',
     ''refund.succeeded'', ''refund.failed'']"

definition isDispatchable :: "ms \<Rightarrow> db \<Rightarrow> refund_row \<Rightarrow> bool" where
  "isDispatchable now db r \<longleftrightarrow> rf_status r = RfCreated \<or>
     (rf_status r = RfProcessing \<and> rf_updatedAt r < now - REFUND_DISPATCH_LEASE_MS \<and>
      \<not> has_event dispatched_types (rf_id r) db)"

text \<open>The compare-and-set claim: the condition is checked again inside the update.\<close>

definition claim_refund :: "ms \<Rightarrow> uuid \<Rightarrow> db \<Rightarrow> api_error + bool \<times> db" where
  "claim_refund now refundId db =
     bindR (update_refunds (\<lambda>r. rf_id r = refundId \<and> isDispatchable now db r)
        (\<lambda>r. r\<lparr>rf_status := RfProcessing, rf_updatedAt := now\<rparr>) db)
     (\<lambda>(n, db1). Inr (n \<noteq> 0, db1))"

fun answer_name :: "answer_status \<Rightarrow> string" where
  "answer_name AnsProcessing = ''processing''"
| "answer_name AnsSucceeded = ''succeeded''"
| "answer_name AnsFailed = ''failed''"
| "answer_name AnsCanceled = ''canceled''"

text \<open>The request and its answer, as both dispatch paths build them (\<open>sync_\<close> events).\<close>

definition provider_request :: "refund_context \<Rightarrow> refund_request" where
  "provider_request cx =
     \<lparr>rq_refundNo = rf_refundNo (cx_refund cx), rq_paymentNo = p_paymentNo (cx_payment cx),
      rq_providerTradeNo = p_providerTradeNo (cx_payment cx),
      rq_amountCents = rf_amountCents (cx_refund cx),
      rq_totalAmountCents = p_amountCents (cx_payment cx), rq_reason = rf_reason (cx_refund cx)\<rparr>"

definition sync_input :: "bool \<Rightarrow> refund_context \<Rightarrow> refund_answer \<Rightarrow> terminal_input" where
  "sync_input requireOpen cx a =
     \<lparr>ti_refund = cx_refund cx, ti_providerId = p_providerId (cx_payment cx),
      ti_providerRefundNo = an_providerRefundNo a, ti_succeeded = (an_status a = AnsSucceeded),
      ti_eventType = ''refund.'' @ answer_name (an_status a),
      ti_providerEventId = ''sync_'' @ answer_name (an_status a) @ '':'' @
        rf_refundNo (cx_refund cx),
      ti_orderEventReason = rf_reason (cx_refund cx) @ ''_'' @ answer_name (an_status a),
      ti_failureMessage = (if an_status a = AnsFailed then Some ''provider_returned_failed''
                           else None),
      ti_refundedAt = an_refundedAt a, ti_requireOpen = requireOpen\<rparr>"

definition apply_answer ::
    "env \<Rightarrow> bool \<Rightarrow> refund_context \<Rightarrow> refund_answer \<Rightarrow> db \<Rightarrow> api_error + unit \<times> db" where
  "apply_answer e requireOpen cx a db =
     (if an_status a = AnsSucceeded \<or> an_status a = AnsFailed
      then bindR (settle_refund e (o_fulfillmentState (cx_order cx))
                    (sync_input requireOpen cx a) db)
             (\<lambda>(_, db1). Inr ((), db1))
      else bindR (mark_processing e (cx_refund cx) (an_providerRefundNo a) db)
             (\<lambda>db1. Inr ((), record_event (refund_event (cx_refund cx)
                (p_providerId (cx_payment cx)) ''refund.processing''
                (''sync_processing:'' @ rf_refundNo (cx_refund cx)) (an_providerRefundNo a)
                RfProcessing) db1)))"

text \<open>
  The request and the transaction that applies its answer, inside \<open>try\<close>: whatever fails is
  recorded as an uncertain request. The result is the answer that was applied.
\<close>

definition request_and_apply ::
    "env \<Rightarrow> bool \<Rightarrow> refund_context \<Rightarrow> payment_provider \<Rightarrow> db \<Rightarrow>
     db \<times> (api_error + refund_answer option)" where
  "request_and_apply e requireOpen cx provider db =
     (let uncertain = (\<lambda>db. bindS (atomic (recordRefundRequestUncertain e (cx_refund cx)
             (p_providerId (cx_payment cx))) db) (\<lambda>_ db1. (db1, Inr None))) in
      case rp_refundPayment provider (provider_request cx) of
        Inl message \<Rightarrow> uncertain db
      | Inr a \<Rightarrow>
         (case atomic (apply_answer e requireOpen cx a) db of
            (db1, Inl err) \<Rightarrow> uncertain db1
          | (db1, Inr _) \<Rightarrow> (db1, Inr (Some a))))"

definition dispatchClaimedRefund :: "env \<Rightarrow> uuid \<Rightarrow> db \<Rightarrow> db \<times> (api_error + unit)" where
  "dispatchClaimedRefund e refundId db =
     (case Option.bind (find_refund refundId db) (join_refund True db) of
        None \<Rightarrow> (db, Inr ())
      | Some cx \<Rightarrow>
         (case e_registry e (pp_code (cx_provider cx)) of
            None \<Rightarrow> (db, Inl (NotFoundException
                       (''Payment provider '' @ pp_code (cx_provider cx) @ '' not found'')))
          | Some provider \<Rightarrow>
              bindS (request_and_apply e True cx provider db) (\<lambda>_ db1. (db1, Inr ()))))"

fun dispatch_candidates :: "env \<Rightarrow> ms \<Rightarrow> uuid list \<Rightarrow> nat \<Rightarrow> db \<Rightarrow> db \<times> (api_error + nat)" where
  "dispatch_candidates e now [] dispatched db = (db, Inr dispatched)"
| "dispatch_candidates e now (c # cs) dispatched db =
     bindS (atomic (claim_refund now c) db) (\<lambda>claimed db1.
       if \<not> claimed then dispatch_candidates e now cs dispatched db1
       else bindS (dispatchClaimedRefund e c db1)
              (\<lambda>_. dispatch_candidates e now cs (dispatched + 1)))"

definition dispatchPendingRefunds :: "env \<Rightarrow> nat \<Rightarrow> ms \<Rightarrow> db \<Rightarrow> db \<times> (api_error + nat)" where
  "dispatchPendingRefunds e limit now db =
     dispatch_candidates e now
       (map rf_id (take limit (filter (isDispatchable now db) (db_refunds db)))) 0 db"

subsection \<open>Requested refunds\<close>

definition refundable_context :: "uuid \<Rightarrow> db \<Rightarrow> (order_row \<times> payment_row \<times> payment_provider_row) option"
  where
  "refundable_context orderId db =
     (case order_payment orderId db of
        None \<Rightarrow> None
      | Some (ord, payment) \<Rightarrow>
         (case find_provider (p_providerId payment) db of
            None \<Rightarrow> None
          | Some pr \<Rightarrow> if find_machine (o_machineId ord) db = None then None
                      else Some (ord, payment, pr)))"

definition find_active_refund :: "uuid \<Rightarrow> string \<Rightarrow> db \<Rightarrow> refund_row option" where
  "find_active_refund orderId reason db = List.find
     (\<lambda>r. rf_orderId r = orderId \<and> rf_reason r = reason \<and> refund_active r) (db_refunds db)"

text \<open>
  The first transaction of \<open>requestFullRefund\<close>. Its \<open>catch\<close> of a unique violation reads in a
  transaction that PostgreSQL has aborted: the read throws 25P02.
\<close>

definition create_full_refund ::
    "env \<Rightarrow> uuid \<Rightarrow> full_refund_reason \<Rightarrow> uuid option \<Rightarrow> metadata option \<Rightarrow> db \<Rightarrow>
     api_error + (bool \<times> refund_context) \<times> db" where
  "create_full_refund e orderId why adminUserId meta db =
     (case refundable_context orderId db of
        None \<Rightarrow> Inl (NotFoundException ''Order payment not found'')
      | Some (ord, payment, pr) \<Rightarrow>
         (let reason = reason_string why;
              context = (\<lambda>r. \<lparr>cx_refund = r, cx_payment = payment, cx_provider = pr,
                            cx_order = ord\<rparr>) in
          case find_active_refund orderId reason db of
            Some existing \<Rightarrow> Inr ((False, context existing), db)
          | None \<Rightarrow>
             if MAX_REFUND_ATTEMPTS \<le> count_where (\<lambda>r. rf_orderId r = orderId \<and>
                  rf_reason r = reason \<and> rf_status r = RfFailed) (db_refunds db)
             then Inl (UnprocessableEntityException
               ''Refund has already failed 3 times and cannot be retried automatically'')
             else if o_status ord \<notin> {OsDispenseFailed, OsManualHandling, OsRefundPending}
             then Inl (ConflictException (''Order status '' @ order_status_string (o_status ord) @
               '' cannot be refunded''))
             else
              (let db1 = upd_orders (\<lambda>x. o_id x = orderId)
                     (\<lambda>x. x\<lparr>o_status := OsRefundPending, o_paymentState := PsRefundPending,
                            o_updatedAt := e_now e\<rparr>) db;
                   db2 = set_payment_status e PayRefundPending (p_id payment) db1;
                   db3 = log_status orderId (Some (o_status ord)) OsRefundPending reason meta db2
               in bindR (insert_refund (new_refund e (p_id payment) orderId
                           (p_amountCents payment) RfProcessing reason adminUserId db3) db3)
                  (\<lambda>(inserted, db4). case inserted of
                      None \<Rightarrow> Inl (OtherError ''25P02'')
                    | Some refund \<Rightarrow> Inr ((True, context refund), db4)))))"

definition created_event :: "refund_context \<Rightarrow> refund_event_row" where
  "created_event cx = refund_event (cx_refund cx) (p_providerId (cx_payment cx))
     ''refund.created'' (''created:'' @ rf_refundNo (cx_refund cx)) None RfCreated"

text \<open>What the caller gets back: the created row with the outcome of the request.\<close>

definition refund_outcome :: "refund_row \<Rightarrow> refund_answer option \<Rightarrow> refund_row" where
  "refund_outcome refund result =
     (case result of
        None \<Rightarrow> refund\<lparr>rf_status := RfProcessing, rf_providerRefundNo := None,
                      rf_refundedAt := None\<rparr>
      | Some a \<Rightarrow>
         (if an_status a = AnsSucceeded
          then refund\<lparr>rf_status := RfSucceeded, rf_providerRefundNo := an_providerRefundNo a,
                      rf_refundedAt := an_refundedAt a\<rparr>
          else if an_status a = AnsFailed
          then refund\<lparr>rf_status := RfFailed, rf_providerRefundNo := an_providerRefundNo a,
                      rf_refundedAt := None\<rparr>
          else refund\<lparr>rf_status := RfProcessing,
                      rf_providerRefundNo := an_providerRefundNo a\<rparr>))"

text \<open>The rest of both requests, once their transaction has created a refund.\<close>

definition send_created_refund ::
    "env \<Rightarrow> refund_context \<Rightarrow> db \<Rightarrow> db \<times> (api_error + refund_row)" where
  "send_created_refund e cx db =
     (let db1 = record_event (created_event cx) db in
      case e_registry e (pp_code (cx_provider cx)) of
        None \<Rightarrow> (db1, Inl (NotFoundException
                   (''Payment provider '' @ pp_code (cx_provider cx) @ '' not found'')))
      | Some provider \<Rightarrow>
          bindS (request_and_apply e False cx provider db1)
            (\<lambda>result db2. (db2, Inr (refund_outcome (cx_refund cx) result))))"

definition requestFullRefund ::
    "env \<Rightarrow> uuid \<Rightarrow> full_refund_reason \<Rightarrow> uuid option \<Rightarrow> metadata option \<Rightarrow> db \<Rightarrow>
     db \<times> (api_error + refund_row)" where
  "requestFullRefund e orderId why adminUserId meta db =
     bindS (atomic (create_full_refund e orderId why adminUserId meta) db)
       (\<lambda>(created, cx) db1. if \<not> created then (db1, Inr (cx_refund cx))
                            else send_created_refund e cx db1)"

datatype partial_created =
  Unsupported
| Existing refund_row
| Created refund_context

definition create_partial_refund ::
    "env \<Rightarrow> uuid \<Rightarrow> uuid list \<Rightarrow> int \<Rightarrow> metadata option \<Rightarrow> db \<Rightarrow>
     api_error + partial_created \<times> db" where
  "create_partial_refund e orderId orderItemIds amountCents meta db =
     bindR (if 0 < amountCents \<and> orderItemIds \<noteq> [] \<and> refundable_context orderId db = None
            then Inl (NotFoundException ''Order payment not found'')
            else partial_refund_checks e orderId orderItemIds amountCents db)
     (\<lambda>(ord, payment, pr, provider).
        if \<not> rp_supportsPartialRefund provider
        then Inr (Unsupported, partial_unsupported e ord payment orderItemIds meta db)
        else case find_active_refund orderId partial_reason db of
          Some existing \<Rightarrow> Inr (Existing existing, db)
        | None \<Rightarrow>
           (let mine = (\<lambda>oi. oi_id oi \<in> set orderItemIds);
                db1 = upd_items mine (\<lambda>oi. oi\<lparr>oi_refundStatus := LrPending,
                        oi_refundUpdatedAt := Some (e_now e)\<rparr>) db;
                db2 = upd_orders (\<lambda>x. o_id x = orderId)
                        (\<lambda>x. x\<lparr>o_status := OsRefundPending,
                               o_paymentState := PsPartialRefundPending,
                               o_updatedAt := e_now e\<rparr>) db1;
                db3 = set_payment_status e PayPartialRefundPending (p_id payment) db2;
                db4 = log_status orderId (Some (o_status ord)) OsRefundPending
                        partial_reason meta db3
            in bindR (insert_refund (new_refund e (p_id payment) orderId amountCents
                        RfProcessing partial_reason None db4) db4)
               (\<lambda>(inserted, db5). case inserted of
                   None \<Rightarrow> Inl (ConstraintViolation ''refunds'')
                 | Some refund \<Rightarrow> Inr (Created \<lparr>cx_refund = refund, cx_payment = payment,
                         cx_provider = pr, cx_order = ord\<rparr>,
                       upd_items mine (\<lambda>oi. oi\<lparr>oi_refundId := Some (rf_id refund),
                         oi_refundUpdatedAt := Some (e_now e)\<rparr>) db5))))"

text \<open>\<open>None\<close> is the answer \<open>{ status: "manual_handling" }\<close>.\<close>

definition requestPartialRefund ::
    "env \<Rightarrow> uuid \<Rightarrow> uuid list \<Rightarrow> int \<Rightarrow> metadata option \<Rightarrow> db \<Rightarrow>
     db \<times> (api_error + refund_row option)" where
  "requestPartialRefund e orderId orderItemIds amountCents meta db =
     bindS (atomic (create_partial_refund e orderId orderItemIds amountCents meta) db)
       (\<lambda>created db1. case created of
            Unsupported \<Rightarrow> (db1, Inr None)
          | Existing refund \<Rightarrow> (db1, Inr (Some refund))
          | Created cx \<Rightarrow> bindS (send_created_refund e cx db1) (\<lambda>r db2. (db2, Inr (Some r))))"

subsection \<open>Queries of the provider\<close>

definition reconcileBackoffMs :: "nat \<Rightarrow> int" where
  "reconcileBackoffMs attemptNo =
     (if attemptNo \<le> 1 then 60000 else if attemptNo = 2 then 2 * 60000
      else if attemptNo = 3 then 5 * 60000 else if attemptNo = 4 then 10 * 60000
      else 30 * 60000)"

fun answer_refund_status :: "answer_status \<Rightarrow> refund_status" where
  "answer_refund_status AnsProcessing = RfProcessing"
| "answer_refund_status AnsSucceeded = RfSucceeded"
| "answer_refund_status AnsFailed = RfFailed"
| "answer_refund_status AnsCanceled = RfCanceled"

definition insert_attempt ::
    "uuid \<Rightarrow> uuid \<Rightarrow> attempt_trigger \<Rightarrow> nat \<Rightarrow> attempt_status \<Rightarrow> string option \<Rightarrow> string option \<Rightarrow>
     ms \<Rightarrow> ms option \<Rightarrow> db \<Rightarrow> db" where
  "insert_attempt refundId providerId trigger attemptNo status errorCode message startedAt
       finishedAt db = db
     \<lparr>db_refundAttempts := db_refundAttempts db @
        [\<lparr>ra_id = db_next db, ra_refundId = refundId, ra_providerId = providerId,
          ra_trigger = trigger, ra_attemptNo = attemptNo, ra_status = status,
          ra_providerRefundStatus = None, ra_providerRefundNo = None, ra_errorCode = errorCode,
          ra_errorMessage = message, ra_nextRetryAt = None, ra_startedAt = startedAt,
          ra_finishedAt = finishedAt\<rparr>],
      db_next := db_next db + 1\<rparr>"

definition upd_attempt :: "uuid \<Rightarrow> (refund_attempt_row \<Rightarrow> refund_attempt_row) \<Rightarrow> db \<Rightarrow> db" where
  "upd_attempt attemptId f db = db\<lparr>db_refundAttempts :=
     upd_where (\<lambda>a. ra_id a = attemptId) f (db_refundAttempts db)\<rparr>"

definition attempt_failed :: "env \<Rightarrow> uuid \<Rightarrow> ms \<Rightarrow> nat \<Rightarrow> string \<Rightarrow> db \<Rightarrow> db" where
  "attempt_failed e attemptId startedAt attemptNo message = upd_attempt attemptId
     (\<lambda>a. a\<lparr>ra_status := RaNetworkError, ra_errorCode := Some ''query_failed'',
            ra_errorMessage := Some (take 500 message),
            ra_nextRetryAt := Some (startedAt + reconcileBackoffMs attemptNo),
            ra_finishedAt := Some (e_now e)\<rparr>)"

definition attempt_processing :: "env \<Rightarrow> uuid \<Rightarrow> ms \<Rightarrow> nat \<Rightarrow> refund_answer \<Rightarrow> db \<Rightarrow> db" where
  "attempt_processing e attemptId startedAt attemptNo a = upd_attempt attemptId
     (\<lambda>x. x\<lparr>ra_status := RaProcessing, ra_providerRefundStatus := Some RfProcessing,
            ra_providerRefundNo := an_providerRefundNo a,
            ra_nextRetryAt := Some (startedAt + reconcileBackoffMs attemptNo),
            ra_finishedAt := Some (e_now e)\<rparr>)"

definition attempt_settled :: "env \<Rightarrow> uuid \<Rightarrow> bool \<Rightarrow> refund_answer \<Rightarrow> db \<Rightarrow> db" where
  "attempt_settled e attemptId terminalized a = upd_attempt attemptId
     (\<lambda>x. x\<lparr>ra_status := (if terminalized
                then (if an_status a = AnsSucceeded then RaSucceeded else RaFailed)
                else RaAlreadyTerminal),
            ra_providerRefundStatus := Some (answer_refund_status (an_status a)),
            ra_providerRefundNo := an_providerRefundNo a,
            ra_finishedAt := Some (e_now e)\<rparr>)"

definition provider_query :: "refund_context \<Rightarrow> refund_query" where
  "provider_query cx =
     \<lparr>rq2_refundNo = rf_refundNo (cx_refund cx), rq2_paymentNo = p_paymentNo (cx_payment cx),
      rq2_providerRefundNo = rf_providerRefundNo (cx_refund cx),
      rq2_providerTradeNo = p_providerTradeNo (cx_payment cx),
      rq2_amountCents = rf_amountCents (cx_refund cx)\<rparr>"

definition or_else :: "'a option \<Rightarrow> 'a option \<Rightarrow> 'a option" where
  "or_else a b = (case a of None \<Rightarrow> b | Some x \<Rightarrow> Some x)"

text \<open>An answer that is not processing: succeeded, and everything else counts as failed.\<close>

definition query_input :: "string \<Rightarrow> string \<Rightarrow> ms \<Rightarrow> refund_context \<Rightarrow> refund_answer \<Rightarrow> terminal_input"
  where
  "query_input idPrefix reasonPrefix stamp cx a =
     (let name = (if an_status a = AnsSucceeded then ''succeeded'' else ''failed'') in
      \<lparr>ti_refund = cx_refund cx, ti_providerId = pp_id (cx_provider cx),
       ti_providerRefundNo =
         or_else (an_providerRefundNo a) (rf_providerRefundNo (cx_refund cx)),
       ti_succeeded = (an_status a = AnsSucceeded), ti_eventType = ''refund.'' @ name,
       ti_providerEventId = idPrefix @ name @ '':'' @ rf_refundNo (cx_refund cx) @ '':'' @
         show_int stamp,
       ti_orderEventReason = reasonPrefix @ name,
       ti_failureMessage = (if an_status a = AnsSucceeded then None
                            else Some ''provider_returned_failed''),
       ti_refundedAt = an_refundedAt a, ti_requireOpen = True\<rparr>)"

definition reconcile_refund :: "env \<Rightarrow> ms \<Rightarrow> refund_context \<Rightarrow> db \<Rightarrow> db \<times> (api_error + unit)" where
  "reconcile_refund e now cx db =
     (case e_registry e (pp_code (cx_provider cx)) of
        None \<Rightarrow> (db, Inr ())
      | Some provider \<Rightarrow>
         (case rp_queryRefund provider of
            None \<Rightarrow> (db, Inr ())
          | Some query \<Rightarrow>
             (let refundId = rf_id (cx_refund cx); providerId = pp_id (cx_provider cx);
                  attemptNo = count_where (\<lambda>a. ra_refundId a = refundId)
                                (db_refundAttempts db) + 1 in
              if 12 < attemptNo
              then (insert_attempt refundId providerId Scheduled attemptNo
                      RaMaxAttemptsExceeded (Some ''max_attempts_exceeded'')
                      (Some ''refund query max attempts exceeded; manual provider confirmation required'')
                      now (Some now) db, Inr ())
              else
               (let attemptId = db_next db;
                    db1 = insert_attempt refundId providerId Scheduled attemptNo RaPending
                            None None now None db in
                case query (provider_query cx) of
                  Inl message \<Rightarrow> (attempt_failed e attemptId now attemptNo message db1, Inr ())
                | Inr a \<Rightarrow>
                   (if an_status a = AnsProcessing
                    then (attempt_processing e attemptId now attemptNo a db1, Inr ())
                    else bindS (atomic (settle_refund e (o_fulfillmentState (cx_order cx))
                             (query_input ''reconcile_'' ''reconcile_refund_'' now cx a)) db1)
                      (\<lambda>terminalized db2.
                         (attempt_settled e attemptId terminalized a db2, Inr ())))))))"

definition reconcilable :: "ms \<Rightarrow> db \<Rightarrow> refund_row \<Rightarrow> bool" where
  "reconcilable now db r \<longleftrightarrow> rf_status r = RfProcessing \<and>
     has_event [''refund.processing'', ''refund.request_uncertain''] (rf_id r) db \<and>
     \<not> list_ex (\<lambda>a. ra_refundId a = rf_id r \<and>
          (case ra_nextRetryAt a of None \<Rightarrow> False | Some t \<Rightarrow> now < t)) (db_refundAttempts db) \<and>
     \<not> list_ex (\<lambda>a. ra_refundId a = rf_id r \<and> ra_status a = RaMaxAttemptsExceeded)
          (db_refundAttempts db)"

text \<open>The loop body is inside \<open>try\<close>: what one refund throws is logged and the loop goes on.\<close>

fun reconcile_all :: "env \<Rightarrow> ms \<Rightarrow> refund_context list \<Rightarrow> db \<Rightarrow> db" where
  "reconcile_all e now [] db = db"
| "reconcile_all e now (cx # cxs) db =
     reconcile_all e now cxs (fst (reconcile_refund e now cx db))"

definition reconcileProcessingRefunds :: "env \<Rightarrow> ms \<Rightarrow> db \<Rightarrow> db" where
  "reconcileProcessingRefunds e now db =
     reconcile_all e now (take 20 (List.map_filter (join_refund False db)
       (filter (reconcilable now db) (db_refunds db)))) db"

record query_result =
  qr_status :: refund_status
  qr_reconciled :: bool
  qr_reason :: "string option"

text \<open>A single update outside any transaction is a transaction of its own.\<close>

definition mark_processing_tx ::
    "env \<Rightarrow> refund_row \<Rightarrow> string option \<Rightarrow> db \<Rightarrow> api_error + unit \<times> db" where
  "mark_processing_tx e refund providerRefundNo db =
     bindR (mark_processing e refund providerRefundNo db) (\<lambda>db1. Inr ((), db1))"

definition queryRefund ::
    "env \<Rightarrow> uuid \<Rightarrow> attempt_trigger \<Rightarrow> db \<Rightarrow> db \<times> (api_error + query_result)" where
  "queryRefund e refundId trigger db =
     (case Option.bind (find_refund refundId db) (join_refund False db) of
        None \<Rightarrow> (db, Inl (NotFoundException ''Refund not found''))
      | Some cx \<Rightarrow>
         (let refund = cx_refund cx in
          if rf_status refund \<noteq> RfProcessing \<and> rf_status refund \<noteq> RfCreated
          then (db, Inr \<lparr>qr_status = rf_status refund, qr_reconciled = False,
                         qr_reason = Some ''already_terminal''\<rparr>)
          else case e_registry e (pp_code (cx_provider cx)) of
            None \<Rightarrow> (db, Inl (NotFoundException
                       (''Payment provider '' @ pp_code (cx_provider cx) @ '' not found'')))
          | Some provider \<Rightarrow>
             (case rp_queryRefund provider of
                None \<Rightarrow> (db, Inl (ConflictException ''Refund query is not supported''))
              | Some query \<Rightarrow>
                 (let attemptNo = count_where (\<lambda>a. ra_refundId a = refundId \<and>
                          ra_trigger a = trigger) (db_refundAttempts db) + 1;
                      attemptId = db_next db;
                      db1 = insert_attempt refundId (pp_id (cx_provider cx)) trigger attemptNo
                              RaPending None None (e_now e) None db in
                  case query (provider_query cx) of
                    Inl message \<Rightarrow>
                      (attempt_failed e attemptId (e_now e) attemptNo message db1,
                       Inr \<lparr>qr_status = rf_status refund, qr_reconciled = False,
                            qr_reason = Some ''query_failed''\<rparr>)
                  | Inr a \<Rightarrow>
                     (if an_status a = AnsProcessing
                      then bindS (atomic (mark_processing_tx e refund
                               (or_else (an_providerRefundNo a) (rf_providerRefundNo refund))) db1)
                        (\<lambda>_ db2. (attempt_processing e attemptId (e_now e) attemptNo a db2,
                           Inr \<lparr>qr_status = RfProcessing, qr_reconciled = False,
                                qr_reason = Some ''provider_processing''\<rparr>))
                      else bindS (atomic (settle_refund e (o_fulfillmentState (cx_order cx))
                               (query_input ''manual_query_'' ''manual_query_refund_'' (e_now e)
                                  cx a)) db1)
                        (\<lambda>terminalized db2.
                           (attempt_settled e attemptId terminalized a db2,
                            Inr \<lparr>qr_status = (if an_status a = AnsSucceeded then RfSucceeded
                                              else RfFailed),
                                 qr_reconciled = terminalized,
                                 qr_reason = (if terminalized then None
                                              else Some ''already_terminal'')\<rparr>)))))))"

subsection \<open>Webhooks\<close>

record refund_webhook =
  wh_providerCode :: string
  wh_refundNo :: "string option"
  wh_providerRefundNo :: "string option"
  wh_paymentNo :: "string option"
  wh_providerEventId :: string
  wh_eventType :: string
  wh_refundStatus :: "answer_status option"
  wh_matchedConfigId :: "uuid option"

record webhook_result =
  wr_handled :: bool
  wr_duplicate :: bool
  wr_reason :: "string option"
  wr_refundId :: "uuid option"

text \<open>An identifier counts when it is present and not the empty string.\<close>

definition present :: "string option \<Rightarrow> bool" where
  "present given \<longleftrightarrow> given \<noteq> None \<and> given \<noteq> Some []"

definition matches :: "string option \<Rightarrow> string option \<Rightarrow> bool" where
  "matches given actual \<longleftrightarrow> (present given \<longrightarrow> given = actual)"

definition find_webhook_refund :: "refund_webhook \<Rightarrow> db \<Rightarrow> refund_context option" where
  "find_webhook_refund w db =
     List.find (\<lambda>cx. pp_code (cx_provider cx) = wh_providerCode w \<and>
        matches (wh_refundNo w) (Some (rf_refundNo (cx_refund cx))) \<and>
        matches (wh_providerRefundNo w) (rf_providerRefundNo (cx_refund cx)) \<and>
        matches (wh_paymentNo w) (Some (p_paymentNo (cx_payment cx))))
       (List.map_filter (join_refund False db) (db_refunds db))"

definition webhook_event_status :: "answer_status option \<Rightarrow> refund_status" where
  "webhook_event_status st =
     (if st = Some AnsSucceeded then RfSucceeded
      else if st = Some AnsFailed \<or> st = Some AnsCanceled then RfFailed else RfProcessing)"

definition webhook_input :: "refund_webhook \<Rightarrow> answer_status \<Rightarrow> refund_context \<Rightarrow> terminal_input" where
  "webhook_input w st cx =
     \<lparr>ti_refund = cx_refund cx, ti_providerId = pp_id (cx_provider cx),
      ti_providerRefundNo =
        or_else (wh_providerRefundNo w) (rf_providerRefundNo (cx_refund cx)),
      ti_succeeded = (st = AnsSucceeded), ti_eventType = ''refund.webhook.'' @ answer_name st,
      ti_providerEventId = ''state:'' @ wh_providerEventId w,
      ti_orderEventReason = (if st = AnsSucceeded then ''webhook_refund_succeeded''
                             else ''webhook_refund_failed''),
      ti_failureMessage = (if st = AnsSucceeded then None
                           else Some ''provider_refund_webhook_failed''),
      ti_refundedAt = None, ti_requireOpen = True\<rparr>"

definition webhook_event :: "refund_webhook \<Rightarrow> refund_context \<Rightarrow> refund_event_row" where
  "webhook_event w cx = refund_event (cx_refund cx) (pp_id (cx_provider cx)) (wh_eventType w)
     (wh_providerEventId w)
     (or_else (wh_providerRefundNo w) (rf_providerRefundNo (cx_refund cx)))
     (webhook_event_status (wh_refundStatus w))"

text \<open>
  The handler, once the refund is found and the merchant configuration matches: the event is
  inserted on its own, then the state changes.
\<close>

definition handle_webhook ::
    "env \<Rightarrow> refund_webhook \<Rightarrow> refund_context \<Rightarrow> db \<Rightarrow> db \<times> (api_error + webhook_result)" where
  "handle_webhook e w cx db =
     (let refund = cx_refund cx;
          refundNo = or_else (wh_providerRefundNo w) (rf_providerRefundNo refund);
          handled = (\<lambda>dup. \<lparr>wr_handled = True, wr_duplicate = dup, wr_reason = None,
                        wr_refundId = Some (rf_id refund)\<rparr>) in
      if list_ex (refund_event_conflict (webhook_event w cx)) (db_refundEvents db)
      then (db, Inr (handled True))
      else
       (let db1 = record_event (webhook_event w cx) db in
        case wh_refundStatus w of
          None \<Rightarrow> bindS (atomic (mark_processing_tx e refund refundNo) db1)
                    (\<lambda>_ db2. (db2, Inr (handled False)))
        | Some st \<Rightarrow>
           (if st = AnsProcessing
            then bindS (atomic (mark_processing_tx e refund refundNo) db1)
                   (\<lambda>_ db2. (db2, Inr (handled False)))
            else bindS (atomic (settle_refund e (o_fulfillmentState (cx_order cx))
                    (webhook_input w st cx)) db1)
                   (\<lambda>_ db2. (db2, Inr (handled False))))))"

definition applyProviderRefundWebhook ::
    "env \<Rightarrow> refund_webhook \<Rightarrow> db \<Rightarrow> db \<times> (api_error + webhook_result)" where
  "applyProviderRefundWebhook e w db =
     (let unhandled = (\<lambda>reason. \<lparr>wr_handled = False, wr_duplicate = False,
            wr_reason = Some reason, wr_refundId = None\<rparr>) in
      if \<not> present (wh_refundNo w) \<and> \<not> present (wh_providerRefundNo w) \<and>
         \<not> present (wh_paymentNo w)
      then (db, Inr (unhandled ''refund_identifier_missing''))
      else case find_webhook_refund w db of
        None \<Rightarrow> (db, Inr (unhandled ''refund_not_found''))
      | Some cx \<Rightarrow>
         (if p_paymentProviderConfigId (cx_payment cx) = None \<or>
             wh_matchedConfigId w \<noteq> p_paymentProviderConfigId (cx_payment cx)
          then (db, Inr (unhandled ''refund_config_binding_mismatch''))
          else handle_webhook e w cx db))"

end
