(* ===== verification/Stock_Movements.thy ===== *)
theory Stock_Movements
  imports Inventory Refunds
begin

text \<open>
  \<open>inventory/machine-stock-movements.repository.ts\<close> and
  \<open>inventory/machine-stock-movements.service.ts\<close>: what a machine reports about its stock (a
  refill, a count, a successful dispense), accepted once per movement id, put aside for
  reconciliation, or answered from the stored movement when it is delivered again.

  The service reads before it writes, so \<open>receiveRawMovement\<close> is a plan (the reads) and its
  execution: between them another delivery may run, and the execution deals with the unique
  violation that this leads to. A uuid inside a text is its decimal number.
\<close>

subsection \<open>Repository: reads\<close>

definition findByMachineMovement :: "uuid \<Rightarrow> string \<Rightarrow> db \<Rightarrow> raw_movement_row option" where
  "findByMachineMovement machineId movementId db =
     List.find (\<lambda>r. rw_machineId r = machineId \<and> rw_movementId r = movementId)
       (db_rawMovements db)"

record refund_decision =
  rd_orderId :: uuid
  rd_orderItemIds :: "uuid list"
  rd_amountCents :: int
  rd_metadata :: metadata

definition order_lines :: "uuid \<Rightarrow> db \<Rightarrow> order_item_row list" where
  "order_lines orderId db = filter (\<lambda>oi. oi_orderId oi = orderId) (db_orderItems db)"

definition buildPendingFailedLinePartialRefundDecision ::
    "uuid \<Rightarrow> metadata \<Rightarrow> db \<Rightarrow> refund_decision option" where
  "buildPendingFailedLinePartialRefundDecision orderId meta db =
     (let rows = order_lines orderId db;
          hasOpenLine = list_ex (\<lambda>l. oi_fulfillmentStatus l = LfPending \<or>
                                     oi_fulfillmentStatus l = LfDispensing) rows;
          pendingFailedLines = filter (\<lambda>l. oi_fulfillmentStatus l = LfDispenseFailed \<and>
                                     oi_refundStatus l = LrPending) rows;
          hasDispensedLine = list_ex (\<lambda>l. oi_fulfillmentStatus l = LfDispensed) rows in
      if rows = [] then None
      else if hasOpenLine then None
      else if \<not> hasDispensedLine \<or> pendingFailedLines = [] then None
      else Some \<lparr>rd_orderId = orderId, rd_orderItemIds = map oi_id pendingFailedLines,
             rd_amountCents = sum_list (map (\<lambda>l. oi_unitPriceCents l * oi_quantity l)
                                pendingFailedLines),
             rd_metadata = meta\<rparr>)"

record application_context =
  machineSlotKnown :: bool
  planogramKnown :: bool
  planogramActive :: bool
  slotInPlanogram :: bool

definition find_version :: "uuid \<Rightarrow> string \<Rightarrow> db \<Rightarrow> planogram_version_row option" where
  "find_version machineId version db =
     List.find (\<lambda>v. pv_machineId v = machineId \<and> pv_planogramVersion v = version)
       (db_planogramVersions db)"

definition getMovementApplicationContext ::
    "uuid \<Rightarrow> string \<Rightarrow> uuid \<Rightarrow> db \<Rightarrow> application_context" where
  "getMovementApplicationContext machineId version slotId db =
     \<lparr>machineSlotKnown = list_ex (\<lambda>s. sl_machineId s = machineId \<and> sl_id s = slotId \<and>
                                     sl_deletedAt s = None) (db_slots db),
      planogramKnown = (find_version machineId version db \<noteq> None),
      planogramActive = (case find_version machineId version db of
          None \<Rightarrow> False | Some v \<Rightarrow> pv_status v = PgActive),
      slotInPlanogram = (case find_version machineId version db of
          None \<Rightarrow> False
        | Some v \<Rightarrow> list_ex (\<lambda>p. pg_machinePlanogramVersionId p = pv_id v \<and> pg_slotId p = slotId)
                     (db_planogramSlots db))\<rparr>"

definition getActiveAcknowledgedPlanogramSlot ::
    "uuid \<Rightarrow> string \<Rightarrow> uuid \<Rightarrow> db \<Rightarrow> planogram_slot_row option" where
  "getActiveAcknowledgedPlanogramSlot machineId version slotId db =
     List.find (\<lambda>p. pg_slotId p = slotId \<and>
        list_ex (\<lambda>v. pv_id v = pg_machinePlanogramVersionId p \<and> pv_machineId v = machineId \<and>
          pv_planogramVersion v = version \<and> pv_status v = PgActive \<and>
          pv_acknowledgedAt v \<noteq> None) (db_planogramVersions db))
       (db_planogramSlots db)"

record confirmation_context =
  cc_orderId :: uuid
  cc_orderItemId :: uuid
  cc_inventoryId :: uuid
  cc_quantity :: int
  cc_vendingCommandId :: uuid

text \<open>The six conditions on the product snapshot of the line.\<close>

definition snapshot_matches :: "raw_movement \<Rightarrow> order_context \<Rightarrow> order_item_row \<Rightarrow> bool" where
  "snapshot_matches m oc oi \<longleftrightarrow>
     (let ps = oi_productSnapshot oi in
      ps_planogramVersion ps = Some (rm_planogramVersion m) \<and>
      ps_slotId ps = Some (rm_slotId m) \<and> ps_inventoryId ps = Some (oc_inventoryId oc) \<and>
      ps_variantId ps = Some (oi_variantId oi) \<and> ps_productId ps \<noteq> None \<and>
      ps_vendingCommandQuantity ps = Some (rm_quantity m))"

definition context_joins ::
    "uuid \<Rightarrow> raw_movement \<Rightarrow> order_context \<Rightarrow> order_row \<Rightarrow> order_item_row \<Rightarrow> reservation_row \<Rightarrow>
     command_row \<Rightarrow> bool" where
  "context_joins machineId m oc ord oi rv vc \<longleftrightarrow>
     oi_orderId oi = o_id ord \<and> rv_orderId rv = o_id ord \<and>
     rv_inventoryId rv = oi_inventoryId oi \<and> rv_orderItemId rv = Some (oi_id oi) \<and>
     vc_orderId vc = o_id ord \<and> vc_orderItemId vc = Some (oi_id oi) \<and>
     o_machineId ord = machineId \<and> o_orderNo ord = oc_orderNo oc \<and>
     oi_id oi = oc_orderItemId oc \<and> oi_inventoryId oi = oc_inventoryId oc \<and>
     oi_slotId oi = rm_slotId m \<and> oi_quantity oi = rm_quantity m \<and>
     rv_status rv = RsActive \<and> rm_quantity m \<le> rv_quantity rv \<and>
     vc_commandNo vc = oc_vendingCommandNo oc \<and> vc_slotId vc = rm_slotId m \<and>
     dp_quantity (vc_payloadJson vc) = rm_quantity m \<and> snapshot_matches m oc oi"

definition getOrderBoundDispenseConfirmationContext ::
    "uuid \<Rightarrow> raw_movement \<Rightarrow> db \<Rightarrow> confirmation_context option" where
  "getOrderBoundDispenseConfirmationContext machineId m db =
     (case rm_orderContext m of
        None \<Rightarrow> None
      | Some oc \<Rightarrow>
         (if rm_quantity m \<le> 0 then None
          else (case [\<lparr>cc_orderId = o_id ord, cc_orderItemId = oi_id oi,
                       cc_inventoryId = oi_inventoryId oi, cc_quantity = oi_quantity oi,
                       cc_vendingCommandId = vc_id vc\<rparr>.
                     ord \<leftarrow> db_orders db, oi \<leftarrow> db_orderItems db, rv \<leftarrow> db_reservations db,
                     vc \<leftarrow> db_commands db, context_joins machineId m oc ord oi rv vc] of
                  [] \<Rightarrow> None
                | cc # _ \<Rightarrow> Some cc)))"

definition movement_note :: "uuid \<Rightarrow> string" where
  "movement_note rawMovementId = ''machine_stock_movement:'' @ show_int (int rawMovementId)"

record accepted_movement =
  am_movementId :: string
  am_orderId :: uuid
  am_vendingCommandId :: uuid
  am_quantity :: int
  am_beforeQuantity :: "int option"
  am_afterQuantity :: "int option"
  am_deltaQuantity :: int

definition evidence_joins ::
    "uuid \<Rightarrow> uuid \<Rightarrow> uuid \<Rightarrow> raw_movement_row \<Rightarrow> order_row \<Rightarrow> command_row \<Rightarrow> movement_row \<Rightarrow> bool"
  where
  "evidence_joins machineId orderId commandId rw ord vc mv \<longleftrightarrow>
     rw_machineId rw = machineId \<and> rw_status rw = RwAccepted \<and>
     rm_movementType (rw_payloadJson rw) = DispenseSucceeded \<and>
     o_id ord = orderId \<and> o_machineId ord = machineId \<and>
     vc_id vc = commandId \<and> vc_orderId vc = o_id ord \<and>
     (case rm_orderContext (rw_payloadJson rw) of
        None \<Rightarrow> False
      | Some oc \<Rightarrow> oc_orderNo oc = o_orderNo ord \<and> oc_vendingCommandNo oc = vc_commandNo vc) \<and>
     mv_orderId mv = Some (o_id ord) \<and> mv_reason mv = MrPurchaseConfirmed \<and>
     mv_note mv = Some (movement_note (rw_id rw))"

definition findAcceptedOrderBoundDispenseMovement ::
    "uuid \<Rightarrow> uuid \<Rightarrow> uuid \<Rightarrow> db \<Rightarrow> accepted_movement option" where
  "findAcceptedOrderBoundDispenseMovement machineId orderId commandId db =
     (case [\<lparr>am_movementId = rw_movementId rw, am_orderId = o_id ord,
             am_vendingCommandId = vc_id vc, am_quantity = rm_quantity (rw_payloadJson rw),
             am_beforeQuantity = rm_beforeQuantity (rw_payloadJson rw),
             am_afterQuantity = rm_afterQuantity (rw_payloadJson rw),
             am_deltaQuantity = mv_deltaQty mv\<rparr>.
           rw \<leftarrow> db_rawMovements db, ord \<leftarrow> db_orders db, vc \<leftarrow> db_commands db,
           mv \<leftarrow> db_movements db, evidence_joins machineId orderId commandId rw ord vc mv] of
        [] \<Rightarrow> None
      | am # _ \<Rightarrow> Some am)"

definition getAcceptedOrderBoundDispenseMovement ::
    "uuid \<Rightarrow> uuid \<Rightarrow> uuid \<Rightarrow> db \<Rightarrow> accepted_movement option" where
  "getAcceptedOrderBoundDispenseMovement machineId orderId commandId db =
     (case findAcceptedOrderBoundDispenseMovement machineId orderId commandId db of
        None \<Rightarrow> None
      | Some am \<Rightarrow> if am_quantity am \<le> 0 \<or> am_deltaQuantity am \<noteq> - am_quantity am then None
                  else Some am)"

subsection \<open>Repository: raw movements\<close>

record reconciliation =
  rn_reason :: recon_reason
  rn_reviewStatus :: review_status
  rn_blockerState :: "blocker_state option"
  rn_blockerSlotId :: "uuid option"

text \<open>\<open>None\<close> is the status \<open>accepted\<close> with no reconciliation.\<close>

definition insertRawInto ::
    "env \<Rightarrow> uuid \<Rightarrow> raw_movement \<Rightarrow> metadata \<Rightarrow> string \<Rightarrow> reconciliation option \<Rightarrow> db \<Rightarrow>
     api_error + raw_movement_row \<times> db" where
  "insertRawInto e machineId m normalized payloadHash recon db =
     (let row = \<lparr>rw_id = db_next db, rw_machineId = machineId,
            rw_movementId = rm_movementId m, rw_payloadHash = payloadHash, rw_payloadJson = m,
            rw_normalizedJson = normalized, rw_receivedAt = e_now e,
            rw_status = (if recon = None then RwAccepted else RwReconciliation),
            rw_reconciliationReason = map_option rn_reason recon,
            rw_platformReviewStatus = map_option rn_reviewStatus recon,
            rw_saleSafetyBlockerState = Option.bind recon rn_blockerState,
            rw_saleSafetyBlockerSlotId = Option.bind recon rn_blockerSlotId\<rparr> in
      if rm_quantity m < 0 \<or> INT4_MAX < rm_quantity m
      then Inl (ConstraintViolation ''machine_raw_stock_movements_quantity_non_negative'')
      else if findByMachineMovement machineId (rm_movementId m) db \<noteq> None
      then Inl (ConstraintViolation ''machine_raw_stock_movements_machine_movement_unique'')
      else Inr (row, db\<lparr>db_rawMovements := db_rawMovements db @ [row],
                        db_next := db_next db + 1\<rparr>))"

definition insertConflictReconciliation ::
    "env \<Rightarrow> uuid \<Rightarrow> uuid \<Rightarrow> raw_movement \<Rightarrow> metadata \<Rightarrow> string \<Rightarrow> reconciliation \<Rightarrow> db \<Rightarrow>
     raw_conflict_row \<times> db" where
  "insertConflictReconciliation e machineId rawMovementId m normalized payloadHash recon db =
     (let row = \<lparr>cf_id = db_next db, cf_rawMovementId = rawMovementId, cf_machineId = machineId,
            cf_movementId = rm_movementId m, cf_payloadHash = payloadHash, cf_payloadJson = m,
            cf_normalizedJson = normalized, cf_receivedAt = e_now e,
            cf_reconciliationReason = rn_reason recon,
            cf_platformReviewStatus = rn_reviewStatus recon,
            cf_saleSafetyBlockerState = rn_blockerState recon,
            cf_saleSafetyBlockerSlotId = rn_blockerSlotId recon\<rparr>
      in (row, db\<lparr>db_rawConflicts := db_rawConflicts db @ [row], db_next := db_next db + 1\<rparr>))"

definition markReconciliation :: "uuid \<Rightarrow> string \<Rightarrow> reconciliation \<Rightarrow> db \<Rightarrow> db" where
  "markReconciliation machineId movementId recon db = db\<lparr>db_rawMovements := upd_where
     (\<lambda>r. rw_machineId r = machineId \<and> rw_movementId r = movementId)
     (\<lambda>r. r\<lparr>rw_status := RwReconciliation, rw_reconciliationReason := Some (rn_reason recon),
            rw_platformReviewStatus := Some (rn_reviewStatus recon),
            rw_saleSafetyBlockerState := rn_blockerState recon,
            rw_saleSafetyBlockerSlotId := rn_blockerSlotId recon\<rparr>) (db_rawMovements db)\<rparr>"

definition restoreSlotAfterAcceptedLocalMaintenance :: "env \<Rightarrow> uuid \<Rightarrow> uuid \<Rightarrow> db \<Rightarrow> db" where
  "restoreSlotAfterAcceptedLocalMaintenance e machineId slotId db = db
     \<lparr>db_slots := upd_where (\<lambda>s. sl_machineId s = machineId \<and> sl_id s = slotId \<and>
            sl_status s = SsFaulted \<and> sl_deletedAt s = None)
          (\<lambda>s. s\<lparr>sl_status := SsEnabled, sl_updatedAt := e_now e\<rparr>) (db_slots db),
      db_rawMovements := upd_where (\<lambda>r. rw_machineId r = machineId \<and>
            rw_saleSafetyBlockerSlotId r = Some slotId \<and>
            rw_platformReviewStatus r = Some RvOpen \<and> rw_saleSafetyBlockerState r \<noteq> None)
          (\<lambda>r. r\<lparr>rw_platformReviewStatus := Some RvResolved\<rparr>) (db_rawMovements db),
      db_rawConflicts := upd_where (\<lambda>r. cf_machineId r = machineId \<and>
            cf_saleSafetyBlockerSlotId r = Some slotId \<and>
            cf_platformReviewStatus r = RvOpen \<and> cf_saleSafetyBlockerState r \<noteq> None)
          (\<lambda>r. r\<lparr>cf_platformReviewStatus := RvResolved\<rparr>) (db_rawConflicts db)\<rparr>"

subsection \<open>Repository: stock of refills and counts\<close>

definition applyTrustedFieldStockMovement ::
    "env \<Rightarrow> uuid \<Rightarrow> uuid \<Rightarrow> raw_movement \<Rightarrow> db \<Rightarrow> api_error + bool \<times> db" where
  "applyTrustedFieldStockMovement e machineId rawMovementId m db =
     (case (Option.bind (rm_slotMappingSnapshot m) sm_inventoryId,
            Option.bind (rm_slotMappingSnapshot m) sm_variantId,
            rm_beforeQuantity m, rm_afterQuantity m) of
        (Some inventoryId, Some variantId, Some beforeQuantity, Some afterQuantity) \<Rightarrow>
          (let target = (\<lambda>r. inv_id r = inventoryId \<and> inv_machineId r = machineId \<and>
                  inv_slotId r = rm_slotId m \<and> inv_variantId r = variantId);
               counted = (rm_movementType m = StockCountCorrection);
               guard = (\<lambda>r. target r \<and> (counted \<or> inv_onHandQty r = beforeQuantity));
               deltaQty = (if counted
                 then (case List.find target (db_inventories db) of
                         None \<Rightarrow> afterQuantity - beforeQuantity
                       | Some r \<Rightarrow> afterQuantity - inv_onHandQty r)
                 else afterQuantity - beforeQuantity) in
           bindR (update_inventories guard
              (\<lambda>r. r\<lparr>inv_onHandQty := afterQuantity, inv_updatedAt := e_now e\<rparr>) db)
           (\<lambda>(rowCount, db1).
              if rowCount \<noteq> 1 then Inr (False, db1)
              else bindR (insert_movement inventoryId deltaQty MrHardwareSync None None
                            (Some (movement_note rawMovementId)) db1)
                (\<lambda>db2. Inr (True, db2))))
      | _ \<Rightarrow> Inr (False, db))"

subsection \<open>Repository: the confirmation of a sale\<close>

definition lines_fulfillment :: "line_fulfillment_status list \<Rightarrow> order_fulfillment_state" where
  "lines_fulfillment sts =
     (let dispensed = count_where (\<lambda>s. s = LfDispensed) sts;
          failed = count_where (\<lambda>s. s = LfDispenseFailed) sts in
      if list_ex (\<lambda>s. s = LfManualHandling) sts then FsManualHandling
      else if dispensed = length sts then FsDispensed
      else if failed = length sts then FsDispenseFailed
      else if 0 < dispensed \<and> 0 < failed then FsPartialDispensed
      else if 0 < failed then FsDispenseFailed
      else FsDispensing)"

text \<open>What both services do with a new fulfilment state: nothing when it is the stored one.\<close>

definition set_fulfillment ::
    "env \<Rightarrow> uuid \<Rightarrow> order_fulfillment_state \<Rightarrow> string \<Rightarrow> metadata option \<Rightarrow> ms option \<Rightarrow> db \<Rightarrow> db"
  where
  "set_fulfillment e orderId fulfillmentState reason meta dispensedAt db =
     (case find_order orderId db of
        None \<Rightarrow> db
      | Some current \<Rightarrow>
         (if o_fulfillmentState current = fulfillmentState then db
          else let projected = projectOrderStatus (o_paymentState current) fulfillmentState in
            log_status orderId (Some (o_status current)) projected reason meta
              (upd_orders (\<lambda>x. o_id x = orderId)
                (\<lambda>x. x\<lparr>o_status := projected, o_fulfillmentState := fulfillmentState,
                       o_dispensedAt := (if fulfillmentState = FsDispensed
                          then Some (case dispensedAt of None \<Rightarrow> e_now e | Some t \<Rightarrow> t)
                          else None),
                       o_updatedAt := e_now e\<rparr>) db)))"

definition syncOrderFulfillmentStateFromLines ::
    "env \<Rightarrow> uuid \<Rightarrow> string \<Rightarrow> metadata option \<Rightarrow> ms option \<Rightarrow> db \<Rightarrow> db" where
  "syncOrderFulfillmentStateFromLines e orderId reason meta dispensedAt db =
     (let rows = order_lines orderId db in
      if rows = [] then db
      else set_fulfillment e orderId (lines_fulfillment (map oi_fulfillmentStatus rows))
             reason meta dispensedAt db)"

fun error_message :: "api_error \<Rightarrow> string" where
  "error_message (NotFoundException s) = s"
| "error_message (BadRequestException s) = s"
| "error_message (UnauthorizedException s) = s"
| "error_message (ConflictException s) = s"
| "error_message (UnprocessableEntityException s) = s"
| "error_message (ConstraintViolation s) = s"
| "error_message ZodError = ''ZodError''"
| "error_message (OrderBoundDispenseConfirmationFailedError s) = s"
| "error_message (OtherError s) = s"

definition confirmation_failed :: "string \<Rightarrow> api_error + 'a" where
  "confirmation_failed s = Inl (OrderBoundDispenseConfirmationFailedError s)"

definition claimable_command :: "vending_command_status \<Rightarrow> bool" where
  "claimable_command st \<longleftrightarrow> st \<in> {VcPending, VcSent, VcAcknowledged, VcResultUnknown, VcTimeout}"

definition upd_commands :: "(command_row \<Rightarrow> bool) \<Rightarrow> (command_row \<Rightarrow> command_row) \<Rightarrow> db \<Rightarrow> db" where
  "upd_commands p f db = db\<lparr>db_commands := upd_where p f (db_commands db)\<rparr>"

definition succeed_command :: "env \<Rightarrow> ms \<Rightarrow> command_row \<Rightarrow> command_row" where
  "succeed_command e occurredAt c = c\<lparr>vc_status := VcSucceeded, vc_resultAt := Some occurredAt,
     vc_lastError := None, vc_updatedAt := e_now e\<rparr>"

text \<open>The reservations of the line that the confirmation consumes.\<close>

definition consumed :: "confirmation_context \<Rightarrow> reservation_row \<Rightarrow> bool" where
  "consumed cc r \<longleftrightarrow> rv_orderId r = cc_orderId cc \<and> rv_inventoryId r = cc_inventoryId cc \<and>
     rv_orderItemId r = Some (cc_orderItemId cc) \<and> rv_status r = RsActive"

definition confirm_locks :: "uuid \<Rightarrow> confirmation_context \<Rightarrow> db \<Rightarrow> api_error + unit" where
  "confirm_locks machineId cc db =
     bindR (lockMachineForVendingMutation machineId db)
     (\<lambda>_. case bindR (lockOrderForVendingMutation (cc_orderId cc) db)
                (\<lambda>_. lockInventoriesForVendingMutation [cc_inventoryId cc] db) of
            Inl err \<Rightarrow> confirmation_failed (error_message err)
          | Inr u \<Rightarrow> Inr u)"

definition confirm_stock :: "env \<Rightarrow> uuid \<Rightarrow> confirmation_context \<Rightarrow> db \<Rightarrow> api_error + db" where
  "confirm_stock e rawMovementId cc db =
     bindR (update_inventories
        (\<lambda>r. inv_id r = cc_inventoryId cc \<and> cc_quantity cc \<le> inv_onHandQty r \<and>
             cc_quantity cc \<le> inv_reservedQty r \<and>
             list_ex (\<lambda>v. consumed cc v \<and> cc_quantity cc \<le> rv_quantity v) (db_reservations db))
        (\<lambda>r. r\<lparr>inv_onHandQty := inv_onHandQty r - cc_quantity cc,
               inv_reservedQty := inv_reservedQty r - cc_quantity cc,
               inv_updatedAt := e_now e\<rparr>) db)
     (\<lambda>(rowCount, db1).
        if rowCount \<noteq> 1 then confirmation_failed ''Reserved inventory could not be confirmed''
        else if \<not> list_ex (consumed cc) (db_reservations db1)
        then confirmation_failed ''Inventory reservation could not be confirmed''
        else insert_movement (cc_inventoryId cc) (- cc_quantity cc) MrPurchaseConfirmed
               (Some (cc_orderId cc)) None (Some (movement_note rawMovementId))
               (db1\<lparr>db_reservations := upd_where (consumed cc)
                  (\<lambda>r. r\<lparr>rv_status := RsConfirmed, rv_updatedAt := e_now e\<rparr>)
                  (db_reservations db1)\<rparr>))"

definition confirmOrderBoundDispenseSucceededInTransaction ::
    "env \<Rightarrow> uuid \<Rightarrow> uuid \<Rightarrow> raw_movement \<Rightarrow> confirmation_context \<Rightarrow> db \<Rightarrow> api_error + db" where
  "confirmOrderBoundDispenseSucceededInTransaction e machineId rawMovementId m cc db =
     bindR (confirm_locks machineId cc db) (\<lambda>_.
       let claim = (\<lambda>c. vc_id c = cc_vendingCommandId cc \<and> claimable_command (vc_status c)) in
       if \<not> list_ex claim (db_commands db)
       then confirmation_failed ''Vending command is not claimable for success''
       else bindR (confirm_stock e rawMovementId cc
                     (upd_commands claim (succeed_command e (rm_occurredAt m)) db)) (\<lambda>db1.
         if \<not> list_ex (\<lambda>oi. oi_id oi = cc_orderItemId cc) (db_orderItems db1)
         then confirmation_failed ''Order item could not be fulfilled''
         else
          (let db2 = upd_items (\<lambda>oi. oi_id oi = cc_orderItemId cc)
                 (\<lambda>oi. oi\<lparr>oi_fulfillmentStatus := LfDispensed, oi_refundStatus := LrNotRequired,
                         oi_fulfilledAt := Some (rm_occurredAt m)\<rparr>) db1;
               meta = [(''rawMovementId'', JId rawMovementId)];
               db3 = syncOrderFulfillmentStateFromLines e (cc_orderId cc)
                 ''machine_stock_dispense_succeeded'' (Some meta) (Some (rm_occurredAt m)) db2
           in case buildPendingFailedLinePartialRefundDecision (cc_orderId cc) meta db3 of
                None \<Rightarrow> Inr db3
              | Some d \<Rightarrow> stageAutomaticPartialRefund e (rd_orderId d) (rd_orderItemIds d)
                           (rd_amountCents d) (rd_metadata d) db3)))"

definition insertAcceptedWithOrderBoundDispenseConfirmation ::
    "env \<Rightarrow> uuid \<Rightarrow> raw_movement \<Rightarrow> metadata \<Rightarrow> string \<Rightarrow> confirmation_context \<Rightarrow> db \<Rightarrow>
     api_error + raw_movement_row option \<times> db" where
  "insertAcceptedWithOrderBoundDispenseConfirmation e machineId m normalized payloadHash cc db =
     (case bindR (insertRawInto e machineId m normalized payloadHash None db)
             (\<lambda>(stored, db1). bindR (confirmOrderBoundDispenseSucceededInTransaction e machineId
                 (rw_id stored) m cc db1) (\<lambda>db2. Inr (Some stored, db2))) of
        Inl (OrderBoundDispenseConfirmationFailedError _) \<Rightarrow> Inr (None, db)
      | result \<Rightarrow> result)"

definition confirmOrderBoundDispenseSucceeded ::
    "env \<Rightarrow> uuid \<Rightarrow> uuid \<Rightarrow> raw_movement \<Rightarrow> confirmation_context \<Rightarrow> db \<Rightarrow> api_error + bool \<times> db"
  where
  "confirmOrderBoundDispenseSucceeded e machineId rawMovementId m cc db =
     (case confirmOrderBoundDispenseSucceededInTransaction e machineId rawMovementId m cc db of
        Inl (OrderBoundDispenseConfirmationFailedError _) \<Rightarrow> Inr (False, db)
      | Inl err \<Rightarrow> Inl err
      | Inr db1 \<Rightarrow> Inr (True, db1))"

definition repairAcceptedOrderBoundDispenseCommand ::
    "env \<Rightarrow> uuid \<Rightarrow> raw_movement \<Rightarrow> db \<Rightarrow> bool \<times> db" where
  "repairAcceptedOrderBoundDispenseCommand e machineId m db =
     (case rm_orderContext m of
        None \<Rightarrow> (False, db)
      | Some oc \<Rightarrow>
         (let mine = (\<lambda>c. vc_machineId c = machineId \<and> vc_commandNo c = oc_vendingCommandNo oc \<and>
                (claimable_command (vc_status c) \<or> vc_status c = VcSucceeded)) in
          if oc_vendingCommandNo oc = [] then (False, db)
          else (list_ex mine (db_commands db),
                upd_commands mine (succeed_command e (rm_occurredAt m)) db)))"

subsection \<open>Service: reconciliation rules\<close>

definition needs_review :: "uuid \<Rightarrow> recon_reason \<Rightarrow> reconciliation" where
  "needs_review slotId reason =
     \<lparr>rn_reason = reason, rn_reviewStatus = RvOpen,
      rn_blockerState = Some NeedsPlatformReview, rn_blockerSlotId = Some slotId\<rparr>"

definition planogram_blocked :: "uuid \<Rightarrow> recon_reason \<Rightarrow> reconciliation" where
  "planogram_blocked slotId reason =
     \<lparr>rn_reason = reason, rn_reviewStatus = RvOpen,
      rn_blockerState = Some BlockedForPlanogramChange, rn_blockerSlotId = Some slotId\<rparr>"

definition movementConflictReconciliation :: "uuid \<Rightarrow> reconciliation" where
  "movementConflictReconciliation slotId =
     \<lparr>rn_reason = RrMovementIdPayloadConflict, rn_reviewStatus = RvOpen,
      rn_blockerState = Some MovementRejected, rn_blockerSlotId = Some slotId\<rparr>"

definition reconciliationForMovement :: "uuid \<Rightarrow> raw_movement \<Rightarrow> db \<Rightarrow> reconciliation option" where
  "reconciliationForMovement machineId m db =
     (let context = getMovementApplicationContext machineId (rm_planogramVersion m)
            (rm_slotId m) db in
      if \<not> machineSlotKnown context then Some (needs_review (rm_slotId m) RrUnknownSlot)
      else if \<not> planogramKnown context
        then Some (planogram_blocked (rm_slotId m) RrUnknownPlanogramVersion)
      else if \<not> planogramActive context
        then Some (planogram_blocked (rm_slotId m) RrInactivePlanogramVersion)
      else if \<not> slotInPlanogram context
        then Some (planogram_blocked (rm_slotId m) RrMappingMismatch)
      else None)"

definition isFieldStockMovement :: "raw_movement \<Rightarrow> bool" where
  "isFieldStockMovement m \<longleftrightarrow> rm_movementType m \<in> {PlannedRefill, StockCountCorrection}"

definition isOperatorVerifiedRecoveryMovement :: "raw_movement \<Rightarrow> bool" where
  "isOperatorVerifiedRecoveryMovement m \<longleftrightarrow> isFieldStockMovement m \<and>
     (rm_source m = ''local_maintenance'' \<or> rm_source m = ''physical_stock_attestation'')"

definition slotMappingSnapshotMatchesPlatformSlot :: "slot_mapping \<Rightarrow> planogram_slot_row \<Rightarrow> bool" where
  "slotMappingSnapshotMatchesPlatformSlot snapshot platformSlot \<longleftrightarrow>
     sm_capacity snapshot = pg_capacity platformSlot \<and>
     sm_inventoryId snapshot = Some (pg_inventoryId platformSlot) \<and>
     sm_variantId snapshot = Some (pg_variantId platformSlot)"

text \<open>The rules on the reported numbers, once they and the mapping are all there.\<close>

definition abnormal_variance :: "raw_movement \<Rightarrow> int \<Rightarrow> int \<Rightarrow> int \<Rightarrow> bool" where
  "abnormal_variance m capacity beforeQuantity afterQuantity \<longleftrightarrow>
     capacity < beforeQuantity \<or> capacity < afterQuantity \<or>
     (rm_movementType m = PlannedRefill \<and> afterQuantity - beforeQuantity \<noteq> rm_quantity m) \<or>
     (rm_movementType m = StockCountCorrection \<and> afterQuantity \<noteq> rm_quantity m)"

definition weak_source :: "raw_movement \<Rightarrow> bool" where
  "weak_source m \<longleftrightarrow>
     (rm_movementType m = StockCountCorrection \<and>
      rm_source m \<notin> {''approved_count'', ''platform_approved_count'',
        ''physical_stock_attestation'', ''local_maintenance''}) \<or>
     (rm_movementType m = PlannedRefill \<and> rm_source m \<noteq> ''local_maintenance'')"

definition attributed :: "raw_movement \<Rightarrow> bool" where
  "attributed m \<longleftrightarrow> (case rm_attributedTo m of None \<Rightarrow> False | Some s \<Rightarrow> js_trim s \<noteq> [])"

definition reconciliationForFieldStockMovement ::
    "uuid \<Rightarrow> raw_movement \<Rightarrow> db \<Rightarrow> reconciliation option" where
  "reconciliationForFieldStockMovement machineId m db =
     (let review = needs_review (rm_slotId m) in
      if \<not> isFieldStockMovement m then None
      else if \<not> attributed m then Some (review RrWeakAttribution)
      else case (rm_beforeQuantity m, rm_afterQuantity m, rm_slotMappingSnapshot m) of
        (Some beforeQuantity, Some afterQuantity, Some snapshot) \<Rightarrow>
          (if sm_inventoryId snapshot = None \<or> sm_variantId snapshot = None
           then Some (review RrMappingMismatch)
           else if abnormal_variance m (sm_capacity snapshot) beforeQuantity afterQuantity
           then Some (review RrAbnormalVariance)
           else if weak_source m then Some (review RrWeakAttribution)
           else case getActiveAcknowledgedPlanogramSlot machineId (rm_planogramVersion m)
                       (rm_slotId m) db of
             None \<Rightarrow> Some (review RrMappingMismatch)
           | Some platformSlot \<Rightarrow>
               if slotMappingSnapshotMatchesPlatformSlot snapshot platformSlot then None
               else Some (review RrMappingMismatch))
      | _ \<Rightarrow> Some (review RrMappingMismatch))"

subsection \<open>Service: normal form and responses\<close>

fun movement_type_string :: "movement_type \<Rightarrow> string" where
  "movement_type_string PlannedRefill = ''planned_refill''"
| "movement_type_string StockCountCorrection = ''stock_count_correction''"
| "movement_type_string DispenseSucceeded = ''dispense_succeeded''"

definition json_option :: "('a \<Rightarrow> json) \<Rightarrow> 'a option \<Rightarrow> json" where
  "json_option f x = (case x of None \<Rightarrow> JNull | Some a \<Rightarrow> f a)"

text \<open>\<open>JSON.stringify\<close> leaves out a property that is undefined.\<close>

definition json_field :: "string \<Rightarrow> ('a \<Rightarrow> json) \<Rightarrow> 'a option \<Rightarrow> (string \<times> json) list" where
  "json_field name f x = (case x of None \<Rightarrow> [] | Some a \<Rightarrow> [(name, f a)])"

definition mapping_json :: "slot_mapping \<Rightarrow> json" where
  "mapping_json s = JObj ([(''capacity'', JInt (sm_capacity s))] @
     json_field ''inventoryId'' JId (sm_inventoryId s) @
     json_field ''variantId'' JId (sm_variantId s))"

definition order_context_json :: "order_context \<Rightarrow> json" where
  "order_context_json oc = JObj [(''orderNo'', JStr (oc_orderNo oc)),
     (''orderItemId'', JId (oc_orderItemId oc)),
     (''vendingCommandNo'', JStr (oc_vendingCommandNo oc)),
     (''inventoryId'', JId (oc_inventoryId oc))]"

definition normalizeRawMovement :: "env \<Rightarrow> raw_movement \<Rightarrow> metadata" where
  "normalizeRawMovement e m =
     [(''machineCode'', json_option JStr (rm_machineCode m)),
      (''movementId'', JStr (rm_movementId m)),
      (''planogramVersion'', JStr (rm_planogramVersion m)),
      (''slotId'', JId (rm_slotId m)),
      (''movementType'', JStr (movement_type_string (rm_movementType m))),
      (''quantity'', JInt (rm_quantity m)),
      (''beforeQuantity'', json_option JInt (rm_beforeQuantity m)),
      (''afterQuantity'', json_option JInt (rm_afterQuantity m)),
      (''slotMappingSnapshot'', json_option mapping_json (rm_slotMappingSnapshot m)),
      (''source'', JStr (rm_source m)),
      (''attributedTo'', json_option JStr (rm_attributedTo m)),
      (''orderContext'', json_option order_context_json (rm_orderContext m)),
      (''occurredAt'', JStr (e_toISOString e (rm_occurredAt m)))]"

record blocker =
  bl_slotId :: uuid
  bl_slotSalesState :: blocker_state
  bl_reason :: recon_reason

datatype ingestion_response =
  Accepted string ms uuid string            \<comment> \<open>movement, accepted at, receipt\<close>
| AlreadyAccepted string ms uuid string
| Rejected string string string             \<comment> \<open>movement, reason, received hash\<close>
| Reconciled string uuid string recon_reason "blocker option"
| ConflictReconciled string uuid string recon_reason "blocker option" string string
    \<comment> \<open>with the hash of the stored movement and the received one\<close>

definition saleSafetyBlocker :: "reconciliation \<Rightarrow> blocker option" where
  "saleSafetyBlocker recon =
     (case (rn_blockerState recon, rn_blockerSlotId recon) of
        (Some st, Some slotId) \<Rightarrow> Some \<lparr>bl_slotId = slotId, bl_slotSalesState = st,
                                      bl_reason = rn_reason recon\<rparr>
      | _ \<Rightarrow> None)"

definition reconciliationResponse ::
    "string \<Rightarrow> raw_movement_row \<Rightarrow> reconciliation \<Rightarrow> ingestion_response" where
  "reconciliationResponse movementId row recon =
     Reconciled movementId (rw_id row) (rw_payloadHash row) (rn_reason recon)
       (saleSafetyBlocker recon)"

definition responseForExisting ::
    "env \<Rightarrow> uuid \<Rightarrow> raw_movement \<Rightarrow> metadata \<Rightarrow> raw_movement_row \<Rightarrow> string \<Rightarrow> db \<Rightarrow>
     ingestion_response \<times> db" where
  "responseForExisting e machineId m normalized existing payloadHash db =
     (let movementId = rm_movementId m;
          already = AlreadyAccepted movementId (rw_receivedAt existing) (rw_id existing)
            (rw_payloadHash existing) in
      if rw_payloadHash existing = payloadHash
      then
       (if rw_status existing = RwReconciliation
        then (reconciliationResponse movementId existing
               \<lparr>rn_reason = (case rw_reconciliationReason existing of
                     None \<Rightarrow> RrUnknownSlot | Some r \<Rightarrow> r),
                rn_reviewStatus = RvOpen,
                rn_blockerState = rw_saleSafetyBlockerState existing,
                rn_blockerSlotId = rw_saleSafetyBlockerSlotId existing\<rparr>, db)
        else if rw_status existing = RwAccepted \<and> rm_movementType m = DispenseSucceeded
        then (let (repaired, db1) = repairAcceptedOrderBoundDispenseCommand e machineId m db in
              if repaired then (already, db1)
              else (Rejected movementId ''order_confirmation_failed'' payloadHash, db1))
        else (already, db))
      else
       (let recon = movementConflictReconciliation (rm_slotId m);
            (row, db1) = insertConflictReconciliation e machineId (rw_id existing) m normalized
              payloadHash recon db in
        (ConflictReconciled movementId (cf_id row) (cf_payloadHash row) (rn_reason recon)
           (saleSafetyBlocker recon) (rw_payloadHash existing) payloadHash, db1)))"

subsection \<open>Service: receiveRawMovement\<close>

datatype ingestion_plan =
  AnswerExisting raw_movement_row
| PutAside reconciliation
| AcceptSale confirmation_context
| AcceptField

definition plan_field :: "uuid \<Rightarrow> raw_movement \<Rightarrow> db \<Rightarrow> ingestion_plan" where
  "plan_field machineId m db =
     (case reconciliationForFieldStockMovement machineId m db of
        Some recon \<Rightarrow> PutAside recon
      | None \<Rightarrow> AcceptField)"

definition plan_ingestion :: "uuid \<Rightarrow> raw_movement \<Rightarrow> db \<Rightarrow> ingestion_plan" where
  "plan_ingestion machineId m db =
     (case findByMachineMovement machineId (rm_movementId m) db of
        Some existing \<Rightarrow> AnswerExisting existing
      | None \<Rightarrow>
         (if rm_movementType m = DispenseSucceeded
          then (if rm_orderContext m = None
                then PutAside (needs_review (rm_slotId m) RrOrderContextMissing)
                else case getOrderBoundDispenseConfirmationContext machineId m db of
                  None \<Rightarrow> PutAside (needs_review (rm_slotId m) RrOrderContextMismatch)
                | Some cc \<Rightarrow> AcceptSale cc)
          else case reconciliationForMovement machineId m db of
            Some recon \<Rightarrow> PutAside recon
          | None \<Rightarrow> plan_field machineId m db))"

text \<open>
  \<open>isUniqueConstraintViolation\<close>, for the constraint that makes a movement id unique; the handler
  answers from the movement that is stored by then.
\<close>

definition recover_unique ::
    "env \<Rightarrow> uuid \<Rightarrow> raw_movement \<Rightarrow> metadata \<Rightarrow> string \<Rightarrow> api_error \<Rightarrow> db \<Rightarrow>
     db \<times> (api_error + ingestion_response)" where
  "recover_unique e machineId m normalized payloadHash err db =
     (if err = ConstraintViolation ''machine_raw_stock_movements_machine_movement_unique''
      then (case findByMachineMovement machineId (rm_movementId m) db of
              None \<Rightarrow> (db, Inl err)
            | Some concurrent \<Rightarrow>
               (let (response, db1) = responseForExisting e machineId m normalized concurrent
                      payloadHash db in (db1, Inr response)))
      else (db, Inl err))"

definition accept_sale ::
    "env \<Rightarrow> uuid \<Rightarrow> raw_movement \<Rightarrow> metadata \<Rightarrow> string \<Rightarrow> confirmation_context \<Rightarrow> db \<Rightarrow>
     db \<times> (api_error + ingestion_response)" where
  "accept_sale e machineId m normalized payloadHash cc db =
     (case insertAcceptedWithOrderBoundDispenseConfirmation e machineId m normalized payloadHash
             cc db of
        Inl err \<Rightarrow> recover_unique e machineId m normalized payloadHash err db
      | Inr (None, db1) \<Rightarrow>
          (db1, Inr (Rejected (rm_movementId m) ''order_confirmation_failed'' payloadHash))
      | Inr (Some stored, db1) \<Rightarrow>
          bindS (dispatchPendingRefunds e 20 (e_now e) db1) (\<lambda>_ db2.
            (db2, Inr (Accepted (rm_movementId m) (rw_receivedAt stored) (rw_id stored)
               (rw_payloadHash stored)))))"

definition accept_field ::
    "env \<Rightarrow> uuid \<Rightarrow> raw_movement \<Rightarrow> metadata \<Rightarrow> string \<Rightarrow> db \<Rightarrow>
     db \<times> (api_error + ingestion_response)" where
  "accept_field e machineId m normalized payloadHash db =
     (case insertRawInto e machineId m normalized payloadHash None db of
        Inl err \<Rightarrow> recover_unique e machineId m normalized payloadHash err db
      | Inr (stored, db1) \<Rightarrow>
         (let accepted = Accepted (rm_movementId m) (rw_receivedAt stored) (rw_id stored)
                (rw_payloadHash stored) in
          if \<not> isFieldStockMovement m then (db1, Inr accepted)
          else bindS (atomic (applyTrustedFieldStockMovement e machineId (rw_id stored) m) db1)
            (\<lambda>applied db2.
               if \<not> applied
               then (let recon = needs_review (rm_slotId m) RrMappingMismatch in
                     (markReconciliation machineId (rm_movementId m) recon db2,
                      Inr (reconciliationResponse (rm_movementId m) stored recon)))
               else if isOperatorVerifiedRecoveryMovement m
               then (restoreSlotAfterAcceptedLocalMaintenance e machineId (rm_slotId m) db2,
                     Inr accepted)
               else (db2, Inr accepted))))"

definition execute_ingestion ::
    "env \<Rightarrow> uuid \<Rightarrow> raw_movement \<Rightarrow> ingestion_plan \<Rightarrow> db \<Rightarrow> db \<times> (api_error + ingestion_response)"
  where
  "execute_ingestion e machineId m plan db =
     (let normalized = normalizeRawMovement e m; payloadHash = e_sha256 e normalized in
      case plan of
        AnswerExisting existing \<Rightarrow>
          (let (response, db1) = responseForExisting e machineId m normalized existing
                 payloadHash db in (db1, Inr response))
      | PutAside recon \<Rightarrow>
          bindS (atomic (insertRawInto e machineId m normalized payloadHash (Some recon)) db)
            (\<lambda>stored db1. (db1, Inr (reconciliationResponse (rm_movementId m) stored recon)))
      | AcceptSale cc \<Rightarrow> accept_sale e machineId m normalized payloadHash cc db
      | AcceptField \<Rightarrow> accept_field e machineId m normalized payloadHash db)"

definition receiveRawMovement ::
    "env \<Rightarrow> uuid \<Rightarrow> string \<Rightarrow> raw_movement \<Rightarrow> db \<Rightarrow> db \<times> (api_error + ingestion_response)" where
  "receiveRawMovement e machineId machineCode input db =
     (let trusted = input\<lparr>rm_machineCode := Some machineCode\<rparr> in
      execute_ingestion e machineId trusted (plan_ingestion machineId trusted db) db)"

end
