(* ===== verification/Vending_Commands.thy ===== *)
theory Vending_Commands
  imports Stock_Movements
begin

text \<open>
  \<open>vending/vending.service.ts\<close>: the dispense commands of a paid order. A command is created
  pending (in the transaction that marks the order paid), published over MQTT and marked sent,
  acknowledged by the machine, and ends succeeded, failed, or with an unknown result.

  The MQTT broker and the signature check are outside: \<open>publish\<close> answers what publishing a command
  to a machine throws (\<open>None\<close>: it is sent), and a handler of a machine message takes the verified
  payload with its message id, \<open>None\<close> when verification throws. The payload schema is checked here.
\<close>

subsection \<open>Messages\<close>

definition length_between :: "nat \<Rightarrow> nat \<Rightarrow> string \<Rightarrow> bool" where
  "length_between lo hi s \<longleftrightarrow> lo \<le> length s \<and> length s \<le> hi"

definition dispenseCommandPayloadSchema :: "dispense_payload \<Rightarrow> api_error + dispense_payload" where
  "dispenseCommandPayloadSchema p =
     (let trimmed = map_option (\<lambda>rc. rc\<lparr>rc_note := js_trim (rc_note rc)\<rparr>) (dp_recovery p) in
      if length_between 1 64 (dp_commandNo p) \<and> length_between 1 64 (dp_orderNo p) \<and>
         isValidMachineSlotCoordinate (Some (IntNum (dp_rowNo p))) (Some (IntNum (dp_cellNo p))) \<and>
         0 < dp_quantity p \<and> 0 < dp_timeoutSeconds p \<and>
         (case trimmed of None \<Rightarrow> True
          | Some rc \<Rightarrow> length_between 1 64 (rc_originalCommandNo rc) \<and>
                      length_between 1 500 (rc_note rc))
      then Inr (p\<lparr>dp_recovery := trimmed\<rparr>) else Inl ZodError)"

definition dispenseResultPayloadSchema :: "dispense_result \<Rightarrow> bool" where
  "dispenseResultPayloadSchema r \<longleftrightarrow> length_between 1 64 (dr_commandNo r) \<and>
     (dr_success r \<longrightarrow> dr_errorCode r = None) \<and> (\<not> dr_success r \<longrightarrow> dr_errorCode r \<noteq> None)"

definition find_command :: "uuid \<Rightarrow> db \<Rightarrow> command_row option" where
  "find_command i db = List.find (\<lambda>c. vc_id c = i) (db_commands db)"

subsection \<open>Creation\<close>

definition dispatch_commands :: "uuid \<Rightarrow> db \<Rightarrow> command_row list" where
  "dispatch_commands orderId db =
     filter (\<lambda>c. vc_orderId c = orderId \<and> vc_commandKind c = Dispatch) (db_commands db)"

definition new_command ::
    "env \<Rightarrow> uuid \<Rightarrow> uuid \<Rightarrow> uuid \<Rightarrow> uuid \<Rightarrow> command_kind \<Rightarrow> uuid option \<Rightarrow> dispense_payload \<Rightarrow> nat \<Rightarrow>
     command_row" where
  "new_command e orderId machineId slotId orderItemId kind recoveryActionId payload i =
     \<lparr>vc_id = i, vc_commandNo = dp_commandNo payload, vc_orderId = orderId,
      vc_machineId = machineId, vc_slotId = slotId, vc_orderItemId = Some orderItemId,
      vc_commandKind = kind, vc_recoveryActionId = recoveryActionId, vc_payloadJson = payload,
      vc_status = VcPending, vc_sentAt = None, vc_ackAt = None, vc_resultAt = None,
      vc_retryCount = 0, vc_lastError = None, vc_updatedAt = e_now e\<rparr>"

text \<open>One line: \<open>insert \<dots> onConflictDoNothing returning\<close>.\<close>

definition create_line_command ::
    "env \<Rightarrow> order_row \<Rightarrow> order_item_row \<times> slot_row \<Rightarrow> command_row list \<times> db \<Rightarrow>
     api_error + command_row list \<times> db" where
  "create_line_command e ord = (\<lambda>(item, slot) (created, db).
     bindR (dispenseCommandPayloadSchema
        \<lparr>dp_commandNo = createBusinessNo e (db_next db) CMD, dp_orderNo = o_orderNo ord,
         dp_rowNo = sl_rowNo slot, dp_cellNo = sl_cellNo slot, dp_quantity = oi_quantity item,
         dp_timeoutSeconds = 120, dp_recovery = None\<rparr>)
     (\<lambda>payload.
        let (inserted, rows) = insert_or_ignore command_conflict
              (new_command e (o_id ord) (o_machineId ord) (oi_slotId item) (oi_id item) Dispatch None
                payload (db_next db)) (db_commands db);
            db1 = db\<lparr>db_commands := rows, db_next := db_next db + 1\<rparr>
        in Inr (case inserted of None \<Rightarrow> created | Some c \<Rightarrow> created @ [c], db1)))"

definition lines_with_slots :: "uuid \<Rightarrow> db \<Rightarrow> (order_item_row \<times> slot_row) list" where
  "lines_with_slots orderId db =
     [(oi, s). oi \<leftarrow> order_lines orderId db, s \<leftarrow> db_slots db, sl_id s = oi_slotId oi]"

definition createPendingDispatchCommands ::
    "env \<Rightarrow> uuid \<Rightarrow> db \<Rightarrow> api_error + command_row list \<times> db" where
  "createPendingDispatchCommands e orderId db =
     (case find_order orderId db of
        None \<Rightarrow> Inl (NotFoundException ''Order not found'')
      | Some ord \<Rightarrow>
          bindR (lockMachineForVendingMutation (o_machineId ord) db) (\<lambda>_.
          bindR (lockOrderForVendingMutation orderId db) (\<lambda>_.
            if dispatch_commands orderId db \<noteq> [] then Inr (dispatch_commands orderId db, db)
            else (let items = lines_with_slots orderId db in
              bindR (lockInventoriesForVendingMutation (map (oi_inventoryId \<circ> fst) items) db) (\<lambda>_.
              bindR (foldR (create_line_command e ord) items ([], db)) (\<lambda>(created, db1).
                Inr (if length created = length items then created
                     else dispatch_commands orderId db1, db1)))))))"

subsection \<open>Dispatch\<close>

text \<open>
  \<open>Promise.all\<close>: every task runs, whether another one throws or not; the first throw is the
  outcome. The tasks run one after the other here (each is one transaction after a publish).
\<close>

fun promise_all :: "('a \<Rightarrow> 's \<Rightarrow> 's \<times> ('e + 'b)) \<Rightarrow> 'a list \<Rightarrow> 's \<Rightarrow> 's \<times> ('e + 'b list)" where
  "promise_all f [] s = (s, Inr [])"
| "promise_all f (x # xs) s =
     (let (s1, r) = f x s; (s2, rs) = promise_all f xs s1 in
      (s2, bindR r (\<lambda>b. bindR rs (\<lambda>bs. Inr (b # bs)))))"

definition update_pending_command ::
    "(command_row \<Rightarrow> command_row) \<Rightarrow> uuid \<Rightarrow> db \<Rightarrow> api_error + command_row option \<times> db" where
  "update_pending_command f commandId db =
     (case find_command commandId db of
        None \<Rightarrow> Inr (None, db)
      | Some command \<Rightarrow>
          bindR (lockMachineForVendingMutation (vc_machineId command) db) (\<lambda>_.
          bindR (lockOrderForVendingMutation (vc_orderId command) db) (\<lambda>_.
            let p = (\<lambda>c. vc_id c = vc_id command \<and> vc_status c = VcPending) in
            Inr (map_option f (List.find p (db_commands db)), upd_commands p f db))))"

definition markPendingCommandSent :: "env \<Rightarrow> uuid \<Rightarrow> db \<Rightarrow> api_error + command_row option \<times> db" where
  "markPendingCommandSent e = update_pending_command
     (\<lambda>c. c\<lparr>vc_status := VcSent, vc_sentAt := Some (e_now e), vc_lastError := None,
            vc_updatedAt := e_now e\<rparr>)"

definition recordPendingCommandDispatchFailure ::
    "env \<Rightarrow> uuid \<Rightarrow> string \<Rightarrow> db \<Rightarrow> api_error + command_row option \<times> db" where
  "recordPendingCommandDispatchFailure e commandId message = update_pending_command
     (\<lambda>c. c\<lparr>vc_retryCount := vc_retryCount c + 1, vc_lastError := Some message,
            vc_updatedAt := e_now e\<rparr>) commandId"

type_synonym publisher = "string \<Rightarrow> dispense_payload \<Rightarrow> string option"

definition dispatch_command ::
    "env \<Rightarrow> publisher \<Rightarrow> command_row \<times> machine_row \<Rightarrow> db \<Rightarrow> db \<times> (api_error + command_row option)"
  where
  "dispatch_command e publish = (\<lambda>(command, machine) db.
     let failed = (\<lambda>message. atomic (recordPendingCommandDispatchFailure e (vc_id command) message) db)
     in case dispenseCommandPayloadSchema (vc_payloadJson command) of
          Inl err \<Rightarrow> failed (error_message err)
        | Inr payload \<Rightarrow>
            (case publish (m_code machine) payload of
               Some message \<Rightarrow> failed message
             | None \<Rightarrow>
                 (case markPendingCommandSent e (vc_id command) db of
                    Inl err \<Rightarrow> failed (error_message err)
                  | Inr (sent, db1) \<Rightarrow> (db1, Inr sent))))"

definition pending_with_machines :: "uuid \<Rightarrow> db \<Rightarrow> (command_row \<times> machine_row) list" where
  "pending_with_machines orderId db =
     [(c, m). c \<leftarrow> db_commands db, vc_orderId c = orderId \<and> vc_status c = VcPending,
              m \<leftarrow> db_machines db, m_id m = vc_machineId c]"

definition dispatchPendingCommandsForOrder ::
    "env \<Rightarrow> publisher \<Rightarrow> uuid \<Rightarrow> db \<Rightarrow> db \<times> (api_error + command_row option list)" where
  "dispatchPendingCommandsForOrder e publish orderId db =
     promise_all (dispatch_command e publish) (pending_with_machines orderId db) db"

definition dispatchPendingCommands :: "env \<Rightarrow> publisher \<Rightarrow> db \<Rightarrow> db \<times> (api_error + nat)" where
  "dispatchPendingCommands e publish db =
     (let orderIds = take 50 (remdups (map vc_orderId
            (filter (\<lambda>c. vc_status c = VcPending) (db_commands db)))) in
      bindS (promise_all (dispatchPendingCommandsForOrder e publish) orderIds db)
        (\<lambda>results db1. (db1, Inr (count_where (\<lambda>r. r \<noteq> None) (concat results)))))"

definition createAndDispatchCommands ::
    "env \<Rightarrow> publisher \<Rightarrow> uuid \<Rightarrow> db \<Rightarrow> db \<times> (api_error + command_row list)" where
  "createAndDispatchCommands e publish orderId db =
     bindS (atomic (createPendingDispatchCommands e orderId) db) (\<lambda>commands db1.
     bindS (dispatchPendingCommandsForOrder e publish orderId db1) (\<lambda>_ db2. (db2, Inr commands)))"

definition list_commands :: "nat \<Rightarrow> nat \<Rightarrow> db \<Rightarrow> command_row page_result" where
  "list_commands page pageSize db =
     toPageResult (take pageSize (drop (getOffset page pageSize) (rev (filter
         (\<lambda>c. list_ex (\<lambda>m. m_id m = vc_machineId c) (db_machines db)) (db_commands db)))))
       page pageSize (length (db_commands db))"

subsection \<open>Fulfilment after a failure\<close>

text \<open>
  Not the function of the movement repository: an order with failed lines and open ones is still
  dispensing here, and \<open>dispensedAt\<close> is left alone.
\<close>

definition command_lines_fulfillment :: "line_fulfillment_status list \<Rightarrow> order_fulfillment_state" where
  "command_lines_fulfillment sts =
     (let dispensed = count_where (\<lambda>s. s = LfDispensed) sts;
          failed = count_where (\<lambda>s. s = LfDispenseFailed) sts in
      if list_ex (\<lambda>s. s = LfManualHandling) sts then FsManualHandling
      else if dispensed = length sts then FsDispensed
      else if failed = length sts then FsDispenseFailed
      else if 0 < dispensed \<and> 0 < failed then FsPartialDispensed
      else FsDispensing)"

definition sync_command_lines :: "env \<Rightarrow> uuid \<Rightarrow> string \<Rightarrow> metadata \<Rightarrow> db \<Rightarrow> db" where
  "sync_command_lines e orderId reason meta db =
     (let rows = order_lines orderId db;
          fulfillmentState = command_lines_fulfillment (map oi_fulfillmentStatus rows) in
      if rows = [] then db
      else case find_order orderId db of
        None \<Rightarrow> db
      | Some current \<Rightarrow>
         (if o_fulfillmentState current = fulfillmentState then db
          else let projected = projectOrderStatus (o_paymentState current) fulfillmentState in
            log_status orderId (Some (o_status current)) projected reason (Some meta)
              (upd_orders (\<lambda>x. o_id x = orderId)
                (\<lambda>x. x\<lparr>o_status := projected, o_fulfillmentState := fulfillmentState,
                       o_updatedAt := e_now e\<rparr>) db)))"

datatype refund_kind = NoRefund | FullRefund uuid metadata | PartialRefund uuid "uuid list" int metadata

definition markOrderLinesFailedAndBuildRefundDecision ::
    "env \<Rightarrow> uuid \<Rightarrow> uuid option \<Rightarrow> uuid \<Rightarrow> string \<Rightarrow> metadata \<Rightarrow> db \<Rightarrow> refund_kind \<times> db" where
  "markOrderLinesFailedAndBuildRefundDecision e orderId orderItemId slotId reason meta db =
     (let failedLineIds = map oi_id (filter (affected_line orderId orderItemId slotId)
            (db_orderItems db)) in
      if failedLineIds = [] then (NoRefund, db)
      else
       (let db1 = upd_items (\<lambda>oi. oi_id oi \<in> set failedLineIds)
              (\<lambda>oi. oi\<lparr>oi_fulfillmentStatus := LfDispenseFailed, oi_refundStatus := LrPending,
                      oi_failedAt := Some (e_now e), oi_refundUpdatedAt := Some (e_now e)\<rparr>) db;
            db2 = sync_command_lines e orderId reason meta db1;
            rows = order_lines orderId db2;
            failed = filter (\<lambda>l. oi_fulfillmentStatus l = LfDispenseFailed) rows;
            dispensed = filter (\<lambda>l. oi_fulfillmentStatus l = LfDispensed) rows;
            hasOpenLine = list_ex (\<lambda>l. oi_fulfillmentStatus l = LfPending \<or>
                                       oi_fulfillmentStatus l = LfDispensing) rows in
        (if hasOpenLine then NoRefund
         else if length failed = length rows then FullRefund orderId meta
         else if failed \<noteq> [] \<and> dispensed \<noteq> []
           then PartialRefund orderId (map oi_id failed)
                  (sum_list (map (\<lambda>l. oi_unitPriceCents l * oi_quantity l) failed)) meta
         else NoRefund, db2)))"

fun stageFailedLineRefund :: "env \<Rightarrow> refund_kind \<Rightarrow> db \<Rightarrow> api_error + db" where
  "stageFailedLineRefund e NoRefund db = Inr db"
| "stageFailedLineRefund e (FullRefund orderId meta) db = stageAutomaticFullRefund e orderId meta db"
| "stageFailedLineRefund e (PartialRefund orderId orderItemIds amountCents meta) db =
     stageAutomaticPartialRefund e orderId orderItemIds amountCents meta db"

fun sales_state_string :: "compensation_sales_state \<Rightarrow> string" where
  "sales_state_string Suspect = ''suspect''"
| "sales_state_string Frozen = ''frozen''"

subsection \<open>Failed and unknown results\<close>

text \<open>\<open>set status failed \<dots> where id = \<dots> and status in (\<dots>)\<close>; the guard is the caller's.\<close>

definition fail_command :: "env \<Rightarrow> string \<Rightarrow> command_row \<Rightarrow> command_row" where
  "fail_command e message c = c\<lparr>vc_status := VcFailed, vc_resultAt := Some (e_now e),
     vc_lastError := Some message, vc_updatedAt := e_now e\<rparr>"

fun command_status_string :: "vending_command_status \<Rightarrow> string" where
  "command_status_string VcPending = ''pending''"
| "command_status_string VcSent = ''sent''"
| "command_status_string VcAcknowledged = ''acknowledged''"
| "command_status_string VcSucceeded = ''succeeded''"
| "command_status_string VcFailed = ''failed''"
| "command_status_string VcTimeout = ''timeout''"
| "command_status_string VcResultUnknown = ''result_unknown''"

definition resolve_not_dispensed_tx ::
    "env \<Rightarrow> command_row \<Rightarrow> string option \<Rightarrow> bool \<Rightarrow> db \<Rightarrow> api_error + bool \<times> db" where
  "resolve_not_dispensed_tx e command inputNote requestRefund db =
     bindR (lockMachineForVendingMutation (vc_machineId command) db) (\<lambda>_.
     bindR (lockOrderForVendingMutation (vc_orderId command) db) (\<lambda>_.
       let message = (case inputNote of None \<Rightarrow> ''manual confirmation: not dispensed'' | Some n \<Rightarrow> n);
           claim = (\<lambda>c. vc_id c = vc_id command \<and>
              vc_status c \<in> {VcSent, VcAcknowledged, VcResultUnknown, VcTimeout}) in
       if \<not> list_ex claim (db_commands db)
       then (if vc_status command = VcFailed then Inr (False, db)
             else Inl (ConflictException (''Command status '' @ command_status_string (vc_status command) @
               '' cannot be resolved as not dispensed'')))
       else
         bindR (releaseAffectedReservationForDispenseFailure e (vc_orderId command)
            (vc_orderItemId command) (vc_slotId command) (Some NO_DROP)
            (upd_commands claim (fail_command e message) db))
         (\<lambda>(compensation, db1).
            let (decision, db2) = markOrderLinesFailedAndBuildRefundDecision e (vc_orderId command)
                  (vc_orderItemId command) (vc_slotId command) ''manual_dispense_not_dispensed''
                  [(''commandNo'', JStr (vc_commandNo command)),
                   (''releasedQuantity'', JInt (releasedQuantity compensation)),
                   (''slotSalesState'', JStr (sales_state_string (slotSalesState compensation)))] db1
            in bindR (if requestRefund then stageFailedLineRefund e decision db2 else Inr db2)
              (\<lambda>db3. Inr (True, createDispenseFailedNotification e (vc_orderId command)
                              (vc_id command) message db3)))))"

definition order_to_manual :: "env \<Rightarrow> command_row \<Rightarrow> db \<Rightarrow> db" where
  "order_to_manual e command db =
     (case find_order (vc_orderId command) db of
        None \<Rightarrow> db
      | Some current \<Rightarrow>
         (if o_status current = OsManualHandling then db
          else let projected = projectOrderStatus (o_paymentState current) FsManualHandling in
            log_status (vc_orderId command) (Some (o_status current)) projected
              ''dispense_result_unknown''
              (Some [(''commandNo'', JStr (vc_commandNo command)),
                     (''requiresPhysicalOutcomeConfirmation'', JBool True),
                     (''slotSalesState'', JStr ''frozen'')])
              (upd_orders (\<lambda>x. o_id x = vc_orderId command)
                (\<lambda>x. x\<lparr>o_status := projected, o_fulfillmentState := FsManualHandling,
                       o_updatedAt := e_now e\<rparr>) db)))"

definition markDispenseResultUnknown ::
    "env \<Rightarrow> command_row \<Rightarrow> string \<Rightarrow> ms \<Rightarrow> vending_command_status set \<Rightarrow> db \<Rightarrow>
     api_error + bool \<times> db" where
  "markDispenseResultUnknown e command message resultAt eligibleStatuses db =
     bindR (lockMachineForVendingMutation (vc_machineId command) db) (\<lambda>_.
     bindR (lockOrderForVendingMutation (vc_orderId command) db) (\<lambda>_.
       let claim = (\<lambda>c. vc_id c = vc_id command \<and> vc_status c \<in> eligibleStatuses) in
       if \<not> list_ex claim (db_commands db) then Inr (False, db)
       else
        (let db1 = upd_commands claim (\<lambda>c. c\<lparr>vc_status := VcResultUnknown,
                vc_resultAt := Some resultAt, vc_lastError := Some message,
                vc_updatedAt := e_now e\<rparr>) db;
             db2 = order_to_manual e command db1
         in Inr (True, createDispenseFailedNotification e (vc_orderId command) (vc_id command)
              message (fault_slot e (vc_slotId command) db2)))))"

definition command_deadline :: "command_row \<Rightarrow> ms option" where
  "command_deadline c = map_option
     (\<lambda>baseAt. baseAt + (dp_timeoutSeconds (vc_payloadJson c) + 10) * 1000)
     (case vc_ackAt c of Some t \<Rightarrow> Some t | None \<Rightarrow> vc_sentAt c)"

definition timed_out :: "ms \<Rightarrow> command_row \<Rightarrow> bool" where
  "timed_out now c = (case command_deadline c of None \<Rightarrow> False | Some deadline \<Rightarrow> deadline \<le> now)"

definition markTimedOutCommands :: "env \<Rightarrow> ms \<Rightarrow> db \<Rightarrow> db \<times> (api_error + nat)" where
  "markTimedOutCommands e now db =
     (let candidates = filter (\<lambda>c. vc_status c \<in> {VcSent, VcAcknowledged}) (db_commands db) in
      if list_ex (\<lambda>c. isl (dispenseCommandPayloadSchema (vc_payloadJson c))) candidates
      then (db, Inl ZodError)
      else bindS (promise_all (\<lambda>c. atomic (markDispenseResultUnknown e c
               ''dispense result unknown after command timeout'' now {VcSent, VcAcknowledged}))
             (filter (timed_out now) candidates) db)
        (\<lambda>results db1. (db1, Inr (count_where (\<lambda>changed. changed) results))))"

subsection \<open>Manual resolution\<close>

datatype resolution = ResolvedFailed uuid | ResolvedDispensed uuid bool
  \<comment> \<open>the flag: the movement was already accepted before\<close>

fun response_status :: "ingestion_response \<Rightarrow> string" where
  "response_status (Accepted _ _ _ _) = ''accepted''"
| "response_status (AlreadyAccepted _ _ _ _) = ''already_accepted''"
| "response_status (Rejected _ _ _) = ''rejected''"
| "response_status (Reconciled _ _ _ _ _) = ''reconciliation''"
| "response_status (ConflictReconciled _ _ _ _ _ _ _) = ''reconciliation''"

definition manual_movement ::
    "env \<Rightarrow> command_row \<Rightarrow> string \<Rightarrow> order_item_row \<Rightarrow> string \<Rightarrow> string option \<Rightarrow> string option \<Rightarrow>
     ms option \<Rightarrow> raw_movement" where
  "manual_movement e command orderNo item planogramVersion movementId source occurredAt =
     \<lparr>rm_machineCode = None,
      rm_movementId = (case movementId of
         None \<Rightarrow> ''manual-dispense:'' @ vc_commandNo command | Some i \<Rightarrow> i),
      rm_planogramVersion = planogramVersion, rm_slotId = vc_slotId command,
      rm_movementType = DispenseSucceeded, rm_quantity = oi_quantity item,
      rm_beforeQuantity = None, rm_afterQuantity = None, rm_slotMappingSnapshot = None,
      rm_source = (case source of None \<Rightarrow> ''manual_confirmation'' | Some s \<Rightarrow> s),
      rm_attributedTo = Some (vc_commandNo command),
      rm_orderContext = Some \<lparr>oc_orderNo = orderNo, oc_orderItemId = oi_id item,
         oc_vendingCommandNo = vc_commandNo command, oc_inventoryId = oi_inventoryId item\<rparr>,
      rm_occurredAt = (case occurredAt of None \<Rightarrow> e_now e | Some t \<Rightarrow> t)\<rparr>"

definition resolveCommandAsDispensed ::
    "env \<Rightarrow> command_row \<Rightarrow> string \<Rightarrow> string \<Rightarrow> string option \<Rightarrow> string option \<Rightarrow> ms option \<Rightarrow> db \<Rightarrow>
     db \<times> (api_error + resolution)" where
  "resolveCommandAsDispensed e command machineCode orderNo movementId source occurredAt db =
     (if vc_status command = VcFailed
      then (db, Inl (ConflictException ''Failed command cannot be resolved as dispensed''))
      else case List.find (affected_line (vc_orderId command) (vc_orderItemId command)
                  (vc_slotId command)) (db_orderItems db) of
        None \<Rightarrow> (db, Inl (NotFoundException ''Order item not found for vending command''))
      | Some item \<Rightarrow>
         (case ps_planogramVersion (oi_productSnapshot item) of
            None \<Rightarrow> (db, Inl (ConflictException ''Order item planogram snapshot is missing''))
          | Some planogramVersion \<Rightarrow>
              bindS (receiveRawMovement e (vc_machineId command) machineCode
                 (manual_movement e command orderNo item planogramVersion movementId source
                    occurredAt) db)
              (\<lambda>result db1. case result of
                 Accepted _ _ _ _ \<Rightarrow> (db1, Inr (ResolvedDispensed (vc_id command) False))
               | AlreadyAccepted _ _ _ _ \<Rightarrow> (db1, Inr (ResolvedDispensed (vc_id command) True))
               | _ \<Rightarrow> (db1, Inl (ConflictException
                    (''Manual dispense confirmation could not be accepted: '' @
                     response_status result))))))"

definition resolveCommand ::
    "env \<Rightarrow> uuid \<Rightarrow> bool \<Rightarrow> string option \<Rightarrow> bool option \<Rightarrow> db \<Rightarrow> db \<times> (api_error + resolution)"
  where
  "resolveCommand e commandId dispensed inputNote requestRefund db =
     (case [(c, m, x). c \<leftarrow> db_commands db, m \<leftarrow> db_machines db, x \<leftarrow> db_orders db,
              vc_id c = commandId \<and> m_id m = vc_machineId c \<and> o_id x = vc_orderId c] of
        [] \<Rightarrow> (db, Inl (NotFoundException ''Vending command not found''))
      | (command, machine, ord) # _ \<Rightarrow>
         (if dispensed
          then resolveCommandAsDispensed e command (m_code machine) (o_orderNo ord) None None None db
          else bindS (atomic (resolve_not_dispensed_tx e command inputNote
                 (requestRefund \<noteq> Some False)) db)
            (\<lambda>failureContext db1.
               if failureContext \<and> requestRefund \<noteq> Some False
               then bindS (dispatchPendingRefunds e 20 (e_now e) db1)
                 (\<lambda>_ db2. (db2, Inr (ResolvedFailed (vc_id command))))
               else (db1, Inr (ResolvedFailed (vc_id command))))))"

subsection \<open>Compensation dispense\<close>

definition compensation_join ::
    "uuid \<Rightarrow> string \<Rightarrow> db \<Rightarrow> (order_row \<times> order_item_row \<times> slot_row \<times> command_row) list" where
  "compensation_join orderId originalCommandNo db =
     [(x, oi, s, c). c \<leftarrow> db_commands db, x \<leftarrow> db_orders db, m \<leftarrow> db_machines db,
        oi \<leftarrow> db_orderItems db, s \<leftarrow> db_slots db,
        vc_orderId c = orderId \<and> vc_commandNo c = originalCommandNo \<and> o_id x = vc_orderId c \<and>
        m_id m = vc_machineId c \<and> vc_orderItemId c = Some (oi_id oi) \<and> sl_id s = vc_slotId c]"

definition reserve_compensation :: "env \<Rightarrow> uuid \<Rightarrow> order_item_row \<Rightarrow> db \<Rightarrow> api_error + db" where
  "reserve_compensation e orderId item db =
     bindR (update_inventories
        (\<lambda>r. inv_id r = oi_inventoryId item \<and>
             oi_quantity item \<le> inv_onHandQty r - inv_reservedQty r)
        (\<lambda>r. r\<lparr>inv_reservedQty := inv_reservedQty r + oi_quantity item,
               inv_updatedAt := e_now e\<rparr>) db)
     (\<lambda>(rowCount, db1).
        if rowCount = 0
        then Inl (ConflictException ''Insufficient inventory for compensation dispense'')
        else insert_active_reservation e orderId (Some (oi_id item)) (oi_inventoryId item)
               (oi_quantity item) (e_now e + 15 * 60000) db1)"

definition compensation_tx ::
    "env \<Rightarrow> uuid \<Rightarrow> uuid \<Rightarrow> string \<Rightarrow> string \<Rightarrow> db \<Rightarrow> api_error + command_row \<times> db" where
  "compensation_tx e orderId recoveryActionId originalCommandNo recoveryNote db =
     (case find_order orderId db of
        None \<Rightarrow> Inl (NotFoundException ''Order not found for compensation'')
      | Some ord \<Rightarrow>
          bindR (lockMachineForVendingMutation (o_machineId ord) db) (\<lambda>_.
          bindR (lockOrderForVendingMutation (o_id ord) db) (\<lambda>_.
          case compensation_join orderId originalCommandNo db of
            [] \<Rightarrow> Inl (NotFoundException
                    ''Original vending command item not found for compensation'')
          | (x, item, slot, original) # _ \<Rightarrow>
              bindR (lockInventoriesForVendingMutation [oi_inventoryId item] db) (\<lambda>_.
              bindR (dispenseCommandPayloadSchema
                 \<lparr>dp_commandNo = createBusinessNo e (db_next db) CMD, dp_orderNo = o_orderNo x,
                  dp_rowNo = sl_rowNo slot, dp_cellNo = sl_cellNo slot,
                  dp_quantity = oi_quantity item, dp_timeoutSeconds = 120,
                  dp_recovery = Some \<lparr>rc_originalCommandNo = originalCommandNo,
                    rc_note = recoveryNote\<rparr>\<rparr>) (\<lambda>payload.
              bindR (reserve_compensation e (o_id x) item db) (\<lambda>db2.
                let command = new_command e (o_id x) (o_machineId x) (vc_slotId original) (oi_id item)
                      Compensation (Some recoveryActionId) payload (db_next db2)
                in if list_ex (command_conflict command) (db_commands db2)
                   then Inl (ConstraintViolation ''vending_commands_recovery_action_unique'')
                   else Inr (command, db2\<lparr>db_commands := db_commands db2 @ [command],
                                           db_next := db_next db2 + 1\<rparr>)))))))"

definition createCompensationDispenseCommand ::
    "env \<Rightarrow> publisher \<Rightarrow> uuid \<Rightarrow> uuid \<Rightarrow> string \<Rightarrow> string \<Rightarrow> db \<Rightarrow> db \<times> (api_error + command_row)"
  where
  "createCompensationDispenseCommand e publish orderId recoveryActionId originalCommandNo
       recoveryNote db =
     bindS (atomic (compensation_tx e orderId recoveryActionId originalCommandNo recoveryNote) db)
     (\<lambda>command db1. bindS (dispatchPendingCommandsForOrder e publish orderId db1)
        (\<lambda>_ db2. (db2, Inr command)))"

subsection \<open>Messages of the machine\<close>

text \<open>The acknowledgement runs in the transaction of the MQTT service.\<close>

definition handleCommandAck :: "env \<Rightarrow> uuid \<Rightarrow> uuid \<Rightarrow> db \<Rightarrow> api_error + db" where
  "handleCommandAck e machineId commandId db =
     (case List.find (\<lambda>c. vc_id c = commandId \<and> vc_machineId c = machineId) (db_commands db) of
        None \<Rightarrow> Inr db
      | Some command \<Rightarrow>
          bindR (lockOrderForVendingMutation (vc_orderId command) db) (\<lambda>_.
            Inr (upd_commands (\<lambda>c. vc_id c = commandId \<and> vc_machineId c = machineId \<and>
                                   vc_status c \<in> {VcPending, VcSent})
              (\<lambda>c. c\<lparr>vc_status := VcAcknowledged, vc_ackAt := Some (e_now e),
                     vc_updatedAt := e_now e\<rparr>) db)))"

definition insertDispenseResultInboxEvent ::
    "uuid \<Rightarrow> dispense_result \<Rightarrow> string \<Rightarrow> string \<Rightarrow> db \<Rightarrow> db" where
  "insertDispenseResultInboxEvent machineId payload topic messageId db =
     db\<lparr>db_machineEvents := snd (insert_or_ignore event_conflict
        \<lparr>me_machineId = machineId, me_eventType = ''dispense_result'',
         me_payloadJson = EvDispenseResult payload, me_mqttTopic = topic, me_messageId = messageId\<rparr>
        (db_machineEvents db))\<rparr>"

datatype result_context =
  NothingToDo | RefundRecovery | Success command_row string | UnknownResult | Failure refund_kind

text \<open>What happens to a command with no final result yet when the machine reports a failure.\<close>

definition apply_dispense_failure ::
    "env \<Rightarrow> uuid \<Rightarrow> command_row \<Rightarrow> dispense_result \<Rightarrow> db \<Rightarrow> api_error + result_context \<times> db" where
  "apply_dispense_failure e machineId command payload db =
     bindR (lockOrderForVendingMutation (vc_orderId command) db) (\<lambda>_.
       let claim = (\<lambda>c. vc_id c = vc_id command \<and> vc_status c \<in>
              {VcPending, VcSent, VcAcknowledged, VcResultUnknown, VcTimeout}) in
       if \<not> list_ex claim (db_commands db) then Inr (NothingToDo, db)
       else
         bindR (releaseAffectedReservationForDispenseFailure e (vc_orderId command)
            (vc_orderItemId command) (vc_slotId command) (dr_errorCode payload)
            (upd_commands claim (fail_command e (dr_message payload)) db))
         (\<lambda>(compensation, db1).
            let (decision, db2) = markOrderLinesFailedAndBuildRefundDecision e (vc_orderId command)
                  (vc_orderItemId command) (vc_slotId command) ''dispense_failed''
                  [(''commandNo'', JStr (dr_commandNo payload)),
                   (''errorCode'', json_option (JStr \<circ> error_code_string \<circ> Some)
                      (dr_errorCode payload)),
                   (''releasedQuantity'', JInt (releasedQuantity compensation)),
                   (''slotFaulted'', JBool (slotFaulted compensation)),
                   (''slotSalesState'', JStr (sales_state_string (slotSalesState compensation)))] db1
            in bindR (stageFailedLineRefund e decision db2) (\<lambda>db3.
               bindR (let db4 = createDispenseFailedNotification e (vc_orderId command)
                            (vc_id command) (dr_message payload) db3 in
                      if slotFaulted compensation
                      then createWorkOrder e (Some machineId) (Some (vc_slotId command))
                             (Some (vc_orderId command)) (Some (vc_id command))
                             (TitleWorkOrderDispenseFailed (dr_errorCode payload))
                             (dr_message payload) (Some WpHigh) (KeyDispenseFailed (vc_id command)) db4
                      else Inr db4)
                 (\<lambda>db5. Inr (Failure decision, db5)))))"

definition dispense_result_tx ::
    "env \<Rightarrow> machine_row \<Rightarrow> string \<Rightarrow> dispense_result \<Rightarrow> string \<Rightarrow> db \<Rightarrow>
     api_error + result_context \<times> db" where
  "dispense_result_tx e machine topic payload messageId db =
     bindR (lockMachineForVendingMutation (m_id machine) db) (\<lambda>_.
       let recorded = insertDispenseResultInboxEvent (m_id machine) payload topic messageId db in
       case [(c, x). c \<leftarrow> db_commands db, x \<leftarrow> db_orders db, o_id x = vc_orderId c \<and>
               vc_commandNo c = dr_commandNo payload \<and> vc_machineId c = m_id machine] of
         [] \<Rightarrow> Inr (NothingToDo, recorded)
       | (command, ord) # _ \<Rightarrow>
          (if dr_success payload
           then (if vc_status command = VcSucceeded then Inr (RefundRecovery, recorded)
                 else if vc_status command = VcFailed then Inr (NothingToDo, recorded)
                 else Inr (Success command (o_orderNo ord), db))
           else if vc_status command = VcSucceeded then Inr (NothingToDo, recorded)
           else if vc_status command = VcFailed then Inr (RefundRecovery, recorded)
           else if dr_errorCode payload = Some UNKNOWN
           then bindR (markDispenseResultUnknown e command (dr_message payload) (dr_reportedAt payload)
                  {VcPending, VcSent, VcAcknowledged} recorded)
                (\<lambda>(changed, db1). Inr (if changed then UnknownResult else NothingToDo, db1))
           else apply_dispense_failure e (m_id machine) command payload recorded))"

definition find_machine_by_code :: "string \<Rightarrow> db \<Rightarrow> machine_row option" where
  "find_machine_by_code code db = List.find (\<lambda>m. m_code m = code) (db_machines db)"

definition handleDispenseResult ::
    "env \<Rightarrow> string \<Rightarrow> string \<Rightarrow> (dispense_result \<times> string) option \<Rightarrow> db \<Rightarrow> db \<times> (api_error + unit)"
  where
  "handleDispenseResult e machineCode topic verified db =
     (case verified of
        None \<Rightarrow> (db, Inr ())
      | Some (payload, messageId) \<Rightarrow>
         (if \<not> dispenseResultPayloadSchema payload then (db, Inr ())
          else case find_machine_by_code machineCode db of
            None \<Rightarrow> (db, Inr ())
          | Some machine \<Rightarrow>
              bindS (atomic (dispense_result_tx e machine topic payload messageId) db)
              (\<lambda>context db1. case context of
                 Success command orderNo \<Rightarrow>
                   bindS (resolveCommandAsDispensed e command (m_code machine) orderNo
                      (Some (''mqtt-dispense:'' @ dr_commandNo payload)) (Some ''vending_command'')
                      (Some (dr_reportedAt payload)) db1) (\<lambda>_ db2.
                   bindS (dispatchPendingRefunds e 20 (e_now e) db2) (\<lambda>_ db3.
                     (insertDispenseResultInboxEvent (m_id machine) payload topic messageId db3,
                      Inr ())))
               | RefundRecovery \<Rightarrow>
                   bindS (dispatchPendingRefunds e 20 (e_now e) db1) (\<lambda>_ db2. (db2, Inr ()))
               | Failure decision \<Rightarrow>
                   (if decision = NoRefund then (db1, Inr ())
                    else bindS (dispatchPendingRefunds e 20 (e_now e) db1)
                      (\<lambda>_ db2. (db2, Inr ())))
               | _ \<Rightarrow> (db1, Inr ()))))"

text \<open>The payload of a heartbeat: its status document and the instant it was reported.\<close>

definition heartbeat_tx ::
    "env \<Rightarrow> machine_row \<Rightarrow> string \<Rightarrow> json \<Rightarrow> ms \<Rightarrow> string \<Rightarrow> db \<Rightarrow> api_error + unit \<times> db" where
  "heartbeat_tx e machine topic statusPayload reportedAt messageId db =
     (let (inserted, events) = insert_or_ignore event_conflict
            \<lparr>me_machineId = m_id machine, me_eventType = ''heartbeat'',
             me_payloadJson = EvHeartbeat statusPayload reportedAt, me_mqttTopic = topic,
             me_messageId = messageId\<rparr> (db_machineEvents db) in
      if inserted = None then Inr ((), db)
      else Inr ((), resolveMachineOfflineNotification (m_id machine) (m_code machine) (e_now e) (e_now e)
        (db\<lparr>db_machineEvents := events,
            db_machines := upd_where (\<lambda>m. m_id m = m_id machine)
              (\<lambda>m. m\<lparr>m_status := MsOnline, m_lastSeenAt := Some (e_now e),
                     m_updatedAt := e_now e\<rparr>) (db_machines db),
            db_heartbeats := db_heartbeats db @ [\<lparr>hb_machineId = m_id machine,
              hb_statusPayloadJson = statusPayload, hb_reportedAt = reportedAt\<rparr>]\<rparr>)))"

definition handleHeartbeat ::
    "env \<Rightarrow> string \<Rightarrow> string \<Rightarrow> (json \<times> ms \<times> string) option \<Rightarrow> db \<Rightarrow> db \<times> (api_error + unit)" where
  "handleHeartbeat e machineCode topic verified db =
     (case verified of
        None \<Rightarrow> (db, Inr ())
      | Some (statusPayload, reportedAt, messageId) \<Rightarrow>
         (case find_machine_by_code machineCode db of
            None \<Rightarrow> (db, Inr ())
          | Some machine \<Rightarrow>
              atomic (heartbeat_tx e machine topic statusPayload reportedAt messageId) db))"

subsection \<open>Topics\<close>

text \<open>\<open>^vem/machines/([^/]+)/events/<name>$\<close>: the machine code of a topic.\<close>

definition strip_prefix :: "string \<Rightarrow> string \<Rightarrow> string option" where
  "strip_prefix pre s = (if take (length pre) s = pre then Some (drop (length pre) s) else None)"

definition topic_machine_code :: "string \<Rightarrow> string \<Rightarrow> string option" where
  "topic_machine_code name topic =
     (case strip_prefix ''vem/machines/'' topic of
        None \<Rightarrow> None
      | Some rest \<Rightarrow>
         (let code = takeWhile (\<lambda>c. c \<noteq> CHR ''/'') rest in
          if code \<noteq> [] \<and> dropWhile (\<lambda>c. c \<noteq> CHR ''/'') rest = ''/events/'' @ name
          then Some code else None))"

definition handleMachineMessage ::
    "env \<Rightarrow> (string \<Rightarrow> (dispense_result \<times> string) option) \<Rightarrow> (string \<Rightarrow> (json \<times> ms \<times> string) option) \<Rightarrow>
     string \<Rightarrow> db \<Rightarrow> db \<times> (api_error + unit)" where
  "handleMachineMessage e verifyResult verifyHeartbeat topic db =
     (case topic_machine_code ''dispense-result'' topic of
        Some machineCode \<Rightarrow> handleDispenseResult e machineCode topic (verifyResult machineCode) db
      | None \<Rightarrow>
         (case topic_machine_code ''heartbeat'' topic of
            Some machineCode \<Rightarrow> handleHeartbeat e machineCode topic (verifyHeartbeat machineCode) db
          | None \<Rightarrow> (db, Inr ())))"

text \<open>
  What a topic of either kind names; the property of the topics: the code of a topic is what
  the topic was built from.
\<close>

definition machine_topic :: "string \<Rightarrow> string \<Rightarrow> string" where
  "machine_topic code name = ''vem/machines/'' @ code @ ''/events/'' @ name"

end
