(* ===== verification/Stock_Invariant.thy ===== *)
theory Stock_Invariant
  imports Inventory
begin

text \<open>
  What makes the stock tables right, and that every inventory operation keeps it:

  \<^item> no oversell: for every inventory, the active reservations are covered by the reserved
    quantity, which is covered by the quantity on hand;
  \<^item> the books balance: the quantity on hand is the sum of the inventory's ledger entries.

  \<open>stock_consistent\<close> is the invariant of the three tables, \<open>stock_ok\<close> adds that keys are fresh.
  An operation is shown to keep it by one of the table lemmas \<open>consistent_*\<close>; the operations of
  the component are gathered in \<open>inventory_op\<close> and interpret the locale \<open>transaction\<close>.
\<close>

subsection \<open>The invariant\<close>

definition active_reserved :: "reservation_row list \<Rightarrow> uuid \<Rightarrow> int" where
  "active_reserved rvs i =
     sum_where (\<lambda>r. rv_inventoryId r = i \<and> rv_status r = RsActive) rv_quantity rvs"

definition ledger_balance :: "movement_row list \<Rightarrow> uuid \<Rightarrow> int" where
  "ledger_balance mvs i = sum_where (\<lambda>m. mv_inventoryId m = i) mv_deltaQty mvs"

definition inventory_sound :: "reservation_row list \<Rightarrow> movement_row list \<Rightarrow> inventory_row \<Rightarrow> bool"
  where
  "inventory_sound rvs mvs r \<longleftrightarrow> inventory_checks r \<and>
     active_reserved rvs (inv_id r) \<le> inv_reservedQty r \<and>
     inv_onHandQty r = ledger_balance mvs (inv_id r)"

definition reservations_wf :: "inventory_row list \<Rightarrow> reservation_row list \<Rightarrow> bool" where
  "reservations_wf invs rvs \<longleftrightarrow> distinct (map rv_id rvs) \<and>
     (\<forall>r\<in>set rvs. 0 < rv_quantity r \<and> rv_inventoryId r \<in> inv_id ` set invs)"

definition movements_wf :: "inventory_row list \<Rightarrow> movement_row list \<Rightarrow> bool" where
  "movements_wf invs mvs \<longleftrightarrow> (\<forall>m\<in>set mvs. mv_inventoryId m \<in> inv_id ` set invs)"

definition stock_consistent ::
    "inventory_row list \<Rightarrow> reservation_row list \<Rightarrow> movement_row list \<Rightarrow> bool" where
  "stock_consistent invs rvs mvs \<longleftrightarrow> distinct (map inv_id invs) \<and>
     reservations_wf invs rvs \<and> movements_wf invs mvs \<and>
     (\<forall>r\<in>set invs. inventory_sound rvs mvs r)"

definition keys_fresh :: "db \<Rightarrow> bool" where
  "keys_fresh db \<longleftrightarrow> (\<forall>r\<in>set (db_inventories db). inv_id r < db_next db) \<and>
     (\<forall>r\<in>set (db_reservations db). rv_id r < db_next db)"

definition stock_ok :: "db \<Rightarrow> bool" where
  "stock_ok db \<longleftrightarrow>
     stock_consistent (db_inventories db) (db_reservations db) (db_movements db) \<and> keys_fresh db"

lemma stock_ok_frame:
  assumes "stock_ok db" and "stock_view db' = stock_view db" and "db_next db \<le> db_next db'"
  shows "stock_ok db'"
  using assms by (fastforce simp: stock_ok_def stock_view_def keys_fresh_def)

lemma stock_ok_safe:
  assumes "stock_ok db" and "r \<in> set (db_inventories db)"
  shows "active_reserved (db_reservations db) (inv_id r) \<le> inv_reservedQty r"
    and "inv_reservedQty r \<le> inv_onHandQty r" and "0 \<le> inv_reservedQty r"
    and "inv_onHandQty r = ledger_balance (db_movements db) (inv_id r)"
  using assms
  by (auto simp: stock_ok_def stock_consistent_def inventory_sound_def inventory_checks_def)

subsection \<open>Table lemmas\<close>

lemma inventory_exists_iff: "inventory_exists i db \<longleftrightarrow> i \<in> inv_id ` set (db_inventories db)"
  by (auto simp: inventory_exists_def list_ex_iff)

lemma inv_id_upd:
  assumes "\<And>r. inv_id (f r) = inv_id r"
  shows "inv_id ` set (upd_where p f invs) = inv_id ` set invs"
    and "map inv_id (upd_where p f invs) = map inv_id invs"
proof -
  show m: "map inv_id (upd_where p f invs) = map inv_id invs"
    using assms by (rule map_upd_where)
  then show "inv_id ` set (upd_where p f invs) = inv_id ` set invs"
    by (metis list.set_map)
qed

text \<open>One inventory row \<open>i\<close> changes, with the reservations and the ledger.\<close>

lemma consistent_update:
  assumes cons: "stock_consistent invs rvs mvs"
    and hit: "r0 \<in> set invs" "p r0"
    and pid: "\<And>r. p r \<Longrightarrow> inv_id r = i"
    and fid: "\<And>r. inv_id (f r) = inv_id r"
    and rwf: "reservations_wf invs rvs'" and mwf: "movements_wf invs mvs'"
    and other: "\<And>j. j \<noteq> i \<Longrightarrow> active_reserved rvs' j \<le> active_reserved rvs j"
      "\<And>j. j \<noteq> i \<Longrightarrow> ledger_balance mvs' j = ledger_balance mvs j"
    and self: "inventory_sound rvs mvs r0 \<Longrightarrow> inventory_sound rvs' mvs' (f r0)"
  shows "stock_consistent (upd_where p f invs) rvs' mvs'"
proof -
  have dist: "distinct (map inv_id invs)" using cons by (simp add: stock_consistent_def)
  have "inventory_sound rvs' mvs' r'" if r': "r' \<in> set (upd_where p f invs)" for r'
  proof -
    from r' obtain r where r: "r \<in> set invs" and eq: "r' = (if p r then f r else r)"
      by (auto simp: set_upd_where)
    have sound: "inventory_sound rvs mvs r" using cons r by (simp add: stock_consistent_def)
    show ?thesis
    proof (cases "r = r0")
      case True
      with sound eq hit(2) self show ?thesis by simp
    next
      case False
      then have "inv_id r \<noteq> i" using key_unique [OF dist r hit(1)] pid [OF hit(2)] by auto
      moreover from this have "\<not> p r" using pid by auto
      ultimately show ?thesis using eq sound other [of "inv_id r"]
        by (simp add: inventory_sound_def)
    qed
  qed
  with cons rwf mwf show ?thesis
    by (simp add: stock_consistent_def inv_id_upd [OF fid] reservations_wf_def movements_wf_def)
qed

text \<open>No inventory row changes.\<close>

lemma consistent_books:
  assumes "stock_consistent invs rvs mvs"
    and "reservations_wf invs rvs'" and "movements_wf invs mvs'"
    and "\<And>j. active_reserved rvs' j \<le> active_reserved rvs j"
    and "\<And>j. ledger_balance mvs' j = ledger_balance mvs j"
  shows "stock_consistent invs rvs' mvs'"
proof -
  have "inventory_sound rvs' mvs' r" if "r \<in> set invs" for r
    using assms(1) that assms(4) [of "inv_id r"] assms(5) [of "inv_id r"]
    by (auto simp: stock_consistent_def inventory_sound_def)
  with assms(1-3) show ?thesis by (simp add: stock_consistent_def)
qed

lemma ledger_append [simp]:
  "ledger_balance (mvs @ [m]) j =
     ledger_balance mvs j + (if mv_inventoryId m = j then mv_deltaQty m else 0)"
  by (simp add: ledger_balance_def)

lemma active_append [simp]:
  "active_reserved (rvs @ [r]) j = active_reserved rvs j +
     (if rv_inventoryId r = j \<and> rv_status r = RsActive then rv_quantity r else 0)"
  by (simp add: active_reserved_def)

lemma movements_wf_append [simp]:
  "movements_wf invs (mvs @ [m]) \<longleftrightarrow>
     movements_wf invs mvs \<and> mv_inventoryId m \<in> inv_id ` set invs"
  by (auto simp: movements_wf_def)

text \<open>Closing reservations (\<open>c\<close> picks them) takes them out of the active ones.\<close>

lemma active_closed:
  assumes "st \<noteq> RsActive"
  shows "active_reserved (upd_where c (\<lambda>r. r\<lparr>rv_status := st, rv_updatedAt := t\<rparr>) rvs) j =
    active_reserved rvs j -
      sum_where (\<lambda>r. c r \<and> rv_inventoryId r = j \<and> rv_status r = RsActive) rv_quantity rvs"
  using assms unfolding active_reserved_def by (subst sum_where_upd_leave) auto

lemma reservations_wf_closed:
  "reservations_wf invs rvs \<Longrightarrow>
   reservations_wf invs (upd_where c (\<lambda>r. r\<lparr>rv_status := st, rv_updatedAt := t\<rparr>) rvs)"
  by (auto simp: reservations_wf_def set_upd_where map_upd_where)

lemma closed_nonneg:
  "reservations_wf invs rvs \<Longrightarrow>
   0 \<le> sum_where (\<lambda>r. c r \<and> rv_inventoryId r = j \<and> rv_status r = RsActive) rv_quantity rvs"
  by (rule sum_where_nonneg) (fastforce simp: reservations_wf_def)

text \<open>Closing the reservation with key \<open>rv_id r\<close> takes exactly its quantity.\<close>

lemma active_closed_one:
  assumes wf: "reservations_wf invs rvs" and r: "r \<in> set rvs" "rv_status r = RsActive"
    and st: "st \<noteq> RsActive"
  shows "active_reserved (upd_where (\<lambda>x. rv_id x = rv_id r)
            (\<lambda>x. x\<lparr>rv_status := st, rv_updatedAt := t\<rparr>) rvs) j =
    active_reserved rvs j - (if rv_inventoryId r = j then rv_quantity r else 0)"
proof -
  have dist: "distinct (map rv_id rvs)" using wf by (simp add: reservations_wf_def)
  have "sum_where (\<lambda>x. rv_id x = rv_id r \<and> rv_inventoryId x = j \<and> rv_status x = RsActive)
      rv_quantity rvs = (if rv_inventoryId r = j then rv_quantity r else 0)"
  proof (cases "rv_inventoryId r = j")
    case True
    then show ?thesis using sum_where_key [OF dist r(1), of "\<lambda>x. rv_inventoryId x = j \<and>
        rv_status x = RsActive"] r(2) by simp
  next
    case False
    then have "\<not> (rv_id x = rv_id r \<and> rv_inventoryId x = j \<and> rv_status x = RsActive)"
      if "x \<in> set rvs" for x using key_unique [OF dist that r(1)] by auto
    with False show ?thesis by (simp add: sum_where_zero)
  qed
  then show ?thesis by (simp add: active_closed [OF st])
qed

lemma update_hit:
  assumes "update_inventories p f db = Inr (n, db')" and "n \<noteq> 0"
  obtains r0 where "r0 \<in> set (db_inventories db)" and "p r0" and "inventory_checks (f r0)"
proof -
  from update_inventories_InrD [OF assms(1)]
  have n: "n = count_where p (db_inventories db)"
    and ok: "\<forall>r\<in>set (db_inventories db). p r \<longrightarrow> inventory_checks (f r)" by auto
  from n assms(2) obtain r0 where "r0 \<in> set (db_inventories db)" "p r0"
    using count_where_zero [of p "db_inventories db"] by auto
  with ok that show ?thesis by blast
qed

subsection \<open>Every inventory operation keeps the invariant\<close>

lemma insert_movement_InrD:
  assumes "insert_movement i d reason ord operator note db = Inr db'"
  shows "db_inventories db' = db_inventories db" and "db_reservations db' = db_reservations db"
    and "\<exists>m. db_movements db' = db_movements db @ [m] \<and> mv_inventoryId m = i \<and> mv_deltaQty m = d"
    and "db_next db' = db_next db + 1" and "i \<in> inv_id ` set (db_inventories db)"
  using assms by (auto simp: insert_movement_def inventory_exists_iff split: if_splits)

lemma insert_movement_stock:
  assumes "insert_movement i d reason ord operator note db = Inr db'"
    and "stock_consistent (db_inventories db) (db_reservations db)
           (db_movements db @ [\<lparr>mv_id = db_next db, mv_inventoryId = i, mv_deltaQty = d,
              mv_reason = reason, mv_orderId = ord, mv_operatorAdminUserId = operator,
              mv_note = note\<rparr>])"
    and "keys_fresh db"
  shows "stock_ok db'"
proof -
  from assms(1) have db': "db' = db\<lparr>db_movements := db_movements db @
      [\<lparr>mv_id = db_next db, mv_inventoryId = i, mv_deltaQty = d, mv_reason = reason,
        mv_orderId = ord, mv_operatorAdminUserId = operator, mv_note = note\<rparr>],
      db_next := db_next db + 1\<rparr>"
    by (simp add: insert_movement_def split: if_splits)
  with assms(2,3) show ?thesis by (auto simp: stock_ok_def keys_fresh_def)
qed

lemma insert_movement_keeps:
  assumes "insert_movement i 0 reason ord operator note db = Inr db'" and "stock_ok db"
  shows "stock_ok db'"
proof (rule insert_movement_stock [OF assms(1)])
  show "keys_fresh db" using assms(2) by (simp add: stock_ok_def)
  show "stock_consistent (db_inventories db) (db_reservations db)
           (db_movements db @ [\<lparr>mv_id = db_next db, mv_inventoryId = i, mv_deltaQty = 0,
              mv_reason = reason, mv_orderId = ord, mv_operatorAdminUserId = operator,
              mv_note = note\<rparr>])"
    using assms(2) insert_movement_InrD(5) [OF assms(1)]
    by - (rule consistent_books [of _ "db_reservations db" "db_movements db"],
      simp_all add: stock_ok_def stock_consistent_def)
qed

lemma keys_fresh_upd:
  assumes "keys_fresh db" and "\<And>r. inv_id (f r) = inv_id r"
  shows "keys_fresh (db\<lparr>db_inventories := upd_where p f (db_inventories db)\<rparr>)"
  using assms by (auto simp: keys_fresh_def set_upd_where)

text \<open>
  The shape of most operations: one guarded update of the row \<open>i\<close>, the reservations changed
  with it (in \<open>db2\<close>), and one ledger entry.
\<close>

lemma row_movement_keeps:
  assumes ok: "stock_ok db" and upd: "update_inventories p f db = Inr (n, db1)" and n: "n \<noteq> 0"
    and mov: "insert_movement i d reason ord operator note db2 = Inr db'"
    and db2: "db_inventories db2 = db_inventories db1" "db_movements db2 = db_movements db"
    and pid: "\<And>r. p r \<Longrightarrow> inv_id r = i" and fid: "\<And>r. inv_id (f r) = inv_id r"
    and rwf: "reservations_wf (db_inventories db) (db_reservations db2)"
    and fresh: "db_next db \<le> db_next db2"
      "\<forall>r\<in>set (db_reservations db2). rv_id r < db_next db2"
    and other: "\<And>j. j \<noteq> i \<Longrightarrow>
        active_reserved (db_reservations db2) j \<le> active_reserved (db_reservations db) j"
    and self: "\<And>r. p r \<Longrightarrow> inventory_checks (f r) \<Longrightarrow>
        active_reserved (db_reservations db) i \<le> inv_reservedQty r \<Longrightarrow>
        active_reserved (db_reservations db2) i \<le> inv_reservedQty (f r) \<and>
        inv_onHandQty (f r) = inv_onHandQty r + d"
  shows "stock_ok db'"
proof -
  obtain r0 where hit: "r0 \<in> set (db_inventories db)" "p r0" "inventory_checks (f r0)"
    using update_hit [OF upd n] by blast
  have invs: "db_inventories db2 = upd_where p f (db_inventories db)"
    using db2(1) update_inventories_InrD [OF upd] by simp
  have cons: "stock_consistent (db_inventories db) (db_reservations db) (db_movements db)"
    and keys: "keys_fresh db" using ok by (simp_all add: stock_ok_def)
  show ?thesis
  proof (rule insert_movement_stock [OF mov])
    show "keys_fresh db2"
      using keys fresh fid by (fastforce simp: keys_fresh_def invs set_upd_where)
    let ?mvs = "db_movements db2 @ [\<lparr>mv_id = db_next db2, mv_inventoryId = i, mv_deltaQty = d,
        mv_reason = reason, mv_orderId = ord, mv_operatorAdminUserId = operator,
        mv_note = note\<rparr>]"
    show "stock_consistent (db_inventories db2) (db_reservations db2) ?mvs"
      unfolding invs
    proof (rule consistent_update [where p = p, OF cons hit(1,2)])
      show "movements_wf (db_inventories db) ?mvs"
        using cons hit(1) pid [OF hit(2)] by (auto simp: stock_consistent_def db2(2))
      show "inventory_sound (db_reservations db2) ?mvs (f r0)"
        if "inventory_sound (db_reservations db) (db_movements db) r0"
        using that self [OF hit(2,3)] hit(3) pid [OF hit(2)] fid [of r0]
        by (simp add: inventory_sound_def db2(2))
    qed (use pid fid rwf other in \<open>auto simp: db2(2)\<close>)
  qed
qed

lemma adjust_keeps:
  assumes ok: "stock_ok db" and run: "adjust e adm i d note db = Inr (r, db')"
  shows "stock_ok db'"
proof -
  from run obtain n db1 where upd: "update_inventories
        (\<lambda>r. inv_id r = i \<and> 0 \<le> inv_onHandQty r + d \<and> inv_reservedQty r \<le> inv_onHandQty r + d)
        (\<lambda>r. r\<lparr>inv_onHandQty := inv_onHandQty r + d, inv_updatedAt := e_now e\<rparr>) db = Inr (n, db1)"
    and n: "n \<noteq> 0" and mov: "insert_movement i d MrAdjust None (Some adm) note db1 = Inr db'"
    by (auto simp: adjust_def bindR_eq_Inr split: if_splits)
  have db1: "db_reservations db1 = db_reservations db" "db_movements db1 = db_movements db"
      "db_next db1 = db_next db"
    using update_inventories_InrD [OF upd] by simp_all
  show ?thesis
    by (rule row_movement_keeps [OF ok upd n mov])
      (use ok in \<open>auto simp: db1 stock_ok_def stock_consistent_def keys_fresh_def\<close>)
qed

lemma createInventory_keeps:
  assumes ok: "stock_ok db"
    and run: "createInventory e adm m s v onHand reserved low note db = Inr (r, db')"
  shows "stock_ok db'"
proof -
  define k where "k = db_next db"
  define row where "row = \<lparr>inv_id = k, inv_machineId = m, inv_slotId = s, inv_variantId = v,
    inv_onHandQty = onHand, inv_reservedQty = reserved, inv_lowStockThreshold = low,
    inv_updatedAt = e_now e\<rparr>"
  define db1 where "db1 = db\<lparr>db_inventories := db_inventories db @ [row], db_next := k + 1\<rparr>"
  from run obtain note' where checks: "inventory_checks row"
    and mov: "insert_movement k onHand MrAdjust None (Some adm) note' db1 = Inr db'"
    by (auto simp: createInventory_def Let_def bindR_eq_Inr row_def db1_def k_def
        split: if_splits)
  have cons: "stock_consistent (db_inventories db) (db_reservations db) (db_movements db)"
    and keys: "keys_fresh db" using ok by (simp_all add: stock_ok_def)
  have new: "k \<notin> inv_id ` set (db_inventories db)" using keys by (auto simp: keys_fresh_def k_def)
  have zero: "active_reserved (db_reservations db) k = 0"
    "ledger_balance (db_movements db) k = 0"
    using cons new
    by (auto simp: active_reserved_def ledger_balance_def stock_consistent_def
        reservations_wf_def movements_wf_def intro!: sum_where_zero)
  have sound: "inventory_sound (db_reservations db) (db_movements db @ [\<lparr>mv_id = db_next db1,
      mv_inventoryId = k, mv_deltaQty = onHand, mv_reason = MrAdjust, mv_orderId = None,
      mv_operatorAdminUserId = Some adm, mv_note = note'\<rparr>]) x"
    if "x \<in> set (db_inventories db) \<or> x = row" for x
  proof (cases "x = row")
    case True
    then show ?thesis using checks zero
      by (simp add: inventory_sound_def) (simp add: row_def inventory_checks_def)
  next
    case False
    then have "x \<in> set (db_inventories db)" using that by simp
    moreover from this have "inv_id x \<noteq> k" using new by auto
    ultimately show ?thesis using cons by (simp add: stock_consistent_def inventory_sound_def)
  qed
  have row_id: "inv_id row = k" by (simp add: row_def)
  show ?thesis
  proof (rule insert_movement_stock [OF mov])
    show "keys_fresh db1" using keys by (auto simp: keys_fresh_def db1_def k_def row_def)
  qed (use cons new sound in \<open>auto simp: db1_def row_id stock_consistent_def
        reservations_wf_def movements_wf_def\<close>)
qed

lemma reserveForOrder_keeps:
  assumes ok: "stock_ok db" and run: "reserveForOrder e ord item i q expires db = Inr db'"
  shows "stock_ok db'"
proof -
  from run obtain n db1 db2 where upd: "update_inventories
        (\<lambda>r. inv_id r = i \<and> q \<le> inv_onHandQty r - inv_reservedQty r)
        (\<lambda>r. r\<lparr>inv_reservedQty := inv_reservedQty r + q, inv_updatedAt := e_now e\<rparr>) db
          = Inr (n, db1)"
    and n: "n \<noteq> 0"
    and ins: "insert_active_reservation e ord item i q expires db1 = Inr db2"
    and mov: "insert_movement i 0 MrPurchaseReserved (Some ord) None None db2 = Inr db'"
    by (auto simp: reserveForOrder_def bindR_eq_Inr split: if_splits)
  have db1: "db_reservations db1 = db_reservations db" "db_movements db1 = db_movements db"
      "db_next db1 = db_next db" "inv_id ` set (db_inventories db1) = inv_id ` set (db_inventories db)"
    using update_inventories_InrD [OF upd] by (simp_all add: inv_id_upd)
  from ins have q: "0 < q" and i: "i \<in> inv_id ` set (db_inventories db)"
    and db2: "db_inventories db2 = db_inventories db1" "db_movements db2 = db_movements db"
      "db_next db2 = db_next db + 1"
      "\<exists>r. db_reservations db2 = db_reservations db @ [r] \<and> rv_id r = db_next db \<and>
           rv_inventoryId r = i \<and> rv_status r = RsActive \<and> rv_quantity r = q"
    by (auto simp: insert_active_reservation_def insert_reservation_def inventory_exists_iff db1
        split: if_splits)
  then obtain r where r: "db_reservations db2 = db_reservations db @ [r]" "rv_id r = db_next db"
    "rv_inventoryId r = i" "rv_status r = RsActive" "rv_quantity r = q" by blast
  have keys: "\<forall>r\<in>set (db_reservations db). rv_id r < db_next db"
    using ok by (simp add: stock_ok_def keys_fresh_def)
  show ?thesis
    by (rule row_movement_keeps [OF ok upd n mov db2(1,2)])
      (use ok q i keys in \<open>auto simp: r db2(3) stock_ok_def stock_consistent_def
         reservations_wf_def less_Suc_eq\<close>)
qed

lemma find_active_reservationD:
  "find_active_reservation ord item i db = Some r \<Longrightarrow>
   r \<in> set (db_reservations db) \<and> rv_inventoryId r = i \<and> rv_status r = RsActive \<and>
   rv_orderId r = ord \<and> (\<forall>k. item = Some k \<longrightarrow> rv_orderItemId r = Some k)"
  by (auto simp: find_active_reservation_def dest!: find_SomeD split: option.splits)

text \<open>Closing the active reservation \<open>r\<close> while its row gives up at most \<open>rv_quantity r\<close>.\<close>

lemma close_reservation_keeps:
  assumes ok: "stock_ok db" and upd: "update_inventories p f db = Inr (n, db1)" and n: "n \<noteq> 0"
    and r: "r \<in> set (db_reservations db)" "rv_status r = RsActive" "rv_inventoryId r = i"
    and st: "st \<noteq> RsActive"
    and mov: "insert_movement i d reason ord operator note
        (set_reservation_status e (rv_id r) st db1) = Inr db'"
    and pid: "\<And>r. p r \<Longrightarrow> inv_id r = i" and fid: "\<And>r. inv_id (f r) = inv_id r"
    and self: "\<And>x. p x \<Longrightarrow> inv_reservedQty x - rv_quantity r \<le> inv_reservedQty (f x) \<and>
        inv_onHandQty (f x) = inv_onHandQty x + d"
  shows "stock_ok db'"
proof -
  let ?db2 = "set_reservation_status e (rv_id r) st db1"
  have wf: "reservations_wf (db_inventories db) (db_reservations db)"
    and keys: "keys_fresh db" using ok by (simp_all add: stock_ok_def stock_consistent_def)
  have db1: "db_reservations db1 = db_reservations db" "db_movements db1 = db_movements db"
      "db_next db1 = db_next db"
    using update_inventories_InrD [OF upd] by simp_all
  have active: "active_reserved (db_reservations ?db2) j =
      active_reserved (db_reservations db) j - (if i = j then rv_quantity r else 0)" for j
    using active_closed_one [OF wf r(1,2) st] r(3) by (simp add: set_reservation_status_def db1)
  show ?thesis
  proof (rule row_movement_keeps [OF ok upd n mov])
    show "reservations_wf (db_inventories db) (db_reservations ?db2)"
      using reservations_wf_closed [OF wf] by (simp add: set_reservation_status_def db1)
    show "\<forall>x\<in>set (db_reservations ?db2). rv_id x < db_next ?db2"
      using keys by (auto simp: set_reservation_status_def db1 keys_fresh_def set_upd_where)
    show "active_reserved (db_reservations ?db2) j \<le> active_reserved (db_reservations db) j"
      if "j \<noteq> i" for j using that by (simp add: active)
    show "active_reserved (db_reservations ?db2) i \<le> inv_reservedQty (f x) \<and>
        inv_onHandQty (f x) = inv_onHandQty x + d"
      if "p x" and "active_reserved (db_reservations db) i \<le> inv_reservedQty x" for x
      using that self [of x] by (simp add: active)
  qed (use pid fid in \<open>auto simp: set_reservation_status_def db1\<close>)
qed

lemma low_stock_keeps:
  assumes "stock_ok db"
  shows "stock_ok (checkAndCreateLowStockNotification e i db)"
proof (rule stock_ok_frame [OF assms])
  show "stock_view (checkAndCreateLowStockNotification e i db) = stock_view db"
    by (simp add: checkAndCreateLowStockNotification_def Let_def frame_simps split: option.split)
  show "db_next db \<le> db_next (checkAndCreateLowStockNotification e i db)"
    by (simp add: checkAndCreateLowStockNotification_def Let_def createLowStockNotification_def
        frame_simps split: option.split)
qed

lemma confirmReservation_keeps:
  assumes ok: "stock_ok db" and run: "confirmReservation e ord item i q db = Inr db'"
  shows "stock_ok db'"
proof (cases "find_active_reservation ord item i db")
  case None
  with run ok show ?thesis by (simp add: confirmReservation_def)
next
  case (Some r)
  define k where "k = min q (rv_quantity r)"
  from run Some obtain n db1 db2 where upd: "update_inventories
        (\<lambda>r. inv_id r = i \<and> k \<le> inv_onHandQty r \<and> k \<le> inv_reservedQty r)
        (\<lambda>r. r\<lparr>inv_onHandQty := inv_onHandQty r - k, inv_reservedQty := inv_reservedQty r - k,
               inv_updatedAt := e_now e\<rparr>) db = Inr (n, db1)"
    and n: "n \<noteq> 0"
    and mov: "insert_movement i (- k) MrPurchaseConfirmed (Some ord) None None
        (set_reservation_status e (rv_id r) RsConfirmed db1) = Inr db2"
    and db': "db' = checkAndCreateLowStockNotification e i db2"
    by (auto simp: confirmReservation_def Let_def bindR_eq_Inr k_def split: if_splits)
  from find_active_reservationD [OF Some]
  have r: "r \<in> set (db_reservations db)" "rv_status r = RsActive" "rv_inventoryId r = i" by auto
  have "stock_ok db2"
    by (rule close_reservation_keeps [OF ok upd n r _ mov]) (auto simp: k_def)
  then show ?thesis unfolding db' by (rule low_stock_keeps)
qed

lemma releaseReservation_keeps:
  assumes ok: "stock_ok db" and run: "releaseReservation e ord item i q reason db = Inr db'"
  shows "stock_ok db'"
proof (cases "find_active_reservation ord item i db")
  case None
  with run ok show ?thesis by (simp add: releaseReservation_def)
next
  case (Some r)
  define k where "k = min q (rv_quantity r)"
  from run Some obtain n db1 where upd: "update_inventories
        (\<lambda>r. inv_id r = i \<and> k \<le> inv_reservedQty r)
        (\<lambda>r. r\<lparr>inv_reservedQty := inv_reservedQty r - k, inv_updatedAt := e_now e\<rparr>) db
          = Inr (n, db1)"
    and n: "n \<noteq> 0"
    and mov: "insert_movement i 0 MrReservationReleased (Some ord) None (Some reason)
        (set_reservation_status e (rv_id r) RsReleased db1) = Inr db'"
    by (auto simp: releaseReservation_def Let_def bindR_eq_Inr k_def split: if_splits)
  from find_active_reservationD [OF Some]
  have r: "r \<in> set (db_reservations db)" "rv_status r = RsActive" "rv_inventoryId r = i" by auto
  show ?thesis
    by (rule close_reservation_keeps [OF ok upd n r _ mov]) (auto simp: k_def)
qed

lemma fault_slot_keeps: "stock_ok db \<Longrightarrow> stock_ok (fault_slot e s db)"
  by (erule stock_ok_frame) (simp_all add: fault_slot_def stock_view_def)

text \<open>The return to an inventory that does not exist fails on the ledger's foreign key.\<close>

lemma return_to_stock_keeps:
  assumes ok: "stock_ok db" and run: "return_to_stock e ord note row db = Inr db'"
  shows "stock_ok db'"
proof -
  let ?i = "oi_inventoryId row"
  from run obtain n db1 where upd: "update_inventories (\<lambda>r. inv_id r = ?i)
        (\<lambda>r. r\<lparr>inv_onHandQty := inv_onHandQty r + oi_quantity row, inv_updatedAt := e_now e\<rparr>) db
          = Inr (n, db1)"
    and mov: "insert_movement ?i (oi_quantity row) MrRefundReturn (Some ord) None (Some note) db1
          = Inr db'"
    by (auto simp: return_to_stock_def bindR_eq_Inr)
  have db1: "db_reservations db1 = db_reservations db" "db_movements db1 = db_movements db"
      "db_next db1 = db_next db" "inv_id ` set (db_inventories db1) = inv_id ` set (db_inventories db)"
    using update_inventories_InrD [OF upd] by (simp_all add: inv_id_upd)
  have "n \<noteq> 0"
    using insert_movement_InrD(5) [OF mov] update_inventories_InrD [OF upd] db1(4)
    by (auto simp: count_where_zero)
  then show ?thesis
    by - (rule row_movement_keeps [OF ok upd _ mov],
      use ok in \<open>auto simp: db1 stock_ok_def stock_consistent_def keys_fresh_def\<close>)
qed

lemma foldR_keeps_stock:
  assumes "stock_ok db" and "foldR f xs db = Inr db'"
    and "\<And>x db db'. stock_ok db \<Longrightarrow> f x db = Inr db' \<Longrightarrow> stock_ok db'"
  shows "stock_ok db'"
  using assms(2,1) by (rule foldR_invariant) (rule assms(3))

lemma restoreConfirmed_keeps:
  assumes "stock_ok db"
    and "restoreConfirmedOrderItemsForDispatchFailure e ord note db = Inr (q, db')"
  shows "stock_ok db'"
  using assms
  by (auto simp: restoreConfirmedOrderItemsForDispatchFailure_def Let_def bindR_eq_Inr
      intro: foldR_keeps_stock return_to_stock_keeps split: if_splits)

lemma releaseAffected_keeps:
  assumes ok: "stock_ok db"
    and run: "releaseAffectedReservationForDispenseFailure e ord item s err db = Inr (c, db')"
  shows "stock_ok db'"
proof -
  from run obtain db1 where fold: "foldR (\<lambda>row. releaseReservation e ord item (oi_inventoryId row)
        (oi_quantity row) ''dispense_failed'') (filter (affected_line ord item s) (db_orderItems db))
        db = Inr db1"
    and db': "db' = (if hr_faultSlot (getPolicy err db) then fault_slot e s db1 else db1)"
    by (auto simp: releaseAffectedReservationForDispenseFailure_def Let_def bindR_eq_Inr)
  have "stock_ok db1" using ok fold by (rule foldR_keeps_stock) (rule releaseReservation_keeps)
  then show ?thesis by (simp add: db' fault_slot_keeps)
qed

lemma compensate_keeps:
  assumes ok: "stock_ok db"
    and run: "compensateDispenseFailure e ord item s err message db = Inr (c, db')"
  shows "stock_ok db'"
proof -
  define text1 where "text1 = ''dispense_failed:'' @ error_code_string err @ '':'' @ message"
  from run obtain db1 where
    fold: "(if hr_restoreInventory (getPolicy err db)
       then foldR (return_to_stock e ord text1) (filter (affected_line ord item s)
              (db_orderItems db)) db else Inr db) = Inr db1"
    and db': "db' = (if hr_faultSlot (getPolicy err db) then fault_slot e s db1 else db1)"
    unfolding compensateDispenseFailure_def Let_def text1_def [symmetric] bindR_eq_Inr by auto
  have "stock_ok db1" using ok fold
    by (cases "hr_restoreInventory (getPolicy err db)")
      (auto intro: foldR_keeps_stock return_to_stock_keeps)
  then show ?thesis by (simp add: db' fault_slot_keeps)
qed

text \<open>
  The release of expired reservations changes many rows at once: what it takes from an
  inventory's reserved quantity is what it takes from its active reservations.
\<close>

lemma expired_active:
  "active_reserved (upd_where (reservation_expired now)
      (\<lambda>r. r\<lparr>rv_status := RsReleased, rv_updatedAt := t\<rparr>) rvs) j =
   active_reserved rvs j -
     sum_where (\<lambda>r. rv_inventoryId r = j) rv_quantity (filter (reservation_expired now) rvs)"
proof -
  have "sum_where (\<lambda>r. reservation_expired now r \<and> rv_inventoryId r = j \<and> rv_status r = RsActive)
      rv_quantity rvs =
    sum_where (\<lambda>r. rv_inventoryId r = j) rv_quantity (filter (reservation_expired now) rvs)"
    by (induction rvs) (auto simp: reservation_expired_def)
  then show ?thesis by (simp add: active_closed)
qed

lemma expired_update_keeps:
  assumes ok: "stock_ok db"
    and upd: "update_inventories
        (\<lambda>r. inv_id r \<in> set (map rv_inventoryId (filter (reservation_expired now) (db_reservations db))))
        (\<lambda>r. r\<lparr>inv_reservedQty := max 0 (inv_reservedQty r -
            sum_where (\<lambda>x. rv_inventoryId x = inv_id r) rv_quantity
              (filter (reservation_expired now) (db_reservations db))), inv_updatedAt := t\<rparr>)
        (db\<lparr>db_reservations := upd_where (reservation_expired now)
              (\<lambda>r. r\<lparr>rv_status := RsReleased, rv_updatedAt := t\<rparr>) (db_reservations db)\<rparr>)
          = Inr (n, db1)"
  shows "stock_ok db1"
proof -
  define gone where "gone = filter (reservation_expired now) (db_reservations db)"
  define taken where "taken = (\<lambda>j. sum_where (\<lambda>x. rv_inventoryId x = j) rv_quantity gone)"
  define p where "p = (\<lambda>r::inventory_row. inv_id r \<in> set (map rv_inventoryId gone))"
  define f where "f = (\<lambda>r::inventory_row. r\<lparr>inv_reservedQty := max 0 (inv_reservedQty r - taken (inv_id r)),
      inv_updatedAt := t\<rparr>)"
  define rvs where "rvs = upd_where (reservation_expired now)
      (\<lambda>r. r\<lparr>rv_status := RsReleased, rv_updatedAt := t\<rparr>) (db_reservations db)"
  have fid: "inv_id (f r) = inv_id r" for r by (simp add: f_def)
  have db1: "db1 = db\<lparr>db_reservations := rvs, db_inventories := upd_where p f (db_inventories db)\<rparr>"
    and checks: "\<And>r. r \<in> set (db_inventories db) \<Longrightarrow> p r \<Longrightarrow> inventory_checks (f r)"
    using update_inventories_InrD [OF upd]
    by (simp_all add: p_def f_def taken_def gone_def rvs_def)
  have cons: "stock_consistent (db_inventories db) (db_reservations db) (db_movements db)"
    and keys: "keys_fresh db" using ok by (simp_all add: stock_ok_def)
  have wf: "reservations_wf (db_inventories db) (db_reservations db)"
    using cons by (simp add: stock_consistent_def)
  have active: "active_reserved rvs j = active_reserved (db_reservations db) j - taken j" for j
    unfolding rvs_def taken_def gone_def by (rule expired_active)
  have sound: "inventory_sound rvs (db_movements db) r'"
    if "r' \<in> set (upd_where p f (db_inventories db))" for r'
  proof -
    from that obtain r where r: "r \<in> set (db_inventories db)" and eq: "r' = (if p r then f r else r)"
      by (auto simp: set_upd_where)
    have s: "inventory_sound (db_reservations db) (db_movements db) r"
      using cons r by (simp add: stock_consistent_def)
    show ?thesis
    proof (cases "p r")
      case True
      then show ?thesis using s eq checks [OF r] fid [of r] active [of "inv_id r"]
        by (simp add: inventory_sound_def) (simp add: f_def le_max_iff_disj)
    next
      case False
      then have "taken (inv_id r) = 0"
        unfolding taken_def by (intro sum_where_zero) (force simp: p_def)
      with False show ?thesis using s eq active [of "inv_id r"]
        by (simp add: inventory_sound_def)
    qed
  qed
  have "stock_consistent (upd_where p f (db_inventories db)) rvs (db_movements db)"
    using cons sound reservations_wf_closed [OF wf]
    by (simp add: stock_consistent_def inv_id_upd [OF fid] reservations_wf_def movements_wf_def
        rvs_def)
  moreover have "keys_fresh db1"
    using keys by (auto simp: keys_fresh_def db1 rvs_def set_upd_where fid)
  ultimately show ?thesis by (simp add: stock_ok_def db1)
qed

lemma releaseExpired_keeps:
  assumes ok: "stock_ok db"
    and run: "releaseExpiredInventoryReservations e now db = Inr (k, db')"
  shows "stock_ok db'"
proof -
  let ?gone = "filter (reservation_expired now) (db_reservations db)"
  from run obtain n db1 where upd: "update_inventories
        (\<lambda>r. inv_id r \<in> set (map rv_inventoryId ?gone))
        (\<lambda>r. r\<lparr>inv_reservedQty := max 0 (inv_reservedQty r -
            sum_where (\<lambda>x. rv_inventoryId x = inv_id r) rv_quantity ?gone),
            inv_updatedAt := e_now e\<rparr>)
        (db\<lparr>db_reservations := upd_where (reservation_expired now)
              (\<lambda>r. r\<lparr>rv_status := RsReleased, rv_updatedAt := e_now e\<rparr>) (db_reservations db)\<rparr>)
          = Inr (n, db1)"
    and fold: "foldR (\<lambda>r. insert_movement (rv_inventoryId r) 0 MrReservationReleased
          (Some (rv_orderId r)) None (Some ''payment_expired'')) ?gone db1 = Inr db'"
    unfolding releaseExpiredInventoryReservations_def Let_def bindR_eq_Inr by auto
  show ?thesis
    using expired_update_keeps [OF ok upd] fold
    by (rule foldR_keeps_stock) (rule insert_movement_keeps)
qed

subsection \<open>Runs of the component\<close>

text \<open>The operations of \<open>InventoryService\<close> and of the expiry job that write stock.\<close>

datatype inventory_op =
  OpAdjust uuid uuid int "string option"
| OpCreate uuid uuid uuid uuid int int int "string option"
| OpReserve uuid "uuid option" uuid int ms
| OpConfirm uuid "uuid option" uuid int
| OpRelease uuid "uuid option" uuid int string
| OpRestoreConfirmed uuid string
| OpReleaseAffected uuid "uuid option" uuid "hardware_error_code option"
| OpCompensate uuid "uuid option" uuid "hardware_error_code option" string
| OpReleaseExpired ms

definition drop_result :: "api_error + 'r \<times> db \<Rightarrow> api_error + unit \<times> db" where
  "drop_result m = bindR m (\<lambda>(_, db). Inr ((), db))"

definition no_result :: "api_error + db \<Rightarrow> api_error + unit \<times> db" where
  "no_result m = bindR m (\<lambda>db. Inr ((), db))"

fun run_inventory_op :: "env \<times> inventory_op \<Rightarrow> db \<Rightarrow> api_error + unit \<times> db" where
  "run_inventory_op (e, OpAdjust adm i d note) db = drop_result (adjust e adm i d note db)"
| "run_inventory_op (e, OpCreate adm m s v q rq low note) db =
     drop_result (createInventory e adm m s v q rq low note db)"
| "run_inventory_op (e, OpReserve ord item i q expires) db =
     no_result (reserveForOrder e ord item i q expires db)"
| "run_inventory_op (e, OpConfirm ord item i q) db =
     no_result (confirmReservation e ord item i q db)"
| "run_inventory_op (e, OpRelease ord item i q reason) db =
     no_result (releaseReservation e ord item i q reason db)"
| "run_inventory_op (e, OpRestoreConfirmed ord note) db =
     drop_result (restoreConfirmedOrderItemsForDispatchFailure e ord note db)"
| "run_inventory_op (e, OpReleaseAffected ord item s err) db =
     drop_result (releaseAffectedReservationForDispenseFailure e ord item s err db)"
| "run_inventory_op (e, OpCompensate ord item s err message) db =
     drop_result (compensateDispenseFailure e ord item s err message db)"
| "run_inventory_op (e, OpReleaseExpired now) db =
     drop_result (releaseExpiredInventoryReservations e now db)"

lemma drop_result_Inr: "drop_result m = Inr (u, db') \<longleftrightarrow> (\<exists>r. m = Inr (r, db'))"
  by (auto simp: drop_result_def bindR_eq_Inr)

lemma no_result_Inr: "no_result m = Inr (u, db') \<longleftrightarrow> m = Inr db'"
  by (auto simp: no_result_def bindR_eq_Inr)

lemmas inventory_keeps = adjust_keeps createInventory_keeps reserveForOrder_keeps
  confirmReservation_keeps releaseReservation_keeps restoreConfirmed_keeps
  releaseAffected_keeps compensate_keeps releaseExpired_keeps

interpretation inventory_tx: transaction run_inventory_op stock_ok
proof unfold_locales
  fix i :: "env \<times> inventory_op" and s s' and r :: unit
  assume "stock_ok s" and "run_inventory_op i s = Inr (r, s')"
  then show "stock_ok s'"
    by (cases "(i, s)" rule: run_inventory_op.cases)
      (auto simp: drop_result_Inr no_result_Inr intro: inventory_keeps)
qed

lemma stock_ok_empty [simp]: "stock_ok empty_db"
  by (simp add: stock_ok_def stock_consistent_def keys_fresh_def reservations_wf_def
      movements_wf_def empty_db_def)

end
