(* ===== verification/Stock_Properties.thy ===== *)
theory Stock_Properties
  imports Stock_Invariant
begin

text \<open>
  What the inventory component promises: no run of its operations oversells or loses track of
  stock; a reservation succeeds exactly when the stock is there; settling a reservation never
  fails and happens once; the expiry job is total and complete.
\<close>

subsection \<open>Lemmas\<close>

lemma update_inventories_total:
  assumes "\<And>r. r \<in> set (db_inventories db) \<Longrightarrow> p r \<Longrightarrow> inventory_checks (f r)"
  shows "update_inventories p f db = Inr (count_where p (db_inventories db),
           db\<lparr>db_inventories := upd_where p f (db_inventories db)\<rparr>)"
  using assms by (auto simp: update_inventories_def list_all_iff)

lemma stock_ok_row:
  assumes "stock_ok db" and "i \<in> inv_id ` set (db_inventories db)"
  obtains r where "r \<in> set (db_inventories db)" and "inv_id r = i" and "inventory_checks r"
    and "active_reserved (db_reservations db) i \<le> inv_reservedQty r"
    and "\<And>x. x \<in> set (db_inventories db) \<Longrightarrow> inv_id x = i \<Longrightarrow> x = r"
proof -
  from assms(2) obtain r where r: "r \<in> set (db_inventories db)" "inv_id r = i" by auto
  have "distinct (map inv_id (db_inventories db))"
    using assms(1) by (simp add: stock_ok_def stock_consistent_def)
  from key_unique [OF this] r have "\<And>x. x \<in> set (db_inventories db) \<Longrightarrow> inv_id x = i \<Longrightarrow> x = r"
    by simp
  moreover have "inventory_sound (db_reservations db) (db_movements db) r"
    using assms(1) r by (simp add: stock_ok_def stock_consistent_def)
  ultimately show ?thesis
    using that [of r] r unfolding inventory_sound_def r(2) by blast
qed

lemma count_unique_row:
  assumes "distinct (map k rows)" and "r \<in> set rows" and "p r" and "\<And>x. p x \<Longrightarrow> k x = k r"
  shows "count_where p rows = 1"
proof -
  have "(\<lambda>x. k x = k r \<and> p x) = p" by (rule ext) (metis assms(4))
  then have "filter p rows = filter p (filter (\<lambda>x. k x = k r) rows)"
    unfolding filter_filter by simp
  then show ?thesis using assms(3) filter_key_unique [OF assms(1,2)]
    by (simp add: count_where_def)
qed

lemma active_quantity_covered:
  assumes "stock_ok db" and "r \<in> set (db_reservations db)" and "rv_status r = RsActive"
    and "x \<in> set (db_inventories db)" and "inv_id x = rv_inventoryId r"
  shows "rv_quantity r \<le> inv_reservedQty x" and "0 < rv_quantity r"
proof -
  have wf: "\<forall>r\<in>set (db_reservations db). 0 < rv_quantity r"
    using assms(1) by (simp add: stock_ok_def stock_consistent_def reservations_wf_def)
  then show "0 < rv_quantity r" using assms(2) by simp
  have "rv_quantity r \<le> active_reserved (db_reservations db) (rv_inventoryId r)"
    unfolding active_reserved_def
    by (rule sum_where_member_le) (use wf assms(2,3) in \<open>auto simp: less_imp_le\<close>)
  then show "rv_quantity r \<le> inv_reservedQty x"
    using stock_ok_safe(1) [OF assms(1,4)] assms(5) by simp
qed

lemma insert_movement_total:
  "i \<in> inv_id ` set (db_inventories db) \<Longrightarrow>
   \<exists>db'. insert_movement i d reason ord operator note db = Inr db'"
  by (simp add: insert_movement_def inventory_exists_iff)

text \<open>The guarded update of one sound row succeeds and hits exactly that row.\<close>

lemma row_update_total:
  assumes ok: "stock_ok db" and i: "i \<in> inv_id ` set (db_inventories db)"
    and hit: "\<And>r. r \<in> set (db_inventories db) \<Longrightarrow> inv_id r = i \<Longrightarrow> p r \<and> inventory_checks (f r)"
    and pid: "\<And>r. p r \<Longrightarrow> inv_id r = i"
  shows "update_inventories p f db = Inr (1, db\<lparr>db_inventories := upd_where p f (db_inventories db)\<rparr>)"
proof -
  obtain r where r: "r \<in> set (db_inventories db)" "inv_id r = i"
    using stock_ok_row [OF ok i] by blast
  have dist: "distinct (map inv_id (db_inventories db))"
    using ok by (simp add: stock_ok_def stock_consistent_def)
  have one: "count_where p (db_inventories db) = 1"
    by (rule count_unique_row [where k = inv_id, OF dist r(1)]) (use hit r pid in auto)
  have checks: "\<And>x. x \<in> set (db_inventories db) \<Longrightarrow> p x \<Longrightarrow> inventory_checks (f x)"
    using hit pid by blast
  show ?thesis using update_inventories_total [of db p f, OF checks] one by simp
qed

lemma confirm_total:
  assumes ok: "stock_ok db" and q: "0 \<le> q"
  shows "\<exists>db'. confirmReservation e ord item i q db = Inr db'"
proof (cases "find_active_reservation ord item i db")
  case None
  then show ?thesis by (simp add: confirmReservation_def)
next
  case (Some r)
  let ?k = "min q (rv_quantity r)"
  let ?p = "\<lambda>x. inv_id x = i \<and> ?k \<le> inv_onHandQty x \<and> ?k \<le> inv_reservedQty x"
  let ?f = "\<lambda>x. x\<lparr>inv_onHandQty := inv_onHandQty x - ?k, inv_reservedQty := inv_reservedQty x - ?k,
      inv_updatedAt := e_now e\<rparr>"
  from find_active_reservationD [OF Some]
  have r: "r \<in> set (db_reservations db)" "rv_status r = RsActive" "rv_inventoryId r = i" by auto
  have i: "i \<in> inv_id ` set (db_inventories db)"
    using ok r by (auto simp: stock_ok_def stock_consistent_def reservations_wf_def)
  have hit: "?p x \<and> inventory_checks (?f x)"
    if x: "x \<in> set (db_inventories db)" "inv_id x = i" for x
  proof -
    have "rv_quantity r \<le> inv_reservedQty x" "0 < rv_quantity r"
      using active_quantity_covered [OF ok r(1,2) x(1)] x(2) r(3) by simp_all
    moreover have "inventory_checks x"
      using ok x by (simp add: stock_ok_def stock_consistent_def inventory_sound_def)
    ultimately show ?thesis using x q by (auto simp: inventory_checks_def min_def)
  qed
  have upd: "update_inventories ?p ?f db = Inr (1, db\<lparr>db_inventories := upd_where ?p ?f (db_inventories db)\<rparr>)"
    by (rule row_update_total [OF ok i hit]) auto
  have "i \<in> inv_id ` set (db_inventories (set_reservation_status e (rv_id r) RsConfirmed
      (db\<lparr>db_inventories := upd_where ?p ?f (db_inventories db)\<rparr>)))"
    using i by (simp add: set_reservation_status_def inv_id_upd)
  from insert_movement_total [OF this, of "- ?k" MrPurchaseConfirmed "Some ord" None None]
  obtain db2 where "insert_movement i (- ?k) MrPurchaseConfirmed (Some ord) None None
      (set_reservation_status e (rv_id r) RsConfirmed
        (db\<lparr>db_inventories := upd_where ?p ?f (db_inventories db)\<rparr>)) = Inr db2" by blast
  then show ?thesis by (simp add: confirmReservation_def Some Let_def upd)
qed

lemma release_total:
  assumes ok: "stock_ok db" and q: "0 \<le> q"
  shows "\<exists>db'. releaseReservation e ord item i q reason db = Inr db'"
proof (cases "find_active_reservation ord item i db")
  case None
  then show ?thesis by (simp add: releaseReservation_def)
next
  case (Some r)
  let ?k = "min q (rv_quantity r)"
  let ?p = "\<lambda>x. inv_id x = i \<and> ?k \<le> inv_reservedQty x"
  let ?f = "\<lambda>x. x\<lparr>inv_reservedQty := inv_reservedQty x - ?k, inv_updatedAt := e_now e\<rparr>"
  from find_active_reservationD [OF Some]
  have r: "r \<in> set (db_reservations db)" "rv_status r = RsActive" "rv_inventoryId r = i" by auto
  have i: "i \<in> inv_id ` set (db_inventories db)"
    using ok r by (auto simp: stock_ok_def stock_consistent_def reservations_wf_def)
  have hit: "?p x \<and> inventory_checks (?f x)"
    if x: "x \<in> set (db_inventories db)" "inv_id x = i" for x
  proof -
    have "rv_quantity r \<le> inv_reservedQty x" "0 < rv_quantity r"
      using active_quantity_covered [OF ok r(1,2) x(1)] x(2) r(3) by simp_all
    moreover have "inventory_checks x"
      using ok x by (simp add: stock_ok_def stock_consistent_def inventory_sound_def)
    ultimately show ?thesis using x q by (auto simp: inventory_checks_def min_def)
  qed
  have upd: "update_inventories ?p ?f db = Inr (1, db\<lparr>db_inventories := upd_where ?p ?f (db_inventories db)\<rparr>)"
    by (rule row_update_total [OF ok i hit]) auto
  have "i \<in> inv_id ` set (db_inventories (set_reservation_status e (rv_id r) RsReleased
      (db\<lparr>db_inventories := upd_where ?p ?f (db_inventories db)\<rparr>)))"
    using i by (simp add: set_reservation_status_def inv_id_upd)
  from insert_movement_total [OF this, of 0 MrReservationReleased "Some ord" None "Some reason"]
  obtain db2 where "insert_movement i 0 MrReservationReleased (Some ord) None (Some reason)
      (set_reservation_status e (rv_id r) RsReleased
        (db\<lparr>db_inventories := upd_where ?p ?f (db_inventories db)\<rparr>)) = Inr db2" by blast
  then show ?thesis by (simp add: releaseReservation_def Some Let_def upd)
qed

text \<open>Closing the only matching active reservation leaves none.\<close>

lemma find_closed_None:
  assumes "filter (\<lambda>r. rv_orderId r = ord \<and> rv_inventoryId r = i \<and>
        (case item of None \<Rightarrow> True | Some k \<Rightarrow> rv_orderItemId r = Some k) \<and> rv_status r = RsActive)
      (db_reservations db) = [r0]"
    and "db_reservations db' = upd_where (\<lambda>r. rv_id r = rv_id r0)
        (\<lambda>r. r\<lparr>rv_status := st, rv_updatedAt := t\<rparr>) (db_reservations db)"
    and "st \<noteq> RsActive"
  shows "find_active_reservation ord item i db' = None"
proof -
  have "\<not> (rv_orderId r = ord \<and> rv_inventoryId r = i \<and>
      (case item of None \<Rightarrow> True | Some k \<Rightarrow> rv_orderItemId r = Some k) \<and> rv_status r = RsActive)"
    if "r \<in> set (db_reservations db')" for r
  proof
    assume m: "rv_orderId r = ord \<and> rv_inventoryId r = i \<and>
      (case item of None \<Rightarrow> True | Some k \<Rightarrow> rv_orderItemId r = Some k) \<and> rv_status r = RsActive"
    from that assms(2) obtain x where x: "x \<in> set (db_reservations db)"
      and eq: "r = (if rv_id x = rv_id r0 then x\<lparr>rv_status := st, rv_updatedAt := t\<rparr> else x)"
      by (auto simp: set_upd_where)
    from m eq assms(3) have "rv_id x \<noteq> rv_id r0" and rx: "r = x" by (auto split: if_splits)
    from m x have "x \<in> set (filter (\<lambda>r. rv_orderId r = ord \<and> rv_inventoryId r = i \<and>
        (case item of None \<Rightarrow> True | Some k \<Rightarrow> rv_orderItemId r = Some k) \<and> rv_status r = RsActive)
      (db_reservations db))" unfolding rx by simp
    then have "x = r0" by (simp only: assms(1)) simp
    with \<open>rv_id x \<noteq> rv_id r0\<close> show False by simp
  qed
  then show ?thesis unfolding find_active_reservation_def by (simp add: find_None_iff)
qed

lemma find_of_filter: "filter p xs = [r] \<Longrightarrow> List.find p xs = Some r"
  by (induction xs) (auto split: if_splits)

lemma low_stock_reservations [simp]:
  "db_reservations (checkAndCreateLowStockNotification e i db) = db_reservations db"
  by (simp add: checkAndCreateLowStockNotification_def createLowStockNotification_def
      insert_notification_def Let_def split: option.split)

lemma confirm_reservations:
  assumes "confirmReservation e ord item i q db = Inr db'"
    and "find_active_reservation ord item i db = Some r"
  shows "db_reservations db' = upd_where (\<lambda>x. rv_id x = rv_id r)
      (\<lambda>x. x\<lparr>rv_status := RsConfirmed, rv_updatedAt := e_now e\<rparr>) (db_reservations db)"
  using assms
  by (auto simp: confirmReservation_def Let_def bindR_eq_Inr insert_movement_InrD
      set_reservation_status_def dest!: update_inventories_InrD split: if_splits)

lemma release_reservations:
  assumes "releaseReservation e ord item i q reason db = Inr db'"
    and "find_active_reservation ord item i db = Some r"
  shows "db_reservations db' = upd_where (\<lambda>x. rv_id x = rv_id r)
      (\<lambda>x. x\<lparr>rv_status := RsReleased, rv_updatedAt := e_now e\<rparr>) (db_reservations db)"
  using assms
  by (auto simp: releaseReservation_def Let_def bindR_eq_Inr insert_movement_InrD
      set_reservation_status_def dest!: update_inventories_InrD split: if_splits)

lemma expired_release_total:
  assumes ok: "stock_ok db"
  shows "\<exists>db'. releaseExpiredInventoryReservations e now db =
    Inr (length (filter (reservation_expired now) (db_reservations db)), db')"
proof -
  let ?gone = "filter (reservation_expired now) (db_reservations db)"
  let ?p = "\<lambda>r::inventory_row. inv_id r \<in> set (map rv_inventoryId ?gone)"
  let ?f = "\<lambda>r::inventory_row. r\<lparr>inv_reservedQty := max 0 (inv_reservedQty r -
      sum_where (\<lambda>x. rv_inventoryId x = inv_id r) rv_quantity ?gone), inv_updatedAt := e_now e\<rparr>"
  let ?db0 = "db\<lparr>db_reservations := upd_where (reservation_expired now)
      (\<lambda>r. r\<lparr>rv_status := RsReleased, rv_updatedAt := e_now e\<rparr>) (db_reservations db)\<rparr>"
  have wf: "reservations_wf (db_inventories db) (db_reservations db)"
    using ok by (simp add: stock_ok_def stock_consistent_def)
  have "inventory_checks (?f r)" if "r \<in> set (db_inventories ?db0)" for r
  proof -
    have "inventory_checks r"
      using ok that by (simp add: stock_ok_def stock_consistent_def inventory_sound_def)
    moreover have "0 \<le> sum_where (\<lambda>x. rv_inventoryId x = inv_id r) rv_quantity ?gone"
      using wf by (intro sum_where_nonneg) (fastforce simp: reservations_wf_def)
    ultimately show ?thesis by (simp add: inventory_checks_def)
  qed
  then obtain n db1 where upd: "update_inventories ?p ?f ?db0 = Inr (n, db1)"
    using update_inventories_total [of ?db0 ?p ?f] by blast
  have ids: "inv_id ` set (db_inventories db1) = inv_id ` set (db_inventories db)"
    using update_inventories_InrD [OF upd] by (simp add: inv_id_upd)
  have "\<exists>db'. foldR (\<lambda>r. insert_movement (rv_inventoryId r) 0 MrReservationReleased
          (Some (rv_orderId r)) None (Some ''payment_expired'')) rs db2 = Inr db'"
    if "\<forall>r\<in>set rs. rv_inventoryId r \<in> inv_id ` set (db_inventories db2)" for rs db2
    using that
  proof (induction rs arbitrary: db2)
    case Nil
    then show ?case by simp
  next
    case (Cons r rs)
    then obtain db3 where "insert_movement (rv_inventoryId r) 0 MrReservationReleased
          (Some (rv_orderId r)) None (Some ''payment_expired'') db2 = Inr db3"
      using insert_movement_total by fastforce
    with Cons insert_movement_InrD(1) [OF this] show ?case by simp
  qed
  from this [of ?gone db1] wf ids obtain db' where "foldR (\<lambda>r. insert_movement (rv_inventoryId r) 0
      MrReservationReleased (Some (rv_orderId r)) None (Some ''payment_expired'')) ?gone db1 = Inr db'"
    by (auto simp: reservations_wf_def)
  then show ?thesis
    unfolding releaseExpiredInventoryReservations_def Let_def upd bindR_Inr by simp
qed

lemma foldR_movement_frame:
  assumes "foldR (\<lambda>r. insert_movement (g r) d reason (h r) operator note) rs db = Inr db'"
  shows "db_reservations db' = db_reservations db" and "db_inventories db' = db_inventories db"
  using assms by (auto elim!: foldR_frame [where g = db_reservations]
      foldR_frame [where g = db_inventories] simp: insert_movement_InrD)

lemma expired_release_reservations:
  assumes "releaseExpiredInventoryReservations e now db = Inr (n, db')"
  shows "db_reservations db' = upd_where (reservation_expired now)
      (\<lambda>r. r\<lparr>rv_status := RsReleased, rv_updatedAt := e_now e\<rparr>) (db_reservations db)"
  using assms
  by (auto simp: releaseExpiredInventoryReservations_def Let_def bindR_eq_Inr
      foldR_movement_frame dest!: update_inventories_InrD)

subsection \<open>A concrete shop\<close>

text \<open>
  One machine with one slot that holds five units, two of them reserved for the single line of
  order 20; what the witnesses evaluate on.
\<close>

definition shop_config :: runtime_config where
  "shop_config = \<lparr>cfg_id = Some 80, cfg_providerCode = ''alipay'', cfg_merchantNo = None,
     cfg_appId = None, cfg_publicConfigJson = []\<rparr>"

definition shop_env :: env where
  "shop_env = \<lparr>e_now = 1000, e_toISOString = (\<lambda>t. ''2026-01-02T03:04:05.000Z''),
     e_randomUUID = (\<lambda>n. ''abcd-'' @ show_int (int n) @ ''-efghijklmn''),
     e_sha256 = (\<lambda>m. ''hash''), e_sha256Hex = (\<lambda>s. ''hash''),
     e_registry = (\<lambda>c. Some \<lparr>rp_supportsPartialRefund = True,
       rp_refundPayment = (\<lambda>q. Inr \<lparr>an_status = AnsSucceeded,
          an_providerRefundNo = Some (''P'' @ rq_refundNo q), an_refundedAt = Some 1001\<rparr>),
       rp_queryRefund = Some (\<lambda>q. Inr \<lparr>an_status = AnsProcessing,
          an_providerRefundNo = None, an_refundedAt = None\<rparr>),
       rp_createPaymentIntent = (\<lambda>i. Inr \<lparr>ir_providerTradeNo = Some ''T1'',
          ir_paymentUrl = ''https://pay'', ir_initialStatus = None\<rparr>),
       rp_queryPayment = (\<lambda>q. Inr \<lparr>pqr_status = QSucceeded, pqr_providerTradeNo = Some ''T1'',
          pqr_paidAt = Some 990, pqr_failedReason = None, pqr_reconciliationState = None\<rparr>),
       rp_cancelPayment = (\<lambda>q. Inr CancelCanceled),
       rp_paymentCode = Some \<lparr>
         cp_charge = (\<lambda>c. Inr \<lparr>cd_status = CsSucceeded, cd_providerTradeNo = Some ''T2'',
           cd_paidAt = Some 995, cd_providerStatus = None, cd_failureCode = None,
           cd_failureMessage = None\<rparr>),
         cp_query = (\<lambda>c. Inr \<lparr>cd_status = CsUserConfirming, cd_providerTradeNo = Some ''T2'',
           cd_paidAt = None, cd_providerStatus = None, cd_failureCode = None,
           cd_failureMessage = None\<rparr>),
         cp_reverse = (\<lambda>c. Inr \<lparr>rr_status = RevReversed, rr_providerStatus = None,
           rr_failureCode = None, rr_failureMessage = None\<rparr>)\<rparr>\<rparr>),
     e_configs = \<lparr>cs_unavailable = (\<lambda>code met mid. None),
       cs_resolveForPayment = (\<lambda>code mid. Inr shop_config),
       cs_resolveForExisting = (\<lambda>code cid. Inr shop_config),
       cs_publicConfig = (\<lambda>pid mid. None)\<rparr>,
     e_paymentMockEnabled = True\<rparr>"

definition shop_inventory :: inventory_row where
  "shop_inventory = \<lparr>inv_id = 3, inv_machineId = 1, inv_slotId = 2, inv_variantId = 9,
     inv_onHandQty = 5, inv_reservedQty = 2, inv_lowStockThreshold = 1, inv_updatedAt = 0\<rparr>"

definition shop_reservation :: reservation_row where
  "shop_reservation = \<lparr>rv_id = 30, rv_orderId = 20, rv_inventoryId = 3, rv_orderItemId = Some 21,
     rv_quantity = 2, rv_status = RsActive, rv_expiresAt = 900, rv_updatedAt = 0\<rparr>"

definition shop_db :: db where
  "shop_db = empty_db
     \<lparr>db_next := 100,
      db_machines := [\<lparr>m_id = 1, m_code = ''M1'', m_status = MsOnline, m_lastSeenAt = Some 990,
        m_updatedAt = 0, m_deletedAt = None\<rparr>],
      db_slots := [\<lparr>sl_id = 2, sl_machineId = 1, sl_rowNo = 1, sl_cellNo = 1, sl_capacity = 8,
        sl_status = SsEnabled, sl_updatedAt = 0, sl_deletedAt = None\<rparr>],
      db_inventories := [shop_inventory], db_reservations := [shop_reservation],
      db_movements := [\<lparr>mv_id = 40, mv_inventoryId = 3, mv_deltaQty = 5, mv_reason = MrRefill,
        mv_orderId = None, mv_operatorAdminUserId = None, mv_note = None\<rparr>]\<rparr>"

lemmas shop_defs = shop_db_def shop_inventory_def shop_reservation_def shop_env_def empty_db_def

lemma shop_ok: "stock_ok shop_db"
  by (simp add: shop_defs stock_ok_def stock_consistent_def reservations_wf_def movements_wf_def
      inventory_sound_def inventory_checks_def active_reserved_def ledger_balance_def
      keys_fresh_def INT4_MAX_def)

subsection \<open>Properties\<close>

text \<open>Whatever sequence of inventory operations runs, in whatever order and with whatever
  arguments (a thrown operation is rolled back), no inventory row is ever oversold: the active
  reservations are covered by its reserved quantity, that by its quantity on hand, and the
  quantity on hand is the balance of the row's ledger.\<close>

theorem inventory_runs_never_oversell:
  assumes "stock_ok db"
    and "r \<in> set (db_inventories (commit_run run_inventory_op ops db))"
  shows "active_reserved (db_reservations (commit_run run_inventory_op ops db)) (inv_id r)
           \<le> inv_reservedQty r \<and>
         0 \<le> inv_reservedQty r \<and> inv_reservedQty r \<le> inv_onHandQty r \<and>
         inv_onHandQty r =
           ledger_balance (db_movements (commit_run run_inventory_op ops db)) (inv_id r)"
  using stock_ok_safe [OF inventory_tx.run_keeps [OF assms(1)] assms(2)] by simp

text \<open>A reservation of a positive quantity succeeds exactly when the inventory exists and
  has that quantity available. It then adds one active reservation with a fresh key, raises the
  reserved quantity of that row by the quantity and leaves one ledger entry that moves no stock;
  otherwise it throws a conflict.\<close>

theorem reserve_exactly_when_available:
  assumes ok: "stock_ok db" and q: "0 < q"
  shows "case reserveForOrder e ord item i q expires db of
      Inl err \<Rightarrow> err = ConflictException ''Inventory is not available'' \<and>
        (\<forall>r\<in>set (db_inventories db). inv_id r = i \<longrightarrow> inv_onHandQty r - inv_reservedQty r < q)
    | Inr db' \<Rightarrow>
        (\<exists>r\<in>set (db_inventories db). inv_id r = i \<and> q \<le> inv_onHandQty r - inv_reservedQty r) \<and>
        db_inventories db' = upd_where (\<lambda>r. inv_id r = i)
          (\<lambda>r. r\<lparr>inv_reservedQty := inv_reservedQty r + q, inv_updatedAt := e_now e\<rparr>)
          (db_inventories db) \<and>
        db_reservations db' = db_reservations db @ [\<lparr>rv_id = db_next db, rv_orderId = ord,
          rv_inventoryId = i, rv_orderItemId = item, rv_quantity = q, rv_status = RsActive,
          rv_expiresAt = expires, rv_updatedAt = e_now e\<rparr>] \<and>
        (\<exists>m. db_movements db' = db_movements db @ [m] \<and> mv_inventoryId m = i \<and>
             mv_deltaQty m = 0 \<and> mv_reason m = MrPurchaseReserved \<and> mv_orderId m = Some ord)"
proof -
  let ?p = "\<lambda>r. inv_id r = i \<and> q \<le> inv_onHandQty r - inv_reservedQty r"
  let ?f = "\<lambda>r. r\<lparr>inv_reservedQty := inv_reservedQty r + q, inv_updatedAt := e_now e\<rparr>"
  have dist: "distinct (map inv_id (db_inventories db))"
    using ok by (simp add: stock_ok_def stock_consistent_def)
  have "inventory_checks (?f r)" if "r \<in> set (db_inventories db)" "?p r" for r
  proof -
    have "inventory_checks r"
      using ok that by (simp add: stock_ok_def stock_consistent_def inventory_sound_def)
    with that q show ?thesis by (simp add: inventory_checks_def)
  qed
  then have upd: "update_inventories ?p ?f db = Inr (count_where ?p (db_inventories db),
      db\<lparr>db_inventories := upd_where ?p ?f (db_inventories db)\<rparr>)"
    by (rule update_inventories_total)
  show ?thesis
  proof (cases "\<exists>r\<in>set (db_inventories db). ?p r")
    case True
    then obtain r where r: "r \<in> set (db_inventories db)" "?p r" by blast
    have one: "count_where ?p (db_inventories db) = 1"
      by (rule count_unique_row [where k = inv_id and r = r and p = ?p]) (use dist r in auto)
    have "?p x = (inv_id x = i)" if x: "x \<in> set (db_inventories db)" for x
    proof
      assume "inv_id x = i"
      then have "x = r" using key_unique [OF dist x r(1)] r(2) by simp
      then show "?p x" using r(2) by blast
    qed simp
    then have same: "upd_where ?p ?f (db_inventories db) =
        upd_where (\<lambda>r. inv_id r = i) ?f (db_inventories db)"
      unfolding upd_where_def by (intro map_cong) simp_all
    have i: "i \<in> inv_id ` set (db_inventories db)" using r by auto
    show ?thesis
      using True q i
      by (simp add: reserveForOrder_def upd one insert_active_reservation_def insert_reservation_def
          insert_movement_def inventory_exists_iff inv_id_upd same)
  next
    case False
    then have "count_where ?p (db_inventories db) = 0" by (simp add: count_where_zero)
    with False show ?thesis by (auto simp: reserveForOrder_def upd)
  qed
qed

theorem reserve_exactly_when_available_witness:
  "\<exists>r\<in>set (db_inventories shop_db). inv_id r = 3 \<and> 3 \<le> inv_onHandQty r - inv_reservedQty r"
  using reserve_exactly_when_available [OF shop_ok, where e = shop_env and ord = 50 and item = None
      and i = 3 and q = 3 and expires = 2000]
  by (simp add: shop_defs split: sum.splits)

text \<open>Settling a reservation never throws on consistent stock, and happens once: when one
  active reservation matches the order line, the first confirmation (or release) succeeds, and
  every later confirmation or release of that line changes nothing at all.\<close>

theorem settlement_succeeds_once:
  assumes ok: "stock_ok db" and q: "0 \<le> q"
    and one: "filter (\<lambda>r. rv_orderId r = ord \<and> rv_inventoryId r = i \<and>
        (case item of None \<Rightarrow> True | Some k \<Rightarrow> rv_orderItemId r = Some k) \<and> rv_status r = RsActive)
      (db_reservations db) = [r0]"
  shows "(\<exists>db1. confirmReservation e ord item i q db = Inr db1 \<and>
            confirmReservation e' ord item i q' db1 = Inr db1 \<and>
            releaseReservation e' ord item i q' reason db1 = Inr db1) \<and>
         (\<exists>db1. releaseReservation e ord item i q reason db = Inr db1 \<and>
            confirmReservation e' ord item i q' db1 = Inr db1 \<and>
            releaseReservation e' ord item i q' reason db1 = Inr db1)"
proof (rule conjI)
  have f: "find_active_reservation ord item i db = Some r0"
    unfolding find_active_reservation_def by (rule find_of_filter [OF one])
  obtain db1 where c: "confirmReservation e ord item i q db = Inr db1"
    using confirm_total [OF ok q] by blast
  have "find_active_reservation ord item i db1 = None"
    by (rule find_closed_None [OF one confirm_reservations [OF c f]]) simp
  then show "\<exists>db1. confirmReservation e ord item i q db = Inr db1 \<and>
           confirmReservation e' ord item i q' db1 = Inr db1 \<and>
           releaseReservation e' ord item i q' reason db1 = Inr db1"
    using c by (simp add: confirmReservation_def releaseReservation_def)
  obtain db1 where c: "releaseReservation e ord item i q reason db = Inr db1"
    using release_total [OF ok q] by blast
  have "find_active_reservation ord item i db1 = None"
    by (rule find_closed_None [OF one release_reservations [OF c f]]) simp
  then show "\<exists>db1. releaseReservation e ord item i q reason db = Inr db1 \<and>
           confirmReservation e' ord item i q' db1 = Inr db1 \<and>
           releaseReservation e' ord item i q' reason db1 = Inr db1"
    using c by (simp add: confirmReservation_def releaseReservation_def)
qed

theorem settlement_succeeds_once_witness:
  "\<exists>db1. confirmReservation shop_env 20 (Some 21) 3 2 shop_db = Inr db1 \<and>
     confirmReservation shop_env 20 (Some 21) 3 2 db1 = Inr db1 \<and>
     releaseReservation shop_env 20 (Some 21) 3 2 ''x'' db1 = Inr db1"
  using settlement_succeeds_once [OF shop_ok, where ?r0.0 = shop_reservation and ord = 20
      and item = "Some 21" and i = 3 and q = 2 and q' = 2 and e = shop_env and e' = shop_env
      and reason = "''x''"]
  by (simp add: shop_defs)

text \<open>C14: on consistent stock the expiry job never throws and is complete: it reports the number
  of expired active reservations, afterwards none is left, and a second run releases nothing.\<close>

theorem expiry_job_total_and_complete:
  assumes "stock_ok db"
  shows "\<exists>db'. releaseExpiredInventoryReservations e now db =
      Inr (count_where (\<lambda>r. rv_status r = RsActive \<and> rv_expiresAt r \<le> now) (db_reservations db), db') \<and>
    (\<forall>r\<in>set (db_reservations db'). rv_status r = RsActive \<longrightarrow> now < rv_expiresAt r) \<and>
    (\<exists>db''. releaseExpiredInventoryReservations e' now db' = Inr (0, db'') \<and>
       db_reservations db'' = db_reservations db')"
proof -
  obtain db' where run: "releaseExpiredInventoryReservations e now db =
      Inr (length (filter (reservation_expired now) (db_reservations db)), db')"
    using expired_release_total [OF assms] by blast
  note rvs = expired_release_reservations [OF run]
  have none: "\<forall>r\<in>set (db_reservations db'). \<not> reservation_expired now r"
    unfolding rvs by (auto simp: set_upd_where reservation_expired_def)
  then have live: "\<forall>r\<in>set (db_reservations db'). rv_status r = RsActive \<longrightarrow> now < rv_expiresAt r"
    by (auto simp: reservation_expired_def)
  have empty: "filter (reservation_expired now) (db_reservations db') = []"
    using none by (simp add: filter_empty_conv)
  have ok': "stock_ok db'" by (rule releaseExpired_keeps [OF assms run])
  from expired_release_total [OF ok', of e' now] empty obtain db''
    where again: "releaseExpiredInventoryReservations e' now db' = Inr (0, db'')" by auto
  have "db_reservations db'' = db_reservations db'"
    unfolding expired_release_reservations [OF again] using none by (simp add: upd_where_none)
  moreover have "(\<lambda>r. rv_status r = RsActive \<and> rv_expiresAt r \<le> now) = reservation_expired now"
    by (simp add: fun_eq_iff reservation_expired_def)
  ultimately show ?thesis using run live again by (auto simp: count_where_def)
qed

theorem expiry_job_total_and_complete_witness:
  "\<exists>db'. releaseExpiredInventoryReservations shop_env 1000 shop_db = Inr (1, db')"
  using expiry_job_total_and_complete [OF shop_ok, of shop_env 1000]
  by (auto simp: shop_defs)

end
