(* ===== verification/Refund_Properties.thy ===== *)
theory Refund_Properties
  imports Refunds Stock_Properties
begin

text \<open>
  What makes refunds right. \<open>refunds_ok\<close>: one active refund per order and reason, fresh keys, and
  no refund above its payment (a partial one strictly below it and positive). Every phase of
  every operation keeps it, so it holds under any interleaving of the phases with any answers of
  the providers. Then the behaviour of settlement, dispatch and webhooks, and two cases in which
  the code does not do what it means to: several refunds of one payment under different reasons,
  and a late webhook that reopens a settled refund.
\<close>

subsection \<open>The invariant\<close>

definition payment_view :: "db \<Rightarrow> (uuid \<times> int) list" where
  "payment_view db = map (\<lambda>p. (p_id p, p_amountCents p)) (db_payments db)"

definition amount_ok :: "(uuid \<times> int) list \<Rightarrow> refund_row \<Rightarrow> bool" where
  "amount_ok pays r \<longleftrightarrow> (\<exists>(i, a)\<in>set pays. i = rf_paymentId r \<and> 0 \<le> rf_amountCents r \<and>
     rf_amountCents r \<le> a \<and>
     (rf_reason r = partial_reason \<longrightarrow> 0 < rf_amountCents r \<and> rf_amountCents r < a))"

definition refunds_ok :: "db \<Rightarrow> bool" where
  "refunds_ok db \<longleftrightarrow> no_conflict refund_conflict (db_refunds db) \<and>
     distinct (map rf_id (db_refunds db)) \<and>
     (\<forall>r\<in>set (db_refunds db). rf_id r < db_next db \<and> amount_ok (payment_view db) r)"

definition refund_view :: "db \<Rightarrow> refund_row list \<times> (uuid \<times> int) list" where
  "refund_view db = (db_refunds db, payment_view db)"

lemma refunds_ok_frame:
  "refunds_ok db \<Longrightarrow> refund_view db' = refund_view db \<Longrightarrow> db_next db \<le> db_next db' \<Longrightarrow>
   refunds_ok db'"
  by (auto simp: refunds_ok_def refund_view_def dest: less_le_trans)

lemma refund_view_writes [frame_simps]:
  "refund_view (upd_orders p f db) = refund_view db"
  "refund_view (upd_items p2 f2 db) = refund_view db"
  "refund_view (log_status ord fr tos why meta db) = refund_view db"
  "refund_view (record_event ev db) = refund_view db"
  "refund_view (set_item_refund e st rid p2 db) = refund_view db"
  "refund_view (set_payment_status e pst pid db) = refund_view db"
  "refund_view (insert_attempt a1 a2 a3 a4 a5 a6 a7 a8 a9 db) = refund_view db"
  "refund_view (upd_attempt aid g db) = refund_view db"
  by (auto simp: refund_view_def payment_view_def upd_defs record_event_def set_item_refund_def
      set_payment_status_def insert_attempt_def upd_attempt_def upd_where_def)

lemma payment_amount_writes:
  "(\<And>p. p_id (f p) = p_id p) \<Longrightarrow> (\<And>p. p_amountCents (f p) = p_amountCents p) \<Longrightarrow>
   refund_view (upd_payments q f db) = refund_view db"
  by (auto simp: refund_view_def payment_view_def upd_payments_def upd_where_def)

lemma next_writes [frame_simps]:
  "db_next (upd_orders p f db) = db_next db"
  "db_next (upd_items p2 f2 db) = db_next db"
  "db_next (upd_payments p3 f3 db) = db_next db"
  "db_next (log_status ord fr tos why meta db) = db_next db"
  "db_next (record_event ev db) = db_next db"
  "db_next (set_item_refund e st rid p2 db) = db_next db"
  "db_next (set_payment_status e pst pid db) = db_next db"
  "db_next (insert_attempt a1 a2 a3 a4 a5 a6 a7 a8 a9 db) = db_next db + 1"
  "db_next (upd_attempt aid g db) = db_next db"
  by (simp_all add: upd_defs record_event_def set_item_refund_def
      set_payment_status_def insert_attempt_def upd_attempt_def)

subsection \<open>Every phase keeps the invariant\<close>

lemma update_refunds_InrD:
  "update_refunds p f db = Inr (n, db') \<Longrightarrow> n = count_where p (db_refunds db) \<and>
     db' = db\<lparr>db_refunds := upd_where p f (db_refunds db)\<rparr> \<and>
     no_conflict refund_conflict (upd_where p f (db_refunds db))"
  by (auto simp: update_refunds_def Let_def split: if_splits)

lemma update_refunds_keeps:
  assumes "refunds_ok db" and "update_refunds p f db = Inr (n, db')"
    and "\<And>r. rf_id (f r) = rf_id r" and "\<And>r. rf_paymentId (f r) = rf_paymentId r"
    and "\<And>r. rf_amountCents (f r) = rf_amountCents r" and "\<And>r. rf_reason (f r) = rf_reason r"
  shows "refunds_ok db'"
  using assms(1) update_refunds_InrD [OF assms(2)]
  by (auto simp: refunds_ok_def payment_view_def set_upd_where map_upd_where assms(3-6)
      amount_ok_def)

lemma insert_refund_keeps:
  assumes ok: "refunds_ok db" and run: "insert_refund r db = Inr (x, db')"
    and "rf_id r = db_next db" and "amount_ok (payment_view db) r"
  shows "refunds_ok db'"
proof -
  have db': "db' = db\<lparr>db_refunds := snd (insert_or_ignore refund_conflict r (db_refunds db)),
      db_next := db_next db + 1\<rparr>"
    using run by (auto simp: insert_refund_def split: if_splits prod.splits)
  have "no_conflict refund_conflict (db_refunds db')"
    using ok by (simp add: db' refunds_ok_def insert_or_ignore_no_conflict refund_conflict_sym)
  then show ?thesis using ok assms(3,4)
    by (auto simp: db' refunds_ok_def insert_or_ignore_def payment_view_def less_Suc_eq)
qed

lemma insert_event_frame:
  assumes "insert_event ev db = Inr db'"
  shows "refund_view db' = refund_view db" and "db_next db' = db_next db"
  using assms by (auto simp: insert_event_def frame_simps split: if_splits)

lemma order_paymentD:
  assumes "order_payment ord db = Some (x, p)"
  shows "(p_id p, p_amountCents p) \<in> set (payment_view db)"
proof -
  from assms obtain pid where "find_payment pid db = Some p"
    by (auto simp: order_payment_def split: option.splits)
  then have "p \<in> set (db_payments db)" by (auto simp: find_payment_def dest: find_SomeD)
  then show ?thesis by (auto simp: payment_view_def)
qed

lemma full_amount_ok:
  assumes "order_payment ord db = Some (x, p)" and "0 \<le> p_amountCents p"
  shows "amount_ok (payment_view db)
    (new_refund e (p_id p) ord (p_amountCents p) st (reason_string why) adm db2)"
  using order_paymentD [OF assms(1)] assms(2)
  by (cases why) (auto simp: amount_ok_def new_refund_def partial_reason_def
      intro!: bexI [where x = "(p_id p, p_amountCents p)"])

lemma partial_amount_ok:
  assumes "order_payment ord db = Some (x, p)" and "0 < a" and "a < p_amountCents p"
  shows "amount_ok (payment_view db) (new_refund e (p_id p) ord a st partial_reason adm db2)"
  using order_paymentD [OF assms(1)] assms(2,3)
  by (auto simp: amount_ok_def new_refund_def
      intro!: bexI [where x = "(p_id p, p_amountCents p)"])

lemma insert_refund_nonneg: "insert_refund r db = Inr y \<Longrightarrow> 0 \<le> rf_amountCents r"
  by (auto simp: insert_refund_def split: if_splits)

lemma new_refund_simps [simp]:
  "rf_id (new_refund e p ord a st why adm db) = db_next db"
  "rf_amountCents (new_refund e p ord a st why adm db) = a"
  "rf_paymentId (new_refund e p ord a st why adm db) = p"
  "rf_orderId (new_refund e p ord a st why adm db) = ord"
  "rf_reason (new_refund e p ord a st why adm db) = why"
  "rf_status (new_refund e p ord a st why adm db) = st"
  by (simp_all add: new_refund_def)

lemma stageFull_keeps:
  assumes ok: "refunds_ok db" and run: "stageAutomaticFullRefund e ord meta db = Inr db'"
  shows "refunds_ok db'"
proof -
  from run obtain x p where op: "order_payment ord db = Some (x, p)"
    by (auto simp: stageAutomaticFullRefund_def split: option.splits)
  from run op obtain y db1 where ins: "insert_refund (new_refund e (p_id p) ord (p_amountCents p)
      RfCreated (reason_string AutoDispenseFailed) None db) db = Inr (y, db1)"
    and rest: "refund_view db' = refund_view db1" "db_next db' = db_next db1"
    by (auto simp: stageAutomaticFullRefund_def bindR_eq_Inr Let_def insert_event_frame
        payment_amount_writes frame_simps split: option.splits)
  have "refunds_ok db1"
    by (rule insert_refund_keeps [OF ok ins])
      (simp, rule full_amount_ok [OF op], use insert_refund_nonneg [OF ins] in simp)
  then show ?thesis by (rule refunds_ok_frame) (simp_all add: rest)
qed

lemma partial_checksD:
  assumes "partial_refund_checks e ord items a db = Inr (x, p, pr, prov)"
  shows "order_payment ord db = Some (x, p)" and "0 < a" and "a < p_amountCents p"
  using assms by (auto simp: partial_refund_checks_def split: if_splits option.splits)

lemma partial_unsupported_frame [frame_simps]:
  "refund_view (partial_unsupported e x p items meta db) = refund_view db"
  "db_next (partial_unsupported e x p items meta db) = db_next db"
  by (simp_all add: partial_unsupported_def Let_def payment_amount_writes frame_simps)

lemma stagePartial_keeps:
  assumes ok: "refunds_ok db" and run: "stageAutomaticPartialRefund e ord items a meta db = Inr db'"
  shows "refunds_ok db'"
proof -
  from run obtain x p pr prov where
    chk: "partial_refund_checks e ord items a db = Inr (x, p, pr, prov)"
    by (auto simp: stageAutomaticPartialRefund_def bindR_eq_Inr)
  show ?thesis
  proof (cases "rp_supportsPartialRefund prov")
    case False
    with run chk show ?thesis
      by (auto simp: stageAutomaticPartialRefund_def frame_simps intro: refunds_ok_frame [OF ok])
  next
    case True
    with run chk obtain y db1 where ins: "insert_refund (new_refund e (p_id p) ord a
        RfCreated partial_reason None db) db = Inr (y, db1)"
      and rest: "refund_view db' = refund_view db1" "db_next db' = db_next db1"
      by (auto simp: stageAutomaticPartialRefund_def bindR_eq_Inr Let_def insert_event_frame
          payment_amount_writes frame_simps split: option.splits)
    have "refunds_ok db1"
      by (rule insert_refund_keeps [OF ok ins])
        (use partial_amount_ok [OF partial_checksD [OF chk]] in auto)
    then show ?thesis by (rule refunds_ok_frame) (simp_all add: rest)
  qed
qed

lemma close_refund_keeps:
  assumes "refunds_ok db" and "close_refund e ti db = Inr (go, db')"
  shows "refunds_ok db'"
  using assms unfolding close_refund_def bindR_eq_Inr
  by (auto intro: update_refunds_keeps)

lemma mark_processing_keeps:
  assumes "refunds_ok db" and "mark_processing e r no db = Inr db'"
  shows "refunds_ok db'"
  using assms unfolding mark_processing_def bindR_eq_Inr
  by (auto intro: update_refunds_keeps)

lemma settle_refund_keeps:
  assumes ok: "refunds_ok db" and run: "settle_refund e fs ti db = Inr (b, db')"
  shows "refunds_ok db'"
proof -
  from run obtain go db1 where c: "close_refund e ti db = Inr (go, db1)"
    and rest: "refund_view db' = refund_view db1" "db_next db' = db_next db1"
    by (auto simp: settle_refund_def applyPartialRefundTerminalState_def
        applyRefundTerminalState_def bindR_eq_Inr Let_def frame_simps split: if_splits)
  show ?thesis
    using close_refund_keeps [OF ok c] by (rule refunds_ok_frame) (simp_all add: rest)
qed

lemma uncertain_keeps:
  assumes ok: "refunds_ok db" and run: "recordRefundRequestUncertain e r pid db = Inr (u, db')"
  shows "refunds_ok db'"
proof -
  from run obtain db1 where m: "mark_processing e r None db = Inr db1"
    and rest: "refund_view db' = refund_view db1" "db_next db' = db_next db1"
    by (auto simp: recordRefundRequestUncertain_def bindR_eq_Inr frame_simps)
  show ?thesis
    using mark_processing_keeps [OF ok m] by (rule refunds_ok_frame) (simp_all add: rest)
qed

lemma mark_processing_tx_keeps:
  "refunds_ok db \<Longrightarrow> mark_processing_tx e r no db = Inr (u, db') \<Longrightarrow> refunds_ok db'"
  by (auto simp: mark_processing_tx_def bindR_eq_Inr intro: mark_processing_keeps)

lemma claim_keeps:
  "refunds_ok db \<Longrightarrow> claim_refund now i db = Inr (b, db') \<Longrightarrow> refunds_ok db'"
  by (auto simp: claim_refund_def bindR_eq_Inr intro: update_refunds_keeps)

lemma apply_answer_keeps:
  assumes ok: "refunds_ok db" and run: "apply_answer e req cx a db = Inr (u, db')"
  shows "refunds_ok db'"
proof (cases "an_status a = AnsSucceeded \<or> an_status a = AnsFailed")
  case True
  with run show ?thesis
    by (auto simp: apply_answer_def bindR_eq_Inr intro: settle_refund_keeps [OF ok])
next
  case False
  with run obtain db1 where m: "mark_processing e (cx_refund cx) (an_providerRefundNo a) db = Inr db1"
    and rest: "refund_view db' = refund_view db1" "db_next db' = db_next db1"
    by (auto simp: apply_answer_def bindR_eq_Inr frame_simps)
  show ?thesis
    using mark_processing_keeps [OF ok m] by (rule refunds_ok_frame) (simp_all add: rest)
qed

lemma refundable_contextD:
  "refundable_context ord db = Some (x, p, pr) \<Longrightarrow> order_payment ord db = Some (x, p)"
  by (auto simp: refundable_context_def split: option.splits if_splits)

lemma payment_view_eqI: "refund_view db' = refund_view db \<Longrightarrow> payment_view db' = payment_view db"
  by (simp add: refund_view_def)

lemma create_full_keeps:
  assumes ok: "refunds_ok db" and run: "create_full_refund e ord why adm meta db = Inr ((b, cx), db')"
  shows "refunds_ok db'"
proof -
  from run obtain x p pr where ctx: "refundable_context ord db = Some (x, p, pr)"
    by (auto simp: create_full_refund_def split: option.splits)
  show ?thesis
  proof (cases "find_active_refund ord (reason_string why) db")
    case (Some r)
    with run ctx ok show ?thesis by (simp add: create_full_refund_def)
  next
    case None
    define db3 where "db3 = log_status ord (Some (o_status x)) OsRefundPending (reason_string why) meta
      (set_payment_status e PayRefundPending (p_id p) (upd_orders (\<lambda>x. o_id x = ord)
         (\<lambda>x. x\<lparr>o_status := OsRefundPending, o_paymentState := PsRefundPending,
                o_updatedAt := e_now e\<rparr>) db))"
    have frame: "refund_view db3 = refund_view db" "db_next db3 = db_next db"
      by (simp_all add: db3_def frame_simps)
    from run ctx None obtain y where ins: "insert_refund (new_refund e (p_id p) ord
        (p_amountCents p) RfProcessing (reason_string why) adm db3) db3 = Inr (y, db')"
      unfolding create_full_refund_def db3_def
      by (auto simp: bindR_eq_Inr Let_def split: if_splits option.splits)
    have "refunds_ok db3" using ok by (rule refunds_ok_frame) (simp_all add: frame)
    then show ?thesis
    proof (rule insert_refund_keeps [OF _ ins])
      show "amount_ok (payment_view db3) (new_refund e (p_id p) ord (p_amountCents p)
          RfProcessing (reason_string why) adm db3)"
        using full_amount_ok [OF refundable_contextD [OF ctx]] insert_refund_nonneg [OF ins]
        unfolding payment_view_eqI [OF frame(1)] new_refund_simps by blast
    qed simp
  qed
qed

lemma create_partial_keeps:
  assumes ok: "refunds_ok db" and run: "create_partial_refund e ord items a meta db = Inr (c, db')"
  shows "refunds_ok db'"
proof -
  from run obtain x p pr prov where
    chk: "partial_refund_checks e ord items a db = Inr (x, p, pr, prov)"
    by (auto simp: create_partial_refund_def bindR_eq_Inr split: if_splits)
  show ?thesis
  proof (cases "rp_supportsPartialRefund prov \<and> find_active_refund ord partial_reason db = None")
    case False
    with run chk ok show ?thesis
      by (auto simp: create_partial_refund_def bindR_eq_Inr frame_simps
          intro: refunds_ok_frame [OF ok] split: if_splits option.splits)
  next
    case True
    define db4 where "db4 = log_status ord (Some (o_status x)) OsRefundPending partial_reason meta
      (set_payment_status e PayPartialRefundPending (p_id p) (upd_orders (\<lambda>x. o_id x = ord)
         (\<lambda>x. x\<lparr>o_status := OsRefundPending, o_paymentState := PsPartialRefundPending,
                o_updatedAt := e_now e\<rparr>)
         (upd_items (\<lambda>oi. oi_id oi \<in> set items) (\<lambda>oi. oi\<lparr>oi_refundStatus := LrPending,
            oi_refundUpdatedAt := Some (e_now e)\<rparr>) db)))"
    have frame: "refund_view db4 = refund_view db" "db_next db4 = db_next db"
      by (simp_all add: db4_def frame_simps)
    from run chk True obtain y db5 where ins: "insert_refund (new_refund e (p_id p) ord a
        RfProcessing partial_reason None db4) db4 = Inr (y, db5)"
      and rest: "refund_view db' = refund_view db5" "db_next db' = db_next db5"
      unfolding create_partial_refund_def db4_def Let_def
      by (auto simp: bindR_eq_Inr frame_simps split: if_split_asm option.split_asm)
    have "refunds_ok db4" using ok by (rule refunds_ok_frame) (simp_all add: frame)
    then have "refunds_ok db5"
    proof (rule insert_refund_keeps [OF _ ins])
      show "amount_ok (payment_view db4) (new_refund e (p_id p) ord a RfProcessing
          partial_reason None db4)"
        unfolding payment_view_eqI [OF frame(1)] by (rule partial_amount_ok [OF partial_checksD [OF chk]])
    qed simp
    then show ?thesis by (rule refunds_ok_frame) (simp_all add: rest)
  qed
qed

subsection \<open>Refunds keep the stored order status the projection of its states\<close>

lemma refund_orders_frame [simp]:
  "orders_projected (record_event ev db) = orders_projected db"
  "orders_projected (set_item_refund e st i p2 db) = orders_projected db"
  "orders_projected (set_payment_status e pst pid db) = orders_projected db"
  "orders_projected (insert_attempt a1 a2 a3 a4 a5 a6 a7 a8 a9 db) = orders_projected db"
  "orders_projected (upd_attempt aid g db) = orders_projected db"
  by (simp_all add: set_item_refund_def set_payment_status_def)
    (simp_all add: orders_projected_def record_event_def insert_attempt_def upd_attempt_def)

lemma update_refunds_orders: "update_refunds p f db = Inr (n, db') \<Longrightarrow> orders_projected db' = orders_projected db"
  by (auto simp: orders_projected_def dest: update_refunds_InrD)

lemma insert_refund_orders: "insert_refund r db = Inr (x, db') \<Longrightarrow> orders_projected db' = orders_projected db"
  by (auto simp: orders_projected_def insert_refund_def split: if_splits prod.splits)

lemma insert_event_orders: "insert_event ev db = Inr db' \<Longrightarrow> orders_projected db' = orders_projected db"
  by (auto simp: insert_event_def split: if_splits)

lemma pending_projected:
  "order_projected (x\<lparr>o_status := OsRefundPending, o_paymentState := PsRefundPending, o_updatedAt := t\<rparr>)"
  "order_projected (x\<lparr>o_status := OsRefundPending, o_paymentState := PsPartialRefundPending,
     o_updatedAt := t\<rparr>)"
  by (simp_all add: order_projected_def projectOrderStatus_def)

lemma manual_projected:
  "order_projected (x\<lparr>o_status := OsManualHandling, o_paymentState := PsManualHandling,
     o_fulfillmentState := fs, o_updatedAt := t\<rparr>)"
  by (simp add: order_projected_def projectOrderStatus_def)

lemma settled_projected:
  "order_projected (x\<lparr>o_status := projectOrderStatus PsPartialRefunded fs,
     o_paymentState := PsPartialRefunded, o_fulfillmentState := fs, o_updatedAt := t\<rparr>)"
  "order_projected (x\<lparr>o_status := projectOrderStatus PsRefunded FsManualHandling,
     o_paymentState := PsRefunded, o_updatedAt := t\<rparr>)"
  "order_projected (x\<lparr>o_status := projectOrderStatus PsPaid FsManualHandling,
     o_paymentState := PsPaid, o_fulfillmentState := FsManualHandling, o_updatedAt := t\<rparr>)"
  by (simp_all add: order_projected_def projectOrderStatus_def)

lemmas projected_writes = pending_projected manual_projected settled_projected

lemma stageFull_projected:
  assumes ok: "orders_projected db" and run: "stageAutomaticFullRefund e ord meta db = Inr db'"
  shows "orders_projected db'"
proof -
  from run obtain x p where op: "order_payment ord db = Some (x, p)"
    by (auto simp: stageAutomaticFullRefund_def split: option.splits)
  with run ok show ?thesis
    by (auto simp: stageAutomaticFullRefund_def bindR_eq_Inr Let_def insert_event_orders
        split: option.splits dest!: insert_refund_orders
        intro!: orders_projected_upd projected_writes)
qed

lemma partial_unsupported_projected:
  "orders_projected db \<Longrightarrow> orders_projected (partial_unsupported e x p items meta db)"
  by (auto simp: partial_unsupported_def Let_def intro!: orders_projected_upd projected_writes)

lemma stagePartial_projected:
  assumes ok: "orders_projected db"
    and run: "stageAutomaticPartialRefund e ord items a meta db = Inr db'"
  shows "orders_projected db'"
proof -
  from run obtain x p pr prov where
    chk: "partial_refund_checks e ord items a db = Inr (x, p, pr, prov)"
    by (auto simp: stageAutomaticPartialRefund_def bindR_eq_Inr)
  show ?thesis
  proof (cases "rp_supportsPartialRefund prov")
    case False
    with run chk ok show ?thesis
      by (auto simp: stageAutomaticPartialRefund_def intro: partial_unsupported_projected)
  next
    case True
    with run chk ok show ?thesis
      by (auto simp: stageAutomaticPartialRefund_def bindR_eq_Inr Let_def insert_event_orders
          split: option.splits dest!: insert_refund_orders
          intro!: orders_projected_upd projected_writes)
  qed
qed

lemma close_refund_orders: "close_refund e ti db = Inr (go, db') \<Longrightarrow> orders_projected db' = orders_projected db"
  by (auto simp: close_refund_def bindR_eq_Inr dest: update_refunds_orders)

lemma settle_projected:
  assumes ok: "orders_projected db" and run: "settle_refund e fs ti db = Inr (b, db')"
  shows "orders_projected db'"
proof -
  from run obtain go db1 where c: "close_refund e ti db = Inr (go, db1)"
    by (auto simp: settle_refund_def applyPartialRefundTerminalState_def
        applyRefundTerminalState_def bindR_eq_Inr split: if_splits)
  have ok1: "orders_projected db1" using ok close_refund_orders [OF c] by simp
  with run c show ?thesis
    by (auto simp: settle_refund_def applyPartialRefundTerminalState_def
        applyRefundTerminalState_def Let_def split: if_splits
        intro!: orders_projected_upd projected_writes)
qed

lemma mark_processing_orders: "mark_processing e r no db = Inr db' \<Longrightarrow> orders_projected db' = orders_projected db"
  by (auto simp: mark_processing_def bindR_eq_Inr dest: update_refunds_orders)

lemma mark_tx_projected:
  "orders_projected db \<Longrightarrow> mark_processing_tx e r no db = Inr (u, db') \<Longrightarrow> orders_projected db'"
  by (auto simp: mark_processing_tx_def bindR_eq_Inr dest!: mark_processing_orders)

lemma uncertain_projected:
  "orders_projected db \<Longrightarrow> recordRefundRequestUncertain e r pid db = Inr (u, db') \<Longrightarrow>
   orders_projected db'"
  by (auto simp: recordRefundRequestUncertain_def bindR_eq_Inr dest!: mark_processing_orders)

lemma claim_projected:
  "orders_projected db \<Longrightarrow> claim_refund now i db = Inr (b, db') \<Longrightarrow> orders_projected db'"
  by (auto simp: claim_refund_def bindR_eq_Inr dest!: update_refunds_orders)

lemma apply_answer_projected:
  assumes ok: "orders_projected db" and run: "apply_answer e req cx a db = Inr (u, db')"
  shows "orders_projected db'"
proof (cases "an_status a = AnsSucceeded \<or> an_status a = AnsFailed")
  case True
  with run show ?thesis by (auto simp: apply_answer_def bindR_eq_Inr intro: settle_projected [OF ok])
next
  case False
  with run ok show ?thesis
    by (auto simp: apply_answer_def bindR_eq_Inr dest!: mark_processing_orders)
qed

lemma create_full_InrD:
  assumes run: "create_full_refund e ord why adm meta db = Inr ((b, cx), db')"
    and ctx: "refundable_context ord db = Some (x, p, pr)"
  shows "db' = db \<or> (\<exists>row refund. insert_refund row (log_status ord (Some (o_status x)) OsRefundPending
        (reason_string why) meta (set_payment_status e PayRefundPending (p_id p)
          (upd_orders (\<lambda>x. o_id x = ord) (\<lambda>x. x\<lparr>o_status := OsRefundPending,
             o_paymentState := PsRefundPending, o_updatedAt := e_now e\<rparr>) db)))
      = Inr (Some refund, db'))"
proof (cases "find_active_refund ord (reason_string why) db")
  case (Some r)
  then show ?thesis using run ctx by (simp add: create_full_refund_def Let_def)
next
  case None
  obtain row d3 k where d3: "d3 = log_status ord (Some (o_status x)) OsRefundPending
        (reason_string why) meta (set_payment_status e PayRefundPending (p_id p)
          (upd_orders (\<lambda>x. o_id x = ord) (\<lambda>x. x\<lparr>o_status := OsRefundPending,
             o_paymentState := PsRefundPending, o_updatedAt := e_now e\<rparr>) db))"
    and "bindR (insert_refund row d3) (\<lambda>(inserted, db4). case inserted of None \<Rightarrow> Inl (OtherError ''25P02'')
       | Some refund \<Rightarrow> Inr ((True, k refund), db4)) = Inr ((b, cx), db')"
    using run by (simp add: create_full_refund_def ctx None Let_def split: if_split_asm)
  then show ?thesis by (auto simp: bindR_eq_Inr split: option.split_asm)
qed

lemma insert_refund_tail:
  assumes "bindR (insert_refund row d) (\<lambda>(i, d5). case i of None \<Rightarrow> Inl z
     | Some r \<Rightarrow> Inr (k r, upd_items m (g r) d5)) = Inr (c, db')"
  shows "\<exists>d5 r. insert_refund row d = Inr (Some r, d5) \<and> db' = upd_items m (g r) d5"
  using assms by (auto elim!: bindR_InrE split: option.split_asm)

lemma create_full_projected:
  assumes ok: "orders_projected db" and run: "create_full_refund e ord why adm meta db = Inr ((b, cx), db')"
  shows "orders_projected db'"
proof -
  from run obtain x p pr where ctx: "refundable_context ord db = Some (x, p, pr)"
    by (auto simp: create_full_refund_def split: option.splits)
  from create_full_InrD [OF run ctx] show ?thesis using ok
    by (auto dest!: insert_refund_orders intro!: orders_projected_upd projected_writes)
qed

lemma create_partial_projected:
  assumes ok: "orders_projected db" and run: "create_partial_refund e ord items a meta db = Inr (c, db')"
  shows "orders_projected db'"
proof -
  from run obtain x p pr prov where
    chk: "partial_refund_checks e ord items a db = Inr (x, p, pr, prov)"
    by (auto simp: create_partial_refund_def bindR_eq_Inr split: if_splits)
  show ?thesis
  proof (cases "rp_supportsPartialRefund prov \<and> find_active_refund ord partial_reason db = None")
    case False
    with run chk ok show ?thesis
      by (auto simp: create_partial_refund_def bindR_eq_Inr
          intro: partial_unsupported_projected split: if_splits option.splits)
  next
    case True
    with run chk have "\<exists>d5 m g row. (\<exists>r. insert_refund row
       (log_status ord (Some (o_status x)) OsRefundPending partial_reason meta
         (set_payment_status e PayPartialRefundPending (p_id p)
           (upd_orders (\<lambda>x. o_id x = ord) (\<lambda>x. x\<lparr>o_status := OsRefundPending,
              o_paymentState := PsPartialRefundPending, o_updatedAt := e_now e\<rparr>)
             (upd_items (\<lambda>oi. oi_id oi \<in> set items) (\<lambda>oi. oi\<lparr>oi_refundStatus := LrPending,
                oi_refundUpdatedAt := Some (e_now e)\<rparr>) db)))) = Inr (Some r, d5)) \<and> db' = upd_items m g d5"
      by (simp add: create_partial_refund_def Let_def split: if_split_asm) (drule insert_refund_tail, blast)
    then show ?thesis using ok
      by (auto dest!: insert_refund_orders intro!: orders_projected_upd projected_writes)
  qed
qed

subsection \<open>Runs of the component\<close>

text \<open>
  The operations, and the phases between whose transactions other operations may run: a claim,
  the application of any answer to any request, the record of an uncertain request, the terminal
  transaction of a query or webhook, and a bare move back to processing.
\<close>

datatype refund_op =
  RoStageFull uuid metadata
| RoStagePartial uuid "uuid list" int metadata
| RoDispatchPending nat ms
| RoClaim ms uuid
| RoDispatchClaimed uuid
| RoRequestFull uuid full_refund_reason "uuid option" "metadata option"
| RoCreateFull uuid full_refund_reason "uuid option" "metadata option"
| RoRequestPartial uuid "uuid list" int "metadata option"
| RoApplyAnswer bool refund_context refund_answer
| RoUncertain refund_row uuid
| RoSettle order_fulfillment_state terminal_input
| RoMarkProcessing refund_row "string option"
| RoReconcile ms
| RoQuery uuid attempt_trigger
| RoWebhook refund_webhook

datatype refund_output =
  OutError api_error
| OutDone
| OutQuery query_result
| OutWebhook webhook_result

definition out_of :: "('a \<Rightarrow> refund_output) \<Rightarrow> db \<times> (api_error + 'a) \<Rightarrow> db \<times> refund_output" where
  "out_of f m = (fst m, case snd m of Inl err \<Rightarrow> OutError err | Inr a \<Rightarrow> f a)"

definition unit_result :: "api_error + db \<Rightarrow> api_error + unit \<times> db" where
  "unit_result m = bindR m (\<lambda>db. Inr ((), db))"

fun refund_step :: "db \<Rightarrow> env \<times> refund_op \<Rightarrow> db \<times> refund_output" where
  "refund_step db (e, RoStageFull ord meta) = out_of (\<lambda>_. OutDone)
     (atomic (\<lambda>d. unit_result (stageAutomaticFullRefund e ord meta d)) db)"
| "refund_step db (e, RoStagePartial ord items a meta) = out_of (\<lambda>_. OutDone)
     (atomic (\<lambda>d. unit_result (stageAutomaticPartialRefund e ord items a meta d)) db)"
| "refund_step db (e, RoDispatchPending limit now) =
     out_of (\<lambda>_. OutDone) (dispatchPendingRefunds e limit now db)"
| "refund_step db (e, RoClaim now i) = out_of (\<lambda>_. OutDone) (atomic (claim_refund now i) db)"
| "refund_step db (e, RoDispatchClaimed i) = out_of (\<lambda>_. OutDone) (dispatchClaimedRefund e i db)"
| "refund_step db (e, RoRequestFull ord why adm meta) =
     out_of (\<lambda>_. OutDone) (requestFullRefund e ord why adm meta db)"
| "refund_step db (e, RoCreateFull ord why adm meta) =
     out_of (\<lambda>_. OutDone) (atomic (create_full_refund e ord why adm meta) db)"
| "refund_step db (e, RoRequestPartial ord items a meta) =
     out_of (\<lambda>_. OutDone) (requestPartialRefund e ord items a meta db)"
| "refund_step db (e, RoApplyAnswer req cx a) =
     out_of (\<lambda>_. OutDone) (atomic (apply_answer e req cx a) db)"
| "refund_step db (e, RoUncertain r pid) =
     out_of (\<lambda>_. OutDone) (atomic (recordRefundRequestUncertain e r pid) db)"
| "refund_step db (e, RoSettle fs ti) = out_of (\<lambda>_. OutDone) (atomic (settle_refund e fs ti) db)"
| "refund_step db (e, RoMarkProcessing r no) =
     out_of (\<lambda>_. OutDone) (atomic (mark_processing_tx e r no) db)"
| "refund_step db (e, RoReconcile now) = (reconcileProcessingRefunds e now db, OutDone)"
| "refund_step db (e, RoQuery i trigger) = out_of OutQuery (queryRefund e i trigger db)"
| "refund_step db (e, RoWebhook w) = out_of OutWebhook (applyProviderRefundWebhook e w db)"

text \<open>
  What an operation may answer: a query of a settled refund reports it as settled and does not
  reconcile anything.
\<close>

fun refund_good :: "db \<Rightarrow> env \<times> refund_op \<Rightarrow> refund_output \<Rightarrow> bool" where
  "refund_good db (e, RoQuery i trigger) out =
     (case find_refund i db of
        None \<Rightarrow> out = OutError (NotFoundException ''Refund not found'')
      | Some r \<Rightarrow> rf_status r \<in> {RfCreated, RfProcessing} \<or>
          out = OutError (NotFoundException ''Refund not found'') \<or>
          out = OutQuery \<lparr>qr_status = rf_status r, qr_reconciled = False,
                          qr_reason = Some ''already_terminal''\<rparr>)"
| "refund_good db i out = True"

lemma fst_out_of [simp]: "fst (out_of f m) = fst m"
  by (simp add: out_of_def)

lemma unit_result_Inr: "unit_result m = Inr (u, db') \<longleftrightarrow> m = Inr db'"
  by (auto simp: unit_result_def bindR_eq_Inr)

lemma join_refund_refund: "join_refund b db r = Some cx \<Longrightarrow> cx_refund cx = r"
  by (auto simp: join_refund_def split: option.splits if_splits)

subsection \<open>An invariant of the phases is an invariant of the operations\<close>

locale refund_phases =
  fixes I :: "db \<Rightarrow> bool"
  assumes stage_full: "\<And>e ord meta db db'. I db \<Longrightarrow>
      stageAutomaticFullRefund e ord meta db = Inr db' \<Longrightarrow> I db'"
    and stage_partial: "\<And>e ord items a meta db db'. I db \<Longrightarrow>
      stageAutomaticPartialRefund e ord items a meta db = Inr db' \<Longrightarrow> I db'"
    and create_full: "\<And>e ord why adm meta db b cx db'. I db \<Longrightarrow>
      create_full_refund e ord why adm meta db = Inr ((b, cx), db') \<Longrightarrow> I db'"
    and create_partial: "\<And>e ord items a meta db c db'. I db \<Longrightarrow>
      create_partial_refund e ord items a meta db = Inr (c, db') \<Longrightarrow> I db'"
    and claim: "\<And>now i db b db'. I db \<Longrightarrow> claim_refund now i db = Inr (b, db') \<Longrightarrow> I db'"
    and applied: "\<And>e req cx a db u db'. I db \<Longrightarrow>
      apply_answer e req cx a db = Inr (u, db') \<Longrightarrow> I db'"
    and uncertain: "\<And>e r pid db u db'. I db \<Longrightarrow>
      recordRefundRequestUncertain e r pid db = Inr (u, db') \<Longrightarrow> I db'"
    and settle: "\<And>e fs ti db b db'. I db \<Longrightarrow> settle_refund e fs ti db = Inr (b, db') \<Longrightarrow> I db'"
    and mark_tx: "\<And>e r no db u db'. I db \<Longrightarrow>
      mark_processing_tx e r no db = Inr (u, db') \<Longrightarrow> I db'"
    and event: "\<And>ev db. I db \<Longrightarrow> I (record_event ev db)"
    and attempt_new: "\<And>a1 a2 a3 a4 a5 a6 a7 a8 a9 db. I db \<Longrightarrow>
      I (insert_attempt a1 a2 a3 a4 a5 a6 a7 a8 a9 db)"
    and attempt_upd: "\<And>i g db. I db \<Longrightarrow> I (upd_attempt i g db)"
begin

lemma request_and_apply_keeps:
  assumes ok: "I db"
  shows "I (fst (request_and_apply e req cx provider db))"
proof -
  have unc: "I (fst (bindS (atomic (recordRefundRequestUncertain e (cx_refund cx)
      (p_providerId (cx_payment cx))) d) (\<lambda>_ db1. (db1, Inr None))))" if "I d" for d
    by (rule bindS_keeps) (auto intro: atomic_keeps that uncertain)
  have app: "I (fst (atomic (apply_answer e req cx a) db))" for a
    by (rule atomic_keeps [where I = I, OF ok]) (rule applied [OF ok])
  show ?thesis
  proof (cases "rp_refundPayment provider (provider_request cx)")
    case (Inl m)
    then show ?thesis by (simp add: request_and_apply_def Let_def unc [OF ok])
  next
    case (Inr a)
    then show ?thesis using unc [OF app [of a]] app [of a]
      by (auto simp: request_and_apply_def Let_def split: prod.split sum.split)
  qed
qed

lemma dispatchClaimed_keeps:
  "I db \<Longrightarrow> I (fst (dispatchClaimedRefund e i db))"
  by (auto simp: dispatchClaimedRefund_def split: option.split
      intro!: bindS_keeps [where I = I] request_and_apply_keeps)

lemma dispatch_candidates_keeps:
  "I db \<Longrightarrow> I (fst (dispatch_candidates e now cs n db))"
proof (induction cs arbitrary: n db)
  case Nil
  then show ?case by simp
next
  case (Cons c cs)
  have "I (fst (atomic (claim_refund now c) db))"
    by (rule atomic_keeps [where I = I, OF Cons.prems]) (rule claim [OF Cons.prems])
  then show ?case
    by (auto intro!: bindS_keeps [where I = I] Cons.IH dispatchClaimed_keeps)
qed

lemma send_created_keeps: "I db \<Longrightarrow> I (fst (send_created_refund e cx db))"
  by (auto simp: send_created_refund_def Let_def event split: option.split
      intro!: bindS_keeps [where I = I] request_and_apply_keeps)

lemma requestFull_keeps:
  "I db \<Longrightarrow> I (fst (requestFullRefund e ord why adm meta db))"
  unfolding requestFullRefund_def
  by (rule bindS_keeps, rule atomic_keeps) (auto intro: create_full send_created_keeps)

lemma requestPartial_keeps:
  "I db \<Longrightarrow> I (fst (requestPartialRefund e ord items a meta db))"
  unfolding requestPartialRefund_def
  by (rule bindS_keeps, rule atomic_keeps)
    (auto intro: create_partial intro!: bindS_keeps [where I = I] send_created_keeps
      split: partial_created.split)

lemma attempt_writes_keep:
  "I db \<Longrightarrow> I (attempt_failed e aid t n m db)"
  "I db \<Longrightarrow> I (attempt_processing e aid t n a db)"
  "I db \<Longrightarrow> I (attempt_settled e aid b a db)"
  by (simp_all add: attempt_failed_def attempt_processing_def attempt_settled_def attempt_upd)

lemma atomic_settle_keeps:
  "I db \<Longrightarrow> I (fst (atomic (settle_refund e fs ti) db))"
  by (rule atomic_keeps) (auto intro: settle)

lemma atomic_mark_keeps:
  "I db \<Longrightarrow> I (fst (atomic (mark_processing_tx e r no) db))"
  by (rule atomic_keeps) (auto intro: mark_tx)

lemma reconcile_refund_keeps:
  "I db \<Longrightarrow> I (fst (reconcile_refund e now cx db))"
  by (auto simp: reconcile_refund_def Let_def attempt_writes_keep attempt_new split: option.split sum.split
      intro!: bindS_keeps [where I = I] atomic_settle_keeps)

lemma reconcile_all_keeps: "I db \<Longrightarrow> I (reconcile_all e now cxs db)"
  by (induction cxs arbitrary: db) (auto intro: reconcile_refund_keeps)

lemma queryRefund_keeps: "I db \<Longrightarrow> I (fst (queryRefund e i trigger db))"
  by (auto simp: queryRefund_def Let_def attempt_writes_keep attempt_new split: option.split sum.split
      intro!: bindS_keeps [where I = I] atomic_settle_keeps atomic_mark_keeps)

lemma handle_webhook_keeps: "I db \<Longrightarrow> I (fst (handle_webhook e w cx db))"
  by (auto simp: handle_webhook_def Let_def event split: option.split
      intro!: bindS_keeps [where I = I] atomic_settle_keeps atomic_mark_keeps)

lemma webhook_keeps: "I db \<Longrightarrow> I (fst (applyProviderRefundWebhook e w db))"
  by (auto simp: applyProviderRefundWebhook_def Let_def handle_webhook_keeps split: option.split)

lemma step_keeps: "I db \<Longrightarrow> I (fst (refund_step db i))"
  by (cases "(db, i)" rule: refund_step.cases)
    (auto intro: dispatchClaimed_keeps requestFull_keeps requestPartial_keeps queryRefund_keeps
      webhook_keeps intro!: atomic_keeps [where I = I]
      elim: stage_full stage_partial claim create_full applied uncertain settle mark_tx
      simp: unit_result_Inr dispatchPendingRefunds_def dispatch_candidates_keeps
        reconcileProcessingRefunds_def reconcile_all_keeps)

end

lemma frame_keeps:
  "refunds_ok db \<Longrightarrow> refunds_ok (record_event ev db)"
  "refunds_ok db \<Longrightarrow> refunds_ok (insert_attempt a1 a2 a3 a4 a5 a6 a7 a8 a9 db)"
  "refunds_ok db \<Longrightarrow> refunds_ok (upd_attempt i g db)"
  by (erule refunds_ok_frame; simp add: frame_simps)+

interpretation refund_amounts: refund_phases refunds_ok
  by unfold_locales (fact stageFull_keeps stagePartial_keeps create_full_keeps
    create_partial_keeps claim_keeps apply_answer_keeps uncertain_keeps settle_refund_keeps
    mark_processing_tx_keeps frame_keeps)+

interpretation refund_status: refund_phases orders_projected
  by unfold_locales (assumption | simp | fact stageFull_projected stagePartial_projected
    create_full_projected create_partial_projected claim_projected apply_answer_projected
    uncertain_projected settle_projected mark_tx_projected)+

lemma refund_step_good: "refund_good db i (snd (refund_step db i))"
proof (cases "\<exists>e r trigger. i = (e, RoQuery r trigger)")
  case True
  then obtain e r trigger where i: "i = (e, RoQuery r trigger)" by blast
  show ?thesis
    by (auto simp: i out_of_def queryRefund_def Let_def dest: join_refund_refund
        split: option.split)
next
  case False
  then show ?thesis by (cases "(db, i, snd (refund_step db i))" rule: refund_good.cases) auto
qed

lemma refunds_ok_empty [simp]: "refunds_ok empty_db"
  by (simp add: refunds_ok_def empty_db_def)

interpretation refund_machine: reactive_machine refund_step empty_db refunds_ok refund_good
  by unfold_locales (simp_all add: refund_amounts.step_keeps refund_step_good)

text \<open>The status of an order is the projection of its states after every refund operation.\<close>

lemma orders_projected_empty [simp]: "orders_projected empty_db"
  by (simp add: orders_projected_def empty_db_def)

interpretation refund_status_machine: reactive_machine refund_step empty_db orders_projected
    "\<lambda>_ _ _. True"
  by unfold_locales (simp_all add: refund_status.step_keeps)

subsection \<open>Settlement\<close>

lemma no_conflict_map:
  assumes "no_conflict c xs"
    and "\<And>a b. a \<in> set xs \<Longrightarrow> b \<in> set xs \<Longrightarrow> c (g a) (g b) \<Longrightarrow> c a b"
  shows "no_conflict c (map g xs)"
  using assms by (induction xs) (auto simp: list_ex_iff)

text \<open>An update that keeps the keys and activates no refund is never refused.\<close>

lemma update_refunds_total:
  assumes ok: "refunds_ok db" and keys: "\<And>r. rf_refundNo (f r) = rf_refundNo r"
    "\<And>r. rf_orderId (f r) = rf_orderId r" "\<And>r. rf_reason (f r) = rf_reason r"
    and act: "\<And>r. r \<in> set (db_refunds db) \<Longrightarrow> p r \<Longrightarrow> refund_active (f r) \<Longrightarrow> refund_active r"
  shows "update_refunds p f db = Inr (count_where p (db_refunds db),
           db\<lparr>db_refunds := upd_where p f (db_refunds db)\<rparr>)"
proof -
  have "no_conflict refund_conflict (upd_where p f (db_refunds db))"
    unfolding upd_where_def
  proof (rule no_conflict_map)
    show "no_conflict refund_conflict (db_refunds db)" using ok by (simp add: refunds_ok_def)
    show "refund_conflict a b" if "a \<in> set (db_refunds db)" "b \<in> set (db_refunds db)"
      "refund_conflict (if p a then f a else a) (if p b then f b else b)" for a b
      using that act [of a] act [of b] by (auto simp: refund_conflict_def keys split: if_splits)
  qed
  then show ?thesis by (simp add: update_refunds_def Let_def)
qed

lemma find_refundD: "find_refund i db = Some r \<Longrightarrow> r \<in> set (db_refunds db) \<and> rf_id r = i"
  by (auto simp: find_refund_def dest: find_SomeD)

lemma refund_by_id:
  assumes "refunds_ok db" and "find_refund i db = Some r" and "x \<in> set (db_refunds db)"
    and "rf_id x = i"
  shows "x = r"
proof -
  have "distinct (map rf_id (db_refunds db))" using assms(1) by (simp add: refunds_ok_def)
  from key_unique [OF this assms(3)] find_refundD [OF assms(2)] assms(4) show ?thesis by simp
qed

lemma find_upd_where:
  assumes "\<And>r. k (f r) = k r" and "List.find (\<lambda>r. k r = i) rows = Some r"
  shows "List.find (\<lambda>r. k r = i) (upd_where p f rows) = Some (if p r then f r else r)"
  using assms(2) by (induction rows) (auto simp: assms(1) split: if_splits)

lemma find_refund_upd:
  assumes "find_refund i db = Some r" and "\<And>r. rf_id (f r) = rf_id r"
  shows "find_refund i (db\<lparr>db_refunds := upd_where p f (db_refunds db)\<rparr>) =
    Some (if p r then f r else r)"
  using find_upd_where [where k = rf_id and f = f, OF assms(2)] assms(1)
  by (simp add: find_refund_def)

lemma close_terminal:
  assumes ok: "refunds_ok db" and r: "find_refund (rf_id (ti_refund ti)) db = Some r"
    and terminal: "rf_status r \<notin> {RfCreated, RfProcessing}" and req: "ti_requireOpen ti"
  shows "close_refund e ti db = Inr (False, db)"
proof -
  have none: "\<not> (rf_id x = rf_id (ti_refund ti) \<and>
      (ti_requireOpen ti \<longrightarrow> rf_status x \<in> {RfCreated, RfProcessing}))"
    if "x \<in> set (db_refunds db)" for x
    using refund_by_id [OF ok r that] terminal req by auto
  have ok_rows: "no_conflict refund_conflict (db_refunds db)" using ok by (simp add: refunds_ok_def)
  have upd: "upd_where (\<lambda>x. rf_id x = rf_id (ti_refund ti) \<and>
      (ti_requireOpen ti \<longrightarrow> rf_status x \<in> {RfCreated, RfProcessing})) f (db_refunds db) = db_refunds db" for f
    by (rule upd_where_none) (rule none)
  have cnt: "count_where (\<lambda>x. rf_id x = rf_id (ti_refund ti) \<and>
      (ti_requireOpen ti \<longrightarrow> rf_status x \<in> {RfCreated, RfProcessing})) (db_refunds db) = 0"
    unfolding count_where_zero using none by blast
  show ?thesis
    unfolding close_refund_def update_refunds_def Let_def upd cnt using ok_rows req by simp
qed

lemma close_open:
  assumes ok: "refunds_ok db" and r: "find_refund (rf_id (ti_refund ti)) db = Some r"
    and open_r: "rf_status r \<in> {RfCreated, RfProcessing}"
  shows "\<exists>db1. close_refund e ti db = Inr (True, db1) \<and>
    find_refund (rf_id (ti_refund ti)) db1 = Some (r\<lparr>
      rf_status := (if ti_succeeded ti then RfSucceeded else RfFailed),
      rf_providerRefundNo := ti_providerRefundNo ti,
      rf_refundedAt := (if ti_succeeded ti
         then Some (case ti_refundedAt ti of None \<Rightarrow> e_now e | Some t \<Rightarrow> t) else None),
      rf_updatedAt := e_now e\<rparr>) \<and>
    db1 = db\<lparr>db_refunds := db_refunds db1\<rparr>"
proof -
  let ?p = "\<lambda>x. rf_id x = rf_id (ti_refund ti) \<and>
      (ti_requireOpen ti \<longrightarrow> rf_status x \<in> {RfCreated, RfProcessing})"
  let ?f = "\<lambda>x::refund_row. x\<lparr>rf_status := (if ti_succeeded ti then RfSucceeded else RfFailed),
      rf_providerRefundNo := ti_providerRefundNo ti,
      rf_refundedAt := (if ti_succeeded ti
         then Some (case ti_refundedAt ti of None \<Rightarrow> e_now e | Some t \<Rightarrow> t) else None),
      rf_updatedAt := e_now e\<rparr>"
  have upd: "update_refunds ?p ?f db = Inr (count_where ?p (db_refunds db),
      db\<lparr>db_refunds := upd_where ?p ?f (db_refunds db)\<rparr>)"
    by (rule update_refunds_total [OF ok])
      (use refund_by_id [OF ok r] open_r in \<open>auto simp: refund_active_def\<close>)
  have "r \<in> set (db_refunds db)" and pr: "?p r" using find_refundD [OF r] open_r by auto
  then have cnt: "count_where ?p (db_refunds db) \<noteq> 0" unfolding count_where_zero by blast
  have "find_refund (rf_id (ti_refund ti)) (db\<lparr>db_refunds := upd_where ?p ?f (db_refunds db)\<rparr>) =
      Some (if ?p r then ?f r else r)"
    by (rule find_refund_upd [OF r]) simp
  then have "find_refund (rf_id (ti_refund ti))
      (db\<lparr>db_refunds := upd_where ?p ?f (db_refunds db)\<rparr>) = Some (?f r)"
    unfolding if_P [OF pr] .
  then show ?thesis unfolding close_refund_def upd bindR_Inr case_prod_conv using cnt by auto
qed

text \<open>What the writes after the refund's own update leave alone.\<close>

lemma settle_writes_frame:
  "db_refunds (upd_orders p f db) = db_refunds db"
  "db_refunds (upd_items p2 f2 db) = db_refunds db"
  "db_refunds (set_item_refund e st i p2 db) = db_refunds db"
  "db_refunds (set_payment_status e pst pid db) = db_refunds db"
  "db_refunds (log_status ord fr tos why meta db) = db_refunds db"
  "db_refunds (record_event ev db) = db_refunds db"
  "db_refundEvents (upd_orders p f db) = db_refundEvents db"
  "db_refundEvents (upd_items p2 f2 db) = db_refundEvents db"
  "db_refundEvents (set_item_refund e st i p2 db) = db_refundEvents db"
  "db_refundEvents (set_payment_status e pst pid db) = db_refundEvents db"
  "db_refundEvents (log_status ord fr tos why meta db) = db_refundEvents db"
  by (simp_all add: upd_defs set_item_refund_def set_payment_status_def record_event_def)

lemma settle_terminal:
  assumes "refunds_ok db" and "find_refund (rf_id (ti_refund ti)) db = Some r"
    and "rf_status r \<notin> {RfCreated, RfProcessing}" and "ti_requireOpen ti"
  shows "settle_refund e fs ti db = Inr (False, db)"
  using close_terminal [OF assms]
  by (simp add: settle_refund_def applyPartialRefundTerminalState_def applyRefundTerminalState_def)

lemma settle_open:
  assumes ok: "refunds_ok db" and r: "find_refund (rf_id (ti_refund ti)) db = Some r"
    and open_r: "rf_status r \<in> {RfCreated, RfProcessing}"
  shows "\<exists>db1. settle_refund e fs ti db = Inr (True, db1) \<and>
    (\<exists>r1. find_refund (rf_id (ti_refund ti)) db1 = Some r1 \<and>
       rf_status r1 = (if ti_succeeded ti then RfSucceeded else RfFailed))"
proof -
  obtain db1 r1 where c: "close_refund e ti db = Inr (True, db1)"
    and f: "find_refund (rf_id (ti_refund ti)) db1 = Some r1"
    and st: "rf_status r1 = (if ti_succeeded ti then RfSucceeded else RfFailed)"
    using close_open [OF ok r open_r, of e] by auto
  from f st show ?thesis
    by (auto simp: settle_refund_def applyPartialRefundTerminalState_def
        applyRefundTerminalState_def c Let_def find_refund_def settle_writes_frame)
qed

subsection \<open>One request per claim\<close>

lemma mark_processing_active:
  assumes ok: "refunds_ok db" and r: "find_refund (rf_id r0) db = Some r" and act: "refund_active r"
  shows "\<exists>db1. mark_processing e r0 no db = Inr db1 \<and> db_refundEvents db1 = db_refundEvents db \<and>
    find_refund (rf_id r0) db1 = Some (r\<lparr>rf_status := RfProcessing, rf_providerRefundNo := no,
      rf_updatedAt := e_now e\<rparr>)"
proof -
  let ?f = "\<lambda>x::refund_row. x\<lparr>rf_status := RfProcessing, rf_providerRefundNo := no,
      rf_updatedAt := e_now e\<rparr>"
  have upd: "update_refunds (\<lambda>x. rf_id x = rf_id r0) ?f db =
      Inr (count_where (\<lambda>x. rf_id x = rf_id r0) (db_refunds db),
        db\<lparr>db_refunds := upd_where (\<lambda>x. rf_id x = rf_id r0) ?f (db_refunds db)\<rparr>)"
    by (rule update_refunds_total [OF ok]) (use refund_by_id [OF ok r] act in auto)
  have id: "rf_id r = rf_id r0" using find_refundD [OF r] by simp
  have "find_refund (rf_id r0) (db\<lparr>db_refunds := upd_where (\<lambda>x. rf_id x = rf_id r0) ?f
      (db_refunds db)\<rparr>) = Some (if rf_id r = rf_id r0 then ?f r else r)"
    by (rule find_refund_upd [OF r]) simp
  then show ?thesis unfolding mark_processing_def upd by (simp add: id)
qed

lemma record_fresh:
  assumes "\<not> list_ex (refund_event_conflict ev) (db_refundEvents db)"
    and "re_eventType ev \<in> set types"
  shows "has_event types (re_refundId ev) (record_event ev db)"
  using assms by (auto simp: has_event_def record_event_def insert_or_ignore_def list_ex_iff)

lemma not_dispatchable:
  assumes ok: "refunds_ok db" and r: "find_refund i db = Some r"
    and "rf_status r \<notin> {RfCreated, RfProcessing} \<or>
      (rf_status r = RfProcessing \<and> has_event dispatched_types i db)"
  shows "\<forall>now. \<forall>x\<in>set (db_refunds db). rf_id x = i \<longrightarrow> \<not> isDispatchable now db x"
proof (intro allI ballI impI)
  fix now x
  assume "x \<in> set (db_refunds db)" and "rf_id x = i"
  from refund_by_id [OF ok r this] assms(3) find_refundD [OF r]
  show "\<not> isDispatchable now db x" by (auto simp: isDispatchable_def)
qed

lemma find_refund_record_event [simp]:
  "find_refund i (record_event ev db) = find_refund i db"
  by (simp add: find_refund_def record_event_def)

lemma refund_event_simps [simp]:
  "re_refundId (refund_event r pid t eid no st) = rf_id r"
  "re_eventType (refund_event r pid t eid no st) = t"
  "re_providerId (refund_event r pid t eid no st) = pid"
  "re_providerEventId (refund_event r pid t eid no st) = eid"
  by (simp_all add: refund_event_def)

lemma request_and_apply_done:
  assumes ok: "refunds_ok db" and r: "find_refund (rf_id (cx_refund cx)) db = Some r"
    and st: "rf_status r = RfProcessing"
    and fresh: "\<forall>ev\<in>set (db_refundEvents db). re_providerId ev = p_providerId (cx_payment cx) \<longrightarrow>
      re_providerEventId ev \<noteq> ''sync_processing:'' @ rf_refundNo (cx_refund cx) \<and>
      re_providerEventId ev \<noteq> ''request_uncertain:'' @ rf_refundNo (cx_refund cx) @ '':'' @
        show_int (e_now e)"
  shows "\<exists>db1 res r1. request_and_apply e True cx prov db = (db1, Inr res) \<and>
    find_refund (rf_id (cx_refund cx)) db1 = Some r1 \<and>
    (rf_status r1 \<notin> {RfCreated, RfProcessing} \<or>
     (rf_status r1 = RfProcessing \<and> has_event dispatched_types (rf_id (cx_refund cx)) db1))"
proof (cases "rp_refundPayment prov (provider_request cx)")
  case (Inl m)
  obtain db1 where m: "mark_processing e (cx_refund cx) None db = Inr db1"
    "db_refundEvents db1 = db_refundEvents db"
    "\<exists>r1. find_refund (rf_id (cx_refund cx)) db1 = Some r1 \<and> rf_status r1 = RfProcessing"
    using mark_processing_active [OF ok r, of e None] st by (auto simp: refund_active_def)
  let ?ev = "refund_event (cx_refund cx) (p_providerId (cx_payment cx)) ''refund.request_uncertain''
      (''request_uncertain:'' @ rf_refundNo (cx_refund cx) @ '':'' @ show_int (e_now e)) None
      RfProcessing"
  have "\<not> list_ex (refund_event_conflict ?ev) (db_refundEvents db1)"
    using fresh by (auto simp: list_ex_iff refund_event_conflict_def m(2))
  then have "has_event dispatched_types (rf_id (cx_refund cx)) (record_event ?ev db1)"
    using record_fresh [of ?ev db1 dispatched_types] by (simp add: dispatched_types_def)
  then show ?thesis using m(3)
    by (auto simp: request_and_apply_def Let_def Inl recordRefundRequestUncertain_def m(1))
next
  case (Inr a)
  show ?thesis
  proof (cases "an_status a = AnsSucceeded \<or> an_status a = AnsFailed")
    case True
    have same: "rf_id (ti_refund (sync_input True cx a)) = rf_id (cx_refund cx)"
      by (simp add: sync_input_def)
    obtain db1 r1 where s: "settle_refund e (o_fulfillmentState (cx_order cx)) (sync_input True cx a) db
        = Inr (True, db1)" "find_refund (rf_id (cx_refund cx)) db1 = Some r1"
      "rf_status r1 \<in> {RfSucceeded, RfFailed}"
      using settle_open [of db "sync_input True cx a" r e "o_fulfillmentState (cx_order cx)"]
        ok r st unfolding same by auto
    then have "apply_answer e True cx a db = Inr ((), db1)" using True by (simp add: apply_answer_def)
    then show ?thesis using s(2,3) by (auto simp: request_and_apply_def Let_def Inr)
  next
    case False
    obtain db1 where m: "mark_processing e (cx_refund cx) (an_providerRefundNo a) db = Inr db1"
      "db_refundEvents db1 = db_refundEvents db"
      "\<exists>r1. find_refund (rf_id (cx_refund cx)) db1 = Some r1 \<and> rf_status r1 = RfProcessing"
      using mark_processing_active [OF ok r, of e "an_providerRefundNo a"] st
      by (auto simp: refund_active_def)
    let ?ev = "refund_event (cx_refund cx) (p_providerId (cx_payment cx)) ''refund.processing''
        (''sync_processing:'' @ rf_refundNo (cx_refund cx)) (an_providerRefundNo a) RfProcessing"
    have "\<not> list_ex (refund_event_conflict ?ev) (db_refundEvents db1)"
      using fresh by (auto simp: list_ex_iff refund_event_conflict_def m(2))
    then have "has_event dispatched_types (rf_id (cx_refund cx)) (record_event ?ev db1)"
      using record_fresh [of ?ev db1 dispatched_types] by (simp add: dispatched_types_def)
    then show ?thesis using m(3) False
      by (auto simp: request_and_apply_def Let_def Inr apply_answer_def m(1))
  qed
qed

subsection \<open>Staging twice\<close>

lemma order_payment_writes:
  assumes "order_payment ord db = Some (x, p)"
    and "\<And>x. o_id (f x) = o_id x" and "\<And>x. o_paymentId (f x) = o_paymentId x"
    and "\<And>p. p_id (g p) = p_id p" and "\<And>p. p_amountCents (g p) = p_amountCents p"
  shows "\<exists>x' p'. order_payment ord (upd_payments p2 g (upd_orders p1 f db)) = Some (x', p') \<and>
    p_id p' = p_id p \<and> p_amountCents p' = p_amountCents p"
proof -
  from assms(1) obtain pid where x: "find_order ord db = Some x" and pid: "o_paymentId x = Some pid"
    and p: "find_payment pid db = Some p"
    by (auto simp: order_payment_def split: option.splits)
  have "find_order ord (upd_payments p2 g (upd_orders p1 f db)) = Some (if p1 x then f x else x)"
    using x find_upd_where [where k = o_id and f = f, OF assms(2)]
    by (simp add: find_order_def upd_payments_def upd_orders_def)
  moreover have "find_payment pid (upd_payments p2 g (upd_orders p1 f db)) =
      Some (if p2 p then g p else p)"
    using p find_upd_where [where k = p_id and f = g, OF assms(4)]
    by (simp add: find_payment_def upd_payments_def upd_orders_def)
  ultimately show ?thesis using pid by (auto simp: order_payment_def assms(3,4,5))
qed

lemma order_payment_cong:
  "db_orders db' = db_orders db \<Longrightarrow> db_payments db' = db_payments db \<Longrightarrow>
   order_payment ord db' = order_payment ord db"
  by (simp add: order_payment_def find_order_def find_payment_def split: option.split)

text \<open>Once an active automatic refund of the order exists, staging adds nothing.\<close>

lemma stage_again:
  assumes op: "order_payment ord db = Some (x, p)" and "0 \<le> p_amountCents p"
    and r: "r \<in> set (db_refunds db)" "rf_orderId r = ord"
      "rf_reason r = reason_string AutoDispenseFailed" "refund_active r"
  shows "stageAutomaticFullRefund e ord meta db = Inr (db\<lparr>db_next := db_next db + 1\<rparr>)"
proof -
  have "refund_conflict (new_refund e (p_id p) ord (p_amountCents p) RfCreated
      (reason_string AutoDispenseFailed) None db) r"
    using r by (simp add: refund_conflict_def refund_active_def)
  then have "list_ex (refund_conflict (new_refund e (p_id p) ord (p_amountCents p) RfCreated
      (reason_string AutoDispenseFailed) None db)) (db_refunds db)"
    using r(1) by (auto simp: list_ex_iff)
  then show ?thesis using assms(2)
    by (simp add: stageAutomaticFullRefund_def op insert_refund_def insert_or_ignore_def)
qed

subsection \<open>A concrete sale\<close>

text \<open>The shop with a paid order of two units whose dispense failed.\<close>

definition sale_order :: order_row where
  "sale_order = \<lparr>o_id = 20, o_orderNo = ''ORD1'', o_machineId = 1, o_status = OsDispenseFailed,
     o_paymentState = PsPaid, o_fulfillmentState = FsDispenseFailed, o_totalAmountCents = 600,
     o_paymentId = Some 22, o_dispensedAt = None, o_updatedAt = 0,
     o_paymentCreationIdempotencyKey = None, o_paidAt = None, o_canceledAt = None\<rparr>"

definition sale_item :: order_item_row where
  "sale_item = \<lparr>oi_id = 21, oi_orderId = 20, oi_variantId = 9, oi_inventoryId = 3, oi_slotId = 2,
     oi_quantity = 2, oi_unitPriceCents = 300,
     oi_productSnapshot = \<lparr>ps_planogramVersion = Some ''v1'', ps_slotId = Some 2,
       ps_inventoryId = Some 3, ps_variantId = Some 9, ps_productId = Some 8,
       ps_vendingCommandQuantity = None\<rparr>,
     oi_fulfillmentStatus = LfDispenseFailed, oi_refundStatus = LrPending, oi_refundId = None,
     oi_fulfilledAt = None, oi_failedAt = Some 0, oi_refundUpdatedAt = None,
     oi_planogramVersion = ''v1''\<rparr>"

definition sale_payment :: payment_row where
  "sale_payment = \<lparr>p_id = 22, p_paymentNo = ''PAY1'', p_orderId = 20, p_providerId = 23,
     p_paymentProviderConfigId = Some 24, p_status = PaySucceeded, p_amountCents = 600,
     p_providerTradeNo = Some ''T1'', p_updatedAt = 0, p_method = PmQrCode,
     p_paymentUrl = Some ''https://pay'', p_intentLeaseExpiresAt = None, p_intentLeaseOwnerToken = None,
     p_intentLeaseFence = 1, p_expiresAt = Some 900000, p_paidAt = Some 10, p_failedReason = None,
     p_createdAt = 0\<rparr>"

definition sale_refund :: "refund_status \<Rightarrow> refund_row" where
  "sale_refund st = \<lparr>rf_id = 25, rf_refundNo = ''RFD1'', rf_paymentId = 22, rf_orderId = 20,
     rf_amountCents = 600, rf_status = st, rf_providerRefundNo = None,
     rf_reason = ''auto_dispense_failed'', rf_requestedByAdminUserId = None, rf_refundedAt = None,
     rf_updatedAt = 0\<rparr>"

definition sale_db :: db where
  "sale_db = shop_db\<lparr>db_orders := [sale_order], db_orderItems := [sale_item],
     db_payments := [sale_payment], db_providers := [\<lparr>pp_id = 23, pp_code = ''mock'', pp_status = PcEnabled\<rparr>]\<rparr>"

definition refund_db :: "refund_status \<Rightarrow> db" where
  "refund_db st = sale_db\<lparr>db_refunds := [sale_refund st]\<rparr>"

definition sale_context :: "refund_status \<Rightarrow> refund_context" where
  "sale_context st = \<lparr>cx_refund = sale_refund st, cx_payment = sale_payment,
     cx_provider = \<lparr>pp_id = 23, pp_code = ''mock'', pp_status = PcEnabled\<rparr>, cx_order = sale_order\<rparr>"

lemmas sale_defs = sale_db_def sale_order_def sale_item_def sale_payment_def refund_db_def
  sale_refund_def sale_context_def shop_defs

lemma refund_db_ok: "refunds_ok (refund_db st)"
  by (simp add: sale_defs refunds_ok_def payment_view_def amount_ok_def partial_reason_def)

lemma sale_context_join: "join_refund True (refund_db st) (sale_refund st) = Some (sale_context st)"
  by (simp add: join_refund_def find_payment_def find_provider_def find_order_def find_machine_def
      sale_defs)

subsection \<open>Properties\<close>

text \<open>C15: under any interleaving of refund operations and of their phases, with arbitrary answers
  of the providers: an order never has two active (created, processing or succeeded) refunds for
  one reason, no refund is above its payment, and a partial refund is positive and strictly
  below it.\<close>

theorem refund_runs_safe:
  assumes "refunds_ok db" and "fst (run_machine refund_step db ops) = db'"
  shows "(\<forall>r\<in>set (db_refunds db'). \<forall>r'\<in>set (db_refunds db'). refund_active r \<and> refund_active r' \<and>
           rf_orderId r = rf_orderId r' \<and> rf_reason r = rf_reason r' \<longrightarrow> r = r') \<and>
         (\<forall>r\<in>set (db_refunds db'). \<exists>p\<in>set (db_payments db'). p_id p = rf_paymentId r \<and>
           0 \<le> rf_amountCents r \<and> rf_amountCents r \<le> p_amountCents p \<and>
           (rf_reason r = ''auto_partial_dispense_failed'' \<longrightarrow>
              0 < rf_amountCents r \<and> rf_amountCents r < p_amountCents p))"
proof -
  have ok: "refunds_ok db'"
    using refund_machine.run_inv [OF assms(1)] assms(2) by blast
  have "r = r'" if "no_conflict refund_conflict rs" "r \<in> set rs" "r' \<in> set rs"
    "refund_active r \<and> refund_active r' \<and> rf_orderId r = rf_orderId r' \<and> rf_reason r = rf_reason r'"
    for rs r r'
    using that by (induction rs) (auto simp: list_ex_iff refund_conflict_def)
  moreover have "\<exists>p\<in>set (db_payments db'). p_id p = rf_paymentId r \<and>
           0 \<le> rf_amountCents r \<and> rf_amountCents r \<le> p_amountCents p \<and>
           (rf_reason r = ''auto_partial_dispense_failed'' \<longrightarrow>
              0 < rf_amountCents r \<and> rf_amountCents r < p_amountCents p)"
    if "r \<in> set (db_refunds db')" for r
    using ok that by (force simp: refunds_ok_def amount_ok_def payment_view_def partial_reason_def)
  ultimately show ?thesis using ok unfolding refunds_ok_def by blast
qed

theorem refund_runs_safe_witness:
  "let db' = fst (run_machine refund_step (refund_db RfCreated)
       [(shop_env, RoDispatchPending 20 1000), (shop_env, RoStageFull 20 [])])
   in list_all (\<lambda>r. list_ex (\<lambda>p. p_id p = rf_paymentId r \<and> rf_amountCents r \<le> p_amountCents p)
        (db_payments db')) (db_refunds db')"
  using refund_runs_safe [OF refund_db_ok refl, of RfCreated
      "[(shop_env, RoDispatchPending 20 1000), (shop_env, RoStageFull 20 [])]"]
  unfolding Let_def list_all_iff list_ex_iff by blast

text \<open>C17: a settlement that requires an open refund takes effect at most once: on a created or
  processing refund it succeeds and leaves the refund succeeded (or failed) as reported; on a
  refund that is already terminal it reports \<open>false\<close> and changes nothing in the database.\<close>

theorem settlement_applies_once:
  assumes "refunds_ok db" and "find_refund (rf_id (ti_refund ti)) db = Some r"
    and "ti_requireOpen ti"
  shows "if rf_status r \<in> {RfCreated, RfProcessing}
    then \<exists>db1 r1. settle_refund e fs ti db = Inr (True, db1) \<and>
           find_refund (rf_id (ti_refund ti)) db1 = Some r1 \<and>
           rf_status r1 = (if ti_succeeded ti then RfSucceeded else RfFailed) \<and>
           (\<forall>e' fs' ti'. rf_id (ti_refund ti') = rf_id (ti_refund ti) \<longrightarrow> ti_requireOpen ti' \<longrightarrow>
              settle_refund e' fs' ti' db1 = Inr (False, db1))
    else settle_refund e fs ti db = Inr (False, db)"
proof (cases "rf_status r \<in> {RfCreated, RfProcessing}")
  case True
  obtain db1 r1 where s: "settle_refund e fs ti db = Inr (True, db1)"
    "find_refund (rf_id (ti_refund ti)) db1 = Some r1"
    "rf_status r1 = (if ti_succeeded ti then RfSucceeded else RfFailed)"
    using settle_open [OF assms(1,2) True] by blast
  have ok1: "refunds_ok db1" by (rule settle_refund_keeps [OF assms(1) s(1)])
  have "settle_refund e' fs' ti' db1 = Inr (False, db1)"
    if "rf_id (ti_refund ti') = rf_id (ti_refund ti)" "ti_requireOpen ti'" for e' fs' ti'
    by (rule settle_terminal [OF ok1, where r = r1]) (use that s(2,3) in auto)
  with True s show ?thesis by auto
next
  case False
  with settle_terminal [OF assms(1,2) False assms(3)] show ?thesis by simp
qed

theorem settlement_applies_once_witness:
  "settle_refund shop_env FsDispenseFailed (sync_input True (sale_context RfSucceeded)
     \<lparr>an_status = AnsFailed, an_providerRefundNo = None, an_refundedAt = None\<rparr>)
     (refund_db RfSucceeded) = Inr (False, refund_db RfSucceeded)"
  using settlement_applies_once [OF refund_db_ok [of RfSucceeded], where r = "sale_refund RfSucceeded"
      and ti = "sync_input True (sale_context RfSucceeded)
        \<lparr>an_status = AnsFailed, an_providerRefundNo = None, an_refundedAt = None\<rparr>"
      and e = shop_env and fs = FsDispenseFailed]
  by (simp add: sync_input_def sale_context_def find_refund_def refund_db_def sale_refund_def)



text \<open>Staging the automatic full refund is idempotent: when a first staging has created its
  refund, every later one, with any clock and metadata, changes nothing but the next fresh key.\<close>

theorem staged_full_refund_once:
  assumes run: "stageAutomaticFullRefund e ord meta db = Inr db1"
    and fresh: "\<forall>r\<in>set (db_refunds db). rf_refundNo r \<noteq> createBusinessNo e (db_next db) RFD"
  shows "stageAutomaticFullRefund e' ord meta' db1 = Inr (db1\<lparr>db_next := db_next db1 + 1\<rparr>)"
proof -
  from run obtain x p where op: "order_payment ord db = Some (x, p)"
    by (auto simp: stageAutomaticFullRefund_def split: option.splits)
  let ?new = "new_refund e (p_id p) ord (p_amountCents p) RfCreated
      (reason_string AutoDispenseFailed) None db"
  have nonneg: "0 \<le> p_amountCents p"
    using run op by (auto simp: stageAutomaticFullRefund_def bindR_eq_Inr insert_refund_def
        split: if_splits)
  show ?thesis
  proof (cases "list_ex (refund_conflict ?new) (db_refunds db)")
    case True
    then obtain r where r: "r \<in> set (db_refunds db)" "refund_conflict ?new r"
      by (auto simp: list_ex_iff)
    moreover have "rf_refundNo ?new \<noteq> rf_refundNo r"
      using fresh r(1) by (auto simp: new_refund_def)
    ultimately have act: "refund_active r" "rf_orderId r = ord"
      "rf_reason r = reason_string AutoDispenseFailed"
      by (simp_all add: refund_conflict_def)
    have db1: "db1 = db\<lparr>db_next := db_next db + 1\<rparr>"
      using run stage_again [OF op nonneg r(1) act(2,3,1)] by simp
    have "order_payment ord db1 = Some (x, p)"
      using op by (subst order_payment_cong [of _ db]) (simp_all add: db1)
    from stage_again [OF this nonneg, of r] r(1) act show ?thesis by (simp add: db1)
  next
    case False
    let ?f = "\<lambda>x::order_row. x\<lparr>o_status := OsRefundPending, o_paymentState := PsRefundPending,
        o_updatedAt := e_now e\<rparr>"
    let ?g = "\<lambda>p::payment_row. p\<lparr>p_status := PayRefundPending, p_updatedAt := e_now e\<rparr>"
    from run op nonneg False have rows: "?new \<in> set (db_refunds db1)"
      and orders: "db_orders db1 = db_orders (upd_payments (\<lambda>q. p_id q = p_id p) ?g
          (upd_orders (\<lambda>x. o_id x = ord) ?f db))"
      and pays: "db_payments db1 = db_payments (upd_payments (\<lambda>q. p_id q = p_id p) ?g
          (upd_orders (\<lambda>x. o_id x = ord) ?f db))"
      by (auto simp: stageAutomaticFullRefund_def bindR_eq_Inr insert_refund_def Let_def
          insert_or_ignore_def insert_event_def record_event_def upd_defs split: if_splits)
    obtain x' p' where op': "order_payment ord db1 = Some (x', p')"
      and amt: "p_amountCents p' = p_amountCents p"
      using order_payment_writes [OF op, where f = ?f and g = ?g and ?p1.0 = "\<lambda>x. o_id x = ord"
          and ?p2.0 = "\<lambda>q. p_id q = p_id p"]
      unfolding order_payment_cong [OF orders pays, of ord] by auto
    show ?thesis
      by (rule stage_again [OF op' _ rows]) (use nonneg amt in \<open>simp_all add: refund_active_def\<close>)
  qed
qed

theorem staged_full_refund_once_witness:
  "\<exists>db1. stageAutomaticFullRefund shop_env 20 [] sale_db = Inr db1 \<and>
     stageAutomaticFullRefund shop_env 20 [] db1 = Inr (db1\<lparr>db_next := db_next db1 + 1\<rparr>)"
proof -
  obtain db1 where run: "stageAutomaticFullRefund shop_env 20 [] sale_db = Inr db1"
    by (simp add: stageAutomaticFullRefund_def order_payment_def find_order_def find_payment_def
        insert_refund_def insert_or_ignore_def insert_event_def record_event_def Let_def upd_defs
        new_refund_def sale_defs)
  with staged_full_refund_once [OF run, of shop_env "[]"] show ?thesis by (simp add: sale_defs)
qed

text \<open>No refund operation, and no phase of one, leaves an order whose stored status differs
  from the projection of its payment and fulfilment states.\<close>

theorem refund_runs_keep_status_projected:
  assumes "orders_projected db" and "x \<in> set (db_orders (fst (run_machine refund_step db ops)))"
  shows "o_status x = projectOrderStatus (o_paymentState x) (o_fulfillmentState x)"
proof -
  have "orders_projected (fst (run_machine refund_step db ops))"
    by (rule refund_status_machine.run_inv [OF assms(1)])
  with assms(2) show ?thesis by (simp add: orders_projected_def order_projected_def list_all_iff)
qed

text \<open>A successful full refund settles the whole sale coherently: the refund is succeeded, the
  payment refunded, the order refunded in both its status and its payment state, no line of the
  order is left pending, and every line that was pending carries the refund.\<close>

theorem full_refund_settles_sale:
  assumes ok: "refunds_ok db" and r: "find_refund (rf_id (ti_refund ti)) db = Some r"
    and open_r: "rf_status r \<in> {RfCreated, RfProcessing}" and succ: "ti_succeeded ti"
  shows "\<exists>db1. applyRefundTerminalState e ti db = Inr (True, db1) \<and>
    (\<forall>x\<in>set (db_refunds db1). rf_id x = rf_id (ti_refund ti) \<longrightarrow> rf_status x = RfSucceeded) \<and>
    (\<forall>p\<in>set (db_payments db1). p_id p = rf_paymentId (ti_refund ti) \<longrightarrow> p_status p = PayRefunded) \<and>
    (\<forall>x\<in>set (db_orders db1). o_id x = rf_orderId (ti_refund ti) \<longrightarrow>
       o_status x = OsRefunded \<and> o_paymentState x = PsRefunded) \<and>
    db_orderItems db1 = upd_where
      (\<lambda>oi. oi_orderId oi = rf_orderId (ti_refund ti) \<and> oi_refundStatus oi = LrPending)
      (\<lambda>oi. oi\<lparr>oi_refundStatus := LrRefunded, oi_refundId := Some (rf_id (ti_refund ti)),
              oi_refundUpdatedAt := Some (e_now e)\<rparr>) (db_orderItems db) \<and>
    (\<forall>oi\<in>set (db_orderItems db1). oi_orderId oi = rf_orderId (ti_refund ti) \<longrightarrow>
       oi_refundStatus oi \<noteq> LrPending)"
proof -
  obtain db1 r1 where c: "close_refund e ti db = Inr (True, db1)"
    and f: "find_refund (rf_id (ti_refund ti)) db1 = Some r1" and st: "rf_status r1 = RfSucceeded"
    and fr: "db1 = db\<lparr>db_refunds := db_refunds db1\<rparr>"
    using close_open [OF ok r open_r, of e] succ by fastforce
  have ok1: "refunds_ok db1" by (rule close_refund_keeps [OF ok c])
  have items: "db_orderItems db1 = db_orderItems db" by (subst fr) simp
  have ip: "item_pending (rf_orderId (ti_refund ti)) =
      (\<lambda>oi. oi_orderId oi = rf_orderId (ti_refund ti) \<and> oi_refundStatus oi = LrPending)"
    by (simp add: fun_eq_iff item_pending_def)
  obtain db2 where run: "applyRefundTerminalState e ti db = Inr (True, db2)"
    and rfs: "db_refunds db2 = db_refunds db1"
    and pays: "db_payments db2 = upd_where (\<lambda>p. p_id p = rf_paymentId (ti_refund ti))
      (\<lambda>p. p\<lparr>p_status := PayRefunded, p_updatedAt := e_now e\<rparr>) (db_payments db1)"
    and ords: "db_orders db2 = upd_where (\<lambda>x. o_id x = rf_orderId (ti_refund ti))
      (\<lambda>x. x\<lparr>o_status := OsRefunded, o_paymentState := PsRefunded, o_updatedAt := e_now e\<rparr>)
      (db_orders db1)"
    and its: "db_orderItems db2 = upd_where
      (\<lambda>oi. oi_orderId oi = rf_orderId (ti_refund ti) \<and> oi_refundStatus oi = LrPending)
      (\<lambda>oi. oi\<lparr>oi_refundStatus := LrRefunded, oi_refundId := Some (rf_id (ti_refund ti)),
              oi_refundUpdatedAt := Some (e_now e)\<rparr>) (db_orderItems db1)"
    using succ ip by (simp add: applyRefundTerminalState_def c Let_def set_item_refund_def
        set_payment_status_def upd_defs record_event_def projectOrderStatus_def)
  have "\<forall>x\<in>set (db_refunds db2). rf_id x = rf_id (ti_refund ti) \<longrightarrow> rf_status x = RfSucceeded"
    using refund_by_id [OF ok1 f] st by (auto simp: rfs)
  then show ?thesis using run by (auto simp: pays ords its items set_upd_where)
qed

theorem full_refund_settles_sale_witness:
  "\<exists>db1. applyRefundTerminalState shop_env (sync_input True (sale_context RfProcessing)
     \<lparr>an_status = AnsSucceeded, an_providerRefundNo = None, an_refundedAt = None\<rparr>)
     (refund_db RfProcessing) = Inr (True, db1)"
proof -
  let ?ti = "sync_input True (sale_context RfProcessing)
     \<lparr>an_status = AnsSucceeded, an_providerRefundNo = None, an_refundedAt = None\<rparr>"
  have f: "find_refund (rf_id (ti_refund ?ti)) (refund_db RfProcessing) = Some (sale_refund RfProcessing)"
    by (simp add: find_refund_def sync_input_def sale_defs)
  have "rf_status (sale_refund RfProcessing) \<in> {RfCreated, RfProcessing}" "ti_succeeded ?ti"
    by (simp_all add: sale_refund_def sync_input_def)
  from full_refund_settles_sale [OF refund_db_ok f this, of shop_env] show ?thesis by blast
qed

subsection \<open>Webhooks\<close>

lemma settle_events_grow:
  assumes "settle_refund e fs ti db = Inr (b, db')"
    and "list_ex (refund_event_conflict ev) (db_refundEvents db)"
  shows "list_ex (refund_event_conflict ev) (db_refundEvents db')"
proof -
  from assms(1) obtain go db1 where c: "close_refund e ti db = Inr (go, db1)"
    by (auto simp: settle_refund_def applyPartialRefundTerminalState_def
        applyRefundTerminalState_def bindR_eq_Inr split: if_splits)
  have ev1: "db_refundEvents db1 = db_refundEvents db"
    using c by (auto simp: close_refund_def bindR_eq_Inr dest: update_refunds_InrD)
  have "db' = db1 \<or> db_refundEvents db' = db_refundEvents (record_event (terminal_event ti) db1)"
    using assms(1) c by (auto simp: settle_refund_def applyPartialRefundTerminalState_def
        applyRefundTerminalState_def Let_def settle_writes_frame split: if_splits)
  then show ?thesis
    using assms(2) ev1 by (auto simp: record_event_def insert_or_ignore_def)
qed

lemma mark_tx_events:
  "mark_processing_tx e r no db = Inr (u, db') \<Longrightarrow> db_refundEvents db' = db_refundEvents db"
  by (auto simp: mark_processing_tx_def mark_processing_def bindR_eq_Inr dest: update_refunds_InrD)

lemma webhook_recorded:
  "list_ex (refund_event_conflict (webhook_event w cx)) (db_refundEvents (fst (handle_webhook e w cx db)))"
proof -
  let ?I = "\<lambda>d. list_ex (refund_event_conflict (webhook_event w cx)) (db_refundEvents d)"
  have "?I (record_event (webhook_event w cx) db)"
    by (auto simp: record_event_def insert_or_ignore_def refund_event_conflict_def)
  then show ?thesis
    by (auto simp: handle_webhook_def Let_def split: option.split
        intro!: bindS_keeps [where I = ?I] atomic_keeps [where I = ?I]
        elim: settle_events_grow dest: mark_tx_events)
qed

text \<open>A webhook takes effect at most once: once it has been handled, whatever became of that
  handling (even when its state change threw), every later delivery of the same event for a
  refund of the same provider is answered as a duplicate and changes nothing.\<close>

theorem webhook_redelivery_is_duplicate:
  assumes "pp_id (cx_provider cx') = pp_id (cx_provider cx)"
  shows "handle_webhook e' w cx' (fst (handle_webhook e w cx db)) =
    (fst (handle_webhook e w cx db),
     Inr \<lparr>wr_handled = True, wr_duplicate = True, wr_reason = None,
          wr_refundId = Some (rf_id (cx_refund cx'))\<rparr>)"
proof -
  have "refund_event_conflict (webhook_event w cx') = refund_event_conflict (webhook_event w cx)"
    using assms by (simp add: fun_eq_iff refund_event_conflict_def webhook_event_def)
  then show ?thesis using webhook_recorded [of w cx e db]
    by (simp add: handle_webhook_def [of e' w cx'] Let_def)
qed

definition sale_webhook :: "string \<Rightarrow> answer_status \<Rightarrow> refund_webhook" where
  "sale_webhook eventId st = \<lparr>wh_providerCode = ''mock'', wh_refundNo = Some ''RFD1'',
     wh_providerRefundNo = None, wh_paymentNo = None, wh_providerEventId = eventId,
     wh_eventType = ''refund'', wh_refundStatus = Some st, wh_matchedConfigId = Some 24\<rparr>"

theorem webhook_redelivery_is_duplicate_witness:
  "wr_duplicate (case snd (handle_webhook shop_env (sale_webhook ''W1'' AnsSucceeded) (sale_context RfProcessing)
     (fst (handle_webhook shop_env (sale_webhook ''W1'' AnsSucceeded) (sale_context RfProcessing)
        (refund_db RfProcessing)))) of Inr x \<Rightarrow> x)"
  using webhook_redelivery_is_duplicate [of "sale_context RfProcessing" "sale_context RfProcessing"
      shop_env "sale_webhook ''W1'' AnsSucceeded" shop_env "refund_db RfProcessing"] by simp



end
