(* ===== verification/Refund_Frame.thy ===== *)
theory Refund_Frame
  imports Stock_Movements Refund_Properties
begin

text \<open>
  The refund operations write refunds, their events and attempts, payments, orders and the refund
  columns of order lines, and no other table that the sale reads: every one of them keeps
  \<open>sale_tables\<close>. It is one more interpretation of the refund phases.
\<close>

definition line_of :: "order_item_row \<Rightarrow> uuid \<times> uuid \<times> line_fulfillment_status" where
  "line_of oi = (oi_id oi, oi_orderId oi, oi_fulfillmentStatus oi)"

definition identity_of :: "order_row \<Rightarrow> uuid \<times> string \<times> uuid" where
  "identity_of x = (o_id x, o_orderNo x, o_machineId x)"

text \<open>The columns of an order and of a payment that no operation changes once they are set.\<close>

definition order_link :: "order_row \<Rightarrow> uuid \<times> uuid option \<times> int \<times> string option" where
  "order_link x = (o_id x, o_paymentId x, o_totalAmountCents x, o_paymentCreationIdempotencyKey x)"

definition payment_identity ::
    "payment_row \<Rightarrow> uuid \<times> uuid \<times> int \<times> string \<times> uuid \<times> uuid option \<times> payment_method \<times> ms" where
  "payment_identity p = (p_id p, p_orderId p, p_amountCents p, p_paymentNo p, p_providerId p,
     p_paymentProviderConfigId p, p_method p, p_createdAt p)"

definition sale_tables :: "db \<Rightarrow> inventory_row list \<times> reservation_row list \<times> movement_row list \<times>
    command_row list \<times> raw_movement_row list \<times> raw_conflict_row list \<times> machine_row list \<times>
    slot_row list \<times> machine_event_row list \<times> heartbeat_row list \<times>
    (uuid \<times> uuid \<times> line_fulfillment_status) list \<times> (uuid \<times> string \<times> uuid) list \<times>
    (uuid \<times> uuid option \<times> int \<times> string option) list \<times>
    (uuid \<times> uuid \<times> int \<times> string \<times> uuid \<times> uuid option \<times> payment_method \<times> ms) list \<times>
    code_attempt_row list" where
  "sale_tables db = (db_inventories db, db_reservations db, db_movements db, db_commands db,
     db_rawMovements db, db_rawConflicts db, db_machines db, db_slots db, db_machineEvents db,
     db_heartbeats db, map line_of (db_orderItems db), map identity_of (db_orders db),
     map order_link (db_orders db), map payment_identity (db_payments db), db_codeAttempts db)"

definition refund_frame :: "db \<Rightarrow> db \<Rightarrow> bool" where
  "refund_frame db db' \<longleftrightarrow> sale_tables db' = sale_tables db \<and> db_next db \<le> db_next db'"

lemma upd_orders_tables [simp]:
  "(\<And>x. identity_of (f x) = identity_of x) \<Longrightarrow> (\<And>x. order_link (f x) = order_link x) \<Longrightarrow>
   sale_tables (upd_orders p f db) = sale_tables db"
  by (simp add: sale_tables_def upd_defs map_upd_where)

lemma upd_items_tables [simp]:
  "(\<And>x. line_of (f x) = line_of x) \<Longrightarrow> sale_tables (upd_items p f db) = sale_tables db"
  by (simp add: sale_tables_def upd_defs map_upd_where)

lemma upd_payments_tables [simp]:
  "(\<And>x. payment_identity (f x) = payment_identity x) \<Longrightarrow>
   sale_tables (upd_payments p f db) = sale_tables db"
  by (simp add: sale_tables_def upd_defs map_upd_where)

lemma refund_writes_keep [simp]:
  "order_link (x\<lparr>o_status := os\<rparr>) = order_link x"
  "order_link (x\<lparr>o_paymentState := ps\<rparr>) = order_link x"
  "order_link (x\<lparr>o_fulfillmentState := fs\<rparr>) = order_link x"
  "order_link (x\<lparr>o_dispensedAt := d\<rparr>) = order_link x"
  "order_link (x\<lparr>o_updatedAt := t2\<rparr>) = order_link x"
  "payment_identity (p\<lparr>p_status := pst\<rparr>) = payment_identity p"
  "payment_identity (p\<lparr>p_updatedAt := t2\<rparr>) = payment_identity p"
  "line_of (oi\<lparr>oi_refundStatus := s\<rparr>) = line_of oi"
  "line_of (oi\<lparr>oi_refundId := r\<rparr>) = line_of oi"
  "line_of (oi\<lparr>oi_refundUpdatedAt := t\<rparr>) = line_of oi"
  "identity_of (x\<lparr>o_status := os\<rparr>) = identity_of x"
  "identity_of (x\<lparr>o_paymentState := ps\<rparr>) = identity_of x"
  "identity_of (x\<lparr>o_fulfillmentState := fs\<rparr>) = identity_of x"
  "identity_of (x\<lparr>o_dispensedAt := d\<rparr>) = identity_of x"
  "identity_of (x\<lparr>o_updatedAt := t2\<rparr>) = identity_of x"
  by (simp_all add: line_of_def identity_of_def order_link_def payment_identity_def)

lemma tables_writes [simp]:
  "sale_tables (log_status ord fr tos why meta db) = sale_tables db"
  "sale_tables (record_event ev db) = sale_tables db"
  "sale_tables (set_item_refund e st rid p2 db) = sale_tables db"
  "sale_tables (set_payment_status e pst pid db) = sale_tables db"
  "sale_tables (insert_attempt a1 a2 a3 a4 a5 a6 a7 a8 a9 db) = sale_tables db"
  "sale_tables (upd_attempt aid g db) = sale_tables db"
  by (simp_all add: sale_tables_def upd_defs record_event_def set_item_refund_def
      set_payment_status_def insert_attempt_def upd_attempt_def map_upd_where payment_identity_def)

lemma partial_unsupported_tables [simp]:
  "sale_tables (partial_unsupported e x pay items meta2 db) = sale_tables db"
  by (simp add: partial_unsupported_def Let_def)

lemma refund_frame_refl [simp]: "refund_frame db db"
  by (simp add: refund_frame_def)

lemma refund_frame_trans: "refund_frame a b \<Longrightarrow> refund_frame b c \<Longrightarrow> refund_frame a c"
  by (simp add: refund_frame_def)

lemma update_refunds_tables: "update_refunds p f db = Inr (n, db') \<Longrightarrow> refund_frame db db'"
  by (auto simp: refund_frame_def sale_tables_def dest: update_refunds_InrD)

lemma insert_refund_tables: "insert_refund r db = Inr (x, db') \<Longrightarrow> refund_frame db db'"
  by (auto simp: insert_refund_def refund_frame_def sale_tables_def split: if_splits prod.splits)

lemma insert_event_tables: "insert_event ev db = Inr db' \<Longrightarrow> refund_frame db db'"
  by (auto simp: insert_event_def refund_frame_def frame_simps split: if_splits)

lemma stageFull_tables:
  assumes "stageAutomaticFullRefund e ord meta db = Inr db'"
  shows "refund_frame db db'"
proof -
  from assms obtain x p where op: "order_payment ord db = Some (x, p)"
    by (auto simp: stageAutomaticFullRefund_def split: option.splits)
  with assms show ?thesis
    by (auto simp: stageAutomaticFullRefund_def bindR_eq_Inr Let_def refund_frame_def frame_simps
        split: option.splits dest!: insert_refund_tables insert_event_tables)
qed

lemma stagePartial_tables:
  assumes "stageAutomaticPartialRefund e ord items a meta db = Inr db'"
  shows "refund_frame db db'"
proof -
  from assms obtain x p pr prov where
    chk: "partial_refund_checks e ord items a db = Inr (x, p, pr, prov)"
    by (auto simp: stageAutomaticPartialRefund_def bindR_eq_Inr)
  with assms show ?thesis
    by (cases "rp_supportsPartialRefund prov")
      (auto simp: stageAutomaticPartialRefund_def bindR_eq_Inr Let_def refund_frame_def frame_simps
        split: option.splits dest!: insert_refund_tables insert_event_tables)
qed

lemma settle_tables:
  assumes "settle_refund e fs ti db = Inr (b, db')"
  shows "refund_frame db db'"
proof -
  from assms obtain go db1 where c: "close_refund e ti db = Inr (go, db1)"
    by (auto simp: settle_refund_def applyPartialRefundTerminalState_def
        applyRefundTerminalState_def bindR_eq_Inr split: if_splits)
  then have "refund_frame db db1"
    by (auto simp: close_refund_def bindR_eq_Inr dest: update_refunds_tables)
  moreover have "refund_frame db1 db'"
    using assms c by (auto simp: settle_refund_def applyPartialRefundTerminalState_def
        applyRefundTerminalState_def Let_def refund_frame_def frame_simps split: if_splits)
  ultimately show ?thesis by (rule refund_frame_trans)
qed

lemma mark_processing_tables: "mark_processing e r no db = Inr db' \<Longrightarrow> refund_frame db db'"
  by (auto simp: mark_processing_def bindR_eq_Inr dest: update_refunds_tables)

lemma record_event_tables [simp]: "refund_frame db (record_event ev db')  \<longleftrightarrow> refund_frame db db'"
  by (simp add: refund_frame_def frame_simps)

lemma apply_answer_tables: "apply_answer e req cx a db = Inr (u, db') \<Longrightarrow> refund_frame db db'"
  by (auto simp: apply_answer_def bindR_eq_Inr split: if_splits
      dest: settle_tables mark_processing_tables)

lemma create_full_tables:
  assumes "create_full_refund e ord why adm meta db = Inr ((b, cx), db')"
  shows "refund_frame db db'"
proof -
  from assms obtain x p pr where ctx: "refundable_context ord db = Some (x, p, pr)"
    by (auto simp: create_full_refund_def split: option.splits)
  from create_full_InrD [OF assms ctx] show ?thesis
    by (auto simp: refund_frame_def frame_simps dest!: insert_refund_tables)
qed

lemma create_partial_tables:
  assumes "create_partial_refund e ord items a meta db = Inr (c, db')"
  shows "refund_frame db db'"
proof -
  from assms obtain x p pr prov where
    chk: "partial_refund_checks e ord items a db = Inr (x, p, pr, prov)"
    by (auto simp: create_partial_refund_def bindR_eq_Inr split: if_splits)
  with assms show ?thesis
    by (auto simp: create_partial_refund_def bindR_eq_Inr Let_def refund_frame_def frame_simps
        split: option.split_asm if_split_asm dest!: insert_refund_tables)
qed

interpretation refund_tables: refund_phases "\<lambda>db'. refund_frame db db'" for db
proof unfold_locales
  fix e ord meta d d'
  assume "refund_frame db d" "stageAutomaticFullRefund e ord meta d = Inr d'"
  then show "refund_frame db d'" using stageFull_tables refund_frame_trans by blast
next
  fix e ord items a meta d d'
  assume "refund_frame db d" "stageAutomaticPartialRefund e ord items a meta d = Inr d'"
  then show "refund_frame db d'" using stagePartial_tables refund_frame_trans by blast
next
  fix e ord why adm meta d b cx d'
  assume "refund_frame db d" "create_full_refund e ord why adm meta d = Inr ((b, cx), d')"
  then show "refund_frame db d'" using create_full_tables refund_frame_trans by blast
next
  fix e ord items a meta d c d'
  assume "refund_frame db d" "create_partial_refund e ord items a meta d = Inr (c, d')"
  then show "refund_frame db d'" using create_partial_tables refund_frame_trans by blast
next
  fix now i d b d'
  assume "refund_frame db d" "claim_refund now i d = Inr (b, d')"
  then show "refund_frame db d'"
    using update_refunds_tables refund_frame_trans by (fastforce simp: claim_refund_def bindR_eq_Inr)
next
  fix e req cx a d u d'
  assume "refund_frame db d" "apply_answer e req cx a d = Inr (u, d')"
  then show "refund_frame db d'" using apply_answer_tables refund_frame_trans by blast
next
  fix e r pid d u d'
  assume "refund_frame db d" "recordRefundRequestUncertain e r pid d = Inr (u, d')"
  then show "refund_frame db d'" using mark_processing_tables refund_frame_trans
    by (fastforce simp: recordRefundRequestUncertain_def bindR_eq_Inr)
next
  fix e fs ti d b d'
  assume "refund_frame db d" "settle_refund e fs ti d = Inr (b, d')"
  then show "refund_frame db d'" using settle_tables refund_frame_trans by blast
next
  fix e r no d u d'
  assume "refund_frame db d" "mark_processing_tx e r no d = Inr (u, d')"
  then show "refund_frame db d'" using mark_processing_tables refund_frame_trans
    by (fastforce simp: mark_processing_tx_def bindR_eq_Inr)
qed (simp_all add: refund_frame_def frame_simps)

lemma dispatchPending_tables: "refund_frame db (fst (dispatchPendingRefunds e limit now db))"
  unfolding dispatchPendingRefunds_def by (rule refund_tables.dispatch_candidates_keeps) simp

end
