(* ===== verification/Movement_Properties.thy ===== *)
theory Movement_Properties
  imports Refund_Frame
begin

text \<open>
  What the ingestion of stock movements promises: it keeps the stock invariant and the uniqueness
  of movement ids whatever the plan it executes was computed from (so under any race between
  deliveries), a movement id moves stock at most once, an accepted sale leaves its evidence; and
  two cases in which the code loses a report.
\<close>

subsection \<open>What leaves the stock alone\<close>

lemma stock_ok_refund_frame:
  "stock_ok db \<Longrightarrow> stock_view db' = stock_view db \<and> db_next db \<le> db_next db' \<Longrightarrow> stock_ok db'"
  using stock_ok_frame by blast

definition stock_frame :: "db \<Rightarrow> db \<Rightarrow> bool" where
  "stock_frame db db' \<longleftrightarrow> stock_view db' = stock_view db \<and> db_next db \<le> db_next db'"

lemma stock_frame_refl [simp]: "stock_frame db db"
  by (simp add: stock_frame_def)

lemma stock_frame_trans: "stock_frame a b \<Longrightarrow> stock_frame b c \<Longrightarrow> stock_frame a c"
  by (simp add: stock_frame_def)

lemma stock_frame_ok: "stock_ok db \<Longrightarrow> stock_frame db db' \<Longrightarrow> stock_ok db'"
  unfolding stock_frame_def by (rule stock_ok_refund_frame)

lemma stock_writes [simp]:
  "stock_view (upd_orders p f db) = stock_view db"
  "stock_view (upd_items p2 f2 db) = stock_view db"
  "stock_view (log_status ord fr tos why meta db) = stock_view db"
  "stock_view (upd_commands p4 f4 db) = stock_view db"
  by (simp_all add: stock_view_def upd_defs upd_commands_def)

lemma refund_stock_frame: "refund_frame db db' \<Longrightarrow> stock_frame db db'"
  by (simp add: refund_frame_def stock_frame_def sale_tables_def stock_view_def)

lemma dispatchPending_stock: "stock_frame db (fst (dispatchPendingRefunds e limit now db))"
  by (rule refund_stock_frame [OF dispatchPending_tables])

lemma stagePartial_stock:
  "stageAutomaticPartialRefund e ord items a meta db = Inr db' \<Longrightarrow> stock_frame db db'"
  by (rule refund_stock_frame [OF stagePartial_tables])

subsection \<open>The stock invariant\<close>

lemma confirm_stock_keeps:
  assumes ok: "stock_ok db" and run: "confirm_stock e rawId cc db = Inr db'"
  shows "stock_ok db'"
proof -
  let ?i = "cc_inventoryId cc" and ?q = "cc_quantity cc"
  from run obtain n db1 where upd: "update_inventories
        (\<lambda>r. inv_id r = ?i \<and> ?q \<le> inv_onHandQty r \<and> ?q \<le> inv_reservedQty r \<and>
             list_ex (\<lambda>v. consumed cc v \<and> ?q \<le> rv_quantity v) (db_reservations db))
        (\<lambda>r. r\<lparr>inv_onHandQty := inv_onHandQty r - ?q, inv_reservedQty := inv_reservedQty r - ?q,
               inv_updatedAt := e_now e\<rparr>) db = Inr (n, db1)"
    and n: "n \<noteq> 0"
    and mov: "insert_movement ?i (- ?q) MrPurchaseConfirmed (Some (cc_orderId cc)) None
        (Some (movement_note rawId)) (db1\<lparr>db_reservations := upd_where (consumed cc)
          (\<lambda>r. r\<lparr>rv_status := RsConfirmed, rv_updatedAt := e_now e\<rparr>) (db_reservations db1)\<rparr>) = Inr db'"
    by (auto simp: confirm_stock_def bindR_eq_Inr confirmation_failed_def split: if_splits)
  have db1: "db_reservations db1 = db_reservations db" "db_movements db1 = db_movements db"
      "db_next db1 = db_next db"
    using update_inventories_InrD [OF upd] by simp_all
  have wf: "reservations_wf (db_inventories db) (db_reservations db)"
    and keys: "keys_fresh db" using ok by (simp_all add: stock_ok_def stock_consistent_def)
  define taken where "taken = (\<lambda>j. sum_where (\<lambda>r. consumed cc r \<and> rv_inventoryId r = j \<and>
      rv_status r = RsActive) rv_quantity (db_reservations db))"
  have active: "active_reserved (upd_where (consumed cc)
      (\<lambda>r. r\<lparr>rv_status := RsConfirmed, rv_updatedAt := e_now e\<rparr>) (db_reservations db)) j =
      active_reserved (db_reservations db) j - taken j" for j
    unfolding taken_def by (rule active_closed) simp
  have nonneg: "0 \<le> taken j" for j
    unfolding taken_def using wf by (rule closed_nonneg)
  have enough: "?q \<le> taken ?i"
    if "list_ex (\<lambda>v. consumed cc v \<and> ?q \<le> rv_quantity v) (db_reservations db)"
  proof -
    from that obtain v where v: "v \<in> set (db_reservations db)" "consumed cc v" "?q \<le> rv_quantity v"
      by (auto simp: list_ex_iff)
    have "rv_quantity v \<le> taken ?i" unfolding taken_def
      by (rule sum_where_member_le)
        (use wf v in \<open>auto simp: reservations_wf_def consumed_def less_imp_le\<close>)
    with v(3) show ?thesis by simp
  qed
  show ?thesis
    by (rule row_movement_keeps [OF ok upd n mov])
      (use keys nonneg enough wf in \<open>auto simp: db1 active keys_fresh_def set_upd_where
         intro: reservations_wf_closed\<close>)
qed

lemma confirm_transaction_stock:
  assumes ok: "stock_ok db"
    and run: "confirmOrderBoundDispenseSucceededInTransaction e mid rawId m cc db = Inr db'"
  shows "stock_ok db'"
proof -
  let ?claim = "\<lambda>c. vc_id c = cc_vendingCommandId cc \<and> claimable_command (vc_status c)"
  let ?db0 = "upd_commands ?claim (succeed_command e (rm_occurredAt m)) db"
  from run obtain db1 where c: "confirm_stock e rawId cc ?db0 = Inr db1"
    and rest: "stock_frame db1 db'"
    by (auto simp: confirmOrderBoundDispenseSucceededInTransaction_def bindR_eq_Inr Let_def
        confirmation_failed_def syncOrderFulfillmentStateFromLines_def set_fulfillment_def
        stock_frame_def frame_simps split: if_splits option.splits dest!: stagePartial_stock)
  have "stock_ok ?db0"
    by (rule stock_ok_frame [OF ok]) (simp_all add: upd_commands_def stock_view_def)
  from stock_frame_ok [OF confirm_stock_keeps [OF this c] rest] show ?thesis .
qed

lemma applyTrusted_keeps:
  assumes ok: "stock_ok db" and run: "applyTrustedFieldStockMovement e mid rawId m db = Inr (b, db')"
  shows "stock_ok db'"
proof (cases "\<exists>i v before after. Option.bind (rm_slotMappingSnapshot m) sm_inventoryId = Some i \<and>
      Option.bind (rm_slotMappingSnapshot m) sm_variantId = Some v \<and>
      rm_beforeQuantity m = Some before \<and> rm_afterQuantity m = Some after")
  case False
  with run ok show ?thesis
    by (auto simp: applyTrustedFieldStockMovement_def split: option.splits)
next
  case True
  then obtain i v before after where snap:
    "Option.bind (rm_slotMappingSnapshot m) sm_inventoryId = Some i"
    "Option.bind (rm_slotMappingSnapshot m) sm_variantId = Some v"
    "rm_beforeQuantity m = Some before" "rm_afterQuantity m = Some after" by blast
  define target where "target = (\<lambda>r::inventory_row. inv_id r = i \<and> inv_machineId r = mid \<and>
      inv_slotId r = rm_slotId m \<and> inv_variantId r = v)"
  define counted where "counted = (rm_movementType m = StockCountCorrection)"
  define guard where "guard = (\<lambda>r. target r \<and> (counted \<or> inv_onHandQty r = before))"
  define delta where "delta = (if counted
      then (case List.find target (db_inventories db) of
              None \<Rightarrow> after - before | Some r \<Rightarrow> after - inv_onHandQty r)
      else after - before)"
  let ?f = "\<lambda>r::inventory_row. r\<lparr>inv_onHandQty := after, inv_updatedAt := e_now e\<rparr>"
  from run obtain n db1 where upd: "update_inventories guard ?f db = Inr (n, db1)"
    and rest: "(if n \<noteq> 1 then Inr (False, db1)
      else bindR (insert_movement i delta MrHardwareSync None None (Some (movement_note rawId)) db1)
        (\<lambda>db2. Inr (True, db2))) = (Inr (b, db') :: api_error + bool \<times> db)"
    unfolding applyTrustedFieldStockMovement_def snap option.case prod.case Let_def
      guard_def target_def counted_def delta_def bindR_eq_Inr
    by fastforce
  have pid: "inv_id r = i" if "guard r" for r using that by (simp add: guard_def target_def)
  have dist: "distinct (map inv_id (db_inventories db))"
    using ok by (simp add: stock_ok_def stock_consistent_def)
  have nle: "n = count_where guard (db_inventories db)" using update_inventories_InrD [OF upd] by simp
  have db1: "db_reservations db1 = db_reservations db" "db_movements db1 = db_movements db"
      "db_next db1 = db_next db"
    using update_inventories_InrD [OF upd] by simp_all
  show ?thesis
  proof (cases "n = 1")
    case False
    have "n = 0"
    proof (rule ccontr)
      assume "n \<noteq> 0"
      then obtain r where "r \<in> set (db_inventories db)" "guard r"
        using nle count_where_zero [of guard "db_inventories db"] by auto
      then have "count_where guard (db_inventories db) = 1"
        by (metis count_unique_row [where k = inv_id and p = guard, OF dist] pid)
      with False nle show False by simp
    qed
    then have "\<forall>r\<in>set (db_inventories db). \<not> guard r" using nle by (simp add: count_where_zero)
    then have "db1 = db" using update_inventories_InrD [OF upd] by (simp add: upd_where_none)
    with False rest ok show ?thesis by simp
  next
    case True
    with rest have mov: "insert_movement i delta MrHardwareSync None None (Some (movement_note rawId)) db1
        = Inr db'" by (auto simp: bindR_eq_Inr)
    have delta: "delta = after - inv_onHandQty r"
      if r: "r \<in> set (db_inventories db)" "guard r" for r
    proof (cases counted)
      case True
      have "target r" using r(2) by (simp add: guard_def)
      then have "List.find target (db_inventories db) \<noteq> None" using r(1) find_NoneD by fastforce
      then obtain x where x: "List.find target (db_inventories db) = Some x" by blast
      have "x = r"
        using key_unique [OF dist, of x r] find_SomeD [OF x] \<open>target r\<close> r(1)
        by (simp add: target_def)
      with x True show ?thesis by (simp add: delta_def)
    next
      case False
      with r(2) show ?thesis by (simp add: delta_def guard_def)
    qed
    obtain r0 where r0: "r0 \<in> set (db_inventories db)" "guard r0" "inventory_checks (?f r0)"
      using update_hit [OF upd] True by auto
    show ?thesis
    proof (rule insert_movement_stock [OF mov])
      show "keys_fresh db1"
        using ok update_inventories_InrD [OF upd]
        by (auto simp: stock_ok_def keys_fresh_def set_upd_where)
      let ?mvs = "db_movements db1 @ [\<lparr>mv_id = db_next db1, mv_inventoryId = i, mv_deltaQty = delta,
          mv_reason = MrHardwareSync, mv_orderId = None, mv_operatorAdminUserId = None,
          mv_note = Some (movement_note rawId)\<rparr>]"
      have "stock_consistent (upd_where guard ?f (db_inventories db)) (db_reservations db) ?mvs"
      proof (rule consistent_update [where p = guard and ?r0.0 = r0 and i = i])
        show "stock_consistent (db_inventories db) (db_reservations db) (db_movements db)"
          using ok by (simp add: stock_ok_def)
        show "movements_wf (db_inventories db) ?mvs"
          using ok r0(1) pid [OF r0(2)] by (auto simp: stock_ok_def stock_consistent_def db1(2))
        show "inventory_sound (db_reservations db) ?mvs (?f r0)"
          if "inventory_sound (db_reservations db) (db_movements db) r0"
          using that r0(3) delta [OF r0(1,2)] pid [OF r0(2)]
          by (simp add: inventory_sound_def db1(2))
      qed (use ok r0 pid in \<open>auto simp: db1(2) stock_ok_def stock_consistent_def\<close>)
      then show "stock_consistent (db_inventories db1) (db_reservations db1) ?mvs"
        using update_inventories_InrD [OF upd] by simp
    qed
  qed
qed

lemma insertRaw_stock: "insertRawInto e mid m norm hash recon db = Inr (row, db') \<Longrightarrow> stock_frame db db'"
  by (auto simp: insertRawInto_def Let_def stock_frame_def stock_view_def split: if_splits)

lemma repair_stock: "stock_frame db (snd (repairAcceptedOrderBoundDispenseCommand e mid m db))"
  by (simp add: repairAcceptedOrderBoundDispenseCommand_def Let_def stock_frame_def upd_commands_def
      stock_view_def split: option.split)

lemma respond_stock: "stock_frame db (snd (responseForExisting e mid m norm ex hash db))"
  using repair_stock [of db e mid m]
  by (auto simp: responseForExisting_def Let_def insertConflictReconciliation_def split_beta
      stock_frame_def stock_view_def)

lemma recover_stock: "stock_frame db (fst (recover_unique e mid m norm hash err db))"
  using respond_stock [of db e mid m norm _ hash]
  by (auto simp: recover_unique_def split_beta Let_def split: option.split)

lemma markReconciliation_stock: "stock_frame db (markReconciliation mid mv recon db)"
  by (simp add: markReconciliation_def stock_frame_def stock_view_def)

lemma restoreSlot_stock: "stock_frame db (restoreSlotAfterAcceptedLocalMaintenance e mid s db)"
  by (simp add: restoreSlotAfterAcceptedLocalMaintenance_def stock_frame_def stock_view_def)

lemma insert_sale_keeps:
  assumes ok: "stock_ok db"
    and run: "insertAcceptedWithOrderBoundDispenseConfirmation e mid m norm hash cc db = Inr (x, db')"
  shows "stock_ok db'"
proof (cases x)
  case None
  with run ok show ?thesis
    by (auto simp: insertAcceptedWithOrderBoundDispenseConfirmation_def bindR_def
        split: sum.splits api_error.splits)
next
  case (Some row)
  with run obtain stored db1 where ins: "insertRawInto e mid m norm hash None db = Inr (stored, db1)"
    and conf: "confirmOrderBoundDispenseSucceededInTransaction e mid (rw_id stored) m cc db1 = Inr db'"
    by (auto simp: insertAcceptedWithOrderBoundDispenseConfirmation_def bindR_def
        split: sum.splits api_error.splits)
  show ?thesis
    by (rule confirm_transaction_stock [OF stock_frame_ok [OF ok insertRaw_stock [OF ins]] conf])
qed

lemma accept_sale_keeps:
  assumes ok: "stock_ok db"
  shows "stock_ok (fst (accept_sale e mid m norm hash cc db))"
proof (cases "insertAcceptedWithOrderBoundDispenseConfirmation e mid m norm hash cc db")
  case (Inl err)
  then show ?thesis using stock_frame_ok [OF ok recover_stock] by (simp add: accept_sale_def)
next
  case (Inr res)
  obtain x db1 where res: "res = (x, db1)" by (cases res)
  have ok1: "stock_ok db1" using insert_sale_keeps [OF ok] Inr res by blast
  show ?thesis
    using Inr res ok1 stock_frame_ok [OF ok1 dispatchPending_stock]
    by (auto simp: accept_sale_def split: option.split intro!: bindS_keeps [where I = stock_ok])
qed

lemma accept_field_keeps:
  assumes ok: "stock_ok db"
  shows "stock_ok (fst (accept_field e mid m norm hash db))"
proof (cases "insertRawInto e mid m norm hash None db")
  case (Inl err)
  then show ?thesis using stock_frame_ok [OF ok recover_stock] by (simp add: accept_field_def)
next
  case (Inr res)
  obtain stored db1 where res: "res = (stored, db1)" by (cases res)
  have ok1: "stock_ok db1" using stock_frame_ok [OF ok insertRaw_stock] Inr res by blast
  have a: "stock_ok (fst (atomic (applyTrustedFieldStockMovement e mid (rw_id stored) m) db1))"
    by (rule atomic_keeps [where I = stock_ok, OF ok1]) (rule applyTrusted_keeps [OF ok1])
  show ?thesis
    using Inr res ok1
    by (auto simp: accept_field_def Let_def a
        intro!: bindS_keeps [where I = stock_ok]
        intro: stock_frame_ok [OF _ markReconciliation_stock] stock_frame_ok [OF _ restoreSlot_stock])
qed

lemma execute_ingestion_keeps:
  assumes ok: "stock_ok db"
  shows "stock_ok (fst (execute_ingestion e mid m plan db))"
proof (cases plan)
  case (AnswerExisting ex)
  then show ?thesis using stock_frame_ok [OF ok respond_stock]
    by (simp add: execute_ingestion_def Let_def split_beta)
next
  case (PutAside recon)
  have "stock_ok (fst (atomic (insertRawInto e mid m norm hash (Some recon)) db))" for norm hash
    by (rule atomic_keeps [where I = stock_ok, OF ok]) (rule stock_frame_ok [OF ok insertRaw_stock])
  then show ?thesis using PutAside
    by (auto simp: execute_ingestion_def Let_def intro!: bindS_keeps [where I = stock_ok])
next
  case (AcceptSale cc)
  then show ?thesis by (simp add: execute_ingestion_def Let_def accept_sale_keeps [OF ok])
next
  case AcceptField
  then show ?thesis by (simp add: execute_ingestion_def Let_def accept_field_keeps [OF ok])
qed

subsection \<open>At most once\<close>

lemma insertRaw_known:
  assumes "findByMachineMovement mid (rm_movementId m) db \<noteq> None"
  shows "\<exists>err. insertRawInto e mid m norm hash recon db = Inl err \<and>
    (\<forall>s. err \<noteq> OrderBoundDispenseConfirmationFailedError s)"
  using assms by (simp add: insertRawInto_def Let_def)

text \<open>Once a movement id is stored, nothing that executes a delivery of it moves stock.\<close>

lemma known_movement_no_stock:
  assumes known: "findByMachineMovement mid (rm_movementId m) db \<noteq> None"
  shows "stock_view (fst (execute_ingestion e mid m plan db)) = stock_view db"
proof (cases plan)
  case (AnswerExisting ex)
  then show ?thesis
    using respond_stock [of db e mid m "normalizeRawMovement e m" ex "e_sha256 e (normalizeRawMovement e m)"]
    by (simp add: execute_ingestion_def Let_def split_beta stock_frame_def)
next
  case (PutAside recon)
  then show ?thesis
    using insertRaw_known [OF known, of e "normalizeRawMovement e m"
        "e_sha256 e (normalizeRawMovement e m)" "Some recon"]
    by (auto simp: execute_ingestion_def Let_def atomic_def)
next
  case (AcceptSale cc)
  let ?n = "normalizeRawMovement e m"
  obtain err where ins: "insertRawInto e mid m ?n (e_sha256 e ?n) None db = Inl err"
    and err: "\<And>s. err \<noteq> OrderBoundDispenseConfirmationFailedError s"
    using insertRaw_known [OF known] by blast
  have "insertAcceptedWithOrderBoundDispenseConfirmation e mid m ?n (e_sha256 e ?n) cc db = Inl err"
    using err by (auto simp: insertAcceptedWithOrderBoundDispenseConfirmation_def ins
        split: api_error.split)
  then show ?thesis using AcceptSale recover_stock [of db e mid m ?n "e_sha256 e ?n" err]
    by (simp add: execute_ingestion_def Let_def accept_sale_def stock_frame_def)
next
  case AcceptField
  let ?n = "normalizeRawMovement e m"
  obtain err where ins: "insertRawInto e mid m ?n (e_sha256 e ?n) None db = Inl err"
    using insertRaw_known [OF known] by blast
  then show ?thesis using AcceptField recover_stock [of db e mid m ?n "e_sha256 e ?n" err]
    by (simp add: execute_ingestion_def Let_def accept_field_def stock_frame_def)
qed

subsection \<open>Movement ids are unique\<close>

definition movement_keys :: "db \<Rightarrow> (uuid \<times> string) list" where
  "movement_keys db = map (\<lambda>r. (rw_machineId r, rw_movementId r)) (db_rawMovements db)"

lemma find_known: "findByMachineMovement mid i db \<noteq> None \<longleftrightarrow> (mid, i) \<in> set (movement_keys db)"
  by (auto simp: findByMachineMovement_def movement_keys_def find_None_iff)

text \<open>One delivery adds the key of its movement, when it is not there yet, or no key.\<close>

definition adds_key :: "uuid \<Rightarrow> raw_movement \<Rightarrow> db \<Rightarrow> db \<Rightarrow> bool" where
  "adds_key mid m db db' \<longleftrightarrow> movement_keys db' = movement_keys db \<or>
     (mid, rm_movementId m) \<notin> set (movement_keys db) \<and>
     movement_keys db' = movement_keys db @ [(mid, rm_movementId m)]"

lemma adds_none: "movement_keys db' = movement_keys db \<Longrightarrow> adds_key mid m db db'"
  by (simp add: adds_key_def)

lemma insertRaw_adds: "insertRawInto e mid m norm hash recon db = Inr (row, db') \<Longrightarrow> adds_key mid m db db'"
  using find_known [of mid "rm_movementId m" db]
  by (auto simp: insertRawInto_def Let_def adds_key_def movement_keys_def split: if_splits)

lemma refund_frame_keys: "refund_frame db db' \<Longrightarrow> movement_keys db' = movement_keys db"
  by (simp add: refund_frame_def sale_tables_def movement_keys_def)

lemma keys_writes [simp]:
  "movement_keys (upd_orders p f db) = movement_keys db"
  "movement_keys (upd_items p2 f2 db) = movement_keys db"
  "movement_keys (log_status ord fr tos why meta db) = movement_keys db"
  "movement_keys (upd_commands p4 f4 db) = movement_keys db"
  "movement_keys (markReconciliation mid mv recon db) = movement_keys db"
  "movement_keys (restoreSlotAfterAcceptedLocalMaintenance e mid s db) = movement_keys db"
  "movement_keys (snd (repairAcceptedOrderBoundDispenseCommand e mid m db)) = movement_keys db"
  by (simp_all add: movement_keys_def upd_defs upd_commands_def markReconciliation_def
      restoreSlotAfterAcceptedLocalMaintenance_def map_upd_where
      repairAcceptedOrderBoundDispenseCommand_def Let_def split: option.split)

lemma set_fulfillment_keys [simp]: "movement_keys (set_fulfillment e ord fs why meta t db) = movement_keys db"
  by (simp add: set_fulfillment_def Let_def split: option.split)

lemma sync_keys [simp]:
  "movement_keys (syncOrderFulfillmentStateFromLines e ord why meta t db) = movement_keys db"
  by (simp add: syncOrderFulfillmentStateFromLines_def Let_def)

lemma insert_movement_keys:
  "insert_movement i d why ord op note db = Inr db' \<Longrightarrow> movement_keys db' = movement_keys db"
  by (auto simp: insert_movement_def movement_keys_def split: if_splits)

lemma update_inventories_keys:
  "update_inventories p f db = Inr (n, db') \<Longrightarrow> movement_keys db' = movement_keys db"
  by (auto simp: movement_keys_def dest: update_inventories_InrD)

lemma confirm_stock_keys: "confirm_stock e rawId cc db = Inr db' \<Longrightarrow> movement_keys db' = movement_keys db"
  by (auto simp: confirm_stock_def bindR_eq_Inr confirmation_failed_def movement_keys_def
      split: if_splits dest!: insert_movement_keys update_inventories_InrD)

lemma confirm_keys:
  "confirmOrderBoundDispenseSucceededInTransaction e mid rawId m cc db = Inr db' \<Longrightarrow>
   movement_keys db' = movement_keys db"
  by (auto simp: confirmOrderBoundDispenseSucceededInTransaction_def bindR_eq_Inr Let_def
      confirmation_failed_def split: if_splits option.splits
      dest!: confirm_stock_keys stagePartial_tables refund_frame_keys)

lemma applyTrusted_keys:
  "applyTrustedFieldStockMovement e mid rawId m db = Inr (b, db') \<Longrightarrow>
   movement_keys db' = movement_keys db"
  by (auto simp: applyTrustedFieldStockMovement_def bindR_eq_Inr Let_def
      split: option.splits if_splits dest!: insert_movement_keys update_inventories_keys)

lemma respond_keys: "movement_keys (snd (responseForExisting e mid m norm ex hash db)) = movement_keys db"
  using keys_writes(7) [of e mid m db]
  by (auto simp: responseForExisting_def Let_def insertConflictReconciliation_def split_beta
      movement_keys_def)

lemma recover_keys: "movement_keys (fst (recover_unique e mid m norm hash err db)) = movement_keys db"
  by (auto simp: recover_unique_def split_beta Let_def respond_keys split: option.splits)

lemma adds_then: "adds_key mid m db db1 \<Longrightarrow> movement_keys db' = movement_keys db1 \<Longrightarrow> adds_key mid m db db'"
  by (simp add: adds_key_def)

lemma accept_sale_adds: "adds_key mid m db (fst (accept_sale e mid m norm hash cc db))"
proof (cases "insertAcceptedWithOrderBoundDispenseConfirmation e mid m norm hash cc db")
  case (Inl err)
  then show ?thesis by (simp add: accept_sale_def adds_none recover_keys)
next
  case (Inr res)
  obtain x db1 where res: "res = (x, db1)" by (cases res)
  have keys: "adds_key mid m db db1"
    using Inr res
    by (auto simp: insertAcceptedWithOrderBoundDispenseConfirmation_def bindR_def adds_none
        split: sum.splits api_error.splits
        dest!: confirm_keys insertRaw_adds intro: adds_then)
  have disp: "movement_keys (fst (dispatchPendingRefunds e 20 (e_now e) db1)) = movement_keys db1"
    by (rule refund_frame_keys [OF dispatchPending_tables])
  show ?thesis
    using Inr res keys adds_then [OF keys disp]
    by (auto simp: accept_sale_def split: option.split
        intro!: bindS_keeps [where I = "adds_key mid m db"])
qed

lemma accept_field_adds: "adds_key mid m db (fst (accept_field e mid m norm hash db))"
proof (cases "insertRawInto e mid m norm hash None db")
  case (Inl err)
  then show ?thesis by (simp add: accept_field_def adds_none recover_keys)
next
  case (Inr res)
  obtain stored db1 where res: "res = (stored, db1)" by (cases res)
  have keys: "adds_key mid m db db1" using Inr res insertRaw_adds by blast
  have "adds_key mid m db (fst (atomic (applyTrustedFieldStockMovement e mid (rw_id stored) m) db1))"
    by (rule atomic_keeps [where I = "adds_key mid m db", OF keys])
      (rule adds_then [OF keys applyTrusted_keys])
  then show ?thesis
    using Inr res keys
    by (auto simp: accept_field_def Let_def intro!: bindS_keeps [where I = "adds_key mid m db"]
        intro: adds_then)
qed

lemma execute_adds: "adds_key mid m db (fst (execute_ingestion e mid m plan db))"
proof (cases plan)
  case (AnswerExisting ex)
  then show ?thesis by (simp add: execute_ingestion_def Let_def split_beta adds_none respond_keys)
next
  case (PutAside recon)
  have "adds_key mid m db (fst (atomic (insertRawInto e mid m norm hash (Some recon)) db))"
    for norm hash
    by (rule atomic_keeps [where I = "adds_key mid m db"]) (simp_all add: adds_none insertRaw_adds)
  then show ?thesis using PutAside
    by (auto simp: execute_ingestion_def Let_def intro!: bindS_keeps [where I = "adds_key mid m db"])
next
  case (AcceptSale cc)
  then show ?thesis by (simp add: execute_ingestion_def Let_def accept_sale_adds)
next
  case AcceptField
  then show ?thesis by (simp add: execute_ingestion_def Let_def accept_field_adds)
qed

text \<open>A movement that is stored is never answered as accepted for the first time again.\<close>

fun first_acceptance :: "api_error + ingestion_response \<Rightarrow> bool" where
  "first_acceptance (Inr (Accepted _ _ _ _)) = True"
| "first_acceptance _ = False"

lemma respond_not_first: "\<not> first_acceptance (Inr (fst (responseForExisting e mid m norm ex hash db)))"
  by (simp add: responseForExisting_def Let_def split_beta reconciliationResponse_def)

lemma recover_not_first: "\<not> first_acceptance (snd (recover_unique e mid m norm hash err db))"
  using respond_not_first [of e mid m norm _ hash db]
  by (simp add: recover_unique_def Let_def split_beta split: option.split)

lemma known_not_first:
  assumes known: "findByMachineMovement mid (rm_movementId m) db \<noteq> None"
  shows "\<not> first_acceptance (snd (execute_ingestion e mid m plan db))"
proof -
  let ?n = "normalizeRawMovement e m"
  have ins: "\<exists>err. insertRawInto e mid m ?n (e_sha256 e ?n) r db = Inl err \<and>
      (\<forall>s. err \<noteq> OrderBoundDispenseConfirmationFailedError s)" for r
    by (rule insertRaw_known [OF known])
  show ?thesis
  proof (cases plan)
    case (AnswerExisting ex)
    then show ?thesis
      using respond_not_first [of e mid m ?n ex "e_sha256 e ?n" db]
      by (simp add: execute_ingestion_def Let_def split_beta)
  next
    case (PutAside recon)
    then show ?thesis using ins [of "Some recon"]
      by (auto simp: execute_ingestion_def Let_def atomic_def)
  next
    case (AcceptSale cc)
    obtain err where err: "insertRawInto e mid m ?n (e_sha256 e ?n) None db = Inl err"
        "\<And>s. err \<noteq> OrderBoundDispenseConfirmationFailedError s" using ins by blast
    then have "insertAcceptedWithOrderBoundDispenseConfirmation e mid m ?n (e_sha256 e ?n) cc db = Inl err"
      by (auto simp: insertAcceptedWithOrderBoundDispenseConfirmation_def split: api_error.split)
    then show ?thesis using AcceptSale
      by (simp add: execute_ingestion_def Let_def accept_sale_def recover_not_first)
  next
    case AcceptField
    then show ?thesis using ins [of None]
      by (auto simp: execute_ingestion_def Let_def accept_field_def recover_not_first)
  qed
qed

subsection \<open>Ingestion as a machine\<close>

text \<open>
  One input is the execution of one delivery with the plan it was read with. Nothing ties the plan
  to the database it is executed on: it may be as stale as any interleaving of deliveries, sales
  and refunds makes it.
\<close>

fun ingest :: "db \<Rightarrow> env \<times> uuid \<times> raw_movement \<times> ingestion_plan \<Rightarrow>
    db \<times> (api_error + ingestion_response)" where
  "ingest db (e, mid, m, plan) = execute_ingestion e mid m plan db"

definition ingestion_ok :: "db \<Rightarrow> bool" where
  "ingestion_ok db \<longleftrightarrow> stock_ok db \<and> distinct (movement_keys db)"

fun answers_once :: "db \<Rightarrow> env \<times> uuid \<times> raw_movement \<times> ingestion_plan \<Rightarrow>
    api_error + ingestion_response \<Rightarrow> bool" where
  "answers_once db (e, mid, m, plan) out \<longleftrightarrow>
     ((mid, rm_movementId m) \<in> set (movement_keys db) \<longrightarrow> \<not> first_acceptance out)"

interpretation ingestion: reactive_machine ingest empty_db ingestion_ok answers_once
proof unfold_locales
  show "ingestion_ok empty_db"
    by (simp add: ingestion_ok_def stock_ok_empty) (simp add: movement_keys_def empty_db_def)
next
  fix s and i :: "env \<times> uuid \<times> raw_movement \<times> ingestion_plan"
  assume s: "ingestion_ok s"
  obtain e mid m plan where i: "i = (e, mid, m, plan)" by (cases i)
  show "ingestion_ok (fst (ingest s i))"
    using s execute_ingestion_keeps [of s e mid m plan] execute_adds [of mid m s e plan]
    by (auto simp: i ingestion_ok_def adds_key_def)
next
  fix s and i :: "env \<times> uuid \<times> raw_movement \<times> ingestion_plan"
  assume "ingestion_ok s"
  show "answers_once s i (snd (ingest s i))"
    using known_not_first find_known by (cases i) auto
qed

lemma known_stays:
  "k \<in> set (movement_keys db) \<Longrightarrow> k \<in> set (movement_keys (fst (ingest db i)))"
proof (cases i)
  case (fields e mid m plan)
  assume "k \<in> set (movement_keys db)"
  then show ?thesis
    using execute_adds [of mid m db e plan] by (auto simp: fields adds_key_def)
qed

subsection \<open>Properties\<close>

text \<open>A delivery on the shelf of the shop: a count, a refill, and a sale.\<close>

definition shop_mapping :: slot_mapping where
  "shop_mapping = \<lparr>sm_capacity = 8, sm_inventoryId = Some 3, sm_variantId = Some 9\<rparr>"

definition shop_movement :: "string \<Rightarrow> movement_type \<Rightarrow> int \<Rightarrow> int \<Rightarrow> int \<Rightarrow> raw_movement" where
  "shop_movement i ty q before after = \<lparr>rm_machineCode = None, rm_movementId = i,
     rm_planogramVersion = ''v1'', rm_slotId = 2, rm_movementType = ty, rm_quantity = q,
     rm_beforeQuantity = Some before, rm_afterQuantity = Some after,
     rm_slotMappingSnapshot = Some shop_mapping, rm_source = ''local_maintenance'',
     rm_attributedTo = Some ''operator'', rm_orderContext = None, rm_occurredAt = 950\<rparr>"

definition stocked_db :: db where
  "stocked_db = shop_db
     \<lparr>db_planogramVersions := [\<lparr>pv_id = 60, pv_machineId = 1, pv_planogramVersion = ''v1'',
        pv_status = PgActive, pv_publishedAt = 0, pv_acknowledgedAt = Some 1, pv_activeAt = Some 1,
        pv_updatedAt = 1\<rparr>],
      db_planogramSlots := [\<lparr>pg_id = 61, pg_machinePlanogramVersionId = 60, pg_slotId = 2,
        pg_rowNo = 1, pg_cellNo = 1, pg_capacity = 8, pg_parLevel = 4, pg_inventoryId = 3,
        pg_variantId = 9, pg_productId = 10, pg_coverImageUrl = None, pg_priceCents = 250,
        pg_productSortOrder = 0, pg_targetGender = None, pg_texts = []\<rparr>]\<rparr>"

lemmas stocked_defs = stocked_db_def shop_movement_def shop_mapping_def shop_defs

lemma stocked_ok: "ingestion_ok stocked_db"
proof -
  have "stock_ok stocked_db"
    by (rule stock_ok_frame [OF shop_ok]) (simp_all add: stocked_db_def stock_view_def)
  then show ?thesis
    by (simp add: ingestion_ok_def movement_keys_def stocked_db_def shop_db_def empty_db_def)
qed

text \<open>Whatever a fleet of machines delivers, in any order, each delivery executed with a plan
  that may be arbitrarily stale, the stock stays sound: no inventory row is oversold, each
  quantity on hand is the balance of its ledger, and no movement id of a machine is stored twice.\<close>

theorem deliveries_keep_stock_sound:
  assumes "ingestion_ok db" and "run_machine ingest db deliveries = (db', answers)"
  shows "distinct (movement_keys db') \<and> (\<forall>r\<in>set (db_inventories db').
    active_reserved (db_reservations db') (inv_id r) \<le> inv_reservedQty r \<and>
    0 \<le> inv_reservedQty r \<and> inv_reservedQty r \<le> inv_onHandQty r \<and>
    inv_onHandQty r = ledger_balance (db_movements db') (inv_id r))"
proof -
  have "ingestion_ok db'" using ingestion.run_inv [OF assms(1), of deliveries] assms(2) by simp
  then show ?thesis using stock_ok_safe by (auto simp: ingestion_ok_def)
qed

text \<open>C21: a movement id moves stock at most once: once it is stored, no sequence of deliveries of
  it, whatever they say and whatever plan each was read with, changes an inventory row, a
  reservation or the ledger, and none of them is answered as a first acceptance.\<close>

theorem stored_movement_moves_no_stock:
  assumes "findByMachineMovement mid i db \<noteq> None"
    and "\<forall>(e, mid', m, plan)\<in>set deliveries. mid' = mid \<and> rm_movementId m = i"
  shows "case run_machine ingest db deliveries of (db', answers) \<Rightarrow>
    db_inventories db' = db_inventories db \<and> db_reservations db' = db_reservations db \<and>
    db_movements db' = db_movements db \<and> (\<forall>a\<in>set answers. \<not> first_acceptance a)"
  using assms
proof (induction deliveries arbitrary: db)
  case Nil
  then show ?case by simp
next
  case (Cons d ds)
  obtain e m plan where d: "d = (e, mid, m, plan)" and m: "rm_movementId m = i"
    using Cons.prems(2) by (cases d) auto
  let ?db1 = "fst (ingest db d)"
  have known: "findByMachineMovement mid (rm_movementId m) db \<noteq> None" using Cons.prems(1) m by simp
  have stock: "stock_view ?db1 = stock_view db" using known_movement_no_stock [OF known] by (simp add: d)
  have answer: "\<not> first_acceptance (snd (ingest db d))" using known_not_first [OF known] by (simp add: d)
  have "findByMachineMovement mid i ?db1 \<noteq> None"
    using Cons.prems(1) known_stays unfolding find_known by blast
  from Cons.IH [OF this] Cons.prems(2) stock answer show ?case
    by (auto simp: split_beta Let_def stock_view_def)
qed

theorem stored_movement_moves_no_stock_witness:
  "db_inventories (fst (run_machine ingest (fst (receiveRawMovement shop_env 1 ''M1''
       (shop_movement ''mv1'' PlannedRefill 2 5 7) stocked_db))
     [(shop_env, 1, shop_movement ''mv1'' PlannedRefill 2 5 7, AcceptField)])) =
   [shop_inventory\<lparr>inv_onHandQty := 7, inv_updatedAt := 1000\<rparr>]"
proof -
  let ?db = "fst (receiveRawMovement shop_env 1 ''M1''
       (shop_movement ''mv1'' PlannedRefill 2 5 7) stocked_db)"
  have known: "findByMachineMovement 1 ''mv1'' ?db \<noteq> None" by code_simp
  have stock: "db_inventories ?db = [shop_inventory\<lparr>inv_onHandQty := 7, inv_updatedAt := 1000\<rparr>]"
    by code_simp
  show ?thesis
    using stored_movement_moves_no_stock [OF known, of "[(shop_env, 1,
        shop_movement ''mv1'' PlannedRefill 2 5 7, AcceptField)]"] stock
    by (auto simp: shop_movement_def split: prod.splits)
qed

lemma find_append:
  "List.find p (xs @ ys) = (case List.find p xs of None \<Rightarrow> List.find p ys | Some x \<Rightarrow> Some x)"
  by (induction xs) simp_all

subsection \<open>The effect of an accepted sale\<close>

lemma confirm_stock_effect:
  assumes run: "confirm_stock e rawId cc db = Inr db'"
    and dist: "distinct (map inv_id (db_inventories db))"
  shows "(\<exists>r\<in>set (db_inventories db). inv_id r = cc_inventoryId cc \<and>
            cc_quantity cc \<le> inv_onHandQty r \<and> cc_quantity cc \<le> inv_reservedQty r) \<and>
      db_inventories db' = upd_where (\<lambda>r. inv_id r = cc_inventoryId cc)
        (\<lambda>r. r\<lparr>inv_onHandQty := inv_onHandQty r - cc_quantity cc,
               inv_reservedQty := inv_reservedQty r - cc_quantity cc, inv_updatedAt := e_now e\<rparr>)
        (db_inventories db) \<and>
      (\<exists>v\<in>set (db_reservations db). consumed cc v) \<and>
      db_reservations db' = upd_where (consumed cc)
        (\<lambda>r. r\<lparr>rv_status := RsConfirmed, rv_updatedAt := e_now e\<rparr>) (db_reservations db) \<and>
      db_movements db' = db_movements db @ [\<lparr>mv_id = db_next db, mv_inventoryId = cc_inventoryId cc,
        mv_deltaQty = - cc_quantity cc, mv_reason = MrPurchaseConfirmed,
        mv_orderId = Some (cc_orderId cc), mv_operatorAdminUserId = None,
        mv_note = Some (movement_note rawId)\<rparr>] \<and>
      db_commands db' = db_commands db \<and> db_rawMovements db' = db_rawMovements db \<and>
      db_orders db' = db_orders db \<and> db_orderItems db' = db_orderItems db"
proof -
  let ?i = "cc_inventoryId cc" and ?q = "cc_quantity cc"
  let ?p = "\<lambda>r. inv_id r = ?i \<and> ?q \<le> inv_onHandQty r \<and> ?q \<le> inv_reservedQty r \<and>
      list_ex (\<lambda>v. consumed cc v \<and> ?q \<le> rv_quantity v) (db_reservations db)"
  let ?f = "\<lambda>r. r\<lparr>inv_onHandQty := inv_onHandQty r - ?q, inv_reservedQty := inv_reservedQty r - ?q,
      inv_updatedAt := e_now e\<rparr>"
  from run obtain db1 where upd: "update_inventories ?p ?f db = Inr (1, db1)"
    and any: "list_ex (consumed cc) (db_reservations db1)"
    and mov: "insert_movement ?i (- ?q) MrPurchaseConfirmed (Some (cc_orderId cc)) None
        (Some (movement_note rawId)) (db1\<lparr>db_reservations := upd_where (consumed cc)
          (\<lambda>r. r\<lparr>rv_status := RsConfirmed, rv_updatedAt := e_now e\<rparr>) (db_reservations db1)\<rparr>) = Inr db'"
    by (auto simp: confirm_stock_def bindR_eq_Inr confirmation_failed_def split: if_splits)
  note db1 = update_inventories_InrD [OF upd]
  then obtain r where r: "r \<in> set (db_inventories db)" "?p r"
    using count_where_zero [of ?p "db_inventories db"] by auto
  have "?p x = (inv_id x = ?i)" if x: "x \<in> set (db_inventories db)" for x
  proof
    assume "inv_id x = ?i"
    then have "x = r" using key_unique [OF dist x r(1)] r(2) by simp
    then show "?p x" using r(2) by blast
  qed simp
  then have same: "upd_where ?p ?f (db_inventories db) =
      upd_where (\<lambda>x. inv_id x = ?i) ?f (db_inventories db)"
    unfolding upd_where_def by (intro map_cong) simp_all
  from mov have db': "db' = db1\<lparr>db_reservations := upd_where (consumed cc)
      (\<lambda>r. r\<lparr>rv_status := RsConfirmed, rv_updatedAt := e_now e\<rparr>) (db_reservations db1),
      db_movements := db_movements db1 @ [\<lparr>mv_id = db_next db1, mv_inventoryId = ?i,
        mv_deltaQty = - ?q, mv_reason = MrPurchaseConfirmed, mv_orderId = Some (cc_orderId cc),
        mv_operatorAdminUserId = None, mv_note = Some (movement_note rawId)\<rparr>],
      db_next := db_next db1 + 1\<rparr>"
    by (simp add: insert_movement_def split: if_splits)
  show ?thesis using r any db1 same by (auto simp: db' list_ex_iff)
qed

lemma set_fulfillment_rows [simp]:
  "db_inventories (set_fulfillment e ord fs why meta t db) = db_inventories db"
  "db_reservations (set_fulfillment e ord fs why meta t db) = db_reservations db"
  "db_movements (set_fulfillment e ord fs why meta t db) = db_movements db"
  "db_commands (set_fulfillment e ord fs why meta t db) = db_commands db"
  "db_rawMovements (set_fulfillment e ord fs why meta t db) = db_rawMovements db"
  "db_orderItems (set_fulfillment e ord fs why meta t db) = db_orderItems db"
  "map identity_of (db_orders (set_fulfillment e ord fs why meta t db)) = map identity_of (db_orders db)"
  by (simp_all add: set_fulfillment_def upd_defs Let_def map_upd_where split: option.split)

lemma sync_rows [simp]:
  "db_inventories (syncOrderFulfillmentStateFromLines e ord why meta t db) = db_inventories db"
  "db_reservations (syncOrderFulfillmentStateFromLines e ord why meta t db) = db_reservations db"
  "db_movements (syncOrderFulfillmentStateFromLines e ord why meta t db) = db_movements db"
  "db_commands (syncOrderFulfillmentStateFromLines e ord why meta t db) = db_commands db"
  "db_rawMovements (syncOrderFulfillmentStateFromLines e ord why meta t db) = db_rawMovements db"
  "db_orderItems (syncOrderFulfillmentStateFromLines e ord why meta t db) = db_orderItems db"
  "map identity_of (db_orders (syncOrderFulfillmentStateFromLines e ord why meta t db)) =
   map identity_of (db_orders db)"
  by (simp_all add: syncOrderFulfillmentStateFromLines_def Let_def)

lemma confirm_transaction_parts:
  assumes "confirmOrderBoundDispenseSucceededInTransaction e mid rawId m cc db = Inr db'"
  obtains db1 db2 where
    "list_ex (\<lambda>c. vc_id c = cc_vendingCommandId cc \<and> claimable_command (vc_status c)) (db_commands db)"
    and "confirm_stock e rawId cc (upd_commands
          (\<lambda>c. vc_id c = cc_vendingCommandId cc \<and> claimable_command (vc_status c))
          (succeed_command e (rm_occurredAt m)) db) = Inr db1"
    and "db2 = syncOrderFulfillmentStateFromLines e (cc_orderId cc) ''machine_stock_dispense_succeeded''
          (Some [(''rawMovementId'', JId rawId)]) (Some (rm_occurredAt m))
          (upd_items (\<lambda>oi. oi_id oi = cc_orderItemId cc)
            (\<lambda>oi. oi\<lparr>oi_fulfillmentStatus := LfDispensed, oi_refundStatus := LrNotRequired,
                    oi_fulfilledAt := Some (rm_occurredAt m)\<rparr>) db1)"
    and "list_ex (\<lambda>oi. oi_id oi = cc_orderItemId cc) (db_orderItems db1)"
    and "refund_frame db2 db'"
proof -
  let ?claim = "\<lambda>c. vc_id c = cc_vendingCommandId cc \<and> claimable_command (vc_status c)"
  let ?done = "\<lambda>db1. syncOrderFulfillmentStateFromLines e (cc_orderId cc)
      ''machine_stock_dispense_succeeded'' (Some [(''rawMovementId'', JId rawId)])
      (Some (rm_occurredAt m)) (upd_items (\<lambda>oi. oi_id oi = cc_orderItemId cc)
        (\<lambda>oi. oi\<lparr>oi_fulfillmentStatus := LfDispensed, oi_refundStatus := LrNotRequired,
              oi_fulfilledAt := Some (rm_occurredAt m)\<rparr>) db1)"
  from assms obtain db1 where any: "list_ex ?claim (db_commands db)"
    and conf: "confirm_stock e rawId cc (upd_commands ?claim
          (succeed_command e (rm_occurredAt m)) db) = Inr db1"
    and line: "list_ex (\<lambda>oi. oi_id oi = cc_orderItemId cc) (db_orderItems db1)"
    and fin: "(case buildPendingFailedLinePartialRefundDecision (cc_orderId cc)
          [(''rawMovementId'', JId rawId)] (?done db1) of
        None \<Rightarrow> Inr (?done db1)
      | Some d \<Rightarrow> stageAutomaticPartialRefund e (rd_orderId d) (rd_orderItemIds d)
            (rd_amountCents d) (rd_metadata d) (?done db1)) = Inr db'"
    by (auto simp: confirmOrderBoundDispenseSucceededInTransaction_def bindR_eq_Inr Let_def
        confirmation_failed_def split: if_splits)
  have "refund_frame (?done db1) db'"
    using fin by (auto split: option.splits dest: stagePartial_tables)
  with any conf line show ?thesis using that by blast
qed

lemma accepted_sale_parts:
  assumes "insertAcceptedWithOrderBoundDispenseConfirmation e mid m norm hash cc db = Inr (Some stored, db')"
  obtains db0 where "insertRawInto e mid m norm hash None db = Inr (stored, db0)"
    and "confirmOrderBoundDispenseSucceededInTransaction e mid (rw_id stored) m cc db0 = Inr db'"
  using assms
  by (auto simp: insertAcceptedWithOrderBoundDispenseConfirmation_def bindR_def
      split: sum.splits api_error.splits)

text \<open>C20: accepting a reported sale is one coherent step: when the transaction returns a stored
  movement, the row had the quantity on hand and reserved, both are lower by it, the active
  reservations of the line are confirmed (there was one), the ledger has one new entry that names
  the stored movement, the command (claimable before) has succeeded, the line is dispensed and the
  movement itself is stored as accepted. Nothing else of the stock changes.\<close>

theorem accepted_sale_settles_everything:
  assumes ok: "stock_ok db"
    and run: "insertAcceptedWithOrderBoundDispenseConfirmation e mid m norm hash cc db
      = Inr (Some stored, db')"
  shows "(\<exists>r\<in>set (db_inventories db). inv_id r = cc_inventoryId cc \<and>
            cc_quantity cc \<le> inv_onHandQty r \<and> cc_quantity cc \<le> inv_reservedQty r) \<and>
    db_inventories db' = upd_where (\<lambda>r. inv_id r = cc_inventoryId cc)
      (\<lambda>r. r\<lparr>inv_onHandQty := inv_onHandQty r - cc_quantity cc,
             inv_reservedQty := inv_reservedQty r - cc_quantity cc, inv_updatedAt := e_now e\<rparr>)
      (db_inventories db) \<and>
    (\<exists>v\<in>set (db_reservations db). consumed cc v) \<and>
    db_reservations db' = upd_where (consumed cc)
      (\<lambda>r. r\<lparr>rv_status := RsConfirmed, rv_updatedAt := e_now e\<rparr>) (db_reservations db) \<and>
    (\<exists>mv. db_movements db' = db_movements db @ [mv] \<and> mv_inventoryId mv = cc_inventoryId cc \<and>
       mv_deltaQty mv = - cc_quantity cc \<and> mv_reason mv = MrPurchaseConfirmed \<and>
       mv_orderId mv = Some (cc_orderId cc) \<and> mv_note mv = Some (movement_note (rw_id stored))) \<and>
    (\<exists>c\<in>set (db_commands db). vc_id c = cc_vendingCommandId cc \<and> claimable_command (vc_status c)) \<and>
    db_commands db' = upd_where (\<lambda>c. vc_id c = cc_vendingCommandId cc \<and> claimable_command (vc_status c))
      (\<lambda>c. c\<lparr>vc_status := VcSucceeded, vc_resultAt := Some (rm_occurredAt m), vc_lastError := None,
             vc_updatedAt := e_now e\<rparr>) (db_commands db) \<and>
    (\<exists>oi\<in>set (db_orderItems db'). oi_id oi = cc_orderItemId cc) \<and>
    (\<forall>oi\<in>set (db_orderItems db'). oi_id oi = cc_orderItemId cc \<longrightarrow> oi_fulfillmentStatus oi = LfDispensed) \<and>
    db_rawMovements db' = db_rawMovements db @ [stored] \<and> rw_status stored = RwAccepted \<and>
    rw_machineId stored = mid \<and> rw_movementId stored = rm_movementId m"
proof -
  let ?claim = "\<lambda>c. vc_id c = cc_vendingCommandId cc \<and> claimable_command (vc_status c)"
  obtain db0 where ins: "insertRawInto e mid m norm hash None db = Inr (stored, db0)"
    and conf: "confirmOrderBoundDispenseSucceededInTransaction e mid (rw_id stored) m cc db0 = Inr db'"
    by (rule accepted_sale_parts [OF run])
  from ins have db0: "db_rawMovements db0 = db_rawMovements db @ [stored]"
      "rw_status stored = RwAccepted" "rw_machineId stored = mid"
      "rw_movementId stored = rm_movementId m" "db_inventories db0 = db_inventories db"
      "db_reservations db0 = db_reservations db" "db_movements db0 = db_movements db"
      "db_commands db0 = db_commands db"
    by (auto simp: insertRawInto_def Let_def split: if_splits)
  obtain db1 db2 where any: "list_ex ?claim (db_commands db0)"
    and stock: "confirm_stock e (rw_id stored) cc
      (upd_commands ?claim (succeed_command e (rm_occurredAt m)) db0) = Inr db1"
    and db2: "db2 = syncOrderFulfillmentStateFromLines e (cc_orderId cc)
          ''machine_stock_dispense_succeeded'' (Some [(''rawMovementId'', JId (rw_id stored))])
          (Some (rm_occurredAt m)) (upd_items (\<lambda>oi. oi_id oi = cc_orderItemId cc)
            (\<lambda>oi. oi\<lparr>oi_fulfillmentStatus := LfDispensed, oi_refundStatus := LrNotRequired,
                    oi_fulfilledAt := Some (rm_occurredAt m)\<rparr>) db1)"
    and line: "list_ex (\<lambda>oi. oi_id oi = cc_orderItemId cc) (db_orderItems db1)"
    and frame: "refund_frame db2 db'"
    by (rule confirm_transaction_parts [OF conf])
  have dist: "distinct (map inv_id (db_inventories db))"
    using ok by (simp add: stock_ok_def stock_consistent_def)
  have lines: "map line_of (db_orderItems db') = map line_of (db_orderItems db2)"
    using frame by (simp add: refund_frame_def sale_tables_def)
  have items: "\<exists>y\<in>set (db_orderItems db2). line_of x = line_of y"
    if "x \<in> set (db_orderItems db')" for x
    using arg_cong [OF lines, of set] that by auto
  have items': "\<exists>y\<in>set (db_orderItems db'). line_of x = line_of y"
    if "x \<in> set (db_orderItems db2)" for x
    using arg_cong [OF lines, of set] that by auto
  have "map oi_id (db_orderItems db2) = map oi_id (db_orderItems db1)"
    by (simp add: db2 upd_items_def map_upd_where)
  from arg_cong [OF this, of set] line
  have "cc_orderItemId cc \<in> oi_id ` set (db_orderItems db2)" by (force simp: list_ex_iff)
  then have one: "\<exists>oi\<in>set (db_orderItems db2). oi_id oi = cc_orderItemId cc" by force
  have disp: "oi_fulfillmentStatus oi = LfDispensed"
    if "oi \<in> set (db_orderItems db2)" "oi_id oi = cc_orderItemId cc" for oi
    using that by (auto simp: db2 upd_items_def set_upd_where split: if_splits)
  note eff = confirm_stock_effect [OF stock]
  from frame have fr: "db_inventories db' = db_inventories db2" "db_reservations db' = db_reservations db2"
      "db_movements db' = db_movements db2" "db_commands db' = db_commands db2"
      "db_rawMovements db' = db_rawMovements db2"
    by (simp_all add: refund_frame_def sale_tables_def)
  have s: "succeed_command e (rm_occurredAt m) = (\<lambda>c. c\<lparr>vc_status := VcSucceeded,
      vc_resultAt := Some (rm_occurredAt m), vc_lastError := None, vc_updatedAt := e_now e\<rparr>)"
    by (simp add: fun_eq_iff succeed_command_def)
  have a: "\<exists>oi\<in>set (db_orderItems db'). oi_id oi = cc_orderItemId cc"
    using one items' by (fastforce simp: line_of_def)
  have b: "\<forall>oi\<in>set (db_orderItems db'). oi_id oi = cc_orderItemId cc \<longrightarrow> oi_fulfillmentStatus oi = LfDispensed"
    using items disp by (fastforce simp: line_of_def)
  show ?thesis
    using eff any a b dist by (simp add: fr db2 db0 upd_items_def upd_commands_def list_ex_iff s)
qed

text \<open>The paid order of the shop while its command is out.\<close>

definition selling_command :: command_row where
  "selling_command = \<lparr>vc_id = 26, vc_commandNo = ''CMD1'', vc_orderId = 20, vc_machineId = 1,
     vc_slotId = 2, vc_orderItemId = Some 21, vc_commandKind = Dispatch, vc_recoveryActionId = None,
     vc_payloadJson = \<lparr>dp_commandNo = ''CMD1'', dp_orderNo = ''ORD1'', dp_rowNo = 1, dp_cellNo = 1,
       dp_quantity = 2, dp_timeoutSeconds = 60, dp_recovery = None\<rparr>,
     vc_status = VcAcknowledged, vc_sentAt = Some 1, vc_ackAt = Some 2, vc_resultAt = None,
     vc_retryCount = 0, vc_lastError = None, vc_updatedAt = 2\<rparr>"

definition selling_db :: db where
  "selling_db = stocked_db
     \<lparr>db_orders := [sale_order\<lparr>o_status := OsDispensing, o_fulfillmentState := FsDispensing\<rparr>],
      db_orderItems := [sale_item\<lparr>oi_fulfillmentStatus := LfDispensing,
        oi_refundStatus := LrNotRequired, oi_failedAt := None,
        oi_productSnapshot := oi_productSnapshot sale_item\<lparr>ps_vendingCommandQuantity := Some 2\<rparr>\<rparr>],
      db_payments := [sale_payment], db_providers := [\<lparr>pp_id = 23, pp_code = ''mock'', pp_status = PcEnabled\<rparr>],
      db_commands := [selling_command]\<rparr>"

definition selling_movement :: raw_movement where
  "selling_movement = (shop_movement ''mv2'' DispenseSucceeded 2 5 3)
     \<lparr>rm_orderContext := Some \<lparr>oc_orderNo = ''ORD1'', oc_orderItemId = 21,
        oc_vendingCommandNo = ''CMD1'', oc_inventoryId = 3\<rparr>\<rparr>"

definition selling_context :: confirmation_context where
  "selling_context = \<lparr>cc_orderId = 20, cc_orderItemId = 21, cc_inventoryId = 3, cc_quantity = 2,
     cc_vendingCommandId = 26\<rparr>"

lemma selling_ok: "stock_ok selling_db"
  by (rule stock_ok_frame [OF shop_ok]) (simp_all add: selling_db_def stocked_db_def stock_view_def)

theorem accepted_sale_settles_everything_witness:
  "case insertAcceptedWithOrderBoundDispenseConfirmation shop_env 1 selling_movement [] ''h''
       selling_context selling_db of
     Inr (Some stored, db') \<Rightarrow> db_rawMovements db' = [stored] \<and>
       map inv_onHandQty (db_inventories db') = [3]
   | _ \<Rightarrow> False"
proof -
  have "case insertAcceptedWithOrderBoundDispenseConfirmation shop_env 1 selling_movement [] ''h''
      selling_context selling_db of Inr (Some _, _) \<Rightarrow> True | _ \<Rightarrow> False" by code_simp
  then obtain stored db' where run: "insertAcceptedWithOrderBoundDispenseConfirmation shop_env 1
      selling_movement [] ''h'' selling_context selling_db = Inr (Some stored, db')"
    by (auto split: sum.splits option.splits)
  have rows: "db_rawMovements selling_db = []" "db_inventories selling_db = [shop_inventory]"
    by (simp_all add: selling_db_def stocked_db_def shop_db_def empty_db_def)
  from accepted_sale_settles_everything [OF selling_ok run] run show ?thesis
    by (simp add: rows selling_context_def) (simp add: shop_inventory_def)
qed


text \<open>C23: a trusted count below the reserved quantity is lost: the check constraint rejects the
  stock update, the call throws, yet the movement is already stored as accepted, so delivering it
  again is answered as already accepted while no stock was ever changed.\<close>

theorem count_below_reserved_is_lost:
  assumes plan: "plan_ingestion mid (m\<lparr>rm_machineCode := Some code\<rparr>) db = AcceptField"
    and m: "rm_movementType m = StockCountCorrection" "0 \<le> rm_quantity m" "rm_quantity m \<le> INT4_MAX"
      "rm_slotMappingSnapshot m = Some \<lparr>sm_capacity = cap, sm_inventoryId = Some (inv_id r),
         sm_variantId = Some (inv_variantId r)\<rparr>"
      "rm_beforeQuantity m = Some before" "rm_afterQuantity m = Some after"
    and r: "r \<in> set (db_inventories db)" "inv_machineId r = mid" "inv_slotId r = rm_slotId m"
      "after < inv_reservedQty r"
  shows "case receiveRawMovement e mid code m db of (db1, answer1) \<Rightarrow>
    answer1 = Inl (ConstraintViolation ''inventories'') \<and>
    (case receiveRawMovement e mid code m db1 of (db2, answer2) \<Rightarrow>
       (\<exists>at receipt h. answer2 = Inr (AlreadyAccepted (rm_movementId m) at receipt h)) \<and>
       db_inventories db2 = db_inventories db \<and> db_movements db2 = db_movements db)"
proof -
  let ?m = "m\<lparr>rm_machineCode := Some code\<rparr>"
  let ?n = "normalizeRawMovement e ?m"
  have unknown: "findByMachineMovement mid (rm_movementId ?m) db = None"
    using plan by (auto simp: plan_ingestion_def split: option.splits)
  define row where "row = \<lparr>rw_id = db_next db, rw_machineId = mid, rw_movementId = rm_movementId m,
      rw_payloadHash = e_sha256 e ?n, rw_payloadJson = ?m, rw_normalizedJson = ?n,
      rw_receivedAt = e_now e, rw_status = RwAccepted, rw_reconciliationReason = None,
      rw_platformReviewStatus = None, rw_saleSafetyBlockerState = None,
      rw_saleSafetyBlockerSlotId = None\<rparr>"
  define db1 where "db1 = db\<lparr>db_rawMovements := db_rawMovements db @ [row], db_next := db_next db + 1\<rparr>"
  have ins: "insertRawInto e mid ?m ?n (e_sha256 e ?n) None db = Inr (row, db1)"
    using unknown m by (simp add: insertRawInto_def Let_def row_def db1_def)
  have reject: "update_inventories
      (\<lambda>x. inv_id x = inv_id r \<and> inv_machineId x = mid \<and> inv_slotId x = rm_slotId m \<and>
           inv_variantId x = inv_variantId r)
      (\<lambda>x. x\<lparr>inv_onHandQty := after, inv_updatedAt := e_now e\<rparr>) db1 = Inl (ConstraintViolation ''inventories'')"
    using r by (auto simp: update_inventories_def list_all_iff inventory_checks_def db1_def)
  have fails: "applyTrustedFieldStockMovement e mid rawId ?m db1 = Inl (ConstraintViolation ''inventories'')"
    for rawId
    using m by (simp add: applyTrustedFieldStockMovement_def Let_def reject)
  have first: "receiveRawMovement e mid code m db = (db1, Inl (ConstraintViolation ''inventories''))"
    using m by (simp add: receiveRawMovement_def Let_def plan execute_ingestion_def accept_field_def ins
        isFieldStockMovement_def fails)
  have "findByMachineMovement mid (rm_movementId m) db1 = Some row"
    using unknown by (simp add: findByMachineMovement_def db1_def row_def find_append)
  then have second: "receiveRawMovement e mid code m db1 =
      (db1, Inr (AlreadyAccepted (rm_movementId m) (e_now e) (db_next db) (e_sha256 e ?n)))"
    using m by (simp add: receiveRawMovement_def Let_def plan_ingestion_def execute_ingestion_def
        responseForExisting_def row_def)
  show ?thesis by (simp add: first second) (simp add: db1_def)
qed

theorem count_below_reserved_is_lost_witness:
  "fst (receiveRawMovement shop_env 1 ''M1'' (shop_movement ''mv3'' StockCountCorrection 1 5 1) stocked_db)
     \<noteq> stocked_db \<and>
   snd (receiveRawMovement shop_env 1 ''M1'' (shop_movement ''mv3'' StockCountCorrection 1 5 1) stocked_db)
     = Inl (ConstraintViolation ''inventories'')"
proof
  let ?m = "shop_movement ''mv3'' StockCountCorrection 1 5 1"
  have plan: "plan_ingestion 1 (?m\<lparr>rm_machineCode := Some ''M1''\<rparr>) stocked_db = AcceptField" by code_simp
  show "snd (receiveRawMovement shop_env 1 ''M1'' ?m stocked_db) = Inl (ConstraintViolation ''inventories'')"
    using count_below_reserved_is_lost [OF plan, where r = shop_inventory and cap = 8 and before = 5
        and after = 1 and e = shop_env]
    by (simp add: stocked_defs INT4_MAX_def empty_db_def split: prod.splits)
  have "db_rawMovements (fst (receiveRawMovement shop_env 1 ''M1'' ?m stocked_db)) \<noteq> []" by code_simp
  then show "fst (receiveRawMovement shop_env 1 ''M1'' ?m stocked_db) \<noteq> stocked_db"
    by (auto simp: stocked_defs)
qed

end
