(* ===== verification/Sale_Phases.thy ===== *)
theory Sale_Phases
  imports Vending_Commands Movement_Properties
begin

text \<open>
  The contract between the writes of the sale and what is proved about runs of it. The locale
  \<open>sale_phases\<close> asks of an invariant that every single write of the dispense commands and of the
  stock movements keeps it (it extends the contract of the refund phases), and proves that every
  operation of the two services then keeps it, whatever it is called with, wherever it throws and
  however its phases interleave with those of others. The invariants themselves (stock, order
  status, command lifecycle, refunds) are interpretations.
\<close>

subsection \<open>The life of a command\<close>

text \<open>The moves of a command's status: what an update of the code may do to it.\<close>

inductive command_move :: "vending_command_status \<Rightarrow> vending_command_status \<Rightarrow> bool" where
  send: "command_move VcPending VcSent"
| acknowledge: "s \<in> {VcPending, VcSent} \<Longrightarrow> command_move s VcAcknowledged"
| lose: "s \<in> {VcPending, VcSent, VcAcknowledged} \<Longrightarrow> command_move s VcResultUnknown"
| fail: "s \<in> {VcPending, VcSent, VcAcknowledged, VcResultUnknown, VcTimeout} \<Longrightarrow> command_move s VcFailed"
| succeed: "s \<in> {VcPending, VcSent, VcAcknowledged, VcResultUnknown, VcTimeout} \<Longrightarrow>
    command_move s VcSucceeded"

inductive_simps command_move_iff: "command_move s t"
inductive_cases command_move_succeededE [elim!]: "command_move VcSucceeded t"
inductive_cases command_move_failedE [elim!]: "command_move VcFailed t"

definition command_identity ::
    "command_row \<Rightarrow> uuid \<times> string \<times> uuid \<times> uuid \<times> uuid \<times> uuid option \<times> command_kind \<times> uuid option \<times>
     dispense_payload" where
  "command_identity c = (vc_id c, vc_commandNo c, vc_orderId c, vc_machineId c, vc_slotId c,
     vc_orderItemId c, vc_commandKind c, vc_recoveryActionId c, vc_payloadJson c)"

text \<open>One update of a command: same identity, same status or one move.\<close>

definition command_next :: "command_row \<Rightarrow> command_row \<Rightarrow> bool" where
  "command_next c c' \<longleftrightarrow> command_identity c' = command_identity c \<and>
     (vc_status c' = vc_status c \<or> command_move (vc_status c) (vc_status c'))"

lemma command_nextI [intro?]:
  "command_identity c' = command_identity c \<Longrightarrow>
   vc_status c' = vc_status c \<or> command_move (vc_status c) (vc_status c') \<Longrightarrow> command_next c c'"
  by (simp add: command_next_def)

lemma identity_writes [simp]:
  "command_identity (c\<lparr>vc_status := s\<rparr>) = command_identity c"
  "command_identity (c\<lparr>vc_sentAt := a\<rparr>) = command_identity c"
  "command_identity (c\<lparr>vc_ackAt := b\<rparr>) = command_identity c"
  "command_identity (c\<lparr>vc_resultAt := d\<rparr>) = command_identity c"
  "command_identity (c\<lparr>vc_retryCount := n\<rparr>) = command_identity c"
  "command_identity (c\<lparr>vc_lastError := l\<rparr>) = command_identity c"
  "command_identity (c\<lparr>vc_updatedAt := t\<rparr>) = command_identity c"
  by (simp_all add: command_identity_def)

subsection \<open>Runs of the sale\<close>

text \<open>
  The operations of the vending, inventory, stock movement and refund services, and the phases
  between whose transactions others may run. What a phase read before (a command row, a plan, a
  machine row) is an argument: it may be stale.
\<close>

datatype sale_op =
  SoRefund refund_op
| SoInventory inventory_op
| SoIngest uuid raw_movement ingestion_plan
| SoReceive uuid string raw_movement
| SoCreateCommands uuid
| SoCreateAndDispatch publisher uuid
| SoDispatchOrder publisher uuid
| SoDispatchPending publisher
| SoMarkSent uuid
| SoDispatchFailed uuid string
| SoResolve uuid bool "string option" "bool option"
| SoResolveFailedTx command_row "string option" bool
| SoResolveDispensed command_row string string "string option" "string option" "ms option"
| SoCompensationTx uuid uuid string string
| SoCompensate publisher uuid uuid string string
| SoTimeouts ms
| SoUnknownTx command_row string ms bool
| SoAck uuid uuid
| SoResultTx machine_row string dispense_result string
| SoMessage "string \<Rightarrow> (dispense_result \<times> string) option" "string \<Rightarrow> (json \<times> ms \<times> string) option" string

definition error_of :: "db \<times> (api_error + 'a) \<Rightarrow> db \<times> api_error option" where
  "error_of m = (fst m, case snd m of Inl err \<Rightarrow> Some err | Inr _ \<Rightarrow> None)"

lemma fst_error_of [simp]: "fst (error_of m) = fst m"
  by (simp add: error_of_def)

fun sale_step :: "db \<Rightarrow> env \<times> sale_op \<Rightarrow> db \<times> api_error option" where
  "sale_step db (e, SoRefund r) = (fst (refund_step db (e, r)), None)"
| "sale_step db (e, SoInventory i) = error_of (atomic (run_inventory_op (e, i)) db)"
| "sale_step db (e, SoIngest mid m plan) = error_of (execute_ingestion e mid m plan db)"
| "sale_step db (e, SoReceive mid code m) = error_of (receiveRawMovement e mid code m db)"
| "sale_step db (e, SoCreateCommands ord) = error_of (atomic (createPendingDispatchCommands e ord) db)"
| "sale_step db (e, SoCreateAndDispatch pub ord) = error_of (createAndDispatchCommands e pub ord db)"
| "sale_step db (e, SoDispatchOrder pub ord) = error_of (dispatchPendingCommandsForOrder e pub ord db)"
| "sale_step db (e, SoDispatchPending pub) = error_of (dispatchPendingCommands e pub db)"
| "sale_step db (e, SoMarkSent i) = error_of (atomic (markPendingCommandSent e i) db)"
| "sale_step db (e, SoDispatchFailed i msg) =
     error_of (atomic (recordPendingCommandDispatchFailure e i msg) db)"
| "sale_step db (e, SoResolve i disp msg refund) = error_of (resolveCommand e i disp msg refund db)"
| "sale_step db (e, SoResolveFailedTx c msg refund) =
     error_of (atomic (resolve_not_dispensed_tx e c msg refund) db)"
| "sale_step db (e, SoResolveDispensed c code no mvid src t) =
     error_of (resolveCommandAsDispensed e c code no mvid src t db)"
| "sale_step db (e, SoCompensationTx ord act no txt) =
     error_of (atomic (compensation_tx e ord act no txt) db)"
| "sale_step db (e, SoCompensate pub ord act no txt) =
     error_of (createCompensationDispenseCommand e pub ord act no txt db)"
| "sale_step db (e, SoTimeouts now) = error_of (markTimedOutCommands e now db)"
| "sale_step db (e, SoUnknownTx c msg t fromResult) = error_of (atomic (markDispenseResultUnknown e c
     msg t (if fromResult then {VcPending, VcSent, VcAcknowledged} else {VcSent, VcAcknowledged})) db)"
| "sale_step db (e, SoAck mid c) = error_of (atomic (\<lambda>d. no_result (handleCommandAck e mid c d)) db)"
| "sale_step db (e, SoResultTx mac topic payload i) =
     error_of (atomic (dispense_result_tx e mac topic payload i) db)"
| "sale_step db (e, SoMessage vr vh topic) = error_of (handleMachineMessage e vr vh topic db)"

subsection \<open>The contract\<close>

locale sale_phases = refund_phases I for I :: "db \<Rightarrow> bool" +
  assumes item_write: "\<And>p f db. I db \<Longrightarrow> I (upd_items p f db)"
    and command_write: "\<And>p f db. (\<And>c. p c \<Longrightarrow> command_next c (f c)) \<Longrightarrow> I db \<Longrightarrow>
      I (upd_commands p f db)"
    and command_insert: "\<And>c db. I db \<Longrightarrow> vc_status c = VcPending \<Longrightarrow> vc_id c = db_next db \<Longrightarrow>
      \<not> list_ex (command_conflict c) (db_commands db) \<Longrightarrow>
      I (db\<lparr>db_commands := db_commands db @ [c], db_next := Suc (db_next db)\<rparr>)"
    and key_skip: "\<And>db. I db \<Longrightarrow> I (db\<lparr>db_next := Suc (db_next db)\<rparr>)"
    and fulfil: "\<And>e ord fs why meta t db. I db \<Longrightarrow> I (set_fulfillment e ord fs why meta t db)"
    and sync: "\<And>e ord why meta db. I db \<Longrightarrow> I (sync_command_lines e ord why meta db)"
    and manual: "\<And>e c db. I db \<Longrightarrow> I (order_to_manual e c db)"
    and inventory: "\<And>i db u db'. I db \<Longrightarrow> run_inventory_op i db = Inr (u, db') \<Longrightarrow> I db'"
    and reserve: "\<And>e ord item db db'. I db \<Longrightarrow> reserve_compensation e ord item db = Inr db' \<Longrightarrow> I db'"
    and confirm: "\<And>e rawId cc db db'. I db \<Longrightarrow> confirm_stock e rawId cc db = Inr db' \<Longrightarrow> I db'"
    and trusted: "\<And>e mid rawId m db b db'. I db \<Longrightarrow>
      applyTrustedFieldStockMovement e mid rawId m db = Inr (b, db') \<Longrightarrow> I db'"
    and raw: "\<And>e mid m norm hash recon db row db'. I db \<Longrightarrow>
      insertRawInto e mid m norm hash recon db = Inr (row, db') \<Longrightarrow> I db'"
    and conflict: "\<And>e mid rawId m norm hash recon db. I db \<Longrightarrow>
      I (snd (insertConflictReconciliation e mid rawId m norm hash recon db))"
    and mark: "\<And>mid mv recon db. I db \<Longrightarrow> I (markReconciliation mid mv recon db)"
    and restore: "\<And>e mid s db. I db \<Longrightarrow> I (restoreSlotAfterAcceptedLocalMaintenance e mid s db)"
    and notify: "\<And>n db. I db \<Longrightarrow> I (insert_notification n db)"
    and recovered: "\<And>mid code t t2 db. I db \<Longrightarrow> I (resolveMachineOfflineNotification mid code t t2 db)"
    and work_order: "\<And>e m s ord c ti de pr key db db'. I db \<Longrightarrow>
      createWorkOrder e m s ord c ti de pr key db = Inr db' \<Longrightarrow> I db'"
    and fault: "\<And>e s db. I db \<Longrightarrow> I (fault_slot e s db)"
    and inbox: "\<And>db evs. I db \<Longrightarrow> I (db\<lparr>db_machineEvents := evs\<rparr>)"
    and beat: "\<And>db ms hbs. I db \<Longrightarrow> I (db\<lparr>db_machines := ms, db_heartbeats := hbs\<rparr>)"
begin

lemma succeed_keeps:
  assumes "I db" and "\<And>c. p c \<Longrightarrow> claimable_command (vc_status c) \<or> vc_status c = VcSucceeded"
  shows "I (upd_commands p (succeed_command e t) db)"
  by (rule command_write [OF _ assms(1)])
    (use assms(2) in \<open>fastforce simp: command_next_def succeed_command_def claimable_command_def
      command_move_iff\<close>)

lemma fail_keeps:
  assumes "I db" and "\<And>c. p c \<Longrightarrow> claimable_command (vc_status c)"
  shows "I (upd_commands p (fail_command e msg) db)"
  by (rule command_write [OF _ assms(1)])
    (use assms(2) in \<open>fastforce simp: command_next_def fail_command_def claimable_command_def
      command_move_iff\<close>)

subsection \<open>Stock movements\<close>

lemma sync_lines_keeps: "I db \<Longrightarrow> I (syncOrderFulfillmentStateFromLines e ord why meta t db)"
  by (simp add: syncOrderFulfillmentStateFromLines_def Let_def fulfil)

lemma confirm_transaction_keeps:
  assumes "I db" and "confirmOrderBoundDispenseSucceededInTransaction e mid rawId m cc db = Inr db'"
  shows "I db'"
proof -
  have a: "I (upd_commands (\<lambda>c. vc_id c = cc_vendingCommandId cc \<and> claimable_command (vc_status c))
      (succeed_command e (rm_occurredAt m)) db)"
    by (rule succeed_keeps [OF assms(1)]) simp
  show ?thesis
    using assms(2) by (auto simp: confirmOrderBoundDispenseSucceededInTransaction_def bindR_eq_Inr
      Let_def confirmation_failed_def split: if_splits option.splits
      dest!: confirm [OF a] intro: stage_partial sync_lines_keeps item_write)
qed

lemma repair_keeps: "I db \<Longrightarrow> I (snd (repairAcceptedOrderBoundDispenseCommand e mid m db))"
  by (auto simp: repairAcceptedOrderBoundDispenseCommand_def Let_def intro!: succeed_keeps
      split: option.split)

lemma respond_keeps: "I db \<Longrightarrow> I (snd (responseForExisting e mid m norm ex hash db))"
  using repair_keeps [of db e mid m]
    conflict [of db e mid "rw_id ex" m norm hash "movementConflictReconciliation (rm_slotId m)"]
  by (auto simp: responseForExisting_def Let_def split_beta)

lemma recover_keeps: "I db \<Longrightarrow> I (fst (recover_unique e mid m norm hash err db))"
  by (auto simp: recover_unique_def split_beta Let_def respond_keeps split: option.splits)

lemma dispatch_refunds_keeps: "I db \<Longrightarrow> I (fst (dispatchPendingRefunds e n t db))"
  unfolding dispatchPendingRefunds_def by (rule dispatch_candidates_keeps)

lemma insert_sale_tx_keeps:
  assumes "I db"
    and "insertAcceptedWithOrderBoundDispenseConfirmation e mid m norm hash cc db = Inr (x, db')"
  shows "I db'"
  using assms
  by (auto simp: insertAcceptedWithOrderBoundDispenseConfirmation_def bindR_def
      split: sum.splits api_error.splits
      dest: raw intro: confirm_transaction_keeps)

lemma accept_sale_phases:
  assumes ok: "I db"
  shows "I (fst (accept_sale e mid m norm hash cc db))"
proof (cases "insertAcceptedWithOrderBoundDispenseConfirmation e mid m norm hash cc db")
  case (Inl err)
  then show ?thesis using ok by (simp add: accept_sale_def recover_keeps)
next
  case (Inr res)
  obtain x db1 where res: "res = (x, db1)" by (cases res)
  have ok1: "I db1" using insert_sale_tx_keeps [OF ok] Inr res by blast
  show ?thesis
    using Inr res ok1 dispatch_refunds_keeps [OF ok1]
    by (auto simp: accept_sale_def split: option.split intro!: bindS_keeps [where I = I])
qed

lemma accept_field_phases:
  assumes ok: "I db"
  shows "I (fst (accept_field e mid m norm hash db))"
proof (cases "insertRawInto e mid m norm hash None db")
  case (Inl err)
  then show ?thesis using ok by (simp add: accept_field_def recover_keeps)
next
  case (Inr res)
  obtain stored db1 where res: "res = (stored, db1)" by (cases res)
  have ok1: "I db1" using raw [OF ok] Inr res by blast
  have "I (fst (atomic (applyTrustedFieldStockMovement e mid (rw_id stored) m) db1))"
    by (rule atomic_keeps [where I = I, OF ok1]) (rule trusted [OF ok1])
  then show ?thesis using Inr res ok1
    by (auto simp: accept_field_def Let_def mark restore intro!: bindS_keeps [where I = I])
qed

lemma execute_phases:
  assumes ok: "I db"
  shows "I (fst (execute_ingestion e mid m plan db))"
proof (cases plan)
  case (PutAside recon)
  have "I (fst (atomic (insertRawInto e mid m norm hash (Some recon)) db))" for norm hash
    by (rule atomic_keeps [where I = I, OF ok]) (rule raw [OF ok])
  then show ?thesis using PutAside
    by (auto simp: execute_ingestion_def Let_def intro!: bindS_keeps [where I = I])
qed (use ok in \<open>simp_all add: execute_ingestion_def Let_def split_beta respond_keeps
       accept_sale_phases accept_field_phases\<close>)

lemma receive_phases: "I db \<Longrightarrow> I (fst (receiveRawMovement e mid code m db))"
  by (simp add: receiveRawMovement_def Let_def execute_phases)

end

context sale_phases begin

subsection \<open>Commands\<close>

lemma release_affected:
  "I db \<Longrightarrow> releaseAffectedReservationForDispenseFailure e ord item s err db = Inr (c, db') \<Longrightarrow> I db'"
  using inventory [of db "(e, OpReleaseAffected ord item s err)" "()" db']
  by (simp add: drop_result_Inr)

lemma dispense_failed_note: "I db \<Longrightarrow> I (createDispenseFailedNotification e ord c msg db)"
  by (simp add: createDispenseFailedNotification_def notify)

lemma inbox_event: "I db \<Longrightarrow> I (insertDispenseResultInboxEvent mid p topic i db)"
  by (simp add: insertDispenseResultInboxEvent_def inbox)

lemma lines_failed_keeps:
  "I db \<Longrightarrow> I (snd (markOrderLinesFailedAndBuildRefundDecision e ord item s why meta db))"
  by (simp add: markOrderLinesFailedAndBuildRefundDecision_def Let_def sync item_write)

lemma stage_failed_keeps: "I db \<Longrightarrow> stageFailedLineRefund e k db = Inr db' \<Longrightarrow> I db'"
  by (cases k) (auto intro: stage_full stage_partial)

lemma new_command_fresh [simp]:
  "vc_status (new_command e ord mac sl item k act p i) = VcPending"
  "vc_id (new_command e ord mac sl item k act p i) = i"
  by (simp_all add: new_command_def)

lemma create_line_keeps:
  assumes "I (snd s)" and "create_line_command e ord item s = Inr s'"
  shows "I (snd s')"
  using assms
  by (cases item; cases s)
    (auto simp: create_line_command_def bindR_eq_Inr insert_or_ignore_def Let_def
      split: if_splits intro: key_skip intro!: command_insert)

lemma create_pending_keeps:
  assumes "I db" and "createPendingDispatchCommands e ord db = Inr (cs, db')"
  shows "I db'"
proof -
  have fold: "I d'" if "foldR (create_line_command e x) items ([], db) = Inr (created, d')"
    for x items created d'
    using foldR_invariant [OF that, of "\<lambda>s. I (snd s)"] assms(1) create_line_keeps by auto
  show ?thesis
    using assms fold
    by (auto simp: createPendingDispatchCommands_def bindR_eq_Inr Let_def
        split: option.splits if_splits)
qed

lemma update_pending_keeps:
  assumes "I db" and "update_pending_command f i db = Inr (c, db')"
    and "\<And>c. vc_status c = VcPending \<Longrightarrow> command_next c (f c)"
  shows "I db'"
  using assms
  by (auto simp: update_pending_command_def bindR_eq_Inr Let_def split: option.splits
      intro!: command_write)

lemma sent_keeps: "I db \<Longrightarrow> markPendingCommandSent e i db = Inr (c, db') \<Longrightarrow> I db'"
  unfolding markPendingCommandSent_def
  by (erule update_pending_keeps, assumption) (simp add: command_next_def command_move.send)

lemma failure_keeps: "I db \<Longrightarrow> recordPendingCommandDispatchFailure e i msg db = Inr (c, db') \<Longrightarrow> I db'"
  unfolding recordPendingCommandDispatchFailure_def
  by (erule update_pending_keeps, assumption) (simp add: command_next_def)

lemma promise_all_keeps:
  "(\<And>x s. I s \<Longrightarrow> I (fst (f x s))) \<Longrightarrow> I s \<Longrightarrow> I (fst (promise_all f xs s))"
  by (induction xs arbitrary: s) (auto simp: split_beta Let_def)

lemma dispatch_command_keeps: "I db \<Longrightarrow> I (fst (dispatch_command e pub cm db))"
  by (cases cm) (auto simp: dispatch_command_def Let_def
      intro!: atomic_keeps [where I = I] intro: failure_keeps sent_keeps split: sum.split option.split)

lemma dispatch_order_keeps: "I db \<Longrightarrow> I (fst (dispatchPendingCommandsForOrder e pub ord db))"
  unfolding dispatchPendingCommandsForOrder_def
  by (rule promise_all_keeps) (rule dispatch_command_keeps)

lemma dispatch_pending_keeps: "I db \<Longrightarrow> I (fst (dispatchPendingCommands e pub db))"
  unfolding dispatchPendingCommands_def Let_def
  by (rule bindS_keeps, rule promise_all_keeps) (auto intro: dispatch_order_keeps)

lemma create_and_dispatch_keeps: "I db \<Longrightarrow> I (fst (createAndDispatchCommands e pub ord db))"
  unfolding createAndDispatchCommands_def
  by (rule bindS_keeps, rule atomic_keeps)
    (auto intro: create_pending_keeps dispatch_order_keeps intro!: bindS_keeps [where I = I])

lemma resolve_failed_keeps:
  assumes ok: "I db" and run: "resolve_not_dispensed_tx e c msg refund db = Inr (b, db')"
  shows "I db'"
proof -
  let ?m = "case msg of None \<Rightarrow> ''manual confirmation: not dispensed'' | Some n \<Rightarrow> n"
  let ?d = "upd_commands (\<lambda>x. vc_id x = vc_id c \<and>
      vc_status x \<in> {VcSent, VcAcknowledged, VcResultUnknown, VcTimeout}) (fail_command e ?m) db"
  have a: "I ?d" by (rule fail_keeps [OF ok]) (auto simp: claimable_command_def)
  from run consider "db' = db"
    | comp db1 meta db3 where
      "releaseAffectedReservationForDispenseFailure e (vc_orderId c) (vc_orderItemId c)
         (vc_slotId c) (Some NO_DROP) ?d = Inr (comp, db1)"
      "(if refund then stageFailedLineRefund e
          (fst (markOrderLinesFailedAndBuildRefundDecision e (vc_orderId c) (vc_orderItemId c)
            (vc_slotId c) ''manual_dispense_not_dispensed'' meta db1))
          (snd (markOrderLinesFailedAndBuildRefundDecision e (vc_orderId c) (vc_orderItemId c)
            (vc_slotId c) ''manual_dispense_not_dispensed'' meta db1))
        else Inr (snd (markOrderLinesFailedAndBuildRefundDecision e (vc_orderId c) (vc_orderItemId c)
            (vc_slotId c) ''manual_dispense_not_dispensed'' meta db1))) = Inr db3"
      "db' = createDispenseFailedNotification e (vc_orderId c) (vc_id c) ?m db3"
    unfolding resolve_not_dispensed_tx_def Let_def split_beta
    by (fastforce simp: bindR_eq_Inr split: if_split_asm)
  then show ?thesis
  proof cases
    case 1
    then show ?thesis using ok by simp
  next
    case 2
    have "I db1" by (rule release_affected [OF a 2(1)])
    then have "I db3" using 2(2)
      by (auto split: if_splits intro: lines_failed_keeps stage_failed_keeps [rotated])
    then show ?thesis by (simp add: 2(3) dispense_failed_note)
  qed
qed

lemma dispense_failure_keeps:
  assumes ok: "I db" and run: "apply_dispense_failure e mid c p db = Inr (k, db')"
  shows "I db'"
proof -
  let ?d = "upd_commands (\<lambda>x. vc_id x = vc_id c \<and> vc_status x \<in>
      {VcPending, VcSent, VcAcknowledged, VcResultUnknown, VcTimeout}) (fail_command e (dr_message p)) db"
  let ?lines = "\<lambda>meta. markOrderLinesFailedAndBuildRefundDecision e (vc_orderId c)
      (vc_orderItemId c) (vc_slotId c) ''dispense_failed'' meta"
  have a: "I ?d" by (rule fail_keeps [OF ok]) (auto simp: claimable_command_def)
  from run consider "db' = db"
    | comp db1 meta db3 where
      "releaseAffectedReservationForDispenseFailure e (vc_orderId c) (vc_orderItemId c)
         (vc_slotId c) (dr_errorCode p) ?d = Inr (comp, db1)"
      "stageFailedLineRefund e (fst (?lines meta db1)) (snd (?lines meta db1)) = Inr db3"
      "(if slotFaulted comp then createWorkOrder e (Some mid) (Some (vc_slotId c))
             (Some (vc_orderId c)) (Some (vc_id c)) (TitleWorkOrderDispenseFailed (dr_errorCode p))
             (dr_message p) (Some WpHigh) (KeyDispenseFailed (vc_id c))
             (createDispenseFailedNotification e (vc_orderId c) (vc_id c) (dr_message p) db3)
        else Inr (createDispenseFailedNotification e (vc_orderId c) (vc_id c) (dr_message p) db3)) = Inr db'"
    unfolding apply_dispense_failure_def Let_def split_beta
    by (fastforce simp: bindR_eq_Inr split: if_split_asm)
  then show ?thesis
  proof cases
    case 1
    then show ?thesis using ok by simp
  next
    case 2
    have "I db1" by (rule release_affected [OF a 2(1)])
    then have "I db3" using 2(2) by (auto intro: lines_failed_keeps stage_failed_keeps [rotated])
    then show ?thesis using 2(3)
      by (auto split: if_splits intro: dispense_failed_note work_order [rotated])
  qed
qed

lemma unknown_keeps:
  assumes "I db" and "markDispenseResultUnknown e c msg t S db = Inr (b, db')"
    and "S \<subseteq> {VcPending, VcSent, VcAcknowledged}"
  shows "I db'"
proof -
  have "I (upd_commands (\<lambda>x. vc_id x = vc_id c \<and> vc_status x \<in> S) (\<lambda>x. x\<lparr>vc_status := VcResultUnknown,
      vc_resultAt := Some t, vc_lastError := Some msg, vc_updatedAt := e_now e\<rparr>) db)"
    by (rule command_write [OF _ assms(1)])
      (use assms(3) in \<open>auto simp: command_next_def command_move_iff\<close>)
  then show ?thesis
    using assms(1,2)
    by (auto simp: markDispenseResultUnknown_def bindR_eq_Inr Let_def split: if_splits
        intro!: dispense_failed_note fault manual)
qed

lemma result_tx_keeps:
  assumes "I db" and "dispense_result_tx e mac topic p i db = Inr (k, db')"
  shows "I db'"
proof -
  have a: "I (insertDispenseResultInboxEvent (m_id mac) p topic i db)"
    by (rule inbox_event [OF assms(1)])
  show ?thesis
    using assms a
    by (auto simp: dispense_result_tx_def bindR_eq_Inr Let_def split: list.splits if_splits
        dest!: unknown_keeps [OF a] dispense_failure_keeps [OF a])
qed

lemma timeouts_keep: "I db \<Longrightarrow> I (fst (markTimedOutCommands e now db))"
proof -
  assume ok: "I db"
  have "I (fst (promise_all (\<lambda>c. atomic (markDispenseResultUnknown e c
      ''dispense result unknown after command timeout'' now {VcSent, VcAcknowledged})) xs db))" for xs
    by (rule promise_all_keeps [OF _ ok]) (auto intro!: atomic_keeps [where I = I] elim: unknown_keeps)
  then show ?thesis using ok
    by (auto simp: markTimedOutCommands_def Let_def intro!: bindS_keeps [where I = I])
qed

lemma resolve_dispensed_keeps: "I db \<Longrightarrow> I (fst (resolveCommandAsDispensed e c code no mvid src t db))"
  by (auto simp: resolveCommandAsDispensed_def receive_phases split: option.split
      ingestion_response.split intro!: bindS_keeps [where I = I])

lemma resolve_keeps:
  assumes ok: "I db"
  shows "I (fst (resolveCommand e i disp msg refund db))"
proof -
  have "I (fst (atomic (resolve_not_dispensed_tx e c msg b) db))" for c b
    by (rule atomic_keeps [where I = I, OF ok]) (rule resolve_failed_keeps [OF ok])
  then show ?thesis using ok
    by (auto simp: resolveCommand_def resolve_dispensed_keeps dispatch_refunds_keeps
        split: list.split intro!: bindS_keeps [where I = I])
qed

lemma compensation_keeps:
  assumes "I db" and "compensation_tx e ord act no txt db = Inr (c, db')"
  shows "I db'"
  using assms
  by (auto simp: compensation_tx_def bindR_eq_Inr Let_def split: option.splits list.splits if_splits
      dest!: reserve [rotated] intro!: command_insert)

lemma compensation_dispense_keeps: "I db \<Longrightarrow> I (fst (createCompensationDispenseCommand e pub ord act no txt db))"
  unfolding createCompensationDispenseCommand_def
  by (rule bindS_keeps, rule atomic_keeps)
    (auto intro: compensation_keeps dispatch_order_keeps intro!: bindS_keeps [where I = I])

lemma ack_keeps: "I db \<Longrightarrow> handleCommandAck e mid i db = Inr db' \<Longrightarrow> I db'"
  by (auto simp: handleCommandAck_def bindR_eq_Inr split: option.splits
      intro!: command_write simp: command_next_def command_move_iff)

lemma heartbeat_keeps:
  assumes "I db" and "heartbeat_tx e mac topic sp t i db = Inr (u, db')"
  shows "I db'"
  using assms beat [OF inbox [OF assms(1)]]
  by (auto simp: heartbeat_tx_def Let_def split: prod.splits if_splits intro!: recovered)

lemma result_keeps:
  assumes ok: "I db"
  shows "I (fst (handleDispenseResult e code topic v db))"
proof -
  have "I (fst (atomic (dispense_result_tx e m topic p i) db))" for m p i
    by (rule atomic_keeps [where I = I, OF ok]) (rule result_tx_keeps [OF ok])
  then show ?thesis using ok
    by (auto simp: handleDispenseResult_def resolve_dispensed_keeps dispatch_refunds_keeps inbox_event
        split: option.split result_context.split intro!: bindS_keeps [where I = I])
qed

lemma message_keeps: "I db \<Longrightarrow> I (fst (handleMachineMessage e vr vh topic db))"
  by (auto simp: handleMachineMessage_def handleHeartbeat_def result_keeps split: option.split
      intro!: atomic_keeps [where I = I] elim: heartbeat_keeps)

lemma sale_step_keeps: "I db \<Longrightarrow> I (fst (sale_step db i))"
proof -
  assume ok: "I db"
  obtain e op where i: "i = (e, op)" by (cases i)
  have inv: "I (fst (atomic (run_inventory_op j) db))" for j
    by (rule atomic_keeps [where I = I, OF ok]) (rule inventory [OF ok])
  have ack: "I (fst (atomic (\<lambda>d. no_result (handleCommandAck e m c d)) db))" for m c
    by (rule atomic_keeps [where I = I, OF ok]) (auto simp: no_result_Inr intro: ack_keeps [OF ok])
  show ?thesis
    unfolding i
    by (cases op)
      (simp_all add: ok step_keeps execute_phases receive_phases create_and_dispatch_keeps
        dispatch_order_keeps dispatch_pending_keeps resolve_keeps resolve_dispensed_keeps
        compensation_dispense_keeps timeouts_keep message_keeps inv ack atomic_keeps [where I = I]
        create_pending_keeps [OF ok] sent_keeps [OF ok] failure_keeps [OF ok]
        resolve_failed_keeps [OF ok] compensation_keeps [OF ok] unknown_keeps [OF ok]
        result_tx_keeps [OF ok])
qed

end

end
