(* ===== verification/Sale_System.thy ===== *)
theory Sale_System
  imports Sale_Phases
begin

text \<open>
  The sale as one system: runs of all its operations. Four invariants (stock, order status,
  commands, refunds, movement ids) are shown to satisfy the contract of \<open>Sale_Phases\<close>, and so
  hold after any run.
\<close>

subsection \<open>Writes outside orders, commands, refunds and movement ids\<close>

definition core_tables :: "db \<Rightarrow> order_row list \<times> command_row list \<times> refund_row list \<times>
    payment_row list \<times> (uuid \<times> string) list \<times> code_attempt_row list" where
  "core_tables db = (db_orders db, db_commands db, db_refunds db, db_payments db, movement_keys db,
     db_codeAttempts db)"

definition core_frame :: "db \<Rightarrow> db \<Rightarrow> bool" where
  "core_frame db db' \<longleftrightarrow> core_tables db' = core_tables db \<and> db_next db \<le> db_next db'"

lemma core_frame_refl [simp]: "core_frame db db"
  by (simp add: core_frame_def)

lemma core_frame_trans [trans]: "core_frame a b \<Longrightarrow> core_frame b c \<Longrightarrow> core_frame a c"
  by (simp add: core_frame_def)

lemma core_writes [simp]:
  "core_frame db (upd_items p f db)"
  "core_frame db (fault_slot e s db)"
  "core_frame db (set_reservation_status e i st db)"
  "core_frame db (insert_notification n db)"
  "core_frame db (resolveMachineOfflineNotification mid code t t2 db)"
  "core_frame db (markReconciliation mid mv recon db)"
  "core_frame db (restoreSlotAfterAcceptedLocalMaintenance e mid s db)"
  "core_frame db (snd (insertConflictReconciliation e mid rid m norm hash recon2 db))"
  "core_frame db (db\<lparr>db_machineEvents := evs\<rparr>)"
  "core_frame db (db\<lparr>db_machines := ms, db_heartbeats := hbs\<rparr>)"
  "core_frame db (db\<lparr>db_next := Suc (db_next db)\<rparr>)"
  "core_frame db (db\<lparr>db_reservations := rvs\<rparr>)"
  by (simp_all add: core_frame_def core_tables_def upd_items_def fault_slot_def
      set_reservation_status_def insert_notification_def resolveMachineOfflineNotification_def
      insertConflictReconciliation_def Let_def)
    (simp_all add: markReconciliation_def restoreSlotAfterAcceptedLocalMaintenance_def
      movement_keys_def map_upd_where)

lemma update_inventories_core: "update_inventories p f db = Inr (n, db') \<Longrightarrow> core_frame db db'"
  by (auto simp: core_frame_def core_tables_def movement_keys_def dest: update_inventories_InrD)

lemma insert_movement_core: "insert_movement i d why ord op msg db = Inr db' \<Longrightarrow> core_frame db db'"
  by (auto simp: insert_movement_def core_frame_def core_tables_def movement_keys_def split: if_splits)

lemma insert_active_core: "insert_active_reservation e ord item i q t db = Inr db' \<Longrightarrow> core_frame db db'"
  by (auto simp: insert_active_reservation_def insert_reservation_def core_frame_def core_tables_def
      movement_keys_def split: if_splits)

lemma low_stock_core: "core_frame db (checkAndCreateLowStockNotification e i db)"
  by (simp add: checkAndCreateLowStockNotification_def createLowStockNotification_def Let_def
      split: option.split)

lemma work_order_core: "createWorkOrder e m s ord c ti de pr key db = Inr db' \<Longrightarrow> core_frame db db'"
  by (auto simp: createWorkOrder_def Let_def core_frame_def core_tables_def movement_keys_def
      split: if_splits)

lemma core_ends [simp]:
  "core_frame (db\<lparr>db_reservations := rvs\<rparr>) db' \<longleftrightarrow> core_frame db db'"
  "core_frame (set_reservation_status e i st db) db' \<longleftrightarrow> core_frame db db'"
  by (simp_all add: core_frame_def core_tables_def movement_keys_def set_reservation_status_def)

lemma foldR_core:
  assumes "foldR f xs db = Inr db'" and "\<And>x d d'. f x d = Inr d' \<Longrightarrow> core_frame d d'"
  shows "core_frame db db'"
  using assms(1)
  by (rule foldR_invariant [where I = "core_frame db"]) (auto intro: core_frame_trans assms(2))

lemmas core_steps = update_inventories_core insert_movement_core insert_active_core

lemma adjust_core: "adjust e adm i d msg db = Inr (r, db') \<Longrightarrow> core_frame db db'"
  by (auto simp: adjust_def bindR_eq_Inr split: if_splits dest!: core_steps intro: core_frame_trans)

lemma create_inventory_core:
  "createInventory e adm m s v q rq low msg db = Inr (r, db') \<Longrightarrow> core_frame db db'"
  by (auto simp: createInventory_def bindR_eq_Inr Let_def split: if_splits dest!: insert_movement_core)
    (simp_all add: core_frame_def core_tables_def movement_keys_def)

lemma reserve_core: "reserveForOrder e ord item i q t db = Inr db' \<Longrightarrow> core_frame db db'"
  by (auto simp: reserveForOrder_def bindR_eq_Inr split: if_splits dest!: core_steps
      intro: core_frame_trans)

lemma confirm_reservation_core: "confirmReservation e ord item i q db = Inr db' \<Longrightarrow> core_frame db db'"
  by (auto simp: confirmReservation_def bindR_eq_Inr Let_def split: if_splits option.splits
      dest!: core_steps intro: core_frame_trans [OF core_frame_trans low_stock_core] low_stock_core)

lemma release_core: "releaseReservation e ord item i q why db = Inr db' \<Longrightarrow> core_frame db db'"
  by (auto simp: releaseReservation_def bindR_eq_Inr Let_def split: if_splits option.splits
      dest!: core_steps intro: core_frame_trans core_writes)

lemma return_core: "return_to_stock e ord msg oi db = Inr db' \<Longrightarrow> core_frame db db'"
  by (auto simp: return_to_stock_def bindR_eq_Inr dest!: core_steps intro: core_frame_trans)

lemma restore_confirmed_core:
  "restoreConfirmedOrderItemsForDispatchFailure e ord msg db = Inr (n, db') \<Longrightarrow> core_frame db db'"
  by (auto simp: restoreConfirmedOrderItemsForDispatchFailure_def bindR_eq_Inr Let_def split: if_splits
      dest!: foldR_core intro: return_core)

lemma release_affected_core:
  "releaseAffectedReservationForDispenseFailure e ord item s err db = Inr (c, db') \<Longrightarrow> core_frame db db'"
  by (auto simp: releaseAffectedReservationForDispenseFailure_def bindR_eq_Inr Let_def
      dest!: foldR_core intro: release_core core_frame_trans core_writes split: if_splits)

lemma compensate_core:
  "compensateDispenseFailure e ord item s err msg db = Inr (c, db') \<Longrightarrow> core_frame db db'"
  by (auto simp: compensateDispenseFailure_def bindR_eq_Inr Let_def
      dest!: foldR_core intro: return_core core_frame_trans core_writes split: if_splits)

lemma expired_core:
  assumes "releaseExpiredInventoryReservations e now db = Inr (n, db')"
  shows "core_frame db db'"
proof -
  let ?db0 = "db\<lparr>db_reservations := upd_where (reservation_expired now)
      (\<lambda>r. r\<lparr>rv_status := RsReleased, rv_updatedAt := e_now e\<rparr>) (db_reservations db)\<rparr>"
  from assms obtain p f k db1 where upd: "update_inventories p f ?db0 = Inr (k, db1)"
    and fold: "foldR (\<lambda>r. insert_movement (rv_inventoryId r) 0 MrReservationReleased
        (Some (rv_orderId r)) None (Some ''payment_expired''))
        (filter (reservation_expired now) (db_reservations db)) db1 = Inr db'"
    by (auto simp: releaseExpiredInventoryReservations_def bindR_eq_Inr Let_def)
  have "core_frame db ?db0" by simp
  also have "core_frame ?db0 db1" by (rule update_inventories_core [OF upd])
  also have "core_frame db1 db'" by (rule foldR_core [OF fold]) (rule insert_movement_core)
  finally show ?thesis .
qed

lemma inventory_core:
  assumes "run_inventory_op i db = Inr (u, db')"
  shows "core_frame db db'"
  using assms
  by (cases "(i, db)" rule: run_inventory_op.cases)
    (auto simp: drop_result_Inr no_result_Inr intro: adjust_core create_inventory_core reserve_core
      confirm_reservation_core release_core restore_confirmed_core release_affected_core
      compensate_core expired_core)

lemma reserve_compensation_core: "reserve_compensation e ord item db = Inr db' \<Longrightarrow> core_frame db db'"
  by (auto simp: reserve_compensation_def bindR_eq_Inr split: if_splits dest!: core_steps
      intro: core_frame_trans)

lemma confirm_stock_core: "confirm_stock e rid cc db = Inr db' \<Longrightarrow> core_frame db db'"
  by (auto simp: confirm_stock_def confirmation_failed_def bindR_eq_Inr split: if_splits
      dest!: core_steps intro: core_frame_trans core_writes)

lemma trusted_core:
  "applyTrustedFieldStockMovement e mid rid m db = Inr (b, db') \<Longrightarrow> core_frame db db'"
  by (auto simp: applyTrustedFieldStockMovement_def bindR_eq_Inr Let_def split: option.splits if_splits
      dest!: core_steps intro: core_frame_trans)

subsection \<open>Invariants that look at the core only\<close>

text \<open>
  An invariant that the writes outside the core cannot see has only the core's own writes to
  answer for; it then satisfies the whole contract.
\<close>

locale core_phases = refund_phases I for I :: "db \<Rightarrow> bool" +
  assumes core_stable: "\<And>db db'. I db \<Longrightarrow> core_frame db db' \<Longrightarrow> I db'"
    and core_command_write: "\<And>p f db. (\<And>c. p c \<Longrightarrow> command_next c (f c)) \<Longrightarrow> I db \<Longrightarrow>
      I (upd_commands p f db)"
    and core_command_insert: "\<And>c db. I db \<Longrightarrow> vc_status c = VcPending \<Longrightarrow> vc_id c = db_next db \<Longrightarrow>
      \<not> list_ex (command_conflict c) (db_commands db) \<Longrightarrow>
      I (db\<lparr>db_commands := db_commands db @ [c], db_next := Suc (db_next db)\<rparr>)"
    and core_fulfil: "\<And>e ord fs why meta t db. I db \<Longrightarrow> I (set_fulfillment e ord fs why meta t db)"
    and core_sync: "\<And>e ord why meta db. I db \<Longrightarrow> I (sync_command_lines e ord why meta db)"
    and core_manual: "\<And>e c db. I db \<Longrightarrow> I (order_to_manual e c db)"
    and core_raw: "\<And>e mid m norm hash recon db row db'. I db \<Longrightarrow>
      insertRawInto e mid m norm hash recon db = Inr (row, db') \<Longrightarrow> I db'"

sublocale core_phases \<subseteq> sale_phases I
proof unfold_locales
  fix p f and db :: db
  assume "\<And>c. p c \<Longrightarrow> command_next c (f c)" and "I db"
  then show "I (upd_commands p f db)" by (rule core_command_write)
qed ((rule core_stable, assumption, (rule core_writes | erule inventory_core
         | erule reserve_compensation_core | erule confirm_stock_core | erule trusted_core
         | erule work_order_core))
     | (erule core_fulfil | erule core_sync | erule core_manual | erule (1) core_raw)
     | (rule core_command_insert, assumption+))+

subsection \<open>Order status\<close>

definition orders_sound :: "db \<Rightarrow> bool" where
  "orders_sound db \<longleftrightarrow> distinct (map o_id (db_orders db)) \<and> orders_projected db"

lemma refund_phases_conj:
  assumes "refund_phases P" and "refund_phases Q"
  shows "refund_phases (\<lambda>db. P db \<and> Q db)"
  using assms [unfolded refund_phases_def] unfolding refund_phases_def
  by (elim conjE; intro conjI allI impI; (elim conjE)?; (intro conjI)?; metis)

text \<open>Whatever depends on the tables that refunds leave alone is kept by every refund phase.\<close>

lemma refund_phases_frame:
  assumes "\<And>db db'. I db \<Longrightarrow> refund_frame db db' \<Longrightarrow> I db'"
  shows "refund_phases I"
proof unfold_locales
  fix now i db b db'
  assume "I db" "claim_refund now i db = Inr (b, db')"
  then show "I db'" using refund_tables.claim [OF refund_frame_refl] assms by blast
next
  fix e r pid db u db'
  assume "I db" "recordRefundRequestUncertain e r pid db = Inr (u, db')"
  then show "I db'" using refund_tables.uncertain [OF refund_frame_refl] assms by blast
next
  fix e r no db u db'
  assume "I db" "mark_processing_tx e r no db = Inr (u, db')"
  then show "I db'" using refund_tables.mark_tx [OF refund_frame_refl] assms by blast
qed (blast intro: assms stageFull_tables stagePartial_tables create_full_tables create_partial_tables
       apply_answer_tables settle_tables refund_tables.event [OF refund_frame_refl]
       refund_tables.attempt_new [OF refund_frame_refl] refund_tables.attempt_upd [OF refund_frame_refl])+

lemma refund_frame_order_ids: "refund_frame db db' \<Longrightarrow> map o_id (db_orders db') = map o_id (db_orders db)"
proof -
  assume "refund_frame db db'"
  then have "map identity_of (db_orders db') = map identity_of (db_orders db)"
    by (simp add: refund_frame_def sale_tables_def)
  then have "map fst (map identity_of (db_orders db')) = map fst (map identity_of (db_orders db))"
    by (rule arg_cong)
  then show ?thesis by (simp add: o_def identity_of_def)
qed

lemma order_ids_refunds: "refund_phases (\<lambda>db. distinct (map o_id (db_orders db)))"
  by (rule refund_phases_frame) (simp add: refund_frame_order_ids)

lemma find_order_unique:
  assumes "distinct (map o_id (db_orders db))" and "find_order i db = Some cur"
    and "x \<in> set (db_orders db)" and "o_id x = i"
  shows "x = cur"
  using assms find_SomeD [of "\<lambda>r. o_id r = i" "db_orders db" cur] key_unique [OF assms(1,3), of cur]
  by (simp add: find_order_def)

text \<open>Moving an order to another fulfilment state and the status that projects from it.\<close>

lemma project_write_sound:
  assumes ok: "orders_sound db" and cur: "find_order i db = Some cur"
    and f: "\<And>x. o_id (f x) = o_id x" "\<And>x. o_paymentState (f x) = o_paymentState x"
      "\<And>x. o_status (f x) = projectOrderStatus (o_paymentState cur) fs"
      "\<And>x. o_fulfillmentState (f x) = fs"
  shows "orders_sound (log_status i from to why meta (upd_orders (\<lambda>x. o_id x = i) f db))"
proof -
  have dist: "distinct (map o_id (db_orders db))" and proj: "orders_projected db"
    using ok by (simp_all add: orders_sound_def)
  have "orders_projected (upd_orders (\<lambda>x. o_id x = i) f db)"
    by (rule orders_projected_upd [OF proj])
      (use find_order_unique [OF dist cur] f in \<open>auto simp: order_projected_def\<close>)
  moreover have "map o_id (upd_where (\<lambda>x. o_id x = i) f (db_orders db)) = map o_id (db_orders db)"
    by (rule map_upd_where) (rule f(1))
  ultimately show ?thesis using dist by (simp add: orders_sound_def upd_orders_def log_status_def)
      (simp add: orders_projected_def)
qed

lemma log_status_sound [simp]:
  "orders_sound (log_status i from to why meta db) = orders_sound db"
  by (simp add: orders_sound_def log_status_def orders_projected_def)

interpretation order_machine: core_phases orders_sound
proof (intro core_phases.intro core_phases_axioms.intro)
  show "refund_phases orders_sound"
    unfolding orders_sound_def [abs_def]
    by (rule refund_phases_conj [OF order_ids_refunds refund_status.refund_phases_axioms])
next
  fix e ord fs why meta t and db :: db
  assume "orders_sound db"
  then show "orders_sound (set_fulfillment e ord fs why meta t db)"
    using project_write_sound [of db ord]
    by (auto simp: set_fulfillment_def Let_def split: option.split simp del: log_status_sound)
next
  fix e ord why meta and db :: db
  assume "orders_sound db"
  then show "orders_sound (sync_command_lines e ord why meta db)"
    using project_write_sound [of db ord]
    by (auto simp: sync_command_lines_def Let_def split: option.split simp del: log_status_sound)
next
  fix e c and db :: db
  assume "orders_sound db"
  then show "orders_sound (order_to_manual e c db)"
    using project_write_sound [of db "vc_orderId c"]
    by (auto simp: order_to_manual_def Let_def split: option.split simp del: log_status_sound)
qed (auto simp: orders_sound_def orders_projected_def core_frame_def core_tables_def upd_commands_def
       insertRawInto_def Let_def split: if_splits)

subsection \<open>Refunds and movement ids\<close>

lemma order_writes_frame [simp]:
  "refund_view (set_fulfillment e ord fs why meta t db) = refund_view db"
  "refund_view (sync_command_lines e ord why meta2 db) = refund_view db"
  "refund_view (order_to_manual e c db) = refund_view db"
  "db_next (set_fulfillment e ord fs why meta t db) = db_next db"
  "db_next (sync_command_lines e ord why meta2 db) = db_next db"
  "db_next (order_to_manual e c db) = db_next db"
  "db_commands (set_fulfillment e ord fs why meta t db) = db_commands db"
  "db_commands (sync_command_lines e ord why meta2 db) = db_commands db"
  "db_commands (order_to_manual e c db) = db_commands db"
  "movement_keys (sync_command_lines e ord why meta2 db) = movement_keys db"
  "movement_keys (order_to_manual e c db) = movement_keys db"
  "stock_view (set_fulfillment e ord fs why meta t db) = stock_view db"
  "stock_view (sync_command_lines e ord why meta2 db) = stock_view db"
  "stock_view (order_to_manual e c db) = stock_view db"
  by (auto simp: set_fulfillment_def sync_command_lines_def order_to_manual_def Let_def upd_defs
      refund_view_def payment_view_def movement_keys_def stock_view_def split: option.split)

lemma insertRaw_frame:
  assumes "insertRawInto e mid m norm hash recon db = Inr (row, db')"
  shows "refund_view db' = refund_view db" and "db_commands db' = db_commands db"
    and "db_next db' = Suc (db_next db)"
  using assms by (auto simp: insertRawInto_def Let_def refund_view_def payment_view_def split: if_splits)

lemma core_refund_view: "core_frame db db' \<Longrightarrow> refund_view db' = refund_view db \<and> db_next db \<le> db_next db'"
  by (simp add: core_frame_def core_tables_def refund_view_def payment_view_def)

lemma refund_view_commands [simp]:
  "refund_view (upd_commands p f db) = refund_view db"
  "refund_view (db\<lparr>db_commands := cs, db_next := n\<rparr>) = refund_view db"
  by (simp_all add: upd_commands_def refund_view_def payment_view_def)

lemma command_writes_next [simp]:
  "db_next (upd_commands p f db) = db_next db" "db_next (upd_items p2 g db) = db_next db"
  by (simp_all add: upd_commands_def upd_items_def)

interpretation refund_core: core_phases refunds_ok
proof (intro core_phases.intro core_phases_axioms.intro)
  show "refund_phases refunds_ok" by (rule refund_amounts.refund_phases_axioms)
qed (erule refunds_ok_frame; simp add: core_refund_view insertRaw_frame)+

definition movement_ids_unique :: "db \<Rightarrow> bool" where
  "movement_ids_unique db \<longleftrightarrow> distinct (movement_keys db)"

interpretation movement_core: core_phases movement_ids_unique
proof (intro core_phases.intro core_phases_axioms.intro)
  show "refund_phases movement_ids_unique"
    by (rule refund_phases_frame) (simp add: movement_ids_unique_def refund_frame_keys)
next
  fix e mid m norm hash recon db row db'
  assume "movement_ids_unique db" "insertRawInto e mid m norm hash recon db = Inr (row, db')"
  then show "movement_ids_unique db'"
    using insertRaw_adds by (fastforce simp: movement_ids_unique_def adds_key_def)
qed (simp_all add: movement_ids_unique_def core_frame_def core_tables_def, simp_all add: movement_keys_def)

subsection \<open>Stock\<close>

lemma stock_ok_same:
  "stock_ok db \<Longrightarrow> stock_view db' = stock_view db \<Longrightarrow> db_next db \<le> db_next db' \<Longrightarrow> stock_ok db'"
  by (rule stock_ok_frame)

lemma reserve_compensation_keeps:
  assumes ok: "stock_ok db" and run: "reserve_compensation e ord item db = Inr db'"
  shows "stock_ok db'"
proof -
  let ?i = "oi_inventoryId item" and ?q = "oi_quantity item"
  let ?p = "\<lambda>r. inv_id r = ?i \<and> ?q \<le> inv_onHandQty r - inv_reservedQty r"
  let ?f = "\<lambda>r. r\<lparr>inv_reservedQty := inv_reservedQty r + ?q, inv_updatedAt := e_now e\<rparr>"
  define t :: ms where "t = e_now e + 15 * 60000"
  from run obtain n db1 where upd: "update_inventories ?p ?f db = Inr (n, db1)" and n: "n \<noteq> 0"
    and ins: "insert_active_reservation e ord (Some (oi_id item)) ?i ?q t db1 = Inr db'"
    by (auto simp: reserve_compensation_def bindR_eq_Inr t_def split: if_splits)
  have dist: "distinct (map inv_id (db_inventories db))"
    using ok by (simp add: stock_ok_def stock_consistent_def)
  obtain r where r: "r \<in> set (db_inventories db)" "?p r" using update_hit [OF upd n] by blast
  have "count_where ?p (db_inventories db) = 1"
    by (rule count_unique_row [where k = inv_id and r = r and p = ?p]) (use dist r in auto)
  then have one: "n = 1" using update_inventories_InrD [OF upd] by simp
  from ins obtain db'' where mov: "insert_movement ?i 0 MrPurchaseReserved (Some ord) None None db' = Inr db''"
    by (auto simp: insert_active_reservation_def insert_reservation_def insert_movement_def
        inventory_exists_iff split: if_splits)
  have "reserveForOrder e ord (Some (oi_id item)) ?i ?q t db = Inr db''"
    using mov by (simp add: reserveForOrder_def upd one ins)
  then have ok'': "stock_ok db''" by (rule reserveForOrder_keeps [OF ok])
  from mov have db'': "db'' = db'\<lparr>db_movements := db_movements db' @ [\<lparr>mv_id = db_next db',
      mv_inventoryId = oi_inventoryId item, mv_deltaQty = 0, mv_reason = MrPurchaseReserved,
      mv_orderId = Some ord, mv_operatorAdminUserId = None, mv_note = None\<rparr>],
      db_next := db_next db' + 1\<rparr>"
    by (simp add: insert_movement_def split: if_splits)
  from ins upd have next': "db_next db' = db_next db + 1"
    and ids: "map inv_id (db_inventories db') = map inv_id (db_inventories db)"
    and rvs: "\<exists>x. db_reservations db' = db_reservations db @ [x] \<and> rv_id x = db_next db"
    by (auto simp: insert_active_reservation_def insert_reservation_def map_upd_where
        split: if_splits dest!: update_inventories_InrD)
  have same: "inv_id ` set (db_inventories db') = inv_id ` set (db_inventories db)"
    using arg_cong [OF ids, of set] by simp
  have old: "\<forall>r\<in>set (db_inventories db). inv_id r < db_next db"
      "\<forall>r\<in>set (db_reservations db). rv_id r < db_next db"
    using ok by (simp_all add: stock_ok_def keys_fresh_def)
  have "\<forall>k\<in>inv_id ` set (db_inventories db'). k < db_next db" using old(1) by (simp add: same)
  then have "keys_fresh db'" using rvs old(2) by (fastforce simp: keys_fresh_def next')
  then show ?thesis
    using ok'' by (auto simp: db'' stock_ok_def stock_consistent_def inventory_sound_def
        ledger_balance_def movements_wf_def)
qed

lemma event_writes_stock [simp]:
  "stock_view (db\<lparr>db_machineEvents := evs\<rparr>) = stock_view db"
  "stock_view (db\<lparr>db_machines := ms, db_heartbeats := hbs\<rparr>) = stock_view db"
  "stock_view (db\<lparr>db_commands := cs, db_next := n\<rparr>) = stock_view db"
  "stock_view (db\<lparr>db_next := n\<rparr>) = stock_view db"
  "stock_view (db\<lparr>db_commands := cs\<rparr>) = stock_view db"
  "stock_view (resolveMachineOfflineNotification mid code t t2 db) = stock_view db"
  "stock_view (fault_slot e s db) = stock_view db"
  "stock_view (snd (insertConflictReconciliation e mid rid m norm hash recon db)) = stock_view db"
  "db_next (resolveMachineOfflineNotification mid code t t2 db) = db_next db"
  "db_next (fault_slot e s db) = db_next db"
  "db_next db \<le> db_next (snd (insertConflictReconciliation e mid rid m norm hash recon db))"
  by (simp_all add: stock_view_def resolveMachineOfflineNotification_def fault_slot_def
      insertConflictReconciliation_def Let_def)

lemma work_order_next: "createWorkOrder e m s ord c ti de pr key db = Inr db' \<Longrightarrow> db_next db \<le> db_next db'"
  using work_order_core by (simp add: core_frame_def)

interpretation stock_machine: sale_phases stock_ok
proof (intro sale_phases.intro sale_phases_axioms.intro)
  show "refund_phases stock_ok"
    by (rule refund_phases_frame) (rule stock_frame_ok [OF _ refund_stock_frame])
next
  fix i db u db'
  assume "stock_ok db" "run_inventory_op i db = Inr (u, db')"
  then show "stock_ok db'" by (rule inventory_tx.keeps)
qed ((erule (1) reserve_compensation_keeps | erule (1) confirm_stock_keeps | erule (1) applyTrusted_keeps)
     | (erule stock_frame_ok; simp add: stock_frame_def insertRaw_stock [unfolded stock_frame_def]
          createWorkOrder_frame work_order_next frame_simps
          markReconciliation_stock [unfolded stock_frame_def] restoreSlot_stock [unfolded stock_frame_def]))+


subsection \<open>Commands\<close>

text \<open>
  What becomes of a command: its identity stays and its status is reached by moves. An invariant
  of runs: the commands of the start are still there, in their place, each what became of it; no
  two commands conflict under the unique indexes of the table, and their keys are fresh.
\<close>

definition command_reach :: "command_row \<Rightarrow> command_row \<Rightarrow> bool" where
  "command_reach c c' \<longleftrightarrow> command_identity c' = command_identity c \<and>
     command_move\<^sup>*\<^sup>* (vc_status c) (vc_status c')"

definition commands_since :: "command_row list \<Rightarrow> db \<Rightarrow> bool" where
  "commands_since cs0 db \<longleftrightarrow> length cs0 \<le> length (db_commands db) \<and>
     list_all2 command_reach cs0 (take (length cs0) (db_commands db)) \<and>
     no_conflict command_conflict (db_commands db) \<and>
     distinct (map vc_id (db_commands db)) \<and>
     (\<forall>c\<in>set (db_commands db). vc_id c < db_next db)"

lemma command_reach_refl [simp]: "command_reach c c"
  by (simp add: command_reach_def)

lemma command_reach_next: "command_reach a b \<Longrightarrow> command_next b c \<Longrightarrow> command_reach a c"
  by (auto simp: command_reach_def command_next_def)

lemma identity_fields:
  assumes "command_identity a = command_identity b"
  shows "vc_id a = vc_id b" and "vc_commandNo a = vc_commandNo b" and "vc_orderId a = vc_orderId b"
    and "vc_slotId a = vc_slotId b" and "vc_commandKind a = vc_commandKind b"
    and "vc_recoveryActionId a = vc_recoveryActionId b" and "vc_machineId a = vc_machineId b"
    and "vc_payloadJson a = vc_payloadJson b" and "vc_orderItemId a = vc_orderItemId b"
  using assms by (simp_all add: command_identity_def)

lemma command_conflict_identity:
  assumes "command_identity a' = command_identity a" and "command_identity b' = command_identity b"
  shows "command_conflict a' b' = command_conflict a b"
  using identity_fields [OF assms(1)] identity_fields [OF assms(2)] by (simp add: command_conflict_def)

lemma command_conflict_sym: "command_conflict a b = command_conflict b a"
  by (auto simp: command_conflict_def)

lemma commands_write:
  assumes ok: "commands_since cs0 db" and step: "\<And>c. p c \<Longrightarrow> command_next c (f c)"
  shows "commands_since cs0 (upd_commands p f db)"
proof -
  define g where "g c = (if p c then f c else c)" for c
  have g: "command_next c (g c)" for c using step by (simp add: g_def command_next_def)
  then have same: "command_identity (g c) = command_identity c" for c by (simp add: command_next_def)
  have rows: "db_commands (upd_commands p f db) = map g (db_commands db)"
    by (simp add: upd_commands_def upd_where_def g_def [abs_def])
  have "no_conflict command_conflict (map g (db_commands db))"
    by (rule no_conflict_map) (use ok in \<open>simp_all add: commands_since_def same command_conflict_identity
        [OF same same]\<close>)
  moreover have "distinct (map (vc_id \<circ> g) (db_commands db))"
    using ok identity_fields(1) [OF same] by (simp add: commands_since_def o_def)
  moreover have "list_all2 command_reach cs0 (take (length cs0) (map g (db_commands db)))"
    using ok by (auto simp: commands_since_def take_map list_all2_map2
        elim!: list_all2_mono intro: command_reach_next [OF _ g])
  ultimately show ?thesis using ok identity_fields(1) [OF same]
    by (simp add: commands_since_def rows)
qed

lemma commands_append:
  assumes ok: "commands_since cs0 db" and key: "vc_id c = db_next db"
    and fresh: "\<not> list_ex (command_conflict c) (db_commands db)"
  shows "commands_since cs0 (db\<lparr>db_commands := db_commands db @ [c], db_next := Suc (db_next db)\<rparr>)"
proof -
  have "\<not> list_ex (\<lambda>x. command_conflict x c) (db_commands db)"
    using fresh by (simp add: list_ex_iff command_conflict_sym)
  then have "no_conflict command_conflict (db_commands db @ [c])"
    using ok by (simp add: no_conflict_append commands_since_def)
  moreover have "vc_id c \<notin> vc_id ` set (db_commands db)"
    using ok by (auto simp: commands_since_def key)
  ultimately show ?thesis using ok by (auto simp: commands_since_def key less_Suc_eq)
qed

lemma commands_frame:
  "commands_since cs0 db \<Longrightarrow> db_commands db' = db_commands db \<Longrightarrow> db_next db \<le> db_next db' \<Longrightarrow>
   commands_since cs0 db'"
  by (auto simp: commands_since_def)

lemma refund_frame_commands: "refund_frame db db' \<Longrightarrow> db_commands db' = db_commands db \<and> db_next db \<le> db_next db'"
  by (simp add: refund_frame_def sale_tables_def)

interpretation command_machine: core_phases "commands_since cs0"
proof (intro core_phases.intro core_phases_axioms.intro)
  show "refund_phases (commands_since cs0)"
    by (rule refund_phases_frame) (auto dest: refund_frame_commands intro: commands_frame)
next
  fix p f and db :: db
  assume "\<And>c. p c \<Longrightarrow> command_next c (f c)" "commands_since cs0 db"
  then show "commands_since cs0 (upd_commands p f db)" by (rule commands_write [rotated])
next
  fix c and db :: db
  assume "commands_since cs0 db" "vc_id c = db_next db"
    "\<not> list_ex (command_conflict c) (db_commands db)"
  then show "commands_since cs0 (db\<lparr>db_commands := db_commands db @ [c], db_next := Suc (db_next db)\<rparr>)"
    by (rule commands_append)
next
  fix db db' :: db
  assume "commands_since cs0 db" "core_frame db db'"
  then show "commands_since cs0 db'"
    by (auto simp: core_frame_def core_tables_def intro: commands_frame)
qed (erule commands_frame; simp add: insertRaw_frame)+


subsection \<open>The whole sale\<close>

text \<open>The invariant of the system, and the runs of the system as a reactive machine.\<close>

definition sale_ok :: "command_row list \<Rightarrow> db \<Rightarrow> bool" where
  "sale_ok cs0 db \<longleftrightarrow> stock_ok db \<and> orders_sound db \<and> refunds_ok db \<and> movement_ids_unique db \<and>
     commands_since cs0 db"

lemma sale_ok_empty: "sale_ok [] empty_db"
  by (simp add: sale_ok_def stock_ok_empty orders_sound_def movement_ids_unique_def commands_since_def)
    (simp add: orders_projected_def movement_keys_def refunds_ok_def empty_db_def)

lemma sale_ok_step: "sale_ok cs0 db \<Longrightarrow> sale_ok cs0 (fst (sale_step db i))"
  by (simp add: sale_ok_def stock_machine.sale_step_keeps order_machine.sale_step_keeps
      refund_core.sale_step_keeps movement_core.sale_step_keeps command_machine.sale_step_keeps)

interpretation sale_machine: reactive_machine sale_step empty_db "sale_ok []" "\<lambda>_ _ _. True"
  by unfold_locales (simp_all add: sale_ok_empty sale_ok_step)

lemma sale_run_ok: "sale_ok cs0 db \<Longrightarrow> sale_ok cs0 (fst (run_machine sale_step db ops))"
  by (induction ops arbitrary: db) (simp_all add: split_beta Let_def sale_ok_step)

lemma sale_ok_start: "sale_ok [] db \<Longrightarrow> sale_ok (db_commands db) db"
  by (simp add: sale_ok_def commands_since_def list.rel_refl)

end
