(* ===== verification/Sale_Properties.thy ===== *)
theory Sale_Properties
  imports Sale_System
begin

text \<open>
  What runs of the whole sale guarantee: the books stay sound, commands follow their lifecycle and
  are never doubled, results that arrive late change nothing, the outbox of commands is durable
  and the timeout job leaves no overdue command behind.
\<close>

subsection \<open>Runs\<close>

lemma stock_ok_selling: "stock_ok selling_db" by (rule selling_ok)

lemma selling_sale_ok: "sale_ok [] selling_db"
proof -
  have "orders_sound selling_db" "movement_ids_unique selling_db"
      "no_conflict command_conflict (db_commands selling_db)"
      "distinct (map vc_id (db_commands selling_db))"
      "list_all (\<lambda>c. vc_id c < db_next selling_db) (db_commands selling_db)"
    by code_simp+
  then have "orders_sound selling_db" "movement_ids_unique selling_db" "commands_since [] selling_db"
    by (simp_all add: commands_since_def list_all_iff)
  moreover have "refunds_ok selling_db"
    by (simp add: refunds_ok_def selling_db_def stocked_db_def shop_db_def empty_db_def)
  ultimately show ?thesis by (simp add: sale_ok_def selling_ok)
qed

text \<open>Whatever the vending, inventory, movement and refund services are asked to do, in any
  order and with their phases interleaved, the books stay sound: every inventory row covers its
  active reservations, is not oversold and equals the balance of its ledger; every order's status
  is the projection of its payment and fulfilment state; order keys stay unique; no machine
  movement is stored twice.\<close>

theorem sale_runs_keep_books:
  assumes "sale_ok cs0 db" and "run_machine sale_step db ops = (db', answers)"
  shows "(\<forall>r\<in>set (db_inventories db').
      active_reserved (db_reservations db') (inv_id r) \<le> inv_reservedQty r \<and>
      0 \<le> inv_reservedQty r \<and> inv_reservedQty r \<le> inv_onHandQty r \<and>
      inv_onHandQty r = ledger_balance (db_movements db') (inv_id r)) \<and>
    (\<forall>x\<in>set (db_orders db'). o_status x = projectOrderStatus (o_paymentState x) (o_fulfillmentState x)) \<and>
    distinct (map o_id (db_orders db')) \<and> distinct (movement_keys db')"
proof -
  have "sale_ok cs0 db'" using sale_run_ok [OF assms(1), of ops] assms(2) by simp
  then show ?thesis using stock_ok_safe
    by (auto simp: sale_ok_def orders_sound_def orders_projected_def order_projected_def
        movement_ids_unique_def list_all_iff)
qed

definition selling_machine :: machine_row where
  "selling_machine = \<lparr>m_id = 1, m_code = ''M1'', m_status = MsOnline, m_lastSeenAt = Some 990,
     m_updatedAt = 0, m_deletedAt = None\<rparr>"

definition selling_ops :: "(env \<times> sale_op) list" where
  "selling_ops = [(shop_env, SoAck 1 26), (shop_env, SoReceive 1 ''M1'' selling_movement),
     (shop_env, SoResultTx selling_machine ''t'' \<lparr>dr_commandNo = ''CMD1'', dr_success = False,
        dr_errorCode = Some NO_DROP, dr_message = ''late'', dr_reportedAt = 990\<rparr> ''msg1''),
     (shop_env, SoCompensationTx 20 70 ''CMD1'' ''jammed'')]"

lemma command_row_kept:
  assumes ok: "sale_ok [] db" and run: "run_machine sale_step db ops = (db', answers)"
    and c: "find_command i db = Some c"
  shows "\<exists>c'. find_command i db' = Some c' \<and> command_reach c c'"
proof -
  have ok': "commands_since (db_commands db) db'"
    using sale_run_ok [OF sale_ok_start [OF ok], of ops] run by (simp add: sale_ok_def)
  have "c \<in> set (db_commands db)" and i: "vc_id c = i"
    using c find_SomeD [of "\<lambda>x. vc_id x = i" "db_commands db" c] by (simp_all add: find_command_def)
  then obtain n where n: "n < length (db_commands db)" "db_commands db ! n = c"
    by (auto simp: in_set_conv_nth)
  let ?c' = "db_commands db' ! n"
  have reach: "command_reach c ?c'"
    using ok' n list_all2_nthD [of command_reach "db_commands db"
        "take (length (db_commands db)) (db_commands db')" n]
    by (auto simp: commands_since_def)
  then have "vc_id ?c' = i" using i identity_fields(1) [of ?c' c] by (simp add: command_reach_def)
  moreover have "?c' \<in> set (db_commands db')" using ok' n by (simp add: commands_since_def)
  moreover have "distinct (map vc_id (db_commands db'))" using ok' by (simp add: commands_since_def)
  ultimately have "find_command i db' = Some ?c'"
    unfolding find_command_def by (metis (mono_tags, lifting) find_None_iff find_SomeD key_unique not_None_eq)
  with reach show ?thesis by blast
qed

lemma final_stays: "command_move\<^sup>*\<^sup>* s t \<Longrightarrow> s \<in> {VcSucceeded, VcFailed} \<Longrightarrow> t = s"
  by (induction rule: converse_rtranclp_induct) auto

text \<open>C24: no run of the sale loses a command, renames it or hands it to another order, machine,
  slot or line: its row is still there under its key; its status has changed along the lifecycle
  only, so that a command that has succeeded or failed keeps that status for ever.\<close>

theorem commands_follow_lifecycle:
  assumes "sale_ok [] db" and "run_machine sale_step db ops = (db', answers)"
    and "find_command i db = Some c"
  shows "\<exists>c'. find_command i db' = Some c' \<and> command_identity c' = command_identity c \<and>
    command_move\<^sup>*\<^sup>* (vc_status c) (vc_status c') \<and>
    (vc_status c \<in> {VcSucceeded, VcFailed} \<longrightarrow> vc_status c' = vc_status c)"
  using command_row_kept [OF assms] final_stays by (fastforce simp: command_reach_def)

theorem commands_follow_lifecycle_witness:
  "\<exists>c'. find_command 26 (fst (run_machine sale_step selling_db selling_ops)) = Some c' \<and>
     command_move\<^sup>*\<^sup>* VcAcknowledged (vc_status c')"
proof -
  have c: "find_command 26 selling_db = Some selling_command" by code_simp
  from commands_follow_lifecycle [OF selling_sale_ok prod.collapse [symmetric] c, of selling_ops]
  show ?thesis by (auto simp: selling_command_def)
qed

text \<open>C25: a machine is never told twice to dispense the same goods under two commands: after any
  run, two different commands have different numbers, two dispatch commands are for different
  orders or slots, and a recovery action has at most one compensation command.\<close>

theorem no_double_commands:
  assumes "sale_ok [] db" and "run_machine sale_step db ops = (db', answers)"
    and "c \<in> set (db_commands db')" and "c' \<in> set (db_commands db')" and "c \<noteq> c'"
  shows "vc_commandNo c \<noteq> vc_commandNo c' \<and>
    \<not> (vc_commandKind c = Dispatch \<and> vc_commandKind c' = Dispatch \<and>
       vc_orderId c = vc_orderId c' \<and> vc_slotId c = vc_slotId c') \<and>
    \<not> (vc_recoveryActionId c \<noteq> None \<and> vc_recoveryActionId c = vc_recoveryActionId c')"
proof -
  have "no_conflict command_conflict (db_commands db')"
    using sale_run_ok [OF assms(1), of ops] assms(2) by (simp add: sale_ok_def commands_since_def)
  moreover have "\<not> command_conflict c c'" if "no_conflict command_conflict cs" "c \<in> set cs" "c' \<in> set cs"
    for cs using that assms(5) command_conflict_sym by (induction cs) (auto simp: list_ex_iff)
  ultimately show ?thesis using assms(3,4) by (auto simp: command_conflict_def)
qed

theorem no_double_commands_witness:
  "let cs = db_commands (fst (run_machine sale_step selling_db selling_ops))
   in length cs = 2 \<and> vc_commandNo (cs ! 0) \<noteq> vc_commandNo (cs ! 1)"
proof -
  have len: "length (db_commands (fst (run_machine sale_step selling_db selling_ops))) = 2"
    and diff: "vc_status (db_commands (fst (run_machine sale_step selling_db selling_ops)) ! 0) \<noteq>
      vc_status (db_commands (fst (run_machine sale_step selling_db selling_ops)) ! 1)"
    by code_simp+
  from diff have "db_commands (fst (run_machine sale_step selling_db selling_ops)) ! 0 \<noteq>
      db_commands (fst (run_machine sale_step selling_db selling_ops)) ! 1" by metis
  from no_double_commands [OF selling_sale_ok prod.collapse [symmetric] nth_mem nth_mem this]
    len show ?thesis by (simp add: Let_def)
qed


subsection \<open>The outbox of commands\<close>

definition outside_commands :: "db \<Rightarrow> db" where
  "outside_commands db = db\<lparr>db_commands := [], db_next := 0\<rparr>"

lemma outside_commands_tables:
  assumes "outside_commands db' = outside_commands db"
  shows "db_orders db' = db_orders db" and "db_machines db' = db_machines db"
  using arg_cong [OF assms, of db_orders] arg_cong [OF assms, of db_machines]
  by (simp_all add: outside_commands_def)

lemma create_line_outbox:
  assumes "create_line_command e ord item (created, db) = Inr (created', db')"
    and "dispatch_commands (o_id ord) db = created"
  shows "dispatch_commands (o_id ord) db' = created' \<and> outside_commands db' = outside_commands db"
  using assms by (auto simp: create_line_command_def bindR_eq_Inr Let_def dispatch_commands_def
      insert_or_ignore_def new_command_def outside_commands_def split: prod.splits if_splits option.splits)

lemma create_lines_outbox:
  assumes run: "foldR (create_line_command e ord) items ([], db) = Inr (created, db')"
    and none: "dispatch_commands (o_id ord) db = []"
  shows "dispatch_commands (o_id ord) db' = created \<and> outside_commands db' = outside_commands db"
proof -
  have "(\<lambda>s. dispatch_commands (o_id ord) (snd s) = fst s \<and>
      outside_commands (snd s) = outside_commands db) (created, db')"
  proof (rule foldR_invariant [OF run])
    show "dispatch_commands (o_id ord) (snd ([], db)) = fst ([], db) \<and>
        outside_commands (snd ([], db)) = outside_commands db" using none by simp
  next
    fix x and s s' :: "command_row list \<times> db"
    assume "dispatch_commands (o_id ord) (snd s) = fst s \<and> outside_commands (snd s) = outside_commands db"
      and "create_line_command e ord x s = Inr s'"
    then show "dispatch_commands (o_id ord) (snd s') = fst s' \<and>
        outside_commands (snd s') = outside_commands db"
      using create_line_outbox [of e ord x "fst s" "snd s" "fst s'" "snd s'"] by simp
  qed
  then show ?thesis by simp
qed

text \<open>The commands of an order are created once. After a call that returned commands, every
  further call returns the same commands and changes nothing, so a webhook that is delivered again
  or a job that runs again cannot make the machine dispense the order a second time.\<close>

theorem commands_created_once:
  assumes "createPendingDispatchCommands e ord db = Inr (cs, db1)" and "cs \<noteq> []"
  shows "createPendingDispatchCommands e2 ord db1 = Inr (cs, db1)"
proof -
  obtain x where x: "find_order ord db = Some x"
    and locks: "lockMachineForVendingMutation (o_machineId x) db = Inr ()"
      "lockOrderForVendingMutation ord db = Inr ()"
    using assms(1) by (auto simp: createPendingDispatchCommands_def bindR_eq_Inr split: option.splits)
  have id: "o_id x = ord"
    using x find_SomeD [of "\<lambda>r. o_id r = ord" "db_orders db" x] by (simp add: find_order_def)
  have "dispatch_commands ord db1 = cs \<and> outside_commands db1 = outside_commands db"
  proof (cases "dispatch_commands ord db = []")
    case False
    then show ?thesis using assms(1) x locks by (auto simp: createPendingDispatchCommands_def)
  next
    case True
    then have "\<exists>created. foldR (create_line_command e x) (lines_with_slots ord db) ([], db)
          = Inr (created, db1) \<and>
        cs = (if length created = length (lines_with_slots ord db) then created
          else dispatch_commands ord db1)"
      using assms(1) x locks
      by (auto simp: createPendingDispatchCommands_def bindR_eq_Inr Let_def)
    then obtain created where fold: "foldR (create_line_command e x) (lines_with_slots ord db) ([], db)
          = Inr (created, db1)"
      and cs: "cs = (if length created = length (lines_with_slots ord db) then created
          else dispatch_commands ord db1)" by blast
    show ?thesis using create_lines_outbox [OF fold] True cs by (auto simp: id)
  qed
  then show ?thesis using x locks assms(2) outside_commands_tables [of db1 db]
    by (auto simp: createPendingDispatchCommands_def find_order_def lockMachineForVendingMutation_def
        lockOrderForVendingMutation_def)
qed


definition unsent_db :: db where
  "unsent_db = selling_db\<lparr>db_commands := []\<rparr>"

theorem commands_created_once_witness:
  "\<exists>cs db1. createPendingDispatchCommands shop_env 20 unsent_db = Inr (cs, db1) \<and> length cs = 1 \<and>
     createPendingDispatchCommands shop_env 20 db1 = Inr (cs, db1)"
proof -
  have "case createPendingDispatchCommands shop_env 20 unsent_db of Inr (cs, db1) \<Rightarrow> length cs = 1 | _ \<Rightarrow> False"
    by code_simp
  then obtain cs db1 where run: "createPendingDispatchCommands shop_env 20 unsent_db = Inr (cs, db1)"
      and len: "length cs = 1"
    by (auto split: sum.splits)
  from len have "cs \<noteq> []" by auto
  from commands_created_once [OF run this, of shop_env] run len show ?thesis by blast
qed

subsection \<open>Overdue commands\<close>

lemma order_to_manual_rows [simp]:
  "db_machines (order_to_manual e c db) = db_machines db"
  "map o_id (db_orders (order_to_manual e c db)) = map o_id (db_orders db)"
  by (simp_all add: order_to_manual_def Let_def upd_defs map_upd_where split: option.split)

lemma lock_order_ids:
  "map o_id (db_orders db') = map o_id (db_orders db) \<Longrightarrow>
   lockOrderForVendingMutation i db' = lockOrderForVendingMutation i db"
proof -
  have *: "count_where (\<lambda>r. o_id r = i) rows = count_where (\<lambda>k. k = i) (map o_id rows)" for rows
    by (simp add: count_where_def filter_map o_def)
  assume "map o_id (db_orders db') = map o_id (db_orders db)"
  then show ?thesis by (simp only: lockOrderForVendingMutation_def *)
qed

definition lose_command :: "env \<Rightarrow> string \<Rightarrow> ms \<Rightarrow> command_row \<Rightarrow> command_row" where
  "lose_command e message resultAt c = c\<lparr>vc_status := VcResultUnknown, vc_resultAt := Some resultAt,
     vc_lastError := Some message, vc_updatedAt := e_now e\<rparr>"

lemma mark_unknown_runs:
  assumes "lockMachineForVendingMutation (vc_machineId c) db = Inr ()"
    and "lockOrderForVendingMutation (vc_orderId c) db = Inr ()"
  shows "\<exists>db'. markDispenseResultUnknown e c msg t st db =
      Inr (list_ex (\<lambda>x. vc_id x = vc_id c \<and> vc_status x \<in> st) (db_commands db), db') \<and>
    db_commands db' = upd_where (\<lambda>x. vc_id x = vc_id c \<and> vc_status x \<in> st) (lose_command e msg t)
      (db_commands db) \<and>
    db_machines db' = db_machines db \<and> map o_id (db_orders db') = map o_id (db_orders db)"
proof (cases "list_ex (\<lambda>x. vc_id x = vc_id c \<and> vc_status x \<in> st) (db_commands db)")
  case False
  then show ?thesis using assms
    by (auto simp: markDispenseResultUnknown_def list_ex_iff intro!: upd_where_none [symmetric])
next
  case True
  then show ?thesis using assms
    by (simp add: markDispenseResultUnknown_def Let_def createDispenseFailedNotification_def
        insert_notification_def fault_slot_def upd_commands_def lose_command_def [abs_def])
qed


text \<open>The tasks of the timeout job, one after another, on commands that are all still open.\<close>

abbreviation in_flight :: "vending_command_status set" where
  "in_flight \<equiv> {VcSent, VcAcknowledged}"

lemma timeout_tasks:
  assumes "\<And>c. c \<in> set cs \<Longrightarrow> c \<in> set (db_commands db) \<and> vc_status c \<in> in_flight \<and>
      lockMachineForVendingMutation (vc_machineId c) db = Inr () \<and>
      lockOrderForVendingMutation (vc_orderId c) db = Inr ()"
    and "distinct (map vc_id cs)"
  shows "\<exists>db'. promise_all (\<lambda>c. atomic (markDispenseResultUnknown e c msg t in_flight)) cs db =
      (db', Inr (replicate (length cs) True)) \<and>
    db_commands db' = upd_where (\<lambda>x. vc_id x \<in> vc_id ` set cs \<and> vc_status x \<in> in_flight)
      (lose_command e msg t) (db_commands db)"
  using assms
proof (induction cs arbitrary: db)
  case Nil
  then show ?case by (simp add: upd_where_none)
next
  case (Cons c cs)
  let ?p = "\<lambda>c x. vc_id x = vc_id c \<and> vc_status x \<in> in_flight"
  have c: "c \<in> set (db_commands db)" "vc_status c \<in> in_flight"
    and locks: "lockMachineForVendingMutation (vc_machineId c) db = Inr ()"
      "lockOrderForVendingMutation (vc_orderId c) db = Inr ()"
    using Cons.prems(1) by auto
  then have open': "list_ex (?p c) (db_commands db)" by (auto simp: list_ex_iff)
  obtain db1 where run: "markDispenseResultUnknown e c msg t in_flight db = Inr (True, db1)"
    and rows: "db_commands db1 = upd_where (?p c) (lose_command e msg t) (db_commands db)"
    and same: "db_machines db1 = db_machines db" "map o_id (db_orders db1) = map o_id (db_orders db)"
    using mark_unknown_runs [OF locks, of e msg t in_flight] open' by auto
  have "d \<in> set (db_commands db1) \<and> vc_status d \<in> in_flight \<and>
      lockMachineForVendingMutation (vc_machineId d) db1 = Inr () \<and>
      lockOrderForVendingMutation (vc_orderId d) db1 = Inr ()" if d: "d \<in> set cs" for d
  proof -
    have "vc_id c \<notin> vc_id ` set cs" using Cons.prems(2) by simp
    then have "vc_id d \<noteq> vc_id c" using d by (metis imageI)
    then have "d \<in> set (db_commands db1)"
      using Cons.prems(1) [of d] d by (force simp: rows set_upd_where)
    then show ?thesis using Cons.prems(1) [of d] d lock_order_ids [OF same(2)]
      by (simp add: lockMachineForVendingMutation_def same(1))
  qed
  from Cons.IH [OF this] Cons.prems(2) obtain db' where
    tasks: "promise_all (\<lambda>c. atomic (markDispenseResultUnknown e c msg t in_flight)) cs db1 =
      (db', Inr (replicate (length cs) True))"
    and rows': "db_commands db' = upd_where (\<lambda>x. vc_id x \<in> vc_id ` set cs \<and> vc_status x \<in> in_flight)
      (lose_command e msg t) (db_commands db1)" by auto
  have "db_commands db' = upd_where (\<lambda>x. vc_id x \<in> vc_id ` set (c # cs) \<and> vc_status x \<in> in_flight)
      (lose_command e msg t) (db_commands db)"
    by (auto simp: rows' rows upd_where_def lose_command_def)
  moreover have "atomic (markDispenseResultUnknown e c msg t in_flight) db = (db1, Inr True)"
    by (simp add: atomic_def run)
  ultimately show ?case using tasks by auto
qed

text \<open>C27: the timeout job terminates with nothing left overdue: when the machines and orders of the
  commands in flight exist and their payloads parse, a run at \<open>now\<close> returns the number of overdue
  commands, marks exactly these as having an unknown result, and afterwards no command in flight
  is past its deadline.\<close>

theorem timeout_job_completes:
  assumes "distinct (map vc_id (db_commands db))"
    and "\<forall>c\<in>set (db_commands db). vc_status c \<in> in_flight \<longrightarrow>
      dispenseCommandPayloadSchema (vc_payloadJson c) \<noteq> Inl ZodError \<and>
      lockMachineForVendingMutation (vc_machineId c) db = Inr () \<and>
      lockOrderForVendingMutation (vc_orderId c) db = Inr ()"
  shows "\<exists>db'. markTimedOutCommands e now db = (db', Inr (count_where
      (\<lambda>c. vc_status c \<in> in_flight \<and> timed_out now c) (db_commands db))) \<and>
    db_commands db' = map (\<lambda>c. if vc_status c \<in> in_flight \<and> timed_out now c
      then c\<lparr>vc_status := VcResultUnknown, vc_resultAt := Some now,
        vc_lastError := Some ''dispense result unknown after command timeout'', vc_updatedAt := e_now e\<rparr>
      else c) (db_commands db) \<and>
    (\<forall>c\<in>set (db_commands db'). \<not> (vc_status c \<in> in_flight \<and> timed_out now c))"
proof -
  let ?cs = "filter (timed_out now) (filter (\<lambda>c. vc_status c \<in> in_flight) (db_commands db))"
  let ?msg = "''dispense result unknown after command timeout''"
  have parse: "\<not> list_ex (\<lambda>c. isl (dispenseCommandPayloadSchema (vc_payloadJson c)))
      (filter (\<lambda>c. vc_status c \<in> in_flight) (db_commands db))"
  proof -
    have "isl (dispenseCommandPayloadSchema p) \<Longrightarrow> dispenseCommandPayloadSchema p = Inl ZodError" for p
      by (simp add: dispenseCommandPayloadSchema_def Let_def split: if_splits)
    then show ?thesis using assms(2) by (fastforce simp: list_ex_iff)
  qed
  have "distinct (map vc_id ?cs)" using assms(1) by (simp add: distinct_map_filter)
  then obtain db' where
    tasks: "promise_all (\<lambda>c. atomic (markDispenseResultUnknown e c ?msg now in_flight)) ?cs db =
      (db', Inr (replicate (length ?cs) True))"
    and rows: "db_commands db' = upd_where (\<lambda>x. vc_id x \<in> vc_id ` set ?cs \<and> vc_status x \<in> in_flight)
      (lose_command e ?msg now) (db_commands db)"
    using timeout_tasks [of ?cs db e ?msg now] assms(2) by auto
  have n: "count_where (\<lambda>changed. changed) (replicate (length ?cs) True) =
      count_where (\<lambda>c. vc_status c \<in> in_flight \<and> timed_out now c) (db_commands db)"
    by (simp add: count_where_def conj_commute)
  have exact: "(vc_id x \<in> vc_id ` set ?cs \<and> vc_status x \<in> in_flight) =
      (vc_status x \<in> in_flight \<and> timed_out now x)" if "x \<in> set (db_commands db)" for x
    using that key_unique [OF assms(1) that] by auto
  have map: "db_commands db' = map (\<lambda>c. if vc_status c \<in> in_flight \<and> timed_out now c
      then lose_command e ?msg now c else c) (db_commands db)"
    unfolding rows upd_where_def by (rule map_cong [OF refl]) (simp only: exact)
  then have "\<forall>c\<in>set (db_commands db'). \<not> (vc_status c \<in> in_flight \<and> timed_out now c)"
    by (auto simp: lose_command_def)
  moreover have "markTimedOutCommands e now db = (db', Inr (count_where
      (\<lambda>c. vc_status c \<in> in_flight \<and> timed_out now c) (db_commands db)))"
    using parse by (simp only: markTimedOutCommands_def Let_def if_False tasks bindS_def n prod.case sum.case)
  ultimately show ?thesis using map unfolding lose_command_def by blast
qed


theorem timeout_job_completes_witness:
  "\<exists>db'. markTimedOutCommands shop_env 999999 selling_db = (db', Inr 1)"
proof -
  have hyp: "\<forall>c\<in>set (db_commands selling_db). vc_status c \<in> in_flight \<longrightarrow>
      dispenseCommandPayloadSchema (vc_payloadJson c) \<noteq> Inl ZodError \<and>
      lockMachineForVendingMutation (vc_machineId c) selling_db = Inr () \<and>
      lockOrderForVendingMutation (vc_orderId c) selling_db = Inr ()"
  proof -
    have "list_all (\<lambda>c. dispenseCommandPayloadSchema (vc_payloadJson c) = Inr (vc_payloadJson c) \<and>
      lockMachineForVendingMutation (vc_machineId c) selling_db = Inr () \<and>
      lockOrderForVendingMutation (vc_orderId c) selling_db = Inr ()) (db_commands selling_db)"
      by code_simp
    then show ?thesis by (auto simp: list_all_iff)
  qed
  have dist: "distinct (map vc_id (db_commands selling_db))"
    and one: "count_where (\<lambda>c. vc_status c \<in> in_flight \<and> timed_out 999999 c) (db_commands selling_db) = 1"
    by code_simp+
  from timeout_job_completes [OF dist hyp, of shop_env 999999] show ?thesis unfolding one by blast
qed


subsection \<open>Results that arrive late\<close>

text \<open>A dispense result for a command that has already succeeded or failed (a redelivery, or a
  contradicting late report) moves nothing: commands, stock, reservations, ledger, slots, order
  lines and stored movements are exactly as before. Only the inbox may record the message, and
  refunds that were pending anyway may be dispatched.\<close>

theorem late_results_change_nothing:
  assumes "find_machine_by_code code db = Some machine"
    and "\<forall>c\<in>set (db_commands db). vc_commandNo c = dr_commandNo payload \<and>
      vc_machineId c = m_id machine \<longrightarrow> vc_status c \<in> {VcSucceeded, VcFailed}"
    and "handleDispenseResult e code topic (Some (payload, messageId)) db = (db', answer)"
  shows "db_commands db' = db_commands db \<and> db_inventories db' = db_inventories db \<and>
    db_reservations db' = db_reservations db \<and> db_movements db' = db_movements db \<and>
    db_slots db' = db_slots db \<and> map line_of (db_orderItems db') = map line_of (db_orderItems db) \<and>
    db_rawMovements db' = db_rawMovements db"
proof -
  let ?recorded = "insertDispenseResultInboxEvent (m_id machine) payload topic messageId db"
  let ?tx = "dispense_result_tx e machine topic payload messageId db"
  have tx: "d = ?recorded \<and> cx \<in> {NothingToDo, RefundRecovery}" if "?tx = Inr (cx, d)" for cx d
  proof (cases "[(c, x). c \<leftarrow> db_commands db, x \<leftarrow> db_orders db, o_id x = vc_orderId c \<and>
      vc_commandNo c = dr_commandNo payload \<and> vc_machineId c = m_id machine]")
    case Nil
    show ?thesis using that unfolding dispense_result_tx_def Let_def Nil
      by (auto simp: bindR_eq_Inr)
  next
    case (Cons cx' rest)
    obtain c x where cx': "cx' = (c, x)" by (cases cx')
    have "(c, x) \<in> set [(c, x). c \<leftarrow> db_commands db, x \<leftarrow> db_orders db, o_id x = vc_orderId c \<and>
      vc_commandNo c = dr_commandNo payload \<and> vc_machineId c = m_id machine]"
      unfolding Cons cx' by simp
    then have "vc_status c \<in> {VcSucceeded, VcFailed}" using assms(2) by auto
    then show ?thesis using that unfolding dispense_result_tx_def Let_def Cons cx'
      by (auto simp: bindR_eq_Inr split: if_splits)
  qed
  have frame: "refund_frame ?recorded (fst (dispatchPendingRefunds e 20 (e_now e) ?recorded))"
    by (rule dispatchPending_tables)
  have "db' = db \<or> refund_frame ?recorded db'"
    using assms(1,3) tx frame
    by (auto simp: handleDispenseResult_def atomic_def bindS_def split: if_splits sum.splits prod.splits)
  then show ?thesis
    by (auto simp: refund_frame_def sale_tables_def insertDispenseResultInboxEvent_def)
qed

definition finished_db :: db where
  "finished_db = selling_db\<lparr>db_commands := [selling_command\<lparr>vc_status := VcSucceeded\<rparr>]\<rparr>"

definition late_failure :: dispense_result where
  "late_failure = \<lparr>dr_commandNo = ''CMD1'', dr_success = False, dr_errorCode = Some NO_DROP,
     dr_message = ''late'', dr_reportedAt = 990\<rparr>"

theorem late_results_change_nothing_witness:
  "db_inventories (fst (handleDispenseResult shop_env ''M1'' ''t'' (Some (late_failure, ''m1''))
     finished_db)) = db_inventories finished_db"
proof -
  have mac: "find_machine_by_code ''M1'' finished_db = Some selling_machine" by code_simp
  have final: "\<forall>c\<in>set (db_commands finished_db). vc_commandNo c = dr_commandNo late_failure \<and>
      vc_machineId c = m_id selling_machine \<longrightarrow> vc_status c \<in> {VcSucceeded, VcFailed}"
    by (simp add: finished_db_def)
  from late_results_change_nothing [OF mac final prod.collapse [symmetric], of shop_env "''t''" "''m1''"]
  show ?thesis by blast
qed


subsection \<open>Two computations of the fulfilment state\<close>

lemma count_where_all: "count_where p xs = length xs \<longleftrightarrow> (\<forall>x\<in>set xs. p x)"
  by (simp add: count_where_def) (metis filter_id_conv length_filter_less less_irrefl)

lemma count_where_pos: "0 < count_where p xs \<longleftrightarrow> (\<exists>x\<in>set xs. p x)"
  using count_where_zero [of p xs] by (cases "count_where p xs") auto

text \<open>C28: the movement repository and the command service compute an order's fulfilment state from
  its lines with two different functions. They agree on every order except one shape, where some
  lines failed, none was dispensed or handed to manual work, and some are still open: the first
  then says the dispense has failed, the second that it is still going on.\<close>

theorem fulfillment_computations_agree:
  "lines_fulfillment sts \<noteq> command_lines_fulfillment sts \<longleftrightarrow>
     LfDispenseFailed \<in> set sts \<and> LfManualHandling \<notin> set sts \<and> LfDispensed \<notin> set sts \<and>
     set sts \<noteq> {LfDispenseFailed}"
proof -
  have set: "(\<forall>x\<in>set sts. x = s) \<longleftrightarrow> set sts = {} \<or> set sts = {s}" for s by (cases sts) auto
  show ?thesis
    by (simp add: lines_fulfillment_def command_lines_fulfillment_def Let_def count_where_all
        count_where_pos list_ex_iff set, blast?)
qed



subsection \<open>Failed dispenses\<close>

lemma update_inventories_items: "update_inventories p f db = Inr (n, db') \<Longrightarrow> db_orderItems db' = db_orderItems db"
  by (auto dest: update_inventories_InrD)

lemma release_items:
  "releaseReservation e ord item i q why db = Inr db' \<Longrightarrow> db_orderItems db' = db_orderItems db"
  by (auto simp: releaseReservation_def bindR_eq_Inr Let_def set_reservation_status_def
      insert_movement_def split: if_splits option.splits dest!: update_inventories_items)

lemma release_affected_items:
  assumes "releaseAffectedReservationForDispenseFailure e ord item s err db = Inr (c, db')"
  shows "db_orderItems db' = db_orderItems db"
proof -
  obtain db1 where fold: "foldR (\<lambda>row. releaseReservation e ord item (oi_inventoryId row)
        (oi_quantity row) ''dispense_failed'') (filter (affected_line ord item s) (db_orderItems db)) db
      = Inr db1"
    and db': "db_orderItems db' = db_orderItems db1"
    using assms by (auto simp: releaseAffectedReservationForDispenseFailure_def bindR_eq_Inr Let_def
        fault_slot_def split: if_splits)
  have "db_orderItems db1 = db_orderItems db"
    using fold by (rule foldR_invariant [where I = "\<lambda>d. db_orderItems d = db_orderItems db"])
      (simp_all add: release_items)
  then show ?thesis by (simp add: db')
qed

lemma sync_command_lines_items [simp]:
  "db_orderItems (sync_command_lines e ord why meta db) = db_orderItems db"
  by (simp add: sync_command_lines_def Let_def upd_orders_def log_status_def split: option.split)

text \<open>The lines and the refund that follow from a failure, as one reads them from the table.\<close>

definition fail_line :: "env \<Rightarrow> order_item_row \<Rightarrow> order_item_row" where
  "fail_line e oi = oi\<lparr>oi_fulfillmentStatus := LfDispenseFailed, oi_refundStatus := LrPending,
     oi_failedAt := Some (e_now e), oi_refundUpdatedAt := Some (e_now e)\<rparr>"

lemma stage_failed_tables: "stageFailedLineRefund e d db = Inr db' \<Longrightarrow> refund_frame db db'"
  by (cases d) (auto intro: stageFull_tables stagePartial_tables)

lemma work_order_rows:
  "createWorkOrder e m s ord c ti de pr key db = Inr db' \<Longrightarrow>
   db_commands db' = db_commands db \<and> db_orderItems db' = db_orderItems db"
  by (auto simp: createWorkOrder_def Let_def split: if_splits)


text \<open>The refund that the lines of an order call for.\<close>

definition failure_decision :: "uuid \<Rightarrow> metadata \<Rightarrow> order_item_row list \<Rightarrow> refund_kind" where
  "failure_decision ord meta rows =
     (let failed = filter (\<lambda>l. oi_fulfillmentStatus l = LfDispenseFailed) rows;
          dispensed = filter (\<lambda>l. oi_fulfillmentStatus l = LfDispensed) rows in
      if list_ex (\<lambda>l. oi_fulfillmentStatus l = LfPending \<or> oi_fulfillmentStatus l = LfDispensing) rows
      then NoRefund
      else if length failed = length rows then FullRefund ord meta
      else if failed \<noteq> [] \<and> dispensed \<noteq> []
        then PartialRefund ord (map oi_id failed)
          (sum_list (map (\<lambda>l. oi_unitPriceCents l * oi_quantity l) failed)) meta
      else NoRefund)"

lemma mark_failed_items:
  assumes "markOrderLinesFailedAndBuildRefundDecision e ord item s why meta db = (d, db')"
  shows "db_orderItems db' = upd_where (\<lambda>oi. oi_id oi \<in> oi_id ` set (filter (affected_line ord item s)
      (db_orderItems db))) (fail_line e) (db_orderItems db)"
    and "db_commands db' = db_commands db"
    and "list_ex (affected_line ord item s) (db_orderItems db) \<Longrightarrow>
      d = failure_decision ord meta (order_lines ord db')"
proof -
  let ?none = "map oi_id (filter (affected_line ord item s) (db_orderItems db)) = []"
  have none: "?none \<longleftrightarrow> \<not> list_ex (affected_line ord item s) (db_orderItems db)"
    by (auto simp: list_ex_iff filter_empty_conv)
  have f: "(\<lambda>oi. oi\<lparr>oi_fulfillmentStatus := LfDispenseFailed, oi_refundStatus := LrPending,
      oi_failedAt := Some (e_now e), oi_refundUpdatedAt := Some (e_now e)\<rparr>) = fail_line e"
    by (simp add: fun_eq_iff fail_line_def)
  show "db_orderItems db' = upd_where (\<lambda>oi. oi_id oi \<in> oi_id ` set (filter (affected_line ord item s)
      (db_orderItems db))) (fail_line e) (db_orderItems db)" "db_commands db' = db_commands db"
    using assms none
    by (auto simp: markOrderLinesFailedAndBuildRefundDecision_def Let_def f upd_items_def list_ex_iff
        intro!: upd_where_none [symmetric] split: if_splits)
  show "d = failure_decision ord meta (order_lines ord db')"
    if "list_ex (affected_line ord item s) (db_orderItems db)"
  proof -
    have "\<not> ?none" using that none by blast
    then show ?thesis using assms
      unfolding markOrderLinesFailedAndBuildRefundDecision_def failure_decision_def Let_def
      by (simp only: if_False prod.inject) (elim conjE, hypsubst, rule refl)
  qed
qed


lemma line_statuses:
  assumes "map line_of (db_orderItems a) = map line_of (db_orderItems b)"
  shows "map oi_fulfillmentStatus (order_lines ord a) = map oi_fulfillmentStatus (order_lines ord b)"
proof -
  have *: "map oi_fulfillmentStatus (order_lines ord d) =
      map (snd \<circ> snd) (filter (\<lambda>l. fst (snd l) = ord) (map line_of (db_orderItems d)))" for d
    by (simp add: order_lines_def filter_map o_def line_of_def)
  show ?thesis unfolding * assms ..
qed

lemma failure_decision_statuses:
  assumes "map oi_fulfillmentStatus rows = sts" and "LfDispenseFailed \<in> set sts"
  shows "if LfPending \<in> set sts \<or> LfDispensing \<in> set sts then failure_decision ord meta rows = NoRefund
    else if set sts = {LfDispenseFailed} then failure_decision ord meta rows = FullRefund ord meta
    else if LfDispensed \<in> set sts then \<exists>ids amount. failure_decision ord meta rows = PartialRefund ord ids amount meta
    else failure_decision ord meta rows = NoRefund"
proof -
  let ?st = "oi_fulfillmentStatus"
  have ex: "list_ex (\<lambda>l. ?st l = LfPending \<or> ?st l = LfDispensing) rows \<longleftrightarrow>
      LfPending \<in> set sts \<or> LfDispensing \<in> set sts"
    unfolding assms(1) [symmetric] by (simp add: list_ex_iff image_iff) metis
  have nonempty: "filter (\<lambda>l. ?st l = s) rows \<noteq> [] \<longleftrightarrow> s \<in> set sts" for s
    using assms(1) by (auto simp: filter_empty_conv)
  have all: "length (filter (\<lambda>l. ?st l = LfDispenseFailed) rows) = length rows \<longleftrightarrow>
      set sts = {LfDispenseFailed}"
  proof -
    have "length (filter (\<lambda>l. ?st l = LfDispenseFailed) rows) = length rows \<longleftrightarrow>
        (\<forall>l\<in>set rows. ?st l = LfDispenseFailed)"
      using count_where_all [of "\<lambda>l. ?st l = LfDispenseFailed" rows] by (simp add: count_where_def)
    also have "\<dots> \<longleftrightarrow> set sts \<subseteq> {LfDispenseFailed}" unfolding assms(1) [symmetric] by auto
    finally show ?thesis using assms(2) by blast
  qed
  show ?thesis
    by (simp only: failure_decision_def Let_def ex all nonempty) (simp add: assms(2))
qed

text \<open>The phases of the transaction for a command that is still open.\<close>

abbreviation open_command :: "command_row \<Rightarrow> command_row \<Rightarrow> bool" where
  "open_command c \<equiv> \<lambda>x. vc_id x = vc_id c \<and>
     vc_status x \<in> {VcPending, VcSent, VcAcknowledged, VcResultUnknown, VcTimeout}"

lemma dispense_failure_phases:
  assumes "apply_dispense_failure e mid c payload db = Inr (ctx, db')"
    and "list_ex (open_command c) (db_commands db)"
  obtains comp db1 meta d db2 db3 where
    "releaseAffectedReservationForDispenseFailure e (vc_orderId c) (vc_orderItemId c) (vc_slotId c)
       (dr_errorCode payload) (upd_commands (open_command c) (fail_command e (dr_message payload)) db)
     = Inr (comp, db1)"
    "markOrderLinesFailedAndBuildRefundDecision e (vc_orderId c) (vc_orderItemId c) (vc_slotId c)
       ''dispense_failed'' meta db1 = (d, db2)"
    "stageFailedLineRefund e d db2 = Inr db3" "ctx = Failure d"
    "db_commands db' = db_commands db3" "db_orderItems db' = db_orderItems db3"
proof -
  let ?lines = "\<lambda>meta. markOrderLinesFailedAndBuildRefundDecision e (vc_orderId c) (vc_orderItemId c)
      (vc_slotId c) ''dispense_failed'' meta"
  have open': "\<not> \<not> list_ex (open_command c) (db_commands db)" using assms(2) by simp
  from assms(1) open' obtain comp db1 meta db3 where
    rel: "releaseAffectedReservationForDispenseFailure e (vc_orderId c) (vc_orderItemId c) (vc_slotId c)
        (dr_errorCode payload) (upd_commands (open_command c) (fail_command e (dr_message payload)) db)
      = Inr (comp, db1)"
    and stage: "stageFailedLineRefund e (fst (?lines meta db1)) (snd (?lines meta db1)) = Inr db3"
    and order: "(if slotFaulted comp then createWorkOrder e (Some mid) (Some (vc_slotId c))
             (Some (vc_orderId c)) (Some (vc_id c)) (TitleWorkOrderDispenseFailed (dr_errorCode payload))
             (dr_message payload) (Some WpHigh) (KeyDispenseFailed (vc_id c))
             (createDispenseFailedNotification e (vc_orderId c) (vc_id c) (dr_message payload) db3)
        else Inr (createDispenseFailedNotification e (vc_orderId c) (vc_id c) (dr_message payload) db3))
      = Inr db'"
    and ctx: "ctx = Failure (fst (?lines meta db1))"
    unfolding apply_dispense_failure_def Let_def split_beta
    by (fastforce simp: bindR_eq_Inr split: if_split_asm)
  have "db_commands db' = db_commands db3" "db_orderItems db' = db_orderItems db3"
    using order by (auto simp: createDispenseFailedNotification_def insert_notification_def
        split: if_splits dest!: work_order_rows)
  with that [OF rel prod.collapse [symmetric] stage ctx] show thesis by blast
qed

text \<open>C26: when a machine reports that a dispense has failed, the transaction fails the command and
  the affected lines (and touches no other command or line's fulfilment), and decides the refund
  from what became of the whole order: none while lines are open, all of the order when every
  line has failed, the failed lines when others were dispensed.\<close>

theorem failed_dispense_settles:
  assumes "apply_dispense_failure e mid c payload db = Inr (ctx, db')"
    and "list_ex (\<lambda>x. vc_id x = vc_id c \<and> vc_status x \<notin> {VcSucceeded, VcFailed}) (db_commands db)"
    and "list_ex (affected_line (vc_orderId c) (vc_orderItemId c) (vc_slotId c)) (db_orderItems db)"
  shows "db_commands db' = map (\<lambda>x. if vc_id x = vc_id c \<and> vc_status x \<notin> {VcSucceeded, VcFailed}
      then x\<lparr>vc_status := VcFailed, vc_resultAt := Some (e_now e),
        vc_lastError := Some (dr_message payload), vc_updatedAt := e_now e\<rparr> else x) (db_commands db) \<and>
    map line_of (db_orderItems db') = map (\<lambda>oi. if oi_id oi \<in> oi_id ` set (filter (affected_line
        (vc_orderId c) (vc_orderItemId c) (vc_slotId c)) (db_orderItems db))
      then (oi_id oi, oi_orderId oi, LfDispenseFailed) else line_of oi) (db_orderItems db) \<and>
    (let sts = map oi_fulfillmentStatus (order_lines (vc_orderId c) db') in
     if LfPending \<in> set sts \<or> LfDispensing \<in> set sts then ctx = Failure NoRefund
     else if set sts = {LfDispenseFailed} then \<exists>meta. ctx = Failure (FullRefund (vc_orderId c) meta)
     else if LfDispensed \<in> set sts
       then \<exists>ids amount meta. ctx = Failure (PartialRefund (vc_orderId c) ids amount meta)
     else ctx = Failure NoRefund)"
proof -
  let ?ord = "vc_orderId c" and ?line = "affected_line (vc_orderId c) (vc_orderItemId c) (vc_slotId c)"
  let ?claim = "open_command c"
  have claim: "?claim x \<longleftrightarrow> vc_id x = vc_id c \<and> vc_status x \<notin> {VcSucceeded, VcFailed}" for x
    by (cases "vc_status x") auto
  have "list_ex ?claim (db_commands db)" using assms(2) by (simp only: claim)
  from dispense_failure_phases [OF assms(1) this] obtain comp db1 meta d db2 db3 where
    rel: "releaseAffectedReservationForDispenseFailure e ?ord (vc_orderItemId c) (vc_slotId c)
        (dr_errorCode payload) (upd_commands ?claim (fail_command e (dr_message payload)) db) = Inr (comp, db1)"
    and mark: "markOrderLinesFailedAndBuildRefundDecision e ?ord (vc_orderItemId c) (vc_slotId c)
        ''dispense_failed'' meta db1 = (d, db2)"
    and stage: "stageFailedLineRefund e d db2 = Inr db3" and ctx: "ctx = Failure d"
    and rest: "db_commands db' = db_commands db3" "db_orderItems db' = db_orderItems db3" by blast
  have items1: "db_orderItems db1 = db_orderItems db"
    using release_affected_items [OF rel] by (simp add: upd_commands_def)
  have cmds1: "db_commands db1 = upd_where ?claim (fail_command e (dr_message payload)) (db_commands db)"
    using release_affected_core [OF rel] by (simp add: core_frame_def core_tables_def upd_commands_def)
  note m = mark_failed_items [OF mark, unfolded items1]
  have frame: "db_commands db3 = db_commands db2" "map line_of (db_orderItems db3) = map line_of (db_orderItems db2)"
    using stage_failed_tables [OF stage] by (simp_all add: refund_frame_def sale_tables_def)
  have lines: "map line_of (db_orderItems db') = map (\<lambda>oi. if oi_id oi \<in> oi_id ` set (filter ?line (db_orderItems db))
      then (oi_id oi, oi_orderId oi, LfDispenseFailed) else line_of oi) (db_orderItems db)"
    by (simp add: rest frame m(1) upd_where_def fail_line_def line_of_def)
  have sts: "map oi_fulfillmentStatus (order_lines ?ord db2) = map oi_fulfillmentStatus (order_lines ?ord db')"
    by (rule line_statuses) (simp add: rest frame)
  have failed: "LfDispenseFailed \<in> set (map oi_fulfillmentStatus (order_lines ?ord db'))"
  proof -
    obtain oi where "oi \<in> set (db_orderItems db)" "?line oi" using assms(3) by (auto simp: list_ex_iff)
    then have "fail_line e oi \<in> set (order_lines ?ord db2)"
      by (force simp: order_lines_def m(1) set_upd_where fail_line_def affected_line_def)
    then have "oi_fulfillmentStatus (fail_line e oi) \<in> set (map oi_fulfillmentStatus (order_lines ?ord db2))"
      by simp
    then show ?thesis unfolding sts by (simp add: fail_line_def)
  qed
  have cmds: "db_commands db' = map (\<lambda>x. if vc_id x = vc_id c \<and> vc_status x \<notin> {VcSucceeded, VcFailed}
      then x\<lparr>vc_status := VcFailed, vc_resultAt := Some (e_now e),
        vc_lastError := Some (dr_message payload), vc_updatedAt := e_now e\<rparr> else x) (db_commands db)"
    unfolding rest(1) frame(1) m(2) cmds1 upd_where_def claim fail_command_def ..
  have d: "d = failure_decision ?ord meta (order_lines ?ord db2)" by (rule m(3) [OF assms(3)])
  show ?thesis
    using cmds lines failure_decision_statuses [OF sts failed, of ?ord meta, folded d]
    by (auto simp: ctx Let_def split: if_splits)
qed


theorem failed_dispense_settles_witness:
  "\<exists>db' meta. apply_dispense_failure shop_env 1 selling_command late_failure selling_db =
     Inr (Failure (FullRefund 20 meta), db') \<and> map vc_status (db_commands db') = [VcFailed]"
proof -
  have "case apply_dispense_failure shop_env 1 selling_command late_failure selling_db of
      Inr (ctx, db') \<Rightarrow> map oi_fulfillmentStatus (order_lines 20 db') = [LfDispenseFailed] | _ \<Rightarrow> False"
    by code_simp
  then obtain ctx db' where run: "apply_dispense_failure shop_env 1 selling_command late_failure selling_db
        = Inr (ctx, db')"
    and sts: "map oi_fulfillmentStatus (order_lines 20 db') = [LfDispenseFailed]"
    by (auto split: sum.splits)
  have cmds: "db_commands selling_db = [selling_command]" and ord: "vc_orderId selling_command = 20"
    by (simp_all add: selling_db_def selling_command_def)
  have open': "list_ex (\<lambda>x. vc_id x = vc_id selling_command \<and> vc_status x \<notin> {VcSucceeded, VcFailed})
      (db_commands selling_db)" by code_simp
  have line: "list_ex (affected_line (vc_orderId selling_command) (vc_orderItemId selling_command)
      (vc_slotId selling_command)) (db_orderItems selling_db)" by code_simp
  from failed_dispense_settles [OF run open' line] run show ?thesis
    by (auto simp: ord sts cmds selling_command_def)
qed

subsection \<open>A broker that is down\<close>



text \<open>What dispatching may change when nothing can be published: the bookkeeping of retries.\<close>

definition without_retries :: "command_row \<Rightarrow> command_row" where
  "without_retries c = c\<lparr>vc_retryCount := 0, vc_lastError := None, vc_updatedAt := 0\<rparr>"

definition retries_only :: "db \<Rightarrow> db \<Rightarrow> bool" where
  "retries_only db db' \<longleftrightarrow> outside_commands db' = outside_commands db \<and> db_next db' = db_next db \<and>
     map without_retries (db_commands db') = map without_retries (db_commands db)"

lemma retries_only_refl [simp]: "retries_only db db"
  by (simp add: retries_only_def)

lemma retries_only_trans: "retries_only a b \<Longrightarrow> retries_only b c \<Longrightarrow> retries_only a c"
  by (simp add: retries_only_def)

lemma promise_all_frame:
  assumes "\<And>x s. R s (fst (f x s))" and "\<And>s. R s s" and "\<And>a b c. R a b \<Longrightarrow> R b c \<Longrightarrow> R a c"
  shows "R s (fst (promise_all f xs s))"
proof (induction xs arbitrary: s)
  case Nil
  show ?case by (simp add: assms(2))
next
  case (Cons x xs)
  from assms(3) [OF assms(1) Cons.IH] show ?case by (simp add: split_beta Let_def)
qed

lemma record_failure_retries:
  "retries_only db (fst (atomic (recordPendingCommandDispatchFailure e i msg) db))"
  by (auto simp: atomic_def recordPendingCommandDispatchFailure_def update_pending_command_def
      bindR_def Let_def retries_only_def outside_commands_def upd_commands_def upd_where_def
      without_retries_def split: sum.splits option.splits)

lemma dispatch_command_retries:
  assumes "\<And>code p. publish code p \<noteq> None"
  shows "retries_only db (fst (dispatch_command e publish cm db))"
proof -
  have no: False if "publish code p = None" for code p using assms that by blast
  show ?thesis using record_failure_retries
    by (cases cm) (auto simp: dispatch_command_def Let_def split: sum.split option.split dest: no)
qed

text \<open>While the broker refuses everything, a run of the dispatch job changes nothing but the
  retry bookkeeping: no command is lost, marked sent or altered, so that every pending command is
  found again by the next run.\<close>

theorem outage_keeps_commands_pending:
  assumes "\<And>code p. publish code p \<noteq> None"
    and "dispatchPendingCommands e publish db = (db', answer)"
  shows "map (\<lambda>c. (command_identity c, vc_status c, vc_sentAt c)) (db_commands db') =
      map (\<lambda>c. (command_identity c, vc_status c, vc_sentAt c)) (db_commands db) \<and>
    db'\<lparr>db_commands := []\<rparr> = db\<lparr>db_commands := []\<rparr>"
proof -
  have order: "retries_only d (fst (dispatchPendingCommandsForOrder e publish i d))" for i d
    unfolding dispatchPendingCommandsForOrder_def
    by (rule promise_all_frame)
      (auto intro: dispatch_command_retries [OF assms(1)] retries_only_trans)
  have "retries_only d (fst (promise_all (dispatchPendingCommandsForOrder e publish) ids d))" for ids d
    by (rule promise_all_frame) (auto intro: order retries_only_trans)
  from this [of db "take 50 (remdups (map vc_orderId (filter (\<lambda>c. vc_status c = VcPending)
        (db_commands db))))"]
  have frame: "retries_only db db'" using assms(2)
    by (auto simp: dispatchPendingCommands_def Let_def bindS_def split: prod.splits sum.splits)
  have view: "map (\<lambda>c. (command_identity c, vc_status c, vc_sentAt c)) cs =
      map (\<lambda>c. (command_identity c, vc_status c, vc_sentAt c)) (map without_retries cs)" for cs
    by (simp add: without_retries_def command_identity_def)
  have "db'\<lparr>db_commands := []\<rparr> = (outside_commands db')\<lparr>db_next := db_next db'\<rparr>"
    by (simp add: outside_commands_def)
  also have "\<dots> = (outside_commands db)\<lparr>db_next := db_next db\<rparr>"
    using frame by (simp add: retries_only_def)
  also have "\<dots> = db\<lparr>db_commands := []\<rparr>" by (simp add: outside_commands_def)
  finally show ?thesis using frame view [of "db_commands db'"] view [of "db_commands db"]
    by (simp add: retries_only_def)
qed

definition pending_db :: db where
  "pending_db = selling_db\<lparr>db_commands := [selling_command\<lparr>vc_status := VcPending\<rparr>]\<rparr>"

theorem outage_keeps_commands_pending_witness:
  "map vc_retryCount (db_commands (fst (dispatchPendingCommands shop_env (\<lambda>_ _. Some ''down'') pending_db)))
     = [1] \<and>
   map vc_status (db_commands (fst (dispatchPendingCommands shop_env (\<lambda>_ _. Some ''down'') pending_db)))
     = [VcPending]"
proof
  show "map vc_retryCount (db_commands (fst (dispatchPendingCommands shop_env (\<lambda>_ _. Some ''down'')
      pending_db))) = [1]" by code_simp
  have "map (\<lambda>c. (command_identity c, vc_status c, vc_sentAt c)) (db_commands (fst (dispatchPendingCommands
      shop_env (\<lambda>_ _. Some ''down'') pending_db))) =
    map (\<lambda>c. (command_identity c, vc_status c, vc_sentAt c)) (db_commands pending_db)"
    using outage_keeps_commands_pending [OF _ prod.collapse [symmetric],
        of "\<lambda>_ _. Some ''down''" shop_env pending_db] by simp
  from arg_cong [OF this, of "map (fst \<circ> snd)"]
  show "map vc_status (db_commands (fst (dispatchPendingCommands shop_env (\<lambda>_ _. Some ''down'')
      pending_db))) = [VcPending]" by (simp add: o_def pending_db_def)
qed

end
