(* ===== verification/Code_Attempts.thy ===== *)
theory Code_Attempts
  imports Vending_Commands
begin

text \<open>
  \<open>payments/payment-code-attempts.service.ts\<close>: the durable attempts to charge a payment code that
  a customer shows to the scanner. An attempt is admitted in one transaction, claimed under a
  lease (owner token, fence and expiry) before anybody may talk to the provider, and only the
  holder of a current lease may move it on.

  \<open>now()\<close> of the database and \<open>new Date()\<close> are both \<open>e_now\<close>. A \<open>patch\<close> object is a function on
  the row; none of the patches in the code sets \<open>isActive\<close>, \<open>status\<close> or the lease columns. The
  stored payload excerpts and the scanner health document are not modelled.
\<close>

definition RECOVERABLE_PAYMENT_CODE_ATTEMPT_STATUSES :: "code_attempt_status list" where
  "RECOVERABLE_PAYMENT_CODE_ATTEMPT_STATUSES =
     [CaCreated, CaSubmitting, CaUserConfirming, CaQuerying, CaReversing, CaManualHandling]"

definition PAYMENT_CODE_ADMISSION_RECOVERY_LEASE_MS :: ms where
  "PAYMENT_CODE_ADMISSION_RECOVERY_LEASE_MS = 30000"

definition PAYMENT_CODE_UNADMITTED_RECOVERY_DELAY_MS :: ms where
  "PAYMENT_CODE_UNADMITTED_RECOVERY_DELAY_MS = 30000"

definition isIncidentLocked :: "order_row \<Rightarrow> payment_status \<Rightarrow> bool" where
  "isIncidentLocked x st \<longleftrightarrow> o_status x = OsManualHandling \<or>
     o_paymentState x = PsPaymentUnknown \<or> o_paymentState x = PsManualHandling \<or>
     o_fulfillmentState x = FsManualHandling \<or> st = PayUnknown \<or> st = PayManualHandling"

definition isPayablePaymentCodeOrder :: "order_row \<Rightarrow> payment_status \<Rightarrow> bool" where
  "isPayablePaymentCodeOrder x st \<longleftrightarrow> o_status x = OsPendingPayment \<and>
     o_paymentState x = PsAwaitingPayment \<and> o_fulfillmentState x = FsAwaitingFulfillment \<and>
     st \<in> {PayCreated, PayPending, PayProcessing}"

definition maskPaymentCode :: "string \<Rightarrow> string" where
  "maskPaymentCode authCode =
     (if length authCode \<le> 8 then take 2 authCode @ ''****''
      else take 4 authCode @ ''****'' @ drop (length authCode - 4) authCode)"

definition find_attempt :: "uuid \<Rightarrow> db \<Rightarrow> code_attempt_row option" where
  "find_attempt i db = List.find (\<lambda>a. ca_id a = i) (db_codeAttempts db)"

definition active_attempt :: "uuid \<Rightarrow> db \<Rightarrow> code_attempt_row option" where
  "active_attempt paymentId db =
     List.find (\<lambda>a. ca_paymentId a = paymentId \<and> ca_isActive a) (db_codeAttempts db)"

text \<open>An attempt with its payment and order; also what \<open>select \<dots> for update of pca, p, o\<close> locks.\<close>

definition attempt_context :: "uuid \<Rightarrow> db \<Rightarrow> (code_attempt_row \<times> payment_row \<times> order_row) option" where
  "attempt_context i db =
     (case [(a, p, x). a \<leftarrow> db_codeAttempts db, p \<leftarrow> db_payments db, x \<leftarrow> db_orders db,
              ca_id a = i \<and> p_id p = ca_paymentId a \<and> o_id x = ca_orderId a] of
        [] \<Rightarrow> None | c # _ \<Rightarrow> Some c)"

subsection \<open>Admission\<close>

record code_input =
  ci_orderNo :: string
  ci_machineCode :: string
  ci_authCode :: string
  ci_idempotencyKey :: string
  ci_source :: string

text \<open>The unique indexes of the table.\<close>

definition attempt_conflict :: "code_attempt_row \<Rightarrow> code_attempt_row \<Rightarrow> bool" where
  "attempt_conflict a b \<longleftrightarrow> ca_providerPaymentNo a = ca_providerPaymentNo b \<or>
     (ca_paymentId a = ca_paymentId b \<and> ca_idempotencyKey a = ca_idempotencyKey b) \<or>
     (ca_orderId a = ca_orderId b \<and> ca_attemptNo a = ca_attemptNo b) \<or>
     (ca_orderId a = ca_orderId b \<and> ca_isActive a \<and> ca_isActive b)"

definition insert_attempt_row :: "code_attempt_row \<Rightarrow> db \<Rightarrow> api_error + db" where
  "insert_attempt_row a db =
     (if list_ex (attempt_conflict a) (db_codeAttempts db)
      then Inl (ConstraintViolation ''payment_code_attempts_unique'')
      else if ca_amountCents a \<le> 0
      then Inl (ConstraintViolation ''payment_code_attempts_amount_cents_positive'')
      else Inr (db\<lparr>db_codeAttempts := db_codeAttempts db @ [a], db_next := Suc (db_next db)\<rparr>))"

definition code_order_join ::
    "code_input \<Rightarrow> db \<Rightarrow> (order_row \<times> payment_row \<times> payment_provider_row) list" where
  "code_order_join input db =
     [(x, p, pp). x \<leftarrow> db_orders db, m \<leftarrow> db_machines db, p \<leftarrow> db_payments db, pp \<leftarrow> db_providers db,
        m_id m = o_machineId x \<and> Some (p_id p) = o_paymentId x \<and> pp_id pp = p_providerId p \<and>
        o_orderNo x = ci_orderNo input \<and> m_code m = ci_machineCode input \<and> m_deletedAt m = None]"

definition new_attempt ::
    "env \<Rightarrow> code_input \<Rightarrow> order_row \<Rightarrow> payment_row \<Rightarrow> nat \<Rightarrow> db \<Rightarrow> code_attempt_row" where
  "new_attempt e input x p attemptNo db =
     \<lparr>ca_id = db_next db, ca_paymentId = p_id p, ca_orderId = o_id x, ca_providerId = p_providerId p,
      ca_paymentProviderConfigId = p_paymentProviderConfigId p, ca_attemptNo = attemptNo,
      ca_providerPaymentNo = createBusinessNo e (db_next db) PCA,
      ca_idempotencyKey = ci_idempotencyKey input, ca_status = CaCreated, ca_isActive = True,
      ca_amountCents = p_amountCents p, ca_authCodeHash = e_sha256Hex e (ci_authCode input),
      ca_authCodeMasked = maskPaymentCode (ci_authCode input), ca_source = ci_source input,
      ca_providerTradeNo = None, ca_providerStatus = None, ca_failureCode = None,
      ca_failureMessage = None, ca_submittedAt = None, ca_lastCheckedAt = None,
      ca_reversedAt = None, ca_finishedAt = None, ca_manualReason = None, ca_leaseExpiresAt = None,
      ca_leaseOwnerToken = None, ca_leaseFence = 0, ca_recoveryAttemptCount = 0,
      ca_recoveryNextAt = Some (e_now e + PAYMENT_CODE_UNADMITTED_RECOVERY_DELAY_MS),
      ca_createdAt = e_now e, ca_updatedAt = e_now e\<rparr>"

text \<open>The conditional write of the payment row that a cancellation serialises with.\<close>

definition claimable_code_payment :: "env \<Rightarrow> order_row \<Rightarrow> db \<Rightarrow> payment_row \<Rightarrow> bool" where
  "claimable_code_payment e x db p \<longleftrightarrow>
     p_status p \<in> {PayCreated, PayPending, PayProcessing} \<and>
     (case p_expiresAt p of None \<Rightarrow> False | Some t \<Rightarrow> e_now e < t) \<and>
     list_ex (\<lambda>c. o_id c = o_id x \<and> o_paymentId c = Some (p_id p) \<and>
        o_status c = OsPendingPayment \<and> o_paymentState c = PsAwaitingPayment \<and>
        o_fulfillmentState c = FsAwaitingFulfillment) (db_orders db) \<and>
     active_attempt (p_id p) db = None"

definition createOrReplay ::
    "env \<Rightarrow> code_input \<Rightarrow> bool \<Rightarrow> db \<Rightarrow> api_error + (payment_row \<times> code_attempt_row \<times> bool) \<times> db"
  where
  "createOrReplay e input mockPaymentEnabled db =
     (case code_order_join input db of
        [] \<Rightarrow> Inl (NotFoundException ''Machine order not found'')
      | (x, p, pp) # _ \<Rightarrow>
          if p_method p \<noteq> PmPaymentCode
          then Inl (ConflictException ''Order is not a payment_code order'')
          else if pp_code pp = ''mock'' \<and> \<not> mockPaymentEnabled
          then Inl (ConflictException ''Mock payment code is disabled'')
          else case List.find (\<lambda>a. ca_paymentId a = p_id p \<and>
              ca_idempotencyKey a = ci_idempotencyKey input) (db_codeAttempts db) of
            Some existing \<Rightarrow> Inr ((p, existing, True), db)
          | None \<Rightarrow>
              if p_status p = PaySucceeded
              then Inl (ConflictException ''Payment already succeeded'')
              else if isIncidentLocked x (p_status p)
              then Inl (ConflictException ''payment_incident_locked'')
              else if \<not> isPayablePaymentCodeOrder x (p_status p)
              then Inl (ConflictException ''payment_code_order_not_payable'')
              else if (case p_expiresAt p of None \<Rightarrow> False | Some t \<Rightarrow> t \<le> e_now e)
              then Inl (ConflictException ''payment_code_order_not_payable'')
              else if list_ex (\<lambda>a. ca_orderId a = o_id x \<and> ca_isActive a) (db_codeAttempts db)
              then Inl (ConflictException ''payment_code_attempt_in_progress'')
              else
               (let claim = (\<lambda>q. p_id q = p_id p \<and> claimable_code_payment e x db q) in
                if \<not> list_ex claim (db_payments db)
                then Inl (ConflictException ''payment_code_order_not_payable'')
                else
                 (let db1 = upd_payments claim (\<lambda>q. q\<lparr>p_updatedAt := e_now e\<rparr>) db;
                      n = count_where (\<lambda>a. ca_orderId a = o_id x) (db_codeAttempts db1);
                      a = new_attempt e input x p (n + 1) db1
                  in bindR (insert_attempt_row a db1) (\<lambda>db2. Inr ((p, a, False), db2)))))"

subsection \<open>Leases\<close>

definition upd_attempts ::
    "(code_attempt_row \<Rightarrow> bool) \<Rightarrow> (code_attempt_row \<Rightarrow> code_attempt_row) \<Rightarrow> db \<Rightarrow> db" where
  "upd_attempts p f db = db\<lparr>db_codeAttempts := upd_where p f (db_codeAttempts db)\<rparr>"

text \<open>\<open>update \<dots> set f where p returning\<close>, for a condition on the key.\<close>

definition update_attempt ::
    "(code_attempt_row \<Rightarrow> bool) \<Rightarrow> (code_attempt_row \<Rightarrow> code_attempt_row) \<Rightarrow> db \<Rightarrow>
     code_attempt_row option \<times> db" where
  "update_attempt p f db = (map_option f (List.find p (db_codeAttempts db)), upd_attempts p f db)"

text \<open>An update that sets \<open>is_active\<close> is rejected when it makes a second active attempt.\<close>

definition checked_attempt :: "'a \<times> db \<Rightarrow> api_error + 'a \<times> db" where
  "checked_attempt r =
     (if no_conflict attempt_conflict (db_codeAttempts (snd r)) then Inr r
      else Inl (ConstraintViolation ''payment_code_attempts_order_active_unique''))"

text \<open>A claim is the returned row; it counts when it has an owner and a positive fence.\<close>

definition as_claim :: "code_attempt_row option \<times> db \<Rightarrow> code_attempt_row option \<times> db" where
  "as_claim r = (case fst r of
     Some a \<Rightarrow> if ca_leaseOwnerToken a \<noteq> None \<and> ca_leaseOwnerToken a \<noteq> Some [] \<and> 0 < ca_leaseFence a
               then r else (None, snd r)
   | None \<Rightarrow> r)"

definition take_lease :: "string \<Rightarrow> ms \<Rightarrow> ms \<Rightarrow> code_attempt_row \<Rightarrow> code_attempt_row" where
  "take_lease ownerToken now leaseMs a = a\<lparr>ca_leaseOwnerToken := Some ownerToken,
     ca_leaseExpiresAt := Some (now + leaseMs), ca_leaseFence := ca_leaseFence a + 1,
     ca_recoveryAttemptCount := ca_recoveryAttemptCount a + 1, ca_updatedAt := now\<rparr>"

definition drop_lease :: "code_attempt_row \<Rightarrow> code_attempt_row" where
  "drop_lease a = a\<lparr>ca_leaseOwnerToken := None, ca_leaseExpiresAt := None\<rparr>"

definition claimSubmission ::
    "env \<Rightarrow> uuid \<Rightarrow> string \<Rightarrow> ms \<Rightarrow> db \<Rightarrow> code_attempt_row option \<times> db" where
  "claimSubmission e attemptId ownerToken leaseMs db =
     (case attempt_context attemptId db of
        None \<Rightarrow> (None, db)
      | Some (a, p, x) \<Rightarrow>
          if ca_status a \<noteq> CaCreated \<or> \<not> ca_isActive a \<or> p_expiresAt p = None \<or>
             \<not> isPayablePaymentCodeOrder x (p_status p)
          then (None, db)
          else as_claim (update_attempt
            (\<lambda>c. ca_id c = attemptId \<and> ca_status c = CaCreated \<and> ca_isActive c \<and>
               list_ex (\<lambda>q. p_id q = ca_paymentId c \<and>
                 (case p_expiresAt q of None \<Rightarrow> False | Some t \<Rightarrow> e_now e < t) \<and>
                 p_status q \<in> {PayCreated, PayPending, PayProcessing} \<and>
                 list_ex (\<lambda>y. o_id y = p_orderId q \<and> o_status y = OsPendingPayment \<and>
                    o_paymentState y = PsAwaitingPayment \<and>
                    o_fulfillmentState y = FsAwaitingFulfillment) (db_orders db)) (db_payments db))
            (\<lambda>c. (take_lease ownerToken (e_now e) leaseMs c)\<lparr>ca_status := CaSubmitting,
               ca_submittedAt := Some (e_now e), ca_recoveryNextAt := Some (e_now e)\<rparr>) db))"

definition due_for_recovery :: "ms \<Rightarrow> code_attempt_row \<Rightarrow> bool" where
  "due_for_recovery now a \<longleftrightarrow> ca_isActive a \<and>
     ca_status a \<in> set RECOVERABLE_PAYMENT_CODE_ATTEMPT_STATUSES \<and>
     (ca_status a \<noteq> CaManualHandling \<or> ca_recoveryNextAt a \<noteq> None) \<and>
     (case ca_recoveryNextAt a of None \<Rightarrow> True | Some t \<Rightarrow> t \<le> now) \<and>
     (case ca_leaseExpiresAt a of None \<Rightarrow> True | Some t \<Rightarrow> t \<le> now)"

text \<open>\<open>order by recovery_next_at, created_at\<close>: nulls come last.\<close>

definition due_before :: "code_attempt_row \<Rightarrow> code_attempt_row \<Rightarrow> bool" where
  "due_before a b = (case (ca_recoveryNextAt a, ca_recoveryNextAt b) of
     (Some s, Some t) \<Rightarrow> s < t \<or> (s = t \<and> ca_createdAt a < ca_createdAt b)
   | (Some s, None) \<Rightarrow> True
   | (None, Some t) \<Rightarrow> False
   | (None, None) \<Rightarrow> ca_createdAt a < ca_createdAt b)"

fun earliest :: "code_attempt_row list \<Rightarrow> code_attempt_row option" where
  "earliest [] = None"
| "earliest (a # rest) = (case earliest rest of
     None \<Rightarrow> Some a | Some b \<Rightarrow> if due_before b a then Some b else Some a)"

definition claimRecoveryAttemptById ::
    "uuid \<Rightarrow> string \<Rightarrow> ms \<Rightarrow> ms \<Rightarrow> db \<Rightarrow> code_attempt_row option \<times> db" where
  "claimRecoveryAttemptById i ownerToken now leaseMs db =
     as_claim (update_attempt (\<lambda>a. ca_id a = i \<and> due_for_recovery now a)
       (take_lease ownerToken now leaseMs) db)"

definition claimNextDueRecoveryAttempt ::
    "string \<Rightarrow> ms \<Rightarrow> ms \<Rightarrow> db \<Rightarrow> code_attempt_row option \<times> db" where
  "claimNextDueRecoveryAttempt ownerToken now leaseMs db =
     (case earliest (filter (due_for_recovery now) (db_codeAttempts db)) of
        None \<Rightarrow> (None, db)
      | Some candidate \<Rightarrow> claimRecoveryAttemptById (ca_id candidate) ownerToken now leaseMs db)"

definition recoveryLeaseConditions :: "env \<Rightarrow> code_attempt_row \<Rightarrow> code_attempt_row \<Rightarrow> bool" where
  "recoveryLeaseConditions e claim a \<longleftrightarrow> ca_id a = ca_id claim \<and>
     ca_leaseOwnerToken a \<noteq> None \<and> ca_leaseOwnerToken a = ca_leaseOwnerToken claim \<and>
     ca_leaseFence a = ca_leaseFence claim \<and>
     (case ca_leaseExpiresAt a of None \<Rightarrow> False | Some t \<Rightarrow> e_now e < t)"

definition renewRecoveryClaim :: "env \<Rightarrow> code_attempt_row \<Rightarrow> ms \<Rightarrow> db \<Rightarrow> bool \<times> db" where
  "renewRecoveryClaim e claim leaseMs db =
     (let (renewed, db1) = update_attempt (recoveryLeaseConditions e claim)
        (\<lambda>a. a\<lparr>ca_leaseExpiresAt := Some (e_now e + leaseMs), ca_updatedAt := e_now e\<rparr>) db
      in (renewed \<noteq> None, db1))"

definition beginReversal ::
    "env \<Rightarrow> code_attempt_row \<Rightarrow> (code_attempt_row \<Rightarrow> code_attempt_row) \<Rightarrow> db \<Rightarrow>
     code_attempt_row option \<times> db" where
  "beginReversal e claim patch db =
     (case attempt_context (ca_id claim) db of
        None \<Rightarrow> (None, db)
      | Some (a, p, x) \<Rightarrow>
          if \<not> ca_isActive a \<or> p_status p = PaySucceeded \<or> o_status x = OsPaid \<or>
             \<not> recoveryLeaseConditions e claim a
          then (None, db)
          else as_claim (update_attempt (recoveryLeaseConditions e claim)
            (\<lambda>c. (patch c)\<lparr>ca_status := CaReversing, ca_recoveryNextAt := Some (e_now e),
                             ca_updatedAt := e_now e\<rparr>) db))"

subsection \<open>Operator requests and status changes\<close>

definition requestRecoveryAction ::
    "env \<Rightarrow> uuid \<Rightarrow> code_attempt_status \<Rightarrow> string option \<Rightarrow> db \<Rightarrow>
     api_error + code_attempt_row \<times> db" where
  "requestRecoveryAction e i status reason db =
     (case attempt_context i db of
        None \<Rightarrow> Inl (NotFoundException ''Payment code attempt not found'')
      | Some (a, p, x) \<Rightarrow>
          if ca_status a \<in> {CaSucceeded, CaFailed, CaReversed, CaCanceled} then Inr (a, db)
          else if p_status p \<in> {PaySucceeded, PayFailed, PayExpired, PayCanceled} \<or>
                  o_status x \<in> {OsPaid, OsCanceled, OsPaymentExpired} then Inr (a, db)
          else
           (let f = (\<lambda>c. (drop_lease c)\<lparr>ca_status := status, ca_isActive := True,
                  ca_manualReason := (case reason of Some r \<Rightarrow> Some r | None \<Rightarrow> ca_manualReason a),
                  ca_recoveryNextAt := Some (e_now e), ca_updatedAt := e_now e\<rparr>)
            in checked_attempt (f a, upd_attempts (\<lambda>c. ca_id c = i) f db)))"

text \<open>The newest active attempt of a payment: \<open>order by created_at desc limit 1\<close>.\<close>

definition newest_active :: "uuid \<Rightarrow> db \<Rightarrow> code_attempt_row option" where
  "newest_active paymentId db =
     List.find (\<lambda>a. ca_paymentId a = paymentId \<and> ca_isActive a) (rev (db_codeAttempts db))"

definition requestRecoveryActionForPayment ::
    "env \<Rightarrow> uuid \<Rightarrow> code_attempt_status \<Rightarrow> string option \<Rightarrow> db \<Rightarrow>
     api_error + code_attempt_row option \<times> db" where
  "requestRecoveryActionForPayment e paymentId status reason db =
     (case newest_active paymentId db of
        None \<Rightarrow> Inr (None, db)
      | Some a \<Rightarrow> bindR (requestRecoveryAction e (ca_id a) status reason db)
          (\<lambda>(updated, db1). Inr (Some updated, db1)))"

definition requestManualHandlingForPayment ::
    "env \<Rightarrow> uuid \<Rightarrow> string \<Rightarrow> db \<Rightarrow> api_error + code_attempt_row option \<times> db" where
  "requestManualHandlingForPayment e paymentId reason =
     requestRecoveryActionForPayment e paymentId CaManualHandling (Some reason)"

definition releaseRecoveryClaim ::
    "env \<Rightarrow> code_attempt_row \<Rightarrow> code_attempt_status \<Rightarrow> ms option \<Rightarrow>
     (code_attempt_row \<Rightarrow> code_attempt_row) \<Rightarrow> db \<Rightarrow> api_error + code_attempt_row option \<times> db"
  where
  "releaseRecoveryClaim e claim status nextRecoveryAt patch db =
     (let terminal = (status \<in> {CaSucceeded, CaFailed, CaReversed, CaCanceled, CaManualHandling}) in
      checked_attempt (update_attempt (recoveryLeaseConditions e claim)
        (\<lambda>a. (drop_lease (patch a))\<lparr>ca_status := status, ca_isActive := \<not> terminal,
           ca_recoveryNextAt := (if terminal then None else nextRecoveryAt),
           ca_updatedAt := e_now e\<rparr>) db))"

definition tryMarkStatus ::
    "env \<Rightarrow> uuid \<Rightarrow> code_attempt_status \<Rightarrow> (code_attempt_row \<Rightarrow> code_attempt_row) \<Rightarrow>
     code_attempt_status list option \<Rightarrow> db \<Rightarrow> api_error + code_attempt_row option \<times> db" where
  "tryMarkStatus e i status patch allowed db =
     (let terminal = (status \<in> {CaSucceeded, CaFailed, CaReversed, CaCanceled}) in
      checked_attempt (update_attempt
        (\<lambda>a. ca_id a = i \<and> (case allowed of None \<Rightarrow> True | Some sts \<Rightarrow> ca_status a \<in> set sts))
        (\<lambda>a. let b = (patch a)\<lparr>ca_status := status, ca_isActive := \<not> terminal,
                               ca_updatedAt := e_now e\<rparr>
             in if terminal then (drop_lease b)\<lparr>ca_recoveryNextAt := None\<rparr> else b) db))"

definition markStatus ::
    "env \<Rightarrow> uuid \<Rightarrow> code_attempt_status \<Rightarrow> (code_attempt_row \<Rightarrow> code_attempt_row) \<Rightarrow> db \<Rightarrow>
     api_error + code_attempt_row \<times> db" where
  "markStatus e i status patch db = bindR (tryMarkStatus e i status patch None db)
     (\<lambda>(updated, db1). case updated of
        None \<Rightarrow> Inl (NotFoundException ''Payment code attempt not found'')
      | Some a \<Rightarrow> Inr (a, db1))"

definition markStatusIfCurrentStatusIn ::
    "env \<Rightarrow> uuid \<Rightarrow> code_attempt_status \<Rightarrow> code_attempt_status list \<Rightarrow>
     (code_attempt_row \<Rightarrow> code_attempt_row) \<Rightarrow> db \<Rightarrow> api_error + code_attempt_row option \<times> db"
  where
  "markStatusIfCurrentStatusIn e i status allowed patch = tryMarkStatus e i status patch (Some allowed)"

definition getAttemptById :: "uuid \<Rightarrow> db \<Rightarrow> api_error + code_attempt_row" where
  "getAttemptById i db = (case find_attempt i db of
     None \<Rightarrow> Inl (NotFoundException ''Payment code attempt not found'') | Some a \<Rightarrow> Inr a)"

record recovery_context =
  rx_attempt :: code_attempt_row
  rx_payment :: payment_row
  rx_order :: order_row
  rx_machine :: machine_row
  rx_provider :: payment_provider_row

definition getRecoveryContextById :: "uuid \<Rightarrow> db \<Rightarrow> api_error + recovery_context" where
  "getRecoveryContextById i db =
     (case [\<lparr>rx_attempt = a, rx_payment = p, rx_order = x, rx_machine = m, rx_provider = pp\<rparr>.
              a \<leftarrow> db_codeAttempts db, p \<leftarrow> db_payments db, x \<leftarrow> db_orders db, m \<leftarrow> db_machines db,
              pp \<leftarrow> db_providers db, ca_id a = i \<and> p_id p = ca_paymentId a \<and> o_id x = ca_orderId a \<and>
                m_id m = o_machineId x \<and> pp_id pp = ca_providerId a] of
        [] \<Rightarrow> Inl (NotFoundException ''Payment code attempt not found'')
      | c # _ \<Rightarrow> Inr c)"

definition latestForPayment :: "uuid \<Rightarrow> db \<Rightarrow> code_attempt_row option" where
  "latestForPayment paymentId db =
     List.find (\<lambda>a. ca_paymentId a = paymentId) (rev (db_codeAttempts db))"

end
