(* ===== verification/Payments.thy ===== *)
theory Payments
  imports Code_Attempts
begin

text \<open>
  \<open>payments/payments.service.ts\<close>, first part: the one transaction that makes a payment succeed or
  fail on the word of its provider (\<open>transitionProviderPaymentTerminal\<close>), what calls it for a
  provider result, and the mock endpoints. The jobs, the webhooks and the operator actions are in
  \<open>Payment_Jobs\<close>, \<open>Payment_Webhooks\<close> and \<open>Payment_Incidents\<close>.

  Audit records and the stored payload excerpts are not modelled. A JavaScript string
  counts as true when it is \<open>present\<close> (of \<open>Refunds\<close>): given and not empty.
\<close>

definition PROVIDER_MUTABLE_PAYMENT_STATUSES :: "payment_status list" where
  "PROVIDER_MUTABLE_PAYMENT_STATUSES = [PayCreated, PayPending, PayProcessing, PayUnknown]"

definition canApplyProviderTerminalStatus :: "payment_status \<Rightarrow> bool" where
  "canApplyProviderTerminalStatus status \<longleftrightarrow> status \<in> set PROVIDER_MUTABLE_PAYMENT_STATUSES"

definition isPaymentIncidentLocked :: "order_row \<Rightarrow> payment_status option \<Rightarrow> bool" where
  "isPaymentIncidentLocked x paymentStatus \<longleftrightarrow> o_status x = OsManualHandling \<or>
     o_paymentState x = PsPaymentUnknown \<or> o_paymentState x = PsManualHandling \<or>
     o_fulfillmentState x = FsManualHandling \<or>
     paymentStatus = Some PayUnknown \<or> paymentStatus = Some PayManualHandling"

subsection \<open>Rows\<close>

text \<open>\<open>payments inner join orders\<close>, and with \<open>payment_providers\<close>, by the payment's id.\<close>

definition payment_with_order :: "uuid \<Rightarrow> db \<Rightarrow> (payment_row \<times> order_row) option" where
  "payment_with_order paymentId db =
     (case [(p, x). p \<leftarrow> db_payments db, x \<leftarrow> db_orders db,
              o_id x = p_orderId p \<and> p_id p = paymentId] of
        [] \<Rightarrow> None | c # _ \<Rightarrow> Some c)"

definition payment_joins ::
    "(payment_row \<Rightarrow> order_row \<Rightarrow> payment_provider_row \<Rightarrow> bool) \<Rightarrow> db \<Rightarrow>
     (payment_row \<times> order_row \<times> payment_provider_row) list" where
  "payment_joins c db =
     [(p, x, pp). p \<leftarrow> db_payments db, x \<leftarrow> db_orders db, pp \<leftarrow> db_providers db,
        o_id x = p_orderId p \<and> pp_id pp = p_providerId p \<and> c p x pp]"

definition payment_context ::
    "uuid \<Rightarrow> db \<Rightarrow> (payment_row \<times> order_row \<times> payment_provider_row) option" where
  "payment_context paymentId db =
     (case payment_joins (\<lambda>p x pp. p_id p = paymentId) db of [] \<Rightarrow> None | c # _ \<Rightarrow> Some c)"

text \<open>\<open>payment_events_provider_event_unique\<close>; every insert says \<open>onConflictDoNothing\<close>.\<close>

definition payment_event_conflict :: "payment_event_row \<Rightarrow> payment_event_row \<Rightarrow> bool" where
  "payment_event_conflict a b \<longleftrightarrow> pe_providerId a = pe_providerId b \<and>
     pe_providerEventId a = pe_providerEventId b"

definition record_payment_event :: "payment_event_row \<Rightarrow> db \<Rightarrow> bool \<times> db" where
  "record_payment_event ev db =
     (case insert_or_ignore payment_event_conflict ev (db_paymentEvents db) of
        (inserted, rows) \<Rightarrow> (inserted \<noteq> None, db\<lparr>db_paymentEvents := rows\<rparr>))"

definition payment_event ::
    "env \<Rightarrow> uuid \<Rightarrow> uuid \<Rightarrow> string \<Rightarrow> string \<Rightarrow> bool \<Rightarrow> payment_event_row" where
  "payment_event e paymentId providerId eventType providerEventId signatureValid =
     \<lparr>pe_paymentId = paymentId, pe_providerId = providerId, pe_eventType = eventType,
      pe_providerEventId = providerEventId, pe_signatureValid = signatureValid,
      pe_handledAt = Some (e_now e)\<rparr>"

definition event_known :: "uuid \<Rightarrow> string \<Rightarrow> db \<Rightarrow> bool" where
  "event_known providerId providerEventId db \<longleftrightarrow>
     list_ex (\<lambda>ev. pe_providerId ev = providerId \<and> pe_providerEventId ev = providerEventId)
       (db_paymentEvents db)"

definition releaseActiveReservationsForOrder :: "env \<Rightarrow> uuid \<Rightarrow> string \<Rightarrow> db \<Rightarrow> api_error + db" where
  "releaseActiveReservationsForOrder e orderId reason db =
     foldR (\<lambda>r. releaseReservation e orderId None (rv_inventoryId r) (rv_quantity r) reason)
       (filter (\<lambda>r. rv_orderId r = orderId \<and> rv_status r = RsActive) (db_reservations db)) db"

subsection \<open>The terminal transition\<close>

datatype terminal_outcome = TApplied | TDuplicate | TStale

record code_transition =
  ct_attemptId :: uuid
  ct_status :: code_attempt_status
  ct_ownerToken :: string
  ct_fence :: int
  ct_patch :: "code_attempt_row \<Rightarrow> code_attempt_row"

record terminal_transition =
  tt_paymentId :: uuid
  tt_orderId :: uuid
  tt_succeeded :: bool
  tt_providerEventId :: string
  tt_providerTradeNo :: "string option"
  tt_providerId :: "uuid option"
  tt_occurredAt :: "ms option"
  tt_failedReason :: "string option"
  tt_eventType :: "string option"
  tt_signatureValid :: bool
  tt_succeededOrderEventReason :: string
  tt_failedOrderEventReason :: string
  tt_allowIncidentLockedResolution :: bool
  tt_leaseGuard :: "(string \<times> int) option"
  tt_paymentCodeAttempt :: "code_transition option"

definition holds_attempt :: "env \<Rightarrow> code_transition \<Rightarrow> db \<Rightarrow> bool" where
  "holds_attempt e ct db = (case find_attempt (ct_attemptId ct) db of
     None \<Rightarrow> False
   | Some a \<Rightarrow> ca_isActive a \<and> ca_status a \<notin> {CaSucceeded, CaFailed, CaReversed, CaCanceled} \<and>
       ca_leaseOwnerToken a = Some (ct_ownerToken ct) \<and> ca_leaseFence a = ct_fence ct \<and>
       (case ca_leaseExpiresAt a of None \<Rightarrow> False | Some t \<Rightarrow> e_now e < t))"

definition has_intent_lease :: "string \<times> int \<Rightarrow> payment_row \<Rightarrow> bool" where
  "has_intent_lease g p \<longleftrightarrow> p_intentLeaseOwnerToken p = Some (fst g) \<and> p_intentLeaseFence p = snd g"

definition intent_lease_live :: "env \<Rightarrow> payment_row \<Rightarrow> bool" where
  "intent_lease_live e p = (case p_intentLeaseExpiresAt p of None \<Rightarrow> False | Some t \<Rightarrow> e_now e < t)"

definition may_transition ::
    "env \<Rightarrow> terminal_transition \<Rightarrow> payment_row \<Rightarrow> order_row \<Rightarrow> db \<Rightarrow> bool" where
  "may_transition e tt p x db \<longleftrightarrow>
     (case tt_paymentCodeAttempt tt of None \<Rightarrow> True | Some ct \<Rightarrow> holds_attempt e ct db) \<and>
     canApplyProviderTerminalStatus (p_status p) \<and>
     (isPaymentIncidentLocked x (Some (p_status p)) \<longrightarrow> tt_allowIncidentLockedResolution tt) \<and>
     (case tt_leaseGuard tt of None \<Rightarrow> True
      | Some g \<Rightarrow> has_intent_lease g p \<and> intent_lease_live e p) \<and>
     (tt_paymentCodeAttempt tt = None \<and> p_method p = PmPaymentCode \<longrightarrow>
        active_attempt (tt_paymentId tt) db = None)"

text \<open>\<open>mutablePaymentWhere\<close>, and the lease columns that a guarded transition gives back.\<close>

definition mutable_payment :: "terminal_transition \<Rightarrow> payment_row \<Rightarrow> bool" where
  "mutable_payment tt p \<longleftrightarrow> p_id p = tt_paymentId tt \<and>
     p_status p \<in> set PROVIDER_MUTABLE_PAYMENT_STATUSES \<and>
     (case tt_leaseGuard tt of None \<Rightarrow> True | Some g \<Rightarrow> has_intent_lease g p)"

definition drop_intent_lease :: "payment_row \<Rightarrow> payment_row" where
  "drop_intent_lease p = p\<lparr>p_intentLeaseOwnerToken := None, p_intentLeaseExpiresAt := None\<rparr>"

definition give_back_lease :: "terminal_transition \<Rightarrow> payment_row \<Rightarrow> payment_row" where
  "give_back_lease tt p = (if tt_leaseGuard tt = None then p else drop_intent_lease p)"
definition succeed_payment ::
    "env \<Rightarrow> terminal_transition \<Rightarrow> order_row \<Rightarrow> db \<Rightarrow> api_error + db" where
  "succeed_payment e tt x db =
     (let handledAt = (case tt_occurredAt tt of None \<Rightarrow> e_now e | Some t \<Rightarrow> t);
          projected = projectOrderStatus PsPaid (o_fulfillmentState x);
          db1 = upd_payments (mutable_payment tt)
            (\<lambda>p. (give_back_lease tt p)\<lparr>p_status := PaySucceeded, p_paidAt := Some handledAt,
               p_failedReason := None,
               p_providerTradeNo := (if present (tt_providerTradeNo tt) then tt_providerTradeNo tt
                                     else p_providerTradeNo p),
               p_updatedAt := e_now e\<rparr>) db;
          db2 = upd_orders (\<lambda>y. o_id y = tt_orderId tt)
            (\<lambda>y. y\<lparr>o_status := projected, o_paymentState := PsPaid, o_paidAt := Some handledAt,
                     o_updatedAt := e_now e\<rparr>) db1;
          db3 = (if o_status x \<noteq> projected
                 then log_status (tt_orderId tt) (Some (o_status x)) projected
                        (tt_succeededOrderEventReason tt) None db2
                 else db2)
      in bindR (createPendingDispatchCommands e (tt_orderId tt) db3) (\<lambda>(_, db4). Inr db4))"

text \<open>An order is canceled for a failed payment, unless it is already.\<close>

definition cancel_unpaid_order :: "env \<Rightarrow> uuid \<Rightarrow> order_row \<Rightarrow> string \<Rightarrow> db \<Rightarrow> db" where
  "cancel_unpaid_order e orderId x reason db =
     (if o_status x \<noteq> OsCanceled
      then log_status orderId (Some (o_status x)) OsCanceled reason None
        (upd_orders (\<lambda>y. o_id y = orderId)
          (\<lambda>y. y\<lparr>o_status := OsCanceled, o_paymentState := PsPaymentFailed,
                   o_fulfillmentState := FsCanceled, o_canceledAt := Some (e_now e),
                   o_updatedAt := e_now e\<rparr>) db)
      else db)"

definition fail_payment :: "env \<Rightarrow> terminal_transition \<Rightarrow> order_row \<Rightarrow> db \<Rightarrow> api_error + db" where
  "fail_payment e tt x db =
     (let db1 = upd_payments (mutable_payment tt)
        (\<lambda>p. (give_back_lease tt p)\<lparr>p_status := PayFailed,
           p_failedReason := Some (case tt_failedReason tt of
              None \<Rightarrow> ''provider_reported_failed'' | Some r \<Rightarrow> r),
           p_updatedAt := e_now e\<rparr>) db
      in releaseActiveReservationsForOrder e (tt_orderId tt) ''payment_failed''
           (cancel_unpaid_order e (tt_orderId tt) x (tt_failedOrderEventReason tt) db1))"

definition close_code_attempt :: "env \<Rightarrow> code_transition \<Rightarrow> db \<Rightarrow> api_error + db" where
  "close_code_attempt e ct db =
     (case update_attempt (\<lambda>a. ca_id a = ct_attemptId ct)
        (\<lambda>a. (drop_lease (ct_patch ct a))\<lparr>ca_status := ct_status ct, ca_isActive := False,
               ca_recoveryNextAt := None, ca_updatedAt := e_now e\<rparr>) db of
        (None, _) \<Rightarrow> Inl (OtherError ''payment_code_attempt_terminal_update_lost'')
      | (Some _, db1) \<Rightarrow> Inr db1)"

definition transitionProviderPaymentTerminal ::
    "env \<Rightarrow> terminal_transition \<Rightarrow> db \<Rightarrow> api_error + terminal_outcome \<times> db" where
  "transitionProviderPaymentTerminal e tt db =
     (case tt_providerId tt of None \<Rightarrow> Inr (TStale, db)
      | Some providerId \<Rightarrow>
          if event_known providerId (tt_providerEventId tt) db then Inr (TDuplicate, db)
          else case payment_with_order (tt_paymentId tt) db of None \<Rightarrow> Inr (TStale, db)
          | Some (p, x) \<Rightarrow>
              if \<not> may_transition e tt p x db then Inr (TStale, db)
              else case record_payment_event (payment_event e (tt_paymentId tt) (p_providerId p)
                  (case tt_eventType tt of Some t \<Rightarrow> t
                   | None \<Rightarrow> ''reconcile.payment.'' @
                             (if tt_succeeded tt then ''succeeded'' else ''failed''))
                  (tt_providerEventId tt) (tt_signatureValid tt)) db of
                (False, _) \<Rightarrow> Inr (TDuplicate, db)
              | (True, db1) \<Rightarrow>
                  bindR (if tt_succeeded tt then succeed_payment e tt x db1
                         else fail_payment e tt x db1)
                  (\<lambda>db2. bindR (case tt_paymentCodeAttempt tt of None \<Rightarrow> Inr db2
                                | Some ct \<Rightarrow> close_code_attempt e ct db2)
                    (\<lambda>db3. Inr (TApplied, db3))))"

definition terminal_update ::
    "uuid \<Rightarrow> uuid \<Rightarrow> bool \<Rightarrow> string \<Rightarrow> string option \<Rightarrow> uuid option \<Rightarrow> ms option \<Rightarrow> string option \<Rightarrow>
     string option \<Rightarrow> bool \<Rightarrow> (string \<times> int) option \<Rightarrow> terminal_transition" where
  "terminal_update paymentId orderId succeeded providerEventId providerTradeNo providerId
      occurredAt failedReason eventType allowIncident leaseGuard =
     \<lparr>tt_paymentId = paymentId, tt_orderId = orderId, tt_succeeded = succeeded,
      tt_providerEventId = providerEventId, tt_providerTradeNo = providerTradeNo,
      tt_providerId = providerId, tt_occurredAt = occurredAt, tt_failedReason = failedReason,
      tt_eventType = eventType, tt_signatureValid = True,
      tt_succeededOrderEventReason = ''reconcile_succeeded'',
      tt_failedOrderEventReason = ''reconcile_payment_failed'',
      tt_allowIncidentLockedResolution = allowIncident, tt_leaseGuard = leaseGuard,
      tt_paymentCodeAttempt = None\<rparr>"

definition applyPaymentStatusUpdate ::
    "env \<Rightarrow> terminal_transition \<Rightarrow> db \<Rightarrow> api_error + bool \<times> db" where
  "applyPaymentStatusUpdate e update db =
     bindR (transitionProviderPaymentTerminal e update db)
       (\<lambda>(outcome, db1). Inr (outcome = TApplied, db1))"

subsection \<open>Provider results\<close>

definition canDispatchPaymentSuccess :: "uuid \<Rightarrow> db \<Rightarrow> bool" where
  "canDispatchPaymentSuccess orderId db =
     (case [(p, x). p \<leftarrow> db_payments db, x \<leftarrow> db_orders db,
              o_id x = p_orderId p \<and> p_orderId p = orderId] of
        [] \<Rightarrow> False
      | (p, x) # _ \<Rightarrow> \<not> isPaymentIncidentLocked x (Some (p_status p)))"

text \<open>Publishing what is pending; the code catches and drops what this throws.\<close>

definition publish_quietly :: "env \<Rightarrow> publisher \<Rightarrow> uuid \<Rightarrow> db \<Rightarrow> db" where
  "publish_quietly e publish orderId db = fst (dispatchPendingCommandsForOrder e publish orderId db)"

record provider_result =
  ppr_paymentId :: uuid
  ppr_tradeNo :: "string option"
  ppr_succeeded :: bool
  ppr_paidAt :: "ms option"
  ppr_failedReason :: "string option"
  ppr_eventType :: string
  ppr_providerEventId :: string
  ppr_allowIncidentLockedResolution :: bool

definition applyProviderPaymentResult ::
    "env \<Rightarrow> publisher \<Rightarrow> provider_result \<Rightarrow> db \<Rightarrow> db \<times> (api_error + bool)" where
  "applyProviderPaymentResult e publish input db =
     (case find_payment (ppr_paymentId input) db of None \<Rightarrow> (db, Inr False)
      | Some row \<Rightarrow>
          bindS (atomic (applyPaymentStatusUpdate e (terminal_update (p_id row) (p_orderId row)
             (ppr_succeeded input) (ppr_providerEventId input) (ppr_tradeNo input)
             (Some (p_providerId row)) (ppr_paidAt input) (ppr_failedReason input)
             (Some (ppr_eventType input)) (ppr_allowIncidentLockedResolution input) None)) db)
          (\<lambda>applied db1.
             (if applied \<and> ppr_succeeded input \<and> canDispatchPaymentSuccess (p_orderId row) db1
              then publish_quietly e publish (p_orderId row) db1 else db1, Inr applied)))"

record code_attempt_result =
  cr_attemptId :: uuid
  cr_paymentId :: uuid
  cr_orderId :: uuid
  cr_providerId :: uuid
  cr_providerTradeNo :: "string option"
  cr_succeeded :: bool
  cr_attemptStatus :: code_attempt_status
  cr_ownerToken :: string
  cr_fence :: int
  cr_paidAt :: "ms option"
  cr_failedReason :: "string option"
  cr_eventType :: string
  cr_providerEventId :: string
  cr_attemptPatch :: "code_attempt_row \<Rightarrow> code_attempt_row"
  cr_allowIncidentLockedResolution :: bool

definition code_attempt_transition :: "code_attempt_result \<Rightarrow> terminal_transition" where
  "code_attempt_transition input =
     (terminal_update (cr_paymentId input) (cr_orderId input) (cr_succeeded input)
        (cr_providerEventId input) (cr_providerTradeNo input) (Some (cr_providerId input))
        (cr_paidAt input) (cr_failedReason input) (Some (cr_eventType input))
        (cr_allowIncidentLockedResolution input) None)
     \<lparr>tt_paymentCodeAttempt := Some \<lparr>ct_attemptId = cr_attemptId input,
        ct_status = cr_attemptStatus input, ct_ownerToken = cr_ownerToken input,
        ct_fence = cr_fence input, ct_patch = cr_attemptPatch input\<rparr>\<rparr>"

definition applyPaymentCodeAttemptProviderResult ::
    "env \<Rightarrow> publisher \<Rightarrow> code_attempt_result \<Rightarrow> db \<Rightarrow> db \<times> (api_error + terminal_outcome)" where
  "applyPaymentCodeAttemptProviderResult e publish input db =
     bindS (atomic (transitionProviderPaymentTerminal e (code_attempt_transition input)) db)
       (\<lambda>outcome db1.
          (if outcome = TApplied \<and> cr_succeeded input
           then publish_quietly e publish (cr_orderId input) db1 else db1, Inr outcome))"

text \<open>
  An unknown provider or reversal outcome is an incident, not evidence that the charge failed: the
  reservation stays active until a later query or an operator proves a terminal fact.
\<close>

definition manual_attempt :: "env \<Rightarrow> string \<Rightarrow> code_attempt_row \<Rightarrow> code_attempt_row" where
  "manual_attempt e reason a = (drop_lease a)\<lparr>ca_status := CaManualHandling, ca_isActive := True,
     ca_manualReason := Some reason, ca_failureCode := Some ''PAYMENT_CODE_MANUAL_HANDLING'',
     ca_failureMessage := Some MsgCodeManualVerification, ca_finishedAt := Some (e_now e),
     ca_recoveryNextAt := None, ca_updatedAt := e_now e\<rparr>"

definition markPaymentCodeAttemptManualHandling ::
    "env \<Rightarrow> uuid \<Rightarrow> string \<Rightarrow> int \<Rightarrow> string \<Rightarrow> db \<Rightarrow> api_error + terminal_outcome \<times> db" where
  "markPaymentCodeAttemptManualHandling e attemptId ownerToken fence reason db =
     (case attempt_context attemptId db of None \<Rightarrow> Inr (TStale, db)
      | Some (a, p, x) \<Rightarrow>
          if ca_leaseOwnerToken a \<noteq> Some ownerToken \<or> ca_leaseFence a \<noteq> fence \<or>
             (case ca_leaseExpiresAt a of None \<Rightarrow> True | Some t \<Rightarrow> t \<le> e_now e) \<or>
             p_status p \<in> {PaySucceeded, PayFailed, PayExpired, PayCanceled, PayRefunded}
          then Inr (TStale, db)
          else
           (let db1 = upd_payments (\<lambda>q. p_id q = p_id p)
              (\<lambda>q. q\<lparr>p_status := PayUnknown, p_failedReason := Some reason,
                       p_updatedAt := e_now e\<rparr>) db;
                db2 = upd_orders (\<lambda>y. o_id y = o_id x)
              (\<lambda>y. y\<lparr>o_status := OsManualHandling, o_paymentState := PsPaymentUnknown,
                       o_fulfillmentState := FsManualHandling, o_updatedAt := e_now e\<rparr>) db1;
                db3 = (if o_status x \<noteq> OsManualHandling
                       then log_status (o_id x) (Some (o_status x)) OsManualHandling
                              ''payment_code_recovery_manual_handling''
                              (Some [(''attemptId'', JId attemptId), (''reason'', JStr reason)]) db2
                       else db2);
                db4 = snd (record_payment_event (payment_event e (p_id p) (p_providerId p)
                        ''payment_code.recovery_manual_handling''
                        (''payment_code_recovery_manual:'' @ show_int (int attemptId) @ '':'' @
                           show_int fence) True) db3)
            in case update_attempt (\<lambda>c. ca_id c = ca_id a) (manual_attempt e reason) db4 of
                 (None, _) \<Rightarrow> Inl (OtherError ''payment_code_attempt_manual_update_lost'')
               | updated \<Rightarrow> bindR (checked_attempt updated) (\<lambda>(_, db5). Inr (TApplied, db5))))"

definition markPaymentCodeRecoveryManualHandling ::
    "env \<Rightarrow> uuid \<Rightarrow> string \<Rightarrow> int \<Rightarrow> string \<Rightarrow> db \<Rightarrow> api_error + bool \<times> db" where
  "markPaymentCodeRecoveryManualHandling e attemptId ownerToken fence reason db =
     bindR (markPaymentCodeAttemptManualHandling e attemptId ownerToken fence reason db)
       (\<lambda>(outcome, db1). Inr (outcome = TApplied, db1))"

subsection \<open>The mock endpoints\<close>

record mock_result =
  mr_paymentNo :: string
  mr_paymentId :: uuid
  mr_status :: payment_status
  mr_orderId :: uuid
  mr_alreadyHandled :: bool

definition assertMockPaymentEnabled :: "env \<Rightarrow> api_error + unit" where
  "assertMockPaymentEnabled e =
     (if e_paymentMockEnabled e then Inr ()
      else Inl (NotFoundException ''Mock payment endpoint is disabled''))"

text \<open>Both endpoints start alike: the payment, a mock one, and the event that makes it once only.\<close>

definition mock_event ::
    "env \<Rightarrow> string \<Rightarrow> string \<Rightarrow> string \<Rightarrow> db \<Rightarrow>
     api_error + (payment_row \<times> order_row \<times> bool) \<times> db" where
  "mock_event e paymentNo event eventType db =
     (case payment_joins (\<lambda>p x pp. p_paymentNo p = paymentNo) db of
        [] \<Rightarrow> Inl (NotFoundException ''Payment not found'')
      | (p, x, pp) # _ \<Rightarrow>
          if pp_code pp \<noteq> ''mock''
          then Inl (ConflictException ''Only mock provider can use this endpoint'')
          else (let (inserted, db1) = record_payment_event (payment_event e (p_id p)
                      (p_providerId p) eventType (''mock:'' @ event @ '':'' @ paymentNo) True) db
                in Inr ((p, x, inserted), db1)))"

definition mock_response :: "payment_row \<Rightarrow> order_row \<Rightarrow> payment_status \<Rightarrow> bool \<Rightarrow> mock_result" where
  "mock_response p x status alreadyHandled =
     \<lparr>mr_paymentNo = p_paymentNo p, mr_paymentId = p_id p, mr_status = status,
      mr_orderId = o_id x, mr_alreadyHandled = alreadyHandled\<rparr>"

definition mock_succeed_tx :: "env \<Rightarrow> string \<Rightarrow> db \<Rightarrow> api_error + mock_result \<times> db" where
  "mock_succeed_tx e paymentNo db =
     bindR (mock_event e paymentNo ''succeed'' ''mock.payment.succeeded'' db)
     (\<lambda>((p, x, inserted), db1).
        if \<not> inserted then Inr (mock_response p x (p_status p) True, db1)
        else
         (let projected = projectOrderStatus PsPaid (o_fulfillmentState x);
              db2 = (if p_status p \<noteq> PaySucceeded
                then (let db1a = upd_payments (\<lambda>q. p_id q = p_id p)
                        (\<lambda>q. q\<lparr>p_status := PaySucceeded, p_paidAt := Some (e_now e),
                                 p_failedReason := None, p_updatedAt := e_now e\<rparr>) db1;
                          db1b = upd_orders (\<lambda>y. o_id y = o_id x)
                        (\<lambda>y. y\<lparr>o_status := projected, o_paymentState := PsPaid,
                                 o_paidAt := Some (e_now e), o_updatedAt := e_now e\<rparr>) db1a
                      in if o_status x \<noteq> projected
                         then log_status (o_id x) (Some (o_status x)) projected
                                ''payment_succeeded'' None db1b
                         else db1b)
                else db1)
          in bindR (createPendingDispatchCommands e (o_id x) db2)
               (\<lambda>(_, db3). Inr (mock_response p x PaySucceeded False, db3))))"

definition markMockSucceeded ::
    "env \<Rightarrow> publisher \<Rightarrow> string \<Rightarrow> db \<Rightarrow> db \<times> (api_error + mock_result)" where
  "markMockSucceeded e publish paymentNo db =
     (case assertMockPaymentEnabled e of Inl err \<Rightarrow> (db, Inl err)
      | Inr _ \<Rightarrow> bindS (atomic (mock_succeed_tx e paymentNo) db) (\<lambda>transition db1.
          if mr_alreadyHandled transition then (db1, Inr transition)
          else bindS (dispatchPendingCommandsForOrder e publish (mr_orderId transition) db1)
                 (\<lambda>_ db2. (db2, Inr transition))))"

definition mock_fail_tx :: "env \<Rightarrow> string \<Rightarrow> string \<Rightarrow> db \<Rightarrow> api_error + mock_result \<times> db" where
  "mock_fail_tx e paymentNo reason db =
     bindR (mock_event e paymentNo ''fail'' ''mock.payment.failed'' db)
     (\<lambda>((p, x, inserted), db1).
        if \<not> inserted then Inr (mock_response p x (p_status p) True, db1)
        else
         (let db2 = upd_payments (\<lambda>q. p_id q = p_id p)
                (\<lambda>q. q\<lparr>p_status := PayFailed, p_failedReason := Some reason,
                         p_updatedAt := e_now e\<rparr>) db1
          in bindR (releaseActiveReservationsForOrder e (o_id x) ''payment_failed''
                      (cancel_unpaid_order e (o_id x) x ''payment_failed'' db2))
               (\<lambda>db3. Inr (mock_response p x PayFailed False, db3))))"

definition markMockFailed ::
    "env \<Rightarrow> string \<Rightarrow> string \<Rightarrow> db \<Rightarrow> db \<times> (api_error + mock_result)" where
  "markMockFailed e paymentNo reason db =
     (case assertMockPaymentEnabled e of Inl err \<Rightarrow> (db, Inl err)
      | Inr _ \<Rightarrow> atomic (mock_fail_tx e paymentNo reason) db)"

end
