(* ===== verification/Payment_Jobs.thy ===== *)
theory Payment_Jobs
  imports Payments
begin

text \<open>
  \<open>payments/payments.service.ts\<close>, second part: the jobs that ask the provider. The expiry job
  queries a payment before it closes it, the reconciliation job and the machine's status poll query
  a payment that is still open. A query is a call of the provider between two transactions; each
  transaction is a definition of its own, so that a run may put anything between them.

  The parameter \<open>now\<close> of a job is \<open>e_now\<close>.
\<close>

subsection \<open>Compensation window\<close>

definition readTimeoutCompensationSeconds :: "metadata option \<Rightarrow> int" where
  "readTimeoutCompensationSeconds publicConfigJson =
     (case publicConfigJson of None \<Rightarrow> 120
      | Some m \<Rightarrow> (case map_of m ''timeoutCompensationSeconds'' of
          Some (JInt value) \<Rightarrow> if 0 \<le> value then value else 120
        | _ \<Rightarrow> 120))"

definition isPastTimeoutCompensation :: "ms option \<Rightarrow> metadata option \<Rightarrow> ms \<Rightarrow> bool" where
  "isPastTimeoutCompensation expiresAt publicConfigJson now \<longleftrightarrow>
     (case expiresAt of None \<Rightarrow> 0 | Some t \<Rightarrow> t) +
       readTimeoutCompensationSeconds publicConfigJson * 1000 \<le> now"

definition ascii_lower :: "char \<Rightarrow> char" where
  "ascii_lower c = (let n = of_char c :: nat in
     if 65 \<le> n \<and> n \<le> 90 then char_of (n + 32) else c)"

fun contains :: "string \<Rightarrow> string \<Rightarrow> bool" where
  "contains needle [] = (needle = [])"
| "contains needle (c # cs) = (take (length needle) (c # cs) = needle \<or> contains needle cs)"

text \<open>The third alternative of the pattern is Chinese; it cannot occur in a \<open>string\<close> here.\<close>

definition isTradeNotFoundError :: "string \<Rightarrow> bool" where
  "isTradeNotFoundError message = (let m = map ascii_lower message in
     contains ''acq.trade_not_exist'' m \<or> contains ''trade not exist'' m)"

definition isProviderPaymentUncertainStatus :: "query_status \<Rightarrow> bool" where
  "isProviderPaymentUncertainStatus status \<longleftrightarrow> status \<in> {QPending, QProcessing}"

fun query_status_string :: "query_status \<Rightarrow> string" where
  "query_status_string QPending = ''pending''"
| "query_status_string QProcessing = ''processing''"
| "query_status_string QSucceeded = ''succeeded''"
| "query_status_string QFailed = ''failed''"
| "query_status_string QExpired = ''expired''"
| "query_status_string QCanceled = ''canceled''"

fun query_payment_status :: "query_status \<Rightarrow> payment_status" where
  "query_payment_status QPending = PayPending"
| "query_payment_status QProcessing = PayProcessing"
| "query_payment_status QSucceeded = PaySucceeded"
| "query_payment_status QFailed = PayFailed"
| "query_payment_status QExpired = PayExpired"
| "query_payment_status QCanceled = PayCanceled"

fun reconciliation_state_string :: "reconciliation_state \<Rightarrow> string" where
  "reconciliation_state_string ProviderTradeNotExist = ''provider_trade_not_exist''"
| "reconciliation_state_string WaitBuyerPay = ''wait_buyer_pay''"

subsection \<open>Reconciliation attempts\<close>

definition nextPaymentReconciliationAttemptNo ::
    "uuid \<Rightarrow> payment_attempt_trigger \<Rightarrow> db \<Rightarrow> nat" where
  "nextPaymentReconciliationAttemptNo paymentId trigger db =
     count_where (\<lambda>a. pa_paymentId a = paymentId \<and> pa_trigger a = trigger)
       (db_paymentAttempts db) + 1"

definition payment_attempt ::
    "env \<Rightarrow> payment_row \<Rightarrow> payment_attempt_trigger \<Rightarrow> nat \<Rightarrow> string \<Rightarrow> ms option \<Rightarrow> db \<Rightarrow>
     payment_attempt_row" where
  "payment_attempt e p trigger attemptNo status finishedAt db =
     \<lparr>pa_id = db_next db, pa_paymentId = p_id p, pa_providerId = p_providerId p,
      pa_trigger = trigger, pa_attemptNo = attemptNo, pa_status = status,
      pa_providerPaymentStatus = None, pa_providerTradeNo = None, pa_errorCode = None,
      pa_errorMessage = None, pa_nextRetryAt = None, pa_startedAt = e_now e,
      pa_finishedAt = finishedAt\<rparr>"

definition insert_payment_attempt :: "payment_attempt_row \<Rightarrow> db \<Rightarrow> db" where
  "insert_payment_attempt a db =
     db\<lparr>db_paymentAttempts := db_paymentAttempts db @ [a], db_next := Suc (db_next db)\<rparr>"

definition upd_payment_attempt ::
    "uuid \<Rightarrow> (payment_attempt_row \<Rightarrow> payment_attempt_row) \<Rightarrow> db \<Rightarrow> db" where
  "upd_payment_attempt i f db =
     db\<lparr>db_paymentAttempts := upd_where (\<lambda>a. pa_id a = i) f (db_paymentAttempts db)\<rparr>"

definition recordExpireCompensationAttempt ::
    "env \<Rightarrow> payment_row \<Rightarrow> payment_query_result \<Rightarrow> ms option \<Rightarrow> db \<Rightarrow> db" where
  "recordExpireCompensationAttempt e p result nextRetryAt db =
     insert_payment_attempt
       ((payment_attempt e p PtExpireCompensation
           (nextPaymentReconciliationAttemptNo (p_id p) PtExpireCompensation db)
           (query_status_string (pqr_status result)) (Some (e_now e)) db)
        \<lparr>pa_providerPaymentStatus := Some (query_payment_status (pqr_status result)),
         pa_providerTradeNo := pqr_providerTradeNo result, pa_nextRetryAt := nextRetryAt\<rparr>) db"

definition query_input_of :: "payment_row \<Rightarrow> payment_query_input" where
  "query_input_of p = \<lparr>pq_paymentNo = p_paymentNo p, pq_providerTradeNo = p_providerTradeNo p,
     pq_amountCents = p_amountCents p\<rparr>"

definition cancel_input_of :: "payment_row \<Rightarrow> cancel_input" where
  "cancel_input_of p = \<lparr>cn_paymentNo = p_paymentNo p, cn_providerTradeNo = p_providerTradeNo p\<rparr>"

subsection \<open>Expiry\<close>

definition overdue :: "ms \<Rightarrow> payment_row \<Rightarrow> bool" where
  "overdue now p \<longleftrightarrow> p_status p \<in> {PayCreated, PayPending, PayProcessing} \<and>
     (case p_expiresAt p of None \<Rightarrow> False | Some t \<Rightarrow> 0 < t \<and> t < now)"

text \<open>
  A code attempt that was submitted belongs to its worker: the job wakes it and leaves the payment.
\<close>

definition submitted_attempt :: "payment_row \<Rightarrow> db \<Rightarrow> code_attempt_row option" where
  "submitted_attempt p db =
     (if p_method p = PmPaymentCode
      then (case active_attempt (p_id p) db of
              Some a \<Rightarrow> if ca_status a \<noteq> CaCreated then Some a else None
            | None \<Rightarrow> None)
      else None)"

definition wake_attempt :: "env \<Rightarrow> uuid \<Rightarrow> db \<Rightarrow> db" where
  "wake_attempt e i = upd_attempts (\<lambda>a. ca_id a = i \<and> ca_isActive a)
     (\<lambda>a. a\<lparr>ca_recoveryNextAt := Some (e_now e), ca_updatedAt := e_now e\<rparr>)"

text \<open>The attempt that was admitted but never submitted is canceled with its order.\<close>

definition cancel_created_attempt ::
    "env \<Rightarrow> uuid \<Rightarrow> string \<Rightarrow> text_template \<Rightarrow> db \<Rightarrow> code_attempt_row option \<times> db" where
  "cancel_created_attempt e i code message = update_attempt
     (\<lambda>a. ca_id a = i \<and> ca_status a = CaCreated \<and> ca_isActive a)
     (\<lambda>a. a\<lparr>ca_status := CaCanceled, ca_isActive := False, ca_failureCode := Some code,
            ca_failureMessage := Some message, ca_finishedAt := Some (e_now e),
            ca_updatedAt := e_now e\<rparr>)"

definition may_expire :: "env \<Rightarrow> payment_row \<Rightarrow> order_row \<Rightarrow> bool" where
  "may_expire e p x \<longleftrightarrow> canApplyProviderTerminalStatus (p_status p) \<and>
     \<not> isPaymentIncidentLocked x (Some (p_status p)) \<and>
     (case p_expiresAt p of None \<Rightarrow> False | Some t \<Rightarrow> t < e_now e)"

definition expire_order :: "env \<Rightarrow> order_row \<Rightarrow> db \<Rightarrow> db" where
  "expire_order e x db =
     (if o_status x \<noteq> OsPaymentExpired
      then log_status (o_id x) (Some (o_status x)) OsPaymentExpired ''payment_expired'' None
        (upd_orders (\<lambda>y. o_id y = o_id x)
          (\<lambda>y. y\<lparr>o_status := OsPaymentExpired, o_paymentState := PsPaymentExpired,
                   o_fulfillmentState := FsCanceled, o_updatedAt := e_now e\<rparr>) db)
      else db)"

text \<open>The rows the transaction locks: the payment with the order the job read it with.\<close>

definition locked_payment :: "payment_row \<Rightarrow> db \<Rightarrow> (payment_row \<times> order_row) option" where
  "locked_payment payment db =
     (case [(p, x). p \<leftarrow> db_payments db, x \<leftarrow> db_orders db,
              o_id x = p_orderId p \<and> p_id p = p_id payment \<and> o_id x = p_orderId payment] of
        [] \<Rightarrow> None | c # _ \<Rightarrow> Some c)"

definition expire_locally ::
    "env \<Rightarrow> payment_row \<Rightarrow> db \<Rightarrow> api_error + bool \<times> db" where
  "expire_locally e payment db =
     (case locked_payment payment db of None \<Rightarrow> Inr (False, db)
      | Some (p, x) \<Rightarrow>
          if \<not> may_expire e p x then Inr (False, db)
          else
           (let activeAttempt = active_attempt (p_id payment) db;
                eventId = ''expired:'' @ p_paymentNo payment in
            if (case activeAttempt of None \<Rightarrow> False | Some a \<Rightarrow> ca_status a \<noteq> CaCreated)
            then Inr (False, db)
            else
             (let db1 = (case activeAttempt of None \<Rightarrow> db
                         | Some a \<Rightarrow> snd (cancel_created_attempt e (ca_id a)
                             ''PAYMENT_CODE_EXPIRED_BEFORE_SUBMISSION''
                             MsgCodeExpiredBeforeSubmission db)) in
              if event_known (p_providerId payment) eventId db1 then Inr (False, db1)
              else
               (let db2 = upd_payments (\<lambda>q. p_id q = p_id payment \<and>
                        p_status q \<in> set PROVIDER_MUTABLE_PAYMENT_STATUSES)
                      (\<lambda>q. q\<lparr>p_status := PayExpired, p_updatedAt := e_now e\<rparr>) db1
                in case record_payment_event (payment_event e (p_id payment)
                       (p_providerId payment) ''payment.expired'' eventId True) db2 of
                     (False, _) \<Rightarrow> Inl (OtherError ''payment expiry event conflict'')
                   | (True, db3) \<Rightarrow>
                       bindR (releaseActiveReservationsForOrder e (p_orderId payment)
                                ''payment_expired'' (expire_order e x db3))
                         (\<lambda>db4. Inr (True, db4))))))"
text \<open>What the job records when a query or a step after it throws.\<close>

definition record_expiry_failure :: "env \<Rightarrow> payment_row \<Rightarrow> string \<Rightarrow> db \<Rightarrow> db" where
  "record_expiry_failure e p message db =
     (let db1 = insert_payment_attempt
        ((payment_attempt e p PtExpireCompensation
            (nextPaymentReconciliationAttemptNo (p_id p) PtExpireCompensation db)
            ''network_error'' (Some (e_now e)) db)
         \<lparr>pa_errorCode := Some ''expire_compensation_failed'',
          pa_errorMessage := Some (take 500 message),
          pa_nextRetryAt := Some (e_now e + reconcileBackoffMs 1)\<rparr>) db
      in snd (record_payment_event (payment_event e (p_id p) (p_providerId p)
           ''payment.expire_compensation_failed''
           (''expire_compensation_failed:'' @ p_paymentNo p @ '':'' @ show_int (e_now e)) True) db1))"

text \<open>
  The query before the close: \<open>Some applied\<close> is the answer of the job for this payment, \<open>None\<close>
  goes on to the local expiry. \<open>Inl\<close> is what the \<open>try\<close> block throws.
\<close>

definition expiry_success ::
    "env \<Rightarrow> publisher \<Rightarrow> payment_row \<Rightarrow> payment_query_result \<Rightarrow> db \<Rightarrow>
     db \<times> (api_error + bool option)" where
  "expiry_success e publish p result db =
     bindS (atomic (applyPaymentStatusUpdate e (terminal_update (p_id p) (p_orderId p) True
        (''expire_query:'' @ p_paymentNo p @ '':succeeded:'' @ show_int (e_now e))
        (pqr_providerTradeNo result) (Some (p_providerId p))
        (Some (case pqr_paidAt result of None \<Rightarrow> e_now e | Some t \<Rightarrow> t)) None None False None))
       (recordExpireCompensationAttempt e p result None db))
     (\<lambda>applied db1. (if applied then publish_quietly e publish (p_orderId p) db1 else db1,
                     Inr (Some applied)))"

definition query_before_close ::
    "env \<Rightarrow> publisher \<Rightarrow> payment_provider \<Rightarrow> metadata option \<Rightarrow> payment_row \<Rightarrow> db \<Rightarrow>
     db \<times> (string + bool option)" where
  "query_before_close e publish provider publicConfigJson p db =
     (case rp_queryPayment provider (query_input_of p) of Inl message \<Rightarrow> (db, Inl message)
      | Inr result \<Rightarrow>
          if pqr_status result = QSucceeded
          then (case expiry_success e publish p result db of
                  (db1, Inl err) \<Rightarrow> (db1, Inl (error_message err)) | (db1, Inr r) \<Rightarrow> (db1, Inr r))
          else if isProviderPaymentUncertainStatus (pqr_status result) \<and>
                  \<not> isPastTimeoutCompensation (p_expiresAt p) publicConfigJson (e_now e)
          then (recordExpireCompensationAttempt e p result
                  (Some (e_now e + reconcileBackoffMs 1)) db, Inr (Some False))
          else if isProviderPaymentUncertainStatus (pqr_status result)
          then (case rp_cancelPayment provider (cancel_input_of p) of
                  Inl err \<Rightarrow> (db, Inl (provider_message err)) | Inr _ \<Rightarrow> (db, Inr None))
          else (db, Inr None))"

definition ask_provider ::
    "env \<Rightarrow> publisher \<Rightarrow> payment_provider_row \<Rightarrow> metadata option \<Rightarrow> payment_row \<Rightarrow> db \<Rightarrow>
     db \<times> bool option" where
  "ask_provider e publish pp publicConfigJson p db =
     (case e_registry e (pp_code pp) of None \<Rightarrow> (db, None)
      | Some provider \<Rightarrow>
          (case query_before_close e publish provider publicConfigJson p db of
             (db1, Inr answer) \<Rightarrow> (db1, answer)
           | (db1, Inl message) \<Rightarrow>
               if \<not> present (p_providerTradeNo p) \<and> isTradeNotFoundError message \<and>
                  isPastTimeoutCompensation (p_expiresAt p) publicConfigJson (e_now e)
               then (db1, None)
               else (record_expiry_failure e p message db1, Some False)))"

definition expire_payment ::
    "env \<Rightarrow> publisher \<Rightarrow> payment_row \<times> order_row \<times> payment_provider_row \<Rightarrow> db \<Rightarrow>
     db \<times> (api_error + bool)" where
  "expire_payment e publish = (\<lambda>(p, x, pp) db.
     case submitted_attempt p db of
       Some a \<Rightarrow> (wake_attempt e (ca_id a) db, Inr False)
     | None \<Rightarrow>
         (case ask_provider e publish pp (cs_publicConfig (e_configs e) (p_providerId p)
                 (o_machineId x)) p db of
            (db1, Some answer) \<Rightarrow> (db1, Inr answer)
          | (db1, None) \<Rightarrow> atomic (expire_locally e p) db1))"

definition expireOverduePayments :: "env \<Rightarrow> publisher \<Rightarrow> db \<Rightarrow> db \<times> (api_error + nat)" where
  "expireOverduePayments e publish db =
     bindS (promise_all (expire_payment e publish)
              (payment_joins (\<lambda>p x pp. overdue (e_now e) p) db) db)
       (\<lambda>results db1. (db1, Inr (count_where (\<lambda>r. r) results)))"

subsection \<open>Scheduled reconciliation\<close>

text \<open>
  The condition of the query as PostgreSQL reads it. \<open>and(\<dots>)\<close> joins its arguments with \<open>and\<close>
  and adds parentheses around the whole only; the raw fragment \<open>expires_at IS NULL OR expires_at >
  now\<close> has none, so its \<open>OR\<close>, which binds weaker, splits the condition in two.
\<close>

definition pending_conditions :: "ms \<Rightarrow> payment_row \<Rightarrow> bool" where
  "pending_conditions now p \<longleftrightarrow> p_status p \<in> {PayPending, PayProcessing} \<and>
     p_method p \<noteq> PmPaymentCode \<and>
     (case p_intentLeaseExpiresAt p of None \<Rightarrow> True | Some t \<Rightarrow> t < now) \<and>
     now - 24 * 60 * 60 * 1000 \<le> p_createdAt p"

definition retry_pending :: "ms \<Rightarrow> payment_row \<Rightarrow> db \<Rightarrow> bool" where
  "retry_pending now p db \<longleftrightarrow> list_ex (\<lambda>a. pa_paymentId a = p_id p \<and> pa_trigger a = PtScheduled \<and>
     (case pa_nextRetryAt a of None \<Rightarrow> False | Some t \<Rightarrow> now < t)) (db_paymentAttempts db)"

definition reconcilable_payment :: "ms \<Rightarrow> db \<Rightarrow> payment_row \<Rightarrow> bool" where
  "reconcilable_payment now db p \<longleftrightarrow>
     pending_conditions now p \<and> p_expiresAt p = None \<or>
     (case p_expiresAt p of None \<Rightarrow> False | Some t \<Rightarrow> now < t) \<and> \<not> retry_pending now p db"

definition finish_attempt ::
    "env \<Rightarrow> uuid \<Rightarrow> string \<Rightarrow> payment_query_result \<Rightarrow> ms option \<Rightarrow> db \<Rightarrow> db" where
  "finish_attempt e attemptId status result nextRetryAt = upd_payment_attempt attemptId
     (\<lambda>a. a\<lparr>pa_status := status,
            pa_providerPaymentStatus := Some (query_payment_status (pqr_status result)),
            pa_providerTradeNo := pqr_providerTradeNo result,
            pa_nextRetryAt := (case nextRetryAt of None \<Rightarrow> pa_nextRetryAt a | Some t \<Rightarrow> Some t),
            pa_finishedAt := Some (e_now e)\<rparr>)"

definition fail_attempt :: "env \<Rightarrow> uuid \<Rightarrow> string \<Rightarrow> ms option \<Rightarrow> db \<Rightarrow> db" where
  "fail_attempt e attemptId message nextRetryAt = upd_payment_attempt attemptId
     (\<lambda>a. a\<lparr>pa_status := ''network_error'', pa_errorCode := Some ''query_failed'',
            pa_errorMessage := Some (take 500 message),
            pa_nextRetryAt := (case nextRetryAt of None \<Rightarrow> pa_nextRetryAt a | Some t \<Rightarrow> Some t),
            pa_finishedAt := Some (e_now e)\<rparr>)"

definition status_or_state :: "payment_query_result \<Rightarrow> string" where
  "status_or_state result = (case pqr_reconciliationState result of
     Some st \<Rightarrow> reconciliation_state_string st
   | None \<Rightarrow> query_status_string (pqr_status result))"

text \<open>A terminal answer of the provider, handed to the transition; every other than success fails.\<close>

definition reconcile_update ::
    "env \<Rightarrow> string \<Rightarrow> payment_row \<Rightarrow> payment_query_result \<Rightarrow> (string \<times> int) option \<Rightarrow>
     terminal_transition" where
  "reconcile_update e source p result leaseGuard =
     terminal_update (p_id p) (p_orderId p) (pqr_status result = QSucceeded)
       (source @ '':'' @ p_paymentNo p @ '':'' @ query_status_string (pqr_status result) @ '':'' @
          show_int (e_now e))
       (pqr_providerTradeNo result) (Some (p_providerId p))
       (Some (case pqr_paidAt result of None \<Rightarrow> e_now e | Some t \<Rightarrow> t)) (pqr_failedReason result)
       None False leaseGuard"

definition final_status :: "payment_query_result \<Rightarrow> string" where
  "final_status result = (if pqr_status result = QSucceeded then ''succeeded'' else ''failed'')"

text \<open>One payment of the job; \<open>True\<close> counts as reconciled. What it throws is logged and dropped.\<close>

definition reconcile_answer ::
    "env \<Rightarrow> publisher \<Rightarrow> payment_row \<Rightarrow> uuid \<Rightarrow> nat \<Rightarrow> payment_query_result \<Rightarrow> db \<Rightarrow> db \<times> bool" where
  "reconcile_answer e publish p attemptId attemptNo result db =
     (if isProviderPaymentUncertainStatus (pqr_status result)
      then (finish_attempt e attemptId (status_or_state result) result
              (Some (e_now e + reconcileBackoffMs attemptNo)) db, False)
      else (case atomic (applyPaymentStatusUpdate e (reconcile_update e ''reconcile'' p result None))
              db of
              (db1, Inl err) \<Rightarrow> (db1, False)
            | (db1, Inr applied) \<Rightarrow>
                (let db2 = finish_attempt e attemptId (final_status result) result None db1
                 in (if applied \<and> pqr_status result = QSucceeded
                     then publish_quietly e publish (p_orderId p) db2 else db2, applied))))"

definition reconcile_payment ::
    "env \<Rightarrow> publisher \<Rightarrow> payment_row \<times> order_row \<times> payment_provider_row \<Rightarrow> db \<Rightarrow>
     db \<times> (api_error + bool)" where
  "reconcile_payment e publish = (\<lambda>(p, x, pp) db.
     if p_method p = PmPaymentCode then (db, Inr False)
     else case e_registry e (pp_code pp) of None \<Rightarrow> (db, Inr False)
     | Some provider \<Rightarrow>
         (let attemptNo = nextPaymentReconciliationAttemptNo (p_id p) PtScheduled db in
          if 8 < attemptNo
          then (insert_payment_attempt (payment_attempt e p PtScheduled attemptNo
                  ''max_attempts_exceeded'' (Some (e_now e)) db) db, Inr False)
          else
           (let attemptId = db_next db;
                db1 = insert_payment_attempt
                  (payment_attempt e p PtScheduled attemptNo ''pending'' None db) db
            in case rp_queryPayment provider (query_input_of p) of
                 Inl message \<Rightarrow>
                   (fail_attempt e attemptId message
                      (Some (e_now e + reconcileBackoffMs attemptNo)) db1, Inr False)
               | Inr result \<Rightarrow>
                   (case reconcile_answer e publish p attemptId attemptNo result db1 of
                      (db2, reconciled) \<Rightarrow> (db2, Inr reconciled)))))"

definition reconcilePendingPayments :: "env \<Rightarrow> publisher \<Rightarrow> db \<Rightarrow> db \<times> (api_error + nat)" where
  "reconcilePendingPayments e publish db =
     bindS (promise_all (reconcile_payment e publish)
              (take 50 (payment_joins (\<lambda>p x pp. reconcilable_payment (e_now e) db p) db)) db)
       (\<lambda>results db1. (db1, Inr (count_where (\<lambda>r. r) results)))"

subsection \<open>The poll of a machine's status\<close>

definition MACHINE_STATUS_POLL_MIN_INTERVAL_MS :: ms where
  "MACHINE_STATUS_POLL_MIN_INTERVAL_MS = 5000"

definition MACHINE_STATUS_RECONCILIATION_LEASE_MS :: ms where
  "MACHINE_STATUS_RECONCILIATION_LEASE_MS = 30000"

record poll_result =
  po_status :: "payment_status option"  \<comment> \<open>\<open>None\<close>: \<open>not_found\<close>\<close>
  po_reconciled :: bool
  po_reason :: "string option"

definition poll_answer :: "payment_status \<Rightarrow> string \<Rightarrow> poll_result" where
  "poll_answer status reason =
     \<lparr>po_status = Some status, po_reconciled = False, po_reason = Some reason\<rparr>"

text \<open>The guards before the lease: why the poll does nothing.\<close>

definition poll_refusal :: "env \<Rightarrow> payment_row \<Rightarrow> payment_provider_row \<Rightarrow> db \<Rightarrow> string option" where
  "poll_refusal e p pp db =
     (if p_method p = PmPaymentCode then Some ''payment_code_worker_owned''
      else if present (p_intentLeaseOwnerToken p) \<and> intent_lease_live e p
      then Some ''payment_intent_creation_active''
      else if p_status p \<notin> {PayPending, PayProcessing, PayUnknown} then Some ''already_terminal''
      else if e_registry e (pp_code pp) = None then Some ''provider_not_supported''
      else case List.find (\<lambda>a. pa_paymentId a = p_id p \<and> pa_trigger a = PtMachineStatusPoll)
              (rev (db_paymentAttempts db)) of
        Some latest \<Rightarrow>
          if e_now e - pa_startedAt latest < MACHINE_STATUS_POLL_MIN_INTERVAL_MS
          then Some ''throttled'' else None
      | None \<Rightarrow> None)"

text \<open>The lease that makes one poll at a time; the answer is the owner token and the new fence.\<close>

definition leasable :: "env \<Rightarrow> uuid \<Rightarrow> payment_row \<Rightarrow> bool" where
  "leasable e paymentId p \<longleftrightarrow> p_id p = paymentId \<and>
     p_status p \<in> {PayPending, PayProcessing, PayUnknown} \<and>
     (case p_intentLeaseExpiresAt p of None \<Rightarrow> True | Some t \<Rightarrow> t < e_now e)"

definition take_poll_lease :: "env \<Rightarrow> uuid \<Rightarrow> db \<Rightarrow> (string \<times> int) option \<times> db" where
  "take_poll_lease e paymentId db =
     (let owner = e_randomUUID e (db_next db) in
      case List.find (leasable e paymentId) (db_payments db) of
        None \<Rightarrow> (None, db\<lparr>db_next := Suc (db_next db)\<rparr>)
      | Some p \<Rightarrow> (Some (owner, p_intentLeaseFence p + 1),
          upd_payments (leasable e paymentId)
            (\<lambda>q. q\<lparr>p_intentLeaseOwnerToken := Some owner,
                     p_intentLeaseExpiresAt :=
                       Some (e_now e + MACHINE_STATUS_RECONCILIATION_LEASE_MS),
                     p_intentLeaseFence := p_intentLeaseFence q + 1, p_updatedAt := e_now e\<rparr>)
            (db\<lparr>db_next := Suc (db_next db)\<rparr>)))"

definition poll_failed ::
    "env \<Rightarrow> uuid \<Rightarrow> string \<times> int \<Rightarrow> uuid \<Rightarrow> string \<Rightarrow> db \<Rightarrow> db" where
  "poll_failed e paymentId lease attemptId message db =
     upd_payments (\<lambda>p. p_id p = paymentId \<and> has_intent_lease lease p)
       (\<lambda>p. (drop_intent_lease p)\<lparr>p_updatedAt := e_now e\<rparr>)
       (fail_attempt e attemptId message (Some (e_now e + MACHINE_STATUS_POLL_MIN_INTERVAL_MS)) db)"

definition poll_pending_row ::
    "env \<Rightarrow> uuid \<Rightarrow> string \<times> int \<Rightarrow> payment_row \<Rightarrow> bool" where
  "poll_pending_row e paymentId lease p \<longleftrightarrow> p_id p = paymentId \<and> has_intent_lease lease p \<and>
     intent_lease_live e p \<and> p_status p \<in> {PayPending, PayProcessing, PayUnknown}"

definition poll_still_open ::
    "env \<Rightarrow> payment_row \<Rightarrow> string \<times> int \<Rightarrow> uuid \<Rightarrow> payment_query_result \<Rightarrow> db \<Rightarrow> db \<times> poll_result"
  where
  "poll_still_open e p lease attemptId result db =
     (let persisted = list_ex (poll_pending_row e (p_id p) lease) (db_payments db);
          db1 = upd_payments (poll_pending_row e (p_id p) lease)
            (\<lambda>q. (drop_intent_lease q)\<lparr>p_status := query_payment_status (pqr_status result),
               p_providerTradeNo := (case pqr_providerTradeNo result of
                  Some n \<Rightarrow> Some n | None \<Rightarrow> p_providerTradeNo p),
               p_failedReason := map_option reconciliation_state_string
                  (pqr_reconciliationState result),
               p_updatedAt := e_now e\<rparr>) db;
          db2 = finish_attempt e attemptId (status_or_state result) result
            (Some (e_now e + MACHINE_STATUS_POLL_MIN_INTERVAL_MS)) db1
      in (db2, if \<not> persisted then poll_answer (p_status p) ''payment_reconciliation_lease_lost''
               else poll_answer (query_payment_status (pqr_status result))
                      (case pqr_reconciliationState result of
                         Some st \<Rightarrow> reconciliation_state_string st
                       | None \<Rightarrow> ''provider_'' @ query_status_string (pqr_status result))))"

definition poll_settled ::
    "env \<Rightarrow> publisher \<Rightarrow> payment_row \<Rightarrow> string \<times> int \<Rightarrow> uuid \<Rightarrow> payment_query_result \<Rightarrow> db \<Rightarrow>
     db \<times> (api_error + poll_result)" where
  "poll_settled e publish p lease attemptId result db =
     bindS (atomic (applyPaymentStatusUpdate e
        (reconcile_update e ''machine_status_poll'' p result (Some lease))) db)
     (\<lambda>applied db1.
        (let succeeded = (pqr_status result = QSucceeded);
             db2 = finish_attempt e attemptId (final_status result) result None db1;
             db3 = (if applied \<and> succeeded then publish_quietly e publish (p_orderId p) db2 else db2)
         in (db3, Inr (if applied
              then \<lparr>po_status = Some (if succeeded then PaySucceeded else PayFailed),
                    po_reconciled = True, po_reason = None\<rparr>
              else poll_answer (case find_payment (p_id p) db3 of
                       Some successor \<Rightarrow> p_status successor | None \<Rightarrow> p_status p)
                     ''payment_reconciliation_lease_lost''))))"

definition poll_with_lease ::
    "env \<Rightarrow> publisher \<Rightarrow> payment_row \<Rightarrow> payment_provider \<Rightarrow> string \<times> int \<Rightarrow> db \<Rightarrow>
     db \<times> (api_error + poll_result)" where
  "poll_with_lease e publish p provider lease db =
     (let attemptId = db_next db;
          db1 = insert_payment_attempt (payment_attempt e p PtMachineStatusPoll
                  (nextPaymentReconciliationAttemptNo (p_id p) PtMachineStatusPoll db)
                  ''pending'' None db) db
      in case rp_queryPayment provider (query_input_of p) of
           Inl message \<Rightarrow> (poll_failed e (p_id p) lease attemptId message db1,
                           Inr (poll_answer (p_status p) ''query_failed''))
         | Inr result \<Rightarrow>
             if isProviderPaymentUncertainStatus (pqr_status result)
             then (case poll_still_open e p lease attemptId result db1 of
                     (db2, r) \<Rightarrow> (db2, Inr r))
             else poll_settled e publish p lease attemptId result db1)"

definition reconcilePendingPaymentOnRead ::
    "env \<Rightarrow> publisher \<Rightarrow> uuid \<Rightarrow> db \<Rightarrow> db \<times> (api_error + poll_result)" where
  "reconcilePendingPaymentOnRead e publish paymentId db =
     (case payment_context paymentId db of
        None \<Rightarrow> (db, Inr \<lparr>po_status = None, po_reconciled = False,
                        po_reason = Some ''payment_not_found''\<rparr>)
      | Some (p, x, pp) \<Rightarrow>
          (case (poll_refusal e p pp db, e_registry e (pp_code pp)) of
             (Some reason, _) \<Rightarrow> (db, Inr (poll_answer (p_status p) reason))
           | (None, None) \<Rightarrow> (db, Inr (poll_answer (p_status p) ''provider_not_supported''))
           | (None, Some provider) \<Rightarrow>
               (case take_poll_lease e paymentId db of
                  (None, db1) \<Rightarrow>
                    (db1, Inr (poll_answer (p_status p) ''payment_reconciliation_active''))
                | (Some lease, db1) \<Rightarrow> poll_with_lease e publish p provider lease db1)))"

end
