(* ===== verification/Payment_Webhooks.thy ===== *)
theory Payment_Webhooks
  imports Payment_Jobs
begin

text \<open>
  \<open>payments/payments.service.ts\<close>, third part: the messages of the providers. The handler looks up
  the merchant configuration that the payment is bound to, lets the provider verify the message
  against it (a parameter: what \<open>handleWebhook\<close> of the provider answers), and checks the business
  fields before a terminal status may change the payment. The log of webhook attempts is not
  modelled. \<open>UnauthorizedException\<close> is an \<open>OtherError\<close>.
\<close>

subsection \<open>Business fields\<close>

definition two_digits :: "nat \<Rightarrow> string" where
  "two_digits n = [char_of (48 + n div 10), char_of (48 + n mod 10)]"

text \<open>\<open>(amountCents / 100).toFixed(2)\<close>, exact for amounts of 32 bits.\<close>

definition alipayAmountFromCents :: "int \<Rightarrow> string" where
  "alipayAmountFromCents amountCents =
     (let a = nat \<bar>amountCents\<bar> in
      (if amountCents < 0 then ''-'' else []) @ digits (a div 100) @ ''.'' @ two_digits (a mod 100))"

definition json_string :: "metadata \<Rightarrow> string \<Rightarrow> string option" where
  "json_string m key = (case map_of m key of Some (JStr s) \<Rightarrow> Some s | _ \<Rightarrow> None)"

definition json_int :: "metadata \<Rightarrow> string \<Rightarrow> int option" where
  "json_int m key = (case map_of m key of Some (JInt i) \<Rightarrow> Some i | _ \<Rightarrow> None)"

definition rawString :: "metadata \<Rightarrow> string \<Rightarrow> string option" where
  "rawString payload key =
     (case json_string payload key of Some (c # cs) \<Rightarrow> Some (c # cs) | _ \<Rightarrow> None)"

text \<open>A check answers the reason of the first rule that is broken.\<close>

fun first_broken :: "(bool \<times> string) list \<Rightarrow> string option" where
  "first_broken [] = None"
| "first_broken ((broken, reason) # rules) = (if broken then Some reason else first_broken rules)"

definition differs :: "string option \<Rightarrow> string option \<Rightarrow> bool" where
  "differs given expected \<longleftrightarrow> present given \<and> present expected \<and> given \<noteq> expected"

definition validate_wechat ::
    "payment_row \<Rightarrow> runtime_config list \<Rightarrow> metadata option \<Rightarrow> uuid option \<Rightarrow> bool \<Rightarrow> string option" where
  "validate_wechat p configs normalizedPayload matchedConfigId succeeded =
     (let n = (case normalizedPayload of None \<Rightarrow> [] | Some m \<Rightarrow> m);
          outTradeNo = json_string n ''outTradeNo''; mchId = json_string n ''mchId'';
          appId = json_string n ''appId''; amountTotal = json_int n ''amountTotal'';
          amountCurrency = json_string n ''amountCurrency'';
          tradeState = json_string n ''tradeState'';
          matchedConfig = (case matchedConfigId of
             Some i \<Rightarrow> List.find (\<lambda>c. cfg_id c = Some i) configs
           | None \<Rightarrow> List.find (\<lambda>c. \<not> present (cfg_merchantNo c) \<or> cfg_merchantNo c = mchId) configs)
      in first_broken
       [(present outTradeNo \<and> outTradeNo \<noteq> Some (p_paymentNo p), ''wechat_out_trade_no_mismatch''),
        (amountTotal \<noteq> None \<and> amountTotal \<noteq> Some (p_amountCents p), ''wechat_amount_total_mismatch''),
        (present amountCurrency \<and> amountCurrency \<noteq> Some ''CNY'', ''wechat_currency_mismatch''),
        (succeeded \<and> \<not> present outTradeNo, ''wechat_out_trade_no_missing''),
        (succeeded \<and> amountTotal = None, ''wechat_amount_total_missing''),
        (succeeded \<and> \<not> present amountCurrency, ''wechat_currency_missing''),
        (succeeded \<and> \<not> present mchId, ''wechat_mchid_missing''),
        (succeeded \<and> \<not> present appId, ''wechat_appid_missing''),
        (succeeded \<and> \<not> present tradeState, ''wechat_trade_state_missing''),
        (differs mchId (case matchedConfig of None \<Rightarrow> None | Some c \<Rightarrow> cfg_merchantNo c),
         ''wechat_mchid_mismatch''),
        (differs appId (case matchedConfig of None \<Rightarrow> None | Some c \<Rightarrow> cfg_appId c),
         ''wechat_appid_mismatch''),
        (succeeded \<and> present tradeState \<and> tradeState \<noteq> Some ''SUCCESS'',
         ''wechat_trade_state_not_success'')])"

definition validate_alipay ::
    "payment_row \<Rightarrow> runtime_config list \<Rightarrow> metadata \<Rightarrow> bool \<Rightarrow> string option" where
  "validate_alipay p configs rawPayload succeeded =
     (let appId = rawString rawPayload ''app_id''; sellerId = rawString rawPayload ''seller_id'';
          outTradeNo = rawString rawPayload ''out_trade_no'';
          totalAmount = rawString rawPayload ''total_amount'';
          tradeStatus = rawString rawPayload ''trade_status'';
          matchingConfig =
            List.find (\<lambda>c. \<not> present (cfg_appId c) \<or> cfg_appId c = appId) configs
      in first_broken
       [(outTradeNo \<noteq> None \<and> outTradeNo \<noteq> Some (p_paymentNo p), ''alipay_out_trade_no_mismatch''),
        (totalAmount \<noteq> None \<and> totalAmount \<noteq> Some (alipayAmountFromCents (p_amountCents p)),
         ''alipay_total_amount_mismatch''),
        (succeeded \<and> outTradeNo = None, ''alipay_out_trade_no_missing''),
        (succeeded \<and> totalAmount = None, ''alipay_total_amount_missing''),
        (succeeded \<and> appId = None, ''alipay_app_id_missing''),
        (succeeded \<and> sellerId = None, ''alipay_seller_id_missing''),
        (succeeded \<and> tradeStatus = None, ''alipay_trade_status_missing''),
        (succeeded \<and> tradeStatus \<noteq> Some ''TRADE_SUCCESS'' \<and> tradeStatus \<noteq> Some ''TRADE_FINISHED'',
         ''alipay_trade_status_not_success''),
        (appId \<noteq> None \<and> matchingConfig = None, ''alipay_app_id_mismatch''),
        (differs sellerId (case matchingConfig of None \<Rightarrow> None | Some c \<Rightarrow> cfg_merchantNo c),
         ''alipay_seller_id_mismatch'')])"

record payment_webhook =
  pw_providerEventId :: string
  pw_eventType :: string
  pw_paymentNo :: "string option"
  pw_providerTradeNo :: "string option"
  pw_paymentStatus :: "payment_status option"
  pw_signatureValid :: bool
  pw_rawPayload :: metadata
  pw_normalizedPayload :: "metadata option"
  pw_matchedConfigId :: "uuid option"

text \<open>\<open>None\<close> is the answer \<open>ok\<close>.\<close>

definition validateProviderWebhookBusinessFields ::
    "string \<Rightarrow> payment_webhook \<Rightarrow> payment_row \<Rightarrow> runtime_config list \<Rightarrow> string option" where
  "validateProviderWebhookBusinessFields providerCode w p configs =
     (if providerCode = ''wechat_pay''
      then validate_wechat p configs (pw_normalizedPayload w) (pw_matchedConfigId w)
             (pw_paymentStatus w = Some PaySucceeded)
      else if providerCode = ''alipay''
      then validate_alipay p configs (pw_rawPayload w) (pw_paymentStatus w = Some PaySucceeded)
      else None)"

subsection \<open>Payment webhooks\<close>

record webhook_answer =
  wa_handled :: bool
  wa_duplicate :: bool
  wa_stale :: bool
  wa_queued :: bool
  wa_reason :: "string option"

definition wa_refused :: "string \<Rightarrow> webhook_answer" where
  "wa_refused reason = \<lparr>wa_handled = False, wa_duplicate = False, wa_stale = False,
     wa_queued = False, wa_reason = Some reason\<rparr>"

definition wa_done :: "bool \<Rightarrow> webhook_answer" where
  "wa_done duplicate = \<lparr>wa_handled = True, wa_duplicate = duplicate, wa_stale = False,
     wa_queued = False, wa_reason = None\<rparr>"

definition wa_queued_answer :: webhook_answer where
  "wa_queued_answer = (wa_done False)\<lparr>wa_queued := True\<rparr>"

definition wa_stale_answer :: webhook_answer where
  "wa_stale_answer = (wa_done False)\<lparr>wa_stale := True, wa_reason := Some ''stale_terminal_status''\<rparr>"

text \<open>The configuration bound to a payment, when it can be resolved to just that one.\<close>

definition validation_configs :: "env \<Rightarrow> string \<Rightarrow> payment_row \<Rightarrow> runtime_config list" where
  "validation_configs e providerCode p =
     (case cs_resolveForExisting (e_configs e) providerCode (p_paymentProviderConfigId p) of
        Inl _ \<Rightarrow> []
      | Inr bound \<Rightarrow> if cfg_id bound = p_paymentProviderConfigId p \<and>
                         cfg_providerCode bound = providerCode then [bound] else [])"

definition webhook_event_of ::
    "env \<Rightarrow> payment_webhook \<Rightarrow> payment_row \<Rightarrow> string \<Rightarrow> payment_event_row" where
  "webhook_event_of e w p suffix = payment_event e (p_id p) (p_providerId p)
     (pw_eventType w @ suffix) (pw_providerEventId w) (pw_signatureValid w)"

definition webhook_transition :: "payment_webhook \<Rightarrow> payment_row \<Rightarrow> bool \<Rightarrow> terminal_transition" where
  "webhook_transition w p succeeded =
     (terminal_update (p_id p) (p_orderId p) succeeded (pw_providerEventId w)
        (pw_providerTradeNo w) (Some (p_providerId p)) None
        (if succeeded then None else Some ''webhook_failed'') (Some (pw_eventType w)) False None)
     \<lparr>tt_signatureValid := pw_signatureValid w,
      tt_succeededOrderEventReason := ''webhook_payment_succeeded'',
      tt_failedOrderEventReason := ''webhook_payment_failed''\<rparr>"

definition wake_payment_attempts :: "env \<Rightarrow> uuid \<Rightarrow> db \<Rightarrow> db" where
  "wake_payment_attempts e paymentId = upd_attempts
     (\<lambda>a. ca_paymentId a = paymentId \<and> ca_isActive a)
     (\<lambda>a. a\<lparr>ca_recoveryNextAt := Some (e_now e), ca_updatedAt := e_now e\<rparr>)"

definition outcome_answer :: "terminal_outcome \<Rightarrow> webhook_answer" where
  "outcome_answer outcome = (case outcome of
     TStale \<Rightarrow> wa_stale_answer | TDuplicate \<Rightarrow> wa_done True | TApplied \<Rightarrow> wa_done False)"

text \<open>A verified message whose business fields hold.\<close>

definition valid_webhook ::
    "env \<Rightarrow> publisher \<Rightarrow> payment_webhook \<Rightarrow> payment_row \<Rightarrow> db \<Rightarrow> db \<times> (api_error + webhook_answer)"
  where
  "valid_webhook e publish w p db =
     (if p_method p = PmPaymentCode
      then (wake_payment_attempts e (p_id p) db, Inr wa_queued_answer)
      else if pw_paymentStatus w = Some PaySucceeded \<or> pw_paymentStatus w = Some PayFailed
      then (let succeeded = (pw_paymentStatus w = Some PaySucceeded) in
        bindS (atomic (transitionProviderPaymentTerminal e (webhook_transition w p succeeded)) db)
          (\<lambda>outcome db1.
             if succeeded \<and> outcome = TApplied
             then bindS (dispatchPendingCommandsForOrder e publish (p_orderId p) db1)
                    (\<lambda>_ db2. (db2, Inr (outcome_answer outcome)))
             else (db1, Inr (outcome_answer outcome))))
      else (case record_payment_event (webhook_event_of e w p []) db of
              (inserted, db1) \<Rightarrow> (db1, Inr (wa_done (\<not> inserted)))))"

definition handlePaymentWebhook ::
    "env \<Rightarrow> publisher \<Rightarrow> string \<Rightarrow> payment_webhook \<Rightarrow> db \<Rightarrow> db \<times> (api_error + webhook_answer)" where
  "handlePaymentWebhook e publish providerCode w db =
     (case (if present (pw_paymentNo w)
            then payment_joins (\<lambda>p x pp. Some (p_paymentNo p) = pw_paymentNo w \<and>
                   pp_code pp = providerCode) db
            else []) of
        [] \<Rightarrow> (db, Inr (wa_refused ''payment_not_found''))
      | (p, x, pp) # _ \<Rightarrow>
          if providerCode \<noteq> ''mock'' \<and> (p_paymentProviderConfigId p = None \<or>
               pw_matchedConfigId w \<noteq> p_paymentProviderConfigId p)
          then (db, Inr (wa_refused ''payment_config_binding_mismatch''))
          else (case validateProviderWebhookBusinessFields providerCode w p
                  (validation_configs e providerCode p) of
             Some reason \<Rightarrow>
               (case record_payment_event (webhook_event_of e w p ''.business_invalid'') db of
                  (inserted, db1) \<Rightarrow>
                    (db1, Inr (if inserted then wa_refused reason else wa_done True)))
           | None \<Rightarrow> valid_webhook e publish w p db))"

subsection \<open>The handler\<close>

record refund_message =
  rm2_providerEventId :: string
  rm2_eventType :: string
  rm2_refundNo :: "string option"
  rm2_paymentNo :: "string option"
  rm2_providerRefundNo :: "string option"
  rm2_refundStatus :: "refund_status option"
  rm2_matchedConfigId :: "uuid option"

definition handleRefundWebhook ::
    "env \<Rightarrow> string \<Rightarrow> refund_message \<Rightarrow> db \<Rightarrow> db \<times> (api_error + webhook_result)" where
  "handleRefundWebhook e providerCode w = applyProviderRefundWebhook e
     \<lparr>wh_providerCode = providerCode, wh_refundNo = rm2_refundNo w,
      wh_providerRefundNo = rm2_providerRefundNo w, wh_paymentNo = rm2_paymentNo w,
      wh_providerEventId = rm2_providerEventId w, wh_eventType = rm2_eventType w,
      wh_refundStatus = (case rm2_refundStatus w of
         Some RfProcessing \<Rightarrow> Some AnsProcessing | Some RfSucceeded \<Rightarrow> Some AnsSucceeded
       | Some RfFailed \<Rightarrow> Some AnsFailed | Some RfCanceled \<Rightarrow> Some AnsCanceled | _ \<Rightarrow> None),
      wh_matchedConfigId = rm2_matchedConfigId w\<rparr>"

datatype provider_webhook = PaymentMessage payment_webhook | RefundMessage refund_message

datatype handled_webhook = PaymentHandled webhook_answer | RefundHandled webhook_result

text \<open>\<open>Reflect.get (body, 'out_trade_no')\<close>, the first element when it is an array.\<close>

definition out_trade_no :: "json \<Rightarrow> string option" where
  "out_trade_no body = (case body of
     JObj m \<Rightarrow> (case map_of m ''out_trade_no'' of
        Some (JStr s) \<Rightarrow> Some s | Some (JArr (JStr s # _)) \<Rightarrow> Some s | _ \<Rightarrow> None)
   | _ \<Rightarrow> None)"

definition findWebhookExpectedConfigBinding :: "string \<Rightarrow> json \<Rightarrow> db \<Rightarrow> uuid option option" where
  "findWebhookExpectedConfigBinding providerCode body db =
     (if providerCode \<noteq> ''alipay'' \<or> \<not> present (out_trade_no body) then None
      else case [p. p \<leftarrow> db_payments db, pp \<leftarrow> db_providers db, pp_id pp = p_providerId p \<and>
                   Some (p_paymentNo p) = out_trade_no body \<and> pp_code pp = providerCode] of
        [] \<Rightarrow> None | p # _ \<Rightarrow> Some (p_paymentProviderConfigId p))"

definition handleProviderWebhook ::
    "env \<Rightarrow> publisher \<Rightarrow>
     (json \<Rightarrow> uuid option option \<Rightarrow> runtime_config option \<Rightarrow> api_error + provider_webhook) option \<Rightarrow>
     string \<Rightarrow> json \<Rightarrow> db \<Rightarrow> db \<times> (api_error + handled_webhook)" where
  "handleProviderWebhook e publish handleWebhook providerCode body db =
     (case (e_registry e providerCode, handleWebhook) of
        (None, _) \<Rightarrow> (db, Inl (NotFoundException ''Payment provider not found''))
      | (_, None) \<Rightarrow> (db, Inl (NotFoundException ''Payment webhook is not supported''))
      | (Some _, Some verify) \<Rightarrow>
         (let expectedBinding = findWebhookExpectedConfigBinding providerCode body db;
              expectedConfig = (case expectedBinding of None \<Rightarrow> None
               | Some i \<Rightarrow> (case cs_resolveForExisting (e_configs e) providerCode i of
                    Inl _ \<Rightarrow> None | Inr c \<Rightarrow> Some c)) in
          if expectedBinding \<noteq> None \<and> expectedConfig = None
          then (db, Inl (OtherError
             ''Payment config binding is unavailable for signature verification''))
          else (case verify body expectedBinding expectedConfig of
             Inl err \<Rightarrow> (db, Inl err)
           | Inr (PaymentMessage w) \<Rightarrow>
               bindS (handlePaymentWebhook e publish providerCode w db)
                 (\<lambda>r db1. (db1, Inr (PaymentHandled r)))
           | Inr (RefundMessage w) \<Rightarrow>
               bindS (handleRefundWebhook e providerCode w db)
                 (\<lambda>r db1. (db1, Inr (RefundHandled r))))))"

text \<open>The checkout page of the mock provider reports through the same handler.\<close>

definition completeMockPaymentFromProvider ::
    "env \<Rightarrow> publisher \<Rightarrow>
     (json \<Rightarrow> uuid option option \<Rightarrow> runtime_config option \<Rightarrow> api_error + provider_webhook) option \<Rightarrow>
     string \<Rightarrow> db \<Rightarrow> db \<times> (api_error + handled_webhook)" where
  "completeMockPaymentFromProvider e publish handleWebhook paymentNo db =
     (case assertMockPaymentEnabled e of Inl err \<Rightarrow> (db, Inl err)
      | Inr _ \<Rightarrow> handleProviderWebhook e publish handleWebhook ''mock''
          (JObj [(''providerEventId'', JStr (''mock:checkout:'' @ e_randomUUID e (db_next db))),
                 (''eventType'', JStr ''mock.checkout.completed''),
                 (''paymentNo'', JStr paymentNo),
                 (''providerTradeNo'', JStr (''MOCK-'' @ paymentNo)),
                 (''paymentStatus'', JStr ''succeeded'')])
          (db\<lparr>db_next := Suc (db_next db)\<rparr>))"

end
