(* ===== verification/Payment_Incidents.thy ===== *)
theory Payment_Incidents
  imports Payment_Webhooks
begin

text \<open>
  \<open>payments/payments.service.ts\<close>, last part: what an operator may do with a payment whose outcome
  is not known. The texts of the answers are in Chinese and not modelled, nor are the audit records.
\<close>

subsection \<open>Manual reconciliation\<close>

record manual_answer =
  ra2_status :: string
  ra2_reconciled :: bool
  ra2_reason :: "string option"

fun payment_status_string :: "payment_status \<Rightarrow> string" where
  "payment_status_string PayCreated = ''created''"
| "payment_status_string PayPending = ''pending''"
| "payment_status_string PayProcessing = ''processing''"
| "payment_status_string PaySucceeded = ''succeeded''"
| "payment_status_string PayFailed = ''failed''"
| "payment_status_string PayExpired = ''expired''"
| "payment_status_string PayCanceled = ''canceled''"
| "payment_status_string PayUnknown = ''unknown''"
| "payment_status_string PayRefundPending = ''refund_pending''"
| "payment_status_string PayPartialRefundPending = ''partial_refund_pending''"
| "payment_status_string PayManualHandling = ''manual_handling''"
| "payment_status_string PayRefunded = ''refunded''"
| "payment_status_string PayPartialRefunded = ''partial_refunded''"

fun attempt_status_string :: "code_attempt_status \<Rightarrow> string" where
  "attempt_status_string CaCreated = ''created''"
| "attempt_status_string CaSubmitting = ''submitting''"
| "attempt_status_string CaUserConfirming = ''user_confirming''"
| "attempt_status_string CaQuerying = ''querying''"
| "attempt_status_string CaSucceeded = ''succeeded''"
| "attempt_status_string CaFailed = ''failed''"
| "attempt_status_string CaReversing = ''reversing''"
| "attempt_status_string CaReversed = ''reversed''"
| "attempt_status_string CaUnknown = ''unknown''"
| "attempt_status_string CaReversalUnknown = ''reversal_unknown''"
| "attempt_status_string CaManualHandling = ''manual_handling''"
| "attempt_status_string CaCanceled = ''canceled''"

definition unreconciled :: "string \<Rightarrow> string \<Rightarrow> manual_answer" where
  "unreconciled status reason =
     \<lparr>ra2_status = status, ra2_reconciled = False, ra2_reason = Some reason\<rparr>"

text \<open>An answer that is not terminal overwrites the status of the payment, whatever it is by now.\<close>

definition manual_still_open ::
    "env \<Rightarrow> payment_row \<Rightarrow> uuid \<Rightarrow> payment_query_result \<Rightarrow> db \<Rightarrow> db \<times> manual_answer" where
  "manual_still_open e p attemptId result db =
     (let db1 = upd_payments (\<lambda>q. p_id q = p_id p)
            (\<lambda>q. q\<lparr>p_status := query_payment_status (pqr_status result),
               p_providerTradeNo := (case pqr_providerTradeNo result of
                  Some n \<Rightarrow> Some n | None \<Rightarrow> p_providerTradeNo p),
               p_updatedAt := e_now e\<rparr>) db;
          db2 = upd_payment_attempt attemptId
            (\<lambda>a. a\<lparr>pa_status := status_or_state result,
               pa_providerPaymentStatus := Some (query_payment_status (pqr_status result)),
               pa_providerTradeNo := pqr_providerTradeNo result,
               pa_errorCode := pqr_failedReason result, pa_finishedAt := Some (e_now e)\<rparr>) db1
      in (db2, unreconciled (query_status_string (pqr_status result))
            (case pqr_reconciliationState result of
               Some st \<Rightarrow> reconciliation_state_string st
             | None \<Rightarrow> ''provider_'' @ query_status_string (pqr_status result))))"

definition manual_settled ::
    "env \<Rightarrow> publisher \<Rightarrow> payment_row \<Rightarrow> uuid \<Rightarrow> payment_query_result \<Rightarrow> db \<Rightarrow>
     db \<times> (api_error + manual_answer)" where
  "manual_settled e publish p attemptId result db =
     bindS (atomic (applyPaymentStatusUpdate e
        ((reconcile_update e ''manual_reconcile'' p result None)
           \<lparr>tt_allowIncidentLockedResolution := True\<rparr>)) db)
     (\<lambda>applied db1.
        (let db2 = finish_attempt e attemptId (query_status_string (pqr_status result)) result None db1
         in (if applied \<and> pqr_status result = QSucceeded \<and>
                canDispatchPaymentSuccess (p_orderId p) db2
             then publish_quietly e publish (p_orderId p) db2 else db2,
             Inr \<lparr>ra2_status = query_status_string (pqr_status result), ra2_reconciled = applied,
                  ra2_reason = None\<rparr>)))"

definition manual_query ::
    "env \<Rightarrow> publisher \<Rightarrow> payment_row \<Rightarrow> payment_provider \<Rightarrow> db \<Rightarrow>
     db \<times> (api_error + manual_answer)" where
  "manual_query e publish p provider db =
     (let attemptId = db_next db;
          db1 = insert_payment_attempt (payment_attempt e p PtManual
                  (nextPaymentReconciliationAttemptNo (p_id p) PtManual db) ''pending'' None db) db
      in case rp_queryPayment provider (query_input_of p) of
           Inl message \<Rightarrow> (fail_attempt e attemptId message None db1, Inl (OtherError message))
         | Inr result \<Rightarrow>
             if pqr_status result = QSucceeded \<or> pqr_status result = QFailed
             then manual_settled e publish p attemptId result db1
             else (case manual_still_open e p attemptId result db1 of (db2, r) \<Rightarrow> (db2, Inr r)))"

definition manualReconcile ::
    "env \<Rightarrow> publisher \<Rightarrow> uuid \<Rightarrow> string \<Rightarrow> db \<Rightarrow> db \<times> (api_error + manual_answer)" where
  "manualReconcile e publish paymentId reason db =
     (case payment_context paymentId db of
        None \<Rightarrow> (db, Inl (NotFoundException ''Payment not found''))
      | Some (p, x, pp) \<Rightarrow>
          if p_method p = PmPaymentCode
          then bindS (atomic (requestRecoveryActionForPayment e (p_id p) CaQuerying (Some reason)) db)
                 (\<lambda>attempt db1. (db1, Inr (case attempt of
                    Some a \<Rightarrow> unreconciled (attempt_status_string (ca_status a))
                                ''payment_code_worker_query_queued''
                  | None \<Rightarrow> unreconciled (payment_status_string (p_status p))
                                ''payment_code_worker_owned'')))
          else if p_status p \<notin> {PayPending, PayProcessing, PayUnknown}
          then (db, Inr (unreconciled (payment_status_string (p_status p)) ''already_terminal''))
          else case e_registry e (pp_code pp) of
            None \<Rightarrow> (db, Inl (NotFoundException
                       (''Payment provider '' @ pp_code pp @ '' not found'')))
          | Some provider \<Rightarrow> manual_query e publish p provider db)"
subsection \<open>Incident actions\<close>

datatype incident_action =
  QueryPayment string
| QueryRefund uuid string
| RequestRefundHandling string
| MarkManualHandling string
| CloseOrReverse string

record incident_answer =
  ia_status :: string
  ia_handled :: bool

definition requestRefundHandling ::
    "env \<Rightarrow> uuid \<Rightarrow> uuid \<Rightarrow> db \<Rightarrow> db \<times> (api_error + refund_row)" where
  "requestRefundHandling e paymentId adminUserId db =
     (case find_payment paymentId db of
        None \<Rightarrow> (db, Inl (NotFoundException ''Payment not found''))
      | Some p \<Rightarrow> requestFullRefund e (p_orderId p) AdminRefund (Some adminUserId) None db)"

definition manual_handling_tx :: "env \<Rightarrow> payment_row \<Rightarrow> order_row \<Rightarrow> string \<Rightarrow> db \<Rightarrow> db" where
  "manual_handling_tx e p x reason db =
     (let db1 = upd_payments (\<lambda>q. p_id q = p_id p)
            (\<lambda>q. q\<lparr>p_status := PayManualHandling, p_failedReason := Some reason,
                     p_updatedAt := e_now e\<rparr>) db;
          db2 = upd_orders (\<lambda>y. o_id y = p_orderId p)
            (\<lambda>y. y\<lparr>o_status := OsManualHandling, o_paymentState := PsManualHandling,
                     o_fulfillmentState := FsManualHandling, o_updatedAt := e_now e\<rparr>) db1;
          db3 = log_status (p_orderId p) (Some (o_status x)) OsManualHandling
            ''payment_manual_handling''
            (Some [(''paymentNo'', JStr (p_paymentNo p)), (''reason'', JStr reason)]) db2
      in snd (record_payment_event (payment_event e (p_id p) (p_providerId p)
           ''payment.manual_handling''
           (''manual_handling:'' @ p_paymentNo p @ '':'' @ show_int (e_now e)) True) db3))"

text \<open>The answer is whether the work was queued for the code worker.\<close>

definition markPaymentManualHandling ::
    "env \<Rightarrow> uuid \<Rightarrow> string \<Rightarrow> db \<Rightarrow> db \<times> (api_error + bool)" where
  "markPaymentManualHandling e paymentId reason db =
     (case payment_with_order paymentId db of
        None \<Rightarrow> (db, Inl (NotFoundException ''Payment not found''))
      | Some (p, x) \<Rightarrow>
          if p_method p = PmPaymentCode
          then bindS (atomic (requestManualHandlingForPayment e paymentId reason) db)
                 (\<lambda>attempt db1. (db1, case attempt of
                    None \<Rightarrow> Inl (ConflictException ''payment_code_attempt_not_recoverable'')
                  | Some _ \<Rightarrow> Inr True))
          else (manual_handling_tx e p x reason db, Inr False))"

definition markPaymentClosedAfterProviderAction ::
    "env \<Rightarrow> payment_row \<Rightarrow> order_row \<Rightarrow> cancel_status \<Rightarrow> db \<Rightarrow> api_error + unit \<times> db" where
  "markPaymentClosedAfterProviderAction e p x status db =
     (let expired = (status = CancelExpired);
          nextOrderStatus = (if expired then OsPaymentExpired else OsCanceled);
          name = (if expired then ''expired'' else ''canceled'');
          db1 = upd_payments (\<lambda>q. p_id q = p_id p)
            (\<lambda>q. (drop_intent_lease q)\<lparr>p_status := (if expired then PayExpired else PayCanceled),
                     p_updatedAt := e_now e\<rparr>) db;
          db2 = upd_orders (\<lambda>y. o_id y = p_orderId p)
            (\<lambda>y. y\<lparr>o_status := nextOrderStatus,
                     o_paymentState := (if expired then PsPaymentExpired else PsCanceled),
                     o_fulfillmentState := FsCanceled, o_updatedAt := e_now e\<rparr>) db1;
          db3 = log_status (p_orderId p) (Some (o_status x)) nextOrderStatus
            ''payment_incident_closed'' (Some [(''paymentNo'', JStr (p_paymentNo p))]) db2;
          db4 = snd (record_payment_event (payment_event e (p_id p) (p_providerId p)
            (''payment.'' @ name)
            (''incident_close:'' @ p_paymentNo p @ '':'' @ name @ '':'' @ show_int (e_now e)) True) db3)
      in bindR (releaseActiveReservationsForOrder e (p_orderId p)
                 (if expired then ''payment_expired'' else ''canceled'') db4)
           (\<lambda>db5. Inr ((), db5)))"

definition markPaymentUnknownAfterProviderAction ::
    "env \<Rightarrow> payment_row \<Rightarrow> order_row \<Rightarrow> string \<Rightarrow> string \<Rightarrow> db \<Rightarrow> db" where
  "markPaymentUnknownAfterProviderAction e p x reason message db =
     (let db1 = upd_payments (\<lambda>q. p_id q = p_id p)
            (\<lambda>q. q\<lparr>p_status := PayUnknown, p_failedReason := Some (take 500 message),
                     p_updatedAt := e_now e\<rparr>) db;
          db2 = upd_orders (\<lambda>y. o_id y = p_orderId p)
            (\<lambda>y. y\<lparr>o_status := OsManualHandling, o_paymentState := PsPaymentUnknown,
                     o_fulfillmentState := FsManualHandling, o_updatedAt := e_now e\<rparr>) db1;
          db3 = log_status (p_orderId p) (Some (o_status x)) OsManualHandling ''payment_unknown''
            (Some [(''paymentNo'', JStr (p_paymentNo p)), (''reason'', JStr reason)]) db2
      in snd (record_payment_event (payment_event e (p_id p) (p_providerId p) ''payment.unknown''
           (''incident_unknown:'' @ p_paymentNo p @ '':'' @ show_int (e_now e)) True) db3))"

text \<open>Whatever the \<open>try\<close> block throws, the provider or the transaction, marks the payment unknown.\<close>

definition closeProviderPaymentIncident ::
    "env \<Rightarrow> payment_row \<Rightarrow> order_row \<Rightarrow> payment_provider_row \<Rightarrow> string \<Rightarrow> db \<Rightarrow>
     db \<times> (api_error + incident_answer)" where
  "closeProviderPaymentIncident e p x pp reason db =
     (case e_registry e (pp_code pp) of
        None \<Rightarrow> (db, Inl (NotFoundException (''Payment provider '' @ pp_code pp @ '' not found'')))
      | Some provider \<Rightarrow>
         (let unknown = (\<lambda>message db1.
                (markPaymentUnknownAfterProviderAction e p x reason message db1,
                 Inr \<lparr>ia_status = ''unknown'', ia_handled = False\<rparr>)) in
          case rp_cancelPayment provider (cancel_input_of p) of
            Inl err \<Rightarrow> unknown (provider_message err) db
          | Inr status \<Rightarrow>
              (case atomic (markPaymentClosedAfterProviderAction e p x status) db of
                 (db1, Inl err) \<Rightarrow> unknown (error_message err) db1
               | (db1, Inr _) \<Rightarrow>
                   (db1, Inr \<lparr>ia_status = (if status = CancelExpired then ''expired''
                                            else ''canceled''), ia_handled = True\<rparr>))))"

definition reversePaymentCodeIncident ::
    "env \<Rightarrow> payment_row \<Rightarrow> string \<Rightarrow> db \<Rightarrow> db \<times> (api_error + incident_answer)" where
  "reversePaymentCodeIncident e p reason db =
     bindS (atomic (requestRecoveryActionForPayment e (p_id p) CaReversing (Some reason)) db)
       (\<lambda>attempt db1. (db1, Inr (case attempt of
          None \<Rightarrow> \<lparr>ia_status = ''unknown'', ia_handled = False\<rparr>
        | Some a \<Rightarrow> \<lparr>ia_status = attempt_status_string (ca_status a), ia_handled = False\<rparr>)))"

definition closeOrReverseUncertainPayment ::
    "env \<Rightarrow> uuid \<Rightarrow> string \<Rightarrow> db \<Rightarrow> db \<times> (api_error + incident_answer)" where
  "closeOrReverseUncertainPayment e paymentId reason db =
     (case payment_context paymentId db of
        None \<Rightarrow> (db, Inl (NotFoundException ''Payment not found''))
      | Some (p, x, pp) \<Rightarrow>
          if p_status p \<notin> {PayCreated, PayPending, PayProcessing, PayUnknown}
          then (db, Inr \<lparr>ia_status = payment_status_string (p_status p), ia_handled = False\<rparr>)
          else if p_method p = PmPaymentCode then reversePaymentCodeIncident e p reason db
          else closeProviderPaymentIncident e p x pp reason db)"

fun refund_status_string :: "refund_status \<Rightarrow> string" where
  "refund_status_string RfCreated = ''created''"
| "refund_status_string RfProcessing = ''processing''"
| "refund_status_string RfSucceeded = ''succeeded''"
| "refund_status_string RfFailed = ''failed''"
| "refund_status_string RfCanceled = ''canceled''"

definition manualReconcileRefund :: "env \<Rightarrow> uuid \<Rightarrow> db \<Rightarrow> db \<times> (api_error + query_result)" where
  "manualReconcileRefund e refundId = queryRefund e refundId Manual"

definition handlePaymentIncidentAction ::
    "env \<Rightarrow> publisher \<Rightarrow> uuid \<Rightarrow> uuid \<Rightarrow> incident_action \<Rightarrow> db \<Rightarrow>
     db \<times> (api_error + incident_answer)" where
  "handlePaymentIncidentAction e publish paymentId adminUserId action db = (case action of
     QueryPayment reason \<Rightarrow> bindS (manualReconcile e publish paymentId reason db)
       (\<lambda>r db1. (db1, Inr \<lparr>ia_status = ra2_status r, ia_handled = ra2_reconciled r\<rparr>))
   | QueryRefund refundId reason \<Rightarrow> bindS (manualReconcileRefund e refundId db)
       (\<lambda>r db1. (db1, Inr \<lparr>ia_status = refund_status_string (qr_status r),
                            ia_handled = qr_reconciled r\<rparr>))
   | RequestRefundHandling reason \<Rightarrow> bindS (requestRefundHandling e paymentId adminUserId db)
       (\<lambda>refund db1. (db1, Inr \<lparr>ia_status = refund_status_string (rf_status refund),
                                 ia_handled = (rf_status refund = RfSucceeded)\<rparr>))
   | MarkManualHandling reason \<Rightarrow> bindS (markPaymentManualHandling e paymentId reason db)
       (\<lambda>queued db1. (db1, Inr \<lparr>ia_status = ''manual_handling'', ia_handled = \<not> queued\<rparr>))
   | CloseOrReverse reason \<Rightarrow> closeOrReverseUncertainPayment e paymentId reason db)"

end
