(* ===== verification/Code_Recovery.thy ===== *)
theory Code_Recovery
  imports Payment_Incidents
begin

text \<open>
  \<open>payments/payment-code-recovery.service.ts\<close>, the worker that alone talks to a provider about a
  payment code, and the facade \<open>payments/payment-code-orchestrator.service.ts\<close>. The worker claims an
  attempt under a lease, calls the provider, and hands the answer to a transaction that checks the
  lease again. Claim, provider call and application are separate definitions.

  A lease that is lost during a call and a call that takes too long end like a provider that throws.
  The test hooks (\<open>runFault\<close>), the options of the constructor and the flag \<open>running\<close>, which keeps
  one batch at a time in a process, are not modelled; the texts shown to a customer are constructors.
\<close>

definition RECOVERY_LEASE_MS :: ms where "RECOVERY_LEASE_MS = 30000"

definition RECOVERY_BATCH_SIZE :: nat where "RECOVERY_BATCH_SIZE = 20"

definition RECOVERY_MAX_ATTEMPTS :: int where "RECOVERY_MAX_ATTEMPTS = 8"

text \<open>\<open>Math.min (60_000, 1_000 * 2 ** Math.min (attemptCount - 1, 6))\<close>; a claim counts at least 1.\<close>

definition backoffMs :: "int \<Rightarrow> ms" where
  "backoffMs attemptCount = min 60000 (1000 * 2 ^ nat (min (attemptCount - 1) 6))"

definition readNumber :: "metadata \<Rightarrow> string \<Rightarrow> int \<Rightarrow> int" where
  "readNumber source key fallback =
     (case map_of source key of Some (JInt value) \<Rightarrow> if 0 < value then value else fallback
      | _ \<Rightarrow> fallback)"

definition pollDelayMs :: "string \<Rightarrow> runtime_config \<Rightarrow> ms" where
  "pollDelayMs providerCode config =
     readNumber (cfg_publicConfigJson config) ''paymentCodePollIntervalSeconds''
       (if providerCode = ''wechat_pay'' then 5 else 3) * 1000"

definition isTerminal :: "code_attempt_row \<Rightarrow> bool" where
  "isTerminal a \<longleftrightarrow> ca_status a \<in> {CaSucceeded, CaFailed, CaReversed, CaCanceled}"

fun code_status_string :: "code_status \<Rightarrow> string" where
  "code_status_string CsSucceeded = ''succeeded''"
| "code_status_string CsUserConfirming = ''user_confirming''"
| "code_status_string CsProcessing = ''processing''"
| "code_status_string CsFailed = ''failed''"
| "code_status_string CsReversed = ''reversed''"
| "code_status_string CsUnknown = ''unknown''"

fun reverse_status_string :: "reverse_status \<Rightarrow> string" where
  "reverse_status_string RevReversed = ''reversed''"
| "reverse_status_string RevProcessing = ''processing''"
| "reverse_status_string RevFailed = ''failed''"
| "reverse_status_string RevUnknown = ''unknown''"

text \<open>A result of a charge, a query or a reversal, as the worker reads it.\<close>

record code_answer =
  ka_status :: string
  ka_providerTradeNo :: "string option"
  ka_paidAt :: "ms option"
  ka_providerStatus :: "string option"
  ka_failureCode :: "string option"
  ka_failureMessage :: "string option"

definition to_code_answer :: "code_result \<Rightarrow> code_answer" where
  "to_code_answer r = \<lparr>ka_status = code_status_string (cd_status r),
     ka_providerTradeNo = cd_providerTradeNo r, ka_paidAt = cd_paidAt r,
     ka_providerStatus = cd_providerStatus r, ka_failureCode = cd_failureCode r,
     ka_failureMessage = cd_failureMessage r\<rparr>"

text \<open>A reversal has no trade number: \<open>providerTradeNo\<close> reads \<open>null\<close>.\<close>

definition reverse_answer :: "reverse_result \<Rightarrow> code_answer" where
  "reverse_answer r = \<lparr>ka_status = reverse_status_string (rr_status r), ka_providerTradeNo = None,
     ka_paidAt = None, ka_providerStatus = rr_providerStatus r, ka_failureCode = rr_failureCode r,
     ka_failureMessage = rr_failureMessage r\<rparr>"

definition or_default :: "'a option \<Rightarrow> 'a \<Rightarrow> 'a option" where
  "or_default x d = (case x of None \<Rightarrow> Some d | Some v \<Rightarrow> Some v)"

definition providerPatch :: "env \<Rightarrow> code_answer \<Rightarrow> code_attempt_row \<Rightarrow> code_attempt_row" where
  "providerPatch e r a = a\<lparr>ca_providerTradeNo := ka_providerTradeNo r,
     ca_providerStatus := or_default (ka_providerStatus r) (ka_status r),
     ca_failureCode := ka_failureCode r,
     ca_failureMessage := map_option PlainText (ka_failureMessage r),
     ca_lastCheckedAt := Some (e_now e)\<rparr>"

subsection \<open>Leaving an attempt for later\<close>

text \<open>The terminal update and manual handling go through the payments service.\<close>

definition mark_manual ::
    "env \<Rightarrow> code_attempt_row \<Rightarrow> string \<Rightarrow> db \<Rightarrow> db \<times> (api_error + unit)" where
  "mark_manual e claim reason db =
     (case ca_leaseOwnerToken claim of None \<Rightarrow> (db, Inr ())
      | Some ownerToken \<Rightarrow>
          bindS (atomic (markPaymentCodeAttemptManualHandling e (ca_id claim) ownerToken
                   (ca_leaseFence claim) reason) db)
            (\<lambda>_ db1. (db1, Inr ())))"

definition unknown_patch :: "env \<Rightarrow> string option \<Rightarrow> code_attempt_row \<Rightarrow> code_attempt_row" where
  "unknown_patch e message a =
     (if present message
      then a\<lparr>ca_providerStatus := Some ''PAYMENT_CODE_QUERY_UNKNOWN'',
              ca_failureCode := Some ''PAYMENT_CODE_QUERY_UNKNOWN'',
              ca_failureMessage := map_option PlainText message,
              ca_lastCheckedAt := Some (e_now e)\<rparr>
      else a)"

text \<open>\<open>deferRecovery\<close> is only called with the statuses \<open>querying\<close> and \<open>user_confirming\<close>.\<close>

definition deferRecovery ::
    "env \<Rightarrow> code_attempt_row \<Rightarrow> bool \<Rightarrow> string option \<Rightarrow>
     (code_attempt_row \<Rightarrow> code_attempt_row) \<Rightarrow> ms \<Rightarrow> db \<Rightarrow> db \<times> (api_error + unit)" where
  "deferRecovery e claim userConfirming error patch delayMs db =
     (let status = (if userConfirming then CaUserConfirming else CaQuerying) in
      if RECOVERY_MAX_ATTEMPTS - 1 \<le> ca_recoveryAttemptCount claim
      then mark_manual e claim (attempt_status_string status @ ''_retries_exhausted'') db
      else bindS (atomic (releaseRecoveryClaim e claim status (Some (e_now e + delayMs))
                    (unknown_patch e error \<circ> patch)) db)
             (\<lambda>_ db1. (db1, Inr ())))"

definition defer_error ::
    "env \<Rightarrow> code_attempt_row \<Rightarrow> string \<Rightarrow> db \<Rightarrow> db \<times> (api_error + unit)" where
  "defer_error e claim message =
     deferRecovery e claim False (Some message) (\<lambda>a. a) (backoffMs (ca_recoveryAttemptCount claim))"

text \<open>
  A provider call under the lease: the lease is renewed first, and a lost lease is an error like
  any other.
\<close>

definition callWithRenewedLease ::
    "env \<Rightarrow> code_attempt_row \<Rightarrow> (string + 'r) \<Rightarrow> db \<Rightarrow> db \<times> (string + 'r)" where
  "callWithRenewedLease e claim answer db =
     (case renewRecoveryClaim e claim RECOVERY_LEASE_MS db of
        (renewed, db1) \<Rightarrow> (db1, if renewed then answer
          else Inl (''payment_code_recovery_lease_lost:'' @ show_int (int (ca_id claim)))))"

subsection \<open>Terminal results\<close>

record terminal_kind =
  tk_succeeded :: bool
  tk_attemptStatus :: code_attempt_status
  tk_eventSuffix :: string
  tk_allowIncidentLocked :: bool

definition terminal_patch ::
    "env \<Rightarrow> code_answer \<Rightarrow> terminal_kind \<Rightarrow> code_attempt_row \<Rightarrow> code_attempt_row" where
  "terminal_patch e r k a = (providerPatch e r a)
     \<lparr>ca_failureCode := (if tk_succeeded k then None
        else or_default (ka_failureCode r) (''payment_code_'' @ tk_eventSuffix k)),
      ca_failureMessage := (if tk_succeeded k then None
        else map_option PlainText (ka_failureMessage r)),
      ca_manualReason := (if tk_succeeded k then None else ca_manualReason a),
      ca_reversedAt := (if tk_attemptStatus k = CaReversed then Some (e_now e) else None),
      ca_finishedAt := Some (e_now e)\<rparr>"

definition terminal_result ::
    "env \<Rightarrow> code_attempt_row \<Rightarrow> string \<Rightarrow> recovery_context \<Rightarrow> code_answer \<Rightarrow> terminal_kind \<Rightarrow>
     code_attempt_result" where
  "terminal_result e claim ownerToken cx r k =
     \<lparr>cr_attemptId = ca_id claim, cr_paymentId = ca_paymentId claim, cr_orderId = ca_orderId claim,
      cr_providerId = ca_providerId claim,
      cr_providerTradeNo = (case ka_providerTradeNo r of
         Some n \<Rightarrow> Some n | None \<Rightarrow> ca_providerTradeNo (rx_attempt cx)),
      cr_succeeded = tk_succeeded k, cr_attemptStatus = tk_attemptStatus k,
      cr_ownerToken = ownerToken, cr_fence = ca_leaseFence claim,
      cr_paidAt = (if tk_succeeded k then or_default (ka_paidAt r) (e_now e) else None),
      cr_failedReason = (if tk_succeeded k then None
         else or_default (ka_failureCode r) (''payment_code_'' @ tk_eventSuffix k)),
      cr_eventType = ''payment_code.'' @ tk_eventSuffix k,
      cr_providerEventId = ''payment_code:'' @ ca_providerPaymentNo claim @ '':'' @ tk_eventSuffix k,
      cr_attemptPatch = terminal_patch e r k,
      cr_allowIncidentLockedResolution = tk_allowIncidentLocked k\<rparr>"

definition applyProviderTerminalResult ::
    "env \<Rightarrow> publisher \<Rightarrow> code_attempt_row \<Rightarrow> recovery_context \<Rightarrow> code_answer \<Rightarrow> terminal_kind \<Rightarrow> db \<Rightarrow>
     db \<times> (api_error + unit)" where
  "applyProviderTerminalResult e publish claim cx r k db =
     (case ca_leaseOwnerToken claim of None \<Rightarrow> (db, Inr ())
      | Some ownerToken \<Rightarrow>
          bindS (applyPaymentCodeAttemptProviderResult e publish
                   (terminal_result e claim ownerToken cx r k) db)
            (\<lambda>_ db1. (db1, Inr ())))"

subsection \<open>Query and reversal\<close>

definition mock_config :: runtime_config where
  "mock_config = \<lparr>cfg_id = None, cfg_providerCode = ''mock'', cfg_merchantNo = None,
     cfg_appId = None, cfg_publicConfigJson = []\<rparr>"

definition resolveConfig :: "env \<Rightarrow> recovery_context \<Rightarrow> api_error + runtime_config" where
  "resolveConfig e cx =
     (if pp_code (rx_provider cx) = ''mock'' then Inr mock_config
      else cs_resolveForExisting (e_configs e) (pp_code (rx_provider cx))
             (p_paymentProviderConfigId (rx_payment cx)))"

definition getPaymentCodeProvider :: "env \<Rightarrow> string \<Rightarrow> api_error + code_provider" where
  "getPaymentCodeProvider e code = (case e_registry e code of
     None \<Rightarrow> Inl (NotFoundException (''Payment provider '' @ code @ '' not found''))
   | Some provider \<Rightarrow> (case rp_paymentCode provider of
       None \<Rightarrow> Inl (ConflictException
                 (''Payment provider '' @ code @ '' does not support payment_code''))
     | Some cp \<Rightarrow> Inr cp))"

definition code_query_input :: "code_attempt_row \<Rightarrow> string option \<Rightarrow> cancel_input" where
  "code_query_input claim providerTradeNo =
     \<lparr>cn_paymentNo = ca_providerPaymentNo claim, cn_providerTradeNo = providerTradeNo\<rparr>"

definition reverse_patch :: "env \<Rightarrow> code_answer \<Rightarrow> code_attempt_row \<Rightarrow> code_attempt_row" where
  "reverse_patch e r a = (providerPatch e r a)
     \<lparr>ca_failureCode := or_default (ka_failureCode r) ''PAYMENT_CODE_REVERSE_UNKNOWN'',
      ca_failureMessage := Some (case ka_failureMessage r of
         Some m \<Rightarrow> PlainText m | None \<Rightarrow> MsgCodeReverseUnknown)\<rparr>"

text \<open>The answer to a reversal, under the claim that began it.\<close>

definition apply_reversal ::
    "env \<Rightarrow> publisher \<Rightarrow> code_attempt_row \<Rightarrow> recovery_context \<Rightarrow> runtime_config \<Rightarrow>
     string + reverse_result \<Rightarrow> db \<Rightarrow> db \<times> (api_error + unit)" where
  "apply_reversal e publish claim cx config answer db =
     (case answer of
        Inl message \<Rightarrow> defer_error e claim message db
      | Inr result \<Rightarrow>
          if rr_status result = RevReversed
          then applyProviderTerminalResult e publish claim cx (reverse_answer result)
                 \<lparr>tk_succeeded = False, tk_attemptStatus = CaReversed,
                  tk_eventSuffix = ''reverse_confirmed'', tk_allowIncidentLocked = True\<rparr> db
          else deferRecovery e claim False None (reverse_patch e (reverse_answer result))
                 (pollDelayMs (pp_code (rx_provider cx)) config) db)"

definition reverseAfterQuery ::
    "env \<Rightarrow> publisher \<Rightarrow> code_provider \<Rightarrow> code_attempt_row \<Rightarrow> recovery_context \<Rightarrow> runtime_config \<Rightarrow>
     code_result \<Rightarrow> db \<Rightarrow> db \<times> (api_error + unit)" where
  "reverseAfterQuery e publish provider claim cx config query db =
     (case beginReversal e claim (providerPatch e (to_code_answer query)) db of
        (None, db1) \<Rightarrow> (db1, Inr ())
      | (Some reversalClaim, db1) \<Rightarrow>
         (let tradeNo = (case cd_providerTradeNo query of
                Some n \<Rightarrow> Some n | None \<Rightarrow> ca_providerTradeNo (rx_attempt cx)) in
          (case callWithRenewedLease e reversalClaim
                  (cp_reverse provider (code_query_input reversalClaim tradeNo)) db1 of
             (db2, answer) \<Rightarrow> apply_reversal e publish reversalClaim cx config answer db2)))"

definition query_kind :: "code_status \<Rightarrow> terminal_kind" where
  "query_kind st =
     \<lparr>tk_succeeded = (st = CsSucceeded),
      tk_attemptStatus = (if st = CsSucceeded then CaSucceeded
                          else if st = CsReversed then CaReversed else CaFailed),
      tk_eventSuffix = ''query_'' @ code_status_string st, tk_allowIncidentLocked = True\<rparr>"

definition should_reverse :: "env \<Rightarrow> code_attempt_row \<Rightarrow> recovery_context \<Rightarrow> bool" where
  "should_reverse e claim cx \<longleftrightarrow> ca_status claim = CaReversing \<or>
     (case p_expiresAt (rx_payment cx) of None \<Rightarrow> False | Some t \<Rightarrow> t \<le> e_now e)"

definition apply_query ::
    "env \<Rightarrow> publisher \<Rightarrow> code_provider \<Rightarrow> code_attempt_row \<Rightarrow> recovery_context \<Rightarrow> runtime_config \<Rightarrow>
     string + code_result \<Rightarrow> db \<Rightarrow> db \<times> (api_error + unit)" where
  "apply_query e publish provider claim cx config answer db =
     (case answer of
        Inl message \<Rightarrow> defer_error e claim message db
      | Inr result \<Rightarrow>
          if cd_status result \<in> {CsSucceeded, CsFailed, CsReversed}
          then applyProviderTerminalResult e publish claim cx (to_code_answer result)
                 (query_kind (cd_status result)) db
          else if should_reverse e claim cx
          then reverseAfterQuery e publish provider claim cx config result db
          else deferRecovery e claim (cd_status result = CsUserConfirming) None
                 (providerPatch e (to_code_answer result))
                 (pollDelayMs (pp_code (rx_provider cx)) config) db)"

definition queryAndResolve ::
    "env \<Rightarrow> publisher \<Rightarrow> code_attempt_row \<Rightarrow> recovery_context \<Rightarrow> runtime_config \<Rightarrow> db \<Rightarrow>
     db \<times> (api_error + unit)" where
  "queryAndResolve e publish claim cx config db =
     (case getPaymentCodeProvider e (pp_code (rx_provider cx)) of Inl err \<Rightarrow> (db, Inl err)
      | Inr provider \<Rightarrow>
          (case callWithRenewedLease e claim
                  (cp_query provider (code_query_input claim (ca_providerTradeNo (rx_attempt cx))))
                  db of
             (db1, answer) \<Rightarrow> apply_query e publish provider claim cx config answer db1))"

subsection \<open>Recovery\<close>

definition release_quietly ::
    "env \<Rightarrow> code_attempt_row \<Rightarrow> code_attempt_status \<Rightarrow> (code_attempt_row \<Rightarrow> code_attempt_row) \<Rightarrow> db \<Rightarrow>
     db \<times> (api_error + unit)" where
  "release_quietly e claim status patch db =
     bindS (atomic (releaseRecoveryClaim e claim status None patch) db) (\<lambda>_ db1. (db1, Inr ()))"

definition not_admitted :: "env \<Rightarrow> code_attempt_row \<Rightarrow> code_attempt_row" where
  "not_admitted e a = a\<lparr>ca_failureCode := Some ''PAYMENT_CODE_SUBMISSION_NOT_ADMITTED'',
     ca_failureMessage := Some MsgCodeNotAdmitted, ca_finishedAt := Some (e_now e)\<rparr>"

definition recoverClaim ::
    "env \<Rightarrow> publisher \<Rightarrow> code_attempt_row \<Rightarrow> db \<Rightarrow> db \<times> (api_error + unit)" where
  "recoverClaim e publish claim db =
     (if ca_status claim = CaCreated then release_quietly e claim CaFailed (not_admitted e) db
      else if ca_status claim = CaManualHandling
      then mark_manual e claim (case ca_manualReason claim of
             Some r \<Rightarrow> r | None \<Rightarrow> ''operator_requested_manual_handling'') db
      else if RECOVERY_MAX_ATTEMPTS \<le> ca_recoveryAttemptCount claim
      then mark_manual e claim ''recovery_attempts_exhausted'' db
      else case bindR (getRecoveryContextById (ca_id claim) db) (\<lambda>cx.
             bindR (resolveConfig e cx) (\<lambda>config. Inr (cx, config))) of
        Inl err \<Rightarrow> defer_error e claim (error_message err) db
      | Inr (cx, config) \<Rightarrow>
         (let st = p_status (rx_payment cx) in
          if st = PaySucceeded then release_quietly e claim CaSucceeded (\<lambda>a. a) db
          else if st \<in> {PayFailed, PayExpired, PayCanceled}
          then release_quietly e claim CaFailed (\<lambda>a. a\<lparr>ca_finishedAt := Some (e_now e)\<rparr>) db
          else queryAndResolve e publish claim cx config db))"

text \<open>\<open>randomUUID\<close> for the owner token of a claim.\<close>

definition owner_token :: "env \<Rightarrow> db \<Rightarrow> string \<times> db" where
  "owner_token e db = (e_randomUUID e (db_next db), db\<lparr>db_next := Suc (db_next db)\<rparr>)"

fun reconcileBatch :: "env \<Rightarrow> publisher \<Rightarrow> nat \<Rightarrow> nat \<Rightarrow> db \<Rightarrow> db \<times> (api_error + nat)" where
  "reconcileBatch e publish 0 claimed db = (db, Inr claimed)"
| "reconcileBatch e publish (Suc room) claimed db =
     (case owner_token e db of (ownerToken, db0) \<Rightarrow>
       (case claimNextDueRecoveryAttempt ownerToken (e_now e) RECOVERY_LEASE_MS db0 of
          (None, db1) \<Rightarrow> (db1, Inr claimed)
        | (Some claim, db1) \<Rightarrow> bindS (recoverClaim e publish claim db1)
            (\<lambda>_ db2. reconcileBatch e publish room (Suc claimed) db2)))"

definition reconcileDueAttempts :: "env \<Rightarrow> publisher \<Rightarrow> db \<Rightarrow> db \<times> (api_error + nat)" where
  "reconcileDueAttempts e publish = reconcileBatch e publish RECOVERY_BATCH_SIZE 0"

definition read_attempt :: "uuid \<Rightarrow> db \<Rightarrow> db \<times> (api_error + code_attempt_row)" where
  "read_attempt i db = (db, getAttemptById i db)"

definition processAttemptNow ::
    "env \<Rightarrow> publisher \<Rightarrow> uuid \<Rightarrow> db \<Rightarrow> db \<times> (api_error + code_attempt_row)" where
  "processAttemptNow e publish i db =
     (case owner_token e db of (ownerToken, db0) \<Rightarrow>
       (case claimRecoveryAttemptById i ownerToken (e_now e) RECOVERY_LEASE_MS db0 of
          (None, db1) \<Rightarrow> read_attempt i db1
        | (Some claim, db1) \<Rightarrow> bindS (recoverClaim e publish claim db1)
            (\<lambda>_ db2. read_attempt i db2)))"

definition requestManualAction ::
    "env \<Rightarrow> publisher \<Rightarrow> uuid \<Rightarrow> code_attempt_status \<Rightarrow> string option \<Rightarrow> db \<Rightarrow>
     db \<times> (api_error + code_attempt_row)" where
  "requestManualAction e publish i status reason db =
     bindS (atomic (requestRecoveryAction e i status reason) db) (\<lambda>requested db1.
       if \<not> ca_isActive requested \<or> isTerminal requested then (db1, Inr requested)
       else processAttemptNow e publish i db1)"

definition requestManualQuery ::
    "env \<Rightarrow> publisher \<Rightarrow> uuid \<Rightarrow> string option \<Rightarrow> db \<Rightarrow> db \<times> (api_error + code_attempt_row)" where
  "requestManualQuery e publish i reason = requestManualAction e publish i CaQuerying reason"

definition requestManualReverse ::
    "env \<Rightarrow> publisher \<Rightarrow> uuid \<Rightarrow> string \<Rightarrow> db \<Rightarrow> db \<times> (api_error + code_attempt_row)" where
  "requestManualReverse e publish i reason =
     requestManualAction e publish i CaReversing (Some reason)"

subsection \<open>Submission\<close>

definition admission ::
    "env \<Rightarrow> uuid \<Rightarrow> db \<Rightarrow> api_error + recovery_context \<times> runtime_config" where
  "admission e attemptId db =
     bindR (getRecoveryContextById attemptId db) (\<lambda>cx.
     bindR (if pp_code (rx_provider cx) = ''mock'' then Inr ()
            else case cs_unavailable (e_configs e) (pp_code (rx_provider cx)) PmPaymentCode
                        (m_id (rx_machine cx)) of
              None \<Rightarrow> Inr () | Some err \<Rightarrow> Inl err) (\<lambda>_.
     bindR (resolveConfig e cx) (\<lambda>config. Inr (cx, config))))"

definition admission_failed ::
    "env \<Rightarrow> uuid \<Rightarrow> api_error \<Rightarrow> db \<Rightarrow> db \<times> (api_error + code_attempt_row)" where
  "admission_failed e attemptId err db =
     bindS (atomic (markStatusIfCurrentStatusIn e attemptId CaFailed [CaCreated]
        (\<lambda>a. a\<lparr>ca_failureCode := Some ''PAYMENT_CODE_ADMISSION_FAILED'',
               ca_failureMessage := Some (PlainText (error_message err)),
               ca_finishedAt := Some (e_now e)\<rparr>)) db)
       (\<lambda>_ db1. (db1, Inl err))"

definition failed_charge :: "env \<Rightarrow> code_result \<Rightarrow> code_attempt_row \<Rightarrow> code_attempt_row" where
  "failed_charge e r a = a\<lparr>ca_providerTradeNo := cd_providerTradeNo r,
     ca_providerStatus := or_default (cd_providerStatus r) ''failed'',
     ca_failureCode := or_default (cd_failureCode r) ''PAYMENT_CODE_FAILED'',
     ca_failureMessage := Some (case cd_failureMessage r of
        Some m \<Rightarrow> PlainText m | None \<Rightarrow> MsgCodeFailed),
     ca_lastCheckedAt := Some (e_now e), ca_finishedAt := Some (e_now e)\<rparr>"

definition charge_kind :: "code_status \<Rightarrow> terminal_kind" where
  "charge_kind st = (if st = CsSucceeded
     then \<lparr>tk_succeeded = True, tk_attemptStatus = CaSucceeded,
           tk_eventSuffix = ''charge_succeeded'', tk_allowIncidentLocked = False\<rparr>
     else \<lparr>tk_succeeded = False, tk_attemptStatus = CaReversed,
           tk_eventSuffix = ''charge_reversed'', tk_allowIncidentLocked = False\<rparr>)"

definition applyChargeResult ::
    "env \<Rightarrow> publisher \<Rightarrow> code_attempt_row \<Rightarrow> recovery_context \<Rightarrow> runtime_config \<Rightarrow> code_result \<Rightarrow> db \<Rightarrow>
     db \<times> (api_error + code_attempt_row)" where
  "applyChargeResult e publish claim cx config result db =
     bindS (if cd_status result = CsSucceeded \<or> cd_status result = CsReversed
            then applyProviderTerminalResult e publish claim cx (to_code_answer result)
                   (charge_kind (cd_status result)) db
            else if cd_status result = CsFailed
            then release_quietly e claim CaFailed (failed_charge e result) db
            else deferRecovery e claim (cd_status result = CsUserConfirming) None
                   (providerPatch e (to_code_answer result))
                   (pollDelayMs (pp_code (rx_provider cx)) config) db)
       (\<lambda>_ db1. read_attempt (ca_id claim) db1)"

definition charge ::
    "env \<Rightarrow> publisher \<Rightarrow> recovery_context \<Rightarrow> runtime_config \<Rightarrow> string \<Rightarrow> code_attempt_row \<Rightarrow> db \<Rightarrow>
     db \<times> (api_error + code_attempt_row)" where
  "charge e publish cx config authCode claim db =
     (case getPaymentCodeProvider e (pp_code (rx_provider cx)) of Inl err \<Rightarrow> (db, Inl err)
      | Inr provider \<Rightarrow>
          (case callWithRenewedLease e claim (cp_charge provider
                  \<lparr>ch_paymentNo = ca_providerPaymentNo claim, ch_orderNo = o_orderNo (rx_order cx),
                   ch_amountCents = ca_amountCents claim, ch_authCode = authCode\<rparr>) db of
             (db1, Inl message) \<Rightarrow> bindS (defer_error e claim message db1)
                (\<lambda>_ db2. read_attempt (ca_id claim) db2)
           | (db1, Inr result) \<Rightarrow> applyChargeResult e publish claim cx config result db1))"

definition submitAttempt ::
    "env \<Rightarrow> publisher \<Rightarrow> uuid \<Rightarrow> string \<Rightarrow> db \<Rightarrow> db \<times> (api_error + code_attempt_row)" where
  "submitAttempt e publish attemptId authCode db =
     (case admission e attemptId db of
        Inl err \<Rightarrow> admission_failed e attemptId err db
      | Inr (cx, config) \<Rightarrow>
          (case owner_token e db of (ownerToken, db0) \<Rightarrow>
            (case claimSubmission e attemptId ownerToken RECOVERY_LEASE_MS db0 of
               (None, db1) \<Rightarrow> read_attempt attemptId db1
             | (Some claim, db1) \<Rightarrow> charge e publish cx config authCode claim db1)))"

subsection \<open>The facade\<close>

datatype code_next_action = NaDispensing | NaManualHandling | NaWaitPayment

record submit_response =
  sr_orderNo :: string
  sr_paymentNo :: string
  sr_attemptNo :: nat
  sr_status :: code_attempt_status
  sr_nextAction :: code_next_action
  sr_canRetry :: bool

definition toSubmitResponse :: "string \<Rightarrow> string \<Rightarrow> code_attempt_row \<Rightarrow> submit_response" where
  "toSubmitResponse orderNo paymentNo a =
     \<lparr>sr_orderNo = orderNo, sr_paymentNo = paymentNo, sr_attemptNo = ca_attemptNo a,
      sr_status = ca_status a,
      sr_nextAction = (if ca_status a = CaSucceeded then NaDispensing
                       else if ca_status a = CaManualHandling then NaManualHandling
                       else NaWaitPayment),
      sr_canRetry = (\<not> ca_isActive a \<and> ca_status a \<in> {CaFailed, CaReversed, CaCanceled})\<rparr>"

definition submit ::
    "env \<Rightarrow> publisher \<Rightarrow> code_input \<Rightarrow> db \<Rightarrow> db \<times> (api_error + submit_response)" where
  "submit e publish input db =
     bindS (atomic (createOrReplay e input (e_paymentMockEnabled e)) db)
       (\<lambda>(p, attempt, replayed) db1.
          bindS (if ca_status attempt = CaCreated \<and> ca_isActive attempt
                 then submitAttempt e publish (ca_id attempt) (ci_authCode input) db1
                 else (db1, Inr attempt))
            (\<lambda>current db2. (db2, Inr (toSubmitResponse (ci_orderNo input) (p_paymentNo p) current))))"

end
