(* ===== verification/Order_Creation.thy ===== *)
theory Order_Creation
  imports Code_Recovery
begin

text \<open>
  \<open>orders/orders.service.ts\<close>, first part: how a machine creates an order. One transaction drafts the
  order, its lines, their reservations and the payment; then the payment intent is claimed under a
  lease, asked of the provider and persisted by whoever still holds the lease. Repeating the request
  with its idempotency key restores what the first one created.

  The snapshots of product texts and of the customer profile are not modelled, nor is the map that
  joins two requests for one payment in a process. The deadline of the provider call is an error of
  the provider. A write that the database itself refuses to perform is not modelled, so the branch
  that cancels a fresh intent after one (\<open>cancelProviderIntentAfterDbFailure\<close>) is left out.
\<close>

record order_line_input =
  li_inventoryId :: uuid
  li_quantity :: int
  li_planogramVersion :: string
  li_slotId :: uuid

record create_order_input =
  co_machineCode :: string
  co_items :: "order_line_input list"
  co_paymentMethod :: payment_method
  co_paymentProviderCode :: "string option"
  co_idempotencyKey :: string

definition PAYMENT_INTENT_CREATION_LEASE_MS :: ms where
  "PAYMENT_INTENT_CREATION_LEASE_MS = 90000"

text \<open>SQLSTATE 23505: the names of unique indexes, and only those, end in \<open>_unique\<close>.\<close>

definition isUniqueViolation :: "api_error \<Rightarrow> bool" where
  "isUniqueViolation err = (case err of
     ConstraintViolation n \<Rightarrow> take 7 (rev n) = rev ''_unique'' | _ \<Rightarrow> False)"

definition readQrExpiresMinutes :: "metadata \<Rightarrow> int" where
  "readQrExpiresMinutes publicConfigJson =
     (case map_of publicConfigJson ''qrExpiresMinutes'' of
        Some (JInt value) \<Rightarrow> if 1 \<le> value \<and> value \<le> 60 then value else 15
      | _ \<Rightarrow> 15)"

text \<open>The alternatives in Chinese cannot occur in a \<open>string\<close> here.\<close>

fun isIndeterminateProviderError :: "provider_error \<Rightarrow> bool" where
  "isIndeterminateProviderError (RequestNotSent message) = False"
| "isIndeterminateProviderError (ProviderThrew message) =
     list_ex (\<lambda>needle. contains needle (map ascii_lower message))
       [''timeout'', ''status: 5'', ''status: 504'', ''gateway timeout'', ''gateway time-out'',
        ''econn'', ''socket'', ''payment provider unavailable'']"

definition real_providers :: "string list" where
  "real_providers = [''wechat_pay'', ''alipay'']"

definition resolvePaymentSelection ::
    "create_order_input \<Rightarrow> api_error + string \<times> payment_method" where
  "resolvePaymentSelection input =
     (case (co_paymentMethod input, co_paymentProviderCode input) of
        (PmMock, code) \<Rightarrow>
          if code \<noteq> None \<and> code \<noteq> Some ''mock''
          then Inl (ConflictException ''mock payment method can only use mock provider'')
          else Inr (''mock'', PmMock)
      | (PmQrCode, Some code) \<Rightarrow>
          if code \<in> set real_providers then Inr (code, PmQrCode)
          else Inl (ConflictException ''Unsupported payment method/provider combination'')
      | (PmPaymentCode, Some code) \<Rightarrow>
          if code \<in> set (''mock'' # real_providers) then Inr (code, PmPaymentCode)
          else Inl (ConflictException ''Unsupported payment method/provider combination'')
      | _ \<Rightarrow> Inl (ConflictException ''Unsupported payment method/provider combination''))"

subsection \<open>The local draft\<close>

record payment_draft =
  ld_orderId :: uuid
  ld_orderNo :: string
  ld_paymentId :: uuid
  ld_paymentNo :: string
  ld_providerCode :: string
  ld_paymentMethod :: payment_method
  ld_machineId :: uuid
  ld_totalAmountCents :: int
  ld_expiresAt :: ms
  ld_reservations :: "(uuid \<times> int) list"

definition insert_order :: "order_row \<Rightarrow> db \<Rightarrow> api_error + db" where
  "insert_order x db =
     (if o_totalAmountCents x < 0
      then Inl (ConstraintViolation ''orders_total_amount_cents_non_negative'')
      else if INT4_MAX < o_totalAmountCents x
      then Inl (ConstraintViolation ''orders_total_amount_cents_out_of_range'')
      else if list_ex (\<lambda>y. o_orderNo y = o_orderNo x) (db_orders db)
      then Inl (ConstraintViolation ''orders_order_no_unique'')
      else if list_ex (\<lambda>y. o_machineId y = o_machineId x \<and> o_paymentCreationIdempotencyKey x \<noteq> None \<and>
                o_paymentCreationIdempotencyKey y = o_paymentCreationIdempotencyKey x) (db_orders db)
      then Inl (ConstraintViolation ''orders_machine_payment_creation_idempotency_unique'')
      else Inr (db\<lparr>db_orders := db_orders db @ [x], db_next := Suc (db_next db)\<rparr>))"

definition insert_item :: "order_item_row \<Rightarrow> db \<Rightarrow> api_error + db" where
  "insert_item oi db =
     (if oi_quantity oi \<le> 0 then Inl (ConstraintViolation ''order_items_quantity_positive'')
      else if oi_unitPriceCents oi < 0
      then Inl (ConstraintViolation ''order_items_unit_price_cents_non_negative'')
      else Inr (db\<lparr>db_orderItems := db_orderItems db @ [oi], db_next := Suc (db_next db)\<rparr>))"

definition insert_payment :: "payment_row \<Rightarrow> db \<Rightarrow> api_error + db" where
  "insert_payment p db =
     (if p_amountCents p < 0 then Inl (ConstraintViolation ''payments_amount_cents_non_negative'')
      else if list_ex (\<lambda>q. p_paymentNo q = p_paymentNo p) (db_payments db)
      then Inl (ConstraintViolation ''payments_payment_no_unique'')
      else Inr (db\<lparr>db_payments := db_payments db @ [p], db_next := Suc (db_next db)\<rparr>))"

record line_detail =
  dt_inventory :: inventory_row
  dt_slot :: slot_row
  dt_variant :: variant_row
  dt_product :: product_row

definition available_rows :: "uuid \<Rightarrow> db \<Rightarrow> line_detail list" where
  "available_rows machineId db =
     [\<lparr>dt_inventory = r, dt_slot = s, dt_variant = v, dt_product = pd\<rparr>.
        r \<leftarrow> db_inventories db, s \<leftarrow> db_slots db, v \<leftarrow> db_variants db, pd \<leftarrow> db_products db,
        sl_id s = inv_slotId r \<and> va_id v = inv_variantId r \<and> pd_id pd = va_productId v \<and>
        inv_machineId r = machineId]"

definition find_line :: "uuid \<Rightarrow> db \<Rightarrow> order_line_input \<Rightarrow> api_error + line_detail" where
  "find_line machineId db item =
     (case List.find (\<lambda>d. inv_id (dt_inventory d) = li_inventoryId item)
             (available_rows machineId db) of
        None \<Rightarrow> Inl (NotFoundException
          (''Inventory '' @ show_int (int (li_inventoryId item)) @ '' not found''))
      | Some d \<Rightarrow>
          if sl_status (dt_slot d) \<noteq> SsEnabled then Inl (ConflictException ''Slot is not available'')
          else if va_status (dt_variant d) \<noteq> VaActive \<or> pd_status (dt_product d) \<noteq> PrActive
          then Inl (ConflictException ''Product is not available'')
          else if li_planogramVersion item = []
          then Inl (ConflictException ''Machine order line context is required'')
          else if li_slotId item \<noteq> sl_id (dt_slot d)
          then Inl (ConflictException
            ''Machine order line does not match active slot inventory mapping'')
          else Inr d)"

fun mapR :: "('a \<Rightarrow> 'e + 'b) \<Rightarrow> 'a list \<Rightarrow> 'e + 'b list" where
  "mapR f [] = Inr []"
| "mapR f (x # xs) = bindR (f x) (\<lambda>y. bindR (mapR f xs) (\<lambda>ys. Inr (y # ys)))"

definition assertMachineOrderLinePlanogramContext ::
    "uuid \<Rightarrow> db \<Rightarrow> order_line_input \<Rightarrow> api_error + unit" where
  "assertMachineOrderLinePlanogramContext machineId db item =
     (if li_planogramVersion item = []
      then Inl (ConflictException ''Machine order line context is required'')
      else if list_ex (\<lambda>v. pv_machineId v = machineId \<and>
          pv_planogramVersion v = li_planogramVersion item \<and> pv_status v = PgActive \<and>
          pv_acknowledgedAt v \<noteq> None \<and>
          list_ex (\<lambda>s. pg_machinePlanogramVersionId s = pv_id v \<and> pg_slotId s = li_slotId item \<and>
             pg_inventoryId s = li_inventoryId item) (db_planogramSlots db)) (db_planogramVersions db)
      then Inr ()
      else Inl (ConflictException
        ''Machine order line planogram context is not active and acknowledged''))"

definition new_order_row :: "env \<Rightarrow> create_order_input \<Rightarrow> uuid \<Rightarrow> int \<Rightarrow> db \<Rightarrow> order_row" where
  "new_order_row e input machineId totalAmountCents db =
     \<lparr>o_id = db_next db, o_orderNo = createBusinessNo e (db_next db) ORD, o_machineId = machineId,
      o_status = OsPendingPayment, o_paymentState = PsAwaitingPayment,
      o_fulfillmentState = FsAwaitingFulfillment, o_totalAmountCents = totalAmountCents,
      o_paymentId = None, o_dispensedAt = None, o_updatedAt = e_now e,
      o_paymentCreationIdempotencyKey = Some (co_idempotencyKey input), o_paidAt = None,
      o_canceledAt = None\<rparr>"

definition new_item_row ::
    "uuid \<Rightarrow> order_line_input \<Rightarrow> line_detail \<Rightarrow> db \<Rightarrow> order_item_row" where
  "new_item_row orderId item d db =
     \<lparr>oi_id = db_next db, oi_orderId = orderId, oi_variantId = va_id (dt_variant d),
      oi_inventoryId = inv_id (dt_inventory d), oi_slotId = sl_id (dt_slot d),
      oi_quantity = li_quantity item, oi_unitPriceCents = va_priceCents (dt_variant d),
      oi_productSnapshot = \<lparr>ps_planogramVersion = Some (li_planogramVersion item),
        ps_slotId = Some (sl_id (dt_slot d)), ps_inventoryId = Some (inv_id (dt_inventory d)),
        ps_variantId = Some (va_id (dt_variant d)), ps_productId = Some (pd_id (dt_product d)),
        ps_vendingCommandQuantity = Some (li_quantity item)\<rparr>,
      oi_fulfillmentStatus = LfPending, oi_refundStatus = LrNotRequired, oi_refundId = None,
      oi_fulfilledAt = None, oi_failedAt = None, oi_refundUpdatedAt = None,
      oi_planogramVersion = li_planogramVersion item\<rparr>"

definition draft_line ::
    "env \<Rightarrow> uuid \<Rightarrow> ms \<Rightarrow> order_line_input \<times> line_detail \<Rightarrow> db \<Rightarrow> api_error + db" where
  "draft_line e orderId paymentExpiresAt = (\<lambda>(item, d) db.
     bindR (insert_item (new_item_row orderId item d db) db)
       (reserveForOrder e orderId (Some (db_next db)) (inv_id (dt_inventory d)) (li_quantity item)
          paymentExpiresAt))"

definition new_payment_row ::
    "env \<Rightarrow> uuid \<Rightarrow> uuid \<Rightarrow> uuid option \<Rightarrow> payment_method \<Rightarrow> int \<Rightarrow> ms \<Rightarrow> db \<Rightarrow> payment_row" where
  "new_payment_row e orderId providerId configId method amountCents expiresAt db =
     \<lparr>p_id = db_next db, p_paymentNo = createBusinessNo e (db_next db) PAY, p_orderId = orderId,
      p_providerId = providerId, p_paymentProviderConfigId = configId, p_status = PayCreated,
      p_amountCents = amountCents, p_providerTradeNo = None, p_updatedAt = e_now e,
      p_method = method, p_paymentUrl = None, p_intentLeaseExpiresAt = None,
      p_intentLeaseOwnerToken = None, p_intentLeaseFence = 0, p_expiresAt = Some expiresAt,
      p_paidAt = None, p_failedReason = None, p_createdAt = e_now e\<rparr>"
definition draft_details ::
    "create_order_input \<Rightarrow> uuid \<Rightarrow> db \<Rightarrow> api_error + (order_line_input \<times> line_detail) list" where
  "draft_details input machineId db =
     bindR (lockMachineForVendingMutation machineId db) (\<lambda>_.
     bindR (lockInventoriesForVendingMutation (map li_inventoryId (co_items input)) db) (\<lambda>_.
     bindR (mapR (find_line machineId db) (co_items input)) (\<lambda>details.
     bindR (mapR (assertMachineOrderLinePlanogramContext machineId db) (co_items input)) (\<lambda>_.
       Inr (zip (co_items input) details)))))"

definition order_total :: "(order_line_input \<times> line_detail) list \<Rightarrow> int" where
  "order_total lines =
     foldl (\<lambda>s (item, d). s + va_priceCents (dt_variant d) * li_quantity item) 0 lines"

definition enabled_provider :: "string \<Rightarrow> db \<Rightarrow> api_error + payment_provider_row" where
  "enabled_provider code db =
     (case List.find (\<lambda>pp. pp_code pp = code \<and> pp_status pp = PcEnabled) (db_providers db) of
        None \<Rightarrow> Inl (ConflictException ''Payment provider unavailable'') | Some pp \<Rightarrow> Inr pp)"

definition draft_payment ::
    "env \<Rightarrow> create_order_input \<Rightarrow> uuid \<Rightarrow> ms \<Rightarrow> string \<times> payment_method \<Rightarrow> uuid option \<Rightarrow>
     order_row \<Rightarrow> db \<Rightarrow> api_error + payment_draft \<times> db" where
  "draft_payment e input machineId expiresAt selection configId x db =
     bindR (enabled_provider (fst selection) db) (\<lambda>pp.
       let p = new_payment_row e (o_id x) (pp_id pp) configId (snd selection)
                 (o_totalAmountCents x) expiresAt db in
       bindR (insert_payment p db) (\<lambda>db1.
         let db2 = upd_orders (\<lambda>y. o_id y = o_id x)
               (\<lambda>y. y\<lparr>o_paymentId := Some (p_id p), o_updatedAt := e_now e\<rparr>) db1;
             db3 = log_status (o_id x) None OsPendingPayment ''machine_order_created'' None db2
         in Inr (\<lparr>ld_orderId = o_id x, ld_orderNo = o_orderNo x, ld_paymentId = p_id p,
              ld_paymentNo = p_paymentNo p, ld_providerCode = pp_code pp,
              ld_paymentMethod = co_paymentMethod input, ld_machineId = machineId,
              ld_totalAmountCents = p_amountCents p, ld_expiresAt = expiresAt,
              ld_reservations = map (\<lambda>i. (li_inventoryId i, li_quantity i)) (co_items input)\<rparr>,
            db3)))"

definition createLocalMachineOrderDraft ::
    "env \<Rightarrow> create_order_input \<Rightarrow> uuid \<Rightarrow> ms \<Rightarrow> string \<times> payment_method \<Rightarrow> uuid option \<Rightarrow> db \<Rightarrow>
     api_error + payment_draft \<times> db" where
  "createLocalMachineOrderDraft e input machineId paymentExpiresAt selection configId db =
     bindR (draft_details input machineId db) (\<lambda>lines.
       let x = new_order_row e input machineId (order_total lines) db in
       bindR (insert_order x db) (\<lambda>db1.
       bindR (foldR (draft_line e (o_id x) paymentExpiresAt) lines db1) (\<lambda>db2.
         draft_payment e input machineId paymentExpiresAt selection configId x db2)))"

subsection \<open>The payment intent\<close>

text \<open>The claim: one worker at a time, and only while no code is stored for the payment.\<close>

definition claimable_intent :: "env \<Rightarrow> uuid \<Rightarrow> payment_row \<Rightarrow> bool" where
  "claimable_intent e paymentId p \<longleftrightarrow> p_id p = paymentId \<and> p_paymentUrl p = None \<and>
     p_status p \<in> {PayCreated, PayProcessing} \<and>
     (case p_intentLeaseExpiresAt p of None \<Rightarrow> True | Some t \<Rightarrow> t < e_now e)"

definition claim_intent :: "env \<Rightarrow> uuid \<Rightarrow> db \<Rightarrow> (string \<times> int) option \<times> db" where
  "claim_intent e paymentId db =
     (case owner_token e db of (ownerToken, db0) \<Rightarrow>
       (case List.find (claimable_intent e paymentId) (db_payments db0) of
          None \<Rightarrow> (None, db0)
        | Some p \<Rightarrow> (Some (ownerToken, p_intentLeaseFence p + 1),
            upd_payments (claimable_intent e paymentId)
              (\<lambda>q. q\<lparr>p_intentLeaseExpiresAt := Some (e_now e + PAYMENT_INTENT_CREATION_LEASE_MS),
                       p_intentLeaseOwnerToken := Some ownerToken,
                       p_intentLeaseFence := p_intentLeaseFence q + 1,
                       p_updatedAt := e_now e\<rparr>) db0)))"

text \<open>The payment as a worker may still write it: open, and under the worker's own live lease.\<close>

definition owned_intent :: "env \<Rightarrow> uuid \<Rightarrow> string \<times> int \<Rightarrow> payment_row \<Rightarrow> bool" where
  "owned_intent e paymentId lease p \<longleftrightarrow> p_id p = paymentId \<and>
     p_status p \<in> {PayCreated, PayProcessing} \<and> has_intent_lease lease p \<and> intent_lease_live e p"

definition hasCurrentPaymentIntentLease :: "env \<Rightarrow> uuid \<Rightarrow> string \<times> int \<Rightarrow> db \<Rightarrow> bool" where
  "hasCurrentPaymentIntentLease e paymentId lease db = list_ex
     (\<lambda>p. p_id p = paymentId \<and> has_intent_lease lease p \<and> intent_lease_live e p) (db_payments db)"

definition renewPaymentIntentLease :: "env \<Rightarrow> uuid \<Rightarrow> string \<times> int \<Rightarrow> db \<Rightarrow> bool \<times> db" where
  "renewPaymentIntentLease e paymentId lease db =
     (list_ex (owned_intent e paymentId lease) (db_payments db),
      upd_payments (owned_intent e paymentId lease)
        (\<lambda>p. p\<lparr>p_intentLeaseExpiresAt := Some (e_now e + PAYMENT_INTENT_CREATION_LEASE_MS),
                 p_updatedAt := e_now e\<rparr>) db)"

definition markPaymentCreationUncertain ::
    "env \<Rightarrow> payment_draft \<Rightarrow> string \<Rightarrow> string \<times> int \<Rightarrow> db \<Rightarrow> db" where
  "markPaymentCreationUncertain e draft message lease =
     upd_payments (owned_intent e (ld_paymentId draft) lease)
       (\<lambda>p. (drop_intent_lease p)\<lparr>p_status := PayProcessing,
          p_failedReason := Some (take 500 (''provider_create_uncertain:'' @ message)),
          p_updatedAt := e_now e\<rparr>)"

definition findProviderIdForCode :: "string \<Rightarrow> db \<Rightarrow> uuid option" where
  "findProviderIdForCode code db =
     map_option pp_id (List.find (\<lambda>pp. pp_code pp = code) (db_providers db))"

text \<open>
  The order is closed because the provider refused the intent. An unknown provider would make the
  event insert fail on its foreign key.
\<close>

definition cancelLocalCreatedPayment ::
    "env \<Rightarrow> payment_draft \<Rightarrow> string \<Rightarrow> string \<Rightarrow> string \<times> int \<Rightarrow> db \<Rightarrow> api_error + unit \<times> db" where
  "cancelLocalCreatedPayment e draft reason message lease db =
     (if \<not> list_ex (owned_intent e (ld_paymentId draft) lease) (db_payments db) then Inr ((), db)
      else case findProviderIdForCode (ld_providerCode draft) db of
        None \<Rightarrow> Inl (ConstraintViolation ''payment_events_provider_id_fk'')
      | Some providerId \<Rightarrow>
         (let db1 = upd_payments (owned_intent e (ld_paymentId draft) lease)
                (\<lambda>p. (drop_intent_lease p)\<lparr>p_status := PayFailed, p_failedReason := Some reason,
                         p_updatedAt := e_now e\<rparr>) db;
              db2 = upd_orders (\<lambda>y. o_id y = ld_orderId draft)
                (\<lambda>y. y\<lparr>o_status := OsCanceled, o_paymentState := PsPaymentFailed,
                         o_fulfillmentState := FsCanceled, o_canceledAt := Some (e_now e),
                         o_updatedAt := e_now e\<rparr>) db1;
              db3 = log_status (ld_orderId draft) (Some OsPendingPayment) OsCanceled reason
                (Some [(''paymentNo'', JStr (ld_paymentNo draft)), (''message'', JStr message)]) db2;
              db4 = snd (record_payment_event (payment_event e (ld_paymentId draft) providerId
                (''payment.'' @ reason) (reason @ '':'' @ ld_paymentNo draft) True) db3)
          in bindR (foldR (\<lambda>(inventoryId, quantity).
                 releaseReservation e (ld_orderId draft) None inventoryId quantity ''payment_failed'')
               (ld_reservations draft) db4)
             (\<lambda>db5. Inr ((), db5))))"

record intent_view =
  iv_paymentUrl :: string
  iv_initialStatus :: payment_status

definition readPaymentIntentAfterLostLease :: "uuid \<Rightarrow> db \<Rightarrow> intent_view" where
  "readPaymentIntentAfterLostLease paymentId db =
     (case find_payment paymentId db of
        Some p \<Rightarrow> (case p_paymentUrl p of
            Some url \<Rightarrow> if p_status p = PayPending \<and> url \<noteq> []
              then \<lparr>iv_paymentUrl = url, iv_initialStatus = PayPending\<rparr>
              else \<lparr>iv_paymentUrl = [], iv_initialStatus = PayProcessing\<rparr>
          | None \<Rightarrow> \<lparr>iv_paymentUrl = [], iv_initialStatus = PayProcessing\<rparr>)
      | None \<Rightarrow> \<lparr>iv_paymentUrl = [], iv_initialStatus = PayProcessing\<rparr>)"

fun intent_payment_status :: "intent_status option \<Rightarrow> payment_status" where
  "intent_payment_status (Some IntentProcessing) = PayProcessing"
| "intent_payment_status _ = PayPending"

definition persist_intent ::
    "env \<Rightarrow> payment_draft \<Rightarrow> string \<times> int \<Rightarrow> payment_intent_result \<Rightarrow> db \<Rightarrow> db \<times> intent_view" where
  "persist_intent e draft lease intent db =
     (let status = intent_payment_status (ir_initialStatus intent);
          owned = owned_intent e (ld_paymentId draft) lease in
      if list_ex owned (db_payments db)
      then (upd_payments owned
              (\<lambda>p. (drop_intent_lease p)\<lparr>p_status := status, p_failedReason := None,
                 p_providerTradeNo := ir_providerTradeNo intent,
                 p_paymentUrl := Some (ir_paymentUrl intent),
                 p_expiresAt := Some (ld_expiresAt draft), p_updatedAt := e_now e\<rparr>) db,
            \<lparr>iv_paymentUrl = ir_paymentUrl intent, iv_initialStatus = status\<rparr>)
      else (db, readPaymentIntentAfterLostLease (ld_paymentId draft) db))"

text \<open>The answer of \<open>createPaymentIntent\<close>; an unknown provider is what the registry throws.\<close>

definition createPaymentIntent ::
    "env \<Rightarrow> payment_draft \<Rightarrow> (api_error \<times> provider_error) + payment_intent_result" where
  "createPaymentIntent e draft =
     (case e_registry e (ld_providerCode draft) of
        None \<Rightarrow> (let m = ''Payment provider '' @ ld_providerCode draft @ '' not found'' in
                 Inl (NotFoundException m, ProviderThrew m))
      | Some provider \<Rightarrow>
          (case rp_createPaymentIntent provider \<lparr>pi_paymentNo = ld_paymentNo draft,
                  pi_orderNo = ld_orderNo draft, pi_amountCents = ld_totalAmountCents draft,
                  pi_expiresAt = ld_expiresAt draft\<rparr> of
             Inl err \<Rightarrow> Inl (OtherError (provider_message err), err)
           | Inr intent \<Rightarrow> Inr intent))"

definition intent_failed ::
    "env \<Rightarrow> payment_draft \<Rightarrow> string \<times> int \<Rightarrow> api_error \<times> provider_error \<Rightarrow> db \<Rightarrow>
     db \<times> (api_error + intent_view)" where
  "intent_failed e draft lease = (\<lambda>(thrown, err) db.
     if isIndeterminateProviderError err
     then (markPaymentCreationUncertain e draft (provider_message err) lease db, Inl thrown)
     else bindS (atomic (cancelLocalCreatedPayment e draft ''provider_create_failed''
                   (provider_message err) lease) db)
            (\<lambda>_ db1. (db1, Inl thrown)))"

definition claimAndPersistPaymentIntent ::
    "env \<Rightarrow> payment_draft \<Rightarrow> db \<Rightarrow> db \<times> (api_error + intent_view)" where
  "claimAndPersistPaymentIntent e draft db =
     (case claim_intent e (ld_paymentId draft) db of
        (None, db1) \<Rightarrow> (db1, Inr \<lparr>iv_paymentUrl = [], iv_initialStatus = PayProcessing\<rparr>)
      | (Some lease, db1) \<Rightarrow>
          (case createPaymentIntent e draft of
             Inl failure \<Rightarrow> intent_failed e draft lease failure db1
           | Inr intent \<Rightarrow> (case persist_intent e draft lease intent db1 of
               (db2, view) \<Rightarrow> (db2, Inr view))))"

subsection \<open>Replay by idempotency key\<close>

record creation_response =
  cx_orderId :: uuid
  cx_orderNo :: string
  cx_paymentId :: uuid
  cx_paymentNo :: string
  cx_paymentUrl :: "string option"
  cx_expiresAt :: ms
  cx_totalAmountCents :: int
  cx_paymentProviderCode :: string

definition toPaymentCreationResponse :: "payment_draft \<Rightarrow> intent_view \<Rightarrow> creation_response" where
  "toPaymentCreationResponse draft v =
     \<lparr>cx_orderId = ld_orderId draft, cx_orderNo = ld_orderNo draft,
      cx_paymentId = ld_paymentId draft, cx_paymentNo = ld_paymentNo draft,
      cx_paymentUrl = (if iv_initialStatus v = PayPending then Some (iv_paymentUrl v) else None),
      cx_expiresAt = ld_expiresAt draft, cx_totalAmountCents = ld_totalAmountCents draft,
      cx_paymentProviderCode = ld_providerCode draft\<rparr>"

definition loadActiveReservationsForOrder :: "uuid \<Rightarrow> db \<Rightarrow> (uuid \<times> int) list" where
  "loadActiveReservationsForOrder orderId db =
     map (\<lambda>r. (rv_inventoryId r, rv_quantity r))
       (filter (\<lambda>r. rv_orderId r = orderId \<and> rv_status r = RsActive) (db_reservations db))"

text \<open>What an earlier request created: its draft, with the payment row it has now.\<close>

definition existing_draft ::
    "env \<Rightarrow> order_row \<Rightarrow> payment_row \<Rightarrow> payment_provider_row \<Rightarrow> db \<Rightarrow> payment_draft" where
  "existing_draft e x p pp db =
     \<lparr>ld_orderId = o_id x, ld_orderNo = o_orderNo x, ld_paymentId = p_id p,
      ld_paymentNo = p_paymentNo p, ld_providerCode = pp_code pp, ld_paymentMethod = p_method p,
      ld_machineId = o_machineId x, ld_totalAmountCents = p_amountCents p,
      ld_expiresAt = (case p_expiresAt p of None \<Rightarrow> e_now e | Some t \<Rightarrow> t),
      ld_reservations = loadActiveReservationsForOrder (o_id x) db\<rparr>"

definition findPaymentCreationByIdempotencyKey ::
    "env \<Rightarrow> uuid \<Rightarrow> string \<Rightarrow> db \<Rightarrow> (payment_draft \<times> payment_row) option" where
  "findPaymentCreationByIdempotencyKey e machineId idempotencyKey db =
     (case [(x, p, pp). x \<leftarrow> db_orders db, p \<leftarrow> db_payments db, pp \<leftarrow> db_providers db,
              Some (p_id p) = o_paymentId x \<and> pp_id pp = p_providerId p \<and>
              o_machineId x = machineId \<and>
              o_paymentCreationIdempotencyKey x = Some idempotencyKey] of
        [] \<Rightarrow> None
      | (x, p, pp) # _ \<Rightarrow> Some (existing_draft e x p pp db, p))"

text \<open>Only the provider's word that the trade does not exist allows to create it again.\<close>

definition RECONCILIATION_RETRY_CLAIMED :: string where
  "RECONCILIATION_RETRY_CLAIMED = ''provider_trade_retry_claimed''"

definition retry_row :: "env \<Rightarrow> uuid \<Rightarrow> payment_row \<Rightarrow> bool" where
  "retry_row e paymentId p \<longleftrightarrow> p_id p = paymentId \<and> p_status p = PayPending \<and>
     p_paymentUrl p = None \<and> p_failedReason p = Some ''provider_trade_not_exist'' \<and>
     (case p_intentLeaseExpiresAt p of None \<Rightarrow> True | Some t \<Rightarrow> t < e_now e)"

definition claimReconciledPaymentForIntentCreation :: "env \<Rightarrow> uuid \<Rightarrow> db \<Rightarrow> bool \<times> db" where
  "claimReconciledPaymentForIntentCreation e paymentId db =
     (list_ex (retry_row e paymentId) (db_payments db),
      upd_payments (retry_row e paymentId)
        (\<lambda>p. (drop_intent_lease p)\<lparr>p_status := PayProcessing,
           p_failedReason := Some RECONCILIATION_RETRY_CLAIMED, p_updatedAt := e_now e\<rparr>) db)"

definition resolveExistingPaymentConfig ::
    "env \<Rightarrow> payment_draft \<Rightarrow> payment_row \<Rightarrow> api_error + unit" where
  "resolveExistingPaymentConfig e draft p =
     (if ld_providerCode draft = ''mock'' then Inr ()
      else bindR (cs_resolveForExisting (e_configs e) (ld_providerCode draft)
                    (p_paymentProviderConfigId p)) (\<lambda>_. Inr ()))"

definition recreate_intent ::
    "env \<Rightarrow> payment_draft \<Rightarrow> payment_row \<Rightarrow> db \<Rightarrow> db \<times> (api_error + creation_response)" where
  "recreate_intent e draft p db =
     (case resolveExistingPaymentConfig e draft p of Inl err \<Rightarrow> (db, Inl err)
      | Inr _ \<Rightarrow> bindS (claimAndPersistPaymentIntent e draft db)
          (\<lambda>v db1. (db1, Inr (toPaymentCreationResponse draft v))))"

definition waiting :: "payment_draft \<Rightarrow> payment_status \<Rightarrow> creation_response" where
  "waiting draft status =
     toPaymentCreationResponse draft \<lparr>iv_paymentUrl = [], iv_initialStatus = status\<rparr>"

definition claim_and_recreate ::
    "env \<Rightarrow> payment_draft \<Rightarrow> payment_row \<Rightarrow> db \<Rightarrow> db \<times> (api_error + creation_response)" where
  "claim_and_recreate e draft p db =
     (case claimReconciledPaymentForIntentCreation e (p_id p) db of
        (claimed, db1) \<Rightarrow>
          if claimed then recreate_intent e draft p db1 else (db1, Inr (waiting draft PayProcessing)))"

definition restorePaymentCreation ::
    "env \<Rightarrow> publisher \<Rightarrow> payment_draft \<Rightarrow> payment_row \<Rightarrow> db \<Rightarrow>
     db \<times> (api_error + creation_response)" where
  "restorePaymentCreation e publish draft p db =
     (if p_method p = PmPaymentCode then (db, Inr (waiting draft PayProcessing))
      else if present (p_paymentUrl p) \<or> p_status p \<notin> {PayCreated, PayPending, PayProcessing}
      then (db, Inr (toPaymentCreationResponse draft
             \<lparr>iv_paymentUrl = (case p_paymentUrl p of None \<Rightarrow> [] | Some url \<Rightarrow> url),
              iv_initialStatus = p_status p\<rparr>))
      else if p_status p = PayProcessing
      then bindS (reconcilePendingPaymentOnRead e publish (p_id p) db)
        (\<lambda>r db1.
           if po_status r \<noteq> Some PayPending
           then (db1, Inr (waiting draft (case po_status r of
                   None \<Rightarrow> p_status p | Some status \<Rightarrow> status)))
           else if po_reason r \<noteq> Some ''provider_trade_not_exist''
           then (db1, Inr (waiting draft PayProcessing))
           else claim_and_recreate e draft p db1)
      else if p_status p = PayPending \<and> p_failedReason p = Some ''provider_trade_not_exist''
      then claim_and_recreate e draft p db
      else recreate_intent e draft p db)"

subsection \<open>Creation\<close>

definition replay_or_throw ::
    "env \<Rightarrow> publisher \<Rightarrow> uuid \<Rightarrow> string \<Rightarrow> api_error \<Rightarrow> db \<Rightarrow> db \<times> (api_error + creation_response)"
  where
  "replay_or_throw e publish machineId idempotencyKey err db =
     (if isUniqueViolation err
      then (case findPaymentCreationByIdempotencyKey e machineId idempotencyKey db of
              Some (draft, p) \<Rightarrow> restorePaymentCreation e publish draft p db
            | None \<Rightarrow> (db, Inl err))
      else (db, Inl err))"

definition channel_config ::
    "env \<Rightarrow> string \<times> payment_method \<Rightarrow> uuid \<Rightarrow> api_error + runtime_config option" where
  "channel_config e selection machineId =
     (if fst selection \<noteq> ''mock'' \<or> snd selection = PmPaymentCode
      then (case cs_unavailable (e_configs e) (fst selection) (snd selection) machineId of
              Some err \<Rightarrow> Inl err
            | None \<Rightarrow> if fst selection \<noteq> ''mock''
                then bindR (cs_resolveForPayment (e_configs e) (fst selection) machineId)
                       (\<lambda>c. Inr (Some c))
                else Inr None)
      else Inr None)"

definition draft_expiry :: "env \<Rightarrow> runtime_config option \<Rightarrow> ms" where
  "draft_expiry e config = e_now e + 60 * 1000 *
     (case config of None \<Rightarrow> 15 | Some c \<Rightarrow> readQrExpiresMinutes (cfg_publicConfigJson c))"

definition open_code_payment :: "env \<Rightarrow> payment_draft \<Rightarrow> db \<Rightarrow> db \<times> creation_response" where
  "open_code_payment e draft db =
     (upd_payments (\<lambda>p. p_id p = ld_paymentId draft)
        (\<lambda>p. p\<lparr>p_status := PayPending, p_expiresAt := Some (ld_expiresAt draft),
                 p_updatedAt := e_now e\<rparr>) db,
      waiting draft PayProcessing)"

definition open_payment ::
    "env \<Rightarrow> publisher \<Rightarrow> uuid \<Rightarrow> string \<Rightarrow> payment_draft \<Rightarrow> payment_method \<Rightarrow> db \<Rightarrow>
     db \<times> (api_error + creation_response)" where
  "open_payment e publish machineId idempotencyKey draft method db =
     (if method = PmPaymentCode
      then (case open_code_payment e draft db of (db1, r) \<Rightarrow> (db1, Inr r))
      else (case claimAndPersistPaymentIntent e draft db of
              (db1, Inl err) \<Rightarrow> replay_or_throw e publish machineId idempotencyKey err db1
            | (db1, Inr v) \<Rightarrow> (db1, Inr (toPaymentCreationResponse draft v))))"

definition createMachineOrder ::
    "env \<Rightarrow> publisher \<Rightarrow> create_order_input \<Rightarrow> db \<Rightarrow> db \<times> (api_error + creation_response)" where
  "createMachineOrder e publish input db =
     (case List.find (\<lambda>m. m_code m = co_machineCode input \<and> m_deletedAt m = None)
             (db_machines db) of
        None \<Rightarrow> (db, Inl (NotFoundException ''Machine not found''))
      | Some m \<Rightarrow>
          if m_status m \<noteq> MsOnline
          then (db, Inl (ConflictException ''Machine is not accepting orders''))
          else case findPaymentCreationByIdempotencyKey e (m_id m) (co_idempotencyKey input) db of
            Some (draft, p) \<Rightarrow> restorePaymentCreation e publish draft p db
          | None \<Rightarrow>
             (case bindR (resolvePaymentSelection input) (\<lambda>selection.
                   bindR (channel_config e selection (m_id m)) (\<lambda>config. Inr (selection, config))) of
                Inl err \<Rightarrow> (db, Inl err)
              | Inr (selection, config) \<Rightarrow>
                  (case atomic (createLocalMachineOrderDraft e input (m_id m) (draft_expiry e config)
                          selection (Option.bind config cfg_id)) db of
                     (db1, Inl err) \<Rightarrow>
                       replay_or_throw e publish (m_id m) (co_idempotencyKey input) err db1
                   | (db1, Inr draft) \<Rightarrow>
                       open_payment e publish (m_id m) (co_idempotencyKey input) draft
                         (snd selection) db1)))"

end
