(* ===== verification/Order_Service.thy ===== *)
theory Order_Service
  imports Order_Creation
begin

text \<open>
  \<open>orders/orders.service.ts\<close>, second part: what a machine reads about its order, how it cancels it,
  and how an operator recovers an order whose dispensing has no known outcome. The listings and the
  investigation page, which only read, and the audit records are not modelled; the texts for the
  customer are in Chinese and left out.
\<close>

subsection \<open>The status a machine sees\<close>

datatype next_action =
  NxSuccess | NxManualHandling | NxDispenseFailed | NxRefundPending | NxRefunded | NxPaymentExpired
| NxClosed | NxPaymentFailed | NxDispensing | NxWaitPayment

definition resolveMachineOrderNextAction ::
    "order_payment_state \<Rightarrow> order_fulfillment_state \<Rightarrow> payment_status \<Rightarrow>
     vending_command_status option \<Rightarrow> code_attempt_status option \<Rightarrow> next_action" where
  "resolveMachineOrderNextAction paymentState fulfillmentState paymentStatus commandStatus
      attemptStatus =
     (if projectOrderStatus paymentState fulfillmentState = OsFulfilled then NxSuccess
      else if paymentState = PsPaymentUnknown \<or> paymentStatus = PayUnknown \<or>
              attemptStatus = Some CaManualHandling \<or> attemptStatus = Some CaReversalUnknown
      then NxManualHandling
      else if fulfillmentState = FsDispenseFailed \<or> fulfillmentState = FsPartialDispensed
      then NxDispenseFailed
      else if fulfillmentState = FsManualHandling then NxManualHandling
      else if paymentState = PsRefundPending \<or> paymentState = PsPartialRefundPending
      then NxRefundPending
      else if paymentState = PsRefunded \<or> paymentState = PsPartialRefunded then NxRefunded
      else if paymentState = PsPaymentExpired \<or> paymentStatus = PayExpired then NxPaymentExpired
      else if paymentState = PsCanceled \<or> paymentStatus = PayCanceled then NxClosed
      else if paymentState = PsPaymentFailed \<or> paymentStatus = PayFailed then NxPaymentFailed
      else if paymentState = PsPaid \<and> (commandStatus = Some VcFailed \<or>
                commandStatus = Some VcTimeout \<or> commandStatus = Some VcResultUnknown)
      then NxManualHandling
      else if paymentState = PsPaid then NxDispensing
      else NxWaitPayment)"

definition DEFAULT_UNCONFIRMED_QR_DISPLAY_DELAY_MS :: ms where
  "DEFAULT_UNCONFIRMED_QR_DISPLAY_DELAY_MS = 30000"

definition shouldExposePaymentUrl :: "env \<Rightarrow> payment_row \<Rightarrow> bool" where
  "shouldExposePaymentUrl e p =
     (if p_method p \<noteq> PmQrCode then True
      else if p_status p = PayPending \<or> p_status p = PaySucceeded then True
      else if p_status p \<noteq> PayProcessing \<or> \<not> present (p_paymentUrl p) then False
      else DEFAULT_UNCONFIRMED_QR_DISPLAY_DELAY_MS \<le> e_now e - p_createdAt p)"

definition machine_order_rows ::
    "string \<Rightarrow> string \<Rightarrow> db \<Rightarrow> (order_row \<times> payment_row \<times> payment_provider_row) list" where
  "machine_order_rows orderNo machineCode db =
     [(x, p, pp). x \<leftarrow> db_orders db, m \<leftarrow> db_machines db, p \<leftarrow> db_payments db, pp \<leftarrow> db_providers db,
        m_id m = o_machineId x \<and> Some (p_id p) = o_paymentId x \<and> pp_id pp = p_providerId p \<and>
        o_orderNo x = orderNo \<and> m_code m = machineCode]"

text \<open>\<open>findMachineOrderStatusRow\<close> and \<open>findCancelableMachineOrderRow\<close> run the same query.\<close>

definition findMachineOrderStatusRow ::
    "string \<Rightarrow> string \<Rightarrow> db \<Rightarrow> (order_row \<times> payment_row \<times> payment_provider_row) option" where
  "findMachineOrderStatusRow orderNo machineCode db =
     (case machine_order_rows orderNo machineCode db of [] \<Rightarrow> None | r # _ \<Rightarrow> Some r)"

record attempt_view =
  av_attemptNo :: nat
  av_status :: code_attempt_status
  av_canRetry :: bool

record order_view =
  ov_orderNo :: string
  ov_orderStatus :: order_status
  ov_paymentState :: order_payment_state
  ov_fulfillmentState :: order_fulfillment_state
  ov_totalAmountCents :: int
  ov_paymentStatus :: payment_status
  ov_paymentUrl :: "string option"
  ov_attempt :: "attempt_view option"
  ov_commandStatus :: "vending_command_status option"
  ov_refundStatus :: "refund_status option"
  ov_nextAction :: next_action

text \<open>The newest row of a table is the last one (\<open>order by created_at desc limit 1\<close>).\<close>

definition newest :: "('r \<Rightarrow> bool) \<Rightarrow> 'r list \<Rightarrow> 'r option" where
  "newest p rows = List.find p (rev rows)"

definition view_order :: "env \<Rightarrow> order_row \<Rightarrow> payment_row \<Rightarrow> db \<Rightarrow> order_view" where
  "view_order e x p db =
     (let command = newest (\<lambda>c. vc_orderId c = o_id x) (db_commands db);
          refund = newest (\<lambda>r. rf_orderId r = o_id x) (db_refunds db);
          attempt = latestForPayment (p_id p) db
      in \<lparr>ov_orderNo = o_orderNo x, ov_orderStatus = o_status x, ov_paymentState = o_paymentState x,
          ov_fulfillmentState = o_fulfillmentState x, ov_totalAmountCents = o_totalAmountCents x,
          ov_paymentStatus = p_status p,
          ov_paymentUrl = (if shouldExposePaymentUrl e p then p_paymentUrl p else None),
          ov_attempt = map_option (\<lambda>a. \<lparr>av_attemptNo = ca_attemptNo a, av_status = ca_status a,
             av_canRetry = (\<not> ca_isActive a \<and> ca_status a \<in> {CaFailed, CaReversed, CaCanceled})\<rparr>)
             attempt,
          ov_commandStatus = map_option vc_status command,
          ov_refundStatus = map_option rf_status refund,
          ov_nextAction = resolveMachineOrderNextAction (o_paymentState x) (o_fulfillmentState x)
             (p_status p) (map_option vc_status command) (map_option ca_status attempt)\<rparr>)"

text \<open>Reading the status of a waiting QR payment asks the provider first; what that throws is dropped.\<close>

definition refresh_waiting :: "env \<Rightarrow> publisher \<Rightarrow> payment_row \<Rightarrow> db \<Rightarrow> db" where
  "refresh_waiting e publish p db =
     (if p_method p = PmQrCode \<and> (p_status p = PayPending \<or> p_status p = PayProcessing)
      then fst (reconcilePendingPaymentOnRead e publish (p_id p) db) else db)"

definition getMachineOrderStatus ::
    "env \<Rightarrow> publisher \<Rightarrow> string \<Rightarrow> string \<Rightarrow> db \<Rightarrow> db \<times> (api_error + order_view)" where
  "getMachineOrderStatus e publish orderNo machineCode db =
     (case findMachineOrderStatusRow orderNo machineCode db of
        None \<Rightarrow> (db, Inl (NotFoundException ''Machine order not found''))
      | Some (x, p, pp) \<Rightarrow>
         (let db1 = refresh_waiting e publish p db in
          case findMachineOrderStatusRow orderNo machineCode db1 of
            Some (x1, p1, _) \<Rightarrow> (db1, Inr (view_order e x1 p1 db1))
          | None \<Rightarrow> (db1, Inr (view_order e x p db1))))"

subsection \<open>Cancellation\<close>

text \<open>\<open>Inr False\<close> is \<open>already_closed\<close>, \<open>Inr True\<close> is \<open>cancelable\<close>.\<close>

definition assertMachineOrderCanStillBeCanceled ::
    "order_row \<Rightarrow> payment_row \<Rightarrow> api_error + bool" where
  "assertMachineOrderCanStillBeCanceled x p =
     (if o_status x = OsCanceled \<or> o_status x = OsPaymentExpired \<or>
         p_status p = PayCanceled \<or> p_status p = PayExpired then Inr False
      else if o_paymentState x = PsPaid \<or> p_status p = PaySucceeded \<or>
              o_fulfillmentState x \<noteq> FsAwaitingFulfillment
      then Inl (ConflictException ''Paid or dispensing orders cannot be canceled'')
      else Inr True)"

text \<open>\<open>Inl\<close>: the cancellation stops here. The payload of the answer is not modelled.\<close>

definition cancelProviderPaymentIfNeeded ::
    "env \<Rightarrow> payment_row \<Rightarrow> payment_provider_row \<Rightarrow> api_error + unit" where
  "cancelProviderPaymentIfNeeded e p pp =
     (if p_method p = PmPaymentCode \<or> pp_code pp = ''mock'' \<or>
         p_status p \<notin> {PayCreated, PayPending, PayProcessing} then Inr ()
      else case e_registry e (pp_code pp) of
        None \<Rightarrow> Inl (NotFoundException (''Payment provider '' @ pp_code pp @ '' not found''))
      | Some provider \<Rightarrow>
          (case rp_cancelPayment provider (cancel_input_of p) of
             Inr _ \<Rightarrow> Inr ()
           | Inl err \<Rightarrow> if isTradeNotFoundError (provider_message err) \<or>
                           isIndeterminateProviderError err
                        then Inr () else Inl (OtherError (provider_message err))))"

definition current_order :: "uuid \<Rightarrow> db \<Rightarrow> (order_row \<times> payment_row) option" where
  "current_order orderId db =
     (case [(x, p). x \<leftarrow> db_orders db, p \<leftarrow> db_payments db,
              Some (p_id p) = o_paymentId x \<and> o_id x = orderId] of
        [] \<Rightarrow> None | c # _ \<Rightarrow> Some c)"

datatype cancel_outcome = CancelDone | CancelNothing | CancelScheduled

definition cancelable_payment :: "uuid \<Rightarrow> db \<Rightarrow> payment_row \<Rightarrow> bool" where
  "cancelable_payment paymentId db q \<longleftrightarrow> p_id q = paymentId \<and>
     p_status q \<in> {PayCreated, PayPending, PayProcessing} \<and> active_attempt (p_id q) db = None"

definition cancelable_order :: "uuid \<Rightarrow> order_row \<Rightarrow> bool" where
  "cancelable_order orderId y \<longleftrightarrow> o_id y = orderId \<and> o_fulfillmentState y = FsAwaitingFulfillment \<and>
     o_paymentState y \<in> {PsAwaitingPayment, PsPaymentFailed}"

definition close_canceled_order ::
    "env \<Rightarrow> order_row \<Rightarrow> payment_row \<Rightarrow> db \<Rightarrow> api_error + cancel_outcome \<times> db" where
  "close_canceled_order e x p db =
     (let db1 = snd (record_payment_event (payment_event e (p_id p) (p_providerId p)
            ''payment.machine_canceled'' (''machine_cancel:'' @ p_paymentNo p) True) db) in
      if \<not> list_ex (cancelable_payment (p_id p) db1) (db_payments db1)
      then Inl (ConflictException ''Machine order payment changed before cancel'')
      else
       (let db2 = upd_payments (cancelable_payment (p_id p) db1)
              (\<lambda>q. q\<lparr>p_status := PayCanceled, p_failedReason := None, p_updatedAt := e_now e\<rparr>) db1
        in if \<not> list_ex (cancelable_order (o_id x)) (db_orders db2)
           then Inl (ConflictException ''Machine order changed before cancel'')
           else
            (let db3 = upd_orders (cancelable_order (o_id x))
                   (\<lambda>y. y\<lparr>o_status := OsCanceled, o_paymentState := PsCanceled,
                            o_fulfillmentState := FsCanceled, o_canceledAt := Some (e_now e),
                            o_updatedAt := e_now e\<rparr>) db2;
                 db4 = (if o_status x \<noteq> OsCanceled
                        then log_status (o_id x) (Some (o_status x)) OsCanceled
                               ''machine_user_canceled'' None db3
                        else db3)
             in bindR (releaseActiveReservationsForOrder e (o_id x) ''canceled'' db4)
                  (\<lambda>db5. Inr (CancelDone, db5)))))"

text \<open>A submitted code is handed to its worker: the payment expires now, so that it is reversed.\<close>

definition schedule_reversal ::
    "env \<Rightarrow> payment_row \<Rightarrow> code_attempt_row \<Rightarrow> db \<Rightarrow> api_error + cancel_outcome \<times> db" where
  "schedule_reversal e p a db =
     Inr (CancelScheduled,
       upd_payments (\<lambda>q. p_id q = p_id p \<and> p_status q \<in> {PayCreated, PayPending, PayProcessing})
         (\<lambda>q. q\<lparr>p_expiresAt := Some (e_now e), p_updatedAt := e_now e\<rparr>)
         (wake_attempt e (ca_id a) db))"

definition cancel_tx ::
    "env \<Rightarrow> order_row \<Rightarrow> payment_row \<Rightarrow> db \<Rightarrow> api_error + cancel_outcome \<times> db" where
  "cancel_tx e x p db =
     (case current_order (o_id x) db of
        None \<Rightarrow> Inl (ConflictException ''Machine order changed before cancel'')
      | Some (y, q) \<Rightarrow>
          bindR (assertMachineOrderCanStillBeCanceled y q) (\<lambda>cancelable.
            if \<not> cancelable then Inr (CancelNothing, db)
            else case (if p_method p = PmPaymentCode then active_attempt (p_id p) db else None) of
              None \<Rightarrow> close_canceled_order e x p db
            | Some a \<Rightarrow>
                if ca_status a \<noteq> CaCreated then schedule_reversal e p a db
                else (case cancel_created_attempt e (ca_id a) ''PAYMENT_CODE_ORDER_CANCELED''
                         MsgCodeOrderCanceled db of
                   (None, _) \<Rightarrow>
                     Inl (ConflictException ''Machine order payment changed before cancel'')
                 | (Some _, db1) \<Rightarrow> close_canceled_order e x p db1)))"

definition cancelMachineOrder ::
    "env \<Rightarrow> publisher \<Rightarrow> string \<Rightarrow> string \<Rightarrow> db \<Rightarrow> db \<times> (api_error + order_view)" where
  "cancelMachineOrder e publish orderNo machineCode db =
     (case findMachineOrderStatusRow orderNo machineCode db of
        None \<Rightarrow> (db, Inl (NotFoundException ''Machine order not found''))
      | Some (x, p, pp) \<Rightarrow>
          (case assertMachineOrderCanStillBeCanceled x p of
             Inl err \<Rightarrow> (db, Inl err)
           | Inr False \<Rightarrow> getMachineOrderStatus e publish orderNo machineCode db
           | Inr True \<Rightarrow>
               (case cancelProviderPaymentIfNeeded e p pp of
                  Inl err \<Rightarrow> (db, Inl err)
                | Inr _ \<Rightarrow> bindS (atomic (cancel_tx e x p) db) (\<lambda>outcome db1.
                    if outcome = CancelScheduled
                    then (db1, Inl (ConflictException
                            ''Payment code confirmation is in progress''))
                    else getMachineOrderStatus e publish orderNo machineCode db1))))"
subsection \<open>Recovery of orders with no known outcome\<close>

definition active_refund_exists :: "uuid \<Rightarrow> db \<Rightarrow> bool" where
  "active_refund_exists orderId db \<longleftrightarrow> list_ex (\<lambda>r. rf_orderId r = orderId \<and>
     rf_status r \<in> {RfCreated, RfProcessing, RfSucceeded}) (db_refunds db)"

definition recovery_actions :: "uuid \<Rightarrow> db \<Rightarrow> recovery_action_row list" where
  "recovery_actions orderId db = filter (\<lambda>a. ora_orderId a = orderId) (db_recoveryActions db)"

definition isCompletedAction :: "recovery_action_name \<Rightarrow> recovery_action_row \<Rightarrow> bool" where
  "isCompletedAction action a \<longleftrightarrow> ora_action a = action \<and> ora_status a = ReCompleted"

record recovery_projection =
  rj_requiresConfirmation :: bool
  rj_available :: "recovery_action_name list"

definition no_recovery :: recovery_projection where
  "no_recovery = \<lparr>rj_requiresConfirmation = False, rj_available = []\<rparr>"

definition demands_confirmation :: "order_status_event_row \<Rightarrow> bool" where
  "demands_confirmation ev = (case ose_metadata ev of None \<Rightarrow> False
     | Some m \<Rightarrow> map_of m ''requiresPhysicalOutcomeConfirmation'' = Some (JBool True))"

definition buildRecoveryProjection ::
    "order_fulfillment_state \<Rightarrow> command_row list \<Rightarrow> order_status_event_row list \<Rightarrow>
     recovery_action_row list \<Rightarrow> bool \<Rightarrow> recovery_projection" where
  "buildRecoveryProjection fulfillmentState commands events actions activeRefundExists =
     (if activeRefundExists \<or>
         list_ex (\<lambda>a. ora_action a \<in> {ConfirmDispensed, RequestRefund, CompensationDispense}) actions
      then no_recovery
      else if list_ex (isCompletedAction ConfirmNotDispensed) actions
      then \<lparr>rj_requiresConfirmation = False,
            rj_available = [RequestRefund, CompensationDispense]\<rparr>
      else if list_ex (\<lambda>a. ora_action a \<in> {ConfirmDispensed, ConfirmNotDispensed}) actions
      then no_recovery
      else if fulfillmentState = FsManualHandling \<and>
              (list_ex (\<lambda>c. vc_status c = VcResultUnknown) commands \<or>
               list_ex demands_confirmation events)
      then \<lparr>rj_requiresConfirmation = True,
            rj_available = [ConfirmDispensed, ConfirmNotDispensed]\<rparr>
      else no_recovery)"

text \<open>The projection of an order, as the investigation page computes it.\<close>

definition order_recovery :: "uuid \<Rightarrow> db \<Rightarrow> recovery_projection" where
  "order_recovery orderId db = (case find_order orderId db of
     None \<Rightarrow> no_recovery
   | Some x \<Rightarrow> buildRecoveryProjection (o_fulfillmentState x)
       (filter (\<lambda>c. vc_orderId c = orderId) (db_commands db))
       (filter (\<lambda>ev. ose_orderId ev = orderId) (db_orderStatusEvents db))
       (recovery_actions orderId db) (active_refund_exists orderId db))"

text \<open>
  The unique indexes: one row per order and action, one physical outcome, one remedy per order.
\<close>

definition physical_outcome :: "recovery_action_name \<Rightarrow> bool" where
  "physical_outcome a \<longleftrightarrow> a \<in> {ConfirmDispensed, ConfirmNotDispensed}"

definition remedy :: "recovery_action_name \<Rightarrow> bool" where
  "remedy a \<longleftrightarrow> a \<in> {RequestRefund, CompensationDispense}"

definition recovery_conflict :: "recovery_action_row \<Rightarrow> recovery_action_row \<Rightarrow> bool" where
  "recovery_conflict a b \<longleftrightarrow> ora_orderId a = ora_orderId b \<and>
     (ora_action a = ora_action b \<or>
      physical_outcome (ora_action a) \<and> physical_outcome (ora_action b) \<or>
      remedy (ora_action a) \<and> remedy (ora_action b))"

definition insert_recovery_action :: "recovery_action_row \<Rightarrow> db \<Rightarrow> api_error + uuid \<times> db" where
  "insert_recovery_action a db =
     (if list_ex (recovery_conflict a) (db_recoveryActions db)
      then Inl (ConstraintViolation ''order_recovery_actions_unique'')
      else Inr (ora_id a, db\<lparr>db_recoveryActions := db_recoveryActions db @ [a],
                             db_next := Suc (db_next db)\<rparr>))"

fun command_status_string :: "vending_command_status \<Rightarrow> string" where
  "command_status_string VcPending = ''pending''"
| "command_status_string VcSent = ''sent''"
| "command_status_string VcAcknowledged = ''acknowledged''"
| "command_status_string VcSucceeded = ''succeeded''"
| "command_status_string VcFailed = ''failed''"
| "command_status_string VcResultUnknown = ''result_unknown''"
| "command_status_string VcTimeout = ''timeout''"

definition not_available :: "command_row \<Rightarrow> api_error" where
  "not_available c = ConflictException
     (''Order recovery is not available for command status '' @ command_status_string (vc_status c))"

text \<open>The commands of the order, newest first.\<close>

definition order_commands :: "uuid \<Rightarrow> db \<Rightarrow> command_row list" where
  "order_commands orderId db = rev (filter (\<lambda>c. vc_orderId c = orderId) (db_commands db))"

definition findConfirmedNotDispensedCommand ::
    "command_row list \<Rightarrow> recovery_action_row list \<Rightarrow> command_row option" where
  "findConfirmedNotDispensedCommand commands actions =
     (case List.find (isCompletedAction ConfirmNotDispensed) actions of None \<Rightarrow> None
      | Some confirmation \<Rightarrow> List.find (\<lambda>c. vc_id c = ora_commandId confirmation) commands)"

definition recovery_command ::
    "recovery_action_name \<Rightarrow> order_row \<Rightarrow> command_row list \<Rightarrow> recovery_action_row list \<Rightarrow> bool \<Rightarrow>
     api_error + command_row" where
  "recovery_command action x commands actions activeRefund =
     (case (if remedy action then findConfirmedNotDispensedCommand commands actions
            else List.find (\<lambda>c. vc_status c = VcResultUnknown) commands) of
        None \<Rightarrow> Inl (not_available (hd commands))
      | Some c \<Rightarrow>
          if physical_outcome action \<and>
             (vc_status c \<noteq> VcResultUnknown \<or> o_fulfillmentState x \<noteq> FsManualHandling)
          then Inl (not_available c)
          else if remedy action \<and> \<not> list_ex (isCompletedAction ConfirmNotDispensed) actions
          then Inl (ConflictException (''Refund or compensation recovery requires '' @
                 ''confirmed not-dispensed recovery first''))
          else if remedy action \<and> activeRefund
          then Inl (ConflictException
                 ''Refund and compensation recovery actions are mutually exclusive'')
          else Inr c)"

definition new_recovery_action ::
    "env \<Rightarrow> uuid \<Rightarrow> uuid \<Rightarrow> uuid \<Rightarrow> recovery_action_name \<Rightarrow> string \<Rightarrow> db \<Rightarrow> recovery_action_row" where
  "new_recovery_action e orderId commandId adminUserId action actionNote db =
     \<lparr>ora_id = db_next db, ora_orderId = orderId, ora_commandId = commandId, ora_action = action,
      ora_status = ReStarted, ora_note = actionNote, ora_requestedByAdminUserId = adminUserId,
      ora_updatedAt = e_now e\<rparr>"

definition start_recovery_tx ::
    "env \<Rightarrow> uuid \<Rightarrow> uuid \<Rightarrow> recovery_action_name \<Rightarrow> string \<Rightarrow> db \<Rightarrow>
     api_error + (uuid \<times> command_row) \<times> db" where
  "start_recovery_tx e orderId adminUserId action actionNote db =
     (case find_order orderId db of
        None \<Rightarrow> Inl (NotFoundException ''Order not found for recovery'')
      | Some x \<Rightarrow>
          bindR (lockMachineForVendingMutation (o_machineId x) db) (\<lambda>_.
          bindR (lockOrderForVendingMutation orderId db) (\<lambda>_.
            if order_commands orderId db = []
            then Inl (NotFoundException ''Vending command not found for order'')
            else bindR (recovery_command action x (order_commands orderId db)
                          (recovery_actions orderId db) (active_refund_exists orderId db))
              (\<lambda>c. bindR (insert_recovery_action
                       (new_recovery_action e orderId (vc_id c) adminUserId action actionNote db) db)
                (\<lambda>(actionId, db1). Inr ((actionId, c), db1))))))"

definition startRecoveryAction ::
    "env \<Rightarrow> uuid \<Rightarrow> uuid \<Rightarrow> recovery_action_name \<Rightarrow> string \<Rightarrow> db \<Rightarrow>
     db \<times> (api_error + uuid \<times> command_row)" where
  "startRecoveryAction e orderId adminUserId action actionNote db =
     (case atomic (start_recovery_tx e orderId adminUserId action actionNote) db of
        (db1, Inl err) \<Rightarrow> (db1, Inl (if isUniqueViolation err
           then ConflictException ''Recovery action already recorded'' else err))
      | (db1, Inr r) \<Rightarrow> (db1, Inr r))"

definition set_recovery_status :: "env \<Rightarrow> recovery_action_status \<Rightarrow> uuid \<Rightarrow> db \<Rightarrow> db" where
  "set_recovery_status e status actionId db =
     db\<lparr>db_recoveryActions := upd_where (\<lambda>a. ora_id a = actionId)
          (\<lambda>a. a\<lparr>ora_status := status, ora_updatedAt := e_now e\<rparr>) (db_recoveryActions db)\<rparr>"

definition completeRecoveryAction :: "env \<Rightarrow> uuid \<Rightarrow> db \<Rightarrow> db" where
  "completeRecoveryAction e = set_recovery_status e ReCompleted"

definition failRecoveryAction :: "env \<Rightarrow> uuid \<Rightarrow> db \<Rightarrow> db" where
  "failRecoveryAction e = set_recovery_status e ReFailed"

definition requestMockRefund ::
    "env \<Rightarrow> uuid \<Rightarrow> uuid \<Rightarrow> db \<Rightarrow> db \<times> (api_error + refund_row)" where
  "requestMockRefund e orderId adminUserId =
     requestFullRefund e orderId AdminRefund (Some adminUserId) None"

definition perform_recovery ::
    "env \<Rightarrow> publisher \<Rightarrow> uuid \<Rightarrow> uuid \<Rightarrow> recovery_action_name \<Rightarrow> string \<Rightarrow> uuid \<Rightarrow> command_row \<Rightarrow>
     db \<Rightarrow> db \<times> (api_error + unit)" where
  "perform_recovery e publish orderId adminUserId action actionNote actionId c db = (case action of
     RequestRefund \<Rightarrow> bindS (requestMockRefund e orderId adminUserId db)
       (\<lambda>_ db1. (db1, Inr ()))
   | CompensationDispense \<Rightarrow> bindS (createCompensationDispenseCommand e publish orderId actionId
         (vc_commandNo c) actionNote db) (\<lambda>_ db1. (db1, Inr ()))
   | _ \<Rightarrow> bindS (resolveCommand e (vc_id c) (action = ConfirmDispensed) (Some actionNote)
         (Some False) db) (\<lambda>_ db1. (db1, Inr ())))"

definition createRecoveryAction ::
    "env \<Rightarrow> publisher \<Rightarrow> uuid \<Rightarrow> uuid \<Rightarrow> recovery_action_name \<Rightarrow> string \<Rightarrow> db \<Rightarrow>
     db \<times> (api_error + uuid)" where
  "createRecoveryAction e publish orderId adminUserId action actionNote db =
     bindS (startRecoveryAction e orderId adminUserId action actionNote db) (\<lambda>(actionId, c) db1.
       (case perform_recovery e publish orderId adminUserId action actionNote actionId c db1 of
          (db2, Inl err) \<Rightarrow> (failRecoveryAction e actionId db2, Inl err)
        | (db2, Inr _) \<Rightarrow> (completeRecoveryAction e actionId db2, Inr actionId)))"

end
