(* ===== verification/Payment_Phases.thy ===== *)
theory Payment_Phases
  imports Sale_Properties Order_Service
begin

text \<open>
  The contract between the writes of the payment and order services and what is proved about runs
  of them. The locale \<open>payment_phases\<close> asks of an invariant that every kind of write keeps it: a
  payment row only takes a step of \<open>payment_next\<close>, an order row one of \<open>order_next\<close>, a code attempt one
  of \<open>lease_next\<close>. It proves that then every operation that a machine, a provider, a job or the code
  worker starts keeps it, whatever it is called with and wherever it throws.
\<close>

subsection \<open>Steps of the rows\<close>

text \<open>Settled: what no provider, job, worker or machine may change again.\<close>

definition settled :: "payment_status \<Rightarrow> bool" where
  "settled s \<longleftrightarrow> s \<in> {PaySucceeded, PayFailed, PayExpired, PayCanceled}"

definition payment_next :: "payment_row \<Rightarrow> payment_row \<Rightarrow> bool" where
  "payment_next p q \<longleftrightarrow> payment_identity q = payment_identity p \<and>
     (settled (p_status p) \<longrightarrow> p_status q = p_status p)"

definition order_next :: "order_row \<Rightarrow> order_row \<Rightarrow> bool" where
  "order_next x y \<longleftrightarrow> identity_of y = identity_of x \<and> order_link y = order_link x \<and> order_projected y"

definition attempt_identity :: "code_attempt_row \<Rightarrow>
    uuid \<times> uuid \<times> uuid \<times> uuid \<times> uuid option \<times> nat \<times> string \<times> string \<times> int" where
  "attempt_identity a = (ca_id a, ca_paymentId a, ca_orderId a, ca_providerId a,
     ca_paymentProviderConfigId a, ca_attemptNo a, ca_providerPaymentNo a, ca_idempotencyKey a,
     ca_amountCents a)"

text \<open>A lease passes on only with a higher fence; under the same fence it can only be dropped.\<close>

definition lease_next :: "code_attempt_row \<Rightarrow> code_attempt_row \<Rightarrow> bool" where
  "lease_next a b \<longleftrightarrow> attempt_identity b = attempt_identity a \<and>
     (ca_leaseFence a < ca_leaseFence b \<or> ca_leaseFence b = ca_leaseFence a \<and>
        ca_leaseOwnerToken b \<in> {ca_leaseOwnerToken a, None})"

lemmas step_defs = payment_next_def order_next_def lease_next_def

lemma payment_next_refl [simp]: "payment_next p p"
  by (simp add: payment_next_def)

lemma lease_next_refl [simp]: "lease_next a a"
  by (simp add: lease_next_def)

lemma payment_identity_writes [simp]:
  "payment_identity (p\<lparr>p_providerTradeNo := v1\<rparr>) = payment_identity p"
  "payment_identity (p\<lparr>p_paymentUrl := v2\<rparr>) = payment_identity p"
  "payment_identity (p\<lparr>p_intentLeaseExpiresAt := v3\<rparr>) = payment_identity p"
  "payment_identity (p\<lparr>p_intentLeaseOwnerToken := v4\<rparr>) = payment_identity p"
  "payment_identity (p\<lparr>p_intentLeaseFence := v5\<rparr>) = payment_identity p"
  "payment_identity (p\<lparr>p_expiresAt := v6\<rparr>) = payment_identity p"
  "payment_identity (p\<lparr>p_paidAt := v7\<rparr>) = payment_identity p"
  "payment_identity (p\<lparr>p_failedReason := v8\<rparr>) = payment_identity p"
  by (simp_all add: payment_identity_def)

lemma order_identity_writes [simp]:
  "identity_of (x\<lparr>o_paidAt := v1\<rparr>) = identity_of x" "order_link (x\<lparr>o_paidAt := v1\<rparr>) = order_link x"
  "identity_of (x\<lparr>o_canceledAt := v2\<rparr>) = identity_of x"
  "order_link (x\<lparr>o_canceledAt := v2\<rparr>) = order_link x"
  by (simp_all add: identity_of_def order_link_def)

lemma attempt_identity_writes [simp]:
  "attempt_identity (a\<lparr>ca_status := v1\<rparr>) = attempt_identity a"
  "attempt_identity (a\<lparr>ca_isActive := v2\<rparr>) = attempt_identity a"
  "attempt_identity (a\<lparr>ca_providerTradeNo := v3\<rparr>) = attempt_identity a"
  "attempt_identity (a\<lparr>ca_providerStatus := v3\<rparr>) = attempt_identity a"
  "attempt_identity (a\<lparr>ca_failureCode := v3\<rparr>) = attempt_identity a"
  "attempt_identity (a\<lparr>ca_failureMessage := v4\<rparr>) = attempt_identity a"
  "attempt_identity (a\<lparr>ca_submittedAt := v5\<rparr>) = attempt_identity a"
  "attempt_identity (a\<lparr>ca_lastCheckedAt := v5\<rparr>) = attempt_identity a"
  "attempt_identity (a\<lparr>ca_reversedAt := v5\<rparr>) = attempt_identity a"
  "attempt_identity (a\<lparr>ca_finishedAt := v5\<rparr>) = attempt_identity a"
  "attempt_identity (a\<lparr>ca_manualReason := v3\<rparr>) = attempt_identity a"
  "attempt_identity (a\<lparr>ca_leaseExpiresAt := v5\<rparr>) = attempt_identity a"
  "attempt_identity (a\<lparr>ca_leaseOwnerToken := v3\<rparr>) = attempt_identity a"
  "attempt_identity (a\<lparr>ca_leaseFence := v6\<rparr>) = attempt_identity a"
  "attempt_identity (a\<lparr>ca_recoveryAttemptCount := v6\<rparr>) = attempt_identity a"
  "attempt_identity (a\<lparr>ca_recoveryNextAt := v5\<rparr>) = attempt_identity a"
  "attempt_identity (a\<lparr>ca_updatedAt := v7\<rparr>) = attempt_identity a"
  by (simp_all add: attempt_identity_def)

text \<open>A patch of the worker writes none of the columns that identify, activate or lease an attempt.\<close>

definition plain_patch :: "(code_attempt_row \<Rightarrow> code_attempt_row) \<Rightarrow> bool" where
  "plain_patch g \<longleftrightarrow> (\<forall>a. attempt_identity (g a) = attempt_identity a \<and>
     ca_leaseFence (g a) = ca_leaseFence a \<and> ca_leaseOwnerToken (g a) = ca_leaseOwnerToken a)"

lemma plain_patch_id [simp]: "plain_patch (\<lambda>a. a)"
  by (simp add: plain_patch_def)

lemma plain_patch_comp: "plain_patch f \<Longrightarrow> plain_patch g \<Longrightarrow> plain_patch (f \<circ> g)"
  by (simp add: plain_patch_def)

subsection \<open>Links\<close>

text \<open>
  How orders, payments and code attempts belong together: an order and its payment name each
  other and have the same amount, an attempt has the order, provider and amount of its payment,
  keys are unique and drawn before \<open>db_next\<close>, and the unique indexes of the attempts hold (at most
  one active attempt of an order).
\<close>

definition order_paid_by :: "order_row \<Rightarrow> payment_row \<Rightarrow> bool" where
  "order_paid_by x p \<longleftrightarrow> (o_paymentId x = Some (p_id p) \<longrightarrow>
     p_orderId p = o_id x \<and> p_amountCents p = o_totalAmountCents x)"

definition attempt_charges :: "code_attempt_row \<Rightarrow> payment_row \<Rightarrow> bool" where
  "attempt_charges a p \<longleftrightarrow> (p_id p = ca_paymentId a \<longrightarrow> p_orderId p = ca_orderId a \<and>
     p_amountCents p = ca_amountCents a \<and> p_providerId p = ca_providerId a)"

definition links_ok :: "db \<Rightarrow> bool" where
  "links_ok db \<longleftrightarrow> distinct (map o_id (db_orders db)) \<and> distinct (map p_id (db_payments db)) \<and>
     (\<forall>x\<in>set (db_orders db). o_id x < db_next db \<and> (\<forall>i. o_paymentId x = Some i \<longrightarrow> i < db_next db) \<and>
        (\<forall>p\<in>set (db_payments db). order_paid_by x p)) \<and>
     (\<forall>p\<in>set (db_payments db). p_id p < db_next db) \<and>
     (\<forall>a\<in>set (db_codeAttempts db). ca_id a < db_next db \<and> ca_paymentId a < db_next db \<and>
        (\<forall>p\<in>set (db_payments db). attempt_charges a p)) \<and>
     distinct (map ca_id (db_codeAttempts db)) \<and>
     no_conflict attempt_conflict (db_codeAttempts db)"

text \<open>What the bookkeeping tables leave alone.\<close>

definition core_of :: "db \<Rightarrow> db" where
  "core_of db = db\<lparr>db_paymentEvents := [], db_paymentAttempts := [], db_recoveryActions := [],
     db_orderStatusEvents := [], db_next := 0\<rparr>"

definition log_frame :: "db \<Rightarrow> db \<Rightarrow> bool" where
  "log_frame db db' \<longleftrightarrow> core_of db' = core_of db \<and> db_next db \<le> db_next db'"

lemma log_frameD:
  assumes "log_frame db db'"
  shows "db_next db \<le> db_next db'" and "db_orders db' = db_orders db"
    and "db_payments db' = db_payments db" and "db_codeAttempts db' = db_codeAttempts db"
    and "stock_view db' = stock_view db" and "db_commands db' = db_commands db"
    and "db_refunds db' = db_refunds db" and "movement_keys db' = movement_keys db"
proof -
  have eq: "core_of db' = core_of db" using assms by (simp add: log_frame_def)
  show "db_next db \<le> db_next db'" using assms by (simp add: log_frame_def)
  show "db_orders db' = db_orders db" "db_payments db' = db_payments db"
    "db_codeAttempts db' = db_codeAttempts db" "db_commands db' = db_commands db"
    "db_refunds db' = db_refunds db"
    using arg_cong [OF eq, of db_orders] arg_cong [OF eq, of db_payments]
      arg_cong [OF eq, of db_codeAttempts] arg_cong [OF eq, of db_commands]
      arg_cong [OF eq, of db_refunds]
    by (simp_all add: core_of_def)
  show "stock_view db' = stock_view db" using arg_cong [OF eq, of stock_view]
    by (simp add: core_of_def stock_view_def)
  show "movement_keys db' = movement_keys db" using arg_cong [OF eq, of movement_keys]
    by (simp add: core_of_def movement_keys_def)
qed

lemma record_payment_event_eq:
  "\<exists>rows. snd (record_payment_event ev db) = db\<lparr>db_paymentEvents := rows\<rparr>"
  by (auto simp: record_payment_event_def insert_or_ignore_def
      intro: exI [of _ "db_paymentEvents db"])

lemma log_frames [simp]:
  "log_frame db db"
  "log_frame db (db\<lparr>db_next := Suc (db_next db)\<rparr>)"
  "log_frame db (log_status ord fr tos why meta db)"
  "log_frame db (snd (record_payment_event ev db))"
  "log_frame db (insert_payment_attempt pa db)"
  "log_frame db (upd_payment_attempt i g db)"
  "log_frame db (db\<lparr>db_recoveryActions := ras\<rparr>)"
  "log_frame db (db\<lparr>db_recoveryActions := ras, db_next := Suc (db_next db)\<rparr>)"
  using record_payment_event_eq [of ev db]
  by (auto simp: log_frame_def core_of_def log_status_def insert_payment_attempt_def
      upd_payment_attempt_def)

lemma record_payment_event_frame: "record_payment_event ev db = (b, db') \<Longrightarrow> log_frame db db'"
  using log_frames(4) [of db ev] by simp

text \<open>The links only look at the identities of the rows.\<close>

lemma links_ok_identities:
  assumes "links_ok db" and "db_next db \<le> db_next db'"
    and "map order_link (db_orders db') = map order_link (db_orders db)"
    and "map payment_identity (db_payments db') = map payment_identity (db_payments db)"
    and "db_codeAttempts db' = db_codeAttempts db"
  shows "links_ok db'"
proof -
  have o: "map o_id (db_orders db') = map o_id (db_orders db)"
    using arg_cong [OF assms(3), of "map fst"] by (simp add: o_def order_link_def)
  have p: "map p_id (db_payments db') = map p_id (db_payments db)"
    using arg_cong [OF assms(4), of "map fst"] by (simp add: o_def payment_identity_def)
  have x: "\<exists>y\<in>set (db_orders db). order_link y = order_link x" if "x \<in> set (db_orders db')" for x
    using arg_cong [OF assms(3), of set] that by (metis (no_types, lifting) image_iff list.set_map)
  have q: "\<exists>r\<in>set (db_payments db). payment_identity r = payment_identity p"
    if "p \<in> set (db_payments db')" for p
    using arg_cong [OF assms(4), of set] that by (metis (no_types, lifting) image_iff list.set_map)
  show ?thesis
    unfolding links_ok_def
  proof (intro conjI ballI)
    show "distinct (map o_id (db_orders db'))" "distinct (map p_id (db_payments db'))"
      "no_conflict attempt_conflict (db_codeAttempts db')" "distinct (map ca_id (db_codeAttempts db'))"
      using assms(1) o p by (simp_all add: links_ok_def assms(5))
  next
    fix x assume "x \<in> set (db_orders db')"
    then obtain y where y: "y \<in> set (db_orders db)" "order_link y = order_link x" using x by blast
    show "o_id x < db_next db'" using y assms(1,2) by (fastforce simp: links_ok_def order_link_def)
    show "\<forall>i. o_paymentId x = Some i \<longrightarrow> i < db_next db'"
      using y assms(1,2) by (fastforce simp: links_ok_def order_link_def)
    fix p assume "p \<in> set (db_payments db')"
    then obtain r where r: "r \<in> set (db_payments db)" "payment_identity r = payment_identity p"
      using q by blast
    have "order_paid_by y r" using y r assms(1) by (simp add: links_ok_def)
    then show "order_paid_by x p"
      using y(2) r(2) by (simp add: order_paid_by_def order_link_def payment_identity_def)
  next
    fix p assume "p \<in> set (db_payments db')"
    then obtain r where "r \<in> set (db_payments db)" "payment_identity r = payment_identity p"
      using q by blast
    then show "p_id p < db_next db'"
      using assms(1,2) by (fastforce simp: links_ok_def payment_identity_def)
  next
    fix a assume a: "a \<in> set (db_codeAttempts db')"
    show "ca_id a < db_next db'" "ca_paymentId a < db_next db'"
      using a assms(1,2,5) by (fastforce simp: links_ok_def)+
    fix p assume "p \<in> set (db_payments db')"
    then obtain r where r: "r \<in> set (db_payments db)" "payment_identity r = payment_identity p"
      using q by blast
    have "attempt_charges a r" using r a assms(1,5) by (simp add: links_ok_def)
    then show "attempt_charges a p"
      using r(2) by (simp add: attempt_charges_def payment_identity_def)
  qed
qed

lemma links_ok_frame: "links_ok db \<Longrightarrow> log_frame db db' \<Longrightarrow> links_ok db'"
  by (rule links_ok_identities) (simp_all add: log_frameD)

subsection \<open>The contract\<close>

locale payment_phases =
  fixes I :: "db \<Rightarrow> bool"
  assumes linked: "\<And>db. I db \<Longrightarrow> links_ok db"
    and frame: "\<And>db db'. I db \<Longrightarrow> log_frame db db' \<Longrightarrow> I db'"
    and pay_write: "\<And>p f db. (\<And>q. q \<in> set (db_payments db) \<Longrightarrow> p q \<Longrightarrow> payment_next q (f q)) \<Longrightarrow>
      I db \<Longrightarrow> I (upd_payments p f db)"
    and order_write: "\<And>p f db. (\<And>x. x \<in> set (db_orders db) \<Longrightarrow> p x \<Longrightarrow> order_next x (f x)) \<Longrightarrow>
      I db \<Longrightarrow> I (upd_orders p f db)"
    and attempt_write: "\<And>p f db. (\<And>a. p a \<Longrightarrow> lease_next a (f a)) \<Longrightarrow> I db \<Longrightarrow>
      no_conflict attempt_conflict (db_codeAttempts (upd_attempts p f db)) \<Longrightarrow> I (upd_attempts p f db)"
    and attempt_insert: "\<And>a db db'. I db \<Longrightarrow> insert_attempt_row a db = Inr db' \<Longrightarrow>
      ca_id a = db_next db \<Longrightarrow> ca_paymentId a < db_next db \<Longrightarrow> \<forall>p\<in>set (db_payments db). attempt_charges a p \<Longrightarrow> I db'"
    and release: "\<And>e ord i q why db db'. I db \<Longrightarrow>
      releaseReservation e ord None i q why db = Inr db' \<Longrightarrow> I db'"
    and commands: "\<And>e ord db cs db'. I db \<Longrightarrow>
      createPendingDispatchCommands e ord db = Inr (cs, db') \<Longrightarrow> I db'"
    and publish: "\<And>e pub ord db. I db \<Longrightarrow> I (fst (dispatchPendingCommandsForOrder e pub ord db))"
    and draft: "\<And>e input mid t sel cfg db d db'. I db \<Longrightarrow>
      createLocalMachineOrderDraft e input mid t sel cfg db = Inr (d, db') \<Longrightarrow> I db'"

lemma attempts_unique_upd:
  assumes "no_conflict attempt_conflict rows"
    and "\<And>a. p a \<Longrightarrow> attempt_identity (f a) = attempt_identity a \<and> (ca_isActive (f a) \<longrightarrow> ca_isActive a)"
  shows "no_conflict attempt_conflict (upd_where p f rows)"
  unfolding upd_where_def
  by (rule no_conflict_map [OF assms(1)])
    (use assms(2) in \<open>fastforce simp: attempt_conflict_def attempt_identity_def split: if_splits\<close>)

lemma snd_as_claim [simp]: "snd (as_claim r) = snd r"
  by (simp add: as_claim_def split: option.split)

lemma snd_update_attempt [simp]: "snd (update_attempt p f db) = upd_attempts p f db"
  by (simp add: update_attempt_def)

lemma first_SomeD: "(case xs of [] \<Rightarrow> None | r # _ \<Rightarrow> Some r) = Some r \<Longrightarrow> r \<in> set xs"
  by (cases xs) auto

lemma attempt_context_SomeD:
  assumes "attempt_context i db = Some (a, p, x)"
  shows "a \<in> set (db_codeAttempts db)" "p \<in> set (db_payments db)" "x \<in> set (db_orders db)"
    "ca_id a = i" "p_id p = ca_paymentId a" "o_id x = ca_orderId a"
  using first_SomeD [OF assms [unfolded attempt_context_def]] by auto

lemma code_order_join_member:
  "(x, p, pp) \<in> set (code_order_join input db) \<Longrightarrow>
   x \<in> set (db_orders db) \<and> p \<in> set (db_payments db) \<and> o_paymentId x = Some (p_id p)"
  by (auto simp: code_order_join_def)

lemma links_payment_unique:
  "links_ok db \<Longrightarrow> p \<in> set (db_payments db) \<Longrightarrow> q \<in> set (db_payments db) \<Longrightarrow> p_id p = p_id q \<Longrightarrow> p = q"
  unfolding links_ok_def by (metis key_unique)

lemma links_order_unique:
  "links_ok db \<Longrightarrow> x \<in> set (db_orders db) \<Longrightarrow> y \<in> set (db_orders db) \<Longrightarrow> o_id x = o_id y \<Longrightarrow> x = y"
  unfolding links_ok_def by (metis key_unique)

context payment_phases begin

subsection \<open>Code attempts\<close>

lemma attempt_quiet:
  assumes "I db" and "\<And>a. p a \<Longrightarrow> lease_next a (f a) \<and> (ca_isActive (f a) \<longrightarrow> ca_isActive a)"
  shows "I (upd_attempts p f db)"
proof (rule attempt_write [OF _ assms(1)])
  show "no_conflict attempt_conflict (db_codeAttempts (upd_attempts p f db))"
    using linked [OF assms(1)] assms(2)
    by (auto simp: upd_attempts_def links_ok_def lease_next_def intro!: attempts_unique_upd)
qed (use assms(2) in blast)

lemma checked_keeps:
  assumes "I db" and "checked_attempt (r, upd_attempts p f db) = Inr (r', db')"
    and "\<And>a. p a \<Longrightarrow> lease_next a (f a)"
  shows "I db'"
  using assms attempt_write [of p f db] by (auto simp: checked_attempt_def split: if_splits)

lemma create_attempt_keeps:
  assumes ok: "I db" and run: "createOrReplay e input b db = Inr (r, db')"
  shows "I db'"
proof (cases "code_order_join input db")
  case Nil
  then show ?thesis using run by (simp add: createOrReplay_def)
next
  case (Cons row rest)
  obtain x p pp where row: "row = (x, p, pp)" by (cases row)
  have x: "x \<in> set (db_orders db)" "p \<in> set (db_payments db)" "o_paymentId x = Some (p_id p)"
    using code_order_join_member [of x p pp input db] Cons row by auto
  define claim where "claim q \<longleftrightarrow> p_id q = p_id p \<and> claimable_code_payment e x db q" for q
  define db1 where "db1 = upd_payments claim (\<lambda>q. q\<lparr>p_updatedAt := e_now e\<rparr>) db"
  have ok1: "I db1"
    unfolding db1_def by (rule pay_write [OF _ ok]) (simp add: payment_next_def)
  have paid: "order_paid_by x p" and fresh: "p_id p < db_next db"
    using linked [OF ok] x(1,2) by (auto simp: links_ok_def)
  have charges: "attempt_charges (new_attempt e input x p n db1) q" if "q \<in> set (db_payments db1)" for n q
  proof -
    from that obtain q0 where q0: "q0 \<in> set (db_payments db)" "payment_identity q = payment_identity q0"
      by (auto simp: db1_def upd_payments_def set_upd_where)
    then show ?thesis
      using links_payment_unique [OF linked [OF ok] q0(1) x(2)] paid x(3)
      by (auto simp: attempt_charges_def new_attempt_def payment_identity_def order_paid_by_def)
  qed
  have next1: "db_next db1 = db_next db" by (simp add: db1_def upd_payments_def)
  note D = run [unfolded createOrReplay_def Cons row list.case prod.case Let_def
      claim_def [symmetric, abs_def] db1_def [symmetric]]
  from D consider "db' = db" | n where "insert_attempt_row (new_attempt e input x p n db1) db1 = Inr db'"
    by (fastforce simp: bindR_eq_Inr split: if_split_asm option.split_asm)
  then show ?thesis
  proof cases
    case 1
    then show ?thesis using ok by simp
  next
    case 2
    show ?thesis
      by (rule attempt_insert [OF ok1 2]) (use charges fresh next1 in \<open>auto simp: new_attempt_def\<close>)
  qed
qed

lemma claim_submission_keeps: "I db \<Longrightarrow> I (snd (claimSubmission e i w t db))"
  by (auto simp: claimSubmission_def lease_next_def take_lease_def split: option.split
      intro!: attempt_quiet)

lemma claim_recovery_keeps: "I db \<Longrightarrow> I (snd (claimRecoveryAttemptById i w now t db))"
  by (auto simp: claimRecoveryAttemptById_def lease_next_def take_lease_def intro!: attempt_quiet)

lemma claim_next_keeps: "I db \<Longrightarrow> I (snd (claimNextDueRecoveryAttempt w now t db))"
  by (auto simp: claimNextDueRecoveryAttempt_def claim_recovery_keeps split: option.split)

lemma renew_keeps: "I db \<Longrightarrow> I (snd (renewRecoveryClaim e claim t db))"
  by (auto simp: renewRecoveryClaim_def split_beta lease_next_def intro!: attempt_quiet)

lemma request_action_keeps:
  assumes ok: "I db" and run: "requestRecoveryAction e i st why db = Inr (a, db')"
  shows "I db'"
proof -
  from run consider "db' = db" | r p f where "checked_attempt (r, upd_attempts p f db) = Inr (a, db')"
      "\<And>c. lease_next c (f c)"
    unfolding requestRecoveryAction_def Let_def
    by (fastforce simp: lease_next_def drop_lease_def split: option.split_asm if_split_asm)
  then show ?thesis by cases (use ok in \<open>auto elim: checked_keeps [OF ok]\<close>)
qed

lemma request_for_payment_keeps:
  "I db \<Longrightarrow> requestRecoveryActionForPayment e i st why db = Inr (a, db') \<Longrightarrow> I db'"
  by (auto simp: requestRecoveryActionForPayment_def bindR_eq_Inr split: option.split_asm
      intro: request_action_keeps)

lemma release_claim_keeps:
  assumes "I db" and "releaseRecoveryClaim e claim st t g db = Inr (a, db')" and "plain_patch g"
  shows "I db'"
  using assms(2) unfolding releaseRecoveryClaim_def Let_def update_attempt_def
  by (rule checked_keeps [OF assms(1)]) (use assms(3) in \<open>simp add: lease_next_def plain_patch_def drop_lease_def\<close>)

lemma mark_status_keeps:
  assumes "I db" and "tryMarkStatus e i st g allowed db = Inr (a, db')" and "plain_patch g"
  shows "I db'"
  using assms(2) unfolding tryMarkStatus_def Let_def update_attempt_def
  by (rule checked_keeps [OF assms(1)]) (use assms(3) in \<open>simp add: lease_next_def plain_patch_def drop_lease_def\<close>)

end

lemma payment_with_order_SomeD:
  assumes "payment_with_order i db = Some (p, x)"
  shows "p \<in> set (db_payments db)" "x \<in> set (db_orders db)" "o_id x = p_orderId p" "p_id p = i"
  using first_SomeD [OF assms [unfolded payment_with_order_def]] by auto

lemma locked_payment_SomeD:
  assumes "locked_payment q db = Some (p, x)"
  shows "p \<in> set (db_payments db)" "x \<in> set (db_orders db)" "o_id x = p_orderId p" "p_id p = p_id q"
    "o_id x = p_orderId q"
  using first_SomeD [OF assms [unfolded locked_payment_def]] by auto

lemma payment_joins_member:
  "(p, x, pp) \<in> set (payment_joins c db) \<Longrightarrow> p \<in> set (db_payments db) \<and> x \<in> set (db_orders db) \<and>
   o_id x = p_orderId p \<and> pp_id pp = p_providerId p \<and> c p x pp"
  by (auto simp: payment_joins_def)

lemma payment_context_SomeD:
  assumes "payment_context i db = Some (p, x, pp)"
  shows "p \<in> set (db_payments db)" "x \<in> set (db_orders db)" "o_id x = p_orderId p" "p_id p = i"
  using payment_joins_member [OF first_SomeD [OF assms [unfolded payment_context_def]]] by auto

lemma find_payment_SomeD: "find_payment i db = Some p \<Longrightarrow> p \<in> set (db_payments db) \<and> p_id p = i"
  by (auto simp: find_payment_def dest: find_SomeD)

text \<open>A transition either leaves the database alone or goes through all its writes.\<close>

lemma transition_InrE:
  assumes "transitionProviderPaymentTerminal e tt db = Inr (outcome, db')"
  obtains (unchanged) "outcome \<noteq> TApplied" and "db' = db"
  | (applied) p x et db1 db2 where "outcome = TApplied" and "tt_providerId tt \<noteq> None"
      and "payment_with_order (tt_paymentId tt) db = Some (p, x)" and "may_transition e tt p x db"
      and "record_payment_event (payment_event e (tt_paymentId tt) (p_providerId p) et
             (tt_providerEventId tt) (tt_signatureValid tt)) db = (True, db1)"
      and "(if tt_succeeded tt then succeed_payment e tt x db1 else fail_payment e tt x db1) = Inr db2"
      and "(case tt_paymentCodeAttempt tt of None \<Rightarrow> Inr db2
            | Some ct \<Rightarrow> close_code_attempt e ct db2) = Inr db'"
proof (cases "tt_providerId tt")
  case None
  then show ?thesis using assms unchanged by (auto simp: transitionProviderPaymentTerminal_def)
next
  case pid: (Some pid)
  show ?thesis
  proof (cases "event_known pid (tt_providerEventId tt) db")
    case True
    then show ?thesis using assms pid unchanged by (auto simp: transitionProviderPaymentTerminal_def)
  next
    case known: False
    show ?thesis
    proof (cases "payment_with_order (tt_paymentId tt) db")
      case None
      then show ?thesis using assms pid known unchanged
        by (auto simp: transitionProviderPaymentTerminal_def)
    next
      case (Some px)
      obtain p x where px: "px = (p, x)" by (cases px)
      define et where "et = (case tt_eventType tt of Some t \<Rightarrow> t
          | None \<Rightarrow> ''reconcile.payment.'' @ (if tt_succeeded tt then ''succeeded'' else ''failed''))"
      obtain b db1 where ev: "record_payment_event (payment_event e (tt_paymentId tt) (p_providerId p) et
          (tt_providerEventId tt) (tt_signatureValid tt)) db = (b, db1)"
        by (cases "record_payment_event (payment_event e (tt_paymentId tt) (p_providerId p) et
          (tt_providerEventId tt) (tt_signatureValid tt)) db")
      note run = assms [unfolded transitionProviderPaymentTerminal_def pid option.case Some px
          prod.case et_def [symmetric] ev]
      show ?thesis
      proof (cases "may_transition e tt p x db \<and> b")
        case True
        then obtain db2 where "(if tt_succeeded tt then succeed_payment e tt x db1
              else fail_payment e tt x db1) = Inr db2"
            and "(case tt_paymentCodeAttempt tt of None \<Rightarrow> Inr db2
                  | Some ct \<Rightarrow> close_code_attempt e ct db2) = Inr db'" and "outcome = TApplied"
          using run known by (auto simp: bindR_eq_Inr)
        then show ?thesis using True pid Some px ev by (intro applied) auto
      qed (use run known unchanged in \<open>auto split: if_splits bool.splits\<close>)
    qed
  qed
qed

text \<open>Every transition names the order of its payment.\<close>

definition names_order :: "uuid \<Rightarrow> uuid \<Rightarrow> db \<Rightarrow> bool" where
  "names_order paymentId orderId db \<longleftrightarrow>
     (\<forall>p\<in>set (db_payments db). p_id p = paymentId \<longrightarrow> p_orderId p = orderId)"

lemma names_orderI: "links_ok db \<Longrightarrow> p \<in> set (db_payments db) \<Longrightarrow> names_order (p_id p) (p_orderId p) db"
  using links_payment_unique by (fastforce simp: names_order_def)

lemma names_order_frame:
  "names_order i j db \<Longrightarrow> map payment_identity (db_payments db') = map payment_identity (db_payments db) \<Longrightarrow>
   names_order i j db'"
proof (unfold names_order_def, intro ballI impI)
  fix p assume all: "\<forall>p\<in>set (db_payments db). p_id p = i \<longrightarrow> p_orderId p = j"
    and eq: "map payment_identity (db_payments db') = map payment_identity (db_payments db)"
    and p: "p \<in> set (db_payments db')" "p_id p = i"
  obtain q where "q \<in> set (db_payments db)" "payment_identity q = payment_identity p"
    using arg_cong [OF eq, of set] p(1) by (metis (no_types, lifting) image_iff list.set_map)
  then show "p_orderId p = j" using all p(2) by (auto simp: payment_identity_def)
qed

lemma log_payments:
  "log_frame db db' \<Longrightarrow> names_order i j db \<Longrightarrow> names_order i j db'"
  by (rule names_order_frame, assumption) (simp add: log_frameD)

context payment_phases begin

subsection \<open>The terminal transition\<close>

lemma log_keeps [intro]:
  "I db \<Longrightarrow> I (log_status ord fr tos why meta db)"
  "I db \<Longrightarrow> I (snd (record_payment_event ev db))"
  "I db \<Longrightarrow> I (insert_payment_attempt pa db)"
  "I db \<Longrightarrow> I (upd_payment_attempt i g db)"
  "I db \<Longrightarrow> I (db\<lparr>db_next := Suc (db_next db)\<rparr>)"
  by (erule frame, simp)+

lemma event_keeps: "I db \<Longrightarrow> record_payment_event ev db = (b, db') \<Longrightarrow> I db'"
  by (rule frame) (auto dest: record_payment_event_frame)

lemma release_all_keeps: "I db \<Longrightarrow> releaseActiveReservationsForOrder e ord why db = Inr db' \<Longrightarrow> I db'"
  unfolding releaseActiveReservationsForOrder_def
  by (erule foldR_invariant [where I = I, rotated]) (auto elim: release)

lemma publish_quietly_keeps: "I db \<Longrightarrow> I (publish_quietly e pub ord db)"
  by (simp add: publish_quietly_def publish)

lemma cancel_unpaid_keeps: "I db \<Longrightarrow> I (cancel_unpaid_order e ord x why db)"
  by (auto simp: cancel_unpaid_order_def order_next_def order_projected_def projectOrderStatus_def
      intro!: order_write)

lemma settle_write:
  assumes "I db"
  shows "I (upd_payments (mutable_payment tt) (\<lambda>p. (give_back_lease tt p)
           \<lparr>p_status := s, p_paidAt := v1 p, p_failedReason := v2 p, p_providerTradeNo := v3 p,
            p_updatedAt := v4 p\<rparr>) db)"
    and "I (upd_payments (mutable_payment tt) (\<lambda>p. (give_back_lease tt p)
           \<lparr>p_status := s, p_failedReason := v2 p, p_updatedAt := v4 p\<rparr>) db)"
  using assms
  by (auto simp: payment_next_def mutable_payment_def settled_def PROVIDER_MUTABLE_PAYMENT_STATUSES_def
      give_back_lease_def drop_intent_lease_def intro!: pay_write)

lemma succeed_keeps:
  assumes ok: "I db" and x: "x \<in> set (db_orders db)" "tt_orderId tt = o_id x"
    and run: "succeed_payment e tt x db = Inr db'"
  shows "I db'"
proof -
  define t where "t = (case tt_occurredAt tt of None \<Rightarrow> e_now e | Some t \<Rightarrow> t)"
  define db1 where "db1 = upd_payments (mutable_payment tt)
      (\<lambda>p. (give_back_lease tt p)\<lparr>p_status := PaySucceeded, p_paidAt := Some t, p_failedReason := None,
         p_providerTradeNo := (if present (tt_providerTradeNo tt) then tt_providerTradeNo tt
                               else p_providerTradeNo p), p_updatedAt := e_now e\<rparr>) db"
  define db2 where "db2 = upd_orders (\<lambda>y. o_id y = tt_orderId tt)
      (\<lambda>y. y\<lparr>o_status := projectOrderStatus PsPaid (o_fulfillmentState x), o_paymentState := PsPaid,
         o_paidAt := Some t, o_updatedAt := e_now e\<rparr>) db1"
  have ok1: "I db1" unfolding db1_def by (rule settle_write [OF ok])
  have "db_orders db1 = db_orders db" by (simp add: db1_def upd_payments_def)
  then have "I db2" unfolding db2_def
    using x links_order_unique [OF linked [OF ok] _ x(1)]
    by (intro order_write [OF _ ok1]) (auto simp: order_next_def order_projected_def)
  then show ?thesis
    using run unfolding succeed_payment_def Let_def t_def [symmetric] db1_def [symmetric] db2_def [symmetric]
    by (auto simp: bindR_eq_Inr split: if_splits intro: commands log_keeps)
qed

lemma fail_keeps:
  assumes "I db" and "fail_payment e tt x db = Inr db'"
  shows "I db'"
  using assms unfolding fail_payment_def Let_def
  by (auto intro: release_all_keeps [OF cancel_unpaid_keeps [OF settle_write(2)]])

lemma close_attempt_keeps:
  assumes "I db" and "close_code_attempt e ct db = Inr db'" and "plain_patch (ct_patch ct)"
  shows "I db'"
  using assms
  by (auto simp: close_code_attempt_def update_attempt_def split: option.split_asm
      intro!: attempt_quiet simp: lease_next_def plain_patch_def drop_lease_def)

lemma transition_keeps:
  assumes ok: "I db" and ord: "names_order (tt_paymentId tt) (tt_orderId tt) db"
    and patch: "\<And>ct. tt_paymentCodeAttempt tt = Some ct \<Longrightarrow> plain_patch (ct_patch ct)"
    and run: "transitionProviderPaymentTerminal e tt db = Inr (outcome, db')"
  shows "I db'"
  using run
proof (cases rule: transition_InrE)
  case (applied p x et db1 db2)
  note x = payment_with_order_SomeD [OF applied(3)]
  have ok1: "I db1" by (rule event_keeps [OF ok applied(5)])
  have "x \<in> set (db_orders db1)" "tt_orderId tt = o_id x"
    using x ord log_frameD(2) [OF record_payment_event_frame [OF applied(5)]]
    by (auto simp: names_order_def)
  then have "I db2" using applied(6) succeed_keeps [OF ok1] fail_keeps [OF ok1]
    by (auto split: if_splits)
  then show ?thesis using applied(7) patch by (auto split: option.splits intro: close_attempt_keeps)
qed (use ok in simp)

lemma update_keeps:
  assumes "I db" and "names_order (tt_paymentId tt) (tt_orderId tt) db"
    and "\<And>ct. tt_paymentCodeAttempt tt = Some ct \<Longrightarrow> plain_patch (ct_patch ct)"
  shows "I (fst (atomic (applyPaymentStatusUpdate e tt) db))"
  by (rule atomic_keeps [where I = I, OF assms(1)])
    (auto simp: applyPaymentStatusUpdate_def bindR_eq_Inr intro: transition_keeps [OF assms])

lemma terminal_update_fields [simp]:
  "tt_paymentId (terminal_update i j s ev tn pid t why ty al g) = i"
  "tt_orderId (terminal_update i j s ev tn pid t why ty al g) = j"
  "tt_paymentCodeAttempt (terminal_update i j s ev tn pid t why ty al g) = None"
  by (simp_all add: terminal_update_def)

lemma names_own_order: "I db \<Longrightarrow> p \<in> set (db_payments db) \<Longrightarrow> names_order (p_id p) (p_orderId p) db"
  by (rule names_orderI [OF linked])

lemma provider_result_keeps: "I db \<Longrightarrow> I (fst (applyProviderPaymentResult e pub r db))"
  unfolding applyProviderPaymentResult_def
  by (cases "find_payment (ppr_paymentId r) db")
    (auto intro!: bindS_keeps [where I = I] update_keeps names_own_order publish_quietly_keeps
      dest: find_payment_SomeD)

lemma code_result_keeps:
  assumes ok: "I db" and "names_order (cr_paymentId r) (cr_orderId r) db" and "plain_patch (cr_attemptPatch r)"
  shows "I (fst (applyPaymentCodeAttemptProviderResult e pub r db))"
proof -
  have "I (fst (atomic (transitionProviderPaymentTerminal e (code_attempt_transition r)) db))"
    by (rule atomic_keeps [where I = I, OF ok], rule transition_keeps [OF ok])
      (use assms(2,3) in \<open>auto simp: code_attempt_transition_def\<close>)
  then show ?thesis unfolding applyPaymentCodeAttemptProviderResult_def
    by (rule bindS_keeps) (auto intro: publish_quietly_keeps)
qed

lemma manual_writes:
  assumes ok: "I db" and ctx: "attempt_context i db = Some (a, p, x)" and "\<not> settled (p_status p)"
  shows "I (upd_orders (\<lambda>y. o_id y = o_id x) (\<lambda>y. y\<lparr>o_status := OsManualHandling,
      o_paymentState := PsPaymentUnknown, o_fulfillmentState := FsManualHandling,
      o_updatedAt := e_now e\<rparr>) (upd_payments (\<lambda>q. p_id q = p_id p)
        (\<lambda>q. q\<lparr>p_status := PayUnknown, p_failedReason := Some why, p_updatedAt := e_now e\<rparr>) db))"
proof (rule order_write)
  show "I (upd_payments (\<lambda>q. p_id q = p_id p)
        (\<lambda>q. q\<lparr>p_status := PayUnknown, p_failedReason := Some why, p_updatedAt := e_now e\<rparr>) db)"
    by (rule pay_write [OF _ ok])
      (use assms(3) links_payment_unique [OF linked [OF ok] _ attempt_context_SomeD(2) [OF ctx]]
        in \<open>auto simp: payment_next_def\<close>)
qed (simp add: order_next_def order_projected_def projectOrderStatus_def)

lemma manual_last:
  assumes "(case update_attempt p (manual_attempt e why) d of (None, _) \<Rightarrow> Inl err
      | updated \<Rightarrow> bindR (checked_attempt updated) (\<lambda>(_, db5). Inr (TApplied, db5))) = Inr (r, db')"
    and "I d"
  shows "I db'"
proof -
  from assms(1) obtain q where
    "checked_attempt (update_attempt p (manual_attempt e why) d) = Inr (q, db')"
    by (auto simp: bindR_eq_Inr split: prod.split_asm option.split_asm)
  then show ?thesis
    unfolding update_attempt_def
    by (rule checked_keeps [OF assms(2)]) (simp add: lease_next_def manual_attempt_def drop_lease_def)
qed

lemma mark_manual_tx_keeps:
  assumes ok: "I db" and run: "markPaymentCodeAttemptManualHandling e i w n why db = Inr (r, db')"
  shows "I db'"
proof (cases "attempt_context i db")
  case (Some row)
  obtain a p x where row: "row = (a, p, x)" by (cases row)
  note run' = run [unfolded markPaymentCodeAttemptManualHandling_def Some row option.case prod.case Let_def]
  show ?thesis
  proof (cases "settled (p_status p)")
    case False
    note writes = manual_writes [OF ok Some [unfolded row] False, of e why]
    from run' show ?thesis
      by (simp split: if_split_asm) (use ok in simp, (erule manual_last, intro log_keeps, rule writes)+)
  qed (use run' ok in \<open>auto simp: settled_def split: if_splits\<close>)
qed (use run ok in \<open>simp add: markPaymentCodeAttemptManualHandling_def\<close>)

end

subsection \<open>Payments read earlier\<close>

text \<open>
  A job holds rows that it read before: the payment is still there, with the same identity. That is
  itself kept by every write, so it can be added to any invariant.
\<close>

definition known :: "payment_row \<Rightarrow> db \<Rightarrow> bool" where
  "known p db \<longleftrightarrow> payment_identity p \<in> set (map payment_identity (db_payments db))"

lemma known_member [simp]: "p \<in> set (db_payments db) \<Longrightarrow> known p db"
  by (simp add: known_def)

lemma known_same: "known p db \<Longrightarrow> db_payments db' = db_payments db \<Longrightarrow> known p db'"
  by (simp add: known_def)

lemma known_log: "known p db \<Longrightarrow> log_frame db db' \<Longrightarrow> known p db'"
  by (erule known_same) (erule log_frameD)

lemma known_core: "known p db \<Longrightarrow> core_frame db db' \<Longrightarrow> known p db'"
  by (erule known_same) (simp add: core_frame_def core_tables_def)

lemma known_upd:
  assumes "known p db"
    and "\<And>q. q \<in> set (db_payments db) \<Longrightarrow> c q \<Longrightarrow> payment_identity (f q) = payment_identity q"
  shows "known p (upd_payments c f db)"
proof -
  obtain q where q: "q \<in> set (db_payments db)" "payment_identity p = payment_identity q"
    using assms(1) by (auto simp: known_def)
  have rows: "db_payments (upd_payments c f db) = upd_where c f (db_payments db)"
    by (simp add: upd_payments_def)
  have "(if c q then f q else q) \<in> set (db_payments (upd_payments c f db))"
    unfolding rows set_upd_where by (rule image_eqI [OF refl q(1)])
  moreover have "payment_identity p = payment_identity (if c q then f q else q)"
    using assms(2) [OF q(1)] q(2) by simp
  ultimately show ?thesis unfolding known_def list.set_map by (rule rev_image_eqI)
qed

lemma known_names: "links_ok db \<Longrightarrow> known p db \<Longrightarrow> names_order (p_id p) (p_orderId p) db"
  using links_payment_unique [of db]
  by (fastforce simp: known_def names_order_def payment_identity_def)

lemma insert_attempt_payments: "insert_attempt_row a db = Inr db' \<Longrightarrow> db_payments db' = db_payments db"
  by (auto simp: insert_attempt_row_def split: if_splits)

lemma create_line_outside:
  "create_line_command e ord item s = Inr s' \<Longrightarrow> outside_commands (snd s') = outside_commands (snd s)"
  by (cases s) (auto simp: create_line_command_def bindR_eq_Inr Let_def
      insert_or_ignore_def outside_commands_def split: prod.splits if_splits option.splits)

lemma create_commands_outside:
  assumes "createPendingDispatchCommands e ord db = Inr (cs, db')"
  shows "outside_commands db' = outside_commands db"
proof -
  have "outside_commands (snd s) = outside_commands db"
    if "foldR (create_line_command e x) items ([], db) = Inr s" for x items s
    by (rule foldR_invariant [OF that, of "\<lambda>s. outside_commands (snd s) = outside_commands db"])
      (auto dest: create_line_outside)
  then show ?thesis using assms
    by (fastforce simp: createPendingDispatchCommands_def bindR_eq_Inr Let_def
        split: option.splits if_splits)
qed

lemma promise_all_invariant:
  "(\<And>x s. x \<in> set xs \<Longrightarrow> I s \<Longrightarrow> I (fst (f x s))) \<Longrightarrow> I s \<Longrightarrow> I (fst (promise_all f xs s))"
  by (induction xs arbitrary: s) (auto simp: split_beta Let_def)

lemma update_pending_outside:
  "update_pending_command f i db = Inr (c, db') \<Longrightarrow> outside_commands db' = outside_commands db"
  by (auto simp: update_pending_command_def bindR_def Let_def outside_commands_def upd_commands_def
      split: sum.splits option.splits)

lemma dispatch_command_outside:
  "outside_commands (fst (dispatch_command e publish cm db)) = outside_commands db"
  by (cases cm) (auto simp: dispatch_command_def Let_def markPendingCommandSent_def atomic_def
      recordPendingCommandDispatchFailure_def update_pending_outside split: sum.split option.split)

lemma publish_outside:
  "outside_commands (fst (dispatchPendingCommandsForOrder e publish ord db)) = outside_commands db"
  unfolding dispatchPendingCommandsForOrder_def
  by (rule promise_all_invariant) (simp_all add: dispatch_command_outside)

lemma outside_payments: "outside_commands db' = outside_commands db \<Longrightarrow> db_payments db' = db_payments db"
  by (drule arg_cong [where f = db_payments]) (simp add: outside_commands_def)

text \<open>The transaction that drafts an order, step by step.\<close>

lemma draft_InrE:
  assumes "createLocalMachineOrderDraft e input mid t sel cfg db = Inr (d, db')"
  obtains lns x db1 db2 pp p db3 where "draft_details input mid db = Inr lns"
    and "x = new_order_row e input mid (order_total lns) db"
    and "insert_order x db = Inr db1" and "foldR (draft_line e (o_id x) t) lns db1 = Inr db2"
    and "enabled_provider (fst sel) db2 = Inr pp"
    and "p = new_payment_row e (o_id x) (pp_id pp) cfg (snd sel) (o_totalAmountCents x) t db2"
    and "insert_payment p db2 = Inr db3"
    and "db' = log_status (o_id x) None OsPendingPayment ''machine_order_created'' None
      (upd_orders (\<lambda>y. o_id y = o_id x)
        (\<lambda>y. y\<lparr>o_paymentId := Some (p_id p), o_updatedAt := e_now e\<rparr>) db3)"
    and "d = \<lparr>ld_orderId = o_id x, ld_orderNo = o_orderNo x, ld_paymentId = p_id p,
      ld_paymentNo = p_paymentNo p, ld_providerCode = pp_code pp,
      ld_paymentMethod = co_paymentMethod input, ld_machineId = mid,
      ld_totalAmountCents = p_amountCents p, ld_expiresAt = t,
      ld_reservations = map (\<lambda>i. (li_inventoryId i, li_quantity i)) (co_items input)\<rparr>"
  using assms
  by (auto simp: createLocalMachineOrderDraft_def draft_payment_def bindR_eq_Inr Let_def)

text \<open>The order draft only appends a payment.\<close>

lemma draft_line_core:
  assumes "draft_line e ord t l db = Inr db'"
  shows "core_frame db db'"
  using assms
  by (cases l) (auto simp: draft_line_def bindR_eq_Inr insert_item_def core_frame_def core_tables_def
      movement_keys_def split: if_splits dest!: reserve_core)

lemma draft_lines_core:
  "foldR (draft_line e ord t) lines db = Inr db' \<Longrightarrow> core_frame db db'"
  by (rule foldR_core) (auto dest: draft_line_core)

lemma draft_payments:
  assumes run: "createLocalMachineOrderDraft e input mid t sel cfg db = Inr (d, db')"
  shows "\<exists>p. db_payments db' = db_payments db @ [p] \<and> p_id p = ld_paymentId d \<and>
    p_status p = PayCreated \<and> db_next db \<le> p_id p"
  using run
proof (rule draft_InrE)
  fix lns x db1 db2 pp p db3
  assume order: "insert_order x db = Inr db1" and lines: "foldR (draft_line e (o_id x) t) lns db1 = Inr db2"
    and p: "p = new_payment_row e (o_id x) (pp_id pp) cfg (snd sel) (o_totalAmountCents x) t db2"
    and pay: "insert_payment p db2 = Inr db3"
    and "db' = log_status (o_id x) None OsPendingPayment ''machine_order_created'' None
      (upd_orders (\<lambda>y. o_id y = o_id x)
        (\<lambda>y. y\<lparr>o_paymentId := Some (p_id p), o_updatedAt := e_now e\<rparr>) db3)"
    and d: "d = \<lparr>ld_orderId = o_id x, ld_orderNo = o_orderNo x, ld_paymentId = p_id p,
      ld_paymentNo = p_paymentNo p, ld_providerCode = pp_code pp,
      ld_paymentMethod = co_paymentMethod input, ld_machineId = mid,
      ld_totalAmountCents = p_amountCents p, ld_expiresAt = t,
      ld_reservations = map (\<lambda>i. (li_inventoryId i, li_quantity i)) (co_items input)\<rparr>"
  have "db_payments db2 = db_payments db" "db_next db \<le> db_next db2"
    using order draft_lines_core [OF lines]
    by (auto simp: insert_order_def core_frame_def core_tables_def split: if_splits)
  moreover have "db_payments db' = db_payments db2 @ [p]"
    using pay \<open>db' = _\<close> by (auto simp: insert_payment_def upd_defs split: if_splits)
  ultimately show ?thesis by (auto simp: p d new_payment_row_def)
qed

lemma draft_open:
  assumes ok: "links_ok db" and run: "createLocalMachineOrderDraft e input mid t sel cfg db = Inr (d, db')"
    and q: "q \<in> set (db_payments db')" "p_id q = ld_paymentId d"
  shows "\<not> settled (p_status q)"
proof -
  obtain p where "db_payments db' = db_payments db @ [p]" "p_id p = ld_paymentId d"
    "p_status p = PayCreated" "db_next db \<le> p_id p"
    using draft_payments [OF run] by blast
  moreover have "p_id q < db_next db" if "q \<in> set (db_payments db)"
    using ok that by (simp add: links_ok_def)
  ultimately show ?thesis using q by (auto simp: settled_def)
qed

lemma payment_phases_known:
  assumes "payment_phases I"
  shows "payment_phases (\<lambda>db. I db \<and> (\<forall>p\<in>P. known p db))"
proof
  fix db assume "I db \<and> (\<forall>p\<in>P. known p db)"
  then show "links_ok db" using payment_phases.linked [OF assms] by blast
next
  fix db db' assume "I db \<and> (\<forall>p\<in>P. known p db)" "log_frame db db'"
  then show "I db' \<and> (\<forall>p\<in>P. known p db')"
    using payment_phases.frame [OF assms] known_log by blast
next
  fix p f db assume step: "\<And>q. q \<in> set (db_payments db) \<Longrightarrow> p q \<Longrightarrow> payment_next q (f q)"
    and "I db \<and> (\<forall>p\<in>P. known p db)"
  then show "I (upd_payments p f db) \<and> (\<forall>q\<in>P. known q (upd_payments p f db))"
    using payment_phases.pay_write [OF assms, of db p f] known_upd [of _ db p f]
    by (auto simp: payment_next_def)
next
  fix p f db assume step: "\<And>x. x \<in> set (db_orders db) \<Longrightarrow> p x \<Longrightarrow> order_next x (f x)"
    and "I db \<and> (\<forall>p\<in>P. known p db)"
  then show "I (upd_orders p f db) \<and> (\<forall>q\<in>P. known q (upd_orders p f db))"
    using payment_phases.order_write [OF assms, of db p f]
    by (auto simp: upd_orders_def known_def)
next
  fix p f db assume step: "\<And>a. p a \<Longrightarrow> lease_next a (f a)" and "I db \<and> (\<forall>p\<in>P. known p db)"
    and "no_conflict attempt_conflict (db_codeAttempts (upd_attempts p f db))"
  then show "I (upd_attempts p f db) \<and> (\<forall>q\<in>P. known q (upd_attempts p f db))"
    using payment_phases.attempt_write [OF assms, of p f db]
    by (auto simp: upd_attempts_def known_def)
next
  fix a db db' assume "I db \<and> (\<forall>p\<in>P. known p db)" "insert_attempt_row a db = Inr db'"
    "ca_id a = db_next db" "ca_paymentId a < db_next db" "\<forall>p\<in>set (db_payments db). attempt_charges a p"
  then show "I db' \<and> (\<forall>p\<in>P. known p db')"
    using payment_phases.attempt_insert [OF assms] insert_attempt_payments by (auto simp: known_def)
next
  fix e ord i q why db db'
  assume "I db \<and> (\<forall>p\<in>P. known p db)" "releaseReservation e ord None i q why db = Inr db'"
  then show "I db' \<and> (\<forall>p\<in>P. known p db')"
    using payment_phases.release [OF assms] release_core known_core by blast
next
  fix e ord db cs db'
  assume "I db \<and> (\<forall>p\<in>P. known p db)" "createPendingDispatchCommands e ord db = Inr (cs, db')"
  then show "I db' \<and> (\<forall>p\<in>P. known p db')"
    using payment_phases.commands [OF assms] outside_payments [OF create_commands_outside]
    by (auto simp: known_def)
next
  fix e pub ord db
  assume "I db \<and> (\<forall>p\<in>P. known p db)"
  then show "I (fst (dispatchPendingCommandsForOrder e pub ord db)) \<and>
      (\<forall>p\<in>P. known p (fst (dispatchPendingCommandsForOrder e pub ord db)))"
    using payment_phases.publish [OF assms] outside_payments [OF publish_outside]
    by (auto simp: known_def)
next
  fix e input mid t sel cfg db d db'
  assume "I db \<and> (\<forall>p\<in>P. known p db)"
    and run: "createLocalMachineOrderDraft e input mid t sel cfg db = Inr (d, db')"
  then show "I db' \<and> (\<forall>p\<in>P. known p db')"
    using payment_phases.draft [OF assms _ run] draft_payments [OF run] by (auto simp: known_def)
qed

end
