(* ===== verification/Payment_Keeps.thy ===== *)
theory Payment_Keeps
  imports Payment_Phases
begin

text \<open>
  The contract of \<open>Payment_Phases\<close> carried through the operations: the jobs and polls that ask the
  provider, the webhooks, the code worker, the creation of orders, the status a machine reads and
  the cancellation of an order.
\<close>

context payment_phases begin

subsection \<open>Jobs\<close>

lemma known_own: "I db \<Longrightarrow> known p db \<Longrightarrow> names_order (p_id p) (p_orderId p) db"
  by (rule known_names [OF linked])

lemma wake_keeps: "I db \<Longrightarrow> I (wake_attempt e i db)"
  by (auto simp: wake_attempt_def lease_next_def intro!: attempt_quiet)

lemma wake_all_keeps: "I db \<Longrightarrow> I (wake_payment_attempts e i db)"
  by (auto simp: wake_payment_attempts_def lease_next_def intro!: attempt_quiet)

lemma cancel_created_keeps: "I db \<Longrightarrow> I (snd (cancel_created_attempt e i code msg db))"
  by (auto simp: cancel_created_attempt_def lease_next_def intro!: attempt_quiet)

lemma expire_order_keeps: "I db \<Longrightarrow> I (expire_order e x db)"
  by (auto simp: expire_order_def order_next_def order_projected_def projectOrderStatus_def
      intro!: order_write)

lemma expire_write:
  "I db \<Longrightarrow> I (upd_payments (\<lambda>q. p_id q = i \<and> p_status q \<in> set PROVIDER_MUTABLE_PAYMENT_STATUSES)
     (\<lambda>q. q\<lparr>p_status := PayExpired, p_updatedAt := t\<rparr>) db)"
  by (rule pay_write) (auto simp: payment_next_def settled_def PROVIDER_MUTABLE_PAYMENT_STATUSES_def)

lemma expire_locally_keeps:
  assumes ok: "I db" and run: "expire_locally e payment db = Inr (b, db')"
  shows "I db'"
proof (cases "locked_payment payment db")
  case (Some px)
  obtain p x where px: "px = (p, x)" by (cases px)
  define db1 where "db1 = (case active_attempt (p_id payment) db of None \<Rightarrow> db
      | Some a \<Rightarrow> snd (cancel_created_attempt e (ca_id a) ''PAYMENT_CODE_EXPIRED_BEFORE_SUBMISSION''
          MsgCodeExpiredBeforeSubmission db))"
  have ok1: "I db1" using ok by (simp add: db1_def cancel_created_keeps split: option.split)
  note run' = run [unfolded expire_locally_def Some px option.case prod.case Let_def db1_def [symmetric]]
  from run' ok ok1 show ?thesis
    by (auto simp: bindR_eq_Inr split: if_split_asm prod.split_asm bool.split_asm
        dest!: event_keeps [OF expire_write [OF ok1]] dest: release_all_keeps [OF expire_order_keeps])
qed (use run ok in \<open>simp add: expire_locally_def\<close>)

lemma expiry_failure_keeps: "I db \<Longrightarrow> I (record_expiry_failure e p msg db)"
  by (auto simp: record_expiry_failure_def Let_def)

lemma compensation_attempt_keeps: "I db \<Longrightarrow> I (recordExpireCompensationAttempt e p r t db)"
  by (auto simp: recordExpireCompensationAttempt_def)

lemma compensation_attempt_known: "known p db \<Longrightarrow> known p (recordExpireCompensationAttempt e q r t db)"
  by (auto simp: recordExpireCompensationAttempt_def elim!: known_log)

lemma expiry_success_keeps:
  assumes "I db" and "known p db"
  shows "I (fst (expiry_success e pub p r db))"
  unfolding expiry_success_def
  by (rule bindS_keeps, rule update_keeps)
    (auto simp: assms compensation_attempt_keeps publish_quietly_keeps
      intro!: known_own compensation_attempt_known)

lemma query_before_close_keeps:
  assumes ok: "I db" and "known p db"
  shows "I (fst (query_before_close e pub provider cfg p db))"
  using expiry_success_keeps [OF assms, of e pub]
  by (auto simp: query_before_close_def ok compensation_attempt_keeps split: sum.split prod.split)
    (metis fst_conv)+

lemma ask_provider_keeps:
  assumes "I db" and "known p db"
  shows "I (fst (ask_provider e pub pp cfg p db))"
  using query_before_close_keeps [OF assms, of e pub]
  by (auto simp: ask_provider_def assms split: option.split sum.split prod.split)
    (metis fst_conv expiry_failure_keeps)+

lemma expire_payment_keeps:
  assumes "I db" and "known p db"
  shows "I (fst (expire_payment e pub (p, x, pp) db))"
proof (cases "submitted_attempt p db")
  case None
  obtain db1 r where ask: "ask_provider e pub pp (cs_publicConfig (e_configs e) (p_providerId p)
      (o_machineId x)) p db = (db1, r)" by force
  then have ok1: "I db1" using ask_provider_keeps [OF assms] by (metis fst_conv)
  have "I (fst (atomic (expire_locally e p) db1))"
    by (rule atomic_keeps [where I = I, OF ok1]) (rule expire_locally_keeps [OF ok1])
  then show ?thesis using None ask ok1 by (auto simp: expire_payment_def split: option.split)
qed (simp add: expire_payment_def wake_keeps assms)

text \<open>A job over many payments: what it read stays known while it works.\<close>

lemma job_keeps:
  assumes "I db" and step: "\<And>J x p pp s. payment_phases J \<Longrightarrow> J s \<Longrightarrow> known p s \<Longrightarrow> J (fst (f (p, x, pp) s))"
    and rows: "\<And>p x pp. (p, x, pp) \<in> set rows \<Longrightarrow> p \<in> set (db_payments db)"
  shows "I (fst (promise_all f rows db))"
proof -
  define P where "P = (\<lambda>(p, x, pp). p) ` set rows"
  define J where "J s \<longleftrightarrow> I s \<and> (\<forall>p\<in>P. known p s)" for s
  have pp: "payment_phases J"
    unfolding J_def [abs_def] by (rule payment_phases_known [OF payment_phases_axioms])
  have "J db" using assms(1) rows by (fastforce simp: J_def P_def)
  then have "J (fst (promise_all f rows db))"
  proof (rule promise_all_invariant [rotated])
    fix row s assume row: "row \<in> set rows" and "J s"
    obtain p x p2 where "row = (p, x, p2)" by (cases row)
    moreover have "known p s" if "row = (p, x, p2)" for p x p2
      using \<open>J s\<close> row that by (force simp: J_def P_def)
    ultimately show "J (fst (f row s))" using step [OF pp \<open>J s\<close>] by blast
  qed
  then show ?thesis by (simp add: J_def)
qed

end

context payment_phases begin

lemma expiry_job_keeps: "I db \<Longrightarrow> I (fst (expireOverduePayments e pub db))"
  unfolding expireOverduePayments_def
  by (rule bindS_keeps, rule job_keeps)
    (auto dest: payment_joins_member intro: payment_phases.expire_payment_keeps)

lemma attempt_writes_keep:
  "I db \<Longrightarrow> I (finish_attempt e i st r t db)"
  "I db \<Longrightarrow> I (fail_attempt e i msg t db)"
  by (auto simp: finish_attempt_def fail_attempt_def)

lemma attempt_writes_known:
  "known p db \<Longrightarrow> known p (insert_payment_attempt a db)"
  "known p db \<Longrightarrow> known p (finish_attempt e i st r t db)"
  by (auto simp: finish_attempt_def elim!: known_log)

lemma reconcile_update_keeps:
  assumes "I db" and "known p db"
  shows "I (fst (atomic (applyPaymentStatusUpdate e (reconcile_update e src p r g)) db))"
    and "I (fst (atomic (applyPaymentStatusUpdate e ((reconcile_update e src p r g)
           \<lparr>tt_allowIncidentLockedResolution := b\<rparr>)) db))"
  using assms by (auto intro!: update_keeps known_own simp: reconcile_update_def)

lemma reconcile_answer_keeps:
  assumes "I db" and "known p db"
  shows "I (fst (reconcile_answer e pub p i n r db))"
  using reconcile_update_keeps(1) [OF assms, of e "''reconcile''" r None] assms(1)
  by (auto simp: reconcile_answer_def Let_def split: sum.split prod.split
      intro!: publish_quietly_keeps attempt_writes_keep)

lemma reconcile_payment_keeps:
  assumes "I db" and "known p db"
  shows "I (fst (reconcile_payment e pub (p, x, pp) db))"
proof -
  have "I (fst (reconcile_answer e pub p i n r (insert_payment_attempt a db)))" for i n r a
    using assms by (auto intro!: reconcile_answer_keeps attempt_writes_known)
  then show ?thesis
    using assms by (auto simp: reconcile_payment_def Let_def split_beta split: option.split sum.split
        intro!: attempt_writes_keep)
qed

lemma reconcile_job_keeps: "I db \<Longrightarrow> I (fst (reconcilePendingPayments e pub db))"
  unfolding reconcilePendingPayments_def
  by (rule bindS_keeps, rule job_keeps)
    (auto dest!: in_set_takeD dest: payment_joins_member intro: payment_phases.reconcile_payment_keeps)

subsection \<open>The poll\<close>

lemma quiet_payment:
  assumes "I db" and "\<And>q. c q \<Longrightarrow> payment_identity (f q) = payment_identity q \<and>
    (settled (p_status q) \<longrightarrow> p_status (f q) = p_status q)"
  shows "I (upd_payments c f db)"
  by (rule pay_write [OF _ assms(1)]) (use assms(2) in \<open>auto simp: payment_next_def\<close>)

lemma take_poll_lease_keeps: "I db \<Longrightarrow> I (snd (take_poll_lease e i db))"
  unfolding take_poll_lease_def Let_def
  by (cases "List.find (leasable e i) (db_payments db)") (auto intro!: quiet_payment)

lemma take_poll_lease_known:
  assumes "known p db"
  shows "known p (snd (take_poll_lease e i db))"
proof -
  have "known p (db\<lparr>db_next := Suc (db_next db)\<rparr>)" by (rule known_same [OF assms]) simp
  then show ?thesis
    by (cases "List.find (leasable e i) (db_payments db)")
      (simp_all add: take_poll_lease_def Let_def known_upd)
qed

lemma poll_failed_keeps: "I db \<Longrightarrow> I (poll_failed e i l j msg db)"
  by (auto simp: poll_failed_def drop_intent_lease_def intro!: quiet_payment attempt_writes_keep)

lemma poll_still_open_keeps: "I db \<Longrightarrow> I (fst (poll_still_open e p l i r db))"
  by (auto simp: poll_still_open_def Let_def drop_intent_lease_def poll_pending_row_def settled_def
      intro!: quiet_payment attempt_writes_keep)

lemma poll_settled_keeps:
  assumes "I db" and "known p db"
  shows "I (fst (poll_settled e pub p l i r db))"
  unfolding poll_settled_def
  by (rule bindS_keeps, rule reconcile_update_keeps [OF assms])
    (auto simp: Let_def intro!: publish_quietly_keeps attempt_writes_keep)

lemma poll_with_lease_keeps:
  assumes "I db" and "known p db"
  shows "I (fst (poll_with_lease e pub p provider l db))"
proof -
  have "I (fst (poll_settled e pub p l i r (insert_payment_attempt a db)))" for i r a
    using assms by (auto intro!: poll_settled_keeps attempt_writes_known)
  then show ?thesis
    using assms by (auto simp: poll_with_lease_def Let_def split_beta split: sum.split
        intro!: poll_failed_keeps poll_still_open_keeps)
qed

lemma poll_keeps: "I db \<Longrightarrow> I (fst (reconcilePendingPaymentOnRead e pub i db))"
proof (cases "payment_context i db")
  case (Some row)
  assume ok: "I db"
  obtain p x pp where row: "row = (p, x, pp)" by (cases row)
  obtain l db1 where lease: "take_poll_lease e i db = (l, db1)" by force
  have "known p db" using payment_context_SomeD [OF Some [unfolded row]] by simp
  then have ok1: "I db1" "known p db1"
    using take_poll_lease_keeps [OF ok, of e i] take_poll_lease_known [of p db e i] lease by simp_all
  then show ?thesis using ok
    by (auto simp: reconcilePendingPaymentOnRead_def Some row lease poll_with_lease_keeps
        split: option.split)
qed (simp add: reconcilePendingPaymentOnRead_def)

end

subsection \<open>The code worker\<close>

lemma names_order_payments:
  "db_payments db' = db_payments db \<Longrightarrow> names_order i j db' = names_order i j db"
  by (simp add: names_order_def)

lemma names_order_attempts [simp]: "names_order i j (upd_attempts p f db) = names_order i j db"
  by (rule names_order_payments) (simp add: upd_attempts_def)

text \<open>A claim is a row of the table: it names the order of its payment.\<close>

abbreviation claim_named :: "code_attempt_row \<Rightarrow> db \<Rightarrow> bool" where
  "claim_named c db \<equiv> names_order (ca_paymentId c) (ca_orderId c) db"

lemma attempt_named: "links_ok db \<Longrightarrow> a \<in> set (db_codeAttempts db) \<Longrightarrow> claim_named a db"
  by (auto simp: links_ok_def names_order_def attempt_charges_def)

lemma update_named:
  assumes "update_attempt p f db = (Some c, db')" and "links_ok db"
    and "\<And>a. attempt_identity (f a) = attempt_identity a"
  shows "claim_named c db'"
proof -
  obtain a where "a \<in> set (db_codeAttempts db)" "c = f a" "db' = upd_attempts p f db"
    using assms(1) by (auto simp: update_attempt_def dest: find_SomeD)
  then show ?thesis using attempt_named [OF assms(2), of a] assms(3) [of a]
    by (simp add: attempt_identity_def)
qed

lemma as_claim_Some: "as_claim r = (Some c, db') \<Longrightarrow> r = (Some c, db')"
  by (cases r) (auto simp: as_claim_def split: option.split_asm if_split_asm)

lemma take_lease_identity [simp]: "attempt_identity (take_lease w now t a) = attempt_identity a"
  by (simp add: take_lease_def)

lemma claims_named:
  assumes "links_ok db"
  shows "claimSubmission e i w t db = (Some c, db') \<Longrightarrow> claim_named c db'"
    and "claimRecoveryAttemptById i w now t db = (Some c, db') \<Longrightarrow> claim_named c db'"
    and "claimNextDueRecoveryAttempt w now t db = (Some c, db') \<Longrightarrow> claim_named c db'"
    and "plain_patch g \<Longrightarrow> beginReversal e claim g db = (Some c, db') \<Longrightarrow> claim_named c db'"
  using assms
  by (auto simp: claimSubmission_def claimRecoveryAttemptById_def claimNextDueRecoveryAttempt_def
      beginReversal_def plain_patch_def split: option.split_asm if_split_asm
      dest!: as_claim_Some intro: update_named)

lemma plain_patches [simp]:
  "plain_patch (providerPatch e r)" "plain_patch (unknown_patch e msg)" "plain_patch (reverse_patch e r)"
  "plain_patch (terminal_patch e r k)" "plain_patch (not_admitted e)" "plain_patch (failed_charge e cr)"
  "plain_patch (\<lambda>a. a\<lparr>ca_finishedAt := t\<rparr>)"
  "plain_patch (\<lambda>a. a\<lparr>ca_failureCode := c, ca_failureMessage := m, ca_finishedAt := t\<rparr>)"
  by (simp_all add: plain_patch_def providerPatch_def unknown_patch_def reverse_patch_def
      terminal_patch_def not_admitted_def failed_charge_def)

context payment_phases begin

lemma begin_reversal_keeps:
  assumes ok: "I db" and g: "plain_patch g" and active: "\<And>a. ca_isActive (g a) \<Longrightarrow> ca_isActive a"
  shows "I (snd (beginReversal e claim g db))"
proof (cases "attempt_context (ca_id claim) db")
  case (Some row)
  have "I (upd_attempts (recoveryLeaseConditions e claim)
      (\<lambda>c. (g c)\<lparr>ca_status := CaReversing, ca_recoveryNextAt := Some (e_now e), ca_updatedAt := e_now e\<rparr>) db)"
    by (rule attempt_quiet [OF ok]) (use g active in \<open>auto simp: lease_next_def plain_patch_def\<close>)
  then show ?thesis using ok Some by (cases row) (simp add: beginReversal_def)
qed (simp add: beginReversal_def ok)

lemma mark_manual_keeps: "I db \<Longrightarrow> I (fst (mark_manual e claim why db))"
  by (auto simp: mark_manual_def split: option.split
      intro!: bindS_keeps [where I = I] atomic_keeps [where I = I] elim: mark_manual_tx_keeps)

lemma release_atomic_keeps:
  "I db \<Longrightarrow> plain_patch g \<Longrightarrow> I (fst (atomic (releaseRecoveryClaim e claim st t g) db))"
  by (rule atomic_keeps) (auto elim: release_claim_keeps)

lemma defer_keeps: "I db \<Longrightarrow> plain_patch g \<Longrightarrow> I (fst (deferRecovery e claim u msg g d db))"
  by (auto simp: deferRecovery_def Let_def mark_manual_keeps
      intro!: bindS_keeps [where I = I] release_atomic_keeps plain_patch_comp)

lemma defer_error_keeps: "I db \<Longrightarrow> I (fst (defer_error e claim msg db))"
  by (simp add: defer_error_def defer_keeps)

lemma release_quietly_keeps: "I db \<Longrightarrow> plain_patch g \<Longrightarrow> I (fst (release_quietly e claim st g db))"
  by (auto simp: release_quietly_def intro!: bindS_keeps [where I = I] release_atomic_keeps)

lemma call_keeps:
  assumes "I db" and "callWithRenewedLease e claim answer db = (db', r)"
  shows "I db'" and "names_order i j db' = names_order i j db"
  using assms renew_keeps [OF assms(1), of e claim RECOVERY_LEASE_MS]
  by (auto simp: callWithRenewedLease_def renewRecoveryClaim_def update_attempt_def split_beta Let_def)

lemma terminal_result_keeps:
  "I db \<Longrightarrow> claim_named claim db \<Longrightarrow> I (fst (applyProviderTerminalResult e pub claim cx r k db))"
  by (auto simp: applyProviderTerminalResult_def terminal_result_def split: option.split
      intro!: bindS_keeps [where I = I] code_result_keeps)

lemma apply_reversal_keeps:
  "I db \<Longrightarrow> claim_named claim db \<Longrightarrow> I (fst (apply_reversal e pub claim cx cfg answer db))"
  by (auto simp: apply_reversal_def defer_error_keeps terminal_result_keeps defer_keeps split: sum.split)

lemma reverse_after_query_keeps:
  assumes ok: "I db"
  shows "I (fst (reverseAfterQuery e pub provider claim cx cfg q db))"
proof -
  obtain c db1 where c: "beginReversal e claim (providerPatch e (to_code_answer q)) db = (c, db1)" by force
  moreover have "I (snd (beginReversal e claim (providerPatch e (to_code_answer q)) db))"
    by (rule begin_reversal_keeps [OF ok]) (simp_all add: providerPatch_def)
  ultimately have ok1: "I db1" by simp
  show ?thesis
  proof (cases c)
    case (Some rc)
    have "claim_named rc db1" using claims_named(4) [OF linked [OF ok] plain_patches(1)] c Some by blast
    moreover obtain db2 answer where call: "callWithRenewedLease e rc (cp_reverse provider
        (code_query_input rc (case cd_providerTradeNo q of Some n \<Rightarrow> Some n
           | None \<Rightarrow> ca_providerTradeNo (rx_attempt cx)))) db1 = (db2, answer)" by force
    ultimately show ?thesis using call_keeps [OF ok1 call]
      by (simp add: reverseAfterQuery_def c Some apply_reversal_keeps)
  qed (simp add: reverseAfterQuery_def c ok1)
qed

lemma apply_query_keeps:
  "I db \<Longrightarrow> claim_named claim db \<Longrightarrow> I (fst (apply_query e pub provider claim cx cfg answer db))"
  by (auto simp: apply_query_def defer_error_keeps terminal_result_keeps defer_keeps
      reverse_after_query_keeps split: sum.split)

lemma query_keeps:
  "I db \<Longrightarrow> claim_named claim db \<Longrightarrow> I (fst (queryAndResolve e pub claim cx cfg db))"
  by (auto simp: queryAndResolve_def call_keeps split: sum.split prod.split intro!: apply_query_keeps)

lemma recover_keeps: "I db \<Longrightarrow> claim_named claim db \<Longrightarrow> I (fst (recoverClaim e pub claim db))"
  by (auto simp: recoverClaim_def Let_def release_quietly_keeps mark_manual_keeps defer_error_keeps
      query_keeps split: sum.split)

lemma owner_token_keeps: "I db \<Longrightarrow> I (snd (owner_token e db))"
  by (auto simp: owner_token_def)

lemma batch_keeps: "I db \<Longrightarrow> I (fst (reconcileBatch e pub n k db))"
proof (induction n arbitrary: k db)
  case (Suc n)
  obtain w db0 where w: "owner_token e db = (w, db0)" by force
  have ok0: "I db0" using owner_token_keeps [OF Suc.prems, of e] by (simp add: w)
  obtain c db1 where c: "claimNextDueRecoveryAttempt w (e_now e) RECOVERY_LEASE_MS db0 = (c, db1)" by force
  have ok1: "I db1" using claim_next_keeps [OF ok0] c by (metis snd_conv)
  show ?case
  proof (cases c)
    case (Some claim)
    have "claim_named claim db1" using claims_named(3) [OF linked [OF ok0]] c Some by blast
    then show ?thesis
      by (auto simp: w c Some intro!: bindS_keeps [where I = I] recover_keeps ok1 Suc.IH)
  qed (simp add: w c ok1)
qed simp

lemma due_attempts_keep: "I db \<Longrightarrow> I (fst (reconcileDueAttempts e pub db))"
  by (simp add: reconcileDueAttempts_def batch_keeps)

lemma process_now_keeps:
  assumes "I db"
  shows "I (fst (processAttemptNow e pub i db))"
proof -
  obtain w db0 where w: "owner_token e db = (w, db0)" by force
  have ok0: "I db0" using owner_token_keeps [OF assms, of e] by (simp add: w)
  obtain c db1 where c: "claimRecoveryAttemptById i w (e_now e) RECOVERY_LEASE_MS db0 = (c, db1)" by force
  have ok1: "I db1" using claim_recovery_keeps [OF ok0] c by (metis snd_conv)
  show ?thesis
  proof (cases c)
    case (Some claim)
    have "claim_named claim db1" using claims_named(2) [OF linked [OF ok0]] c Some by blast
    then show ?thesis
      by (auto simp: processAttemptNow_def w c Some read_attempt_def
          intro!: bindS_keeps [where I = I] recover_keeps ok1)
  qed (simp add: processAttemptNow_def w c ok1 read_attempt_def)
qed

lemma manual_action_keeps: "I db \<Longrightarrow> I (fst (requestManualAction e pub i st why db))"
  by (auto simp: requestManualAction_def intro!: bindS_keeps [where I = I] atomic_keeps [where I = I]
      process_now_keeps elim: request_action_keeps)

subsection \<open>Submission\<close>

lemma admission_failed_keeps: "I db \<Longrightarrow> I (fst (admission_failed e i err db))"
  unfolding admission_failed_def markStatusIfCurrentStatusIn_def
  by (rule bindS_keeps, rule atomic_keeps) (auto elim: mark_status_keeps)

lemma charge_result_keeps:
  "I db \<Longrightarrow> claim_named claim db \<Longrightarrow> I (fst (applyChargeResult e pub claim cx cfg r db))"
  unfolding applyChargeResult_def
  by (rule bindS_keeps) (auto simp: terminal_result_keeps release_quietly_keeps defer_keeps read_attempt_def)

lemma charge_keeps:
  "I db \<Longrightarrow> claim_named claim db \<Longrightarrow> I (fst (charge e pub cx cfg code claim db))"
  by (auto simp: charge_def call_keeps read_attempt_def split: sum.split prod.split
      intro!: charge_result_keeps defer_error_keeps bindS_keeps [where I = I])

lemma submit_attempt_keeps:
  assumes "I db"
  shows "I (fst (submitAttempt e pub i code db))"
proof -
  obtain w db0 where w: "owner_token e db = (w, db0)" by force
  have ok0: "I db0" using owner_token_keeps [OF assms, of e] by (simp add: w)
  obtain c db1 where c: "claimSubmission e i w RECOVERY_LEASE_MS db0 = (c, db1)" by force
  have ok1: "I db1" using claim_submission_keeps [OF ok0] c by (metis snd_conv)
  have "claim_named claim db1" if "c = Some claim" for claim
    using claims_named(1) [OF linked [OF ok0]] c that by blast
  then show ?thesis using ok1 assms
    by (auto simp: submitAttempt_def w c read_attempt_def admission_failed_keeps charge_keeps
        split: sum.split option.split)
qed

lemma submit_keeps: "I db \<Longrightarrow> I (fst (submit e pub input db))"
  by (auto simp: submit_def intro!: bindS_keeps [where I = I] atomic_keeps [where I = I]
      submit_attempt_keeps elim: create_attempt_keeps)

end

subsection \<open>Webhooks\<close>

context payment_phases begin

lemma webhook_transition_fields [simp]:
  "tt_paymentId (webhook_transition w p s) = p_id p" "tt_orderId (webhook_transition w p s) = p_orderId p"
  "tt_paymentCodeAttempt (webhook_transition w p s) = None"
  by (simp_all add: webhook_transition_def)

lemma valid_webhook_keeps:
  assumes ok: "I db" and known: "known p db"
  shows "I (fst (valid_webhook e pub w p db))"
proof -
  have "I (fst (atomic (transitionProviderPaymentTerminal e (webhook_transition w p s)) db))" for s
    by (rule atomic_keeps [where I = I, OF ok]) (auto elim!: transition_keeps [OF ok, rotated -1]
        intro: known_own [OF ok known])
  then show ?thesis
    by (auto simp: valid_webhook_def Let_def wake_all_keeps ok publish split: prod.split
        intro!: bindS_keeps [where I = I] dest: event_keeps [OF ok])
qed

lemma payment_webhook_keeps:
  assumes ok: "I db"
  shows "I (fst (handlePaymentWebhook e pub code w db))"
proof (cases "if present (pw_paymentNo w)
            then payment_joins (\<lambda>p x pp. Some (p_paymentNo p) = pw_paymentNo w \<and> pp_code pp = code) db
            else []")
  case (Cons row rows)
  obtain p x pp where row: "row = (p, x, pp)" by (cases row)
  have "row \<in> set (payment_joins (\<lambda>p x pp. Some (p_paymentNo p) = pw_paymentNo w \<and> pp_code pp = code) db)"
    using Cons by (auto split: if_splits)
  then have "known p db" using row payment_joins_member by auto
  then show ?thesis using ok
    unfolding handlePaymentWebhook_def Cons row list.case prod.case
    by (auto simp: valid_webhook_keeps split: option.split prod.split dest: event_keeps)
qed (unfold handlePaymentWebhook_def, simp add: ok)

subsection \<open>Payment intents\<close>

lemma claim_intent_keeps: "I db \<Longrightarrow> I (snd (claim_intent e i db))"
proof -
  assume "I db"
  then have ok: "I (db\<lparr>db_next := Suc (db_next db)\<rparr>)" by (rule log_keeps)
  show ?thesis
    unfolding claim_intent_def owner_token_def prod.case
    by (cases "List.find (claimable_intent e i) (db_payments (db\<lparr>db_next := Suc (db_next db)\<rparr>))")
      (use ok in \<open>auto intro!: quiet_payment\<close>)
qed

lemma owned_open: "owned_intent e i l p \<Longrightarrow> \<not> settled (p_status p)"
  by (auto simp: owned_intent_def settled_def)

lemma intent_uncertain_keeps: "I db \<Longrightarrow> I (markPaymentCreationUncertain e d msg l db)"
  unfolding markPaymentCreationUncertain_def
  by (rule quiet_payment) (auto simp: drop_intent_lease_def dest: owned_open)

lemma persist_keeps: "I db \<Longrightarrow> I (fst (persist_intent e d l r db))"
  by (auto simp: persist_intent_def Let_def drop_intent_lease_def dest: owned_open intro!: quiet_payment)

lemma cancel_created_payment_keeps:
  assumes ok: "I db" and run: "cancelLocalCreatedPayment e d why msg l db = Inr (u, db')"
  shows "I db'"
proof -
  have ok1: "I (upd_payments (owned_intent e (ld_paymentId d) l)
      (\<lambda>p. (drop_intent_lease p)\<lparr>p_status := PayFailed, p_failedReason := Some why,
         p_updatedAt := e_now e\<rparr>) db)"
    by (rule quiet_payment [OF ok]) (auto simp: drop_intent_lease_def dest: owned_open)
  have ok2: "I (upd_orders (\<lambda>y. o_id y = ld_orderId d)
      (\<lambda>y. y\<lparr>o_status := OsCanceled, o_paymentState := PsPaymentFailed,
         o_fulfillmentState := FsCanceled, o_canceledAt := Some (e_now e), o_updatedAt := e_now e\<rparr>) d1)"
    if "I d1" for d1
    by (rule order_write [OF _ that]) (simp add: order_next_def order_projected_def projectOrderStatus_def)
  have rel: "I s'" if "foldR (\<lambda>(i, q). releaseReservation e (ld_orderId d) None i q ''payment_failed'')
      rs s = Inr s'" "I s" for rs s s'
    by (rule foldR_invariant [OF that(1), of I]) (use that(2) in \<open>auto elim: release\<close>)
  show ?thesis
    using run ok unfolding cancelLocalCreatedPayment_def Let_def
    by (auto simp: bindR_eq_Inr split: if_split_asm option.split_asm elim!: rel
        intro!: log_keeps ok2 ok1)
qed

lemma intent_failed_keeps: "I db \<Longrightarrow> I (fst (intent_failed e d l failure db))"
  by (cases failure) (auto simp: intent_failed_def intent_uncertain_keeps
      intro!: bindS_keeps [where I = I] atomic_keeps [where I = I] elim: cancel_created_payment_keeps)

lemma claim_and_persist_keeps:
  assumes "I db"
  shows "I (fst (claimAndPersistPaymentIntent e d db))"
proof -
  obtain l db1 where c: "claim_intent e (ld_paymentId d) db = (l, db1)" by force
  then have "I db1" using claim_intent_keeps [OF assms] by (metis snd_conv)
  then show ?thesis
    using persist_keeps [of db1] intent_failed_keeps [of db1]
    by (auto simp: claimAndPersistPaymentIntent_def c split: option.split sum.split prod.split)
      (metis fst_conv)
qed

lemma recreate_keeps: "I db \<Longrightarrow> I (fst (recreate_intent e d p db))"
  by (auto simp: recreate_intent_def split: sum.split
      intro!: bindS_keeps [where I = I] claim_and_persist_keeps)

lemma claim_retry_keeps: "I db \<Longrightarrow> I (snd (claimReconciledPaymentForIntentCreation e i db))"
  by (auto simp: claimReconciledPaymentForIntentCreation_def retry_row_def settled_def
      drop_intent_lease_def intro!: quiet_payment)

lemma claim_and_recreate_keeps: "I db \<Longrightarrow> I (fst (claim_and_recreate e d p db))"
  using claim_retry_keeps [of db e "p_id p"]
  by (auto simp: claim_and_recreate_def recreate_keeps split: prod.split)

lemma restore_keeps: "I db \<Longrightarrow> I (fst (restorePaymentCreation e pub d p db))"
  by (auto simp: restorePaymentCreation_def claim_and_recreate_keeps recreate_keeps
      intro!: bindS_keeps [where I = I] poll_keeps)

lemma replay_keeps: "I db \<Longrightarrow> I (fst (replay_or_throw e pub mid key err db))"
  by (auto simp: replay_or_throw_def restore_keeps split: option.split)

lemma open_payment_keeps:
  assumes "I db" and "\<And>q. q \<in> set (db_payments db) \<Longrightarrow> p_id q = ld_paymentId d \<Longrightarrow> \<not> settled (p_status q)"
  shows "I (fst (open_payment e pub mid key d how db))"
proof (cases "how = PmPaymentCode")
  case True
  have "I (upd_payments (\<lambda>p. p_id p = ld_paymentId d) (\<lambda>p. p\<lparr>p_status := PayPending,
      p_expiresAt := Some (ld_expiresAt d), p_updatedAt := e_now e\<rparr>) db)"
    by (rule pay_write [OF _ assms(1)]) (use assms(2) in \<open>auto simp: payment_next_def\<close>)
  then show ?thesis using True by (simp add: open_payment_def open_code_payment_def)
next
  case False
  then show ?thesis using claim_and_persist_keeps [OF assms(1), of e d]
    by (auto simp: open_payment_def replay_keeps split: prod.split sum.split)
qed

lemma create_order_keeps:
  assumes ok: "I db"
  shows "I (fst (createMachineOrder e pub input db))"
proof (cases "List.find (\<lambda>m. m_code m = co_machineCode input \<and> m_deletedAt m = None) (db_machines db)")
  case (Some m)
  have open_draft: "I (fst (open_payment e pub mid key d how db1))"
    if run: "createLocalMachineOrderDraft e input mid2 t sel cfg db = Inr (d, db1)"
    for mid key d how db1 mid2 t sel cfg
    by (rule open_payment_keeps [OF draft [OF ok run]]) (rule draft_open [OF linked [OF ok] run])
  show ?thesis
    unfolding createMachineOrder_def Some option.case
    by (auto simp: ok restore_keeps replay_keeps open_draft atomic_def
        split: option.split sum.split prod.split)
qed (simp add: createMachineOrder_def ok)

subsection \<open>Status and cancellation\<close>

lemma status_keeps: "I db \<Longrightarrow> I (fst (getMachineOrderStatus e pub no code db))"
  by (auto simp: getMachineOrderStatus_def refresh_waiting_def Let_def poll_keeps
      split: option.split prod.split)

lemma close_canceled_keeps:
  assumes ok: "I db" and run: "close_canceled_order e x p db = Inr (r, db')"
  shows "I db'"
proof -
  define db1 where "db1 = snd (record_payment_event (payment_event e (p_id p) (p_providerId p)
      ''payment.machine_canceled'' (''machine_cancel:'' @ p_paymentNo p) True) db)"
  have ok1: "I db1" using ok by (auto simp: db1_def)
  have ok2: "I (upd_payments (cancelable_payment i d1) (\<lambda>q. q\<lparr>p_status := PayCanceled,
      p_failedReason := None, p_updatedAt := t\<rparr>) db1)" for i d1 t
    by (rule quiet_payment [OF ok1]) (auto simp: cancelable_payment_def settled_def)
  have ok3: "I (upd_orders (cancelable_order i) (\<lambda>y. y\<lparr>o_status := OsCanceled, o_paymentState := PsCanceled,
      o_fulfillmentState := FsCanceled, o_canceledAt := t, o_updatedAt := t2\<rparr>) d)" if "I d" for d i t t2
    by (rule order_write [OF _ that]) (simp add: order_next_def order_projected_def projectOrderStatus_def)
  show ?thesis
    using run unfolding close_canceled_order_def Let_def db1_def [symmetric]
    by (auto simp: bindR_eq_Inr split: if_split_asm elim!: release_all_keeps [rotated]
        intro!: log_keeps ok3 ok2)
qed

lemma reversal_keeps: "I db \<Longrightarrow> schedule_reversal e p a db = Inr (r, db') \<Longrightarrow> I db'"
  by (auto simp: schedule_reversal_def intro!: quiet_payment wake_keeps)

lemma cancel_tx_keeps:
  assumes ok: "I db" and run: "cancel_tx e x p db = Inr (r, db')"
  shows "I db'"
proof -
  have created: "I db1" if "cancel_created_attempt e i code msg db = (c, db1)" for i code msg c db1
    using cancel_created_keeps [OF ok, of e i code msg] that by simp
  show ?thesis
    using run ok unfolding cancel_tx_def
    by (auto simp: bindR_eq_Inr split: option.split_asm if_split_asm prod.split_asm
        elim!: close_canceled_keeps [rotated] reversal_keeps [rotated] dest: created)
qed

lemma cancel_order_keeps:
  assumes "I db"
  shows "I (fst (cancelMachineOrder e pub no code db))"
proof -
  have "I (fst (atomic (cancel_tx e x p) db))" for x p
    by (rule atomic_keeps [where I = I, OF assms]) (rule cancel_tx_keeps [OF assms])
  then show ?thesis using assms
    by (auto simp: cancelMachineOrder_def status_keeps split: option.split prod.split sum.split bool.split
        intro!: bindS_keeps [where I = I])
qed

end

end
