(* ===== verification/Payment_System.thy ===== *)
theory Payment_System
  imports Payment_Keeps
begin

text \<open>
  The shop as one system. The links between orders, payments and code attempts are an invariant of
  the sale operations and satisfy the contract of the payment operations; so does the invariant of
  the sale (\<open>sale_ok\<close>), and both together are kept by every operation of the modelled services,
  those of operators and of the mock endpoints included (\<open>shop_phases\<close>).
\<close>

subsection \<open>Links are kept by the sale\<close>

lemma map_upd_member:
  "(\<And>r. r \<in> set rows \<Longrightarrow> p r \<Longrightarrow> g (f r) = g r) \<Longrightarrow> map g (upd_where p f rows) = map g rows"
  by (induction rows) auto

lemma links_core: "links_ok db \<Longrightarrow> core_frame db db' \<Longrightarrow> links_ok db'"
  by (rule links_ok_identities) (auto simp: core_frame_def core_tables_def)

lemma links_refund_frame: "links_ok db \<Longrightarrow> refund_frame db db' \<Longrightarrow> links_ok db'"
  by (rule links_ok_identities) (auto simp: refund_frame_def sale_tables_def)

lemma links_outside:
  assumes "links_ok db" and "outside_commands db' = outside_commands db" and "db_next db \<le> db_next db'"
  shows "links_ok db'"
  by (rule links_ok_identities [OF assms(1,3)])
    (use arg_cong [OF assms(2), of db_orders] arg_cong [OF assms(2), of db_payments]
       arg_cong [OF assms(2), of db_codeAttempts] in \<open>simp_all add: outside_commands_def\<close>)

lemma links_orders:
  assumes "links_ok db" and "\<And>x. x \<in> set (db_orders db) \<Longrightarrow> p x \<Longrightarrow> order_link (f x) = order_link x"
  shows "links_ok (upd_orders p f db)"
  by (rule links_ok_identities [OF assms(1)])
    (use assms(2) in \<open>simp_all add: upd_orders_def map_upd_member\<close>)

lemma links_order_writes:
  assumes "links_ok db"
  shows "links_ok (set_fulfillment e ord fs why meta t db)"
    and "links_ok (sync_command_lines e ord why meta2 db)"
    and "links_ok (order_to_manual e c db)"
  using assms
  by (auto simp: set_fulfillment_def sync_command_lines_def order_to_manual_def Let_def
      split: option.split intro!: links_ok_frame [OF _ log_frames(3)] links_orders)

interpretation link_core: core_phases links_ok
proof (intro core_phases.intro core_phases_axioms.intro)
  show "refund_phases links_ok" by (rule refund_phases_frame) (rule links_refund_frame)
next
  fix db db' :: db
  assume "links_ok db" "core_frame db db'"
  then show "links_ok db'" by (rule links_core)
next
  fix p f and db :: db assume "links_ok db"
  then show "links_ok (upd_commands p f db)"
    by (rule links_outside) (simp_all add: upd_commands_def outside_commands_def)
next
  fix c and db :: db assume "links_ok db"
  then show "links_ok (db\<lparr>db_commands := db_commands db @ [c], db_next := Suc (db_next db)\<rparr>)"
    by (rule links_outside) (simp_all add: outside_commands_def)
next
  fix e mid m norm hash recon row and db db' :: db
  assume "links_ok db" "insertRawInto e mid m norm hash recon db = Inr (row, db')"
  then obtain rows where "db' = db\<lparr>db_rawMovements := rows, db_next := Suc (db_next db)\<rparr>"
    by (auto simp: insertRawInto_def Let_def split: if_splits)
  with \<open>links_ok db\<close> show "links_ok db'" by (simp add: links_ok_def) (simp add: less_Suc_eq)
qed (rule links_order_writes, assumption)+

subsection \<open>Links and the payment operations\<close>

lemma links_payments:
  assumes "links_ok db"
    and "\<And>q. q \<in> set (db_payments db) \<Longrightarrow> p q \<Longrightarrow> payment_identity (f q) = payment_identity q"
  shows "links_ok (upd_payments p f db)"
  by (rule links_ok_identities [OF assms(1)])
    (use assms(2) in \<open>simp_all add: upd_payments_def map_upd_member\<close>)

lemma links_attempt_write:
  assumes ok: "links_ok db" and step: "\<And>a. p a \<Longrightarrow> lease_next a (f a)"
    and unique: "no_conflict attempt_conflict (db_codeAttempts (upd_attempts p f db))"
  shows "links_ok (upd_attempts p f db)"
proof -
  have same: "attempt_identity (f a) = attempt_identity a" if "p a" for a
    using step [OF that] by (simp add: lease_next_def)
  have "ca_id (f a) = ca_id a" if "p a" for a using same [OF that] by (simp add: attempt_identity_def)
  then have ids: "map ca_id (db_codeAttempts (upd_attempts p f db)) = map ca_id (db_codeAttempts db)"
    by (simp add: upd_attempts_def map_upd_where)
  have from_old: "\<exists>b\<in>set (db_codeAttempts db). attempt_identity a = attempt_identity b"
    if "a \<in> set (db_codeAttempts (upd_attempts p f db))" for a
    using that same by (auto simp: upd_attempts_def set_upd_where)
  have rest: "db_orders (upd_attempts p f db) = db_orders db"
    "db_payments (upd_attempts p f db) = db_payments db" "db_next (upd_attempts p f db) = db_next db"
    by (simp_all add: upd_attempts_def)
  have "ca_id a < db_next db \<and> ca_paymentId a < db_next db \<and>
      (\<forall>q\<in>set (db_payments db). attempt_charges a q)"
    if a: "a \<in> set (db_codeAttempts (upd_attempts p f db))" for a
  proof -
    obtain b where b: "b \<in> set (db_codeAttempts db)" "attempt_identity a = attempt_identity b"
      using from_old [OF a] by blast
    then have "ca_id b < db_next db \<and> ca_paymentId b < db_next db \<and>
        (\<forall>q\<in>set (db_payments db). attempt_charges b q)" using ok by (simp add: links_ok_def)
    then show ?thesis using b(2) by (simp add: attempt_identity_def attempt_charges_def)
  qed
  then show ?thesis using ok unique ids by (simp add: links_ok_def rest)
qed

lemma attempt_conflict_sym: "attempt_conflict a b = attempt_conflict b a"
  by (auto simp: attempt_conflict_def)

lemma links_attempt_insert:
  assumes ok: "links_ok db" and run: "insert_attempt_row a db = Inr db'"
    and key: "ca_id a = db_next db" "ca_paymentId a < db_next db"
    and charges: "\<forall>p\<in>set (db_payments db). attempt_charges a p"
  shows "links_ok db'"
proof -
  from run have db': "db' = db\<lparr>db_codeAttempts := db_codeAttempts db @ [a], db_next := Suc (db_next db)\<rparr>"
    and "\<not> list_ex (attempt_conflict a) (db_codeAttempts db)"
    by (auto simp: insert_attempt_row_def split: if_splits)
  then have "\<not> list_ex (\<lambda>x. attempt_conflict x a) (db_codeAttempts db)"
    by (simp add: list_ex_iff attempt_conflict_sym)
  then have "no_conflict attempt_conflict (db_codeAttempts db @ [a])"
    using ok by (simp add: no_conflict_append links_ok_def)
  moreover have "ca_id a \<notin> ca_id ` set (db_codeAttempts db)" using ok key(1) by (auto simp: links_ok_def)
  ultimately show ?thesis using ok key charges by (auto simp: links_ok_def db' less_Suc_eq)
qed

lemma links_new_order:
  assumes ok: "links_ok db" and run: "insert_order x db = Inr db'"
    and "o_id x = db_next db" "o_paymentId x = None"
  shows "links_ok db'"
proof -
  from run have "db' = db\<lparr>db_orders := db_orders db @ [x], db_next := Suc (db_next db)\<rparr>"
    by (auto simp: insert_order_def split: if_splits)
  moreover have "o_id x \<notin> o_id ` set (db_orders db)" using ok assms(3) by (auto simp: links_ok_def)
  ultimately show ?thesis
    using ok assms(3,4) by (auto simp: links_ok_def order_paid_by_def less_Suc_eq)
qed

lemma links_new_payment:
  assumes ok: "links_ok db" and run: "insert_payment p db = Inr db1"
    and key: "p_id p = db_next db" and x: "x \<in> set (db_orders db)"
    and p: "p_orderId p = o_id x" "p_amountCents p = o_totalAmountCents x"
  shows "links_ok (upd_orders (\<lambda>y. o_id y = o_id x) (\<lambda>y. y\<lparr>o_paymentId := Some (p_id p), o_updatedAt := t\<rparr>) db1)"
    (is "links_ok ?db2")
proof -
  from run have db1: "db1 = db\<lparr>db_payments := db_payments db @ [p], db_next := Suc (db_next db)\<rparr>"
    by (auto simp: insert_payment_def split: if_splits)
  have orders: "db_orders ?db2 = upd_where (\<lambda>y. o_id y = o_id x)
      (\<lambda>y. y\<lparr>o_paymentId := Some (p_id p), o_updatedAt := t\<rparr>) (db_orders db)"
    and rest: "db_payments ?db2 = db_payments db @ [p]" "db_next ?db2 = Suc (db_next db)"
      "db_codeAttempts ?db2 = db_codeAttempts db"
    by (simp_all add: upd_orders_def db1)
  have ids: "map o_id (db_orders ?db2) = map o_id (db_orders db)"
    unfolding orders by (rule map_upd_where) simp
  have fresh: "p_id p \<notin> p_id ` set (db_payments db)" using ok key by (auto simp: links_ok_def)
  have "o_id y < Suc (db_next db) \<and> (\<forall>i. o_paymentId y = Some i \<longrightarrow> i < Suc (db_next db)) \<and>
      (\<forall>q\<in>set (db_payments db @ [p]). order_paid_by y q)" if y: "y \<in> set (db_orders ?db2)" for y
  proof -
    obtain y0 where y0: "y0 \<in> set (db_orders db)" and
      y: "y = (if o_id y0 = o_id x then y0\<lparr>o_paymentId := Some (p_id p), o_updatedAt := t\<rparr> else y0)"
      using y unfolding orders by (auto simp: set_upd_where)
    have old: "o_id y0 < db_next db" "\<forall>i. o_paymentId y0 = Some i \<longrightarrow> i < db_next db"
        "\<forall>q\<in>set (db_payments db). order_paid_by y0 q" "\<forall>q\<in>set (db_payments db). p_id q < db_next db"
      using ok y0 by (auto simp: links_ok_def)
    show ?thesis
    proof (cases "o_id y0 = o_id x")
      case True
      then have "y0 = x" by (rule links_order_unique [OF ok y0 x])
      then show ?thesis using old p key y True by (fastforce simp: order_paid_by_def)
    next
      case False
      then show ?thesis using old key y by (fastforce simp: order_paid_by_def)
    qed
  qed
  moreover have "attempt_charges a p" if "a \<in> set (db_codeAttempts db)" for a
    using ok that key by (auto simp: links_ok_def attempt_charges_def)
  ultimately show ?thesis
    using ok ids fresh key unfolding links_ok_def rest by (auto simp: less_Suc_eq)
qed

subsection \<open>The books\<close>

definition shop_ok :: "command_row list \<Rightarrow> db \<Rightarrow> bool" where
  "shop_ok cs0 db \<longleftrightarrow> sale_ok cs0 db \<and> links_ok db"

lemma sale_phases_conj:
  assumes "sale_phases P" and "sale_phases Q"
  shows "sale_phases (\<lambda>db. P db \<and> Q db)"
proof (intro sale_phases.intro)
  show "refund_phases (\<lambda>db. P db \<and> Q db)"
    using assms by (intro refund_phases_conj) (simp_all add: sale_phases_def)
next
  show "sale_phases_axioms (\<lambda>db. P db \<and> Q db)"
    using assms [unfolded sale_phases_def, THEN conjunct2, unfolded sale_phases_axioms_def]
    unfolding sale_phases_axioms_def
    by (elim conjE; intro conjI allI impI; (elim conjE)?; (intro conjI)?; metis)
qed

lemma shop_ok_parts: "shop_ok cs0 = (\<lambda>db. stock_ok db \<and> orders_sound db \<and> refunds_ok db \<and>
    movement_ids_unique db \<and> commands_since cs0 db \<and> links_ok db)"
  by (rule ext) (auto simp: shop_ok_def sale_ok_def)

lemma shop_sale_phases: "sale_phases (shop_ok cs0)"
  unfolding shop_ok_parts
  by (intro sale_phases_conj stock_machine.sale_phases_axioms order_machine.sale_phases_axioms
      refund_core.sale_phases_axioms movement_core.sale_phases_axioms
      command_machine.sale_phases_axioms link_core.sale_phases_axioms)

text \<open>What the books look at.\<close>

lemma sale_ok_view:
  assumes "sale_ok cs0 db" and "db_orders db' = db_orders db" and "stock_view db' = stock_view db"
    and "refund_view db' = refund_view db" and "movement_keys db' = movement_keys db"
    and "db_commands db' = db_commands db" and "db_next db \<le> db_next db'"
  shows "sale_ok cs0 db'"
  using assms stock_ok_frame [OF _ assms(3,7)] refunds_ok_frame [OF _ assms(4,7)]
    commands_frame [OF _ assms(6,7)]
  by (simp add: sale_ok_def orders_sound_def orders_projected_def movement_ids_unique_def)

lemma sale_ok_log: "sale_ok cs0 db \<Longrightarrow> log_frame db db' \<Longrightarrow> sale_ok cs0 db'"
  by (rule sale_ok_view) (auto simp: log_frameD refund_view_def payment_view_def dest: log_frameD(1))

lemma sale_ok_payments:
  assumes "sale_ok cs0 db"
    and "\<And>q. q \<in> set (db_payments db) \<Longrightarrow> p q \<Longrightarrow> payment_identity (f q) = payment_identity q"
  shows "sale_ok cs0 (upd_payments p f db)"
  by (rule sale_ok_view [OF assms(1)])
    (use assms(2) in \<open>auto simp: upd_payments_def stock_view_def refund_view_def payment_view_def
       movement_keys_def payment_identity_def intro!: map_upd_member\<close>)

lemma sale_ok_orders:
  assumes ok: "sale_ok cs0 db" and "\<And>x. x \<in> set (db_orders db) \<Longrightarrow> p x \<Longrightarrow> o_id (f x) = o_id x"
    and "\<And>x. x \<in> set (db_orders db) \<Longrightarrow> p x \<Longrightarrow> order_projected (f x)"
  shows "sale_ok cs0 (upd_orders p f db)"
proof -
  have "orders_projected (upd_orders p f db)"
    by (rule orders_projected_upd) (use ok assms(3) in \<open>simp_all add: sale_ok_def orders_sound_def\<close>)
  moreover have "map o_id (db_orders (upd_orders p f db)) = map o_id (db_orders db)"
    using assms(2) by (simp add: upd_orders_def map_upd_member)
  moreover have "stock_view (upd_orders p f db) = stock_view db"
    "refund_view (upd_orders p f db) = refund_view db"
    "movement_keys (upd_orders p f db) = movement_keys db"
    by (simp_all add: upd_orders_def stock_view_def refund_view_def payment_view_def movement_keys_def)
  ultimately show ?thesis
    using ok stock_ok_frame [of db "upd_orders p f db"] refunds_ok_frame [of db "upd_orders p f db"]
      commands_frame [of cs0 db "upd_orders p f db"]
    by (simp add: sale_ok_def orders_sound_def movement_ids_unique_def upd_orders_def)
qed

lemma sale_ok_attempts:
  "sale_ok cs0 db \<Longrightarrow> sale_ok cs0 (upd_attempts p f db)"
  "sale_ok cs0 db \<Longrightarrow> insert_attempt_row a db = Inr db' \<Longrightarrow> sale_ok cs0 db'"
  by (auto simp: upd_attempts_def insert_attempt_row_def stock_view_def refund_view_def payment_view_def
      movement_keys_def split: if_splits elim!: sale_ok_view)

lemma shop_orders:
  assumes "shop_ok cs0 db" and "\<And>x. x \<in> set (db_orders db) \<Longrightarrow> p x \<Longrightarrow> order_next x (f x)"
  shows "shop_ok cs0 (upd_orders p f db)"
  using assms sale_ok_orders [of cs0 db p f] links_orders [of db p f]
  by (auto simp: shop_ok_def order_next_def identity_of_def)

subsection \<open>The draft of an order\<close>

lemma sale_ok_new_order:
  assumes ok: "sale_ok cs0 db" and run: "insert_order x db = Inr db'"
    and "order_projected x" and "\<forall>y\<in>set (db_orders db). o_id y \<noteq> o_id x"
  shows "sale_ok cs0 db'"
proof -
  from run have db': "db' = db\<lparr>db_orders := db_orders db @ [x], db_next := Suc (db_next db)\<rparr>"
    by (auto simp: insert_order_def split: if_splits)
  have "stock_view db' = stock_view db" "refund_view db' = refund_view db"
    "movement_keys db' = movement_keys db" "db_next db \<le> db_next db'"
    by (simp_all add: db' stock_view_def refund_view_def payment_view_def movement_keys_def)
  then show ?thesis
    using ok assms(3,4) stock_ok_frame [of db db'] refunds_ok_frame [of db db'] commands_frame [of cs0 db db']
    by (auto simp: sale_ok_def orders_sound_def orders_projected_def movement_ids_unique_def db')
qed

lemma sale_ok_new_payment:
  assumes ok: "sale_ok cs0 db" and run: "insert_payment p db = Inr db'"
  shows "sale_ok cs0 db'"
proof -
  from run have db': "db' = db\<lparr>db_payments := db_payments db @ [p], db_next := Suc (db_next db)\<rparr>"
    by (auto simp: insert_payment_def split: if_splits)
  have "stock_view db' = stock_view db" "movement_keys db' = movement_keys db" "db_next db \<le> db_next db'"
    by (simp_all add: db' stock_view_def movement_keys_def)
  moreover have "amount_ok (payment_view db') r" if "amount_ok (payment_view db) r" for r
    using that by (auto simp: amount_ok_def payment_view_def db')
  ultimately show ?thesis
    using ok stock_ok_frame [of db db'] commands_frame [of cs0 db db']
    by (auto simp: sale_ok_def orders_sound_def orders_projected_def movement_ids_unique_def
        refunds_ok_def db' less_SucI)
qed

lemma sale_ok_draft_line:
  assumes ok: "sale_ok cs0 db" and run: "draft_line e ord t l db = Inr db'"
  shows "sale_ok cs0 db'"
proof -
  obtain item d where l: "l = (item, d)" by (cases l)
  obtain db1 where item: "insert_item (new_item_row ord item d db) db = Inr db1"
    and res: "reserveForOrder e ord (Some (db_next db)) (inv_id (dt_inventory d)) (li_quantity item) t db1
      = Inr db'"
    using run by (auto simp: draft_line_def l bindR_eq_Inr)
  from item have "sale_ok cs0 db1"
    by (intro sale_ok_view [OF ok])
      (auto simp: insert_item_def stock_view_def refund_view_def payment_view_def movement_keys_def
        split: if_splits)
  then show ?thesis
    using res sale_ok_step [of cs0 db1 "(e, SoInventory (OpReserve ord (Some (db_next db))
      (inv_id (dt_inventory d)) (li_quantity item) t))"]
    by (simp add: atomic_def no_result_def error_of_def)
qed

lemma links_draft:
  assumes ok: "links_ok db"
    and run: "createLocalMachineOrderDraft e input mid t sel cfg db = Inr (d, db')"
  shows "links_ok db'"
proof -
  from run obtain lns x db1 db2 and pp :: payment_provider_row and p db3
    where x: "x = new_order_row e input mid (order_total lns) db"
    and order: "insert_order x db = Inr db1"
    and lines: "foldR (draft_line e (o_id x) t) lns db1 = Inr db2"
    and p: "p = new_payment_row e (o_id x) (pp_id pp) cfg (snd sel) (o_totalAmountCents x) t db2"
    and pay: "insert_payment p db2 = Inr db3"
    and last: "db' = log_status (o_id x) None OsPendingPayment ''machine_order_created'' None
      (upd_orders (\<lambda>y. o_id y = o_id x)
        (\<lambda>y. y\<lparr>o_paymentId := Some (p_id p), o_updatedAt := e_now e\<rparr>) db3)"
    by (rule draft_InrE) (rule that)
  have "links_ok db1" by (rule links_new_order [OF ok order]) (simp_all add: x new_order_row_def)
  then have links2: "links_ok db2" using draft_lines_core [OF lines] by (rule links_core)
  have "x \<in> set (db_orders db2)"
    using order draft_lines_core [OF lines]
    by (auto simp: insert_order_def core_frame_def core_tables_def split: if_splits)
  from links_new_payment [OF links2 pay _ this] show ?thesis
    unfolding last by (intro links_ok_frame [OF _ log_frames(3)]) (simp_all add: p new_payment_row_def)
qed

lemma shop_draft:
  assumes ok: "shop_ok cs0 db"
    and run: "createLocalMachineOrderDraft e input mid t sel cfg db = Inr (d, db')"
  shows "shop_ok cs0 db'"
proof -
  from run obtain lns x db1 db2 p db3 where x: "x = new_order_row e input mid (order_total lns) db"
    and order: "insert_order x db = Inr db1"
    and lines: "foldR (draft_line e (o_id x) t) lns db1 = Inr db2"
    and pay: "insert_payment p db2 = Inr db3"
    and last: "db' = log_status (o_id x) None OsPendingPayment ''machine_order_created'' None
      (upd_orders (\<lambda>y. o_id y = o_id x)
        (\<lambda>y. y\<lparr>o_paymentId := Some (p_id p), o_updatedAt := e_now e\<rparr>) db3)"
    by (rule draft_InrE) (rule that)
  have fresh: "\<forall>y\<in>set (db_orders db). o_id y \<noteq> o_id x"
    using ok by (auto simp: shop_ok_def links_ok_def x new_order_row_def)
  have "sale_ok cs0 db1"
    by (rule sale_ok_new_order [OF _ order _ fresh])
      (use ok in \<open>simp_all add: shop_ok_def order_projected_def x new_order_row_def projectOrderStatus_def\<close>)
  then have "sale_ok cs0 db2"
    by (rule foldR_invariant [OF lines]) (rule sale_ok_draft_line)
  then have sale3: "sale_ok cs0 db3" by (rule sale_ok_new_payment [OF _ pay])
  then have "order_projected y" if "y \<in> set (db_orders db3)" for y
    using that by (auto simp: sale_ok_def orders_sound_def orders_projected_def list_all_iff)
  then have "sale_ok cs0 db'" unfolding last
    by (intro sale_ok_log [OF sale_ok_orders [OF sale3] log_frames(3)]) (simp_all add: order_projected_def)
  then show ?thesis using links_draft [OF _ run] ok by (simp add: shop_ok_def)
qed

lemma shop_payment_phases: "payment_phases (shop_ok cs0)"
proof
  fix db assume "shop_ok cs0 db"
  then show "links_ok db" by (simp add: shop_ok_def)
next
  fix db db' assume "shop_ok cs0 db" "log_frame db db'"
  then show "shop_ok cs0 db'" by (auto simp: shop_ok_def intro: sale_ok_log links_ok_frame)
next
  fix p f db assume "\<And>q. q \<in> set (db_payments db) \<Longrightarrow> p q \<Longrightarrow> payment_next q (f q)" "shop_ok cs0 db"
  then show "shop_ok cs0 (upd_payments p f db)"
    by (auto simp: shop_ok_def payment_next_def intro!: sale_ok_payments links_payments)
next
  fix p f db assume "\<And>x. x \<in> set (db_orders db) \<Longrightarrow> p x \<Longrightarrow> order_next x (f x)" "shop_ok cs0 db"
  then show "shop_ok cs0 (upd_orders p f db)" by (intro shop_orders)
next
  fix p f db assume "\<And>a. p a \<Longrightarrow> lease_next a (f a)" "shop_ok cs0 db"
    "no_conflict attempt_conflict (db_codeAttempts (upd_attempts p f db))"
  then show "shop_ok cs0 (upd_attempts p f db)"
    by (auto simp: shop_ok_def sale_ok_attempts intro: links_attempt_write)
next
  fix a db db' assume "shop_ok cs0 db" "insert_attempt_row a db = Inr db'" "ca_id a = db_next db"
    "ca_paymentId a < db_next db" "\<forall>p\<in>set (db_payments db). attempt_charges a p"
  then show "shop_ok cs0 db'"
    by (auto simp: shop_ok_def intro: sale_ok_attempts(2) links_attempt_insert)
next
  fix e ord i q why db db' assume "shop_ok cs0 db" "releaseReservation e ord None i q why db = Inr db'"
  then show "shop_ok cs0 db'"
    using sale_phases.inventory [OF shop_sale_phases, of cs0 db "(e, OpRelease ord None i q why)" "()" db']
    by (simp add: no_result_def)
next
  fix e ord db cs db' assume "shop_ok cs0 db" "createPendingDispatchCommands e ord db = Inr (cs, db')"
  then show "shop_ok cs0 db'" by (rule sale_phases.create_pending_keeps [OF shop_sale_phases])
next
  fix e pub ord db assume "shop_ok cs0 db"
  then show "shop_ok cs0 (fst (dispatchPendingCommandsForOrder e pub ord db))"
    by (rule sale_phases.dispatch_order_keeps [OF shop_sale_phases])
next
  fix e input mid t sel cfg db d db'
  assume "shop_ok cs0 db" "createLocalMachineOrderDraft e input mid t sel cfg db = Inr (d, db')"
  then show "shop_ok cs0 db'" by (rule shop_draft)
qed

end
