(* ===== verification/Shop_System.thy ===== *)
theory Shop_System
  imports Payment_System
begin

text \<open>
  All modelled services together: the contract of the sale, that of the payments, and one more law,
  that a payment may also be written against its life cycle, as the operator actions and the mock
  endpoints do. The books (\<open>shop_ok\<close>) satisfy it. The operations are gathered in \<open>payment_op\<close> and
  \<open>shop_op\<close>, what an interrupted operation read before included, and run as a reactive machine.
\<close>

locale shop_phases = pay: payment_phases I + sale: sale_phases I for I :: "db \<Rightarrow> bool" +
  assumes pay_any: "\<And>p f db. (\<And>q. q \<in> set (db_payments db) \<Longrightarrow> p q \<Longrightarrow>
      payment_identity (f q) = payment_identity q) \<Longrightarrow> I db \<Longrightarrow> I (upd_payments p f db)"

lemma mock_event_InrD:
  assumes "mock_event e no ev et db = Inr ((p, x, ins), db1)"
  shows "x \<in> set (db_orders db)" and "log_frame db db1"
proof -
  from assms obtain pp rest where rows: "payment_joins (\<lambda>p x pp. p_paymentNo p = no) db = (p, x, pp) # rest"
    by (auto simp: mock_event_def split_beta Let_def split: list.split_asm if_split_asm)
  then show "x \<in> set (db_orders db)"
    using payment_joins_member [of p x pp "\<lambda>p x pp. p_paymentNo p = no" db] by simp
  show "log_frame db db1"
    using assms rows by (auto simp: mock_event_def split_beta Let_def split: if_split_asm)
qed

context shop_phases begin

subsection \<open>Provider messages\<close>

lemma provider_webhook_keeps: "I db \<Longrightarrow> I (fst (handleProviderWebhook e pub verify code body db))"
  by (auto simp: handleProviderWebhook_def handleRefundWebhook_def Let_def
      split: option.split sum.split provider_webhook.split
      intro!: bindS_keeps [where I = I] pay.payment_webhook_keeps sale.webhook_keeps)

lemma mock_page_keeps: "I db \<Longrightarrow> I (fst (completeMockPaymentFromProvider e pub verify no db))"
  by (auto simp: completeMockPaymentFromProvider_def split: sum.split
      intro!: provider_webhook_keeps pay.log_keeps)

subsection \<open>Mock endpoints\<close>

lemma paid_write:
  assumes "I db" and "x \<in> set (db_orders db)"
  shows "I (upd_orders (\<lambda>y. o_id y = o_id x) (\<lambda>y. y\<lparr>o_status := projectOrderStatus PsPaid (o_fulfillmentState x),
    o_paymentState := PsPaid, o_paidAt := v, o_updatedAt := t\<rparr>) db)"
  by (rule pay.order_write [OF _ assms(1)])
    (use links_order_unique [OF pay.linked [OF assms(1)] _ assms(2)]
      in \<open>auto simp: order_next_def order_projected_def\<close>)

lemma mock_succeed_keeps:
  assumes ok: "I db" and run: "mock_succeed_tx e no db = Inr (r, db')"
  shows "I db'"
proof -
  obtain p x ins db1 where ev: "mock_event e no ''succeed'' ''mock.payment.succeeded'' db
      = Inr ((p, x, ins), db1)"
    using run by (auto simp: mock_succeed_tx_def bindR_eq_Inr)
  note frame = mock_event_InrD(2) [OF ev]
  have ok1: "I db1" by (rule pay.frame [OF ok frame])
  have x: "x \<in> set (db_orders db1)" using mock_event_InrD(1) [OF ev] log_frameD(2) [OF frame] by simp
  have paid: "I (upd_payments (\<lambda>q. p_id q = p_id p) (\<lambda>q. q\<lparr>p_status := PaySucceeded,
      p_paidAt := Some (e_now e), p_failedReason := None, p_updatedAt := e_now e\<rparr>) db1)" (is "I ?d")
    by (rule pay_any [OF _ ok1]) simp
  have "x \<in> set (db_orders ?d)" using x by (simp add: upd_payments_def)
  note paid_write [OF paid this]
  then show ?thesis using run ok1
    by (auto simp: mock_succeed_tx_def ev bindR_eq_Inr Let_def split: if_split_asm
        elim!: pay.commands [rotated] intro: pay.log_keeps)
qed

lemma mock_fail_keeps:
  assumes ok: "I db" and run: "mock_fail_tx e no why db = Inr (r, db')"
  shows "I db'"
proof -
  obtain p x ins db1 where ev: "mock_event e no ''fail'' ''mock.payment.failed'' db
      = Inr ((p, x, ins), db1)"
    using run by (auto simp: mock_fail_tx_def bindR_eq_Inr)
  have ok1: "I db1" by (rule pay.frame [OF ok mock_event_InrD(2) [OF ev]])
  have "I (upd_payments (\<lambda>q. p_id q = p_id p) (\<lambda>q. q\<lparr>p_status := PayFailed,
      p_failedReason := Some why, p_updatedAt := e_now e\<rparr>) db1)"
    by (rule pay_any [OF _ ok1]) simp
  then show ?thesis using run ok1
    by (auto simp: mock_fail_tx_def ev bindR_eq_Inr Let_def split: if_split_asm
        elim!: pay.release_all_keeps [rotated] intro: pay.cancel_unpaid_keeps)
qed

lemma mock_endpoints_keep:
  assumes "I db"
  shows "I (fst (markMockSucceeded e pub no db))" and "I (fst (markMockFailed e no why db))"
  using assms
  by (auto simp: markMockSucceeded_def markMockFailed_def pay.publish split: sum.split
      intro!: bindS_keeps [where I = I] atomic_keeps [where I = I]
      elim: mock_succeed_keeps mock_fail_keeps)

subsection \<open>Operators\<close>

lemma manual_open_keeps: "I db \<Longrightarrow> I (fst (manual_still_open e p i r db))"
  by (auto simp: manual_still_open_def Let_def intro!: pay.log_keeps pay_any)

lemma manual_settled_keeps:
  "I db \<Longrightarrow> known p db \<Longrightarrow> I (fst (manual_settled e pub p i r db))"
  unfolding manual_settled_def
  by (rule bindS_keeps, rule pay.reconcile_update_keeps)
    (auto simp: Let_def intro!: pay.publish_quietly_keeps pay.attempt_writes_keep)

lemma manual_query_keeps:
  assumes "I db" and "known p db"
  shows "I (fst (manual_query e pub p provider db))"
proof -
  have "I (insert_payment_attempt a db)" "known p (insert_payment_attempt a db)" for a
    using assms by (auto intro: pay.log_keeps pay.attempt_writes_known)
  then show ?thesis
    by (auto simp: manual_query_def Let_def split_beta split: sum.split
        intro!: manual_settled_keeps manual_open_keeps pay.attempt_writes_keep)
qed

lemma manual_reconcile_keeps:
  assumes ok: "I db"
  shows "I (fst (manualReconcile e pub i why db))"
proof (cases "payment_context i db")
  case (Some row)
  obtain p x pp where row: "row = (p, x, pp)" by (cases row)
  have "known p db" using payment_context_SomeD(1) [OF Some [unfolded row]] by simp
  then show ?thesis using ok
    by (auto simp: manualReconcile_def Some row manual_query_keeps split: option.split
        intro!: bindS_keeps [where I = I] atomic_keeps [where I = I] elim: pay.request_for_payment_keeps)
qed (simp add: manualReconcile_def ok)

end

context shop_phases begin

lemma request_refund_keeps: "I db \<Longrightarrow> I (fst (requestRefundHandling e i adm db))"
  by (auto simp: requestRefundHandling_def sale.requestFull_keeps split: option.split)

lemma incident_order_write:
  assumes "I db" and "order_projected (undefined\<lparr>o_status := s, o_paymentState := ps, o_fulfillmentState := fs\<rparr>)"
  shows "I (upd_orders c (\<lambda>y. y\<lparr>o_status := s, o_paymentState := ps, o_fulfillmentState := fs,
           o_updatedAt := t\<rparr>) db)"
  by (rule pay.order_write [OF _ assms(1)]) (use assms(2) in \<open>simp add: order_next_def order_projected_def\<close>)

lemma manual_handling_keeps: "I db \<Longrightarrow> I (manual_handling_tx e p x why db)"
  unfolding manual_handling_tx_def Let_def
  by (intro pay.log_keeps incident_order_write pay_any)
    (simp_all add: order_projected_def projectOrderStatus_def)

lemma unknown_keeps: "I db \<Longrightarrow> I (markPaymentUnknownAfterProviderAction e p x why msg db)"
  unfolding markPaymentUnknownAfterProviderAction_def Let_def
  by (intro pay.log_keeps incident_order_write pay_any)
    (simp_all add: order_projected_def projectOrderStatus_def)

lemma mark_manual_keeps: "I db \<Longrightarrow> I (fst (markPaymentManualHandling e i why db))"
  by (auto simp: markPaymentManualHandling_def requestManualHandlingForPayment_def manual_handling_keeps
      split: option.split intro!: bindS_keeps [where I = I] atomic_keeps [where I = I]
      elim: pay.request_for_payment_keeps)

lemma closed_keeps:
  assumes ok: "I db" and run: "markPaymentClosedAfterProviderAction e p x st db = Inr (u, db')"
  shows "I db'"
proof -
  have "I (upd_payments c (\<lambda>q. (drop_intent_lease q)\<lparr>p_status := s, p_updatedAt := t\<rparr>) db)" for c s t
    by (rule pay_any [OF _ ok]) (simp add: drop_intent_lease_def)
  then have "I (upd_orders d (\<lambda>y. y\<lparr>o_status := (if b then OsPaymentExpired else OsCanceled),
      o_paymentState := (if b then PsPaymentExpired else PsCanceled), o_fulfillmentState := FsCanceled,
      o_updatedAt := t2\<rparr>) (upd_payments c (\<lambda>q. (drop_intent_lease q)\<lparr>p_status := s, p_updatedAt := t\<rparr>) db))"
    for d b t2 c s t
    by (rule incident_order_write) (simp add: order_projected_def projectOrderStatus_def)
  then show ?thesis using run
    unfolding markPaymentClosedAfterProviderAction_def Let_def
    by (auto simp: bindR_eq_Inr elim!: pay.release_all_keeps [rotated] intro!: pay.log_keeps)
qed

lemma close_incident_keeps:
  assumes ok: "I db"
  shows "I (fst (closeProviderPaymentIncident e p x pp why db))"
proof -
  have "I (fst (atomic (markPaymentClosedAfterProviderAction e p x st) db))" for st
    by (rule atomic_keeps [where I = I, OF ok]) (rule closed_keeps [OF ok])
  then show ?thesis using ok
    by (auto simp: closeProviderPaymentIncident_def Let_def unknown_keeps
        split: option.split sum.split prod.split) (metis fst_conv unknown_keeps)+
qed

lemma close_or_reverse_keeps: "I db \<Longrightarrow> I (fst (closeOrReverseUncertainPayment e i why db))"
  by (auto simp: closeOrReverseUncertainPayment_def reversePaymentCodeIncident_def close_incident_keeps
      split: option.split intro!: bindS_keeps [where I = I] atomic_keeps [where I = I]
      elim: pay.request_for_payment_keeps)

lemma incident_action_keeps: "I db \<Longrightarrow> I (fst (handlePaymentIncidentAction e pub i adm action db))"
  by (auto simp: handlePaymentIncidentAction_def manualReconcileRefund_def close_or_reverse_keeps
      split: incident_action.split
      intro!: bindS_keeps [where I = I] manual_reconcile_keeps sale.queryRefund_keeps
        request_refund_keeps mark_manual_keeps)

subsection \<open>Recovery of orders\<close>

lemma recovery_rows_keep:
  "I db \<Longrightarrow> I (completeRecoveryAction e i db)"
  "I db \<Longrightarrow> I (failRecoveryAction e i db)"
  by (auto simp: completeRecoveryAction_def failRecoveryAction_def set_recovery_status_def elim!: pay.frame)

lemma start_recovery_keeps:
  "I db \<Longrightarrow> start_recovery_tx e ord adm action why db = Inr (r, db') \<Longrightarrow> I db'"
  by (auto simp: start_recovery_tx_def insert_recovery_action_def bindR_eq_Inr
      split: option.split_asm if_split_asm elim!: pay.frame)

lemma perform_recovery_keeps:
  "I db \<Longrightarrow> I (fst (perform_recovery e pub ord adm action why i c db))"
  by (cases action) (auto simp: perform_recovery_def requestMockRefund_def
      intro!: bindS_keeps [where I = I] sale.requestFull_keeps sale.compensation_dispense_keeps
        sale.resolve_keeps)

lemma startRecovery_keeps: "I db \<Longrightarrow> I (fst (startRecoveryAction e ord adm action why db))"
  by (auto simp: startRecoveryAction_def atomic_def split: sum.split elim: start_recovery_keeps)

lemma recovery_keeps: "I db \<Longrightarrow> I (fst (createRecoveryAction e pub ord adm action why db))"
  unfolding createRecoveryAction_def
  by (rule bindS_keeps, rule startRecovery_keeps)
    (auto split: prod.split sum.split intro!: recovery_rows_keep,
      (metis fst_conv perform_recovery_keeps)+)

end

subsection \<open>The operations\<close>

text \<open>
  What machines, providers, jobs and the code worker start. The last group are the transactions at
  the end of an operation that was interrupted by a call of the provider: what it read before
  (rows, leases, claims) is an argument and may be stale. A stale payment or claim is the row of the
  table with other values in the columns that change.
\<close>

datatype payment_op =
  PoCreateOrder publisher create_order_input
| PoStatus publisher string string
| PoCancel publisher string string
| PoSubmitCode publisher code_input
| PoCodeJob publisher
| PoCodeQuery publisher uuid "string option"
| PoCodeReverse publisher uuid string
| PoExpiryJob publisher
| PoReconcileJob publisher
| PoPoll publisher uuid
| PoWebhook publisher string payment_webhook
| PoProviderResult publisher provider_result
| PoExpireTx payment_row
| PoCancelTx order_row payment_row
| PoSettleTx uuid string payment_query_result "(string \<times> int) option"
| PoPollOpen payment_row "string \<times> int" uuid payment_query_result
| PoPersistIntent payment_draft "string \<times> int" payment_intent_result
| PoIntentFailed payment_draft "string \<times> int" api_error provider_error
| PoClaim string ms uuid
| PoCodeResult publisher uuid "string option" int recovery_context code_answer terminal_kind
| PoManualTx uuid string int string
| PoReleaseClaim code_attempt_row code_attempt_status "ms option"

fun payment_step :: "db \<Rightarrow> env \<times> payment_op \<Rightarrow> db" where
  "payment_step db (e, PoCreateOrder pub input) = fst (createMachineOrder e pub input db)"
| "payment_step db (e, PoStatus pub no code) = fst (getMachineOrderStatus e pub no code db)"
| "payment_step db (e, PoCancel pub no code) = fst (cancelMachineOrder e pub no code db)"
| "payment_step db (e, PoSubmitCode pub input) = fst (submit e pub input db)"
| "payment_step db (e, PoCodeJob pub) = fst (reconcileDueAttempts e pub db)"
| "payment_step db (e, PoCodeQuery pub i why) = fst (requestManualQuery e pub i why db)"
| "payment_step db (e, PoCodeReverse pub i why) = fst (requestManualReverse e pub i why db)"
| "payment_step db (e, PoExpiryJob pub) = fst (expireOverduePayments e pub db)"
| "payment_step db (e, PoReconcileJob pub) = fst (reconcilePendingPayments e pub db)"
| "payment_step db (e, PoPoll pub i) = fst (reconcilePendingPaymentOnRead e pub i db)"
| "payment_step db (e, PoWebhook pub code w) = fst (handlePaymentWebhook e pub code w db)"
| "payment_step db (e, PoProviderResult pub r) = fst (applyProviderPaymentResult e pub r db)"
| "payment_step db (e, PoExpireTx p) = fst (atomic (expire_locally e p) db)"
| "payment_step db (e, PoCancelTx x p) = fst (atomic (cancel_tx e x p) db)"
| "payment_step db (e, PoSettleTx i src r lease) = (case find_payment i db of None \<Rightarrow> db
     | Some p \<Rightarrow> fst (atomic (applyPaymentStatusUpdate e (reconcile_update e src p r lease)) db))"
| "payment_step db (e, PoPollOpen p lease i r) = fst (poll_still_open e p lease i r db)"
| "payment_step db (e, PoPersistIntent d lease r) = fst (persist_intent e d lease r db)"
| "payment_step db (e, PoIntentFailed d lease err perr) = fst (intent_failed e d lease (err, perr) db)"
| "payment_step db (e, PoClaim w t i) = snd (claimRecoveryAttemptById i w (e_now e) t db)"
| "payment_step db (e, PoCodeResult pub i w n cx r k) = (case find_attempt i db of None \<Rightarrow> db
     | Some a \<Rightarrow> fst (applyProviderTerminalResult e pub
         (a\<lparr>ca_leaseOwnerToken := w, ca_leaseFence := n\<rparr>) cx r k db))"
| "payment_step db (e, PoManualTx i w n why) =
     fst (atomic (markPaymentCodeAttemptManualHandling e i w n why) db)"
| "payment_step db (e, PoReleaseClaim c st t) = fst (atomic (releaseRecoveryClaim e c st t (\<lambda>a. a)) db)"

context payment_phases begin

lemma settle_late_keeps:
  "I db \<Longrightarrow> p \<in> set (db_payments db) \<Longrightarrow>
   I (fst (atomic (applyPaymentStatusUpdate e (reconcile_update e src p r l)) db))"
  by (rule reconcile_update_keeps) simp_all

lemma code_late_keeps:
  assumes "I db" and "a \<in> set (db_codeAttempts db)"
  shows "I (fst (applyProviderTerminalResult e pub (a\<lparr>ca_leaseOwnerToken := w, ca_leaseFence := n\<rparr>) cx r k db))"
  by (rule terminal_result_keeps [OF assms(1)]) (use attempt_named [OF linked [OF assms(1)] assms(2)] in simp)

lemma payment_step_keeps: "I db \<Longrightarrow> I (payment_step db i)"
proof -
  assume ok: "I db"
  obtain e op where i: "i = (e, op)" by (cases i)
  have "I (fst (atomic (expire_locally e p) db))" "I (fst (atomic (cancel_tx e x p) db))"
    "I (fst (atomic (markPaymentCodeAttemptManualHandling e j w n why) db))" for p x j w n why
    by (rule atomic_keeps [where I = I, OF ok],
        (erule expire_locally_keeps [OF ok] | erule cancel_tx_keeps [OF ok]
         | erule mark_manual_tx_keeps [OF ok]))+
  then show ?thesis
    unfolding i
    by (cases op)
      (auto simp: ok create_order_keeps status_keeps cancel_order_keeps submit_keeps due_attempts_keep
        requestManualQuery_def requestManualReverse_def manual_action_keeps expiry_job_keeps
        reconcile_job_keeps poll_keeps payment_webhook_keeps provider_result_keeps
        poll_still_open_keeps persist_keeps intent_failed_keeps claim_recovery_keeps
        release_atomic_keeps find_attempt_def split: option.split dest!: find_payment_SomeD find_SomeD
        intro: settle_late_keeps code_late_keeps)
qed

lemma payment_run_keeps: "I db \<Longrightarrow> I (foldl payment_step db ops)"
  by (induction ops arbitrary: db) (simp_all add: payment_step_keeps)

end

datatype shop_op =
  ShPayment payment_op
| ShSale sale_op
| ShWebhook publisher "(json \<Rightarrow> uuid option option \<Rightarrow> runtime_config option \<Rightarrow>
    api_error + provider_webhook) option" string json
| ShMockPage publisher "(json \<Rightarrow> uuid option option \<Rightarrow> runtime_config option \<Rightarrow>
    api_error + provider_webhook) option" string
| ShMockSucceed publisher string
| ShMockFail string string
| ShManualReconcile publisher uuid string
| ShIncident publisher uuid uuid incident_action
| ShStartRecovery uuid uuid recovery_action_name string
| ShRecovery publisher uuid uuid recovery_action_name string

fun shop_step :: "db \<Rightarrow> env \<times> shop_op \<Rightarrow> db" where
  "shop_step db (e, ShPayment op) = payment_step db (e, op)"
| "shop_step db (e, ShSale op) = fst (sale_step db (e, op))"
| "shop_step db (e, ShWebhook pub verify code body) = fst (handleProviderWebhook e pub verify code body db)"
| "shop_step db (e, ShMockPage pub verify no) = fst (completeMockPaymentFromProvider e pub verify no db)"
| "shop_step db (e, ShMockSucceed pub no) = fst (markMockSucceeded e pub no db)"
| "shop_step db (e, ShMockFail no why) = fst (markMockFailed e no why db)"
| "shop_step db (e, ShManualReconcile pub i why) = fst (manualReconcile e pub i why db)"
| "shop_step db (e, ShIncident pub i adm action) = fst (handlePaymentIncidentAction e pub i adm action db)"
| "shop_step db (e, ShStartRecovery ord adm action why) =
     fst (startRecoveryAction e ord adm action why db)"
| "shop_step db (e, ShRecovery pub ord adm action why) =
     fst (createRecoveryAction e pub ord adm action why db)"

context shop_phases begin

lemma shop_step_keeps: "I db \<Longrightarrow> I (shop_step db i)"
  by (cases "(db, i)" rule: shop_step.cases)
    (simp_all add: pay.payment_step_keeps sale.sale_step_keeps provider_webhook_keeps mock_page_keeps
      mock_endpoints_keep manual_reconcile_keeps incident_action_keeps startRecovery_keeps recovery_keeps)

lemma shop_run_keeps: "I db \<Longrightarrow> I (foldl shop_step db ops)"
  by (induction ops arbitrary: db) (simp_all add: shop_step_keeps)

end

text \<open>The books are kept by the whole shop.\<close>

interpretation shop_books: shop_phases "shop_ok cs0"
proof (intro shop_phases.intro shop_phases_axioms.intro)
  fix p f and db :: db
  assume "\<And>q. q \<in> set (db_payments db) \<Longrightarrow> p q \<Longrightarrow> payment_identity (f q) = payment_identity q"
    and "shop_ok cs0 db"
  then show "shop_ok cs0 (upd_payments p f db)"
    by (auto simp: shop_ok_def intro!: sale_ok_payments links_payments)
qed (rule shop_payment_phases shop_sale_phases)+

end
