(* ===== verification/Payment_Properties.thy ===== *)
theory Payment_Properties
  imports Shop_System
begin

text \<open>
  What runs of the whole shop guarantee: the books, settled payments, and the code worker whose
  lease another worker has taken over.
\<close>

subsection \<open>Invariants of the payments and the attempts alone\<close>

text \<open>
  An invariant that looks only at the payments and the code attempts has only their writes to
  answer for; together with the links it then satisfies the whole contract.
\<close>

locale payment_watch =
  fixes X :: "db \<Rightarrow> bool"
  assumes same: "\<And>db db'. X db \<Longrightarrow> db_payments db' = db_payments db \<Longrightarrow>
      db_codeAttempts db' = db_codeAttempts db \<Longrightarrow> db_next db \<le> db_next db' \<Longrightarrow> X db'"
    and payment: "\<And>p f db. (\<And>q. q \<in> set (db_payments db) \<Longrightarrow> p q \<Longrightarrow> payment_next q (f q)) \<Longrightarrow>
      X db \<Longrightarrow> X (upd_payments p f db)"
    and new_payment: "\<And>p db db'. X db \<Longrightarrow> db_payments db' = db_payments db @ [p] \<Longrightarrow>
      db_codeAttempts db' = db_codeAttempts db \<Longrightarrow> db_next db \<le> db_next db' \<Longrightarrow> X db'"
    and attempt: "\<And>p f db. (\<And>a. p a \<Longrightarrow> lease_next a (f a)) \<Longrightarrow> X db \<Longrightarrow> X (upd_attempts p f db)"
    and new_attempt: "\<And>a db db'. X db \<Longrightarrow> insert_attempt_row a db = Inr db' \<Longrightarrow> ca_id a = db_next db \<Longrightarrow>
      X db'"

lemma outside_tables:
  assumes "outside_commands db' = outside_commands db"
  shows "db_payments db' = db_payments db" and "db_codeAttempts db' = db_codeAttempts db"
  using arg_cong [OF assms, of db_payments] arg_cong [OF assms, of db_codeAttempts]
  by (simp_all add: outside_commands_def)

lemma draft_attempts:
  assumes "createLocalMachineOrderDraft e input mid t sel cfg db = Inr (d, db')"
  shows "db_codeAttempts db' = db_codeAttempts db" and "db_next db \<le> db_next db'"
proof -
  from assms obtain lns x db1 db2 and pp :: payment_provider_row and p db3
    where order: "insert_order x db = Inr db1"
    and lines: "foldR (draft_line e (o_id x) t) lns db1 = Inr db2"
    and pay: "insert_payment p db2 = Inr db3"
    and last: "db' = log_status (o_id x) None OsPendingPayment ''machine_order_created'' None
      (upd_orders (\<lambda>y. o_id y = o_id x)
        (\<lambda>y. y\<lparr>o_paymentId := Some (p_id p), o_updatedAt := e_now e\<rparr>) db3)"
    by (rule draft_InrE) (rule that)
  show "db_codeAttempts db' = db_codeAttempts db" "db_next db \<le> db_next db'"
    using order pay draft_lines_core [OF lines]
    by (auto simp: insert_order_def insert_payment_def core_frame_def core_tables_def last upd_defs
        split: if_splits)
qed

text \<open>The keys never go back.\<close>

lemma create_commands_next:
  "createPendingDispatchCommands e ord db = Inr (cs, db') \<Longrightarrow> db_next db \<le> db_next db'"
proof -
  assume run: "createPendingDispatchCommands e ord db = Inr (cs, db')"
  have step: "db_next (snd s) \<le> db_next (snd s')" if "create_line_command e x item s = Inr s'" for x item s s'
    using that by (cases s) (auto simp: create_line_command_def bindR_eq_Inr Let_def
        insert_or_ignore_def split: prod.splits if_splits option.splits)
  have "db_next db \<le> db_next (snd s)" if "foldR (create_line_command e x) items ([], db) = Inr s"
    for x items s
    by (rule foldR_invariant [OF that, of "\<lambda>s. db_next db \<le> db_next (snd s)"])
      (auto dest: step intro: le_trans)
  then show ?thesis using run
    by (fastforce simp: createPendingDispatchCommands_def bindR_eq_Inr Let_def
        split: option.splits if_splits)
qed

lemma dispatch_command_next: "db_next (fst (dispatch_command e pub cm db)) = db_next db"
proof -
  have "db_next db' = db_next db" if "update_pending_command f i db = Inr (c, db')" for f i c db'
    using that by (auto simp: update_pending_command_def bindR_def Let_def upd_commands_def
        split: sum.splits option.splits)
  then show ?thesis
    by (cases cm) (auto simp: dispatch_command_def Let_def markPendingCommandSent_def atomic_def
        recordPendingCommandDispatchFailure_def split: sum.split option.split)
qed

lemma publish_next: "db_next (fst (dispatchPendingCommandsForOrder e pub ord db)) = db_next db"
  unfolding dispatchPendingCommandsForOrder_def
  by (rule promise_all_invariant) (simp_all add: dispatch_command_next)

sublocale payment_watch \<subseteq> payment_phases "\<lambda>db. links_ok db \<and> X db"
proof
  fix db db' assume "links_ok db \<and> X db" "log_frame db db'"
  then show "links_ok db' \<and> X db'" using links_ok_frame same log_frameD by blast
next
  fix p f db assume "\<And>q. q \<in> set (db_payments db) \<Longrightarrow> p q \<Longrightarrow> payment_next q (f q)" "links_ok db \<and> X db"
  then show "links_ok (upd_payments p f db) \<and> X (upd_payments p f db)"
    by (auto simp: payment_next_def intro!: links_payments payment)
next
  fix p f db assume "\<And>x. x \<in> set (db_orders db) \<Longrightarrow> p x \<Longrightarrow> order_next x (f x)" "links_ok db \<and> X db"
  then show "links_ok (upd_orders p f db) \<and> X (upd_orders p f db)"
    using same [of db "upd_orders p f db"]
    by (auto simp: order_next_def intro!: links_orders) (simp add: upd_orders_def)
next
  fix p f db assume "\<And>a. p a \<Longrightarrow> lease_next a (f a)" "links_ok db \<and> X db"
    "no_conflict attempt_conflict (db_codeAttempts (upd_attempts p f db))"
  then show "links_ok (upd_attempts p f db) \<and> X (upd_attempts p f db)"
    using links_attempt_write attempt by blast
next
  fix a db db' assume "links_ok db \<and> X db" "insert_attempt_row a db = Inr db'" "ca_id a = db_next db"
    "ca_paymentId a < db_next db" "\<forall>p\<in>set (db_payments db). attempt_charges a p"
  then show "links_ok db' \<and> X db'" using links_attempt_insert new_attempt by blast
next
  fix e ord i q why db db' assume "links_ok db \<and> X db" "releaseReservation e ord None i q why db = Inr db'"
  then show "links_ok db' \<and> X db'"
    using release_core [of e ord None i q why db db'] links_core same
    by (auto simp: core_frame_def core_tables_def)
next
  fix e ord db cs db' assume ok: "links_ok db \<and> X db"
    and run: "createPendingDispatchCommands e ord db = Inr (cs, db')"
  show "links_ok db' \<and> X db'"
    using ok links_outside [OF _ create_commands_outside [OF run] create_commands_next [OF run]]
      same [OF _ outside_tables [OF create_commands_outside [OF run]] create_commands_next [OF run]]
    by blast
next
  fix e pub ord db assume "links_ok db \<and> X db"
  then show "links_ok (fst (dispatchPendingCommandsForOrder e pub ord db)) \<and>
      X (fst (dispatchPendingCommandsForOrder e pub ord db))"
    using links_outside [OF _ publish_outside] same [OF _ outside_tables [OF publish_outside]]
    by (simp add: publish_next)
next
  fix e input mid t sel cfg db d db'
  assume "links_ok db \<and> X db" and run: "createLocalMachineOrderDraft e input mid t sel cfg db = Inr (d, db')"
  then show "links_ok db' \<and> X db'"
    using links_draft [OF _ run] draft_payments [OF run] new_payment [OF _ _ draft_attempts [OF run]]
    by blast
qed simp

subsection \<open>Settled payments\<close>

definition stays_settled :: "payment_row \<Rightarrow> db \<Rightarrow> bool" where
  "stays_settled p db \<longleftrightarrow> (\<exists>q\<in>set (db_payments db). payment_identity q = payment_identity p \<and>
     p_status q = p_status p)"

interpretation settled_payment: payment_watch "\<lambda>db. settled (p_status p) \<longrightarrow> stays_settled p db" for p
proof
  fix c f and db :: db
  assume step: "\<And>q. q \<in> set (db_payments db) \<Longrightarrow> c q \<Longrightarrow> payment_next q (f q)"
    and X: "settled (p_status p) \<longrightarrow> stays_settled p db"
  show "settled (p_status p) \<longrightarrow> stays_settled p (upd_payments c f db)"
  proof
    assume s: "settled (p_status p)"
    then obtain q where q: "q \<in> set (db_payments db)" "payment_identity q = payment_identity p"
      "p_status q = p_status p" using X by (auto simp: stays_settled_def)
    have rows: "db_payments (upd_payments c f db) = upd_where c f (db_payments db)"
      by (simp add: upd_payments_def)
    have mem: "(if c q then f q else q) \<in> set (db_payments (upd_payments c f db))"
      unfolding rows set_upd_where by (rule image_eqI [OF refl q(1)])
    have "payment_next q (if c q then f q else q)" using step q(1) by simp
    then have "payment_identity (if c q then f q else q) = payment_identity q \<and>
      p_status (if c q then f q else q) = p_status q"
      using s q(3) by (simp add: payment_next_def)
    then show "stays_settled p (upd_payments c f db)"
      unfolding stays_settled_def using q(2,3) mem by (intro bexI [OF _ mem]) simp
  qed
qed (auto simp: stays_settled_def upd_attempts_def insert_attempt_row_def split: if_splits)

subsection \<open>Fences\<close>

definition fence_floor :: "uuid \<Rightarrow> int \<Rightarrow> db \<Rightarrow> bool" where
  "fence_floor i n db \<longleftrightarrow> i < db_next db \<and>
     (\<forall>a\<in>set (db_codeAttempts db). ca_id a = i \<longrightarrow> n \<le> ca_leaseFence a)"

interpretation attempt_fence: payment_watch "fence_floor i n" for i n
proof
  fix p f and db :: db
  assume step: "\<And>a. p a \<Longrightarrow> lease_next a (f a)" and X: "fence_floor i n db"
  have "n \<le> ca_leaseFence (f a)" if "a \<in> set (db_codeAttempts db)" "p a" "ca_id (f a) = i" for a
    using step [OF that(2)] that X
    by (auto simp: lease_next_def attempt_identity_def fence_floor_def)
  then show "fence_floor i n (upd_attempts p f db)"
    using X by (auto simp: fence_floor_def upd_attempts_def set_upd_where)
qed (auto simp: fence_floor_def insert_attempt_row_def upd_payments_def split: if_splits)

subsection \<open>A shop to sell in\<close>

definition market_db :: db where
  "market_db = stocked_db
     \<lparr>db_products := [\<lparr>pd_id = 10, pd_status = PrActive, pd_displayImageMediaAssetId = None,
        pd_deletedAt = None\<rparr>],
      db_variants := [\<lparr>va_id = 9, va_productId = 10, va_priceCents = 250, va_status = VaActive,
        va_deletedAt = None\<rparr>],
      db_providers := [\<lparr>pp_id = 23, pp_code = ''mock'', pp_status = PcEnabled\<rparr>,
        \<lparr>pp_id = 24, pp_code = ''alipay'', pp_status = PcEnabled\<rparr>]\<rparr>"

definition market_input :: create_order_input where
  "market_input = \<lparr>co_machineCode = ''M1'', co_items = [\<lparr>li_inventoryId = 3, li_quantity = 2,
       li_planogramVersion = ''v1'', li_slotId = 2\<rparr>],
     co_paymentMethod = PmPaymentCode, co_paymentProviderCode = Some ''alipay'',
     co_idempotencyKey = ''key1''\<rparr>"

definition market_publish :: publisher where
  "market_publish = (\<lambda>code payload. None)"

lemma market_shop_ok: "shop_ok [] market_db"
proof -
  have "stock_ok market_db"
    by (rule stock_ok_frame [OF stock_ok_selling])
      (simp_all add: market_db_def selling_db_def stock_view_def)
  then show ?thesis
    by (simp add: shop_ok_def sale_ok_def links_ok_def orders_sound_def refunds_ok_def
        movement_ids_unique_def commands_since_def orders_projected_def movement_keys_def
        market_db_def stocked_db_def shop_db_def empty_db_def)
qed

subsection \<open>Runs of the whole shop\<close>

definition market_order_no :: string where
  "market_order_no = ''ORD20260102030405ABCD100E''"

definition market_sale :: "(env \<times> shop_op) list" where
  "market_sale =
     [(shop_env, ShPayment (PoCreateOrder market_publish market_input)),
      (shop_env, ShPayment (PoCreateOrder market_publish market_input)),
      (shop_env, ShPayment (PoSubmitCode market_publish \<lparr>ci_orderNo = market_order_no,
         ci_machineCode = ''M1'', ci_authCode = ''281234567890'', ci_idempotencyKey = ''code1'',
         ci_source = ''scanner''\<rparr>)),
      (shop_env, ShPayment (PoCancel market_publish market_order_no ''M1'')),
      (shop_env, ShSale (SoAck 1 107))]"


lemma market_sale_runs:
  "let db' = foldl shop_step market_db market_sale
   in map o_status (db_orders db') = [OsPaid] \<and>
      map p_amountCents (db_payments db') = [500] \<and> map vc_status (db_commands db') = [VcAcknowledged]"
  by code_simp


subsection \<open>Settled payments stay settled\<close>

lemma find_member:
  "distinct (map k rows) \<Longrightarrow> r \<in> set rows \<Longrightarrow> k r = i \<Longrightarrow> List.find (\<lambda>r. k r = i) rows = Some r"
  by (induction rows) auto

definition settled_market :: db where
  "settled_market = selling_db\<lparr>db_payments := [sale_payment\<lparr>p_status := PayExpired\<rparr>]\<rparr>"


definition late_ops :: "(env \<times> payment_op) list" where
  "late_ops = [(shop_env, PoPoll market_publish 22), (shop_env, PoSettleTx 22 ''poll''
       \<lparr>pqr_status = QSucceeded, pqr_providerTradeNo = Some ''T1'', pqr_paidAt = Some 990,
        pqr_failedReason = None, pqr_reconciliationState = None\<rparr> None),
     (shop_env, PoExpiryJob market_publish), (shop_env, PoCancel market_publish ''ORD1'' ''M1'')]"

lemma settled_market_links: "links_ok settled_market"
  by (simp add: links_ok_def settled_market_def selling_db_def stocked_db_def shop_db_def empty_db_def
      sale_order_def sale_payment_def order_paid_by_def)


subsection \<open>A worker whose claim was taken over\<close>

text \<open>The links alone, without a further invariant.\<close>

interpretation links_alone: payment_watch "\<lambda>_. True"
  by unfold_locales

lemma recovery_claimD:
  assumes "links_ok db" and "claimRecoveryAttemptById i w now t db = (Some c, db')"
  shows "ca_id c = i" and "links_ok db'" and "fence_floor i (ca_leaseFence c) db'"
    and "fence_floor i n db \<Longrightarrow> n < ca_leaseFence c"
proof -
  let ?p = "\<lambda>a. ca_id a = i \<and> due_for_recovery now a"
  have "map_option (take_lease w now t) (List.find ?p (db_codeAttempts db)) = Some c"
    and db': "db' = upd_attempts ?p (take_lease w now t) db"
    using assms(2) by (auto simp: claimRecoveryAttemptById_def as_claim_def update_attempt_def
        split: option.split_asm if_split_asm)
  then obtain a where row: "List.find ?p (db_codeAttempts db) = Some a" "c = take_lease w now t a"
    by auto
  from find_SomeD [OF row(1)] row(2) have a: "a \<in> set (db_codeAttempts db)" "ca_id a = i"
    "due_for_recovery now a" "c = take_lease w now t a" by simp_all
  show "ca_id c = i" using a by (simp add: take_lease_def)
  show "links_ok db'"
    using links_alone.claim_recovery_keeps [of db i w now t] assms by simp
  have only: "b = a" if "b \<in> set (db_codeAttempts db)" "ca_id b = i" for b
    using assms(1) key_unique [of ca_id "db_codeAttempts db" b a] that a by (simp add: links_ok_def)
  have "ca_leaseFence c \<le> ca_leaseFence (if ?p b then take_lease w now t b else b)"
    if b: "b \<in> set (db_codeAttempts db)" "ca_id (if ?p b then take_lease w now t b else b) = i" for b
  proof -
    have "ca_id b = i" using b(2) by (simp add: take_lease_def split: if_split_asm)
    then have "b = a" using only b(1) by blast
    then show ?thesis using a by simp
  qed
  moreover have "i < db_next db'" using a assms(1) by (auto simp: links_ok_def db' upd_attempts_def)
  moreover have rows: "set (db_codeAttempts (upd_attempts ?p (take_lease w now t) db)) =
      (\<lambda>b. if ?p b then take_lease w now t b else b) ` set (db_codeAttempts db)"
    by (simp add: upd_attempts_def set_upd_where)
  ultimately show "fence_floor i (ca_leaseFence c) db'"
    unfolding fence_floor_def db' rows ball_simps by blast
  show "n < ca_leaseFence c" if "fence_floor i n db"
    using that a by (auto simp: fence_floor_def take_lease_def)
qed

lemma superseded:
  assumes "fence_floor (ca_id c) (ca_leaseFence c + 1) db"
  shows "a \<in> set (db_codeAttempts db) \<Longrightarrow> \<not> recoveryLeaseConditions e c a"
    and "update_attempt (recoveryLeaseConditions e c) f db = (None, db)"
    and "a \<in> set (db_codeAttempts db) \<Longrightarrow> ca_id a = ca_id c \<Longrightarrow> ca_leaseFence a \<noteq> ca_leaseFence c"
proof -
  have fence: "ca_leaseFence a \<noteq> ca_leaseFence c" if "a \<in> set (db_codeAttempts db)" "ca_id a = ca_id c" for a
    using assms that by (force simp: fence_floor_def)
  then show "a \<in> set (db_codeAttempts db) \<Longrightarrow> ca_id a = ca_id c \<Longrightarrow> ca_leaseFence a \<noteq> ca_leaseFence c" .
  have none: "\<not> recoveryLeaseConditions e c a" if "a \<in> set (db_codeAttempts db)" for a
    using fence [OF that] by (auto simp: recoveryLeaseConditions_def)
  then show "a \<in> set (db_codeAttempts db) \<Longrightarrow> \<not> recoveryLeaseConditions e c a" .
  have "List.find (recoveryLeaseConditions e c) (db_codeAttempts db) = None"
    using none by (simp add: find_None_iff)
  then show "update_attempt (recoveryLeaseConditions e c) f db = (None, db)"
    using none by (simp add: update_attempt_def upd_attempts_def upd_where_none)
qed

lemma superseded_transition:
  assumes "fence_floor (ca_id c) (ca_leaseFence c + 1) db"
  shows "applyProviderTerminalResult e pub c cx r k db = (db, Inr ())"
    and "mark_manual e c why db = (db, Inr ())"
proof -
  have "\<not> holds_attempt e ct db" if "ct_attemptId ct = ca_id c" "ct_fence ct = ca_leaseFence c" for ct
    using superseded(3) [OF assms] that
    by (auto simp: holds_attempt_def find_attempt_def dest!: find_SomeD split: option.split_asm)
  then have unmoved: "transitionProviderPaymentTerminal e (code_attempt_transition (terminal_result e c w cx r k)) db
      \<in> {Inr (TStale, db), Inr (TDuplicate, db)}" for w
    by (auto simp: transitionProviderPaymentTerminal_def may_transition_def code_attempt_transition_def
        terminal_update_def terminal_result_def split: option.split)
  have applied: "applyPaymentCodeAttemptProviderResult e pub (terminal_result e c w cx r k) db
      \<in> {(db, Inr TStale), (db, Inr TDuplicate)}" for w
    using unmoved [of w] by (auto simp: applyPaymentCodeAttemptProviderResult_def atomic_def)
  show "applyProviderTerminalResult e pub c cx r k db = (db, Inr ())"
  proof (cases "ca_leaseOwnerToken c")
    case (Some w)
    from applied [of w] show ?thesis by (auto simp: applyProviderTerminalResult_def Some)
  qed (simp add: applyProviderTerminalResult_def)
  have "markPaymentCodeAttemptManualHandling e (ca_id c) w (ca_leaseFence c) why db = Inr (TStale, db)" for w
  proof (cases "attempt_context (ca_id c) db")
    case (Some row)
    then obtain a p x where row: "attempt_context (ca_id c) db = Some (a, p, x)" by (cases row) auto
    then have "ca_leaseFence a \<noteq> ca_leaseFence c"
      using superseded(3) [OF assms] attempt_context_SomeD [OF row] by simp
    then show ?thesis by (simp add: markPaymentCodeAttemptManualHandling_def row)
  qed (simp add: markPaymentCodeAttemptManualHandling_def)
  then show "mark_manual e c why db = (db, Inr ())"
    by (simp add: mark_manual_def bindS_def atomic_def split: option.split)
qed

text \<open>C4: when a second worker has claimed a code attempt, the first worker's claim is dead for
  good: whatever happens before and after the second claim, the first worker can no longer renew
  its lease, begin a reversal, put the attempt back, hand it to an operator or settle the payment
  with the provider's answer, and trying to changes nothing.\<close>

theorem superseded_claim_changes_nothing:
  assumes "links_ok db" and first: "claimRecoveryAttemptById i w1 t1 l1 db = (Some c, db1)"
    and "claimRecoveryAttemptById i w2 t2 l2 (foldl payment_step db1 ops1) = (Some c2, db2)"
    and now: "now = foldl payment_step db2 ops2"
  shows "renewRecoveryClaim e c l now = (False, now) \<and>
    beginReversal e c patch now = (None, now) \<and>
    releaseRecoveryClaim e c status later patch now = Inr (None, now) \<and>
    mark_manual e c why now = (now, Inr ()) \<and>
    applyProviderTerminalResult e pub c cx r k now = (now, Inr ())"
proof (intro conjI)
  note c = recovery_claimD [OF assms(1,2)]
  let ?mid = "foldl payment_step db1 ops1"
  have "links_ok ?mid \<and> fence_floor i (ca_leaseFence c) ?mid"
    using attempt_fence.payment_run_keeps [of db1 i "ca_leaseFence c" ops1] c(2,3) by simp
  note mid = conjunct1 [OF this] conjunct2 [OF this]
  note c2 = recovery_claimD [OF mid(1) assms(3)]
  have "fence_floor i (ca_leaseFence c + 1) db2"
    using c2(3) c2(4) [OF mid(2)] by (auto simp: fence_floor_def)
  then have after: "links_ok now" "fence_floor (ca_id c) (ca_leaseFence c + 1) now"
    using attempt_fence.payment_run_keeps [of db2 i "ca_leaseFence c + 1" ops2] c(1) c2(2) now
    by simp_all
  note dead = superseded [OF after(2)]
  show "renewRecoveryClaim e c l now = (False, now)"
    by (simp add: renewRecoveryClaim_def dead(2))
  show "releaseRecoveryClaim e c status later patch now = Inr (None, now)"
    using after(1) by (simp add: releaseRecoveryClaim_def dead(2) checked_attempt_def links_ok_def Let_def)
  show "beginReversal e c patch now = (None, now)"
  proof (cases "attempt_context (ca_id c) now")
    case (Some row)
    then obtain a p x where row: "attempt_context (ca_id c) now = Some (a, p, x)" by (cases row) auto
    then show ?thesis using dead(1) attempt_context_SomeD(1) [OF row] by (simp add: beginReversal_def)
  qed (simp add: beginReversal_def)
  show "mark_manual e c why now = (now, Inr ())"
    "applyProviderTerminalResult e pub c cx r k now = (now, Inr ())"
    by (rule superseded_transition [OF after(2)])+
qed

definition waiting_attempt :: code_attempt_row where
  "waiting_attempt = (new_attempt shop_env \<lparr>ci_orderNo = ''ORD1'', ci_machineCode = ''M1'',
      ci_authCode = ''281234567890'', ci_idempotencyKey = ''code1'', ci_source = ''scanner''\<rparr>
      sale_order (sale_payment\<lparr>p_status := PayPending, p_method := PmPaymentCode\<rparr>) 1 selling_db)
    \<lparr>ca_status := CaUserConfirming, ca_recoveryNextAt := Some 1000\<rparr>"

definition waiting_db :: db where
  "waiting_db = selling_db\<lparr>db_next := 101, db_codeAttempts := [waiting_attempt],
     db_payments := [sale_payment\<lparr>p_status := PayPending, p_method := PmPaymentCode\<rparr>],
     db_orders := [sale_order\<lparr>o_status := OsPendingPayment, o_paymentState := PsAwaitingPayment,
        o_fulfillmentState := FsAwaitingFulfillment\<rparr>]\<rparr>"

definition first_claim :: code_attempt_row where
  "first_claim = take_lease ''w1'' 1000 30000 waiting_attempt"

lemma waiting_links: "links_ok waiting_db"
  by (simp add: links_ok_def waiting_db_def waiting_attempt_def new_attempt_def selling_db_def
      stocked_db_def shop_db_def empty_db_def sale_order_def sale_payment_def order_paid_by_def
      attempt_charges_def)

lemma waiting_claims:
  "claimRecoveryAttemptById 100 ''w1'' 1000 30000 waiting_db =
     (Some first_claim, upd_attempts (\<lambda>a. ca_id a = 100) (\<lambda>a. first_claim) waiting_db)"
  "claimRecoveryAttemptById 100 ''w2'' 31000 30000
       (upd_attempts (\<lambda>a. ca_id a = 100) (\<lambda>a. first_claim) waiting_db) =
     (Some (take_lease ''w2'' 31000 30000 first_claim),
      upd_attempts (\<lambda>a. ca_id a = 100) (\<lambda>a. take_lease ''w2'' 31000 30000 first_claim) waiting_db)"
  by (code_simp, code_simp)

theorem superseded_claim_changes_nothing_witness:
  "renewRecoveryClaim shop_env first_claim 30000
      (foldl payment_step (upd_attempts (\<lambda>a. ca_id a = 100)
         (\<lambda>a. take_lease ''w2'' 31000 30000 first_claim) waiting_db) late_ops) =
    (False, foldl payment_step (upd_attempts (\<lambda>a. ca_id a = 100)
         (\<lambda>a. take_lease ''w2'' 31000 30000 first_claim) waiting_db) late_ops)"
proof -
  have "claimRecoveryAttemptById 100 ''w2'' 31000 30000 (foldl payment_step
       (upd_attempts (\<lambda>a. ca_id a = 100) (\<lambda>a. first_claim) waiting_db) []) =
     (Some (take_lease ''w2'' 31000 30000 first_claim),
      upd_attempts (\<lambda>a. ca_id a = 100) (\<lambda>a. take_lease ''w2'' 31000 30000 first_claim) waiting_db)"
    using waiting_claims(2) by simp
  then show ?thesis
    using superseded_claim_changes_nothing [OF waiting_links waiting_claims(1)] by blast
qed

end
