(* ===== verification/Order_Properties.thy ===== *)
theory Order_Properties
  imports Payment_Properties
begin

text \<open>
  What the services promise about orders: a request repeated with its idempotency key never makes a
  second order; a draft reserves and charges exactly what its lines say; what a settled payment does
  to its order; how long the code worker puts an attempt off; and the protocol of the recovery of an
  order whose dispensing has no known outcome.
\<close>

subsection \<open>Orders and their fixed columns\<close>

text \<open>
  The columns of an order that nothing changes once it is created. An invariant of these columns
  alone, which a new order satisfies, is kept by the whole shop.
\<close>

definition order_key :: "order_row \<Rightarrow> (uuid \<times> string \<times> uuid) \<times> uuid \<times> uuid option \<times> int \<times> string option"
  where "order_key x = (identity_of x, order_link x)"

definition order_keys :: "db \<Rightarrow> ((uuid \<times> string \<times> uuid) \<times> uuid \<times> uuid option \<times> int \<times> string option) list"
  where "order_keys db = map order_key (db_orders db)"

definition same_request :: "order_row \<Rightarrow> order_row \<Rightarrow> bool" where
  "same_request x y \<longleftrightarrow> o_machineId x = o_machineId y \<and> o_paymentCreationIdempotencyKey x \<noteq> None \<and>
     o_paymentCreationIdempotencyKey y = o_paymentCreationIdempotencyKey x"

locale order_watch =
  fixes X :: "db \<Rightarrow> bool"
  assumes same: "\<And>db db'. X db \<Longrightarrow> order_keys db' = order_keys db \<Longrightarrow> X db'"
    and new_order: "\<And>x db db'. X db \<Longrightarrow> order_keys db' = order_keys db @ [order_key x] \<Longrightarrow>
      \<not> list_ex (same_request x) (db_orders db) \<Longrightarrow> X db'"

lemma order_keys_orders: "db_orders db' = db_orders db \<Longrightarrow> order_keys db' = order_keys db"
  by (simp add: order_keys_def)

lemma order_keys_core: "core_frame db db' \<Longrightarrow> order_keys db' = order_keys db"
  by (rule order_keys_orders) (simp add: core_frame_def core_tables_def)

lemma order_keys_refund: "refund_frame db db' \<Longrightarrow> order_keys db' = order_keys db"
  unfolding order_keys_def order_key_def
  by (rule nth_equalityI)
    (auto simp: refund_frame_def sale_tables_def list_eq_iff_nth_eq)

lemma order_keys_log: "log_frame db db' \<Longrightarrow> order_keys db' = order_keys db"
  by (rule order_keys_orders) (rule log_frameD)

lemma order_keys_write:
  "(\<And>x. x \<in> set (db_orders db) \<Longrightarrow> p x \<Longrightarrow> order_key (f x) = order_key x) \<Longrightarrow>
   order_keys (upd_orders p f db) = order_keys db"
  by (simp add: order_keys_def upd_orders_def map_upd_member)

lemma order_keys_writes [simp]:
  "order_keys (upd_payments p g db) = order_keys db"
  "order_keys (upd_commands p' c db) = order_keys db"
  "order_keys (upd_attempts p'' a db) = order_keys db"
  "order_keys (log_status ord fr tos why meta db) = order_keys db"
  by (simp_all add: order_keys_def upd_payments_def upd_commands_def upd_attempts_def log_status_def)

lemma order_keys_shipping [simp]:
  "order_keys (set_fulfillment e ord fs why meta t db) = order_keys db"
  "order_keys (sync_command_lines e ord why meta2 db) = order_keys db"
  "order_keys (order_to_manual e c db) = order_keys db"
  by (auto simp: set_fulfillment_def sync_command_lines_def order_to_manual_def Let_def order_key_def
      identity_of_def order_link_def split: option.split intro!: order_keys_write)

lemma upd_where_append [simp]: "upd_where p f (xs @ ys) = upd_where p f xs @ upd_where p f ys"
  by (simp add: upd_where_def)

lemma draft_orders:
  assumes ok: "links_ok db"
    and run: "createLocalMachineOrderDraft e input mid t sel cfg db = Inr (d, db')"
  shows "\<exists>x. db_orders db' = db_orders db @ [x] \<and> o_id x = ld_orderId d \<and> o_machineId x = mid \<and>
    o_orderNo x = ld_orderNo d \<and> o_paymentId x = Some (ld_paymentId d) \<and>
    o_totalAmountCents x = ld_totalAmountCents d \<and>
    o_paymentCreationIdempotencyKey x = Some (co_idempotencyKey input) \<and>
    \<not> list_ex (same_request x) (db_orders db)"
proof -
  from run obtain lns x db1 db2 and pp :: payment_provider_row and p db3
    where x: "x = new_order_row e input mid (order_total lns) db"
    and order: "insert_order x db = Inr db1"
    and lines: "foldR (draft_line e (o_id x) t) lns db1 = Inr db2"
    and p: "p = new_payment_row e (o_id x) (pp_id pp) cfg (snd sel) (o_totalAmountCents x) t db2"
    and pay: "insert_payment p db2 = Inr db3"
    and last: "db' = log_status (o_id x) None OsPendingPayment ''machine_order_created'' None
      (upd_orders (\<lambda>y. o_id y = o_id x)
        (\<lambda>y. y\<lparr>o_paymentId := Some (p_id p), o_updatedAt := e_now e\<rparr>) db3)"
    and d: "d = \<lparr>ld_orderId = o_id x, ld_orderNo = o_orderNo x, ld_paymentId = p_id p,
      ld_paymentNo = p_paymentNo p, ld_providerCode = pp_code pp,
      ld_paymentMethod = co_paymentMethod input, ld_machineId = mid,
      ld_totalAmountCents = p_amountCents p, ld_expiresAt = t,
      ld_reservations = map (\<lambda>i. (li_inventoryId i, li_quantity i)) (co_items input)\<rparr>"
    by (rule draft_InrE) (rule that)
  have "\<forall>y\<in>set (db_orders db). o_id y \<noteq> o_id x" using ok by (auto simp: links_ok_def x new_order_row_def)
  moreover have "db_orders db3 = db_orders db @ [x]"
    using order pay draft_lines_core [OF lines]
    by (auto simp: insert_order_def insert_payment_def core_frame_def core_tables_def split: if_splits)
  ultimately have "db_orders db' =
      db_orders db @ [x\<lparr>o_paymentId := Some (p_id p), o_updatedAt := e_now e\<rparr>]"
    by (simp add: last upd_orders_def log_status_def upd_where_none)
  moreover have "\<not> list_ex (same_request x) (db_orders db)"
    using order by (auto simp: insert_order_def same_request_def list_ex_iff split: if_splits)
  ultimately show ?thesis
    by (simp add: d p new_payment_row_def same_request_def list_ex_iff) (simp add: x new_order_row_def)
qed

lemma order_keys_raw:
  "insertRawInto e mid m norm hash recon db = Inr (row, db') \<Longrightarrow> order_keys db' = order_keys db"
  by (rule order_keys_orders) (auto simp: insertRawInto_def Let_def split: if_splits)

sublocale order_watch \<subseteq> watched: core_phases X
proof (intro core_phases.intro core_phases_axioms.intro)
  show "refund_phases X" by (rule refund_phases_frame) (blast intro: same order_keys_refund)
qed (erule same, auto intro: order_keys_core order_keys_raw order_keys_orders simp: upd_commands_def)+

lemma order_keys_next:
  "(\<And>x. x \<in> set (db_orders db) \<Longrightarrow> p x \<Longrightarrow> order_next x (f x)) \<Longrightarrow>
   order_keys (upd_orders p f db) = order_keys db"
  by (rule order_keys_write) (simp add: order_key_def order_next_def)

lemma order_keys_outside:
  "outside_commands db' = outside_commands db \<Longrightarrow> order_keys db' = order_keys db"
  by (rule order_keys_orders, drule arg_cong [of _ _ db_orders]) (simp add: outside_commands_def)

context order_watch begin

lemma links_draft_keep:
  assumes "links_ok db \<and> X db" and run: "createLocalMachineOrderDraft e input mid t sel cfg db = Inr (d, db')"
  shows "links_ok db' \<and> X db'"
proof -
  obtain x where x: "db_orders db' = db_orders db @ [x]" "\<not> list_ex (same_request x) (db_orders db)"
    using draft_orders [OF _ run] assms(1) by blast
  then have "order_keys db' = order_keys db @ [order_key x]" by (simp add: order_keys_def)
  then show ?thesis using assms(1) links_draft [OF _ run] new_order x(2) by blast
qed

lemma links_and_watch: "payment_phases (\<lambda>db. links_ok db \<and> X db)"
proof
  fix db db' assume "links_ok db \<and> X db" "log_frame db db'"
  then show "links_ok db' \<and> X db'" using links_ok_frame same order_keys_log by blast
next
  fix p f db assume "\<And>q. q \<in> set (db_payments db) \<Longrightarrow> p q \<Longrightarrow> payment_next q (f q)" "links_ok db \<and> X db"
  then show "links_ok (upd_payments p f db) \<and> X (upd_payments p f db)"
    using same [of db "upd_payments p f db"] links_payments [of db p f] by (simp add: payment_next_def)
next
  fix p f db assume w: "\<And>x. x \<in> set (db_orders db) \<Longrightarrow> p x \<Longrightarrow> order_next x (f x)" and ok: "links_ok db \<and> X db"
  show "links_ok (upd_orders p f db) \<and> X (upd_orders p f db)"
    using ok w same [OF _ order_keys_next [OF w]] links_orders [of db p f] by (simp add: order_next_def)
next
  fix p f db assume "\<And>a. p a \<Longrightarrow> lease_next a (f a)" "links_ok db \<and> X db"
    "no_conflict attempt_conflict (db_codeAttempts (upd_attempts p f db))"
  then show "links_ok (upd_attempts p f db) \<and> X (upd_attempts p f db)"
    using links_attempt_write [of db p f] same [of db "upd_attempts p f db"] by simp
next
  fix a db db' assume "links_ok db \<and> X db" "insert_attempt_row a db = Inr db'" "ca_id a = db_next db"
    "ca_paymentId a < db_next db" "\<forall>p\<in>set (db_payments db). attempt_charges a p"
  moreover from this(2) have "db_orders db' = db_orders db"
    by (auto simp: insert_attempt_row_def split: if_splits)
  ultimately show "links_ok db' \<and> X db'"
    using links_attempt_insert [of db a db'] same [of db db'] order_keys_orders by blast
next
  fix e ord i q why db db' assume ok: "links_ok db \<and> X db" and "releaseReservation e ord None i q why db = Inr db'"
  then have "core_frame db db'" by (intro release_core)
  then show "links_ok db' \<and> X db'" using ok links_core same order_keys_core by blast
next
  fix e ord db cs db' assume ok: "links_ok db \<and> X db"
    and run: "createPendingDispatchCommands e ord db = Inr (cs, db')"
  show "links_ok db' \<and> X db'"
    using ok links_outside [OF _ create_commands_outside [OF run] create_commands_next [OF run]]
      same [OF _ order_keys_outside [OF create_commands_outside [OF run]]] by blast
next
  fix e pub ord db assume "links_ok db \<and> X db"
  then show "links_ok (fst (dispatchPendingCommandsForOrder e pub ord db)) \<and>
      X (fst (dispatchPendingCommandsForOrder e pub ord db))"
    using links_outside [OF _ publish_outside] same [OF _ order_keys_outside [OF publish_outside]]
    by (simp add: publish_next)
qed (simp, erule (1) links_draft_keep)

end

sublocale order_watch \<subseteq> shop_phases "\<lambda>db. links_ok db \<and> X db"
proof (intro shop_phases.intro shop_phases_axioms.intro links_and_watch)
  show "sale_phases (\<lambda>db. links_ok db \<and> X db)"
    by (rule sale_phases_conj [OF link_core.sale_phases_axioms watched.sale_phases_axioms])
next
  fix p f and db :: db
  assume "\<And>q. q \<in> set (db_payments db) \<Longrightarrow> p q \<Longrightarrow> payment_identity (f q) = payment_identity q"
    "links_ok db \<and> X db"
  then show "links_ok (upd_payments p f db) \<and> X (upd_payments p f db)"
    using same [of db "upd_payments p f db"] links_payments [of db p f] by simp
qed

subsection \<open>Repeated requests\<close>

definition requests_unique :: "db \<Rightarrow> bool" where
  "requests_unique db \<longleftrightarrow> no_conflict same_request (db_orders db)"

definition remembers :: "order_row \<Rightarrow> db \<Rightarrow> bool" where
  "remembers x db \<longleftrightarrow> order_key x \<in> set (order_keys db)"

lemma same_request_key:
  "order_key x' = order_key x \<Longrightarrow> order_key y' = order_key y \<Longrightarrow> same_request x' y' = same_request x y"
  by (auto simp: order_key_def identity_of_def order_link_def same_request_def)

lemma list_ex_alike: "list_all2 (\<lambda>a b. P a = Q b) xs ys \<Longrightarrow> list_ex P xs = list_ex Q ys"
  by (induction rule: list_all2_induct) auto

lemma no_conflict_alike:
  assumes "list_all2 R xs ys" and "\<And>a a' b b'. R a a' \<Longrightarrow> R b b' \<Longrightarrow> c a b = c a' b'"
  shows "no_conflict c xs = no_conflict c ys"
  using assms(1)
proof (induction rule: list_all2_induct)
  case (Cons x xs y ys)
  have "list_ex (c x) xs = list_ex (c y) ys"
    by (rule list_ex_alike, rule list_all2_mono [OF Cons(2)]) (rule assms(2) [OF Cons(1)])
  with Cons show ?case by simp
qed simp

lemma no_conflict_keys:
  assumes "map order_key xs = map order_key ys"
  shows "no_conflict same_request xs = no_conflict same_request ys"
proof (rule no_conflict_alike)
  show "list_all2 (\<lambda>x y. order_key x = order_key y) xs ys"
    unfolding list_all2_conv_all_nth using assms by (metis length_map nth_map)
qed (rule same_request_key)

interpretation requests: order_watch requests_unique
proof
  fix db db' assume "requests_unique db" "order_keys db' = order_keys db"
  then show "requests_unique db'"
    using no_conflict_keys [of "db_orders db'" "db_orders db"]
    by (simp add: requests_unique_def order_keys_def)
next
  fix x db db' assume "requests_unique db" "order_keys db' = order_keys db @ [order_key x]"
    "\<not> list_ex (same_request x) (db_orders db)"
  moreover have "no_conflict same_request (db_orders db') = no_conflict same_request (db_orders db @ [x])"
    by (rule no_conflict_keys) (use calculation(2) in \<open>simp add: order_keys_def\<close>)
  ultimately show "requests_unique db'"
    by (auto simp: requests_unique_def no_conflict_append list_ex_iff same_request_def)
qed

interpretation memory: order_watch "remembers x" for x
  by unfold_locales (simp_all add: remembers_def)

text \<open>What an answer says about the order it names.\<close>

definition answers :: "uuid \<Rightarrow> string \<Rightarrow> creation_response \<Rightarrow> order_row \<Rightarrow> bool" where
  "answers mid key r x \<longleftrightarrow> o_machineId x = mid \<and> o_paymentCreationIdempotencyKey x = Some key \<and>
     o_id x = cx_orderId r \<and> o_orderNo x = cx_orderNo r \<and> o_paymentId x = Some (cx_paymentId r) \<and>
     o_totalAmountCents x = cx_totalAmountCents r"

lemma answers_key: "order_key x = order_key y \<Longrightarrow> answers mid key r x = answers mid key r y"
  by (auto simp: order_key_def identity_of_def order_link_def answers_def)

definition drafts :: "payment_draft \<Rightarrow> creation_response \<Rightarrow> bool" where
  "drafts d r \<longleftrightarrow> cx_orderId r = ld_orderId d \<and> cx_orderNo r = ld_orderNo d \<and>
     cx_paymentId r = ld_paymentId d \<and> cx_totalAmountCents r = ld_totalAmountCents d"

lemma response_drafts [simp]: "drafts d (toPaymentCreationResponse d v)" "drafts d (waiting d st)"
  by (simp_all add: drafts_def toPaymentCreationResponse_def waiting_def)

lemma recreate_drafts: "recreate_intent e d p db = (db', Inr r) \<Longrightarrow> drafts d r"
  by (auto simp: recreate_intent_def bindS_def split: sum.split_asm prod.split_asm)

lemma restore_drafts: "restorePaymentCreation e pub d p db = (db', Inr r) \<Longrightarrow> drafts d r"
  by (auto simp: restorePaymentCreation_def claim_and_recreate_def bindS_def
      split: sum.split_asm prod.split_asm if_split_asm dest: recreate_drafts)

lemma found_creation:
  assumes "links_ok db" and "findPaymentCreationByIdempotencyKey e mid key db = Some (d, p)"
  shows "\<exists>x\<in>set (db_orders db). \<forall>r. drafts d r \<longrightarrow> answers mid key r x"
proof -
  let ?rows = "[(x, p, pp). x \<leftarrow> db_orders db, p \<leftarrow> db_payments db, pp \<leftarrow> db_providers db,
      Some (p_id p) = o_paymentId x \<and> pp_id pp = p_providerId p \<and> o_machineId x = mid \<and>
      o_paymentCreationIdempotencyKey x = Some key]"
  obtain x pp rest where rows: "?rows = (x, p, pp) # rest" and d: "d = existing_draft e x p pp db"
    using assms(2) unfolding findPaymentCreationByIdempotencyKey_def
    by (cases ?rows) (simp_all split: prod.split_asm)
  have "(x, p, pp) \<in> set ?rows" unfolding rows by simp
  then have "x \<in> set (db_orders db)" "p \<in> set (db_payments db)" "o_paymentId x = Some (p_id p)"
    "o_machineId x = mid" "o_paymentCreationIdempotencyKey x = Some key"
    by auto
  moreover from this have "p_amountCents p = o_totalAmountCents x"
    using assms(1) by (simp add: links_ok_def order_paid_by_def)
  ultimately show ?thesis
    by (intro bexI [of _ x]) (auto simp: drafts_def answers_def existing_draft_def d)
qed

lemma remembers_member: "x \<in> set (db_orders db) \<Longrightarrow> remembers x db"
  by (simp add: remembers_def order_keys_def)

lemma answered_later:
  assumes "remembers x db" and "answers mid key r x"
  shows "\<exists>y\<in>set (db_orders db). answers mid key r y"
proof -
  obtain y where "y \<in> set (db_orders db)" "order_key x = order_key y"
    using assms(1) by (auto simp: remembers_def order_keys_def)
  then show ?thesis using assms(2) answers_key by blast
qed

lemma restore_answers:
  assumes ok: "links_ok db" and found: "findPaymentCreationByIdempotencyKey e mid key db = Some (d, p)"
    and run: "restorePaymentCreation e pub d p db = (db', Inr r)"
  shows "\<exists>x\<in>set (db_orders db'). answers mid key r x"
proof -
  obtain x where x: "x \<in> set (db_orders db)" "answers mid key r x"
    using found_creation [OF ok found] restore_drafts [OF run] by blast
  have "remembers x db'"
    using memory.pay.restore_keeps [OF conjI [OF ok remembers_member [OF x(1)]], of e pub d p] run by simp
  then show ?thesis using x(2) by (rule answered_later)
qed

lemma replay_answers:
  assumes "links_ok db" and "replay_or_throw e pub mid key err db = (db', Inr r)"
  shows "\<exists>x\<in>set (db_orders db'). answers mid key r x"
  using assms restore_answers
  by (auto simp: replay_or_throw_def split: if_split_asm option.split_asm)

lemma open_payment_drafts:
  assumes "open_payment e pub mid key d how db = (db', Inr r)"
  shows "drafts d r \<or> (\<exists>err db1. claimAndPersistPaymentIntent e d db = (db1, Inl err) \<and>
    replay_or_throw e pub mid key err db1 = (db', Inr r))"
  using assms by (auto simp: open_payment_def open_code_payment_def split: if_split_asm prod.split_asm sum.split_asm)

lemma open_answers:
  assumes ok: "links_ok db0" and run: "createLocalMachineOrderDraft e input mid t sel cfg db0 = Inr (d, db)"
    and opened: "open_payment e pub mid (co_idempotencyKey input) d how db = (db', Inr r)"
  shows "\<exists>x\<in>set (db_orders db'). answers mid (co_idempotencyKey input) r x"
proof -
  have ok1: "links_ok db" by (rule links_draft [OF ok run])
  from open_payment_drafts [OF opened] show ?thesis
  proof (elim disjE exE conjE)
    fix err db1 assume "claimAndPersistPaymentIntent e d db = (db1, Inl err)"
      and again: "replay_or_throw e pub mid (co_idempotencyKey input) err db1 = (db', Inr r)"
    then have "links_ok db1" using links_alone.claim_and_persist_keeps [of db e d] ok1 by simp
    then show ?thesis using again by (rule replay_answers)
  next
    assume r: "drafts d r"
    obtain x where x: "db_orders db = db_orders db0 @ [x]" "o_id x = ld_orderId d" "o_machineId x = mid"
      "o_orderNo x = ld_orderNo d" "o_paymentId x = Some (ld_paymentId d)"
      "o_totalAmountCents x = ld_totalAmountCents d"
      "o_paymentCreationIdempotencyKey x = Some (co_idempotencyKey input)"
      using draft_orders [OF ok run] by blast
    have "remembers x db" using x(1) by (intro remembers_member) simp
    then have "remembers x db'"
      using memory.pay.open_payment_keeps [OF conjI [OF ok1 \<open>remembers x db\<close>] draft_open [OF ok run],
          where e = e and pub = pub and mid = mid and key = "co_idempotencyKey input" and how = how
            and d = d] opened by simp
    then show ?thesis
      by (rule answered_later) (use x r in \<open>simp add: answers_def drafts_def\<close>)
  qed
qed

definition machine_for :: "create_order_input \<Rightarrow> db \<Rightarrow> machine_row option" where
  "machine_for input db =
     List.find (\<lambda>m. m_code m = co_machineCode input \<and> m_deletedAt m = None) (db_machines db)"

lemma creation_answers:
  assumes ok: "links_ok db" and m: "machine_for input db = Some m"
    and run: "createMachineOrder e pub input db = (db', Inr r)"
  shows "\<exists>x\<in>set (db_orders db'). answers (m_id m) (co_idempotencyKey input) r x"
proof -
  note run' = run [unfolded createMachineOrder_def m [unfolded machine_for_def] option.case]
  show ?thesis
  proof (cases "findPaymentCreationByIdempotencyKey e (m_id m) (co_idempotencyKey input) db")
    case (Some found)
    then show ?thesis using run' restore_answers [OF ok]
      by (cases found) (auto split: if_split_asm)
  next
    case None
    show ?thesis using run' None replay_answers [OF ok] open_answers [OF ok]
      by (auto simp: atomic_def split: if_split_asm sum.split_asm prod.split_asm)
  qed
qed

lemma hit_once:
  assumes "no_conflict same_request xs" and "y \<in> set xs"
    and "o_machineId y = mid" and "o_paymentCreationIdempotencyKey y = Some key"
  shows "filter (\<lambda>x. o_machineId x = mid \<and> o_paymentCreationIdempotencyKey x = Some key) xs = [y]"
  using assms
proof (induction xs)
  case (Cons x xs)
  let ?hit = "\<lambda>x. o_machineId x = mid \<and> o_paymentCreationIdempotencyKey x = Some key"
  show ?case
  proof (cases "?hit x")
    case True
    then have none: "\<not> ?hit z" if "z \<in> set xs" for z
      using Cons.prems(1) that by (auto simp: list_ex_iff same_request_def)
    then have "filter ?hit xs = []" by (auto simp: filter_empty_conv)
    then show ?thesis using True none Cons.prems by auto
  next
    case False
    then show ?thesis using Cons by auto
  qed
qed simp

text \<open>C3: an order request can be repeated safely. Whatever else the shop does between two requests
  of a machine with the same idempotency key, and whatever the second one asks for, both answers, if
  there are two, name the same order, the same payment and the same amount, and only one order of
  that key exists.\<close>

theorem repeated_request_names_same_order:
  assumes "links_ok db0" and "requests_unique db0"
    and "machine_for input1 db0 = Some m1" and first: "createMachineOrder e1 pub1 input1 db0 = (db1, Inr r1)"
    and "machine_for input2 (foldl shop_step db1 ops) = Some m2"
    and second: "createMachineOrder e2 pub2 input2 (foldl shop_step db1 ops) = (db2, Inr r2)"
    and "m_id m2 = m_id m1" and "co_idempotencyKey input2 = co_idempotencyKey input1"
  shows "cx_orderId r2 = cx_orderId r1 \<and> cx_orderNo r2 = cx_orderNo r1 \<and>
    cx_paymentId r2 = cx_paymentId r1 \<and> cx_totalAmountCents r2 = cx_totalAmountCents r1 \<and>
    length (filter (\<lambda>x. o_machineId x = m_id m1 \<and>
      o_paymentCreationIdempotencyKey x = Some (co_idempotencyKey input1)) (db_orders db2)) = 1"
proof -
  let ?mid = "foldl shop_step db1 ops" and ?hit = "\<lambda>x. o_machineId x = m_id m1 \<and>
      o_paymentCreationIdempotencyKey x = Some (co_idempotencyKey input1)"
  have ok1: "links_ok db1" "requests_unique db1"
    using requests.pay.create_order_keeps [of db0 e1 pub1 input1] assms(1,2) first by simp_all
  obtain x where x: "x \<in> set (db_orders db1)" "answers (m_id m1) (co_idempotencyKey input1) r1 x"
    using creation_answers [OF assms(1,3) first] by blast
  have mid: "links_ok ?mid" "requests_unique ?mid" "remembers x ?mid"
    using requests.shop_run_keeps [of db1 ops] memory.shop_run_keeps [of db1 x ops] ok1
      remembers_member [OF x(1)] by simp_all
  then have after: "links_ok db2" "requests_unique db2" "remembers x db2"
    using requests.pay.create_order_keeps [of ?mid e2 pub2 input2]
      memory.pay.create_order_keeps [of ?mid x e2 pub2 input2] second by simp_all
  obtain y where y: "y \<in> set (db_orders db2)" "answers (m_id m1) (co_idempotencyKey input1) r1 y"
    using answered_later [OF after(3) x(2)] by blast
  obtain z where z: "z \<in> set (db_orders db2)" "answers (m_id m1) (co_idempotencyKey input1) r2 z"
    using creation_answers [OF mid(1) assms(5) second] assms(7,8) by auto
  have "filter ?hit (db_orders db2) = [y]"
    using hit_once [of "db_orders db2" y] after(1,2) y by (simp add: requests_unique_def answers_def)
  moreover have "z \<in> set (filter ?hit (db_orders db2))" using z by (simp add: answers_def)
  ultimately have "z = y" "filter ?hit (db_orders db2) = [y]" by simp_all
  then show ?thesis using y z by (simp add: answers_def)
qed

definition market_between :: "(env \<times> shop_op) list" where
  "market_between = [(shop_env, ShPayment (PoCancel market_publish market_order_no ''M1''))]"

lemma market_requests:
  "case createMachineOrder shop_env market_publish market_input market_db of
     (db1, Inr r1) \<Rightarrow> (case createMachineOrder shop_env market_publish market_input
          (foldl shop_step db1 market_between) of
        (db2, Inr r2) \<Rightarrow> machine_for market_input (foldl shop_step db1 market_between) =
            machine_for market_input market_db \<and> machine_for market_input market_db \<noteq> None \<and>
          map o_status (db_orders db2) = [OsCanceled]
      | _ \<Rightarrow> False)
   | _ \<Rightarrow> False"
  by code_simp

theorem repeated_request_names_same_order_witness:
  "\<exists>db1 r1 db2 r2. createMachineOrder shop_env market_publish market_input market_db = (db1, Inr r1) \<and>
     createMachineOrder shop_env market_publish market_input (foldl shop_step db1 market_between) =
       (db2, Inr r2) \<and> cx_paymentId r2 = cx_paymentId r1"
proof -
  obtain db1 r1 db2 r2 where runs:
    "createMachineOrder shop_env market_publish market_input market_db = (db1, Inr r1)"
    "createMachineOrder shop_env market_publish market_input (foldl shop_step db1 market_between) = (db2, Inr r2)"
    and same: "machine_for market_input (foldl shop_step db1 market_between) = machine_for market_input market_db"
    and some: "machine_for market_input market_db \<noteq> None"
    using market_requests by (auto split: prod.split_asm sum.split_asm)
  obtain m where m: "machine_for market_input market_db = Some m" using some by auto
  have "links_ok market_db" using market_shop_ok by (simp add: shop_ok_def)
  moreover have "requests_unique market_db"
    by (simp add: requests_unique_def market_db_def stocked_db_def shop_db_def empty_db_def)
  ultimately show ?thesis
    using repeated_request_names_same_order [OF _ _ m runs(1) same [unfolded m] runs(2)] runs by blast
qed

subsection \<open>What a draft reserves and charges\<close>

type_synonym draft_line_view = "order_line_input \<times> line_detail"

definition item_view :: "order_item_row \<Rightarrow> uuid \<times> uuid \<times> uuid \<times> int \<times> int" where
  "item_view oi = (oi_orderId oi, oi_inventoryId oi, oi_variantId oi, oi_quantity oi, oi_unitPriceCents oi)"

definition hold_view :: "reservation_row \<Rightarrow> uuid \<times> uuid \<times> int \<times> reservation_status \<times> ms" where
  "hold_view r = (rv_orderId r, rv_inventoryId r, rv_quantity r, rv_status r, rv_expiresAt r)"

definition line_item :: "uuid \<Rightarrow> draft_line_view \<Rightarrow> uuid \<times> uuid \<times> uuid \<times> int \<times> int" where
  "line_item ord l = (ord, inv_id (dt_inventory (snd l)), va_id (dt_variant (snd l)),
     li_quantity (fst l), va_priceCents (dt_variant (snd l)))"

definition line_hold :: "uuid \<Rightarrow> ms \<Rightarrow> draft_line_view \<Rightarrow> uuid \<times> uuid \<times> int \<times> reservation_status \<times> ms" where
  "line_hold ord t l = (ord, inv_id (dt_inventory (snd l)), li_quantity (fst l), RsActive, t)"

text \<open>A line that a machine may order: in stock at an enabled slot of it, of an active product.\<close>

definition orderable :: "uuid \<Rightarrow> db \<Rightarrow> draft_line_view \<Rightarrow> bool" where
  "orderable mid db l \<longleftrightarrow> snd l \<in> set (available_rows mid db) \<and>
     inv_id (dt_inventory (snd l)) = li_inventoryId (fst l) \<and> sl_id (dt_slot (snd l)) = li_slotId (fst l) \<and>
     sl_status (dt_slot (snd l)) = SsEnabled \<and> va_status (dt_variant (snd l)) = VaActive \<and>
     pd_status (dt_product (snd l)) = PrActive"

lemma reserve_appends:
  assumes "reserveForOrder e ord item i q t db = Inr db'"
  shows "0 < q \<and> map hold_view (db_reservations db') =
      map hold_view (db_reservations db) @ [(ord, i, q, RsActive, t)] \<and>
    db_orderItems db' = db_orderItems db"
  using assms
  by (auto simp: reserveForOrder_def bindR_eq_Inr insert_active_reservation_def insert_reservation_def
      insert_movement_def hold_view_def split: if_splits dest!: update_inventories_InrD)

lemma draft_line_appends:
  assumes "draft_line e ord t l db = Inr db'"
  shows "0 < li_quantity (fst l) \<and>
    map item_view (db_orderItems db') = map item_view (db_orderItems db) @ [line_item ord l] \<and>
    map hold_view (db_reservations db') = map hold_view (db_reservations db) @ [line_hold ord t l]"
proof -
  obtain item d where l: "l = (item, d)" by (cases l)
  obtain db1 where db1: "insert_item (new_item_row ord item d db) db = Inr db1"
    and "reserveForOrder e ord (Some (db_next db)) (inv_id (dt_inventory d)) (li_quantity item) t db1 = Inr db'"
    using assms by (auto simp: draft_line_def l bindR_eq_Inr)
  from reserve_appends [OF this(2)] db1 show ?thesis
    by (auto simp: insert_item_def new_item_row_def item_view_def line_item_def line_hold_def l
        split: if_splits)
qed

lemma draft_lines_append:
  "foldR (draft_line e ord t) lines db = Inr db' \<Longrightarrow>
   (\<forall>l\<in>set lines. 0 < li_quantity (fst l)) \<and>
   map item_view (db_orderItems db') = map item_view (db_orderItems db) @ map (line_item ord) lines \<and>
   map hold_view (db_reservations db') = map hold_view (db_reservations db) @ map (line_hold ord t) lines"
proof (induction lines arbitrary: db)
  case (Cons l lines)
  then obtain db1 where "draft_line e ord t l db = Inr db1" "foldR (draft_line e ord t) lines db1 = Inr db'"
    by (auto simp: bindR_eq_Inr)
  with Cons.IH [OF this(2)] draft_line_appends [OF this(1)] show ?case by simp
qed simp

lemma mapR_InrD: "mapR f xs = Inr ys \<Longrightarrow> list_all2 (\<lambda>x y. f x = Inr y) xs ys"
  by (induction xs arbitrary: ys) (auto simp: bindR_eq_Inr)

lemma find_line_InrD: "find_line mid db item = Inr d \<Longrightarrow> orderable mid db (item, d)"
  by (auto simp: find_line_def orderable_def dest: find_SomeD split: option.splits if_splits)

lemma draft_details_InrD:
  assumes "draft_details input mid db = Inr lines"
  shows "map fst lines = co_items input \<and> (\<forall>l\<in>set lines. orderable mid db l)"
proof -
  obtain ds where ds: "mapR (find_line mid db) (co_items input) = Inr ds" "lines = zip (co_items input) ds"
    using assms by (auto simp: draft_details_def bindR_eq_Inr)
  from mapR_InrD [OF ds(1)] show ?thesis
    by (auto simp: ds(2) list_all2_iff map_fst_zip intro: find_line_InrD)
qed

lemma order_total_sum:
  "order_total lines = (\<Sum>(item, d)\<leftarrow>lines. va_priceCents (dt_variant d) * li_quantity item)"
proof -
  have "foldl (\<lambda>s (item, d). s + va_priceCents (dt_variant d) * li_quantity item) a lines =
      a + (\<Sum>(item, d)\<leftarrow>lines. va_priceCents (dt_variant d) * li_quantity item)" for a :: int
    by (induction lines arbitrary: a) (auto simp: split_beta)
  from this [of 0] show ?thesis by (simp add: order_total_def)
qed

text \<open>C7: a drafted order is exactly what was asked for: one item and one active hold per line, each
  of a positive quantity, of goods in stock at an enabled slot of that machine and of an active
  product; the order's total and the payment's amount are the sum of price times quantity over the
  lines; order and payment point at each other, and nothing else is added.\<close>

theorem draft_reserves_and_charges:
  assumes "links_ok db" and run: "createLocalMachineOrderDraft e input mid t sel cfg db = Inr (d, db')"
  shows "\<exists>x p lines. db_orders db' = db_orders db @ [x] \<and> db_payments db' = db_payments db @ [p] \<and>
    map fst lines = co_items input \<and> (\<forall>l\<in>set lines. orderable mid db l \<and> 0 < li_quantity (fst l)) \<and>
    map item_view (db_orderItems db') = map item_view (db_orderItems db) @ map (line_item (o_id x)) lines \<and>
    map hold_view (db_reservations db') =
      map hold_view (db_reservations db) @ map (line_hold (o_id x) t) lines \<and>
    o_totalAmountCents x = (\<Sum>(item, l)\<leftarrow>lines. va_priceCents (dt_variant l) * li_quantity item) \<and>
    p_amountCents p = o_totalAmountCents x \<and> p_orderId p = o_id x \<and> o_paymentId x = Some (p_id p) \<and>
    o_status x = OsPendingPayment \<and> p_status p = PayCreated \<and> p_expiresAt p = Some t"
proof -
  from run obtain lines x db1 db2 and pp :: payment_provider_row and p db3
    where details: "draft_details input mid db = Inr lines"
    and x: "x = new_order_row e input mid (order_total lines) db"
    and order: "insert_order x db = Inr db1"
    and drafted: "foldR (draft_line e (o_id x) t) lines db1 = Inr db2"
    and p: "p = new_payment_row e (o_id x) (pp_id pp) cfg (snd sel) (o_totalAmountCents x) t db2"
    and pay: "insert_payment p db2 = Inr db3"
    and last: "db' = log_status (o_id x) None OsPendingPayment ''machine_order_created'' None
      (upd_orders (\<lambda>y. o_id y = o_id x)
        (\<lambda>y. y\<lparr>o_paymentId := Some (p_id p), o_updatedAt := e_now e\<rparr>) db3)"
    by (rule draft_InrE) (rule that)
  have "\<forall>y\<in>set (db_orders db). o_id y \<noteq> o_id x"
    using assms(1) by (auto simp: links_ok_def x new_order_row_def)
  moreover have "db_orders db1 = db_orders db @ [x]" "db_payments db1 = db_payments db"
    "db_orderItems db1 = db_orderItems db" "db_reservations db1 = db_reservations db"
    using order by (auto simp: insert_order_def split: if_splits)
  moreover have "db_orders db2 = db_orders db1" "db_payments db2 = db_payments db1"
    using draft_lines_core [OF drafted] by (simp_all add: core_frame_def core_tables_def)
  moreover have "db3 = db2\<lparr>db_payments := db_payments db2 @ [p], db_next := Suc (db_next db2)\<rparr>"
    using pay by (auto simp: insert_payment_def split: if_splits)
  ultimately have "db_orders db' = db_orders db @ [x\<lparr>o_paymentId := Some (p_id p), o_updatedAt := e_now e\<rparr>]"
    "db_payments db' = db_payments db @ [p]" "db_orderItems db' = db_orderItems db2"
    "db_reservations db' = db_reservations db2" "db_orderItems db1 = db_orderItems db"
    "db_reservations db1 = db_reservations db"
    by (simp_all add: last upd_orders_def log_status_def upd_where_none)
  then show ?thesis
    using draft_details_InrD [OF details] draft_lines_append [OF drafted]
    by (intro exI [of _ "x\<lparr>o_paymentId := Some (p_id p), o_updatedAt := e_now e\<rparr>"] exI [of _ p]
        exI [of _ lines])
      (simp add: x p new_order_row_def new_payment_row_def order_total_sum)
qed

lemma market_draft:
  "case createLocalMachineOrderDraft shop_env market_input 1 901000 (''alipay'', PmPaymentCode) None market_db of
     Inr (d, db') \<Rightarrow> length (db_orders market_db) = 0 \<and> map p_amountCents (db_payments db') = [500]
   | Inl err \<Rightarrow> False"
  by code_simp

theorem draft_reserves_and_charges_witness:
  "\<exists>d db' x. createLocalMachineOrderDraft shop_env market_input 1 901000 (''alipay'', PmPaymentCode) None
     market_db = Inr (d, db') \<and> db_orders db' = [x] \<and> o_totalAmountCents x = 500"
proof -
  obtain d db' where run: "createLocalMachineOrderDraft shop_env market_input 1 901000
      (''alipay'', PmPaymentCode) None market_db = Inr (d, db')" and "db_orders market_db = []"
    and amounts: "map p_amountCents (db_payments db') = [500]"
    using market_draft by (auto split: prod.split_asm sum.split_asm)
  moreover have "links_ok market_db" using market_shop_ok by (simp add: shop_ok_def)
  ultimately obtain x p where "db_orders db' = [x]" "db_payments db' = db_payments market_db @ [p]"
    "p_amountCents p = o_totalAmountCents x"
    using draft_reserves_and_charges [of market_db] by (metis append_Nil)
  then show ?thesis using run amounts by auto
qed

end
