(* ===== verification/Recovery_Properties.thy ===== *)
theory Recovery_Properties
  imports Payment_Properties
begin

text \<open>
  The recovery of an order whose dispensing has no known outcome, as a protocol: someone states the
  physical outcome once; only when goods are confirmed not dispensed may a refund or a compensation
  follow, and only one of them. The rows of \<open>order_recovery_actions\<close> refine it, whatever else happens
  between the phases of an action.
\<close>

subsection \<open>The protocol\<close>

type_synonym recovery_stage =
  "(recovery_action_name \<times> recovery_action_status) option \<times> (recovery_action_name \<times> recovery_action_status) option"

inductive stage_step :: "recovery_stage \<Rightarrow> recovery_stage \<Rightarrow> bool" where
  state_outcome: "physical_outcome a \<Longrightarrow> stage_step (None, r) (Some (a, ReStarted), r)"
| settle_outcome: "s \<noteq> ReStarted \<Longrightarrow> stage_step (Some (a, ReStarted), r) (Some (a, s), r)"
| choose_remedy: "remedy a \<Longrightarrow> stage_step (Some (ConfirmNotDispensed, ReCompleted), None)
    (Some (ConfirmNotDispensed, ReCompleted), Some (a, ReStarted))"
| settle_remedy: "s \<noteq> ReStarted \<Longrightarrow> stage_step (x, Some (a, ReStarted)) (x, Some (a, s))"

definition stage_sound :: "recovery_stage \<Rightarrow> bool" where
  "stage_sound st \<longleftrightarrow> (\<forall>a s. fst st = Some (a, s) \<longrightarrow> physical_outcome a) \<and>
     (snd st \<noteq> None \<longrightarrow> fst st = Some (ConfirmNotDispensed, ReCompleted))"

lemma stage_step_sound: "stage_step st st' \<Longrightarrow> stage_sound st \<Longrightarrow> stage_sound st'"
  by (induction rule: stage_step.induct) (auto simp: stage_sound_def)

lemma stage_run_sound: "stage_step\<^sup>*\<^sup>* (None, None) st \<Longrightarrow> stage_sound st"
proof (induction rule: rtranclp_induct)
  case base
  show ?case by (simp add: stage_sound_def)
next
  case (step st st')
  from step.hyps(2) step.IH show ?case by (rule stage_step_sound)
qed

subsection \<open>The rows\<close>

text \<open>
  A state is the database with the keys of the actions being performed. An action starts in a
  transaction of its own, is performed, and is marked completed or failed by the call that started
  it; in between anything may happen that leaves the rows of the table alone.
\<close>

inductive recovery_step :: "db \<times> uuid set \<Rightarrow> db \<times> uuid set \<Rightarrow> bool" where
  start: "startRecoveryAction e ord adm action why db = (db', Inr (i, c)) \<Longrightarrow>
    recovery_step (db, F) (db', insert i F)"
| refuse: "startRecoveryAction e ord adm action why db = (db', Inl err) \<Longrightarrow>
    recovery_step (db, F) (db', F)"
| complete: "i \<in> F \<Longrightarrow> recovery_step (db, F) (completeRecoveryAction e i db, F - {i})"
| fail: "i \<in> F \<Longrightarrow> recovery_step (db, F) (failRecoveryAction e i db, F - {i})"
| other: "db_recoveryActions db' = db_recoveryActions db \<Longrightarrow> db_next db \<le> db_next db' \<Longrightarrow>
    recovery_step (db, F) (db', F)"

definition action_of :: "uuid \<Rightarrow> (recovery_action_name \<Rightarrow> bool) \<Rightarrow> recovery_action_row list \<Rightarrow>
    (recovery_action_name \<times> recovery_action_status) option" where
  "action_of ord kind rows = map_option (\<lambda>a. (ora_action a, ora_status a))
     (List.find (\<lambda>a. ora_orderId a = ord \<and> kind (ora_action a)) rows)"

definition stage_of :: "uuid \<Rightarrow> db \<Rightarrow> recovery_stage" where
  "stage_of ord db = (action_of ord physical_outcome (db_recoveryActions db),
     action_of ord remedy (db_recoveryActions db))"

definition recovery_ok :: "db \<times> uuid set \<Rightarrow> bool" where
  "recovery_ok s \<longleftrightarrow> no_conflict recovery_conflict (db_recoveryActions (fst s)) \<and>
     distinct (map ora_id (db_recoveryActions (fst s))) \<and>
     (\<forall>a\<in>set (db_recoveryActions (fst s)). ora_id a < db_next (fst s)) \<and>
     (\<forall>i\<in>snd s. \<exists>a\<in>set (db_recoveryActions (fst s)). ora_id a = i \<and> ora_status a = ReStarted)"

lemma kinds: "physical_outcome a \<or> remedy a" "\<not> (physical_outcome a \<and> remedy a)"
  by (cases a; simp add: physical_outcome_def remedy_def)+

lemma recovery_conflict_sym: "recovery_conflict a b = recovery_conflict b a"
  by (auto simp: recovery_conflict_def)

lemma start_InrD:
  assumes "startRecoveryAction e ord adm action why db = (db', Inr (i, c))"
  shows "\<exists>a. db_recoveryActions db' = db_recoveryActions db @ [a] \<and> ora_id a = db_next db \<and> i = ora_id a \<and>
    db_next db' = Suc (db_next db) \<and> ora_orderId a = ord \<and> ora_action a = action \<and> ora_status a = ReStarted \<and>
    \<not> list_ex (recovery_conflict a) (db_recoveryActions db) \<and>
    (remedy action \<longrightarrow> list_ex (\<lambda>a. ora_orderId a = ord \<and> isCompletedAction ConfirmNotDispensed a)
      (db_recoveryActions db))"
proof -
  from assms have run: "start_recovery_tx e ord adm action why db = Inr ((i, c), db')"
    by (auto simp: startRecoveryAction_def atomic_def split: sum.split_asm prod.split_asm)
  then obtain x c' where cmd: "recovery_command action x (order_commands ord db) (recovery_actions ord db)
        (active_refund_exists ord db) = Inr c'"
    and ins: "insert_recovery_action (new_recovery_action e ord (vc_id c') adm action why db) db = Inr (i, db')"
    by (auto simp: start_recovery_tx_def bindR_eq_Inr split: option.split_asm if_split_asm)
  have "remedy action \<longrightarrow> list_ex (isCompletedAction ConfirmNotDispensed) (recovery_actions ord db)"
    using cmd by (auto simp: recovery_command_def split: option.split_asm if_split_asm)
  then show ?thesis using ins
    by (auto simp: insert_recovery_action_def new_recovery_action_def recovery_actions_def list_ex_iff
        split: if_split_asm)
qed

lemma start_InlD: "startRecoveryAction e ord adm action why db = (db', Inl err) \<Longrightarrow> db' = db"
  by (auto simp: startRecoveryAction_def atomic_def split: sum.split_asm prod.split_asm)

subsection \<open>Every step of the rows is one of the protocol\<close>

lemma action_of_append:
  "action_of ord kind (rows @ [a]) = (case action_of ord kind rows of Some x \<Rightarrow> Some x
     | None \<Rightarrow> if ora_orderId a = ord \<and> kind (ora_action a) then Some (ora_action a, ora_status a) else None)"
  by (simp add: action_of_def find_append split: option.split)

lemma action_of_NoneI:
  assumes "\<not> list_ex (recovery_conflict a) rows" and "kind (ora_action a)" and "kind \<in> {physical_outcome, remedy}"
  shows "action_of (ora_orderId a) kind rows = None"
  using assms by (auto simp: action_of_def find_None_iff list_ex_iff recovery_conflict_def)

lemma completed_outcome:
  assumes "no_conflict recovery_conflict rows"
    and "list_ex (\<lambda>a. ora_orderId a = ord \<and> isCompletedAction ConfirmNotDispensed a) rows"
  shows "action_of ord physical_outcome rows = Some (ConfirmNotDispensed, ReCompleted)"
  using assms
proof (induction rows)
  case (Cons a rows)
  show ?case
  proof (cases "ora_orderId a = ord \<and> physical_outcome (ora_action a)")
    case True
    then have "\<not> (ora_orderId b = ord \<and> isCompletedAction ConfirmNotDispensed b)" if "b \<in> set rows" for b
      using Cons.prems(1) that
      by (auto simp: list_ex_iff recovery_conflict_def isCompletedAction_def physical_outcome_def)
    then show ?thesis using Cons.prems(2) True
      by (auto simp: list_ex_iff action_of_def isCompletedAction_def)
  next
    case False
    then have "\<not> (ora_orderId a = ord \<and> isCompletedAction ConfirmNotDispensed a)"
      by (auto simp: isCompletedAction_def physical_outcome_def)
    then show ?thesis using Cons False by (auto simp: action_of_def)
  qed
qed simp

lemma started_step:
  assumes ok: "recovery_ok (db, F)" and run: "startRecoveryAction e ord adm action why db = (db', Inr (i, c))"
  shows "recovery_ok (db', insert i F) \<and> stage_step\<^sup>=\<^sup>= (stage_of x db) (stage_of x db')"
proof -
  obtain a where a: "db_recoveryActions db' = db_recoveryActions db @ [a]" "ora_id a = db_next db" "i = ora_id a"
    "db_next db' = Suc (db_next db)" "ora_orderId a = ord" "ora_action a = action" "ora_status a = ReStarted"
    and free: "\<not> list_ex (recovery_conflict a) (db_recoveryActions db)"
    and first: "remedy action \<Longrightarrow> list_ex (\<lambda>a. ora_orderId a = ord \<and> isCompletedAction ConfirmNotDispensed a)
      (db_recoveryActions db)"
    using start_InrD [OF run] by blast
  have "recovery_ok (db', insert i F)"
    using ok a free by (auto simp: recovery_ok_def no_conflict_append recovery_conflict_sym less_Suc_eq list_ex_iff)
  moreover have "stage_step\<^sup>=\<^sup>= (stage_of x db) (stage_of x db')"
  proof (cases "x = ord")
    case True
    then show ?thesis
    proof (cases "remedy action")
      case True
      have "action_of ord remedy (db_recoveryActions db) = None"
        using action_of_NoneI [OF free, of remedy] a True by simp
      moreover have "action_of ord physical_outcome (db_recoveryActions db) = Some (ConfirmNotDispensed, ReCompleted)"
        using completed_outcome first [OF True] ok by (simp add: recovery_ok_def)
      ultimately show ?thesis using a True \<open>x = ord\<close>
        by (simp add: stage_of_def action_of_append choose_remedy)
    next
      case False
      then have out: "physical_outcome action" using kinds(1) by blast
      have "action_of ord physical_outcome (db_recoveryActions db) = None"
        using action_of_NoneI [OF free, of physical_outcome] a out by simp
      then show ?thesis using a False out \<open>x = ord\<close>
        by (simp add: stage_of_def action_of_append state_outcome split: option.split)
    qed
  next
    case False
    then show ?thesis using a by (simp add: stage_of_def action_of_append split: option.split)
  qed
  ultimately show ?thesis ..
qed

lemma set_status_rows:
  "db_recoveryActions (set_recovery_status e st i db) = upd_where (\<lambda>a. ora_id a = i)
     (\<lambda>a. a\<lparr>ora_status := st, ora_updatedAt := e_now e\<rparr>) (db_recoveryActions db)"
  "db_next (set_recovery_status e st i db) = db_next db"
  by (simp_all add: set_recovery_status_def)

lemma action_of_settle:
  assumes "distinct (map ora_id rows)" and "a \<in> set rows" and "ora_id a = i" and "ora_status a = ReStarted"
  shows "let rows' = upd_where (\<lambda>a. ora_id a = i) (\<lambda>a. a\<lparr>ora_status := st, ora_updatedAt := t\<rparr>) rows
    in action_of ord kind rows' = action_of ord kind rows \<or>
      kind (ora_action a) \<and> action_of ord kind rows = Some (ora_action a, ReStarted) \<and>
      action_of ord kind rows' = Some (ora_action a, st)"
  using assms unfolding Let_def
proof (induction rows)
  case (Cons b rows)
  show ?case
  proof (cases "b = a")
    case True
    then have "upd_where (\<lambda>a. ora_id a = i) (\<lambda>a. a\<lparr>ora_status := st, ora_updatedAt := t\<rparr>) rows = rows"
      using Cons.prems True by (intro upd_where_none) (auto simp: image_iff)
    then show ?thesis using True Cons.prems by (auto simp: action_of_def)
  next
    case False
    then have "ora_id b \<noteq> i" and "a \<in> set rows" using Cons.prems by auto
    then show ?thesis using Cons by (auto simp: action_of_def)
  qed
qed simp

lemma settled_step:
  assumes ok: "recovery_ok (db, F)" and i: "i \<in> F" and st: "st \<noteq> ReStarted"
  shows "recovery_ok (set_recovery_status e st i db, F - {i}) \<and>
    stage_step\<^sup>=\<^sup>= (stage_of x db) (stage_of x (set_recovery_status e st i db))"
proof -
  let ?f = "\<lambda>a. a\<lparr>ora_status := st, ora_updatedAt := e_now e\<rparr>"
  let ?rows = "upd_where (\<lambda>a. ora_id a = i) ?f (db_recoveryActions db)"
  obtain a where a: "a \<in> set (db_recoveryActions db)" "ora_id a = i" "ora_status a = ReStarted"
    using ok i by (auto simp: recovery_ok_def)
  have dist: "distinct (map ora_id (db_recoveryActions db))" using ok by (simp add: recovery_ok_def)
  have "no_conflict recovery_conflict ?rows"
    unfolding upd_where_def using ok
    by (intro no_conflict_map) (auto simp: recovery_ok_def recovery_conflict_def split: if_splits)
  moreover have "map ora_id ?rows = map ora_id (db_recoveryActions db)" by (rule map_upd_where) simp
  moreover have "\<exists>b\<in>set ?rows. ora_id b = j \<and> ora_status b = ReStarted" if "j \<in> F - {i}" for j
  proof -
    obtain b where "b \<in> set (db_recoveryActions db)" "ora_id b = j" "ora_status b = ReStarted"
      using ok \<open>j \<in> F - {i}\<close> by (auto simp: recovery_ok_def)
    then show ?thesis using that unfolding set_upd_where by (intro bexI [of _ b]) (auto simp: image_iff)
  qed
  ultimately have "recovery_ok (set_recovery_status e st i db, F - {i})"
    using ok by (auto simp: recovery_ok_def set_status_rows set_upd_where)
  moreover have "stage_step\<^sup>=\<^sup>= (stage_of x db) (stage_of x (set_recovery_status e st i db))"
    using action_of_settle [OF dist a, where st = st and t = "e_now e" and ord = x and kind = physical_outcome]
      action_of_settle [OF dist a, where st = st and t = "e_now e" and ord = x and kind = remedy] kinds(2) [of "ora_action a"]
    by (auto simp: stage_of_def set_status_rows Let_def intro: settle_outcome settle_remedy st)
  ultimately show ?thesis ..
qed

lemma recovery_simulation:
  assumes "recovery_step s s'" and "recovery_ok s"
  shows "recovery_ok s' \<and> stage_step\<^sup>=\<^sup>= (stage_of x (fst s)) (stage_of x (fst s'))"
  using assms
proof (induction rule: recovery_step.induct)
  case (start e ord adm action why db db' i c F)
  then show ?case using started_step by simp
next
  case (refuse e ord adm action why db db' err F)
  from refuse have "db' = db" by (intro start_InlD)
  then show ?case using refuse by simp
next
  case (complete i F db e)
  then show ?case using settled_step [of db F i ReCompleted e] by (simp add: completeRecoveryAction_def)
next
  case (fail i F db e)
  then show ?case using settled_step [of db F i ReFailed e] by (simp add: failRecoveryAction_def)
next
  case (other db' db F)
  then show ?case by (fastforce simp: recovery_ok_def stage_of_def)
qed

text \<open>C6: the recovery of orders refines its protocol. Whatever actions operators start, in whatever
  order, on however many orders and with the rest of the system running between the phases of an
  action, each order goes through the abstract protocol: one statement of the physical outcome, then,
  only after "not dispensed" was completed, at most one remedy, so never a refund and a compensation,
  and never either of them for goods confirmed as dispensed.\<close>

theorem recovery_refines_protocol:
  assumes "db_recoveryActions db0 = []" and "recovery_step\<^sup>*\<^sup>* (db0, {}) (db, F)"
  shows "stage_step\<^sup>*\<^sup>* (None, None) (stage_of ord db) \<and> stage_sound (stage_of ord db)"
proof -
  have "recovery_ok (db, F) \<and> stage_step\<^sup>*\<^sup>* (stage_of ord db0) (stage_of ord db)"
    using assms(2)
  proof (induction rule: rtranclp_induct2)
    case refl
    show ?case by (simp add: recovery_ok_def assms(1))
  next
    case (step db1 F1 db2 F2)
    then have "recovery_ok (db2, F2)" "stage_step\<^sup>=\<^sup>= (stage_of ord db1) (stage_of ord db2)"
      using recovery_simulation [of "(db1, F1)" "(db2, F2)" ord] by simp_all
    then show ?case using step.IH by (auto intro: rtranclp.rtrancl_into_rtrancl)
  qed
  then have "stage_step\<^sup>*\<^sup>* (None, None) (stage_of ord db)"
    by (simp add: stage_of_def action_of_def assms(1))
  then show ?thesis using stage_run_sound by blast
qed

definition unknown_db :: db where
  "unknown_db = selling_db
     \<lparr>db_orders := [sale_order\<lparr>o_status := OsManualHandling, o_fulfillmentState := FsManualHandling\<rparr>],
      db_commands := [selling_command\<lparr>vc_status := VcResultUnknown\<rparr>]\<rparr>"

definition checked_run :: "db \<times> (api_error + uuid \<times> command_row)" where
  "checked_run = startRecoveryAction shop_env 20 1 ConfirmNotDispensed ''checked'' unknown_db"

definition refund_run :: "db \<times> (api_error + uuid \<times> command_row)" where
  "refund_run = startRecoveryAction shop_env 20 1 RequestRefund ''refund''
     (completeRecoveryAction shop_env 100 (fst checked_run))"

lemma unknown_runs:
  "map_sum id fst (snd checked_run) = Inr 100"
  "map_sum id fst (snd refund_run) = Inr 101"
  "snd (stage_of 20 (fst refund_run)) = Some (RequestRefund, ReStarted)"
  by (code_simp, code_simp, code_simp)

lemma ran: "map_sum id fst (snd r) = Inr k \<Longrightarrow> \<exists>s c. r = (s, Inr (k, c))"
  by (cases r; rename_tac s x; case_tac x) auto

theorem recovery_refines_protocol_witness:
  "\<exists>db F. recovery_step\<^sup>*\<^sup>* (unknown_db, {}) (db, F) \<and> snd (stage_of 20 db) = Some (RequestRefund, ReStarted) \<and>
     stage_sound (stage_of 20 db)"
proof -
  obtain db1 c db2 c2 where one: "checked_run = (db1, Inr (100, c))" and two: "refund_run = (db2, Inr (101, c2))"
    using ran [OF unknown_runs(1)] ran [OF unknown_runs(2)] by blast
  have "recovery_step\<^sup>*\<^sup>* (unknown_db, {}) (completeRecoveryAction shop_env 100 db1, {100} - {100})"
    using recovery_step.start [OF one [unfolded checked_run_def], of "{}"]
      recovery_step.complete [of 100 "{100}"]
    by (meson insertI1 converse_rtranclp_into_rtranclp r_into_rtranclp)
  then have run: "recovery_step\<^sup>*\<^sup>* (unknown_db, {}) (db2, {101})"
    using recovery_step.start [OF two [unfolded refund_run_def one fst_conv], of "{}"]
    by (simp add: rtranclp.rtrancl_into_rtrancl)
  have "db_recoveryActions unknown_db = []"
    by (simp add: unknown_db_def selling_db_def stocked_db_def shop_db_def empty_db_def)
  then show ?thesis using recovery_refines_protocol [OF _ run, of 20] run unknown_runs(3)
    by (auto simp: two)
qed

end
