(* ===== verification/Settlement_Properties.thy ===== *)
theory Settlement_Properties
  imports Payment_Properties
begin

text \<open>
  What a provider's terminal answer does to a sale: a success pays the order and leaves its goods
  held, a failure closes the order and gives back exactly what it held. And how long the code worker
  puts an attempt off.
\<close>

subsection \<open>Giving back what an order holds\<close>

definition held_by :: "uuid \<Rightarrow> reservation_row list \<Rightarrow> reservation_row list" where
  "held_by ord = filter (\<lambda>r. rv_orderId r = ord \<and> rv_status r = RsActive)"

definition reserved_for :: "uuid \<Rightarrow> reservation_row list \<Rightarrow> int" where
  "reserved_for i rows = sum_where (\<lambda>r. rv_inventoryId r = i) rv_quantity rows"

text \<open>The row of an inventory once \<open>q i\<close> of its reserved quantity is given back.\<close>

definition lowered :: "(uuid \<Rightarrow> int) \<Rightarrow> inventory_row list \<Rightarrow> (uuid \<times> int \<times> int) list" where
  "lowered q = map (\<lambda>r. (inv_id r, inv_onHandQty r, inv_reservedQty r - q (inv_id r)))"

lemma held_by_close:
  assumes "distinct (map rv_id rows)" and "held_by ord rows = r # rest" and "st \<noteq> RsActive"
  shows "held_by ord (upd_where (\<lambda>x. rv_id x = rv_id r) (\<lambda>x. x\<lparr>rv_status := st, rv_updatedAt := t\<rparr>) rows) = rest"
  using assms(1,2)
proof (induction rows)
  case (Cons x rows)
  show ?case
  proof (cases "rv_orderId x = ord \<and> rv_status x = RsActive")
    case True
    then have x: "x = r" "held_by ord rows = rest" using Cons.prems by (simp_all add: held_by_def)
    then have "upd_where (\<lambda>x. rv_id x = rv_id r) (\<lambda>x. x\<lparr>rv_status := st, rv_updatedAt := t\<rparr>) rows = rows"
      using Cons.prems by (intro upd_where_none) (auto simp: image_iff)
    then show ?thesis using x assms(3) by (simp add: held_by_def)
  next
    case False
    then have rest: "held_by ord rows = r # rest" using Cons.prems by (auto simp: held_by_def)
    then have "r \<in> set (held_by ord rows)" by simp
    then have "r \<in> set rows" by (simp add: held_by_def)
    then have "rv_id x \<noteq> rv_id r" using Cons.prems by auto
    then show ?thesis using False Cons rest by (simp add: held_by_def)
  qed
qed (simp add: held_by_def)

lemma held_by_find:
  assumes "held_by ord (db_reservations db) = r # rest"
  shows "find_active_reservation ord None (rv_inventoryId r) db = Some r"
proof -
  have "List.find (\<lambda>x. rv_orderId x = ord \<and> rv_inventoryId x = rv_inventoryId r \<and> rv_status x = RsActive) rows
      = Some r" if "held_by ord rows = r # rest" for rows
    using that
  proof (induction rows)
    case (Cons x rows)
    then show ?case by (cases "rv_orderId x = ord \<and> rv_status x = RsActive") (auto simp: held_by_def)
  qed (simp add: held_by_def)
  from this [OF assms] show ?thesis by (simp add: find_active_reservation_def conj_ac)
qed

lemma release_head:
  assumes stock: "distinct (map rv_id (db_reservations db))" "distinct (map inv_id (db_inventories db))"
    and held: "held_by ord (db_reservations db) = r # rest"
    and run: "releaseReservation e ord None (rv_inventoryId r) (rv_quantity r) why db = Inr db'"
  shows "held_by ord (db_reservations db') = rest"
    and "map rv_id (db_reservations db') = map rv_id (db_reservations db)"
    and "lowered q (db_inventories db') =
      lowered (\<lambda>i. (if rv_inventoryId r = i then rv_quantity r else 0) + q i) (db_inventories db)"
proof -
  let ?p = "\<lambda>x. inv_id x = rv_inventoryId r \<and> rv_quantity r \<le> inv_reservedQty x"
  let ?f = "\<lambda>x. x\<lparr>inv_reservedQty := inv_reservedQty x - rv_quantity r, inv_updatedAt := e_now e\<rparr>"
  obtain n db1 where upd: "update_inventories ?p ?f db = Inr (n, db1)" and n: "n = 1"
    and mov: "insert_movement (rv_inventoryId r) 0 MrReservationReleased (Some ord) None (Some why)
      (set_reservation_status e (rv_id r) RsReleased db1) = Inr db'"
    using run by (auto simp: releaseReservation_def held_by_find [OF held] bindR_eq_Inr Let_def
        split: if_split_asm)
  note db1 = update_inventories_InrD [OF upd]
  have db': "db_inventories db' = upd_where ?p ?f (db_inventories db)"
    "db_reservations db' = upd_where (\<lambda>x. rv_id x = rv_id r)
       (\<lambda>x. x\<lparr>rv_status := RsReleased, rv_updatedAt := e_now e\<rparr>) (db_reservations db)"
    using insert_movement_InrD(1,2) [OF mov] db1 by (simp_all add: set_reservation_status_def)
  show "held_by ord (db_reservations db') = rest"
    unfolding db'(2) by (rule held_by_close [OF stock(1) held]) simp
  show "map rv_id (db_reservations db') = map rv_id (db_reservations db)"
    unfolding db'(2) by (rule map_upd_where) simp
  obtain row where row: "row \<in> set (db_inventories db)" "?p row"
    using db1 n count_where_zero [of ?p "db_inventories db"] by fastforce
  have "?p x = (inv_id x = rv_inventoryId r)" if "x \<in> set (db_inventories db)" for x
    using key_unique [OF stock(2) that row(1)] row(2) by auto
  then have rows: "upd_where ?p ?f (db_inventories db) =
      upd_where (\<lambda>x. inv_id x = rv_inventoryId r) ?f (db_inventories db)"
    unfolding upd_where_def by (intro map_cong) simp_all
  show "lowered q (db_inventories db') =
      lowered (\<lambda>i. (if rv_inventoryId r = i then rv_quantity r else 0) + q i) (db_inventories db)"
    unfolding db'(1) rows by (auto simp: lowered_def upd_where_def)
qed

lemma lowered_ids: "map fst (lowered q rows) = map inv_id rows"
  by (simp add: lowered_def)

lemma release_held:
  assumes "foldR (\<lambda>r. releaseReservation e ord None (rv_inventoryId r) (rv_quantity r) why) rs db = Inr db'"
    and "distinct (map rv_id (db_reservations db))" "distinct (map inv_id (db_inventories db))"
    and "held_by ord (db_reservations db) = rs"
  shows "held_by ord (db_reservations db') = [] \<and> lowered (\<lambda>i. 0) (db_inventories db') =
    lowered (\<lambda>i. reserved_for i rs) (db_inventories db)"
  using assms
proof (induction rs arbitrary: db)
  case Nil
  then show ?case by (simp add: reserved_for_def sum_where_def)
next
  case (Cons r rs)
  obtain db1 where one: "releaseReservation e ord None (rv_inventoryId r) (rv_quantity r) why db = Inr db1"
    and more: "foldR (\<lambda>r. releaseReservation e ord None (rv_inventoryId r) (rv_quantity r) why) rs db1 = Inr db'"
    using Cons.prems(1) by (auto simp: bindR_eq_Inr)
  note head = release_head [OF Cons.prems(2,3,4) one]
  have "map inv_id (db_inventories db1) = map inv_id (db_inventories db)"
    using arg_cong [OF head(3), of "map fst"] by (simp add: lowered_ids)
  then have "held_by ord (db_reservations db') = []"
    "lowered (\<lambda>i. 0) (db_inventories db') = lowered (\<lambda>i. reserved_for i rs) (db_inventories db1)"
    using Cons.IH [OF more] Cons.prems(2,3) head(1,2) by simp_all
  moreover have "(\<lambda>i. reserved_for i (r # rs)) =
      (\<lambda>i. (if rv_inventoryId r = i then rv_quantity r else 0) + reserved_for i rs)"
    by (rule ext) (simp add: reserved_for_def sum_where_def)
  ultimately show ?case using head(3) by simp
qed

subsection \<open>The provider's last word\<close>

lemma close_attempt_tables:
  assumes "(case ct of None \<Rightarrow> Inr db | Some ct \<Rightarrow> close_code_attempt e ct db) = Inr db'"
  shows "db_payments db' = db_payments db" "db_orders db' = db_orders db"
    "db_reservations db' = db_reservations db" "db_inventories db' = db_inventories db"
  using assms by (auto simp: close_code_attempt_def update_attempt_def upd_attempts_def
      split: option.split_asm prod.split_asm)

lemma find_updated:
  assumes "distinct (map k rows)" and "r \<in> set rows" and "p r" and "\<And>x. k (f x) = k x" and "k r = i"
  shows "List.find (\<lambda>x. k x = i) (upd_where p f rows) = Some (f r)"
proof (rule find_member)
  show "distinct (map k (upd_where p f rows))" using assms(1,4) by (simp add: map_upd_where)
  show "f r \<in> set (upd_where p f rows)"
    unfolding set_upd_where using assms(2,3) by (intro image_eqI [of _ _ r]) simp_all
qed (simp add: assms)

lemma may_transition_mutable:
  assumes "may_transition e tt p x db" and "p_id p = tt_paymentId tt"
  shows "mutable_payment tt p" and "p_status p \<in> {PayCreated, PayPending, PayProcessing, PayUnknown}"
  using assms by (auto simp: may_transition_def mutable_payment_def canApplyProviderTerminalStatus_def
      PROVIDER_MUTABLE_PAYMENT_STATUSES_def split: option.split_asm)

lemma give_back_id [simp]: "p_id (give_back_lease tt p) = p_id p"
  by (simp add: give_back_lease_def drop_intent_lease_def)

lemma succeed_settles:
  assumes ids: "distinct (map p_id (db_payments db))" "distinct (map o_id (db_orders db))"
    and p: "p \<in> set (db_payments db)" "mutable_payment tt p"
    and x: "x \<in> set (db_orders db)" "o_id x = tt_orderId tt"
    and run: "succeed_payment e tt x db = Inr db'"
  shows "\<exists>q y. find_payment (p_id p) db' = Some q \<and> find_order (o_id x) db' = Some y \<and>
    p_status q = PaySucceeded \<and> o_paymentState y = PsPaid \<and>
    o_status y = projectOrderStatus PsPaid (o_fulfillmentState x) \<and>
    db_reservations db' = db_reservations db \<and> db_inventories db' = db_inventories db"
proof -
  let ?f = "\<lambda>p. (give_back_lease tt p)\<lparr>p_status := PaySucceeded,
      p_paidAt := Some (case tt_occurredAt tt of None \<Rightarrow> e_now e | Some t \<Rightarrow> t), p_failedReason := None,
      p_providerTradeNo := (if present (tt_providerTradeNo tt) then tt_providerTradeNo tt
        else p_providerTradeNo p), p_updatedAt := e_now e\<rparr>"
  let ?g = "\<lambda>y. y\<lparr>o_status := projectOrderStatus PsPaid (o_fulfillmentState x), o_paymentState := PsPaid,
      o_paidAt := Some (case tt_occurredAt tt of None \<Rightarrow> e_now e | Some t \<Rightarrow> t), o_updatedAt := e_now e\<rparr>"
  obtain cs db1 where made: "createPendingDispatchCommands e (tt_orderId tt) db1 = Inr (cs, db')"
    and rest: "db_reservations db1 = db_reservations db" "db_inventories db1 = db_inventories db"
    and pays: "db_payments db1 = upd_where (mutable_payment tt) ?f (db_payments db)"
    and ords: "db_orders db1 = upd_where (\<lambda>y. o_id y = tt_orderId tt) ?g (db_orders db)"
    using run by (auto simp: succeed_payment_def Let_def bindR_eq_Inr upd_payments_def upd_orders_def
        log_status_def split: if_split_asm)
  have same: "db_payments db' = db_payments db1" "db_orders db' = db_orders db1"
    "db_reservations db' = db_reservations db1" "db_inventories db' = db_inventories db1"
    using arg_cong [OF create_commands_outside [OF made], of db_payments]
      arg_cong [OF create_commands_outside [OF made], of db_orders]
      arg_cong [OF create_commands_outside [OF made], of db_reservations]
      arg_cong [OF create_commands_outside [OF made], of db_inventories]
    by (simp_all add: outside_commands_def)
  have "find_payment (p_id p) db' = Some (?f p)"
    unfolding find_payment_def same pays by (rule find_updated [where k = p_id, OF ids(1)]) (use p in simp_all)
  moreover have "find_order (o_id x) db' = Some (?g x)"
    unfolding find_order_def same ords by (rule find_updated [where k = o_id, OF ids(2)]) (use x in simp_all)
  ultimately show ?thesis by (simp add: same rest)
qed

lemma fail_settles:
  assumes ids: "distinct (map p_id (db_payments db))" "distinct (map o_id (db_orders db))"
    and stock: "distinct (map rv_id (db_reservations db))" "distinct (map inv_id (db_inventories db))"
    and p: "p \<in> set (db_payments db)" "mutable_payment tt p"
    and x: "x \<in> set (db_orders db)" "o_id x = tt_orderId tt"
    and run: "fail_payment e tt x db = Inr db'"
  shows "\<exists>q y. find_payment (p_id p) db' = Some q \<and> find_order (o_id x) db' = Some y \<and>
    p_status q = PayFailed \<and> o_status y = OsCanceled \<and> held_by (o_id x) (db_reservations db') = [] \<and>
    lowered (\<lambda>i. 0) (db_inventories db') =
      lowered (\<lambda>i. reserved_for i (held_by (o_id x) (db_reservations db))) (db_inventories db)"
proof -
  let ?f = "\<lambda>p. (give_back_lease tt p)\<lparr>p_status := PayFailed,
      p_failedReason := Some (case tt_failedReason tt of
        None \<Rightarrow> ''provider_reported_failed'' | Some r \<Rightarrow> r), p_updatedAt := e_now e\<rparr>"
  let ?g = "\<lambda>y. y\<lparr>o_status := OsCanceled, o_paymentState := PsPaymentFailed, o_fulfillmentState := FsCanceled,
      o_canceledAt := Some (e_now e), o_updatedAt := e_now e\<rparr>"
  define db1 where "db1 = cancel_unpaid_order e (tt_orderId tt) x (tt_failedOrderEventReason tt)
      (upd_payments (mutable_payment tt) ?f db)"
  have free: "releaseActiveReservationsForOrder e (tt_orderId tt) ''payment_failed'' db1 = Inr db'"
    using run by (simp add: fail_payment_def Let_def db1_def)
  have rest: "db_reservations db1 = db_reservations db" "db_inventories db1 = db_inventories db"
    and pays: "db_payments db1 = upd_where (mutable_payment tt) ?f (db_payments db)"
    and ords: "db_orders db1 = (if o_status x = OsCanceled then db_orders db
      else upd_where (\<lambda>y. o_id y = tt_orderId tt) ?g (db_orders db))"
    by (simp_all add: db1_def cancel_unpaid_order_def upd_payments_def upd_orders_def log_status_def)
  have "core_frame db1 db'"
    using free unfolding releaseActiveReservationsForOrder_def
    by (rule foldR_core) (rule release_core)
  then have same: "db_payments db' = db_payments db1" "db_orders db' = db_orders db1"
    by (simp_all add: core_frame_def core_tables_def)
  have "find_payment (p_id p) db' = Some (?f p)"
    unfolding find_payment_def same pays by (rule find_updated [where k = p_id, OF ids(1)]) (use p in simp_all)
  moreover have "\<exists>y. find_order (o_id x) db' = Some y \<and> o_status y = OsCanceled"
  proof (cases "o_status x = OsCanceled")
    case True
    then show ?thesis unfolding find_order_def same ords
      using find_member [OF ids(2) x(1) refl] by simp
  next
    case False
    have "List.find (\<lambda>y. o_id y = o_id x) (upd_where (\<lambda>y. o_id y = tt_orderId tt) ?g (db_orders db)) = Some (?g x)"
      by (rule find_updated [where k = o_id, OF ids(2)]) (use x in simp_all)
    then show ?thesis unfolding find_order_def same ords using False by simp
  qed
  moreover have "held_by (tt_orderId tt) (db_reservations db') = [] \<and> lowered (\<lambda>i. 0) (db_inventories db') =
      lowered (\<lambda>i. reserved_for i (held_by (tt_orderId tt) (db_reservations db1))) (db_inventories db1)"
    using release_held [OF free [unfolded releaseActiveReservationsForOrder_def, folded held_by_def]] stock
    by (simp add: rest held_by_def)
  ultimately show ?thesis using x(2) rest by fastforce
qed

text \<open>C5: a terminal answer of the provider that is applied settles the whole sale in one step. A
  success marks the payment succeeded and its order paid, and leaves stock and holds alone; a failure
  marks the payment failed and its order canceled, ends every hold of the order, and gives every
  inventory back exactly the quantity this order held of it, moving no stock.\<close>

theorem provider_answer_settles_sale:
  assumes "shop_ok cs0 db" and run: "transitionProviderPaymentTerminal e tt db = Inr (TApplied, db')"
    and pay: "payment_with_order (tt_paymentId tt) db = Some (p, x)" and "tt_orderId tt = o_id x"
  shows "\<exists>q y. find_payment (p_id p) db' = Some q \<and> find_order (o_id x) db' = Some y \<and>
    \<not> settled (p_status p) \<and>
    (if tt_succeeded tt
     then p_status q = PaySucceeded \<and> o_paymentState y = PsPaid \<and>
       o_status y = projectOrderStatus PsPaid (o_fulfillmentState x) \<and>
       db_reservations db' = db_reservations db \<and> db_inventories db' = db_inventories db
     else p_status q = PayFailed \<and> o_status y = OsCanceled \<and>
       held_by (o_id x) (db_reservations db') = [] \<and>
       lowered (\<lambda>i. 0) (db_inventories db') =
         lowered (\<lambda>i. reserved_for i (held_by (o_id x) (db_reservations db))) (db_inventories db))"
  using run
proof (cases rule: transition_InrE)
  case (applied p' x' et db1 db2)
  then have eq: "p' = p" "x' = x" using pay by simp_all
  note row = payment_with_order_SomeD [OF pay]
  have logged: "db_payments db1 = db_payments db" "db_orders db1 = db_orders db"
    "db_reservations db1 = db_reservations db" "db_inventories db1 = db_inventories db"
    using applied(5) record_payment_event_eq [of _ db] by (auto simp: record_payment_event_def split: prod.split_asm)
  have stock: "distinct (map rv_id (db_reservations db1))" "distinct (map inv_id (db_inventories db1))"
    and ids: "distinct (map p_id (db_payments db1))" "distinct (map o_id (db_orders db1))"
    using assms(1) by (simp_all add: logged shop_ok_def sale_ok_def links_ok_def stock_ok_def
        stock_consistent_def reservations_wf_def)
  note open_p = may_transition_mutable [OF applied(4) [unfolded eq]]
  have p: "p \<in> set (db_payments db1)" "mutable_payment tt p" and x: "x \<in> set (db_orders db1)" "o_id x = tt_orderId tt"
    using row open_p assms(4) by (simp_all add: logged)
  have after: "find_payment i db' = find_payment i db2" "find_order i db' = find_order i db2" for i
    using close_attempt_tables [OF applied(7)] by (simp_all add: find_payment_def find_order_def)
  show ?thesis
  proof (cases "tt_succeeded tt")
    case True
    then have "succeed_payment e tt x db1 = Inr db2" using applied(6) eq by simp
    from succeed_settles [OF ids p x this] show ?thesis
      using True after close_attempt_tables [OF applied(7)] open_p(2) row
      by (auto simp: logged settled_def)
  next
    case False
    then have "fail_payment e tt x db1 = Inr db2" using applied(6) eq by simp
    from fail_settles [OF ids stock p x this] show ?thesis
      using False after close_attempt_tables [OF applied(7)] open_p(2) row
      by (auto simp: logged settled_def)
  qed
qed simp

definition unpaid_db :: db where
  "unpaid_db = stocked_db\<lparr>db_payments := [sale_payment\<lparr>p_status := PayPending\<rparr>],
     db_reservations := [shop_reservation\<lparr>rv_orderId := 20\<rparr>],
     db_orders := [sale_order\<lparr>o_status := OsPendingPayment, o_paymentState := PsAwaitingPayment,
        o_fulfillmentState := FsAwaitingFulfillment\<rparr>]\<rparr>"

definition refusal :: terminal_transition where
  "refusal = terminal_update 22 20 False ''event1'' None (Some 23) None None None False None"

lemma unpaid_shop_ok: "shop_ok [] unpaid_db"
proof -
  have "stock_ok unpaid_db"
    by (simp add: unpaid_db_def stocked_db_def shop_defs stock_ok_def stock_consistent_def reservations_wf_def
        movements_wf_def inventory_sound_def inventory_checks_def active_reserved_def ledger_balance_def
        keys_fresh_def INT4_MAX_def)
  then show ?thesis
    by (simp add: shop_ok_def sale_ok_def links_ok_def orders_sound_def refunds_ok_def
        movement_ids_unique_def commands_since_def orders_projected_def order_projected_def
        movement_keys_def projectOrderStatus_def order_paid_by_def
        unpaid_db_def stocked_db_def shop_db_def empty_db_def sale_order_def sale_payment_def)
qed

lemma unpaid_refused:
  "map_sum id fst (transitionProviderPaymentTerminal shop_env refusal unpaid_db) = Inr TApplied"
  "payment_with_order 22 unpaid_db = Some (sale_payment\<lparr>p_status := PayPending\<rparr>, hd (db_orders unpaid_db))"
  by (code_simp, code_simp)

theorem provider_answer_settles_sale_witness:
  "\<exists>db'. transitionProviderPaymentTerminal shop_env refusal unpaid_db = Inr (TApplied, db') \<and>
     map_option p_status (find_payment 22 db') = Some PayFailed \<and> held_by 20 (db_reservations db') = []"
proof -
  obtain db' where run: "transitionProviderPaymentTerminal shop_env refusal unpaid_db = Inr (TApplied, db')"
    using unpaid_refused(1)
    by (cases "transitionProviderPaymentTerminal shop_env refusal unpaid_db") auto
  have ids: "tt_paymentId refusal = 22" "tt_orderId refusal = 20" "\<not> tt_succeeded refusal"
    "o_id (hd (db_orders unpaid_db)) = 20" "p_id sale_payment = 22"
    by (simp_all add: refusal_def terminal_update_def unpaid_db_def sale_order_def sale_payment_def)
  from provider_answer_settles_sale [OF unpaid_shop_ok run _, unfolded ids, OF unpaid_refused(2)]
  show ?thesis using run ids by auto
qed

subsection \<open>How long an attempt is put off\<close>

lemma backoff_bounds:
  assumes "1 \<le> n"
  shows "1000 \<le> backoffMs n" and "backoffMs n \<le> 60000" and "backoffMs n \<le> backoffMs (n + 1)"
proof -
  have "(1::int) \<le> 2 ^ k" for k :: nat by simp
  then show "1000 \<le> backoffMs n" "backoffMs n \<le> 60000" by (simp_all add: backoffMs_def)
  show "backoffMs n \<le> backoffMs (n + 1)"
    unfolding backoffMs_def by (intro min.mono mult_left_mono power_increasing) (use assms in auto)
qed

lemma quiet_conflicts:
  assumes "no_conflict attempt_conflict rows"
    and "\<And>a. a \<in> set rows \<Longrightarrow> p a \<Longrightarrow> attempt_identity (f a) = attempt_identity a \<and> ca_isActive a"
  shows "no_conflict attempt_conflict (upd_where p f rows)"
  unfolding upd_where_def
  by (rule no_conflict_map [OF assms(1)])
    (use assms(2) in \<open>fastforce simp: attempt_conflict_def attempt_identity_def split: if_splits\<close>)

text \<open>An attempt whose provider cannot be reached is put off, never lost: as long as the worker has
  tries left, the attempt stays active, its lease is given back, and it comes due again at one moment
  between one second and one minute later; when the tries are used up it is handed to an operator.\<close>

theorem deferral_is_bounded:
  assumes ok: "links_ok db" and a: "find_attempt i db = Some a" "ca_isActive a"
    and lease: "recoveryLeaseConditions e c a" and n: "1 \<le> ca_recoveryAttemptCount c"
  shows "if ca_recoveryAttemptCount c < RECOVERY_MAX_ATTEMPTS - 1
    then \<exists>db' a' t. defer_error e c msg db = (db', Inr ()) \<and> find_attempt i db' = Some a' \<and>
      ca_isActive a' \<and> ca_leaseOwnerToken a' = None \<and> ca_leaseFence a' = ca_leaseFence a \<and>
      e_now e + 1000 \<le> t \<and> t \<le> e_now e + 60000 \<and> (\<forall>now. due_for_recovery now a' = (t \<le> now))
    else defer_error e c msg db = mark_manual e c ''querying_retries_exhausted'' db"
proof (cases "ca_recoveryAttemptCount c < RECOVERY_MAX_ATTEMPTS - 1")
  case True
  let ?t = "e_now e + backoffMs (ca_recoveryAttemptCount c)"
  let ?f = "\<lambda>a. (drop_lease (unknown_patch e (Some msg) a))\<lparr>ca_status := CaQuerying, ca_isActive := True,
      ca_recoveryNextAt := Some ?t, ca_updatedAt := e_now e\<rparr>"
  from find_SomeD [OF a(1) [unfolded find_attempt_def]]
  have row: "a \<in> set (db_codeAttempts db)" "ca_id a = i" by simp_all
  have dist: "distinct (map ca_id (db_codeAttempts db))" using ok by (simp add: links_ok_def)
  have only: "b = a" if "b \<in> set (db_codeAttempts db)" "recoveryLeaseConditions e c b" for b
    using key_unique [OF dist that(1) row(1)] that(2) lease by (simp add: recoveryLeaseConditions_def)
  have patch: "attempt_identity (?f b) = attempt_identity b" "ca_leaseFence (?f b) = ca_leaseFence b" for b
    by (simp_all add: attempt_identity_def drop_lease_def unknown_patch_def)
  define db' where "db' = upd_attempts (recoveryLeaseConditions e c) ?f db"
  have "no_conflict attempt_conflict (db_codeAttempts db')"
    unfolding db'_def upd_attempts_def using ok only a(2) patch
    by (auto simp: links_ok_def intro!: quiet_conflicts)
  then have "defer_error e c msg db = (db', Inr ())"
    using True by (simp add: defer_error_def deferRecovery_def releaseRecoveryClaim_def checked_attempt_def
        update_attempt_def atomic_def db'_def comp_def Let_def)
  moreover have "find_attempt i db' = Some (?f a)"
    unfolding find_attempt_def db'_def upd_attempts_def
    by (simp, rule find_updated [where k = ca_id, OF dist])
      (use row lease in \<open>simp_all add: drop_lease_def unknown_patch_def\<close>)
  moreover have "due_for_recovery now (?f a) = (?t \<le> now)" for now
    by (simp add: due_for_recovery_def drop_lease_def RECOVERABLE_PAYMENT_CODE_ATTEMPT_STATUSES_def)
  moreover have "e_now e + 1000 \<le> ?t" "?t \<le> e_now e + 60000"
    using backoff_bounds [OF n] by simp_all
  ultimately show ?thesis
    using True patch by (auto simp: drop_lease_def intro!: exI [of _ "?f a"] exI [of _ ?t])
next
  case False
  then show ?thesis by (simp add: defer_error_def deferRecovery_def Let_def attempt_status_string.simps)
qed

theorem deferral_is_bounded_witness:
  "\<exists>db' a'. defer_error shop_env first_claim ''timeout''
       (upd_attempts (\<lambda>a. ca_id a = 100) (\<lambda>a. first_claim) waiting_db) = (db', Inr ()) \<and>
     find_attempt 100 db' = Some a' \<and> ca_isActive a' \<and> ca_leaseOwnerToken a' = None"
proof -
  let ?db = "upd_attempts (\<lambda>a. ca_id a = 100) (\<lambda>a. first_claim) waiting_db"
  have "links_ok ?db"
    using recovery_claimD(2) [OF waiting_links waiting_claims(1)] .
  moreover have "find_attempt 100 ?db = Some first_claim \<and> ca_isActive first_claim \<and>
      recoveryLeaseConditions shop_env first_claim first_claim \<and>
      1 \<le> ca_recoveryAttemptCount first_claim \<and>
      ca_recoveryAttemptCount first_claim < RECOVERY_MAX_ATTEMPTS - 1"
    by code_simp
  ultimately show ?thesis
    using deferral_is_bounded [of ?db 100 first_claim shop_env first_claim "''timeout''"] by auto
qed

end
