(* ===== verification/Planograms.thy ===== *)
theory Planograms
  imports Stock_Movements
begin

text \<open>
  \<open>machines/machines.service.ts\<close>: the planogram of a machine, which product every slot sells.
  An administrator publishes a version, the machine reads the newest published one and acknowledges
  it, and the acknowledgement makes it the active version and empties the inventories whose product
  changes (\<open>remapInventoriesToActivePlanogramInTx\<close>).

  A \<open>MachinePlanogramSlot\<close> is the row it is stored as, whose two keys are set on insertion. The
  updates that \<open>Promise.all\<close> issues inside one transaction are run one row after the other; they
  touch different rows. The audit log is not modelled.
\<close>

subsection \<open>Publication\<close>

definition find_live_machine :: "(machine_row \<Rightarrow> bool) \<Rightarrow> db \<Rightarrow> api_error + machine_row" where
  "find_live_machine p db =
     (case List.find (\<lambda>m. p m \<and> m_deletedAt m = None) (db_machines db) of
        None \<Rightarrow> Inl (NotFoundException ''Machine not found'') | Some m \<Rightarrow> Inr m)"

definition text_within :: "string \<Rightarrow> nat \<Rightarrow> planogram_slot_row \<Rightarrow> bool" where
  "text_within field most s = (case map_of (pg_texts s) field of
     Some (Some t) \<Rightarrow> 1 \<le> length t \<and> length t \<le> most | _ \<Rightarrow> False)"

definition planogram_slot_valid :: "planogram_slot_row \<Rightarrow> bool" where
  "planogram_slot_valid s \<longleftrightarrow>
     isValidMachineSlotCoordinate (Some (IntNum (pg_rowNo s))) (Some (IntNum (pg_cellNo s))) \<and>
     0 \<le> pg_capacity s \<and> 0 \<le> pg_parLevel s \<and> 0 \<le> pg_priceCents s \<and>
     (case pg_coverImageUrl s of Some (OtherReference _) \<Rightarrow> False | _ \<Rightarrow> True) \<and>
     pg_targetGender s \<in> {None, Some ''male'', Some ''female''} \<and>
     text_within ''productName'' 128 s \<and> text_within ''sku'' 64 s"

definition planogram_input_valid :: "string \<Rightarrow> planogram_slot_row list \<Rightarrow> bool" where
  "planogram_input_valid version slots \<longleftrightarrow> 1 \<le> length version \<and> length version \<le> 128 \<and>
     slots \<noteq> [] \<and> list_all planogram_slot_valid slots"

definition machineManagedMediaReference :: "uuid option \<Rightarrow> media_reference option" where
  "machineManagedMediaReference = map_option ManagedMedia"

definition canonicalManagedMediaReference :: "media_reference option \<Rightarrow> media_reference option" where
  "canonicalManagedMediaReference reference =
     (case reference of Some (ManagedMedia i) \<Rightarrow> Some (ManagedMedia i) | _ \<Rightarrow> None)"

definition display_image :: "db \<Rightarrow> product_row \<Rightarrow> uuid option" where
  "display_image db pd = map_option mas_id (List.find (\<lambda>a. pd_displayImageMediaAssetId pd = Some (mas_id a) \<and>
     mas_purpose a = ''product_display_image'' \<and> mas_deletedAt a = None) (db_mediaAssets db))"

definition withCanonicalPlanogramCoverImages ::
    "db \<Rightarrow> planogram_slot_row list \<Rightarrow> planogram_slot_row list" where
  "withCanonicalPlanogramCoverImages db slots =
     (let variantIds = map pg_variantId slots;
          coverImageUrls = [(pd_id pd, machineManagedMediaReference (display_image db pd)).
            v \<leftarrow> db_variants db, pd \<leftarrow> db_products db, pd_id pd = va_productId v \<and>
            va_id v \<in> set variantIds \<and> va_deletedAt v = None \<and> pd_deletedAt pd = None] in
      if variantIds = [] then slots
      else map (\<lambda>s. s\<lparr>pg_coverImageUrl :=
             Option.bind (map_of (rev coverImageUrls) (pg_productId s)) id\<rparr>) slots)"

definition planogramSlotValues :: "uuid \<Rightarrow> uuid \<Rightarrow> planogram_slot_row \<Rightarrow> planogram_slot_row" where
  "planogramSlotValues versionId key slot =
     slot\<lparr>pg_id := key, pg_machinePlanogramVersionId := versionId\<rparr>"

definition planogram_version_draft :: "env \<Rightarrow> uuid \<Rightarrow> string \<Rightarrow> db \<Rightarrow> planogram_version_row" where
  "planogram_version_draft e machineId version db =
     \<lparr>pv_id = db_next db, pv_machineId = machineId, pv_planogramVersion = version,
      pv_status = PgPublished, pv_publishedAt = e_now e, pv_acknowledgedAt = None,
      pv_activeAt = None, pv_updatedAt = e_now e\<rparr>"

text \<open>The \<open>integer\<close> columns hold 32 bits; the two unique indexes of the tables.\<close>

definition planogram_columns_fit :: "planogram_slot_row \<Rightarrow> bool" where
  "planogram_columns_fit s \<longleftrightarrow> pg_capacity s \<le> INT4_MAX \<and> pg_parLevel s \<le> INT4_MAX \<and>
     pg_priceCents s \<le> INT4_MAX \<and> \<bar>pg_productSortOrder s\<bar> \<le> INT4_MAX"

definition insert_planogram ::
    "env \<Rightarrow> uuid \<Rightarrow> string \<Rightarrow> planogram_slot_row list \<Rightarrow> db \<Rightarrow> api_error + planogram_version_row \<times> db"
  where
  "insert_planogram e machineId version slots db =
     (let row = planogram_version_draft e machineId version db in
      if find_version machineId version db \<noteq> None
      then Inl (ConstraintViolation ''machine_planogram_versions_machine_version_unique'')
      else if \<not> list_all planogram_columns_fit slots then Inl (OtherError ''22003'')
      else if \<not> distinct (map pg_slotId slots)
      then Inl (ConstraintViolation ''machine_planogram_slots_version_slot_unique'')
      else Inr (row, db\<lparr>db_planogramVersions := db_planogramVersions db @ [row],
             db_planogramSlots := db_planogramSlots db @
               map (\<lambda>(i, s). planogramSlotValues (pv_id row) i s) (enumerate (Suc (db_next db)) slots),
             db_next := Suc (db_next db) + length slots\<rparr>))"

record planogram_snapshot =
  pn_machineId :: uuid
  pn_machineCode :: string
  pn_version :: planogram_version_row
  pn_slots :: "planogram_slot_row list"

definition planogramVersionSnapshot ::
    "machine_row \<Rightarrow> planogram_version_row \<Rightarrow> planogram_slot_row list \<Rightarrow> planogram_snapshot" where
  "planogramVersionSnapshot m version slots =
     \<lparr>pn_machineId = m_id m, pn_machineCode = m_code m, pn_version = version, pn_slots = slots\<rparr>"

definition publishMachinePlanogramVersion ::
    "env \<Rightarrow> uuid \<Rightarrow> string \<Rightarrow> planogram_slot_row list \<Rightarrow> db \<Rightarrow> db \<times> (api_error + planogram_snapshot)"
  where
  "publishMachinePlanogramVersion e machineId version slots db =
     (if \<not> planogram_input_valid version slots then (db, Inl ZodError)
      else case find_live_machine (\<lambda>m. m_id m = machineId) db of
        Inl err \<Rightarrow> (db, Inl err)
      | Inr m \<Rightarrow>
         (let slotIds = remdups (map pg_slotId slots);
              owned = filter (\<lambda>s. sl_machineId s = m_id m \<and> sl_id s \<in> set slotIds \<and>
                sl_deletedAt s = None) (db_slots db);
              canonical = withCanonicalPlanogramCoverImages db slots in
          if length owned \<noteq> length slotIds
          then (db, Inl (BadRequestException ''Planogram slots must belong to the target machine''))
          else bindS (atomic (insert_planogram e (m_id m) version canonical) db)
            (\<lambda>created db1. (db1, Inr (planogramVersionSnapshot m created canonical)))))"

subsection \<open>What the machine and the administrator read\<close>

fun latest_version :: "planogram_version_row list \<Rightarrow> planogram_version_row option" where
  "latest_version [] = None"
| "latest_version (v # vs) = Some (foldl (\<lambda>b w. if pv_publishedAt b < pv_publishedAt w then w else b) v vs)"

definition planogramSlotSnapshot :: "planogram_slot_row \<Rightarrow> planogram_slot_row" where
  "planogramSlotSnapshot row = row\<lparr>pg_targetGender :=
     (if pg_targetGender row \<in> {Some ''male'', Some ''female''} then pg_targetGender row else None)\<rparr>"

definition planogramSlotSnapshotForMachine :: "planogram_slot_row \<Rightarrow> planogram_slot_row" where
  "planogramSlotSnapshotForMachine row = (planogramSlotSnapshot row)
     \<lparr>pg_coverImageUrl := canonicalManagedMediaReference (pg_coverImageUrl row)\<rparr>"

text \<open>Sorting by three columns: the last one first, each sort being stable.\<close>

definition getPublishedPlanogramByMachineCode ::
    "string \<Rightarrow> db \<Rightarrow> api_error + planogram_snapshot option" where
  "getPublishedPlanogramByMachineCode code db =
     bindR (find_live_machine (\<lambda>m. m_code m = code) db) (\<lambda>m.
       let mine = (\<lambda>st. filter (\<lambda>v. pv_machineId v = m_id m \<and> pv_status v = st)
             (db_planogramVersions db)) in
       case (case latest_version (mine PgPublished) of None \<Rightarrow> latest_version (mine PgActive) | Some v \<Rightarrow> Some v) of
         None \<Rightarrow> Inr None
       | Some version \<Rightarrow> Inr (Some (planogramVersionSnapshot m version
           (map planogramSlotSnapshotForMachine
             (sort_key pg_productSortOrder (sort_key pg_rowNo (sort_key pg_cellNo
               (filter (\<lambda>s. pg_machinePlanogramVersionId s = pv_id version)
                 (db_planogramSlots db)))))))))"

definition getMachinePlanogramVersions ::
    "uuid \<Rightarrow> db \<Rightarrow> api_error + string option \<times> planogram_snapshot list" where
  "getMachinePlanogramVersions machineId db =
     bindR (find_live_machine (\<lambda>m. m_id m = machineId) db) (\<lambda>m.
       let versions = sort_key (\<lambda>v. - pv_publishedAt v)
             (filter (\<lambda>v. pv_machineId v = m_id m) (db_planogramVersions db)) in
       Inr (map_option pv_planogramVersion (List.find (\<lambda>v. pv_status v = PgActive) versions),
            map (\<lambda>v. planogramVersionSnapshot m v []) versions))"

subsection \<open>Acknowledgement\<close>

definition planogram_mismatches ::
    "uuid \<Rightarrow> uuid \<Rightarrow> db \<Rightarrow> (planogram_slot_row \<times> inventory_row) list" where
  "planogram_mismatches machineId versionId db =
     [(s, r). s \<leftarrow> db_planogramSlots db, r \<leftarrow> db_inventories db,
        inv_slotId r = pg_slotId s \<and> pg_machinePlanogramVersionId s = versionId \<and>
        inv_machineId r = machineId \<and> inv_variantId r \<noteq> pg_variantId s]"

definition remap_inventory ::
    "env \<Rightarrow> string \<Rightarrow> planogram_slot_row \<times> inventory_row \<Rightarrow> db \<Rightarrow> api_error + db" where
  "remap_inventory e version = (\<lambda>(s, r) db.
     bindR (update_inventories (\<lambda>x. inv_id x = pg_inventoryId s \<and> inv_slotId x = pg_slotId s)
        (\<lambda>x. x\<lparr>inv_variantId := pg_variantId s, inv_onHandQty := 0, inv_reservedQty := 0,
               inv_updatedAt := e_now e\<rparr>) db)
     (\<lambda>(_, db1). insert_movement (pg_inventoryId s) (- inv_onHandQty r) MrHardwareSync None None
        (Some (''planogram_remap:'' @ version))
        (db1\<lparr>db_reservations := upd_where (\<lambda>v. rv_inventoryId v = pg_inventoryId s \<and>
                 rv_status v = RsActive)
               (\<lambda>v. v\<lparr>rv_status := RsReleased, rv_updatedAt := e_now e\<rparr>)
               (db_reservations db1)\<rparr>)))"

definition remapInventoriesToActivePlanogramInTx ::
    "env \<Rightarrow> uuid \<Rightarrow> uuid \<Rightarrow> string \<Rightarrow> db \<Rightarrow> api_error + db" where
  "remapInventoriesToActivePlanogramInTx e machineId versionId version db =
     foldR (remap_inventory e version) (planogram_mismatches machineId versionId db) db"

definition unfinished_command :: "uuid \<Rightarrow> command_row \<Rightarrow> bool" where
  "unfinished_command machineId c \<longleftrightarrow> vc_machineId c = machineId \<and>
     vc_status c \<in> {VcPending, VcSent, VcAcknowledged, VcResultUnknown, VcTimeout}"

definition upd_versions ::
    "(planogram_version_row \<Rightarrow> bool) \<Rightarrow> (planogram_version_row \<Rightarrow> planogram_version_row) \<Rightarrow> db \<Rightarrow> db"
  where
  "upd_versions p f db = db\<lparr>db_planogramVersions := upd_where p f (db_planogramVersions db)\<rparr>"

definition activate_version :: "env \<Rightarrow> planogram_version_row \<Rightarrow> planogram_version_row" where
  "activate_version e v = v\<lparr>pv_status := PgActive, pv_acknowledgedAt := Some (e_now e),
     pv_activeAt := Some (e_now e), pv_updatedAt := e_now e\<rparr>"

definition retire_active :: "env \<Rightarrow> uuid \<Rightarrow> db \<Rightarrow> db" where
  "retire_active e machineId = upd_versions
     (\<lambda>v. pv_machineId v = machineId \<and> pv_status v = PgActive)
     (\<lambda>v. v\<lparr>pv_status := PgRetired, pv_updatedAt := e_now e\<rparr>)"

definition acknowledge_tx ::
    "env \<Rightarrow> uuid \<Rightarrow> string \<Rightarrow> db \<Rightarrow> api_error + planogram_version_row \<times> db" where
  "acknowledge_tx e machineId version db =
     bindR (lockMachineForVendingMutation machineId db) (\<lambda>_.
       case find_version machineId version db of
         None \<Rightarrow> Inl (NotFoundException ''Machine planogram version not found'')
       | Some target \<Rightarrow>
          if pv_status target = PgActive then Inr (target, db)
          else if pv_status target \<noteq> PgPublished
          then Inl (NotFoundException ''Machine planogram version not found'')
          else if list_ex (unfinished_command machineId) (db_commands db)
          then Inl (ConflictException (''Cannot switch active planogram while a dispense '' @
            ''command has an unresolved physical result''))
          else
           (let hit = (\<lambda>v. pv_machineId v = machineId \<and> pv_id v = pv_id target \<and>
                  pv_status v = PgPublished);
                db1 = retire_active e machineId db in
            case List.find hit (db_planogramVersions db1) of
              Some v \<Rightarrow> bindR (remapInventoriesToActivePlanogramInTx e machineId (pv_id v)
                     (pv_planogramVersion v) (upd_versions hit (activate_version e) db1))
                   (\<lambda>db2. Inr (activate_version e v, db2))
            | None \<Rightarrow> (case find_version machineId version db1 of
                  Some repeatedAck \<Rightarrow> if pv_status repeatedAck = PgActive then Inr (repeatedAck, db1)
                    else Inl (NotFoundException ''Machine planogram version not found'')
                | None \<Rightarrow> Inl (NotFoundException ''Machine planogram version not found''))))"

definition acknowledgeMachinePlanogramVersion ::
    "env \<Rightarrow> string \<Rightarrow> string \<Rightarrow> db \<Rightarrow> db \<times> (api_error + planogram_snapshot)" where
  "acknowledgeMachinePlanogramVersion e code version db =
     (case find_live_machine (\<lambda>m. m_code m = code) db of
        Inl err \<Rightarrow> (db, Inl err)
      | Inr m \<Rightarrow> bindS (atomic (acknowledge_tx e (m_id m) version) db)
          (\<lambda>activated db1. (db1, Inr (planogramVersionSnapshot m activated []))))"

end
