(* ===== verification/Planogram_Properties.thy ===== *)
theory Planogram_Properties
  imports Planograms Movement_Properties
begin

text \<open>
  What switching the planogram of a machine does to its stock: the books stay sound as long as the
  version names, for every slot, the inventory of that slot (\<open>planogram_aligned\<close>).
\<close>

subsection \<open>One inventory\<close>

definition off_stock :: "db \<Rightarrow> db" where
  "off_stock db = db\<lparr>db_inventories := [], db_reservations := [], db_movements := [], db_next := 0\<rparr>"

definition remapped :: "env \<Rightarrow> planogram_slot_row \<Rightarrow> inventory_row \<Rightarrow> inventory_row" where
  "remapped e s x = x\<lparr>inv_variantId := pg_variantId s, inv_onHandQty := 0, inv_reservedQty := 0,
     inv_updatedAt := e_now e\<rparr>"

lemma remapped_simps [simp]:
  "inv_id (remapped e s x) = inv_id x" "inv_slotId (remapped e s x) = inv_slotId x"
  "inv_machineId (remapped e s x) = inv_machineId x" "inv_variantId (remapped e s x) = pg_variantId s"
  "inv_onHandQty (remapped e s x) = 0" "inv_reservedQty (remapped e s x) = 0"
  "inv_lowStockThreshold (remapped e s x) = inv_lowStockThreshold x"
  by (simp_all add: remapped_def)

definition closed_holds :: "env \<Rightarrow> uuid \<Rightarrow> reservation_row list \<Rightarrow> reservation_row list" where
  "closed_holds e i = upd_where (\<lambda>v. rv_inventoryId v = i \<and> rv_status v = RsActive)
     (\<lambda>v. v\<lparr>rv_status := RsReleased, rv_updatedAt := e_now e\<rparr>)"

lemma closed_holds_active:
  "active_reserved (closed_holds e i rvs) j = (if j = i then 0 else active_reserved rvs j)"
proof -
  have "active_reserved (closed_holds e i rvs) j = active_reserved rvs j -
      sum_where (\<lambda>r. (rv_inventoryId r = i \<and> rv_status r = RsActive) \<and>
        rv_inventoryId r = j \<and> rv_status r = RsActive) rv_quantity rvs"
    unfolding closed_holds_def by (rule active_closed) simp
  moreover have "sum_where (\<lambda>r. (rv_inventoryId r = i \<and> rv_status r = RsActive) \<and>
        rv_inventoryId r = j \<and> rv_status r = RsActive) rv_quantity rvs =
      (if j = i then active_reserved rvs j else 0)"
    unfolding active_reserved_def by (cases "j = i") (auto intro: sum_where_cong sum_where_zero)
  ultimately show ?thesis by simp
qed

text \<open>Within the table an inventory is its key, so the guard on the slot picks the same row.\<close>

lemma update_inventories_cong:
  assumes "\<And>r. r \<in> set (db_inventories db) \<Longrightarrow> p r = q r"
  shows "update_inventories p f db = update_inventories q f db"
proof -
  have "upd_where p f rows = upd_where q f rows \<and> count_where p rows = count_where q rows \<and>
      list_all (\<lambda>r. p r \<longrightarrow> c r) rows = list_all (\<lambda>r. q r \<longrightarrow> c r) rows"
    if "\<And>r. r \<in> set rows \<Longrightarrow> p r = q r" for rows c
    using that by (induction rows) auto
  from this [OF assms] show ?thesis by (simp add: update_inventories_def)
qed

lemma remap_keeps:
  assumes ok: "stock_ok db" and r: "r \<in> set (db_inventories db)"
    and al: "pg_inventoryId s = inv_id r" "pg_slotId s = inv_slotId r"
  obtains db' where "remap_inventory e v (s, r) db = Inr db'" and "stock_ok db'"
    and "db_inventories db' = upd_where (\<lambda>x. inv_id x = inv_id r) (remapped e s) (db_inventories db)"
    and "db_reservations db' = closed_holds e (inv_id r) (db_reservations db)"
    and "off_stock db' = off_stock db" and "db_next db \<le> db_next db'"
proof -
  have cons: "stock_consistent (db_inventories db) (db_reservations db) (db_movements db)"
    and keys: "keys_fresh db" using ok by (simp_all add: stock_ok_def)
  have dist: "distinct (map inv_id (db_inventories db))" using cons by (simp add: stock_consistent_def)
  let ?p = "\<lambda>x. inv_id x = inv_id r"
  let ?invs = "upd_where ?p (remapped e s) (db_inventories db)"
  have same: "(inv_id x = pg_inventoryId s \<and> inv_slotId x = pg_slotId s) = ?p x"
    if "x \<in> set (db_inventories db)" for x
    using key_unique [OF dist that r] al by auto
  have sound: "inventory_checks x" if "x \<in> set (db_inventories db)" for x
    using cons that by (simp add: stock_consistent_def inventory_sound_def)
  have upd: "update_inventories (\<lambda>x. inv_id x = pg_inventoryId s \<and> inv_slotId x = pg_slotId s)
      (remapped e s) db = Inr (count_where ?p (db_inventories db), db\<lparr>db_inventories := ?invs\<rparr>)"
    using sound by (subst update_inventories_cong [of db _ ?p, OF same])
      (auto simp: update_inventories_def list_all_iff inventory_checks_def INT4_MAX_def)
  let ?m = "\<lparr>mv_id = db_next db, mv_inventoryId = inv_id r, mv_deltaQty = - inv_onHandQty r,
      mv_reason = MrHardwareSync, mv_orderId = None, mv_operatorAdminUserId = None,
      mv_note = Some (''planogram_remap:'' @ v)\<rparr>"
  let ?d = "db\<lparr>db_inventories := ?invs,
      db_reservations := closed_holds e (inv_id r) (db_reservations db),
      db_movements := db_movements db @ [?m], db_next := Suc (db_next db)\<rparr>"
  have "inv_id r \<in> inv_id ` set ?invs" using r by (simp add: inv_id_upd)
  then have run: "remap_inventory e v (s, r) db = Inr ?d"
    using upd by (simp add: remap_inventory_def remapped_def [symmetric] insert_movement_def
        inventory_exists_iff al closed_holds_def)
  have "stock_consistent ?invs (closed_holds e (inv_id r) (db_reservations db)) (db_movements db @ [?m])"
  proof (rule consistent_update [OF cons r])
    show "reservations_wf (db_inventories db) (closed_holds e (inv_id r) (db_reservations db))"
      unfolding closed_holds_def using cons by (simp add: stock_consistent_def reservations_wf_closed)
    show "movements_wf (db_inventories db) (db_movements db @ [?m])"
      using cons r by (auto simp: stock_consistent_def)
    show "inventory_sound (closed_holds e (inv_id r) (db_reservations db)) (db_movements db @ [?m]) (remapped e s r)"
      if "inventory_sound (db_reservations db) (db_movements db) r"
      using that by (simp add: inventory_sound_def inventory_checks_def closed_holds_active INT4_MAX_def)
  qed (auto simp: closed_holds_active)
  moreover have "keys_fresh ?d"
    using keys by (auto simp: keys_fresh_def set_upd_where closed_holds_def less_Suc_eq)
  ultimately have okd: "stock_ok ?d" by (simp add: stock_ok_def)
  show ?thesis by (rule that [OF run okd]) (simp_all add: off_stock_def)
qed

subsection \<open>All inventories of the version\<close>

text \<open>
  The rows to remap, one per inventory: an inventory is emptied and its holds are closed, the others
  are left alone.
\<close>

definition remap_result ::
    "env \<Rightarrow> (planogram_slot_row \<times> inventory_row) list \<Rightarrow> db \<Rightarrow> db \<Rightarrow> bool" where
  "remap_result e ms db db' \<longleftrightarrow>
    (\<forall>x\<in>set (db_inventories db). inv_id x \<notin> (\<lambda>(s, r). inv_id r) ` set ms \<longrightarrow> x \<in> set (db_inventories db')) \<and>
    (\<forall>(s, r)\<in>set ms. remapped e s r \<in> set (db_inventories db')) \<and>
    map inv_id (db_inventories db') = map inv_id (db_inventories db) \<and>
    (\<forall>j. active_reserved (db_reservations db') j =
       (if j \<in> (\<lambda>(s, r). inv_id r) ` set ms then 0 else active_reserved (db_reservations db) j))"

lemma remap_resultD:
  assumes "remap_result e ms db db'"
  shows "\<And>x. x \<in> set (db_inventories db) \<Longrightarrow> inv_id x \<notin> (\<lambda>(s, r). inv_id r) ` set ms \<Longrightarrow>
      x \<in> set (db_inventories db')"
    and "\<And>s r. (s, r) \<in> set ms \<Longrightarrow> remapped e s r \<in> set (db_inventories db')"
    and "map inv_id (db_inventories db') = map inv_id (db_inventories db)"
    and "\<And>j. active_reserved (db_reservations db') j =
       (if j \<in> (\<lambda>(s, r). inv_id r) ` set ms then 0 else active_reserved (db_reservations db) j)"
  using assms unfolding remap_result_def by blast+

lemma remap_all:
  assumes "stock_ok db"
    and "\<And>s r. (s, r) \<in> set ms \<Longrightarrow> r \<in> set (db_inventories db) \<and> pg_inventoryId s = inv_id r \<and>
      pg_slotId s = inv_slotId r"
    and "distinct (map (\<lambda>(s, r). inv_id r) ms)"
  shows "\<exists>db'. foldR (remap_inventory e v) ms db = Inr db' \<and> stock_ok db' \<and>
    off_stock db' = off_stock db \<and> db_next db \<le> db_next db' \<and> remap_result e ms db db'"
  unfolding remap_result_def using assms
proof (induction ms arbitrary: db)
  case Nil
  then show ?case by simp
next
  case (Cons m ms)
  obtain s r where m: "m = (s, r)" by (cases m)
  have r: "r \<in> set (db_inventories db)" "pg_inventoryId s = inv_id r" "pg_slotId s = inv_slotId r"
    using Cons.prems(2) [of s r] by (simp_all add: m)
  obtain db1 where one: "remap_inventory e v (s, r) db = Inr db1" "stock_ok db1"
    and invs: "db_inventories db1 = upd_where (\<lambda>x. inv_id x = inv_id r) (remapped e s) (db_inventories db)"
    and rvs: "db_reservations db1 = closed_holds e (inv_id r) (db_reservations db)"
    and off: "off_stock db1 = off_stock db" "db_next db \<le> db_next db1"
    using remap_keeps [OF Cons.prems(1) r] by blast
  have other: "x \<in> set (db_inventories db1)" if "x \<in> set (db_inventories db)" "inv_id x \<noteq> inv_id r" for x
    unfolding invs set_upd_where by (rule image_eqI [OF _ that(1)]) (simp add: that(2))
  have here: "remapped e s r \<in> set (db_inventories db1)"
    unfolding invs set_upd_where by (rule image_eqI [OF _ r(1)]) simp
  have fresh: "inv_id r \<notin> (\<lambda>(s, r). inv_id r) ` set ms" using Cons.prems(3) by (simp add: m)
  have "r' \<in> set (db_inventories db1) \<and> pg_inventoryId s' = inv_id r' \<and> pg_slotId s' = inv_slotId r'"
    if "(s', r') \<in> set ms" for s' r'
    using Cons.prems(2) [of s' r'] other that fresh by force
  then obtain db' where rest: "foldR (remap_inventory e v) ms db1 = Inr db'" "stock_ok db'"
      "off_stock db' = off_stock db1" "db_next db1 \<le> db_next db'"
    and keep: "\<And>x. x \<in> set (db_inventories db1) \<Longrightarrow> inv_id x \<notin> (\<lambda>(s, r). inv_id r) ` set ms \<Longrightarrow>
        x \<in> set (db_inventories db')"
    and hit: "\<forall>(s, r)\<in>set ms. remapped e s r \<in> set (db_inventories db')"
    and ids: "map inv_id (db_inventories db') = map inv_id (db_inventories db1)"
    and act: "\<And>j. active_reserved (db_reservations db') j =
       (if j \<in> (\<lambda>(s, r). inv_id r) ` set ms then 0 else active_reserved (db_reservations db1) j)"
    using Cons.IH [OF one(2)] Cons.prems(3) by (auto simp: m)
  have "map inv_id (db_inventories db1) = map inv_id (db_inventories db)"
    unfolding invs by (rule map_upd_where) simp
  then show ?case
    using one(1) rest off other here fresh keep [OF here] keep hit ids
    by (auto simp: m act rvs closed_holds_active)
qed

subsection \<open>Aligned versions\<close>

text \<open>
  A version is aligned when each of its slots that exists in the stock of the machine names the
  inventory of that slot. The unique index on version and slot is what \<open>insert_planogram\<close> checks.
\<close>

definition version_slots :: "uuid \<Rightarrow> db \<Rightarrow> planogram_slot_row list" where
  "version_slots versionId db =
     filter (\<lambda>s. pg_machinePlanogramVersionId s = versionId) (db_planogramSlots db)"

definition planogram_aligned :: "uuid \<Rightarrow> uuid \<Rightarrow> db \<Rightarrow> bool" where
  "planogram_aligned machineId versionId db \<longleftrightarrow>
     list_all (\<lambda>(s, r). pg_inventoryId s = inv_id r) (planogram_mismatches machineId versionId db) \<and>
     distinct (map pg_slotId (version_slots versionId db))"

lemma mismatch_member:
  "(s, r) \<in> set (planogram_mismatches mid vid db) \<longleftrightarrow> s \<in> set (version_slots vid db) \<and>
     r \<in> set (db_inventories db) \<and> inv_slotId r = pg_slotId s \<and> inv_machineId r = mid \<and>
     inv_variantId r \<noteq> pg_variantId s"
  by (auto simp: planogram_mismatches_def version_slots_def)

lemma distinct_join:
  assumes ids: "distinct (map inv_id rs)" and slots: "distinct (map pg_slotId (filter V ss))"
    and C: "\<And>s r. C s r \<Longrightarrow> V s \<and> inv_slotId r = pg_slotId s"
  shows "distinct (map (\<lambda>(s, r). inv_id r) [(s, r). s \<leftarrow> ss, r \<leftarrow> rs, C s r])"
  using slots
proof (induction ss)
  case Nil
  then show ?case by simp
next
  case (Cons a ss)
  let ?rest = "[(s, r). s \<leftarrow> ss, r \<leftarrow> rs, C s r]"
  have here: "[(a, r). r \<leftarrow> rs, C a r] = map (Pair a) (filter (C a) rs)" for rs
    by (induction rs) auto
  have "inv_id r \<noteq> inv_id r'" if "r \<in> set rs" "C a r" "(s, r') \<in> set ?rest" for s r r'
  proof
    assume "inv_id r = inv_id r'"
    moreover have r': "r' \<in> set rs" "C s r'" "s \<in> set ss" using that(3) by auto
    ultimately have "r = r'" using key_unique [OF ids that(1), of r'] by simp
    then have "pg_slotId a = pg_slotId s" "V a" "V s" using C [OF that(2)] C [OF r'(2)] by auto
    then show False using Cons.prems r'(3) by (auto simp: image_iff)
  qed
  moreover have "distinct (map inv_id (filter (C a) rs))"
    using ids by (rule distinct_map_filter)
  moreover have "distinct (map (\<lambda>(s, r). inv_id r) ?rest)"
    using Cons by (simp split: if_split_asm)
  moreover have f: "(\<lambda>(s :: planogram_slot_row, r). inv_id r) = (\<lambda>m. inv_id (snd m))"
    by (simp add: fun_eq_iff split_beta)
  ultimately show ?case unfolding f by (auto simp: here comp_def)
qed

lemma mismatches_distinct:
  assumes "distinct (map pg_slotId (version_slots vid db))" and "distinct (map inv_id (db_inventories db))"
  shows "distinct (map (\<lambda>(s, r). inv_id r) (planogram_mismatches mid vid db))"
  unfolding planogram_mismatches_def
  by (rule distinct_join [OF assms(2) assms(1) [unfolded version_slots_def]]) simp

subsection \<open>Switching the planogram\<close>

lemma find_version_SomeD:
  "find_version mid v db = Some t \<Longrightarrow>
   t \<in> set (db_planogramVersions db) \<and> pv_machineId t = mid \<and> pv_planogramVersion t = v"
  by (auto simp: find_version_def dest: find_SomeD)

lemma find_by_key:
  assumes "distinct (map k rows)" and "x \<in> set rows" and "p x" and "\<And>y. p y \<Longrightarrow> k y = k x"
  shows "List.find p rows = Some x"
  using assms
proof (induction rows)
  case (Cons a rows)
  show ?case
  proof (cases "a = x")
    case False
    then have "x \<in> set rows" using Cons.prems(2) by simp
    have "k a \<noteq> k x" using Cons.prems(1) \<open>x \<in> set rows\<close> by (auto intro: rev_image_eqI)
    then have "\<not> p a" using Cons.prems(4) by blast
    moreover have "List.find p rows = Some x"
      by (rule Cons.IH [OF _ \<open>x \<in> set rows\<close> Cons.prems(3,4)]) (use Cons.prems(1) in simp_all)
    ultimately show ?thesis by simp
  qed (simp add: Cons.prems(3))
qed simp

text \<open>The transaction on a published version.\<close>

definition switched :: "env \<Rightarrow> uuid \<Rightarrow> planogram_version_row \<Rightarrow> db \<Rightarrow> db" where
  "switched e mid t db = upd_versions (\<lambda>v. pv_machineId v = mid \<and> pv_id v = pv_id t \<and>
     pv_status v = PgPublished) (activate_version e) (retire_active e mid db)"

lemma switched_tables [simp]:
  "db_inventories (switched e mid t db) = db_inventories db"
  "db_reservations (switched e mid t db) = db_reservations db"
  "db_movements (switched e mid t db) = db_movements db"
  "db_planogramSlots (switched e mid t db) = db_planogramSlots db"
  "db_next (switched e mid t db) = db_next db"
  by (simp_all add: switched_def upd_versions_def retire_active_def)

lemma switched_stock_ok [simp]: "stock_ok (switched e mid t db) = stock_ok db"
  by (simp add: stock_ok_def keys_fresh_def)

lemma acknowledge_published:
  assumes t: "find_version mid ver db = Some t" "pv_status t = PgPublished"
    and ids: "distinct (map pv_id (db_planogramVersions db))"
    and m: "lockMachineForVendingMutation mid db = Inr ()"
    and idle: "\<not> list_ex (unfinished_command mid) (db_commands db)"
  shows "acknowledge_tx e mid ver db =
    bindR (remapInventoriesToActivePlanogramInTx e mid (pv_id t) ver (switched e mid t db))
      (\<lambda>db'. Inr (activate_version e t, db'))"
proof -
  have t': "t \<in> set (db_planogramVersions db)" "pv_machineId t = mid" "pv_planogramVersion t = ver"
    using find_version_SomeD [OF t(1)] by auto
  let ?rows = "db_planogramVersions (retire_active e mid db)"
  have "distinct (map pv_id ?rows)"
    using ids by (simp add: retire_active_def upd_versions_def map_upd_where)
  moreover have "t \<in> set ?rows"
    unfolding retire_active_def upd_versions_def by (simp add: set_upd_where image_iff) (use t' t(2) in force)
  ultimately have "List.find (\<lambda>v. pv_machineId v = mid \<and> pv_id v = pv_id t \<and> pv_status v = PgPublished)
      ?rows = Some t"
    by (rule find_by_key) (use t t' in auto)
  then show ?thesis using t t'(3) idle m by (simp add: acknowledge_tx_def switched_def)
qed

lemma switched_active:
  assumes ids: "distinct (map pv_id (db_planogramVersions db))" and t: "t \<in> set (db_planogramVersions db)"
    and pub: "pv_machineId t = mid" "pv_status t = PgPublished"
  shows "filter (\<lambda>w. pv_machineId w = mid \<and> pv_status w = PgActive)
      (db_planogramVersions (switched e mid t db)) = [activate_version e t]"
proof -
  let ?P = "\<lambda>w. pv_machineId w = mid \<and> pv_status w = PgActive"
  let ?retire = "\<lambda>v. if ?P v then v\<lparr>pv_status := PgRetired, pv_updatedAt := e_now e\<rparr> else v"
  let ?g = "\<lambda>v. if pv_machineId (?retire v) = mid \<and> pv_id (?retire v) = pv_id t \<and>
      pv_status (?retire v) = PgPublished then activate_version e (?retire v) else ?retire v"
  have rows: "db_planogramVersions (switched e mid t db) = map ?g (db_planogramVersions db)"
    by (simp add: switched_def upd_versions_def retire_active_def upd_where_def comp_def)
  have "?P (?g v) = (pv_id v = pv_id t)" if "v \<in> set (db_planogramVersions db)" for v
  proof (cases "pv_id v = pv_id t")
    case True
    then show ?thesis using key_unique [OF ids that t] pub by (simp add: activate_version_def)
  qed (simp add: activate_version_def)
  then have "filter (\<lambda>v. ?P (?g v)) (db_planogramVersions db) = [t]"
    using filter_key_unique [OF ids t] by (simp cong: filter_cong)
  then show ?thesis using pub by (simp add: rows filter_map comp_def)
qed

lemma off_stock_tables:
  assumes "off_stock db' = off_stock db"
  shows "db_planogramVersions db' = db_planogramVersions db" "db_planogramSlots db' = db_planogramSlots db"
    "db_commands db' = db_commands db" "db_orders db' = db_orders db"
  using arg_cong [OF assms, of db_planogramVersions] arg_cong [OF assms, of db_planogramSlots]
    arg_cong [OF assms, of db_commands] arg_cong [OF assms, of db_orders]
  by (simp_all add: off_stock_def)

text \<open>Where the switch leaves a row.\<close>

lemma remap_origin:
  assumes res: "remap_result e ms db db'" and r: "r \<in> set (db_inventories db')"
    and dist: "distinct (map inv_id (db_inventories db))"
    and ms: "\<And>s r. (s, r) \<in> set ms \<Longrightarrow> r \<in> set (db_inventories db)"
  shows "r \<in> set (db_inventories db) \<and> inv_id r \<notin> (\<lambda>(s, r). inv_id r) ` set ms \<or>
    (\<exists>s r1. (s, r1) \<in> set ms \<and> r = remapped e s r1)"
proof -
  have ids: "map inv_id (db_inventories db') = map inv_id (db_inventories db)"
    by (rule remap_resultD(3) [OF res])
  then have dist': "distinct (map inv_id (db_inventories db'))" using dist by simp
  have "inv_id r \<in> set (map inv_id (db_inventories db))" using r unfolding ids [symmetric] by simp
  then obtain r0 where r0: "r0 \<in> set (db_inventories db)" "inv_id r0 = inv_id r" by auto
  show ?thesis
  proof (cases "inv_id r0 \<in> (\<lambda>(s, r). inv_id r) ` set ms")
    case True
    then obtain s1 r1 where s1: "(s1, r1) \<in> set ms" "inv_id r1 = inv_id r0" by auto
    then have "remapped e s1 r1 \<in> set (db_inventories db')" using remap_resultD(2) [OF res] by blast
    then have "r = remapped e s1 r1" by (rule key_unique [OF dist' r]) (simp add: r0(2) s1(2))
    then show ?thesis using s1(1) by blast
  next
    case False
    then have "r0 \<in> set (db_inventories db')" by (rule remap_resultD(1) [OF res r0(1)])
    then have "r = r0" by (rule key_unique [OF dist' r]) (simp add: r0(2))
    then show ?thesis using False r0(1) by blast
  qed
qed

lemma remap_variant:
  assumes res: "remap_result e (planogram_mismatches mid vid db) db db'"
    and dist: "distinct (map inv_id (db_inventories db))"
    and slots: "distinct (map pg_slotId (version_slots vid db))"
    and s: "s \<in> set (version_slots vid db)" and r: "r \<in> set (db_inventories db')"
    and at: "inv_slotId r = pg_slotId s" "inv_machineId r = mid"
  shows "inv_variantId r = pg_variantId s"
proof -
  from remap_origin [OF res r dist] consider
      "r \<in> set (db_inventories db)" "inv_id r \<notin> (\<lambda>(s, r). inv_id r) ` set (planogram_mismatches mid vid db)"
    | s1 r1 where "(s1, r1) \<in> set (planogram_mismatches mid vid db)" "r = remapped e s1 r1"
    by (auto simp: mismatch_member)
  then show ?thesis
  proof cases
    case 1
    then have "(s, r) \<notin> set (planogram_mismatches mid vid db)" by force
    then show ?thesis using 1(1) s at by (simp add: mismatch_member)
  next
    case 2
    then have "s1 \<in> set (version_slots vid db)" "pg_slotId s1 = pg_slotId s"
      using at by (simp_all add: mismatch_member)
    then have "s1 = s" using key_unique [OF slots _ s] by simp
    with 2 show ?thesis by simp
  qed
qed

lemma remap_fate:
  assumes res: "remap_result e (planogram_mismatches mid vid db) db db'"
    and dist: "distinct (map inv_id (db_inventories db))" and r: "r \<in> set (db_inventories db)"
  shows "r \<in> set (db_inventories db') \<and>
      active_reserved (db_reservations db') (inv_id r) = active_reserved (db_reservations db) (inv_id r)
    \<or> (\<exists>r'\<in>set (db_inventories db'). inv_id r' = inv_id r \<and> inv_variantId r' \<noteq> inv_variantId r \<and>
        inv_onHandQty r' = 0 \<and> active_reserved (db_reservations db') (inv_id r) = 0)"
proof (cases "inv_id r \<in> (\<lambda>(s, r). inv_id r) ` set (planogram_mismatches mid vid db)")
  case True
  then obtain s1 r1 where s1: "(s1, r1) \<in> set (planogram_mismatches mid vid db)" "inv_id r1 = inv_id r" by auto
  then have "r1 = r" using key_unique [OF dist _ r] by (simp add: mismatch_member)
  then have in': "remapped e s1 r \<in> set (db_inventories db')" and v: "inv_variantId r \<noteq> pg_variantId s1"
    using s1(1) remap_resultD(2) [OF res, of s1 r] by (simp_all add: mismatch_member)
  have "active_reserved (db_reservations db') (inv_id r) = 0"
    by (simp only: remap_resultD(4) [OF res] True if_True)
  then show ?thesis using v by (intro disjI2 bexI [OF _ in']) simp
next
  case False
  then have "r \<in> set (db_inventories db')" by (rule remap_resultD(1) [OF res r])
  moreover have "active_reserved (db_reservations db') (inv_id r) = active_reserved (db_reservations db) (inv_id r)"
    by (simp only: remap_resultD(4) [OF res] False if_False)
  ultimately show ?thesis by blast
qed


definition second_version :: planogram_version_row where
  "second_version = \<lparr>pv_id = 62, pv_machineId = 1, pv_planogramVersion = ''v2'', pv_status = PgPublished,
     pv_publishedAt = 500, pv_acknowledgedAt = None, pv_activeAt = None, pv_updatedAt = 500\<rparr>"

definition second_slot :: planogram_slot_row where
  "second_slot = \<lparr>pg_id = 63, pg_machinePlanogramVersionId = 62, pg_slotId = 2, pg_rowNo = 1, pg_cellNo = 1,
     pg_capacity = 8, pg_parLevel = 4, pg_inventoryId = 3, pg_variantId = 11, pg_productId = 12,
     pg_coverImageUrl = None, pg_priceCents = 300, pg_productSortOrder = 0, pg_targetGender = None,
     pg_texts = [(''productName'', Some ''Tea''), (''sku'', Some ''T1'')]\<rparr>"

definition replanned_db :: db where
  "replanned_db = stocked_db
     \<lparr>db_planogramVersions := db_planogramVersions stocked_db @ [second_version],
      db_planogramSlots := db_planogramSlots stocked_db @ [second_slot]\<rparr>"


end
