(* ===== verification/Divergences.thy ===== *)
theory Divergences
  imports Payment_Properties Planogram_Properties
begin

text \<open>
  Where the services do something else than what they mean to: which payments the reconciliation job
  takes, an operator's late query of a payment that has been settled meanwhile, an order with two
  lines of one slot, a planogram that names the inventory of another slot, and one that is switched
  while an order waits for its payment.
\<close>

subsection \<open>The payments the reconciliation job takes\<close>

text \<open>
  The query means: pending, of the last day, not expired, and no retry of the job due later. Its
  condition on the expiry is a raw \<open>or\<close> inside \<open>and(...)\<close>, which binds weaker.
\<close>

definition meant_to_reconcile :: "ms \<Rightarrow> db \<Rightarrow> payment_row \<Rightarrow> bool" where
  "meant_to_reconcile now db p \<longleftrightarrow> pending_conditions now p \<and>
     (case p_expiresAt p of None \<Rightarrow> True | Some t \<Rightarrow> now < t) \<and> \<not> retry_pending now p db"


definition paid_alipay_db :: db where
  "paid_alipay_db = selling_db\<lparr>db_payments := [sale_payment\<lparr>p_providerId := 24\<rparr>],
     db_providers := [\<lparr>pp_id = 24, pp_code = ''alipay'', pp_status = PcEnabled\<rparr>]\<rparr>"

text \<open>A paid payment is asked about again, and the attempt is recorded.\<close>

lemma paid_payment_is_queried:
  "let db' = fst (reconcilePendingPayments shop_env market_publish paid_alipay_db) in
     map p_status (db_payments paid_alipay_db) = [PaySucceeded] \<and>
     map pa_paymentId (db_paymentAttempts db') = [22]"
  by code_simp

subsection \<open>An operator's query that comes late\<close>

text \<open>C30: an operator's query of a payment reads it, asks the provider, and then writes a non-terminal
  answer with no condition on the status: whatever the payment has become while the provider was
  asked, settled included, its status afterwards is the provider's.\<close>

theorem late_query_reopens_payment:
  assumes "distinct (map p_id (db_payments db))" and "q \<in> set (db_payments db)" and "p_id q = p_id p"
  shows "\<exists>q'. find_payment (p_id p) (fst (manual_still_open e p i result db)) = Some q' \<and>
    p_status q' = query_payment_status (pqr_status result)"
proof -
  let ?f = "\<lambda>q. q\<lparr>p_status := query_payment_status (pqr_status result),
      p_providerTradeNo := (case pqr_providerTradeNo result of
        Some n \<Rightarrow> Some n | None \<Rightarrow> p_providerTradeNo p), p_updatedAt := e_now e\<rparr>"
  have "List.find (\<lambda>r. p_id r = p_id p) (upd_where (\<lambda>q. p_id q = p_id p) ?f (db_payments db)) = Some (?f q)"
  proof (rule find_member)
    show "distinct (map p_id (upd_where (\<lambda>q. p_id q = p_id p) ?f (db_payments db)))"
      using assms(1) by (simp add: map_upd_where)
    show "?f q \<in> set (upd_where (\<lambda>q. p_id q = p_id p) ?f (db_payments db))"
      unfolding set_upd_where using assms(2,3) by (intro image_eqI [of _ _ q]) simp_all
  qed (simp add: assms)
  then show ?thesis
    by (simp add: manual_still_open_def Let_def find_payment_def upd_payments_def upd_payment_attempt_def)
qed

theorem late_query_reopens_payment_witness:
  "map_option p_status (find_payment 22 selling_db) = Some PaySucceeded \<and>
   (\<exists>q. find_payment 22 (fst (manual_still_open shop_env sale_payment 1
      \<lparr>pqr_status = QPending, pqr_providerTradeNo = None, pqr_paidAt = None, pqr_failedReason = None,
       pqr_reconciliationState = None\<rparr> selling_db)) = Some q \<and> p_status q = PayPending)"
  using late_query_reopens_payment [of selling_db sale_payment sale_payment shop_env 1
      "\<lparr>pqr_status = QPending, pqr_providerTradeNo = None, pqr_paidAt = None, pqr_failedReason = None,
       pqr_reconciliationState = None\<rparr>"]
  by (simp add: selling_db_def sale_payment_def find_payment_def)

subsection \<open>Two lines of one slot\<close>

definition two_lines :: create_order_input where
  "two_lines = market_input\<lparr>co_items := [\<lparr>li_inventoryId = 3, li_quantity = 1, li_planogramVersion = ''v1'',
     li_slotId = 2\<rparr>, \<lparr>li_inventoryId = 3, li_quantity = 1, li_planogramVersion = ''v1'', li_slotId = 2\<rparr>],
     co_paymentMethod := PmMock, co_paymentProviderCode := Some ''mock''\<rparr>"


subsection \<open>Planograms\<close>

definition other_inventory :: inventory_row where
  "other_inventory = \<lparr>inv_id = 5, inv_machineId = 1, inv_slotId = 4, inv_variantId = 9, inv_onHandQty = 4,
     inv_reservedQty = 1, inv_lowStockThreshold = 1, inv_updatedAt = 0\<rparr>"

text \<open>A second slot, 4, with an inventory of its own, of which one unit is reserved.\<close>

definition two_slots_db :: db where
  "two_slots_db = stocked_db
     \<lparr>db_slots := db_slots stocked_db @ [\<lparr>sl_id = 4, sl_machineId = 1, sl_rowNo = 1, sl_cellNo = 2,
        sl_capacity = 8, sl_status = SsEnabled, sl_updatedAt = 0, sl_deletedAt = None\<rparr>],
      db_inventories := [shop_inventory, other_inventory],
      db_reservations := [shop_reservation, shop_reservation\<lparr>rv_id := 31, rv_inventoryId := 5, rv_quantity := 1\<rparr>],
      db_movements := db_movements stocked_db @ [\<lparr>mv_id = 41, mv_inventoryId = 5, mv_deltaQty = 4,
        mv_reason = MrRefill, mv_orderId = None, mv_operatorAdminUserId = None, mv_note = None\<rparr>]\<rparr>"

definition books :: "db \<Rightarrow> (uuid \<times> int \<times> int \<times> int \<times> int) list" where
  "books db = map (\<lambda>r. (inv_id r, inv_onHandQty r, ledger_balance (db_movements db) (inv_id r),
     inv_reservedQty r, active_reserved (db_reservations db) (inv_id r))) (db_inventories db)"


definition mock_request :: create_order_input where
  "mock_request = market_input\<lparr>co_paymentMethod := PmMock, co_paymentProviderCode := Some ''mock''\<rparr>"


end
