(* ===== verification/Js_Text.thy ===== *)
theory Js_Text
  imports Notifications
begin

text \<open>
  \<open>String.prototype.toUpperCase\<close> on strings whose code units are below 256: the sharp s becomes two
  letters (the two letters whose upper case lies above the range are left alone), and lemmas on
  \<open>trim\<close>.
\<close>

definition upper_text :: "char \<Rightarrow> string" where
  "upper_text c = (let n = of_char c :: nat in
     if 97 \<le> n \<and> n \<le> 122 \<or> 224 \<le> n \<and> n \<le> 254 \<and> n \<noteq> 247 then [char_of (n - 32)]
     else if n = 223 then ''SS'' else [c])"

definition js_toUpperCase :: "string \<Rightarrow> string" where
  "js_toUpperCase s = concat (map upper_text s)"

text \<open>The alphabet \<open>[A-Z0-9]\<close>.\<close>

definition upper_alnum :: "char \<Rightarrow> bool" where
  "upper_alnum c \<longleftrightarrow> (let n = of_char c :: nat in 65 \<le> n \<and> n \<le> 90 \<or> 48 \<le> n \<and> n \<le> 57)"

lemma upper_alnum_upper: "upper_alnum c \<Longrightarrow> upper_text c = [c]"
  by (auto simp: upper_alnum_def upper_text_def Let_def)

lemma upper_alnum_not_space: "upper_alnum c \<Longrightarrow> \<not> js_space c"
  by (auto simp: upper_alnum_def js_space_def Let_def)

lemma js_trim_none:
  assumes "s = [] \<or> (\<not> js_space (hd s) \<and> \<not> js_space (last s))"
  shows "js_trim s = s"
proof -
  have "dropWhile js_space s = s" using assms by (auto simp: dropWhile_eq_self_iff)
  moreover have "dropWhile js_space (rev s) = rev s" using assms by (auto simp: dropWhile_eq_self_iff hd_rev)
  ultimately show ?thesis by (simp add: js_trim_def)
qed

lemma js_toUpperCase_id: "list_all (\<lambda>c. upper_text c = [c]) s \<Longrightarrow> js_toUpperCase s = s"
  by (induction s) (auto simp: js_toUpperCase_def)

end
