(* ===== verification/Stock_Reconciliation.thy ===== *)
theory Stock_Reconciliation
  imports Stock_Movements Js_Text
begin

text \<open>
  \<open>inventory/stock-reconciliation.repository.ts\<close>, \<open>stock-reconciliation.service.ts\<close>: the reports of
  machines that were put aside wait as open cases, in two tables. An operator lists them, and
  rejects the report or corrects the stock of the slot by hand.

  A left join is on a unique key, so it finds one row or none. The resolution reads its case and the
  inventory before it writes, and only its writes are conditional: it is a read (\<open>findCaseById\<close>) and
  a transaction whose case may be stale. The column \<open>status\<close> of a conflict is always
  \<open>reconciliation\<close> (no operation writes it). The audit log is not modelled.
\<close>

subsection \<open>Cases\<close>

datatype case_table = RawMovements | MovementConflicts

record recon_case =
  sc_id :: uuid
  sc_caseTable :: case_table
  sc_rawMovementId :: "uuid option"
  sc_machineId :: uuid
  sc_machineCode :: string
  sc_movementId :: string
  sc_receivedAt :: ms
  sc_status :: raw_status
  sc_reconciliationReason :: "recon_reason option"
  sc_platformReviewStatus :: "review_status option"
  sc_saleSafetyBlockerState :: "blocker_state option"
  sc_saleSafetyBlockerSlotId :: "uuid option"
  sc_payloadJson :: raw_movement
  sc_normalizedJson :: metadata
  sc_inventoryId :: "uuid option"
  sc_onHandQty :: "int option"
  sc_reservedQty :: "int option"
  sc_slotStatus :: "slot_status option"
  sc_linkedOrderId :: "uuid option"
  sc_linkedOrderNo :: "string option"
  sc_linkedCommandId :: "uuid option"
  sc_linkedCommandNo :: "string option"

text \<open>The joins of both selections, and \<open>toCaseRow\<close>, which falls back on the payload.\<close>

definition coalesce :: "'a option \<Rightarrow> 'a \<Rightarrow> 'a" where
  "coalesce v d = (case v of None \<Rightarrow> d | Some x \<Rightarrow> x)"

definition coalesceO :: "'a option \<Rightarrow> 'a option \<Rightarrow> 'a option" where
  "coalesceO v d = (case v of None \<Rightarrow> d | Some x \<Rightarrow> Some x)"

definition toCaseRow :: "db \<Rightarrow> recon_case \<Rightarrow> recon_case" where
  "toCaseRow db c =
     (let oc = rm_orderContext (sc_payloadJson c);
          slotId = coalesce (sc_saleSafetyBlockerSlotId c) (rm_slotId (sc_payloadJson c));
          slot = List.find (\<lambda>s. sl_id s = slotId) (db_slots db);
          stock = List.find (\<lambda>r. inv_machineId r = sc_machineId c \<and> inv_slotId r = slotId)
            (db_inventories db);
          ord = List.find (\<lambda>x. o_machineId x = sc_machineId c \<and>
            map_option oc_orderNo oc = Some (o_orderNo x)) (db_orders db);
          cmd = Option.bind ord (\<lambda>x. List.find (\<lambda>v. vc_orderId v = o_id x \<and>
            map_option oc_vendingCommandNo oc = Some (vc_commandNo v)) (db_commands db)) in
      c\<lparr>sc_inventoryId := map_option inv_id stock, sc_onHandQty := map_option inv_onHandQty stock,
        sc_reservedQty := map_option inv_reservedQty stock, sc_slotStatus := map_option sl_status slot,
        sc_linkedOrderId := map_option o_id ord,
        sc_linkedOrderNo := coalesceO (map_option o_orderNo ord) (map_option oc_orderNo oc),
        sc_linkedCommandId := map_option vc_id cmd,
        sc_linkedCommandNo := coalesceO (map_option vc_commandNo cmd) (map_option oc_vendingCommandNo oc)\<rparr>)"

definition blank_case :: "uuid \<Rightarrow> uuid \<Rightarrow> string \<Rightarrow> raw_movement \<Rightarrow> recon_case" where
  "blank_case i mid code m =
     \<lparr>sc_id = i, sc_caseTable = RawMovements, sc_rawMovementId = None, sc_machineId = mid,
      sc_machineCode = code, sc_movementId = rm_movementId m, sc_receivedAt = 0,
      sc_status = RwReconciliation, sc_reconciliationReason = None, sc_platformReviewStatus = None,
      sc_saleSafetyBlockerState = None, sc_saleSafetyBlockerSlotId = None, sc_payloadJson = m,
      sc_normalizedJson = [], sc_inventoryId = None, sc_onHandQty = None, sc_reservedQty = None,
      sc_slotStatus = None, sc_linkedOrderId = None, sc_linkedOrderNo = None,
      sc_linkedCommandId = None, sc_linkedCommandNo = None\<rparr>"

definition rawCaseSelection :: "(raw_movement_row \<Rightarrow> bool) \<Rightarrow> db \<Rightarrow> recon_case list" where
  "rawCaseSelection p db =
     [toCaseRow db ((blank_case (rw_id r) (rw_machineId r) (m_code m) (rw_payloadJson r))
        \<lparr>sc_movementId := rw_movementId r, sc_receivedAt := rw_receivedAt r, sc_status := rw_status r,
         sc_reconciliationReason := rw_reconciliationReason r,
         sc_platformReviewStatus := rw_platformReviewStatus r,
         sc_saleSafetyBlockerState := rw_saleSafetyBlockerState r,
         sc_saleSafetyBlockerSlotId := rw_saleSafetyBlockerSlotId r,
         sc_normalizedJson := rw_normalizedJson r\<rparr>).
        r \<leftarrow> filter p (db_rawMovements db), m \<leftarrow> db_machines db, m_id m = rw_machineId r]"

definition conflictCaseSelection :: "(raw_conflict_row \<Rightarrow> bool) \<Rightarrow> db \<Rightarrow> recon_case list" where
  "conflictCaseSelection p db =
     [toCaseRow db ((blank_case (cf_id r) (cf_machineId r) (m_code m) (cf_payloadJson r))
        \<lparr>sc_caseTable := MovementConflicts, sc_rawMovementId := Some (cf_rawMovementId r),
         sc_movementId := cf_movementId r, sc_receivedAt := cf_receivedAt r,
         sc_reconciliationReason := Some (cf_reconciliationReason r),
         sc_platformReviewStatus := Some (cf_platformReviewStatus r),
         sc_saleSafetyBlockerState := cf_saleSafetyBlockerState r,
         sc_saleSafetyBlockerSlotId := cf_saleSafetyBlockerSlotId r,
         sc_normalizedJson := cf_normalizedJson r\<rparr>).
        r \<leftarrow> filter p (db_rawConflicts db), m \<leftarrow> db_machines db, m_id m = cf_machineId r]"

definition raw_open :: "raw_movement_row \<Rightarrow> bool" where
  "raw_open r \<longleftrightarrow> rw_status r = RwReconciliation \<and> rw_platformReviewStatus r = Some RvOpen"

definition conflict_open :: "raw_conflict_row \<Rightarrow> bool" where
  "conflict_open r \<longleftrightarrow> cf_platformReviewStatus r = RvOpen"

subsection \<open>Listing\<close>

record case_query =
  cq_page :: nat
  cq_pageSize :: nat
  cq_machineId :: "uuid option"

definition rawStockReconciliationWhere :: "case_query \<Rightarrow> raw_movement_row \<Rightarrow> bool" where
  "rawStockReconciliationWhere q r \<longleftrightarrow> raw_open r \<and>
     (case cq_machineId q of None \<Rightarrow> True | Some mid \<Rightarrow> rw_machineId r = mid)"

definition conflictStockReconciliationWhere :: "case_query \<Rightarrow> raw_conflict_row \<Rightarrow> bool" where
  "conflictStockReconciliationWhere q r \<longleftrightarrow> conflict_open r \<and>
     (case cq_machineId q of None \<Rightarrow> True | Some mid \<Rightarrow> cf_machineId r = mid)"

definition newest_first :: "recon_case list \<Rightarrow> recon_case list" where
  "newest_first = sort_key (\<lambda>c. - sc_receivedAt c)"

definition listOpenCases :: "case_query \<Rightarrow> db \<Rightarrow> recon_case list \<times> nat" where
  "listOpenCases q db =
     (let fetchLimit = getOffset (cq_page q) (cq_pageSize q) + cq_pageSize q;
          rawRows = take fetchLimit (newest_first
            (rawCaseSelection (rawStockReconciliationWhere q) db));
          conflictRows = take fetchLimit (newest_first
            (conflictCaseSelection (conflictStockReconciliationWhere q) db)) in
      (take (cq_pageSize q) (drop (getOffset (cq_page q) (cq_pageSize q)) (newest_first (rawRows @ conflictRows))),
       count_where (rawStockReconciliationWhere q) (db_rawMovements db) +
       count_where (conflictStockReconciliationWhere q) (db_rawConflicts db)))"

definition findCaseById :: "uuid \<Rightarrow> bool \<Rightarrow> db \<Rightarrow> recon_case option" where
  "findCaseById i openOnly db =
     (case rawCaseSelection (\<lambda>r. rw_id r = i \<and> (openOnly \<longrightarrow> raw_open r)) db of
        c # _ \<Rightarrow> Some c
      | [] \<Rightarrow> (case conflictCaseSelection (\<lambda>r. cf_id r = i \<and> (openOnly \<longrightarrow> conflict_open r)) db of
            c # _ \<Rightarrow> Some c | [] \<Rightarrow> None))"

definition getCase :: "uuid \<Rightarrow> db \<Rightarrow> api_error + recon_case" where
  "getCase i db = (case findCaseById i True db of
     None \<Rightarrow> Inl (NotFoundException ''Stock reconciliation case not found'') | Some c \<Rightarrow> Inr c)"

subsection \<open>Resolution\<close>

datatype resolve_action = RejectMachineStock | ManualCorrect

record resolve_input =
  ri_action :: resolve_action
  ri_note :: string
  ri_clearBlocker :: bool
  ri_correctedOnHandQty :: "int option"
  ri_adminUserId :: uuid

record case_resolution =
  rs_case :: recon_case
  rs_previousCase :: recon_case
  rs_inventoryMovement :: "(uuid \<times> int) option"
  rs_clearedBlocker :: bool

definition next_on_hand :: "resolve_input \<Rightarrow> int option" where
  "next_on_hand input = (case ri_action input of
     ManualCorrect \<Rightarrow> ri_correctedOnHandQty input | RejectMachineStock \<Rightarrow> None)"

definition open_blocker :: "uuid \<Rightarrow> uuid \<Rightarrow> db \<Rightarrow> bool" where
  "open_blocker machineId slotId db \<longleftrightarrow>
     list_ex (\<lambda>r. rw_machineId r = machineId \<and> rw_saleSafetyBlockerSlotId r = Some slotId \<and>
       raw_open r \<and> rw_saleSafetyBlockerState r \<noteq> None) (db_rawMovements db) \<or>
     list_ex (\<lambda>r. cf_machineId r = machineId \<and> cf_saleSafetyBlockerSlotId r = Some slotId \<and>
       conflict_open r \<and> cf_saleSafetyBlockerState r \<noteq> None) (db_rawConflicts db)"

definition clearResolvedCaseBlocker :: "env \<Rightarrow> recon_case \<Rightarrow> db \<Rightarrow> bool \<times> db" where
  "clearResolvedCaseBlocker e current db =
     (case (sc_saleSafetyBlockerSlotId current, sc_saleSafetyBlockerState current) of
        (Some slotId, Some _) \<Rightarrow>
          (let target = (\<lambda>s. sl_id s = slotId \<and> sl_machineId s = sc_machineId current \<and>
                 sl_status s = SsFaulted \<and> sl_deletedAt s = None \<and>
                 \<not> open_blocker (sc_machineId current) slotId db) in
           (count_where target (db_slots db) = 1, db\<lparr>db_slots := upd_where target
              (\<lambda>s. s\<lparr>sl_status := SsEnabled, sl_updatedAt := e_now e\<rparr>) (db_slots db)\<rparr>))
      | _ \<Rightarrow> (False, db))"

definition claim_case :: "uuid \<Rightarrow> resolve_input \<Rightarrow> recon_case \<Rightarrow> db \<Rightarrow> nat \<times> db" where
  "claim_case i input current db =
     (case sc_caseTable current of
        RawMovements \<Rightarrow>
          (count_where (\<lambda>r. rw_id r = i \<and> raw_open r) (db_rawMovements db),
           db\<lparr>db_rawMovements := upd_where (\<lambda>r. rw_id r = i \<and> raw_open r)
             (\<lambda>r. r\<lparr>rw_status := (if ri_action input = RejectMachineStock then RwRejected else RwAccepted),
                    rw_platformReviewStatus := Some RvResolved\<rparr>) (db_rawMovements db)\<rparr>)
      | MovementConflicts \<Rightarrow>
          (count_where (\<lambda>r. cf_id r = i \<and> conflict_open r) (db_rawConflicts db),
           db\<lparr>db_rawConflicts := upd_where (\<lambda>r. cf_id r = i \<and> conflict_open r)
             (\<lambda>r. r\<lparr>cf_platformReviewStatus := RvResolved\<rparr>) (db_rawConflicts db)\<rparr>))"

definition correct_stock ::
    "env \<Rightarrow> resolve_input \<Rightarrow> recon_case \<Rightarrow> db \<Rightarrow> api_error + (uuid \<times> int) option \<times> db" where
  "correct_stock e input current db =
     (case (sc_inventoryId current, next_on_hand input) of
        (Some inventoryId, Some nextOnHandQty) \<Rightarrow>
          (let previousOnHandQty = coalesce (sc_onHandQty current) 0;
               deltaQty = nextOnHandQty - previousOnHandQty in
           bindR (update_inventories
              (\<lambda>r. inv_id r = inventoryId \<and> inv_onHandQty r = previousOnHandQty)
              (\<lambda>r. r\<lparr>inv_onHandQty := nextOnHandQty, inv_updatedAt := e_now e\<rparr>) db)
           (\<lambda>(rowCount, db1).
              if rowCount \<noteq> 1 then Inl (ConflictException
                ''Inventory changed while resolving stock reconciliation case'')
              else bindR (insert_movement inventoryId deltaQty MrAdjust None
                     (Some (ri_adminUserId input)) (Some (ri_note input)) db1)
                (\<lambda>db2. Inr (Some (inventoryId, deltaQty), db2))))
      | _ \<Rightarrow> Inr (None, db))"

text \<open>The transaction for the case \<open>current\<close> that was read; \<open>None\<close>: the case was resolved meanwhile.\<close>

definition resolve_found ::
    "env \<Rightarrow> uuid \<Rightarrow> resolve_input \<Rightarrow> recon_case \<Rightarrow> db \<Rightarrow> api_error + case_resolution option \<times> db" where
  "resolve_found e i input current db =
     (if sc_platformReviewStatus current \<noteq> Some RvOpen then Inr (None, db)
      else if ri_action input = ManualCorrect \<and>
        (sc_inventoryId current = None \<or> next_on_hand input = None)
      then Inl (ConflictException
        ''Stock reconciliation case cannot determine target inventory quantity'')
      else if (case next_on_hand input of None \<Rightarrow> False
        | Some q \<Rightarrow> q < coalesce (sc_reservedQty current) 0)
      then Inl (ConflictException
        ''Resolution would make inventory on-hand quantity below reserved quantity'')
      else
       (let (claimed, db1) = claim_case i input current db in
        if claimed \<noteq> 1 then Inr (None, db1)
        else bindR (correct_stock e input current db1) (\<lambda>(moved, db2).
          let (cleared, db3) = (if ri_clearBlocker input then clearResolvedCaseBlocker e current db2
                                else (False, db2)) in
          Inr (Some \<lparr>rs_case = coalesce (findCaseById i False db3) current,
                     rs_previousCase = current, rs_inventoryMovement = moved,
                     rs_clearedBlocker = cleared\<rparr>, db3))))"

definition resolveCaseTx ::
    "env \<Rightarrow> uuid \<Rightarrow> resolve_input \<Rightarrow> db \<Rightarrow> api_error + case_resolution option \<times> db" where
  "resolveCaseTx e i input db =
     (case findCaseById i True db of
        None \<Rightarrow> Inr (None, db) | Some current \<Rightarrow> resolve_found e i input current db)"

definition resolveCase ::
    "env \<Rightarrow> uuid \<Rightarrow> resolve_input \<Rightarrow> db \<Rightarrow> db \<times> (api_error + case_resolution)" where
  "resolveCase e i request db =
     (let note = js_trim (ri_note request);
          input = request\<lparr>ri_note := note, ri_correctedOnHandQty :=
            (if ri_action request = ManualCorrect then ri_correctedOnHandQty request else None)\<rparr> in
      if note = [] then (db, Inl (BadRequestException ''Resolution note is required''))
      else if ri_action input = ManualCorrect \<and>
        (case ri_correctedOnHandQty input of None \<Rightarrow> True | Some q \<Rightarrow> q < 0)
      then (db, Inl (BadRequestException ''correctedOnHandQty is required for manual correction''))
      else bindS (atomic (resolveCaseTx e i input) db)
        (\<lambda>resolved db1. case resolved of
             None \<Rightarrow> (db1, Inl (NotFoundException ''Stock reconciliation case not found''))
           | Some r \<Rightarrow> (db1, Inr r)))"

subsection \<open>What the operator sees\<close>

definition case_available :: "recon_case \<Rightarrow> int" where
  "case_available c = max (coalesce (sc_onHandQty c) 0 - coalesce (sc_reservedQty c) 0) 0"

datatype slot_sales_state = Blocked blocker_state | FrozenSlot | SaleReady | SoldOut

definition slotSalesState_of :: "recon_case \<Rightarrow> slot_sales_state" where
  "slotSalesState_of c =
     (case sc_saleSafetyBlockerState c of
        Some b \<Rightarrow> Blocked b
      | None \<Rightarrow> if sc_slotStatus c = Some SsFaulted then FrozenSlot
                else if 0 < case_available c then SaleReady else SoldOut)"

definition saleEligible :: "recon_case \<Rightarrow> bool" where
  "saleEligible c \<longleftrightarrow> slotSalesState_of c = SaleReady \<and> 0 < case_available c"

definition projectInventory :: "recon_case \<Rightarrow> (uuid \<times> int \<times> int \<times> int) option" where
  "projectInventory c = map_option (\<lambda>i. (i, coalesce (sc_onHandQty c) 0,
     coalesce (sc_reservedQty c) 0, if saleEligible c then case_available c else 0))
     (sc_inventoryId c)"

end
