(* ===== verification/Reconciliation_Properties.thy ===== *)
theory Reconciliation_Properties
  imports "HOL-Library.Multiset" Stock_Reconciliation Stock_Properties
begin

text \<open>
  The open cases of stock reconciliation: a page of the list is a page of the whole list, a case is
  resolved at most once, and a resolution keeps the books.
\<close>

subsection \<open>Pages\<close>

text \<open>
  Each table is cut to the rows a page can need before the two are merged. \<open>merge_by\<close> is the stable
  merge of two sorted lists.
\<close>

fun merge_by :: "('a \<Rightarrow> int) \<Rightarrow> 'a list \<Rightarrow> 'a list \<Rightarrow> 'a list" where
  "merge_by k [] ys = ys"
| "merge_by k xs [] = xs"
| "merge_by k (x # xs) (y # ys) =
     (if k x \<le> k y then x # merge_by k xs (y # ys) else y # merge_by k (x # xs) ys)"

lemma merge_by_Nil2 [simp]: "merge_by k xs [] = xs"
  by (cases xs) simp_all

lemma set_merge_by [simp]: "set (merge_by k xs ys) = set xs \<union> set ys"
  by (induction k xs ys rule: merge_by.induct) auto

lemma mset_merge_by: "mset (merge_by k xs ys) = mset (xs @ ys)"
  by (induction k xs ys rule: merge_by.induct) auto

lemma sorted_merge_by:
  "sorted (map k xs) \<Longrightarrow> sorted (map k ys) \<Longrightarrow> sorted (map k (merge_by k xs ys))"
  by (induction k xs ys rule: merge_by.induct) auto

lemma filter_merge_by:
  assumes "sorted (map k xs)" and "sorted (map k ys)"
  shows "filter (\<lambda>z. c = k z) (merge_by k xs ys) = filter (\<lambda>z. c = k z) xs @ filter (\<lambda>z. c = k z) ys"
  using assms
proof (induction k xs ys rule: merge_by.induct)
  case (3 k x xs y ys)
  have "filter (\<lambda>z. k y = k z) xs = []" if "k y < k x"
    using 3(3) that by (fastforce simp: filter_empty_conv)
  with 3 show ?case by auto
qed auto

lemma sort_append_merge: "sort_key k (xs @ ys) = merge_by k (sort_key k xs) (sort_key k ys)"
proof (rule properties_for_sort_key)
  fix z
  have stable: "filter (\<lambda>x. k z = k x) (sort_key k us) = filter (\<lambda>x. k z = k x) us" for us
    using sort_key_stable [of k "k z" us] by (simp only: eq_commute [of "k z"])
  assume "z \<in> set (merge_by k (sort_key k xs) (sort_key k ys))"
  show "filter (\<lambda>x. k z = k x) (merge_by k (sort_key k xs) (sort_key k ys)) = filter (\<lambda>x. k z = k x) (xs @ ys)"
    by (simp add: filter_merge_by stable)
qed (simp_all add: mset_merge_by sorted_merge_by)

lemma take_merge:
  "n \<le> a \<Longrightarrow> n \<le> b \<Longrightarrow> take n (merge_by k (take a xs) (take b ys)) = take n (merge_by k xs ys)"
proof (induction k xs ys arbitrary: n a b rule: merge_by.induct)
  case (3 k x xs y ys)
  show ?case
  proof (cases n)
    case (Suc m)
    then obtain a' b' where ab: "a = Suc a'" "b = Suc b'" "m \<le> a'" "m \<le> b'"
      using 3(3,4) by (auto dest!: Suc_le_D)
    show ?thesis
      using 3(1) [of m a' b] 3(2) [of m a b'] ab by (simp add: Suc)
  qed simp
qed (simp_all add: min_absorb1)

text \<open>C36: a page of the list of open cases, which is assembled from the newest rows of the two tables,
  each cut to what the page can need, is that page of the whole list: all open cases of both tables,
  newest first.\<close>

theorem page_of_cases_is_global:
  "fst (listOpenCases q db) = take (cq_pageSize q) (drop (getOffset (cq_page q) (cq_pageSize q))
     (newest_first (rawCaseSelection (rawStockReconciliationWhere q) db @
        conflictCaseSelection (conflictStockReconciliationWhere q) db)))"
proof -
  let ?k = "\<lambda>c. - sc_receivedAt c"
  let ?n = "getOffset (cq_page q) (cq_pageSize q) + cq_pageSize q"
  let ?raws = "rawCaseSelection (rawStockReconciliationWhere q) db"
  let ?conflicts = "conflictCaseSelection (conflictStockReconciliationWhere q) db"
  have sorted: "sort_key ?k (take ?n (sort_key ?k xs)) = take ?n (sort_key ?k xs)" for xs
    by (rule sort_key_id_if_sorted) (simp add: take_map [symmetric] sorted_wrt_take)
  have "take ?n (sort_key ?k (take ?n (sort_key ?k ?raws) @ take ?n (sort_key ?k ?conflicts))) =
      take ?n (sort_key ?k (?raws @ ?conflicts))"
    by (simp only: sort_append_merge sorted take_merge order_refl)
  then have "take (cq_pageSize q) (drop (getOffset (cq_page q) (cq_pageSize q))
      (sort_key ?k (take ?n (sort_key ?k ?raws) @ take ?n (sort_key ?k ?conflicts)))) =
      take (cq_pageSize q) (drop (getOffset (cq_page q) (cq_pageSize q)) (sort_key ?k (?raws @ ?conflicts)))"
    by (simp only: take_drop add.commute)
  then show ?thesis by (simp add: listOpenCases_def newest_first_def Let_def)
qed

subsection \<open>Resolutions\<close>

definition case_closed :: "case_table \<Rightarrow> uuid \<Rightarrow> db \<Rightarrow> bool" where
  "case_closed tbl i db \<longleftrightarrow> (case tbl of
     RawMovements \<Rightarrow> \<not> list_ex (\<lambda>r. rw_id r = i \<and> raw_open r) (db_rawMovements db)
   | MovementConflicts \<Rightarrow> \<not> list_ex (\<lambda>r. cf_id r = i \<and> conflict_open r) (db_rawConflicts db))"

lemma case_closed_frame:
  "db_rawMovements db' = db_rawMovements db \<Longrightarrow> db_rawConflicts db' = db_rawConflicts db \<Longrightarrow>
   case_closed tbl i db' = case_closed tbl i db"
  by (simp add: case_closed_def split: case_table.split)

lemma list_ex_upd_where:
  assumes "\<And>r. \<not> Q (f r)"
  shows "list_ex (\<lambda>r. g r = j \<and> Q r) (upd_where p f xs) \<Longrightarrow> list_ex (\<lambda>r. g r = j \<and> Q r) xs"
    and "\<not> list_ex (\<lambda>r. g r = j \<and> Q r) (upd_where (\<lambda>r. g r = j \<and> Q r) f xs)"
proof -
  show "list_ex (\<lambda>r. g r = j \<and> Q r) (upd_where p f xs) \<Longrightarrow> list_ex (\<lambda>r. g r = j \<and> Q r) xs"
    by (induction xs) (auto simp: upd_where_def assms split: if_splits)
  show "\<not> list_ex (\<lambda>r. g r = j \<and> Q r) (upd_where (\<lambda>r. g r = j \<and> Q r) f xs)"
    by (induction xs) (auto simp: upd_where_def assms)
qed

lemma claim_closed:
  assumes "claim_case i input current db = (n, db1)"
  shows "case_closed (sc_caseTable current) i db1"
    and "case_closed tbl j db \<Longrightarrow> case_closed tbl j db1"
proof -
  let ?f = "\<lambda>r. r\<lparr>rw_status := (if ri_action input = RejectMachineStock then RwRejected else RwAccepted),
      rw_platformReviewStatus := Some RvResolved\<rparr>"
  let ?g = "\<lambda>r. r\<lparr>cf_platformReviewStatus := RvResolved\<rparr>"
  have raw: "\<not> raw_open (?f r)" and conflict: "\<not> conflict_open (?g c)" for r c
    by (simp_all add: raw_open_def conflict_open_def)
  note raws = list_ex_upd_where [where Q = raw_open and f = ?f and g = rw_id, OF raw]
  note conflicts = list_ex_upd_where [where Q = conflict_open and f = ?g and g = cf_id, OF conflict]
  show "case_closed (sc_caseTable current) i db1"
  proof (cases "sc_caseTable current")
    case RawMovements
    then have "db_rawMovements db1 = upd_where (\<lambda>r. rw_id r = i \<and> raw_open r) ?f (db_rawMovements db)"
      using assms by (auto simp: claim_case_def)
    then show ?thesis using raws(2) by (simp only: case_closed_def RawMovements case_table.case) blast
  next
    case MovementConflicts
    then have "db_rawConflicts db1 = upd_where (\<lambda>r. cf_id r = i \<and> conflict_open r) ?g (db_rawConflicts db)"
      using assms by (auto simp: claim_case_def)
    then show ?thesis
      using conflicts(2) by (simp only: case_closed_def MovementConflicts case_table.case) blast
  qed
  show "case_closed tbl j db1" if closed: "case_closed tbl j db"
  proof (cases "sc_caseTable current")
    case RawMovements
    then have rows: "db_rawMovements db1 = upd_where (\<lambda>r. rw_id r = i \<and> raw_open r) ?f (db_rawMovements db)"
      "db_rawConflicts db1 = db_rawConflicts db" using assms by (auto simp: claim_case_def)
    show ?thesis
      using closed raws(1) by (cases tbl) (simp_all only: case_closed_def case_table.case rows not_False_eq_True, blast)
  next
    case MovementConflicts
    then have rows: "db_rawConflicts db1 = upd_where (\<lambda>r. cf_id r = i \<and> conflict_open r) ?g (db_rawConflicts db)"
      "db_rawMovements db1 = db_rawMovements db" using assms by (auto simp: claim_case_def)
    show ?thesis
      using closed conflicts(1) by (cases tbl) (simp_all only: case_closed_def case_table.case rows not_False_eq_True, blast)
  qed
qed

lemma claim_closed_none:
  assumes "claim_case i input current db = (n, db1)" and "case_closed (sc_caseTable current) i db"
  shows "n = 0"
  using assms by (cases "sc_caseTable current")
    (auto simp: claim_case_def case_closed_def list_ex_iff count_where_def filter_empty_conv)

lemma claim_frame:
  assumes "claim_case i input current db = (n, db1)"
  shows "stock_view db1 = stock_view db" and "db_next db1 = db_next db" and "db_slots db1 = db_slots db"
  using assms by (auto simp: claim_case_def stock_view_def split: case_table.splits)

lemma correct_stock_moves:
  assumes ok: "stock_ok db" and run: "correct_stock e input current db = Inr (moved, db')"
    and c1: "sc_inventoryId current = Some v" and c2: "next_on_hand input = Some q"
  shows "stock_ok db' \<and> db_slots db' = db_slots db \<and> db_rawMovements db' = db_rawMovements db \<and>
    db_rawConflicts db' = db_rawConflicts db \<and>
    (\<exists>x\<in>set (db_inventories db'). inv_id x = v \<and> inv_onHandQty x = q)"
proof -
  let ?up = "\<lambda>r. r\<lparr>inv_onHandQty := q, inv_updatedAt := e_now e\<rparr>"
  let ?prev = "coalesce (sc_onHandQty current) 0"
  let ?p = "\<lambda>r. inv_id r = v \<and> inv_onHandQty r = ?prev"
  obtain db1 where upd: "update_inventories ?p ?up db = Inr (1, db1)"
    and mov: "insert_movement v (q - ?prev) MrAdjust None (Some (ri_adminUserId input))
      (Some (ri_note input)) db1 = Inr db'"
    using run by (auto simp: correct_stock_def c1 c2 bindR_eq_Inr Let_def split: if_splits)
  note d1 = update_inventories_InrD [OF upd]
  obtain r0 where r0: "r0 \<in> set (db_inventories db)" "?p r0" using update_hit [OF upd] by auto
  have "?up r0 \<in> set (db_inventories db1)"
    using d1(1) r0 by (force simp: set_upd_where)
  then have hit: "\<exists>x\<in>set (db_inventories db'). inv_id x = v \<and> inv_onHandQty x = q"
    using insert_movement_InrD(1) [OF mov] r0(2) by (intro bexI [of _ "?up r0"]) simp_all
  have base: "reservations_wf (db_inventories db) (db_reservations db)" "keys_fresh db"
    using ok by (simp_all add: stock_ok_def stock_consistent_def)
  have "stock_ok db'"
  proof (rule row_movement_keeps [OF ok upd one_neq_zero mov])
    show "reservations_wf (db_inventories db) (db_reservations db1)"
      "\<forall>r\<in>set (db_reservations db1). rv_id r < db_next db1"
      using base d1 by (simp_all add: keys_fresh_def)
  qed (use d1 in auto)
  then show ?thesis using hit mov d1 by (auto simp: insert_movement_def split: if_splits)
qed

lemma correct_stock_none:
  assumes "correct_stock e input current db = Inr (moved, db')"
    and "sc_inventoryId current = None \<or> next_on_hand input = None"
  shows "db' = db"
  using assms by (auto simp: correct_stock_def split: option.splits)

lemma clear_blocker_frame:
  assumes "clearResolvedCaseBlocker e current db = (cleared, db')"
  shows "stock_view db' = stock_view db" and "db_next db' = db_next db"
    and "db_rawMovements db' = db_rawMovements db" and "db_rawConflicts db' = db_rawConflicts db"
  using assms by (auto simp: clearResolvedCaseBlocker_def stock_view_def Let_def split: option.splits)

lemma clear_blocker_slots:
  assumes "clearResolvedCaseBlocker e current db = (cleared, db')"
    and "s \<in> set (db_slots db')" and "s \<notin> set (db_slots db)"
  shows "sc_saleSafetyBlockerSlotId current = Some (sl_id s) \<and>
    \<not> open_blocker (sc_machineId current) (sl_id s) db'"
proof -
  obtain slot where slot: "sc_saleSafetyBlockerSlotId current = Some slot"
    using assms by (cases "sc_saleSafetyBlockerSlotId current") (auto simp: clearResolvedCaseBlocker_def)
  have "sl_id s = slot \<and> \<not> open_blocker (sc_machineId current) slot db"
    using assms slot by (cases "sc_saleSafetyBlockerState current")
      (auto simp: clearResolvedCaseBlocker_def Let_def upd_where_def split: if_splits)
  moreover have "open_blocker m i db' = open_blocker m i db" for m i
    using clear_blocker_frame(3,4) [OF assms(1)] by (simp add: open_blocker_def)
  ultimately show ?thesis using slot by simp
qed

text \<open>A resolution that goes through, step by step.\<close>

lemma resolve_found_SomeD:
  assumes "resolve_found e i input current db = Inr (Some r, db')"
  obtains db1 moved db2 where "claim_case i input current db = (1, db1)"
    and "correct_stock e input current db1 = Inr (moved, db2)"
    and "(rs_clearedBlocker r, db') =
      (if ri_clearBlocker input then clearResolvedCaseBlocker e current db2 else (False, db2))"
    and "rs_previousCase r = current" and "rs_inventoryMovement r = moved"
    and "ri_action input = ManualCorrect \<Longrightarrow> sc_inventoryId current \<noteq> None"
    and "ri_action input = ManualCorrect \<Longrightarrow> next_on_hand input \<noteq> None"
    and "\<And>q. next_on_hand input = Some q \<Longrightarrow> coalesce (sc_reservedQty current) 0 \<le> q"
proof -
  obtain n db1 where c: "claim_case i input current db = (n, db1)" by fastforce
  show thesis
    using assms that [of db1]
    by (auto simp: resolve_found_def c bindR_eq_Inr Let_def split: if_splits prod.splits option.splits)
qed

lemma resolve_found_NoneD:
  "resolve_found e i input current db = Inr (None, db') \<Longrightarrow>
   db' = db \<or> (\<exists>n. claim_case i input current db = (n, db'))"
  by (auto simp: resolve_found_def bindR_eq_Inr Let_def split: if_splits prod.splits)

lemma correct_stock_keeps:
  assumes "stock_ok db" and "correct_stock e input current db = Inr (moved, db')"
  shows "stock_ok db' \<and> db_slots db' = db_slots db \<and> db_rawMovements db' = db_rawMovements db \<and>
    db_rawConflicts db' = db_rawConflicts db"
  using correct_stock_moves [OF assms] correct_stock_none [OF assms(2)] assms(1)
  by (cases "sc_inventoryId current"; cases "next_on_hand input") auto

lemma claim_stock_ok:
  "stock_ok db \<Longrightarrow> claim_case i input current db = (n, db1) \<Longrightarrow> stock_ok db1"
  using claim_frame by (metis order_refl stock_ok_frame)

lemma resolve_found_keeps:
  assumes ok: "stock_ok db" and run: "resolve_found e i input current db = Inr (r, db')"
  shows "stock_ok db'" and "case_closed tbl j db \<Longrightarrow> case_closed tbl j db'"
    and "r \<noteq> None \<Longrightarrow> case_closed (sc_caseTable current) i db' \<and>
      \<not> case_closed (sc_caseTable current) i db"
proof -
  have "stock_ok db' \<and> (case_closed tbl j db \<longrightarrow> case_closed tbl j db') \<and>
    (r \<noteq> None \<longrightarrow> case_closed (sc_caseTable current) i db' \<and> \<not> case_closed (sc_caseTable current) i db)"
  proof (cases r)
    case None
    with resolve_found_NoneD run have "db' = db \<or> (\<exists>n. claim_case i input current db = (n, db'))"
      by blast
    then show ?thesis using None ok claim_stock_ok [OF ok] claim_closed(2) by blast
  next
    case (Some x)
    with run have "resolve_found e i input current db = Inr (Some x, db')" by simp
    then obtain db1 moved db2 where claim: "claim_case i input current db = (1, db1)"
      and stock: "correct_stock e input current db1 = Inr (moved, db2)"
      and clear: "(rs_clearedBlocker x, db') =
        (if ri_clearBlocker input then clearResolvedCaseBlocker e current db2 else (False, db2))"
      by (rule resolve_found_SomeD) blast
    note corrected = correct_stock_keeps [OF claim_stock_ok [OF ok claim] stock]
    have frame: "stock_view db' = stock_view db2 \<and> db_next db' = db_next db2 \<and>
        db_rawMovements db' = db_rawMovements db2 \<and> db_rawConflicts db' = db_rawConflicts db2"
      using clear clear_blocker_frame [of e current db2 "rs_clearedBlocker x" db']
      by (auto split: if_splits)
    have "stock_ok db'" using stock_ok_frame [of db2 db'] corrected frame by simp
    moreover have "case_closed t k db' = case_closed t k db1" for t k
      using corrected frame by (simp add: case_closed_def split: case_table.split)
    ultimately show ?thesis
      using claim_closed [OF claim] claim_closed_none [OF claim] by auto
  qed
  then show "stock_ok db'" and "case_closed tbl j db \<Longrightarrow> case_closed tbl j db'"
    and "r \<noteq> None \<Longrightarrow> case_closed (sc_caseTable current) i db' \<and>
      \<not> case_closed (sc_caseTable current) i db" by auto
qed

text \<open>
  A run of resolutions, each with a case that was read at some time before, and the cases it
  settled.
\<close>

fun resolutions :: "(env \<times> uuid \<times> resolve_input \<times> recon_case) list \<Rightarrow> db \<Rightarrow>
    (case_table \<times> uuid) list \<times> db" where
  "resolutions [] db = ([], db)"
| "resolutions ((e, i, input, current) # rest) db =
     (case resolve_found e i input current db of
        Inr (Some _, db1) \<Rightarrow> (let (settled, db2) = resolutions rest db1 in
          ((sc_caseTable current, i) # settled, db2))
      | Inr (None, db1) \<Rightarrow> resolutions rest db1
      | Inl _ \<Rightarrow> resolutions rest db)"

lemma resolutions_sound:
  assumes "stock_ok db" and "resolutions attempts db = (settled, db')"
  shows "stock_ok db' \<and> distinct settled \<and> (\<forall>(t, j)\<in>set settled. \<not> case_closed t j db) \<and>
    (\<forall>t j. case_closed t j db \<longrightarrow> case_closed t j db') \<and> (\<forall>(t, j)\<in>set settled. case_closed t j db')"
  using assms
proof (induction attempts arbitrary: db settled)
  case Nil
  then show ?case by simp
next
  case (Cons a rest)
  obtain e i input current where a: "a = (e, i, input, current)" by (cases a) auto
  show ?case
  proof (cases "resolve_found e i input current db")
    case (Inl err)
    with Cons a show ?thesis by simp
  next
    case (Inr res)
    then obtain r db1 where res: "resolve_found e i input current db = Inr (r, db1)" by (cases res) auto
    note keeps = resolve_found_keeps [OF Cons.prems(1) res]
    show ?thesis
    proof (cases r)
      case None
      with Cons.prems(2) a res have "resolutions rest db1 = (settled, db')" by simp
      with Cons.IH [OF keeps(1)] keeps(2) show ?thesis by (fastforce split: prod.splits)
    next
      case (Some x)
      with Cons.prems(2) a res obtain more where more: "resolutions rest db1 = (more, db')"
        "settled = (sc_caseTable current, i) # more" by (auto split: prod.splits)
      with Cons.IH [OF keeps(1) more(1)] keeps(2,3) Some show ?thesis
        by (fastforce split: prod.splits)
    qed
  qed
qed

subsection \<open>A concrete case\<close>

text \<open>
  A refill of the shop's slot was put aside, and the slot is faulted until the case is resolved.
\<close>

definition disputed_refill :: raw_movement where
  "disputed_refill = \<lparr>rm_machineCode = Some ''M1'', rm_movementId = ''mv9'', rm_planogramVersion = ''v1'',
     rm_slotId = 2, rm_movementType = PlannedRefill, rm_quantity = 1, rm_beforeQuantity = Some 3,
     rm_afterQuantity = Some 4, rm_slotMappingSnapshot = None, rm_source = ''local'',
     rm_attributedTo = None, rm_orderContext = None, rm_occurredAt = 0\<rparr>"

definition disputed_row :: raw_movement_row where
  "disputed_row = \<lparr>rw_id = 70, rw_machineId = 1, rw_movementId = ''mv9'', rw_payloadHash = ''h'',
     rw_payloadJson = disputed_refill, rw_normalizedJson = [], rw_receivedAt = 500,
     rw_status = RwReconciliation, rw_reconciliationReason = Some RrAbnormalVariance,
     rw_platformReviewStatus = Some RvOpen, rw_saleSafetyBlockerState = Some NeedsPlatformReview,
     rw_saleSafetyBlockerSlotId = Some 2\<rparr>"

definition disputed_db :: db where
  "disputed_db = shop_db\<lparr>db_rawMovements := [disputed_row],
     db_slots := map (\<lambda>s. s\<lparr>sl_status := SsFaulted\<rparr>) (db_slots shop_db)\<rparr>"

definition recount :: resolve_input where
  "recount = \<lparr>ri_action = ManualCorrect, ri_note = ''counted'', ri_clearBlocker = True,
     ri_correctedOnHandQty = Some 4, ri_adminUserId = 7\<rparr>"

definition disputed_case :: recon_case where
  "disputed_case = hd (rawCaseSelection raw_open disputed_db)"

lemma disputed_ok: "stock_ok disputed_db"
  by (rule stock_ok_frame [OF shop_ok]) (simp_all add: disputed_db_def stock_view_def)

subsection \<open>Properties\<close>

text \<open>C11: whatever resolutions operators attempt, in any order, each with a case that was read
  earlier and may be stale, no case is settled twice, a settled case is closed for good, and the
  stock stays sound.\<close>

theorem resolutions_settle_once:
  assumes "stock_ok db" and "resolutions attempts db = (settled, db')"
  shows "distinct settled \<and> (\<forall>(t, j)\<in>set settled. case_closed t j db') \<and> stock_ok db'"
  using resolutions_sound [OF assms] by blast

theorem resolutions_settle_once_witness:
  "case resolutions [(shop_env, 70, recount, disputed_case), (shop_env, 70, recount, disputed_case)]
       disputed_db of
     (settled, db') \<Rightarrow> settled = [(RawMovements, 70)] \<and> stock_ok db'"
proof -
  let ?tries = "[(shop_env, 70, recount, disputed_case), (shop_env, 70, recount, disputed_case)]"
  have "fst (resolutions ?tries disputed_db) = [(RawMovements, 70)]" by code_simp
  then obtain db' where run: "resolutions ?tries disputed_db = ([(RawMovements, 70)], db')"
    by (metis prod.collapse)
  with resolutions_settle_once [OF disputed_ok run] show ?thesis by simp
qed

text \<open>C35: a resolution that goes through does to the stock what the operator asked: after a manual
  correction the quantity on hand of the slot's inventory row is the corrected one, which covers
  what is reserved, after a rejection every row is what it was; and a slot is put back on sale only
  when no open case blocks it any more.\<close>

theorem resolution_settles_stock:
  assumes ok: "stock_ok db" and run: "resolve_found e i input current db = Inr (Some r, db')"
  shows "(case (sc_inventoryId current, next_on_hand input) of
       (Some v, Some q) \<Rightarrow>
         \<exists>x\<in>set (db_inventories db'). inv_id x = v \<and> inv_onHandQty x = q \<and> inv_reservedQty x \<le> q
     | _ \<Rightarrow> ri_action input = RejectMachineStock \<and> db_inventories db' = db_inventories db) \<and>
   (\<forall>s\<in>set (db_slots db') - set (db_slots db).
      sc_saleSafetyBlockerSlotId current = Some (sl_id s) \<and>
      \<not> open_blocker (sc_machineId current) (sl_id s) db')"
proof -
  obtain db1 moved db2 where claim: "claim_case i input current db = (1, db1)"
    and stock: "correct_stock e input current db1 = Inr (moved, db2)"
    and clear: "(rs_clearedBlocker r, db') =
      (if ri_clearBlocker input then clearResolvedCaseBlocker e current db2 else (False, db2))"
    and manual: "ri_action input = ManualCorrect \<Longrightarrow> sc_inventoryId current \<noteq> None"
      "ri_action input = ManualCorrect \<Longrightarrow> next_on_hand input \<noteq> None"
    by (rule resolve_found_SomeD [OF run]) blast
  note ok1 = claim_stock_ok [OF ok claim]
  have slots: "db_slots db2 = db_slots db"
    using correct_stock_keeps [OF ok1 stock] claim_frame(3) [OF claim] by simp
  have rows: "db_inventories db' = db_inventories db2"
    using clear clear_blocker_frame(1) [of e current db2 "rs_clearedBlocker r" db']
    by (auto simp: stock_view_def split: if_splits)
  have same: "db_inventories db1 = db_inventories db"
    using claim_frame(1) [OF claim] by (simp add: stock_view_def)
  have reserved: "inv_reservedQty x \<le> inv_onHandQty x" if "x \<in> set (db_inventories db')" for x
    using stock_ok_safe(2) [OF resolve_found_keeps(1) [OF ok run] that] .
  have "case (sc_inventoryId current, next_on_hand input) of
      (Some v, Some q) \<Rightarrow>
        \<exists>x\<in>set (db_inventories db'). inv_id x = v \<and> inv_onHandQty x = q \<and> inv_reservedQty x \<le> q
    | _ \<Rightarrow> ri_action input = RejectMachineStock \<and> db_inventories db' = db_inventories db"
    using correct_stock_moves [OF ok1 stock] correct_stock_none [OF stock] reserved manual rows same
    by (cases "sc_inventoryId current"; cases "next_on_hand input"; cases "ri_action input") force+
  moreover have "\<forall>s\<in>set (db_slots db') - set (db_slots db).
      sc_saleSafetyBlockerSlotId current = Some (sl_id s) \<and>
      \<not> open_blocker (sc_machineId current) (sl_id s) db'"
    using clear slots clear_blocker_slots [of e current db2 "rs_clearedBlocker r" db']
    by (auto split: if_splits)
  ultimately show ?thesis by blast
qed

theorem resolution_settles_stock_witness:
  "case resolve_found shop_env 70 recount disputed_case disputed_db of
     Inr (Some r, db') \<Rightarrow> map sl_status (db_slots db') = [SsEnabled] \<and>
       (\<exists>x\<in>set (db_inventories db'). inv_id x = 3 \<and> inv_onHandQty x = 4)
   | _ \<Rightarrow> False"
proof -
  have eval: "case resolve_found shop_env 70 recount disputed_case disputed_db of
      Inr (Some r, db') \<Rightarrow> map sl_status (db_slots db') = [SsEnabled] | _ \<Rightarrow> False" by code_simp
  then obtain r db' where run: "resolve_found shop_env 70 recount disputed_case disputed_db = Inr (Some r, db')"
    by (auto split: sum.splits option.splits)
  have "sc_inventoryId disputed_case = Some 3" "next_on_hand recount = Some 4" by code_simp+
  with resolution_settles_stock [OF disputed_ok run] eval run show ?thesis by auto
qed

end
