(* ===== verification/Machine_Claims.thy ===== *)
theory Machine_Claims
  imports Js_Text
begin

text \<open>
  \<open>machines/machines.service.ts\<close>, \<open>machine-claim-code.util.ts\<close>: how a machine gets its
  credentials. An administrator generates a claim code, the machine presents it
  (\<open>claimMachine\<close>) and gets a profile with fresh secrets; a code that was consumed is answered with
  the same profile again until it expires. Credentials are rotated and revoked by an administrator.

  The component has its own tables (\<open>cdb\<close>). Scrypt, HMAC, AES and the random bytes of
  \<open>node:crypto\<close> are arguments. \<open>claimMachine\<close> reads its row before it writes, so a request is what it
  decides on arrival and what it does with that later; between them other requests run. Of the
  profile the parts are kept that vary, the audit log is not modelled.
\<close>

subsection \<open>Tables\<close>

datatype claim_purpose = FirstClaim | Reclaim

datatype claim_state = CcPending | CcConsumed | CcExpired | CcRevoked | CcLocked

record claim_profile =
  pf_machineId :: uuid
  pf_code :: string
  pf_status :: machine_status
  pf_mqttClientId :: string
  pf_qrCodeEnabled :: bool
  pf_paymentCodeEnabled :: bool
  pf_claimCodeId :: uuid
  pf_claimedAt :: ms
  pf_machineSecret :: string
  pf_machineSecretVersion :: int
  pf_mqttSigningSecret :: string

record claim_machine_row =
  mk_id :: uuid
  mk_code :: string
  mk_status :: machine_status
  mk_mqttClientId :: "string option"
  mk_secretHash :: "string option"
  mk_secretVersion :: int
  mk_secretRotatedAt :: "ms option"
  mk_credentialRevokedAt :: "ms option"
  mk_mqttSigningSecretEncryptedJson :: "string option"
  mk_updatedAt :: ms
  mk_deletedAt :: "ms option"

record claim_code_row =
  mc_id :: uuid
  mc_machineId :: uuid
  mc_lookupDigest :: string
  mc_verifierHash :: string
  mc_purpose :: claim_purpose
  mc_state :: claim_state
  mc_failedAttemptCount :: int
  mc_maxFailedAttempts :: int
  mc_expiresAt :: ms
  mc_consumedAt :: "ms option"
  mc_revokedAt :: "ms option"
  mc_lockedAt :: "ms option"
  mc_claimResponseEncryptedJson :: "string option"
  mc_createdByAdminUserId :: uuid
  mc_revokedByAdminUserId :: "uuid option"
  mc_updatedAt :: ms

record cdb =
  cdb_next :: nat
  cdb_machines :: "claim_machine_row list"
  cdb_codes :: "claim_code_row list"

record credential_bundle =
  cb_machineSecret :: string
  cb_mqttSigningSecret :: string
  cb_secretHash :: string
  cb_mqttSigningSecretEncryptedJson :: string

text \<open>
  The surroundings of one call: the clock, the bytes that \<open>randomBytes\<close> draws, the keyed digest, the
  salted hash and its check, the bundle \<open>createBundle\<close> makes, the encryption of the answer
  (decryption is \<open>None\<close> where it or the parse of what it yields throws), the configured lifetime and
  the payment options of a machine.
\<close>

record claim_env =
  ce_now :: ms
  ce_randomBytes :: "nat list"
  ce_digest :: "string \<Rightarrow> string"
  ce_hash :: "string \<Rightarrow> string"
  ce_verify :: "string \<Rightarrow> string \<Rightarrow> bool"
  ce_bundle :: credential_bundle
  ce_encrypt :: "claim_profile \<Rightarrow> string"
  ce_decrypt :: "string \<Rightarrow> claim_profile option"
  ce_machineClaimCodeTtlSeconds :: int
  ce_paymentProjection :: "uuid \<Rightarrow> api_error + bool \<times> bool"

subsection \<open>Codes\<close>

definition CLAIM_CODE_ALPHABET :: string where
  "CLAIM_CODE_ALPHABET = ''ABCDEFGHJKLMNPQRSTUVWXYZ23456789''"

definition MACHINE_CLAIM_CODE_MAX_FAILED_ATTEMPTS :: int where
  "MACHINE_CLAIM_CODE_MAX_FAILED_ATTEMPTS = 5"

definition generateHumanMachineClaimCode :: "nat list \<Rightarrow> string" where
  "generateHumanMachineClaimCode bytes =
     (let chars = map (\<lambda>b. CLAIM_CODE_ALPHABET ! (b mod length CLAIM_CODE_ALPHABET)) bytes
      in take 4 chars @ ''-'' @ drop 4 chars)"

definition digestMachineClaimCodeLookup :: "claim_env \<Rightarrow> string \<Rightarrow> string" where
  "digestMachineClaimCodeLookup e claimCode = ce_digest e (js_toUpperCase (js_trim claimCode))"

definition claim_code_pattern :: "string \<Rightarrow> bool" where
  "claim_code_pattern s \<longleftrightarrow> length s = 9 \<and> s ! 4 = CHR ''-'' \<and>
     list_all upper_alnum (take 4 s) \<and> list_all upper_alnum (drop 5 s)"

text \<open>\<open>machineClaimRequestSchema\<close>\<close>

definition parse_claim_request :: "string \<Rightarrow> string option" where
  "parse_claim_request raw =
     (let s = js_toUpperCase (js_trim raw) in if claim_code_pattern s then Some s else None)"

definition resolveMachineClaimCodeState :: "claim_code_row \<Rightarrow> ms \<Rightarrow> claim_state" where
  "resolveMachineClaimCodeState c now =
     (if mc_state c = CcPending \<and> mc_expiresAt c \<le> now then CcExpired else mc_state c)"

subsection \<open>Tables: constraints and updates\<close>

definition code_open :: "claim_code_row \<Rightarrow> bool" where
  "code_open c \<longleftrightarrow> mc_state c \<in> {CcPending, CcLocked}"

definition upd_codes :: "(claim_code_row \<Rightarrow> bool) \<Rightarrow> (claim_code_row \<Rightarrow> claim_code_row) \<Rightarrow> cdb \<Rightarrow> cdb" where
  "upd_codes p f db = db\<lparr>cdb_codes := upd_where p f (cdb_codes db)\<rparr>"

definition upd_claim_machines ::
    "(claim_machine_row \<Rightarrow> bool) \<Rightarrow> (claim_machine_row \<Rightarrow> claim_machine_row) \<Rightarrow> cdb \<Rightarrow> cdb" where
  "upd_claim_machines p f db = db\<lparr>cdb_machines := upd_where p f (cdb_machines db)\<rparr>"

definition live_machine :: "uuid \<Rightarrow> cdb \<Rightarrow> claim_machine_row option" where
  "live_machine i db = List.find (\<lambda>m. mk_id m = i \<and> mk_deletedAt m = None) (cdb_machines db)"

definition insert_claim_code :: "claim_code_row \<Rightarrow> cdb \<Rightarrow> api_error + cdb" where
  "insert_claim_code c db =
     (if list_ex (\<lambda>d. code_open d \<and> mc_machineId d = mc_machineId c) (cdb_codes db)
      then Inl (ConflictException ''Machine already has an active claim code'')
      else if list_ex (\<lambda>d. mc_lookupDigest d = mc_lookupDigest c) (cdb_codes db)
      then Inl (ConstraintViolation ''machine_claim_codes_lookup_digest_unique'')
      else Inr (db\<lparr>cdb_codes := cdb_codes db @ [c], cdb_next := Suc (cdb_next db)\<rparr>))"

subsection \<open>Administration\<close>

definition purpose_allowed :: "claim_purpose \<Rightarrow> claim_machine_row \<Rightarrow> api_error + unit" where
  "purpose_allowed purpose m =
     (if purpose = FirstClaim \<and> (mk_secretHash m \<noteq> None \<or> 1 < mk_secretVersion m)
      then Inl (ConflictException
        ''Machine is already claimed; generate a reclaim code explicitly'')
      else if purpose = Reclaim \<and> mk_secretHash m = None \<and> mk_secretVersion m \<le> 1
      then Inl (ConflictException
        ''Machine has not been claimed; generate a first-claim code'')
      else Inr ())"

definition expire_codes :: "claim_env \<Rightarrow> claim_code_row list \<Rightarrow> cdb \<Rightarrow> cdb" where
  "expire_codes e openCodes db =
     (let expired = map mc_id (filter (\<lambda>c. mc_state c = CcPending \<and> mc_expiresAt c \<le> ce_now e) openCodes) in
      if expired = [] then db
      else upd_codes (\<lambda>c. mc_id c \<in> set expired)
        (\<lambda>c. c\<lparr>mc_state := CcExpired, mc_updatedAt := ce_now e\<rparr>) db)"

definition new_claim_code ::
    "claim_env \<Rightarrow> uuid \<Rightarrow> uuid \<Rightarrow> claim_purpose \<Rightarrow> string \<Rightarrow> uuid \<Rightarrow> claim_code_row" where
  "new_claim_code e machineId adminUserId purpose claimCode i =
     \<lparr>mc_id = i, mc_machineId = machineId, mc_lookupDigest = digestMachineClaimCodeLookup e claimCode,
      mc_verifierHash = ce_hash e claimCode, mc_purpose = purpose, mc_state = CcPending,
      mc_failedAttemptCount = 0, mc_maxFailedAttempts = MACHINE_CLAIM_CODE_MAX_FAILED_ATTEMPTS,
      mc_expiresAt = ce_now e + ce_machineClaimCodeTtlSeconds e * 1000,
      mc_consumedAt = None, mc_revokedAt = None, mc_lockedAt = None,
      mc_claimResponseEncryptedJson = None, mc_createdByAdminUserId = adminUserId,
      mc_revokedByAdminUserId = None, mc_updatedAt = ce_now e\<rparr>"

definition generateMachineClaimCode ::
    "claim_env \<Rightarrow> uuid \<Rightarrow> uuid \<Rightarrow> claim_purpose \<Rightarrow> cdb \<Rightarrow> cdb \<times> (api_error + claim_code_row \<times> string)"
  where
  "generateMachineClaimCode e machineId adminUserId purpose db =
     (case live_machine machineId db of
        None \<Rightarrow> (db, Inl (NotFoundException ''Machine not found''))
      | Some m \<Rightarrow>
         (case purpose_allowed purpose m of Inl err \<Rightarrow> (db, Inl err)
          | Inr _ \<Rightarrow>
             (let openCodes = filter (\<lambda>c. mc_machineId c = mk_id m \<and> code_open c) (cdb_codes db);
                  db1 = expire_codes e openCodes db;
                  claimCode = generateHumanMachineClaimCode (ce_randomBytes e);
                  created = new_claim_code e (mk_id m) adminUserId purpose claimCode (cdb_next db1) in
              if list_ex (\<lambda>c. mc_state c = CcLocked \<or> ce_now e < mc_expiresAt c) openCodes
              then (db, Inl (ConflictException ''Machine already has an active claim code''))
              else case insert_claim_code created db1 of
                Inl err \<Rightarrow> (db1, Inl err) | Inr db2 \<Rightarrow> (db2, Inr (created, claimCode)))))"

definition revokeMachineClaimCode ::
    "claim_env \<Rightarrow> uuid \<Rightarrow> uuid \<Rightarrow> uuid \<Rightarrow> cdb \<Rightarrow> cdb \<times> (api_error + claim_code_row)" where
  "revokeMachineClaimCode e machineId claimCodeId adminUserId db =
     (case live_machine machineId db of
        None \<Rightarrow> (db, Inl (NotFoundException ''Machine not found''))
      | Some m \<Rightarrow>
         (case List.find (\<lambda>c. mc_id c = claimCodeId \<and> mc_machineId c = mk_id m) (cdb_codes db) of
            None \<Rightarrow> (db, Inl (NotFoundException ''Machine claim code not found''))
          | Some current \<Rightarrow>
             (let target = (\<lambda>c. mc_id c = mc_id current \<and> mc_state c = CcPending);
                  revoke = (\<lambda>c. c\<lparr>mc_state := CcRevoked, mc_revokedAt := Some (ce_now e),
                    mc_revokedByAdminUserId := Some adminUserId, mc_updatedAt := ce_now e\<rparr>) in
              if mc_state current \<noteq> CcPending \<or> mc_expiresAt current \<le> ce_now e
              then (db, Inl (ConflictException ''Only pending claim codes can be revoked''))
              else case List.find target (cdb_codes db) of
                None \<Rightarrow> (db, Inl (ConflictException ''Only pending claim codes can be revoked''))
              | Some c \<Rightarrow> (upd_codes target revoke db, Inr (revoke c)))))"

definition rotate_secrets :: "claim_env \<Rightarrow> claim_machine_row \<Rightarrow> claim_machine_row" where
  "rotate_secrets e m = m\<lparr>mk_secretHash := Some (cb_secretHash (ce_bundle e)),
     mk_secretVersion := mk_secretVersion m + 1, mk_secretRotatedAt := Some (ce_now e),
     mk_credentialRevokedAt := None,
     mk_mqttSigningSecretEncryptedJson := Some (cb_mqttSigningSecretEncryptedJson (ce_bundle e)),
     mk_updatedAt := ce_now e\<rparr>"

definition rotateMachineCredentials ::
    "claim_env \<Rightarrow> uuid \<Rightarrow> cdb \<Rightarrow> cdb \<times> (api_error + claim_machine_row)" where
  "rotateMachineCredentials e i db =
     (case live_machine i db of
        None \<Rightarrow> (db, Inl (NotFoundException ''Machine not found''))
      | Some current \<Rightarrow>
          (upd_claim_machines (\<lambda>m. mk_id m = mk_id current) (rotate_secrets e) db,
           Inr (rotate_secrets e current)))"

text \<open>
  The part of \<open>secureDecommissionMachine\<close> that concerns credentials: every open code is revoked, the
  machine is disabled and loses its secret; the signing secret stays when there is a command to
  deliver, which is signed with it.
\<close>

definition secure_decommission_tx ::
    "claim_env \<Rightarrow> uuid \<Rightarrow> cdb \<Rightarrow> api_error + bool \<times> cdb" where
  "secure_decommission_tx e i db =
     (case live_machine i db of
        None \<Rightarrow> Inl (NotFoundException ''Machine not found'')
      | Some m \<Rightarrow>
          if mk_status m = MsDisabled \<and> mk_credentialRevokedAt m \<noteq> None then Inr (False, db)
          else Inr (True, upd_claim_machines (\<lambda>x. mk_id x = mk_id m)
            (\<lambda>x. x\<lparr>mk_status := MsDisabled, mk_secretHash := None,
              mk_credentialRevokedAt := Some (ce_now e), mk_mqttClientId := None,
              mk_mqttSigningSecretEncryptedJson := (if mk_status m = MsOnline
                then mk_mqttSigningSecretEncryptedJson m else None),
              mk_updatedAt := ce_now e\<rparr>)
            (upd_codes (\<lambda>c. mc_machineId c = mk_id m \<and> code_open c)
              (\<lambda>c. c\<lparr>mc_state := CcRevoked, mc_revokedAt := Some (ce_now e),
                     mc_updatedAt := ce_now e\<rparr>) db)))"

subsection \<open>Claims\<close>

definition invalidMachineClaimCode :: api_error where
  "invalidMachineClaimCode = UnauthorizedException ''Invalid or expired machine claim code''"

definition failed_code :: "claim_env \<Rightarrow> claim_code_row \<Rightarrow> claim_code_row \<Rightarrow> claim_code_row" where
  "failed_code e snapshot c =
     (let expired = (mc_expiresAt snapshot \<le> ce_now e);
          pending = (mc_state snapshot = CcPending);
          full = (mc_maxFailedAttempts c \<le> mc_failedAttemptCount c + 1) in
      c\<lparr>mc_failedAttemptCount := mc_failedAttemptCount c + 1,
        mc_state := (if expired \<and> pending then CcExpired
          else if pending then (if full then CcLocked else mc_state c)
          else mc_state snapshot),
        mc_lockedAt := (if pending \<and> \<not> expired
          then (if full \<and> mc_lockedAt c = None then Some (ce_now e) else mc_lockedAt c)
          else mc_lockedAt snapshot),
        mc_claimResponseEncryptedJson := (if expired then None else mc_claimResponseEncryptedJson c),
        mc_updatedAt := ce_now e\<rparr>)"

definition recordFailedMachineClaim :: "claim_env \<Rightarrow> claim_code_row \<Rightarrow> cdb \<Rightarrow> cdb" where
  "recordFailedMachineClaim e snapshot = upd_codes (\<lambda>c. mc_id c = mc_id snapshot) (failed_code e snapshot)"

datatype claim_decision =
  UnknownCode
| FailedClaim claim_code_row
| ReplayClaim claim_code_row claim_profile
| ExecuteClaim claim_code_row claim_machine_row

definition claim_candidate ::
    "claim_env \<Rightarrow> string \<Rightarrow> cdb \<Rightarrow> (claim_code_row \<times> claim_machine_row) option" where
  "claim_candidate e claimCode db =
     (case [(c, m). c \<leftarrow> cdb_codes db, m \<leftarrow> cdb_machines db, mk_id m = mc_machineId c \<and>
         mc_lookupDigest c = digestMachineClaimCodeLookup e claimCode \<and> mk_deletedAt m = None] of
        [] \<Rightarrow> None | r # _ \<Rightarrow> Some r)"

definition parseMachineClaimReplay :: "claim_env \<Rightarrow> string option \<Rightarrow> claim_profile option" where
  "parseMachineClaimReplay e response = Option.bind response (ce_decrypt e)"

definition claim_decide :: "claim_env \<Rightarrow> string \<Rightarrow> cdb \<Rightarrow> claim_decision" where
  "claim_decide e claimCode db =
     (case claim_candidate e claimCode db of
        None \<Rightarrow> UnknownCode
      | Some (c, m) \<Rightarrow>
         (let live = (ce_now e < mc_expiresAt c) in
          if \<not> ce_verify e claimCode (mc_verifierHash c) then FailedClaim c
          else case (if mc_state c = CcConsumed \<and> live
                 then parseMachineClaimReplay e (mc_claimResponseEncryptedJson c) else None) of
              Some profile \<Rightarrow> ReplayClaim c profile
            | None \<Rightarrow> if mc_state c \<noteq> CcPending \<or> \<not> live then FailedClaim c
                      else ExecuteClaim c m))"

definition provisioningProfileMachineStatus :: "machine_status \<Rightarrow> machine_status" where
  "provisioningProfileMachineStatus st = (if st = MsOffline then MsOnline else st)"

definition claim_client_id :: "claim_machine_row \<Rightarrow> string" where
  "claim_client_id m = (case mk_mqttClientId m of None \<Rightarrow> ''vem-machine-'' @ mk_code m | Some s \<Rightarrow> s)"

definition projectMachineClaimProfile ::
    "claim_env \<Rightarrow> uuid \<Rightarrow> claim_machine_row \<Rightarrow> int \<Rightarrow> bool \<times> bool \<Rightarrow> claim_profile" where
  "projectMachineClaimProfile e claimCodeId m secretVersion payment =
     \<lparr>pf_machineId = mk_id m, pf_code = mk_code m,
      pf_status = provisioningProfileMachineStatus (mk_status m), pf_mqttClientId = claim_client_id m,
      pf_qrCodeEnabled = fst payment, pf_paymentCodeEnabled = snd payment,
      pf_claimCodeId = claimCodeId, pf_claimedAt = ce_now e,
      pf_machineSecret = cb_machineSecret (ce_bundle e), pf_machineSecretVersion = secretVersion,
      pf_mqttSigningSecret = cb_mqttSigningSecret (ce_bundle e)\<rparr>"

definition claim_tx ::
    "claim_env \<Rightarrow> claim_code_row \<Rightarrow> claim_machine_row \<Rightarrow> cdb \<Rightarrow> api_error + claim_profile \<times> cdb" where
  "claim_tx e snapshot machine db =
     (let now = ce_now e;
          target = (\<lambda>c. mc_id c = mc_id snapshot \<and> mc_state c = CcPending \<and> now < mc_expiresAt c) in
      case List.find target (cdb_codes db) of
        None \<Rightarrow>
          (case List.find (\<lambda>c. mc_id c = mc_id snapshot \<and> mc_state c = CcConsumed \<and>
                 now < mc_expiresAt c) (cdb_codes db) of
             None \<Rightarrow> Inl invalidMachineClaimCode
           | Some winner \<Rightarrow>
              (case parseMachineClaimReplay e (mc_claimResponseEncryptedJson winner) of
                 Some profile \<Rightarrow> Inr (profile, db) | None \<Rightarrow> Inl invalidMachineClaimCode))
      | Some consumed \<Rightarrow>
         (let db1 = upd_codes target (\<lambda>c. c\<lparr>mc_state := CcConsumed, mc_consumedAt := Some now,
                mc_updatedAt := now\<rparr>) db in
          case live_machine (mc_machineId snapshot) db1 of
            None \<Rightarrow> Inl invalidMachineClaimCode
          | Some m \<Rightarrow>
             bindR (ce_paymentProjection e (mc_machineId snapshot)) (\<lambda>payment.
              (let profile = projectMachineClaimProfile e (mc_id consumed) machine
                     (mk_secretVersion m + 1) payment in
               Inr (profile, upd_codes (\<lambda>c. mc_id c = mc_id consumed)
                 (\<lambda>c. c\<lparr>mc_claimResponseEncryptedJson := Some (ce_encrypt e profile),
                        mc_updatedAt := now\<rparr>)
                 (upd_claim_machines (\<lambda>x. mk_id x = mc_machineId snapshot \<and> mk_deletedAt x = None)
                   (\<lambda>x. (rotate_secrets e x)\<lparr>mk_mqttClientId := Some (claim_client_id machine)\<rparr>)
                   db1))))))"

text \<open>What the request does with what it decided.\<close>

fun claim_finish :: "claim_env \<Rightarrow> claim_decision \<Rightarrow> cdb \<Rightarrow> cdb \<times> (api_error + claim_profile)" where
  "claim_finish e UnknownCode db = (db, Inl invalidMachineClaimCode)"
| "claim_finish e (FailedClaim c) db = (recordFailedMachineClaim e c db, Inl invalidMachineClaimCode)"
| "claim_finish e (ReplayClaim c profile) db = (db, Inr profile)"
| "claim_finish e (ExecuteClaim c m) db = atomic (claim_tx e c m) db"

definition claimMachine :: "claim_env \<Rightarrow> string \<Rightarrow> cdb \<Rightarrow> cdb \<times> (api_error + claim_profile)" where
  "claimMachine e raw db =
     (case parse_claim_request raw of
        None \<Rightarrow> (db, Inl (BadRequestException ''Invalid machine claim request''))
      | Some claimCode \<Rightarrow> claim_finish e (claim_decide e claimCode db) db)"

text \<open>The profile the machine reads back later, from its last consumed code.\<close>

definition getOwnProvisioningProfile :: "uuid \<Rightarrow> cdb \<Rightarrow> api_error + uuid" where
  "getOwnProvisioningProfile machineId db =
     (case sort_key (\<lambda>c. - (case mc_consumedAt c of None \<Rightarrow> 0 | Some t \<Rightarrow> t))
            (filter (\<lambda>c. mc_machineId c = machineId \<and> mc_state c = CcConsumed \<and>
               live_machine machineId db \<noteq> None) (cdb_codes db)) of
        c # _ \<Rightarrow> if mc_consumedAt c = None then Inl (NotFoundException
            ''Accepted machine provisioning profile not found'') else Inr (mc_id c)
      | [] \<Rightarrow> Inl (NotFoundException ''Accepted machine provisioning profile not found''))"

subsection \<open>Requests that overlap\<close>

text \<open>
  The state of the service: the tables and the requests that have decided and not finished yet.
  \<open>ClFinish n\<close> lets the n-th of them finish.
\<close>

record claim_service =
  cl_db :: cdb
  cl_inflight :: "(claim_env \<times> claim_decision) list"

datatype claim_op =
  ClGenerate uuid uuid claim_purpose
| ClArrive string
| ClFinish nat
| ClRevoke uuid uuid uuid
| ClRotate uuid
| ClDecommission uuid

definition drop_nth :: "nat \<Rightarrow> 'a list \<Rightarrow> 'a list" where
  "drop_nth n xs = take n xs @ drop (Suc n) xs"

fun claim_step :: "claim_service \<Rightarrow> claim_env \<times> claim_op \<Rightarrow> claim_service \<times> claim_profile option" where
  "claim_step s (e, ClGenerate i adm purpose) =
     (s\<lparr>cl_db := fst (generateMachineClaimCode e i adm purpose (cl_db s))\<rparr>, None)"
| "claim_step s (e, ClArrive raw) = (case parse_claim_request raw of None \<Rightarrow> (s, None)
     | Some code \<Rightarrow> (s\<lparr>cl_inflight := cl_inflight s @ [(e, claim_decide e code (cl_db s))]\<rparr>, None))"
| "claim_step s (_, ClFinish n) =
     (if n < length (cl_inflight s)
      then (let (e, d) = cl_inflight s ! n; (db, answer) = claim_finish e d (cl_db s) in
            (s\<lparr>cl_db := db, cl_inflight := drop_nth n (cl_inflight s)\<rparr>,
             case answer of Inl _ \<Rightarrow> None | Inr p \<Rightarrow> Some p))
      else (s, None))"
| "claim_step s (e, ClRevoke i c adm) =
     (s\<lparr>cl_db := fst (revokeMachineClaimCode e i c adm (cl_db s))\<rparr>, None)"
| "claim_step s (e, ClRotate i) = (s\<lparr>cl_db := fst (rotateMachineCredentials e i (cl_db s))\<rparr>, None)"
| "claim_step s (e, ClDecommission i) =
     (s\<lparr>cl_db := fst (atomic (secure_decommission_tx e i) (cl_db s))\<rparr>, None)"

end
