(* ===== verification/Claim_Properties.thy ===== *)
theory Claim_Properties
  imports Machine_Claims
begin

text \<open>
  What the claim codes of machines guarantee when requests overlap: a code hands out one set of
  credentials, a machine that was decommissioned gets no others, and the limit on failed attempts is
  never reached.
\<close>

subsection \<open>Codes as people type them\<close>

definition plain_code :: "string \<Rightarrow> bool" where
  "plain_code s \<longleftrightarrow> list_all (\<lambda>c. upper_alnum c \<or> c = CHR ''-'') s"

lemma plain_code_norm: "plain_code s \<Longrightarrow> js_toUpperCase (js_trim s) = s"
proof -
  assume plain: "plain_code s"
  have char: "\<not> js_space c \<and> upper_text c = [c]" if "c \<in> set s" for c
  proof -
    have "upper_alnum c \<or> c = CHR ''-''" using plain that by (auto simp: plain_code_def list_all_iff)
    moreover have "\<not> js_space CHR ''-'' \<and> upper_text CHR ''-'' = ''-''" by code_simp
    ultimately show ?thesis using upper_alnum_upper upper_alnum_not_space by blast
  qed
  have "js_trim s = s" using char by (intro js_trim_none) (metis last_in_set list.set_sel(1))
  then show ?thesis using char by (simp add: js_toUpperCase_id list_all_iff)
qed

lemma pattern_plain:
  assumes "claim_code_pattern s"
  shows "plain_code s"
proof -
  have s: "length s = 9" "s ! 4 = CHR ''-''" "list_all upper_alnum (take 4 s)" "list_all upper_alnum (drop 5 s)"
    using assms by (simp_all add: claim_code_pattern_def)
  have "s = take 4 s @ s ! 4 # drop 5 s" using s(1) id_take_nth_drop [of 4 s] by simp
  moreover have "plain_code (take 4 s @ CHR ''-'' # drop 5 s)"
    using s(3,4) by (auto simp: plain_code_def list_all_iff)
  ultimately show ?thesis using s(2) by simp
qed

lemma alphabet_upper: "list_all upper_alnum CLAIM_CODE_ALPHABET"
  by code_simp

lemma dashed_pattern:
  assumes "list_all upper_alnum cs" and "length cs = 8"
  shows "claim_code_pattern (take 4 cs @ ''-'' @ drop 4 cs)"
proof -
  have "list_all upper_alnum (take 4 cs)" "list_all upper_alnum (drop 4 cs)"
    using assms(1) set_take_subset [of 4 cs] set_drop_subset [of 4 cs] by (auto simp: list_all_iff)
  then show ?thesis using assms(2) by (simp add: claim_code_pattern_def nth_append)
qed

lemma generated_pattern:
  assumes "length bytes = 8"
  shows "claim_code_pattern (generateHumanMachineClaimCode bytes)"
proof -
  let ?cs = "map (\<lambda>b. CLAIM_CODE_ALPHABET ! (b mod length CLAIM_CODE_ALPHABET)) bytes"
  have "0 < length CLAIM_CODE_ALPHABET" by code_simp
  then have "list_all upper_alnum ?cs"
    using alphabet_upper by (auto simp: list_all_length)
  then show ?thesis
    using dashed_pattern [of ?cs] assms by (simp add: generateHumanMachineClaimCode_def Let_def)
qed

lemma parsed_pattern: "parse_claim_request raw = Some code \<Longrightarrow> claim_code_pattern code"
  by (auto simp: parse_claim_request_def Let_def split: if_splits)

subsection \<open>Every row keeps its identity\<close>

definition codes_fresh :: "cdb \<Rightarrow> bool" where
  "codes_fresh db \<longleftrightarrow> distinct (map mc_id (cdb_codes db)) \<and> (\<forall>c\<in>set (cdb_codes db). mc_id c < cdb_next db)"

definition tame :: "(claim_code_row \<Rightarrow> claim_code_row) \<Rightarrow> bool" where
  "tame f \<longleftrightarrow> (\<forall>c. mc_id (f c) = mc_id c \<and> mc_machineId (f c) = mc_machineId c \<and>
     mc_lookupDigest (f c) = mc_lookupDigest c \<and> mc_verifierHash (f c) = mc_verifierHash c \<and>
     (mc_state (f c) = CcPending \<longrightarrow> mc_state c = CcPending) \<and>
     mc_claimResponseEncryptedJson (f c) \<in> {None, mc_claimResponseEncryptedJson c})"

definition benign :: "(claim_code_row \<Rightarrow> claim_code_row) \<Rightarrow> bool" where
  "benign f \<longleftrightarrow> tame f \<and> (\<forall>c. mc_state (f c) = CcLocked \<longrightarrow> mc_state c = CcLocked)"

lemma benign_tame: "benign f \<Longrightarrow> tame f"
  by (simp add: benign_def)

lemma upd_codes_fresh: "tame f \<Longrightarrow> codes_fresh db \<Longrightarrow> codes_fresh (upd_codes p f db)"
  by (auto simp: codes_fresh_def upd_codes_def upd_where_def tame_def comp_def if_distrib cong: if_cong)

lemma upd_machines_codes [simp]:
  "cdb_codes (upd_claim_machines p f db) = cdb_codes db" "cdb_next (upd_claim_machines p f db) = cdb_next db"
  "cdb_machines (upd_codes q g db) = cdb_machines db" "cdb_next (upd_codes q g db) = cdb_next db"
  by (simp_all add: upd_claim_machines_def upd_codes_def)

text \<open>
  What each operation does to the codes: benign updates, one new pending row, or the consumption of
  a pending row by a claim.
\<close>

lemma failed_code_fields:
  "mc_id (failed_code e s c) = mc_id c" "mc_machineId (failed_code e s c) = mc_machineId c"
  "mc_lookupDigest (failed_code e s c) = mc_lookupDigest c" "mc_verifierHash (failed_code e s c) = mc_verifierHash c"
  "mc_claimResponseEncryptedJson (failed_code e s c) \<in> {None, mc_claimResponseEncryptedJson c}"
  by (simp_all add: failed_code_def Let_def)

lemma failed_code_state:
  "mc_state (failed_code e s c) = (if mc_state s = CcPending then if mc_expiresAt s \<le> ce_now e then CcExpired
     else if mc_maxFailedAttempts c \<le> mc_failedAttemptCount c + 1 then CcLocked else mc_state c else mc_state s)"
  by (simp add: failed_code_def Let_def)

lemma failed_code_tame: "tame (failed_code e s)"
  using failed_code_fields by (auto simp: tame_def failed_code_state)

lemma revoke_benign: "\<exists>p f. benign f \<and> fst (revokeMachineClaimCode e i c adm db) = upd_codes p f db"
proof -
  let ?f = "\<lambda>c. c\<lparr>mc_state := CcRevoked, mc_revokedAt := Some (ce_now e),
    mc_revokedByAdminUserId := Some adm, mc_updatedAt := ce_now e\<rparr>"
  have "fst (revokeMachineClaimCode e i c adm db) = db \<or>
      (\<exists>p. fst (revokeMachineClaimCode e i c adm db) = upd_codes p ?f db)"
    by (auto simp: revokeMachineClaimCode_def Let_def split: option.splits)
  moreover have "benign ?f" "benign (\<lambda>c. c)" "upd_codes p (\<lambda>c. c) db = db" for p
    by (auto simp: benign_def tame_def upd_codes_def upd_where_def)
  ultimately show ?thesis by metis
qed

lemma live_machine_hit:
  "live_machine i db = Some m \<Longrightarrow> m \<in> set (cdb_machines db) \<and> mk_id m = i \<and> mk_deletedAt m = None"
  by (auto simp: live_machine_def find_Some_iff)

lemma expire_codes_benign: "\<exists>p f. benign f \<and> expire_codes e cs db = upd_codes p f db"
proof -
  let ?f = "\<lambda>c. c\<lparr>mc_state := CcExpired, mc_updatedAt := ce_now e\<rparr>"
  have "benign ?f" "upd_codes (\<lambda>c. False) ?f db = db"
    by (simp_all add: benign_def tame_def upd_codes_def upd_where_def)
  then show ?thesis unfolding expire_codes_def Let_def by metis
qed

lemma generate_cases:
  assumes "generateMachineClaimCode e i adm purpose db = (db', answer)"
  shows "\<exists>p f. benign f \<and> (db' = upd_codes p f db \<or>
    insert_claim_code (new_claim_code e i adm purpose (generateHumanMachineClaimCode (ce_randomBytes e))
      (cdb_next db)) (upd_codes p f db) = Inr db')"
proof -
  have same: "\<exists>p f. benign f \<and> db = upd_codes p f db"
    by (rule exI [of _ "\<lambda>c. False"], rule exI [of _ "\<lambda>c. c"]) (simp add: benign_def tame_def upd_codes_def upd_where_def)
  show ?thesis
  proof (cases "live_machine i db")
    case None
    with assms same show ?thesis by (simp add: generateMachineClaimCode_def) blast
  next
    case (Some m)
    let ?open = "filter (\<lambda>c. mc_machineId c = mk_id m \<and> code_open c) (cdb_codes db)"
    obtain p f where pf: "benign f" "expire_codes e ?open db = upd_codes p f db"
      using expire_codes_benign by blast
    have "db' = db \<or> db' = upd_codes p f db \<or>
      insert_claim_code (new_claim_code e i adm purpose (generateHumanMachineClaimCode (ce_randomBytes e))
        (cdb_next db)) (upd_codes p f db) = Inr db'"
      using assms live_machine_hit [OF Some]
      by (auto simp: generateMachineClaimCode_def Some Let_def pf(2) split: sum.splits if_splits)
    with same pf(1) show ?thesis by metis
  qed
qed

lemma decommission_cases:
  assumes "secure_decommission_tx e i db = Inr (done, db')"
  obtains (Same) "\<not> done" and "db' = db"
  | (Cut) f g where "done" and "benign f" and "\<And>c. mc_state (f c) = CcRevoked"
      and "db' = upd_claim_machines (\<lambda>x. mk_id x = i) g (upd_codes (\<lambda>c. mc_machineId c = i \<and> code_open c) f db)"
      and "\<And>x. mk_id (g x) = mk_id x \<and> mk_secretHash (g x) = None \<and> mk_status (g x) = MsDisabled"
proof (cases "live_machine i db")
  case None
  with assms Same show thesis by (simp add: secure_decommission_tx_def)
next
  case (Some m)
  have m: "mk_id m = i" using live_machine_hit [OF Some] by simp
  let ?f = "\<lambda>c. c\<lparr>mc_state := CcRevoked, mc_revokedAt := Some (ce_now e), mc_updatedAt := ce_now e\<rparr>"
  have benign: "benign ?f" by (simp add: benign_def tame_def)
  show thesis
    using assms Same Cut [OF _ benign]
    by (auto simp: secure_decommission_tx_def Some m split: if_splits)
qed

lemma claim_tx_cases:
  assumes "claim_tx e sn m db = Inr (p, db')"
  obtains (Replay) w where "db' = db" and "w \<in> set (cdb_codes db)" and "mc_id w = mc_id sn"
      and "Option.bind (mc_claimResponseEncryptedJson w) (ce_decrypt e) = Some p"
  | (Consume) c f g where "c \<in> set (cdb_codes db)" and "mc_id c = mc_id sn" and "mc_state c = CcPending"
      and "ce_now e < mc_expiresAt c" and "pf_claimCodeId p = mc_id c"
      and "cdb_codes db' = upd_where (\<lambda>x. mc_id x = mc_id sn) (\<lambda>x. (f x)\<lparr>mc_claimResponseEncryptedJson :=
          Some (ce_encrypt e p), mc_updatedAt := ce_now e\<rparr>) (cdb_codes db)"
      and "benign f" and "\<And>x. mc_state x = CcPending \<and> ce_now e < mc_expiresAt x \<Longrightarrow> mc_state (f x) = CcConsumed"
      and "cdb_machines db' = upd_where (\<lambda>x. mk_id x = mc_machineId sn \<and> mk_deletedAt x = None) g (cdb_machines db)"
      and "\<And>x. mk_id (g x) = mk_id x" and "cdb_next db' = cdb_next db"
proof (cases "List.find (\<lambda>c. mc_id c = mc_id sn \<and> mc_state c = CcPending \<and> ce_now e < mc_expiresAt c) (cdb_codes db)")
  case None
  show thesis
    using assms Replay
    by (auto simp: claim_tx_def None Let_def parseMachineClaimReplay_def dest!: find_SomeD split: option.splits)
next
  case (Some c)
  let ?f = "\<lambda>x. if mc_state x = CcPending \<and> ce_now e < mc_expiresAt x
    then x\<lparr>mc_state := CcConsumed, mc_consumedAt := Some (ce_now e), mc_updatedAt := ce_now e\<rparr> else x"
  have c: "c \<in> set (cdb_codes db)" "mc_id c = mc_id sn" "mc_state c = CcPending" "ce_now e < mc_expiresAt c"
    using Some by (auto simp: find_Some_iff)
  have benign: "benign ?f" by (simp add: benign_def tame_def)
  have fuse: "upd_where (\<lambda>x. mc_id x = mc_id c) (\<lambda>x. x\<lparr>mc_claimResponseEncryptedJson := r, mc_updatedAt := ce_now e\<rparr>)
      (upd_where (\<lambda>x. mc_id x = mc_id sn \<and> mc_state x = CcPending \<and> ce_now e < mc_expiresAt x)
        (\<lambda>x. x\<lparr>mc_state := CcConsumed, mc_consumedAt := Some (ce_now e), mc_updatedAt := ce_now e\<rparr>) xs) =
    upd_where (\<lambda>x. mc_id x = mc_id sn) (\<lambda>x. (?f x)\<lparr>mc_claimResponseEncryptedJson := r, mc_updatedAt := ce_now e\<rparr>) xs"
    for r xs by (auto simp: upd_where_def c(2))
  show thesis
    using assms
    by (auto simp: claim_tx_def Some Let_def bindR_eq_Inr upd_codes_def upd_claim_machines_def
        fuse rotate_secrets_def projectMachineClaimProfile_def split: option.splits
        intro!: Consume [OF c _ _ benign])
qed

subsection \<open>Runs\<close>

fun claim_run :: "(claim_env \<times> claim_op) list \<Rightarrow> claim_service \<Rightarrow> claim_profile list \<times> claim_service" where
  "claim_run [] s = ([], s)"
| "claim_run (op # ops) s =
     (let (s1, answer) = claim_step s op; (answers, s2) = claim_run ops s1 in
      ((case answer of None \<Rightarrow> answers | Some p \<Rightarrow> p # answers), s2))"

definition unused_service :: "claim_service \<Rightarrow> bool" where
  "unused_service s \<longleftrightarrow> cdb_codes (cl_db s) = [] \<and> cl_inflight s = []"

lemma drop_nth_subset: "set (drop_nth n xs) \<subseteq> set xs"
  by (auto simp: drop_nth_def dest: in_set_takeD in_set_dropD)

lemma insert_code_InrD:
  assumes "insert_claim_code c db = Inr db'"
  shows "cdb_codes db' = cdb_codes db @ [c]" and "cdb_next db' = Suc (cdb_next db)"
    and "cdb_machines db' = cdb_machines db"
  using assms by (auto simp: insert_claim_code_def split: if_splits)

lemma insert_fresh:
  assumes "codes_fresh db" and "insert_claim_code c db = Inr db'" and "mc_id c = cdb_next db"
  shows "codes_fresh db'"
  using assms(1,3) by (auto simp: codes_fresh_def insert_code_InrD [OF assms(2)] less_Suc_eq)

subsection \<open>One set of credentials per code\<close>

text \<open>\<open>iss\<close> is what each code was answered with; the stored answers are encryptions of it.\<close>

definition row_issued :: "(claim_profile \<Rightarrow> string) \<Rightarrow> (uuid \<Rightarrow> claim_profile option) \<Rightarrow> claim_code_row \<Rightarrow> bool" where
  "row_issued enc iss c \<longleftrightarrow> (mc_state c = CcPending \<longrightarrow> iss (mc_id c) = None) \<and>
     mc_claimResponseEncryptedJson c \<in> {None, map_option enc (iss (mc_id c))}"

definition issued_ok :: "(claim_profile \<Rightarrow> string) \<Rightarrow> (string \<Rightarrow> claim_profile option) \<Rightarrow>
    (uuid \<Rightarrow> claim_profile option) \<Rightarrow> cdb \<Rightarrow> bool" where
  "issued_ok enc dec iss db \<longleftrightarrow> codes_fresh db \<and>
     (\<forall>i p. iss i = Some p \<longrightarrow> pf_claimCodeId p = i \<and> i < cdb_next db \<and> dec (enc p) = Some p) \<and>
     (\<forall>c\<in>set (cdb_codes db). row_issued enc iss c)"

definition keyed :: "(claim_profile \<Rightarrow> string) \<Rightarrow> (string \<Rightarrow> claim_profile option) \<Rightarrow> claim_env \<Rightarrow> bool" where
  "keyed enc dec e \<longleftrightarrow> ce_encrypt e = enc \<and> ce_decrypt e = dec"

lemma row_issued_tame:
  assumes "tame f" and "row_issued enc iss c"
  shows "row_issued enc iss (f c)"
proof -
  have f: "mc_id (f c) = mc_id c" "mc_state (f c) = CcPending \<Longrightarrow> mc_state c = CcPending"
    "mc_claimResponseEncryptedJson (f c) \<in> {None, mc_claimResponseEncryptedJson c}"
    using assms(1) by (auto simp: tame_def)
  with assms(2) show ?thesis by (auto simp: row_issued_def)
qed

lemma row_answer:
  assumes "row_issued enc iss c" and "mc_claimResponseEncryptedJson c = Some r" and "dec r = Some p"
    and "\<And>p. iss (mc_id c) = Some p \<Longrightarrow> dec (enc p) = Some p"
  shows "iss (mc_id c) = Some p"
  using assms by (cases "iss (mc_id c)") (auto simp: row_issued_def)

lemma upd_rows:
  "(\<And>c. c \<in> set xs \<Longrightarrow> R c) \<Longrightarrow> (\<And>c. R c \<Longrightarrow> R (f c)) \<Longrightarrow> \<forall>c\<in>set (upd_where p f xs). R c"
  by (auto simp: set_upd_where)

lemma issued_upd:
  assumes "tame f" and ok: "issued_ok enc dec iss db"
  shows "issued_ok enc dec iss (upd_codes p f db)"
proof -
  have "\<forall>c\<in>set (upd_where p f (cdb_codes db)). row_issued enc iss c"
    using ok row_issued_tame [OF assms(1)] by (intro upd_rows) (auto simp: issued_ok_def)
  then show ?thesis using ok upd_codes_fresh [OF assms(1)] by (simp add: issued_ok_def upd_codes_def)
qed

lemma issued_same:
  "issued_ok enc dec iss db \<Longrightarrow> cdb_codes db' = cdb_codes db \<Longrightarrow> cdb_next db' = cdb_next db \<Longrightarrow> issued_ok enc dec iss db'"
  by (simp add: issued_ok_def codes_fresh_def)

lemma issued_insert:
  assumes ok: "issued_ok enc dec iss db" and run: "insert_claim_code (new_claim_code e i adm purpose code (cdb_next db)) db = Inr db'"
  shows "issued_ok enc dec iss db'"
proof -
  have "codes_fresh db'" using insert_fresh [OF _ run] ok by (simp add: issued_ok_def new_claim_code_def)
  moreover have "iss (cdb_next db) = None"
    using ok by (cases "iss (cdb_next db)") (auto simp: issued_ok_def)
  ultimately show ?thesis
    using ok by (auto simp: issued_ok_def insert_code_InrD [OF run] new_claim_code_def row_issued_def less_SucI)
qed

lemma issued_claim:
  assumes ok: "issued_ok enc dec iss db" and e: "keyed enc dec e" and inverse: "dec (enc p) = Some p"
    and run: "claim_tx e sn m db = Inr (p, db')"
  shows "\<exists>iss'. issued_ok enc dec iss' db' \<and> iss \<subseteq>\<^sub>m iss' \<and> iss' (pf_claimCodeId p) = Some p"
  using run
proof (cases rule: claim_tx_cases)
  case (Replay w)
  then obtain r where "mc_claimResponseEncryptedJson w = Some r" "dec r = Some p"
    using e by (auto simp: keyed_def bind_eq_Some_conv)
  then have "iss (mc_id w) = Some p"
    using row_answer [of enc iss w] ok Replay(2) by (auto simp: issued_ok_def)
  with ok have "iss (pf_claimCodeId p) = Some p" by (auto simp: issued_ok_def)
  with ok Replay(1) show ?thesis by (intro exI [of _ iss]) simp
next
  case (Consume c f g)
  let ?iss = "iss(mc_id c \<mapsto> p)"
  let ?h = "\<lambda>x. (f x)\<lparr>mc_claimResponseEncryptedJson := Some (ce_encrypt e p), mc_updatedAt := ce_now e\<rparr>"
  have fresh: "iss (mc_id c) = None" "mc_id c < cdb_next db" "distinct (map mc_id (cdb_codes db))"
    using ok Consume(1,3) by (auto simp: issued_ok_def codes_fresh_def row_issued_def)
  have ids: "mc_id (f x) = mc_id x" for x using benign_tame [OF Consume(7)] by (simp add: tame_def)
  have "codes_fresh db'"
    using ok by (auto simp: issued_ok_def codes_fresh_def Consume(6,11) upd_where_def ids comp_def
        if_distrib cong: if_cong)
  moreover have "row_issued enc ?iss x" if "x \<in> set (cdb_codes db')" for x
  proof (cases "mc_id x = mc_id c")
    case True
    then have "x = ?h c"
      using that key_unique [OF fresh(3) Consume(1)] ids by (auto simp: Consume(2,6) set_upd_where)
    moreover have "mc_state (f c) = CcConsumed" using Consume(3,4,8) by simp
    ultimately show ?thesis using e ids by (simp add: row_issued_def keyed_def)
  next
    case False
    then have "x \<in> set (cdb_codes db)" using that ids by (auto simp: Consume(2,6) set_upd_where)
    then have "row_issued enc iss x" using ok by (simp add: issued_ok_def)
    with False show ?thesis by (simp add: row_issued_def)
  qed
  moreover have "pf_claimCodeId q = i \<and> i < cdb_next db' \<and> dec (enc q) = Some q" if "?iss i = Some q" for i q
    using that ok fresh(2) Consume(5,11) inverse by (auto simp: issued_ok_def split: if_splits)
  ultimately have "issued_ok enc dec ?iss db'" by (simp only: issued_ok_def) blast
  then show ?thesis using fresh Consume(5) by (intro exI [of _ ?iss]) (auto simp: map_le_def)
qed

text \<open>An answer of a request that is under way agrees with what was issued.\<close>

fun answer_issued :: "(uuid \<Rightarrow> claim_profile option) \<Rightarrow> claim_decision \<Rightarrow> bool" where
  "answer_issued iss (ReplayClaim c p) = (iss (pf_claimCodeId p) = Some p)"
| "answer_issued iss _ = True"

definition service_issued ::
    "(claim_profile \<Rightarrow> string) \<Rightarrow> (string \<Rightarrow> claim_profile option) \<Rightarrow> (uuid \<Rightarrow> claim_profile option) \<Rightarrow>
     claim_service \<Rightarrow> bool" where
  "service_issued enc dec iss s \<longleftrightarrow> issued_ok enc dec iss (cl_db s) \<and>
     (\<forall>(e, d)\<in>set (cl_inflight s). keyed enc dec e \<and> answer_issued iss d)"

lemma candidate_mem: "claim_candidate e code db = Some (c, m) \<Longrightarrow> c \<in> set (cdb_codes db) \<and> m \<in> set (cdb_machines db) \<and>
    mk_id m = mc_machineId c \<and> mc_lookupDigest c = digestMachineClaimCodeLookup e code"
proof -
  assume "claim_candidate e code db = Some (c, m)"
  let ?rows = "[(c, m). c \<leftarrow> cdb_codes db, m \<leftarrow> cdb_machines db, mk_id m = mc_machineId c \<and>
      mc_lookupDigest c = digestMachineClaimCodeLookup e code \<and> mk_deletedAt m = None]"
  assume "claim_candidate e code db = Some (c, m)"
  then have "(case ?rows of [] \<Rightarrow> None | r # rest \<Rightarrow> Some r) = Some (c, m)"
    by (simp only: claim_candidate_def)
  then have "(c, m) \<in> set ?rows" by (cases ?rows) (simp_all only: list.case, simp_all)
  then show ?thesis by auto
qed

lemma decide_issued:
  assumes ok: "issued_ok enc dec iss db" and e: "keyed enc dec e"
  shows "answer_issued iss (claim_decide e code db)"
proof (cases "claim_decide e code db")
  case (ReplayClaim c p)
  then obtain m r where cand: "claim_candidate e code db = Some (c, m)"
    and r: "mc_claimResponseEncryptedJson c = Some r" "ce_decrypt e r = Some p"
    by (auto simp: claim_decide_def Let_def parseMachineClaimReplay_def bind_eq_Some_conv
        split: option.splits if_splits prod.splits)
  then have "iss (mc_id c) = Some p"
    using row_answer [of enc iss c r dec] candidate_mem [OF cand] ok e
    by (auto simp: issued_ok_def keyed_def)
  then show ?thesis using ok ReplayClaim by (auto simp: issued_ok_def)
qed auto

lemma answer_issued_mono: "iss \<subseteq>\<^sub>m iss' \<Longrightarrow> answer_issued iss d \<Longrightarrow> answer_issued iss' d"
  by (cases d) (auto simp: map_le_def dom_def)

lemma finish_issued:
  assumes ok: "issued_ok enc dec iss db" and e: "keyed enc dec e" and inverse: "\<And>p. answer = Inr p \<Longrightarrow> dec (enc p) = Some p"
    and d: "answer_issued iss d" and run: "claim_finish e d db = (db', answer)"
  shows "\<exists>iss'. issued_ok enc dec iss' db' \<and> iss \<subseteq>\<^sub>m iss' \<and>
    (\<forall>p. answer = Inr p \<longrightarrow> iss' (pf_claimCodeId p) = Some p)"
proof (cases d)
  case (FailedClaim c)
  with run obtain p f where "tame f" "db' = upd_codes p f db" "answer = Inl invalidMachineClaimCode"
    using failed_code_tame [of e c] by (auto simp: recordFailedMachineClaim_def)
  with issued_upd ok show ?thesis by (intro exI [of _ iss]) auto
next
  case (ExecuteClaim c m)
  with run have run: "atomic (claim_tx e c m) db = (db', answer)" by simp
  show ?thesis
  proof (cases "claim_tx e c m db")
    case (Inl err)
    with run ok show ?thesis by (intro exI [of _ iss]) auto
  next
    case (Inr res)
    then obtain p db1 where "claim_tx e c m db = Inr (p, db1)" by (cases res) auto
    with run issued_claim [OF ok e _ this] inverse show ?thesis by auto
  qed
qed (use run ok d in \<open>auto intro!: exI [of _ iss]\<close>)

lemma drop_nth_all: "\<forall>x\<in>set xs. P x \<Longrightarrow> \<forall>x\<in>set (drop_nth n xs). P x"
  using drop_nth_subset [of n xs] by blast

lemma step_issued:
  assumes ok: "service_issued enc dec iss s" and e: "keyed enc dec e"
    and step: "claim_step s (e, op) = (s', answer)"
    and inverse: "\<And>p. answer = Some p \<Longrightarrow> dec (enc p) = Some p"
  shows "\<exists>iss'. service_issued enc dec iss' s' \<and> iss \<subseteq>\<^sub>m iss' \<and>
    (\<forall>p. answer = Some p \<longrightarrow> iss' (pf_claimCodeId p) = Some p)"
proof -
  have db: "issued_ok enc dec iss (cl_db s)"
    and flight: "\<forall>(e, d)\<in>set (cl_inflight s). keyed enc dec e \<and> answer_issued iss d"
    using ok by (simp_all add: service_issued_def)
  have same: ?thesis if "issued_ok enc dec iss (cl_db s')" "cl_inflight s' = cl_inflight s" "answer = None"
    using that flight by (intro exI [of _ iss]) (simp add: service_issued_def)
  show ?thesis
  proof (cases op)
    case (ClGenerate i adm purpose)
    obtain db' res where gen: "generateMachineClaimCode e i adm purpose (cl_db s) = (db', res)" by fastforce
    have "issued_ok enc dec iss db'"
      using generate_cases [OF gen] issued_upd [OF _ db] issued_insert
      by (metis benign_tame upd_machines_codes(4))
    then show ?thesis using step same by (auto simp: ClGenerate gen)
  next
    case (ClArrive raw)
    then show ?thesis using step db flight e decide_issued [OF db e]
      by (intro exI [of _ iss]) (auto simp: service_issued_def split: option.splits)
  next
    case (ClFinish n)
    show ?thesis
    proof (cases "n < length (cl_inflight s)")
      case False
      with step ok show ?thesis by (intro exI [of _ iss]) (simp add: ClFinish)
    next
      case True
      obtain e1 d where x: "cl_inflight s ! n = (e1, d)" by fastforce
      obtain db' res where fin: "claim_finish e1 d (cl_db s) = (db', res)" by fastforce
      have d: "keyed enc dec e1" "answer_issued iss d" using flight nth_mem [OF True] x by auto
      have s': "s' = s\<lparr>cl_db := db', cl_inflight := drop_nth n (cl_inflight s)\<rparr>"
        "answer = (case res of Inl _ \<Rightarrow> None | Inr p \<Rightarrow> Some p)"
        using step by (simp_all add: ClFinish True x fin)
      obtain iss' where iss': "issued_ok enc dec iss' db'" "iss \<subseteq>\<^sub>m iss'"
        "\<forall>p. res = Inr p \<longrightarrow> iss' (pf_claimCodeId p) = Some p"
        using finish_issued [OF db d(1) _ d(2) fin] inverse s'(2) by auto
      have "\<forall>(e, d)\<in>set (drop_nth n (cl_inflight s)). keyed enc dec e \<and> answer_issued iss' d"
        using drop_nth_all [OF flight, of n] answer_issued_mono [OF iss'(2)] by fastforce
      with iss' s' show ?thesis
        by (intro exI [of _ iss']) (auto simp: service_issued_def split: sum.splits)
    qed
  next
    case (ClRevoke i c adm)
    obtain p f where f: "benign f" "fst (revokeMachineClaimCode e i c adm (cl_db s)) = upd_codes p f (cl_db s)"
      using revoke_benign by blast
    show ?thesis using step same issued_upd [OF benign_tame [OF f(1)] db, of p] by (auto simp: ClRevoke f(2))
  next
    case (ClRotate i)
    have "cdb_codes (cl_db s') = cdb_codes (cl_db s)" "cdb_next (cl_db s') = cdb_next (cl_db s)"
      using step by (auto simp: ClRotate rotateMachineCredentials_def split: option.splits)
    then have "issued_ok enc dec iss (cl_db s')" using issued_same [OF db] by simp
    then show ?thesis using step same by (auto simp: ClRotate)
  next
    case (ClDecommission i)
    have "issued_ok enc dec iss (fst (atomic (secure_decommission_tx e i) (cl_db s)))"
      by (rule atomic_keeps [where I = "issued_ok enc dec iss", OF db], erule decommission_cases)
        (use db in \<open>auto intro: issued_same [OF issued_upd] benign_tame\<close>)
    then show ?thesis using step same by (auto simp: ClDecommission)
  qed
qed

lemma run_issued:
  assumes "service_issued enc dec iss s" and "list_all (\<lambda>(e, _). keyed enc dec e) ops"
    and "claim_run ops s = (answers, s')" and "\<forall>p\<in>set answers. dec (enc p) = Some p"
  shows "\<exists>iss'. iss \<subseteq>\<^sub>m iss' \<and> (\<forall>p\<in>set answers. iss' (pf_claimCodeId p) = Some p)"
  using assms
proof (induction ops arbitrary: s iss answers)
  case Nil
  then show ?case by (intro exI [of _ iss]) simp
next
  case (Cons a ops)
  obtain e op where a: "a = (e, op)" by fastforce
  obtain s1 answer where step: "claim_step s (e, op) = (s1, answer)" by fastforce
  obtain more where more: "claim_run ops s1 = (more, s')"
    "answers = (case answer of None \<Rightarrow> more | Some p \<Rightarrow> p # more)"
    using Cons.prems(3) by (auto simp: a step split: prod.splits)
  have inv: "\<forall>p\<in>set more. dec (enc p) = Some p" "\<And>p. answer = Some p \<Longrightarrow> dec (enc p) = Some p"
    using Cons.prems(4) more(2) by (auto split: option.splits)
  obtain iss1 where one: "service_issued enc dec iss1 s1" "iss \<subseteq>\<^sub>m iss1"
    "\<forall>p. answer = Some p \<longrightarrow> iss1 (pf_claimCodeId p) = Some p"
    using step_issued [OF Cons.prems(1) _ step inv(2)] Cons.prems(2) a by auto
  then obtain iss2 where "iss1 \<subseteq>\<^sub>m iss2" "\<forall>p\<in>set more. iss2 (pf_claimCodeId p) = Some p"
    using Cons.IH [OF one(1) _ more(1) inv(1)] Cons.prems(2) by auto
  with one(2,3) more(2) show ?case
    by (intro exI [of _ iss2]) (auto simp: map_le_def dom_def split: option.splits)
qed

text \<open>C8: a claim code hands out one set of credentials: however requests for claim codes overlap with
  each other and with generating, revoking, rotating and decommissioning, two successful answers for
  the same code carry the same profile, secrets included. (What was answered decrypts to itself.)\<close>

theorem one_set_of_credentials_per_code:
  assumes "unused_service s" and "list_all (\<lambda>(e, _). keyed enc dec e) ops"
    and "claim_run ops s = (answers, s')" and "\<forall>p\<in>set answers. dec (enc p) = Some p"
    and "p \<in> set answers" and "q \<in> set answers" and "pf_claimCodeId p = pf_claimCodeId q"
  shows "p = q"
proof -
  have "service_issued enc dec (\<lambda>_. None) s"
    using assms(1) by (simp add: unused_service_def service_issued_def issued_ok_def codes_fresh_def)
  from run_issued [OF this assms(2-4)] obtain iss where
    "\<forall>p\<in>set answers. iss (pf_claimCodeId p) = Some p" by blast
  with assms(5-7) show ?thesis by (metis option.inject)
qed

subsection \<open>Failed attempts\<close>

definition lawful :: "(string \<Rightarrow> string) \<Rightarrow> (string \<Rightarrow> string \<Rightarrow> bool) \<Rightarrow> claim_env \<Rightarrow> bool" where
  "lawful dig ver e \<longleftrightarrow> ce_digest e = dig \<and> ce_verify e = ver \<and> (\<forall>c. ver c (ce_hash e c)) \<and>
     length (ce_randomBytes e) = 8"

definition genuine :: "(string \<Rightarrow> string) \<Rightarrow> (string \<Rightarrow> string \<Rightarrow> bool) \<Rightarrow> claim_code_row \<Rightarrow> bool" where
  "genuine dig ver c \<longleftrightarrow> mc_state c \<noteq> CcLocked \<and>
     (\<exists>g. claim_code_pattern g \<and> mc_lookupDigest c = dig g \<and> ver g (mc_verifierHash c))"

fun justified :: "claim_env \<Rightarrow> claim_decision \<Rightarrow> bool" where
  "justified e (FailedClaim c) \<longleftrightarrow> mc_state c \<noteq> CcLocked \<and> (mc_state c = CcPending \<longrightarrow> mc_expiresAt c \<le> ce_now e)"
| "justified e _ \<longleftrightarrow> True"

definition all_genuine :: "(string \<Rightarrow> string) \<Rightarrow> (string \<Rightarrow> string \<Rightarrow> bool) \<Rightarrow> cdb \<Rightarrow> bool" where
  "all_genuine dig ver db \<longleftrightarrow> (\<forall>c\<in>set (cdb_codes db). genuine dig ver c)"

lemma genuine_tame:
  assumes "tame f" and "genuine dig ver c" and "mc_state (f c) \<noteq> CcLocked"
  shows "genuine dig ver (f c)"
proof -
  have "mc_lookupDigest (f c) = mc_lookupDigest c" "mc_verifierHash (f c) = mc_verifierHash c"
    using assms(1) by (simp_all add: tame_def)
  with assms(2,3) show ?thesis by (simp add: genuine_def)
qed

lemma genuine_benign: "benign f \<Longrightarrow> genuine dig ver c \<Longrightarrow> genuine dig ver (f c)"
  by (rule genuine_tame) (auto simp: benign_def genuine_def)

lemma genuine_response:
  "genuine dig ver (c\<lparr>mc_claimResponseEncryptedJson := r, mc_updatedAt := t\<rparr>) = genuine dig ver c"
  by (simp add: genuine_def)

lemma genuine_upd: "benign f \<Longrightarrow> all_genuine dig ver db \<Longrightarrow> all_genuine dig ver (upd_codes p f db)"
  unfolding all_genuine_def upd_codes_def by (simp, rule upd_rows) (auto intro: genuine_benign)

lemma decide_justified:
  assumes ok: "all_genuine dig ver db" and e: "lawful dig ver e" and inj: "inj_on dig (Collect claim_code_pattern)"
    and code: "claim_code_pattern code"
  shows "justified e (claim_decide e code db)"
proof (cases "claim_decide e code db")
  case (FailedClaim c)
  then obtain m where cand: "claim_candidate e code db = Some (c, m)"
    and fail: "\<not> ce_verify e code (mc_verifierHash c) \<or> mc_state c \<noteq> CcPending \<or> mc_expiresAt c \<le> ce_now e"
    by (auto simp: claim_decide_def Let_def split: option.splits if_splits prod.splits)
  have "genuine dig ver c" using ok candidate_mem [OF cand] by (simp add: all_genuine_def)
  then obtain g where g: "claim_code_pattern g" "mc_lookupDigest c = dig g" "ver g (mc_verifierHash c)"
    "mc_state c \<noteq> CcLocked" by (auto simp: genuine_def)
  have "dig g = dig code"
    using candidate_mem [OF cand] g(2) e plain_code_norm [OF pattern_plain [OF code]]
    by (simp add: digestMachineClaimCodeLookup_def lawful_def)
  then have "g = code" using inj g(1) code by (auto dest: inj_onD)
  with g e fail FailedClaim show ?thesis by (auto simp: lawful_def)
qed auto

lemma recordFailed_genuine:
  assumes "all_genuine dig ver db" and "justified e (FailedClaim c)"
  shows "all_genuine dig ver (recordFailedMachineClaim e c db)"
proof -
  have "benign (failed_code e c)"
    using assms(2) failed_code_tame by (auto simp: benign_def failed_code_state)
  then show ?thesis using genuine_upd assms(1) by (simp add: recordFailedMachineClaim_def)
qed

lemma finish_genuine:
  assumes ok: "all_genuine dig ver db" and d: "justified e d" and run: "claim_finish e d db = (db', answer)"
  shows "all_genuine dig ver db'"
proof (cases d)
  case (ExecuteClaim c m)
  show ?thesis
  proof (cases "claim_tx e c m db")
    case (Inl err)
    with run ok ExecuteClaim show ?thesis by auto
  next
    case (Inr res)
    then obtain p where tx: "claim_tx e c m db = Inr (p, db')" using run ExecuteClaim by (cases res) auto
    then show ?thesis
    proof (cases rule: claim_tx_cases)
      case (Consume c1 f g)
      have "\<forall>x\<in>set (cdb_codes db'). genuine dig ver x"
        unfolding Consume(6) using ok genuine_benign [OF Consume(7)]
        by (intro upd_rows) (simp_all add: all_genuine_def genuine_response)
      then show ?thesis by (simp add: all_genuine_def)
    qed (use ok in simp)
  qed
qed (use run ok d recordFailed_genuine in auto)

definition service_genuine :: "(string \<Rightarrow> string) \<Rightarrow> (string \<Rightarrow> string \<Rightarrow> bool) \<Rightarrow> claim_service \<Rightarrow> bool" where
  "service_genuine dig ver s \<longleftrightarrow> all_genuine dig ver (cl_db s) \<and> (\<forall>(e, d)\<in>set (cl_inflight s). justified e d)"

lemma step_genuine:
  assumes ok: "service_genuine dig ver s" and e: "lawful dig ver e" and inj: "inj_on dig (Collect claim_code_pattern)"
  shows "service_genuine dig ver (fst (claim_step s (e, op)))"
proof -
  have db: "all_genuine dig ver (cl_db s)" and flight: "\<forall>(e, d)\<in>set (cl_inflight s). justified e d"
    using ok by (simp_all add: service_genuine_def)
  show ?thesis
  proof (cases op)
    case (ClGenerate i adm purpose)
    obtain db' res where gen: "generateMachineClaimCode e i adm purpose (cl_db s) = (db', res)" by fastforce
    let ?code = "generateHumanMachineClaimCode (ce_randomBytes e)"
    have "genuine dig ver (new_claim_code e i adm purpose ?code n)" for n
      using e generated_pattern [of "ce_randomBytes e"] plain_code_norm [OF pattern_plain [of ?code]]
      by (auto simp: genuine_def new_claim_code_def lawful_def digestMachineClaimCodeLookup_def)
    then have "all_genuine dig ver db'"
      using generate_cases [OF gen] genuine_upd [OF _ db] insert_code_InrD(1)
      by (fastforce simp: all_genuine_def)
    then show ?thesis using flight by (simp add: service_genuine_def ClGenerate gen)
  next
    case (ClArrive raw)
    then show ?thesis using db flight decide_justified [OF db e inj] parsed_pattern
      by (auto simp: service_genuine_def split: option.splits)
  next
    case (ClFinish n)
    show ?thesis
    proof (cases "n < length (cl_inflight s)")
      case True
      obtain e1 d where x: "cl_inflight s ! n = (e1, d)" by fastforce
      then have "justified e1 d" using flight nth_mem [OF True] by auto
      with finish_genuine [OF db] drop_nth_all [OF flight, of n] show ?thesis
        by (auto simp: service_genuine_def ClFinish True x split: prod.splits)
    qed (use ok in \<open>simp add: ClFinish\<close>)
  next
    case (ClRevoke i c adm)
    then show ?thesis using revoke_benign [of e i c adm "cl_db s"] genuine_upd [OF _ db] flight
      by (auto simp: service_genuine_def)
  next
    case (ClRotate i)
    have "cdb_codes (fst (rotateMachineCredentials e i (cl_db s))) = cdb_codes (cl_db s)"
      by (simp add: rotateMachineCredentials_def split: option.splits)
    with ClRotate db flight show ?thesis by (simp add: service_genuine_def all_genuine_def)
  next
    case (ClDecommission i)
    have "all_genuine dig ver (fst (atomic (secure_decommission_tx e i) (cl_db s)))"
      by (rule atomic_keeps [where I = "all_genuine dig ver", OF db], erule decommission_cases)
        (use db genuine_upd in \<open>auto simp: all_genuine_def\<close>)
    with flight show ?thesis by (simp add: service_genuine_def ClDecommission)
  qed
qed

lemma claim_run_invariant:
  assumes "I s" and "\<And>s e op. I s \<Longrightarrow> P (e, op) \<Longrightarrow> I (fst (claim_step s (e, op)))" and "list_all P ops"
  shows "I (snd (claim_run ops s))"
  using assms(1,3)
proof (induction ops arbitrary: s)
  case (Cons a ops)
  obtain e op where a: "a = (e, op)" by fastforce
  have "I (fst (claim_step s a))" using assms(2) Cons.prems a by simp
  then show ?case using Cons.IH [of "fst (claim_step s a)"] Cons.prems by (simp add: split_beta Let_def)
qed simp


subsection \<open>Decommissioned machines\<close>

text \<open>A claim under way belongs to the machine its code was issued for.\<close>

definition snapshot_ok :: "cdb \<Rightarrow> claim_decision \<Rightarrow> bool" where
  "snapshot_ok db d \<longleftrightarrow> (case d of ExecuteClaim c m \<Rightarrow> mc_id c < cdb_next db \<and>
     (\<forall>x\<in>set (cdb_codes db). mc_id x = mc_id c \<longrightarrow> mc_machineId x = mc_machineId c) | _ \<Rightarrow> True)"

definition dismissed :: "uuid \<Rightarrow> cdb \<Rightarrow> bool" where
  "dismissed i db \<longleftrightarrow>
     (\<forall>m\<in>set (cdb_machines db). mk_id m = i \<longrightarrow> mk_secretHash m = None \<and> mk_status m = MsDisabled) \<and>
     (\<forall>c\<in>set (cdb_codes db). mc_machineId c = i \<longrightarrow> mc_state c \<noteq> CcPending)"

definition evolves :: "uuid option \<Rightarrow> cdb \<Rightarrow> cdb \<Rightarrow> bool" where
  "evolves j db db' \<longleftrightarrow> (codes_fresh db \<longrightarrow> codes_fresh db') \<and>
     (\<forall>d. snapshot_ok db d \<longrightarrow> snapshot_ok db' d) \<and> (\<forall>i. j \<noteq> Some i \<longrightarrow> dismissed i db \<longrightarrow> dismissed i db')"

lemma evolves_refl: "evolves j db db"
  by (simp add: evolves_def)

lemma evolves_trans: "evolves j a b \<Longrightarrow> evolves j b c \<Longrightarrow> evolves j a c"
  by (simp add: evolves_def)

lemma evolves_upd:
  assumes "tame f"
  shows "evolves j db (upd_codes p f db)"
proof -
  have f: "mc_id (f c) = mc_id c" "mc_machineId (f c) = mc_machineId c"
    "mc_state (f c) = CcPending \<Longrightarrow> mc_state c = CcPending" for c
    using assms by (simp_all add: tame_def)
  have "snapshot_ok (upd_codes p f db) d" if "snapshot_ok db d" for d
    using that f by (cases d) (auto simp: snapshot_ok_def upd_codes_def set_upd_where)
  moreover have "dismissed i (upd_codes p f db)" if "dismissed i db" for i
    using that f by (auto simp: dismissed_def upd_codes_def set_upd_where)
  ultimately show ?thesis using upd_codes_fresh [OF assms] by (simp add: evolves_def)
qed

lemma evolves_machines:
  assumes "\<And>x. mk_id (g x) = mk_id x" and "\<And>x i. mk_id x = i \<Longrightarrow> p x \<Longrightarrow> j \<noteq> Some i \<Longrightarrow>
      mk_secretHash (g x) = None \<and> mk_status (g x) = MsDisabled"
  shows "evolves j db (upd_claim_machines p g db)"
  using assms by (auto simp: evolves_def codes_fresh_def snapshot_ok_def dismissed_def upd_claim_machines_def
      set_upd_where split: claim_decision.splits)

lemma evolves_insert:
  assumes run: "insert_claim_code (new_claim_code e i adm purpose code (cdb_next db)) db = Inr db'"
  shows "evolves (Some i) db db'"
proof -
  have "snapshot_ok db' d" if "snapshot_ok db d" for d
    using that by (cases d) (auto simp: snapshot_ok_def insert_code_InrD [OF run] new_claim_code_def)
  moreover have "dismissed k db'" if "k \<noteq> i" "dismissed k db" for k
    using that by (auto simp: dismissed_def insert_code_InrD [OF run] new_claim_code_def)
  ultimately show ?thesis
    using insert_fresh [OF _ run] by (auto simp: evolves_def new_claim_code_def)
qed

lemma evolves_claim:
  assumes fresh: "codes_fresh db" and snap: "snapshot_ok db (ExecuteClaim c m)"
    and run: "claim_tx e c m db = Inr (p, db')"
  shows "evolves None db db'"
  using run
proof (cases rule: claim_tx_cases)
  case (Consume c1 f g)
  let ?h = "\<lambda>x. (f x)\<lparr>mc_claimResponseEncryptedJson := Some (ce_encrypt e p), mc_updatedAt := ce_now e\<rparr>"
  have f: "mc_id (f x) = mc_id x" "mc_machineId (f x) = mc_machineId x"
    "mc_state (f x) = CcPending \<Longrightarrow> mc_state x = CcPending" for x
    using benign_tame [OF Consume(7)] by (simp_all add: tame_def)
  have "codes_fresh db'"
    using fresh by (auto simp: codes_fresh_def Consume(6,11) upd_where_def f comp_def if_distrib cong: if_cong)
  moreover have "snapshot_ok db' d" if "snapshot_ok db d" for d
    using that f by (cases d) (auto simp: snapshot_ok_def Consume(6,11) set_upd_where)
  moreover have "dismissed i db'" if dis: "dismissed i db" for i
  proof -
    have "mc_machineId c1 \<noteq> i" using dis Consume(1,3) by (auto simp: dismissed_def)
    then have "mc_machineId c \<noteq> i" using snap Consume(1,2) by (auto simp: snapshot_ok_def)
    then have "mk_secretHash x = None \<and> mk_status x = MsDisabled" if "x \<in> set (cdb_machines db')" "mk_id x = i" for x
      using dis that Consume(10) by (auto simp: dismissed_def Consume(9) set_upd_where)
    moreover have "mc_state x \<noteq> CcPending" if "x \<in> set (cdb_codes db')" "mc_machineId x = i" for x
      using dis that f by (auto simp: dismissed_def Consume(6) set_upd_where)
    ultimately show ?thesis by (simp add: dismissed_def)
  qed
  ultimately show ?thesis by (simp add: evolves_def)
qed (simp add: evolves_refl)

definition tracked :: "claim_service \<Rightarrow> bool" where
  "tracked s \<longleftrightarrow> codes_fresh (cl_db s) \<and> (\<forall>(_, d)\<in>set (cl_inflight s). snapshot_ok (cl_db s) d)"

fun grants :: "claim_op \<Rightarrow> uuid option" where
  "grants (ClGenerate i adm purpose) = Some i"
| "grants (ClRotate i) = Some i"
| "grants _ = None"

lemma decide_snapshot:
  assumes "codes_fresh db"
  shows "snapshot_ok db (claim_decide e code db)"
proof (cases "claim_decide e code db")
  case (ExecuteClaim c m)
  then have "claim_candidate e code db = Some (c, m)"
    by (auto simp: claim_decide_def Let_def split: option.splits if_splits prod.splits)
  from candidate_mem [OF this] have "c \<in> set (cdb_codes db)" by simp
  moreover from this assms have "x = c" if "x \<in> set (cdb_codes db)" "mc_id x = mc_id c" for x
    using that key_unique by (fastforce simp: codes_fresh_def)
  ultimately show ?thesis using assms ExecuteClaim by (auto simp: snapshot_ok_def codes_fresh_def)
qed (simp_all add: snapshot_ok_def)

lemma finish_evolves:
  assumes "codes_fresh db" and "snapshot_ok db d"
  shows "evolves None db (fst (claim_finish e d db))"
proof (cases d)
  case (FailedClaim c)
  then show ?thesis using evolves_upd [OF failed_code_tame] by (simp add: recordFailedMachineClaim_def)
next
  case (ExecuteClaim c m)
  then show ?thesis
    using evolves_claim [OF assms(1)] assms(2) evolves_refl
    by (auto simp: atomic_def split: sum.splits)
qed (simp_all add: evolves_refl)

lemma generate_evolves: "evolves (Some i) db (fst (generateMachineClaimCode e i adm purpose db))"
proof -
  obtain db' res where gen: "generateMachineClaimCode e i adm purpose db = (db', res)" by fastforce
  from generate_cases [OF this] obtain p f where f: "benign f" "db' = upd_codes p f db \<or>
    insert_claim_code (new_claim_code e i adm purpose (generateHumanMachineClaimCode (ce_randomBytes e))
      (cdb_next (upd_codes p f db))) (upd_codes p f db) = Inr db'" by auto
  note tidy = evolves_upd [OF benign_tame [OF f(1)], of "Some i" db p]
  show ?thesis using f(2) tidy evolves_trans [OF tidy evolves_insert] by (auto simp: gen)
qed

lemma rotate_evolves: "evolves (Some i) db (fst (rotateMachineCredentials e i db))"
proof (cases "live_machine i db")
  case (Some m)
  then show ?thesis using live_machine_hit [OF Some]
    by (auto simp: rotateMachineCredentials_def rotate_secrets_def intro!: evolves_machines)
qed (simp add: rotateMachineCredentials_def evolves_refl)

lemma decommission_evolves:
  assumes "secure_decommission_tx e i db = Inr (done, db')"
  shows "evolves None db db'" and "done \<Longrightarrow> dismissed i db'"
proof -
  have "evolves None db db' \<and> (done \<longrightarrow> dismissed i db')"
    using assms
  proof (cases rule: decommission_cases)
    case (Cut f g)
    have "evolves None db db'"
      unfolding Cut(4) using Cut(5) by (intro evolves_trans [OF evolves_upd evolves_machines] benign_tame Cut(2)) auto
    moreover have "dismissed i db'"
      using Cut(3,5) by (auto simp: dismissed_def Cut(4) upd_claim_machines_def upd_codes_def set_upd_where code_open_def)
    ultimately show ?thesis by blast
  qed (simp add: evolves_refl)
  then show "evolves None db db'" and "done \<Longrightarrow> dismissed i db'" by auto
qed

lemma step_evolves:
  assumes ok: "tracked s"
  shows "evolves (grants op) (cl_db s) (cl_db (fst (claim_step s (e, op)))) \<and> tracked (fst (claim_step s (e, op)))"
proof -
  let ?s' = "fst (claim_step s (e, op))"
  have fresh: "codes_fresh (cl_db s)" and flight: "\<forall>x\<in>set (cl_inflight s). snapshot_ok (cl_db s) (snd x)"
    using ok by (auto simp: tracked_def)
  have evolves: "evolves (grants op) (cl_db s) (cl_db ?s')"
  proof (cases op)
    case (ClFinish n)
    show ?thesis
    proof (cases "n < length (cl_inflight s)")
      case True
      obtain e1 d where x: "cl_inflight s ! n = (e1, d)" by fastforce
      then have "snapshot_ok (cl_db s) d" using flight nth_mem [OF True] by fastforce
      with finish_evolves [OF fresh] have "evolves None (cl_db s) (fst (claim_finish e1 d (cl_db s)))" .
      then show ?thesis by (auto simp: ClFinish True x split: prod.splits)
    qed (simp add: ClFinish evolves_refl)
  next
    case (ClRevoke i c adm)
    then show ?thesis using revoke_benign [of e i c adm "cl_db s"] evolves_upd benign_tame by auto
  next
    case (ClDecommission i)
    then show ?thesis using decommission_evolves(1) evolves_refl by (auto simp: atomic_def split: sum.splits)
  qed (auto simp: generate_evolves rotate_evolves evolves_refl split: option.splits)
  have "\<forall>x\<in>set (cl_inflight ?s'). snapshot_ok (cl_db s) (snd x)"
    using flight drop_nth_all [OF flight] decide_snapshot [OF fresh]
    by (cases op) (auto split: option.splits prod.splits)
  then show ?thesis using evolves fresh by (auto simp: tracked_def evolves_def)
qed


subsection \<open>A concrete service\<close>

definition kiosk :: claim_machine_row where
  "kiosk = \<lparr>mk_id = 1, mk_code = ''M1'', mk_status = MsOffline, mk_mqttClientId = None, mk_secretHash = None,
     mk_secretVersion = 1, mk_secretRotatedAt = None, mk_credentialRevokedAt = None,
     mk_mqttSigningSecretEncryptedJson = None, mk_updatedAt = 0, mk_deletedAt = None\<rparr>"

definition kiosk_service :: claim_service where
  "kiosk_service = \<lparr>cl_db = \<lparr>cdb_next = 10, cdb_machines = [kiosk], cdb_codes = []\<rparr>, cl_inflight = []\<rparr>"

definition kiosk_profile :: claim_profile where
  "kiosk_profile = \<lparr>pf_machineId = 1, pf_code = ''M1'', pf_status = MsOnline,
     pf_mqttClientId = ''vem-machine-M1'', pf_qrCodeEnabled = True, pf_paymentCodeEnabled = False,
     pf_claimCodeId = 10, pf_claimedAt = 1000, pf_machineSecret = ''s1'', pf_machineSecretVersion = 2,
     pf_mqttSigningSecret = ''k1''\<rparr>"

text \<open>The surroundings of a request at time \<open>t\<close> that would draw the secret \<open>secret\<close>.\<close>

definition kiosk_env :: "ms \<Rightarrow> string \<Rightarrow> claim_env" where
  "kiosk_env t secret = \<lparr>ce_now = t, ce_randomBytes = [0, 1, 2, 3, 4, 5, 6, 7], ce_digest = id, ce_hash = id,
     ce_verify = (=), ce_bundle = \<lparr>cb_machineSecret = secret, cb_mqttSigningSecret = ''k1'',
       cb_secretHash = ''h'', cb_mqttSigningSecretEncryptedJson = ''j''\<rparr>,
     ce_encrypt = pf_machineSecret, ce_decrypt = (\<lambda>s. if s = ''s1'' then Some kiosk_profile else None),
     ce_machineClaimCodeTtlSeconds = 900, ce_paymentProjection = (\<lambda>_. Inr (True, False))\<rparr>"

definition kiosk_rush :: "(claim_env \<times> claim_op) list" where
  "kiosk_rush = [(kiosk_env 0 ''s0'', ClGenerate 1 5 FirstClaim), (kiosk_env 1000 ''s1'', ClArrive '' abcd-efgh''),
     (kiosk_env 1001 ''s2'', ClArrive ''ABCD-EFGH''), (kiosk_env 1002 ''s3'', ClFinish 0),
     (kiosk_env 1003 ''s3'', ClFinish 0)]"

theorem one_set_of_credentials_per_code_witness:
  "list_all (\<lambda>p. list_all (\<lambda>q. p = q) (fst (claim_run kiosk_rush kiosk_service)))
     (fst (claim_run kiosk_rush kiosk_service)) \<and> length (fst (claim_run kiosk_rush kiosk_service)) = 2"
proof -
  let ?run = "claim_run kiosk_rush kiosk_service"
  let ?dec = "\<lambda>s. if s = ''s1'' then Some kiosk_profile else None"
  have answers: "fst ?run = [kiosk_profile, kiosk_profile]" by code_simp
  have unused: "unused_service kiosk_service" by code_simp
  have keys: "list_all (\<lambda>(e, _). keyed pf_machineSecret ?dec e) kiosk_rush"
    by (simp add: kiosk_rush_def keyed_def kiosk_env_def)
  have inverse: "\<forall>p\<in>set (fst ?run). ?dec (pf_machineSecret p) = Some p"
    by (simp only: answers) (simp add: kiosk_profile_def)
  have "p = q" if "p \<in> set (fst ?run)" "q \<in> set (fst ?run)" for p q
    by (rule one_set_of_credentials_per_code [OF unused keys prod.collapse [symmetric] inverse that])
      (use that in \<open>simp add: answers\<close>)
  then show ?thesis by (simp add: list_all_iff answers)
qed

text \<open>Six wrong guesses, and six attempts at a code that was revoked.\<close>

definition kiosk_guesses :: "(claim_env \<times> claim_op) list" where
  "kiosk_guesses = (kiosk_env 0 ''s0'', ClGenerate 1 5 FirstClaim) #
     concat (replicate 6 [(kiosk_env 1 ''s1'', ClArrive ''WRON-GGGG''), (kiosk_env 1 ''s1'', ClFinish 0)]) @
     (kiosk_env 2 ''s2'', ClRevoke 1 10 5) #
     concat (replicate 6 [(kiosk_env 3 ''s1'', ClArrive ''ABCD-EFGH''), (kiosk_env 3 ''s1'', ClFinish 0)])"


text \<open>A claim is under way when its machine is decommissioned.\<close>

definition kiosk_before :: "(claim_env \<times> claim_op) list" where
  "kiosk_before = [(kiosk_env 0 ''s0'', ClGenerate 1 5 FirstClaim), (kiosk_env 1000 ''s1'', ClArrive ''ABCD-EFGH'')]"


end
