(* ===== verification/Machine_Dispense.thy ===== *)
theory Machine_Dispense
  imports Vending_Commands
begin

text \<open>
  The machine's side of a dispense command, \<open>apps/machine/src\<close>: \<open>mqtt/handler.ts\<close>,
  \<open>local/command-log.ts\<close> (the command log), \<open>local/outbox.ts\<close> (messages that could not be published).

  Both logs are kept as JSON text in the browser's storage. A stored text is the list that was
  written, in the order of its keys, or it is corrupt; \<open>Date.now()\<close> is one value in each piece of code
  that runs without an \<open>await\<close>. A delivery of a command waits for the publication of its
  acknowledgement, for the hardware and for the publication of its result: each wait ends its turn,
  and other deliveries and flushes run in between. The envelope's signature check, publication and
  hardware are outside: their outcomes come with the step.
\<close>

subsection \<open>Storage\<close>

datatype 'a stored = Absent | Corrupt | Stored 'a

datatype command_log_status = LogReceived | LogAcknowledged | LogDispensing | LogSucceeded | LogFailed

record log_entry =
  le_commandNo :: string
  le_orderNo :: string
  le_status :: command_log_status
  le_command :: dispense_payload
  le_resultPayload :: "dispense_result option"
  le_updatedAtMs :: ms

datatype outbox_kind = ObCommandAck | ObDispenseResult | ObHeartbeat

datatype out_payload = AckMessage string | ResultMessage dispense_result

record outbox_event =
  ob_id :: string
  ob_kind :: outbox_kind
  ob_topic :: string
  ob_payload :: out_payload
  ob_createdAtMs :: ms
  ob_nextAttemptAtMs :: ms
  ob_attemptCount :: nat
  ob_lastError :: "string option"

record machine_storage =
  lo_log :: "log_entry list stored"
  lo_outbox :: "outbox_event list stored"

subsection \<open>Command log\<close>

definition COMMAND_LOG_TTL_MS :: int where
  "COMMAND_LOG_TTL_MS = 30 * 24 * 60 * 60 * 1000"

definition COMMAND_LOG_MAX_ENTRIES :: nat where
  "COMMAND_LOG_MAX_ENTRIES = 2000"

definition log_readAndCompact :: "ms \<Rightarrow> machine_storage \<Rightarrow> log_entry list \<times> machine_storage" where
  "log_readAndCompact now st =
     (case lo_log st of
        Absent \<Rightarrow> ([], st)
      | Corrupt \<Rightarrow> ([], st\<lparr>lo_log := Absent\<rparr>)
      | Stored parsed \<Rightarrow>
          (let fresh = take COMMAND_LOG_MAX_ENTRIES (sort_key (\<lambda>x. - le_updatedAtMs x)
                 (filter (\<lambda>x. now - le_updatedAtMs x \<le> COMMAND_LOG_TTL_MS) parsed)) in
           (fresh, if length fresh \<noteq> length parsed then st\<lparr>lo_log := Stored fresh\<rparr> else st)))"

definition getCommandLogEntry ::
    "ms \<Rightarrow> string \<Rightarrow> machine_storage \<Rightarrow> log_entry option \<times> machine_storage" where
  "getCommandLogEntry now commandNo st =
     (let (entries, st1) = log_readAndCompact now st in
      (List.find (\<lambda>x. le_commandNo x = commandNo) entries, st1))"

text \<open>\<open>entries[entry.commandNo] = entry\<close>\<close>

definition put_entry :: "log_entry \<Rightarrow> log_entry list \<Rightarrow> log_entry list" where
  "put_entry entry entries =
     (if list_ex (\<lambda>x. le_commandNo x = le_commandNo entry) entries
      then upd_where (\<lambda>x. le_commandNo x = le_commandNo entry) (\<lambda>_. entry) entries
      else entries @ [entry])"

definition upsertCommandLogEntry :: "ms \<Rightarrow> log_entry \<Rightarrow> machine_storage \<Rightarrow> machine_storage" where
  "upsertCommandLogEntry now entry st =
     (let (entries, st1) = log_readAndCompact now st in st1\<lparr>lo_log := Stored (put_entry entry entries)\<rparr>)"

definition markCommandStatus ::
    "ms \<Rightarrow> dispense_payload \<Rightarrow> command_log_status \<Rightarrow> machine_storage \<Rightarrow> machine_storage" where
  "markCommandStatus now c status st =
     (let (existing, st1) = getCommandLogEntry now (dp_commandNo c) st in
      upsertCommandLogEntry now
        \<lparr>le_commandNo = dp_commandNo c, le_orderNo = dp_orderNo c, le_status = status, le_command = c,
         le_resultPayload = Option.bind existing le_resultPayload, le_updatedAtMs = now\<rparr> st1)"

definition markCommandResult ::
    "ms \<Rightarrow> dispense_payload \<Rightarrow> dispense_result \<Rightarrow> machine_storage \<Rightarrow> machine_storage" where
  "markCommandResult now c result =
     upsertCommandLogEntry now
       \<lparr>le_commandNo = dp_commandNo c, le_orderNo = dp_orderNo c,
        le_status = (if dr_success result then LogSucceeded else LogFailed), le_command = c,
        le_resultPayload = Some result, le_updatedAtMs = now\<rparr>"

definition isCommandInActiveWindow :: "log_entry \<Rightarrow> ms \<Rightarrow> bool" where
  "isCommandInActiveWindow entry now \<longleftrightarrow> le_status entry = LogDispensing \<and>
     now - le_updatedAtMs entry \<le> (dp_timeoutSeconds (le_command entry) + 5) * 1000"

subsection \<open>Outbox\<close>

definition OUTBOX_TTL_MS :: int where
  "OUTBOX_TTL_MS = 7 * 24 * 60 * 60 * 1000"

definition OUTBOX_MAX_EVENTS :: nat where
  "OUTBOX_MAX_EVENTS = 500"

definition outbox_readAndCompact :: "ms \<Rightarrow> machine_storage \<Rightarrow> outbox_event list \<times> machine_storage" where
  "outbox_readAndCompact now st =
     (case lo_outbox st of
        Absent \<Rightarrow> ([], st)
      | Corrupt \<Rightarrow> ([], st\<lparr>lo_outbox := Absent\<rparr>)
      | Stored original \<Rightarrow>
          (let fresh = filter (\<lambda>x. now - ob_createdAtMs x \<le> OUTBOX_TTL_MS) original in
           (fresh, if 0 < length original - length fresh then st\<lparr>lo_outbox := Stored fresh\<rparr> else st)))"

text \<open>\<open>generated\<close> is the id an event gets that comes without one. \<open>None\<close>: \<open>OutboxCapacityError\<close>.\<close>

definition enqueueOutboxEvent ::
    "ms \<Rightarrow> string \<Rightarrow> outbox_kind \<Rightarrow> string option \<Rightarrow> string \<Rightarrow> out_payload \<Rightarrow> machine_storage \<Rightarrow>
     machine_storage option" where
  "enqueueOutboxEvent now generated kind eventId topic payload st =
     (let (events, st1) = outbox_readAndCompact now st;
          event = \<lparr>ob_id = (case eventId of None \<Rightarrow> generated | Some i \<Rightarrow> i), ob_kind = kind,
            ob_topic = topic, ob_payload = payload, ob_createdAtMs = now, ob_nextAttemptAtMs = now,
            ob_attemptCount = 0, ob_lastError = None\<rparr> in
      if (case eventId of None \<Rightarrow> False | Some i \<Rightarrow> list_ex (\<lambda>x. ob_id x = i) events) then Some st1
      else if OUTBOX_MAX_EVENTS \<le> length events then None
      else Some (st1\<lparr>lo_outbox := Stored (events @ [event])\<rparr>))"

definition removeOutboxEvent :: "ms \<Rightarrow> string \<Rightarrow> machine_storage \<Rightarrow> machine_storage" where
  "removeOutboxEvent now i st =
     (let (events, st1) = outbox_readAndCompact now st in
      st1\<lparr>lo_outbox := Stored (filter (\<lambda>x. ob_id x \<noteq> i) events)\<rparr>)"

definition failed_event :: "ms \<Rightarrow> string \<Rightarrow> outbox_event \<Rightarrow> outbox_event" where
  "failed_event now err x = x\<lparr>ob_attemptCount := ob_attemptCount x + 1,
     ob_nextAttemptAtMs := now + min 30000 (1000 * 2 ^ (ob_attemptCount x + 1)), ob_lastError := Some err\<rparr>"

definition markOutboxFailed :: "ms \<Rightarrow> string \<Rightarrow> string \<Rightarrow> machine_storage \<Rightarrow> machine_storage" where
  "markOutboxFailed now i err st =
     (let (events, st1) = outbox_readAndCompact now st in
      st1\<lparr>lo_outbox := Stored (upd_where (\<lambda>x. ob_id x = i) (failed_event now err) events)\<rparr>)"

text \<open>
  \<open>flushOutboxEvents\<close>: the due events are published together, and when all are settled each is
  removed or put off. An outcome is the error it failed with.
\<close>

definition flush_due :: "ms \<Rightarrow> machine_storage \<Rightarrow> outbox_event list \<times> machine_storage" where
  "flush_due now st =
     (let (events, st1) = outbox_readAndCompact now st in
      (filter (\<lambda>x. ob_nextAttemptAtMs x \<le> now) events, st1))"

fun flush_settle :: "ms \<Rightarrow> (outbox_event \<times> string option) list \<Rightarrow> machine_storage \<Rightarrow> machine_storage" where
  "flush_settle now [] st = st"
| "flush_settle now ((x, None) # rest) st = flush_settle now rest (removeOutboxEvent now (ob_id x) st)"
| "flush_settle now ((x, Some err) # rest) st =
     flush_settle now rest (markOutboxFailed now (ob_id x) err st)"

subsection \<open>Deliveries\<close>

definition commandAckTopic :: "string \<Rightarrow> string \<Rightarrow> string" where
  "commandAckTopic machineCode commandNo =
     ''vem/machines/'' @ machineCode @ ''/commands/'' @ commandNo @ ''/ack''"

definition dispenseResultTopic :: "string \<Rightarrow> string" where
  "dispenseResultTopic machineCode = ''vem/machines/'' @ machineCode @ ''/events/dispense-result''"

text \<open>A message is a bare command, or an envelope with its machine code and whether the check accepts it.\<close>

datatype incoming = PlainMessage dispense_payload | EnvelopeMessage string dispense_payload bool

definition right_of :: "'e + 'a \<Rightarrow> 'a option" where
  "right_of r = (case r of Inl _ \<Rightarrow> None | Inr x \<Rightarrow> Some x)"

definition read_command :: "string \<Rightarrow> bool \<Rightarrow> incoming \<Rightarrow> dispense_payload option" where
  "read_command machineCode signed msg =
     (case (signed, msg) of
        (False, PlainMessage p) \<Rightarrow> right_of (dispenseCommandPayloadSchema p)
      | (True, EnvelopeMessage code p accepted) \<Rightarrow>
          if accepted \<and> code = machineCode then right_of (dispenseCommandPayloadSchema p) else None
      | _ \<Rightarrow> None)"

definition timeoutResult :: "ms \<Rightarrow> dispense_payload \<Rightarrow> dispense_result" where
  "timeoutResult now c = \<lparr>dr_commandNo = dp_commandNo c, dr_success = False,
     dr_errorCode = Some MOTOR_TIMEOUT, dr_message = ''command exceeded local active window'',
     dr_reportedAt = now\<rparr>"

datatype delivery_phase =
  AwaitAck "log_entry option"
| AwaitHardware
| AwaitResult dispense_result

record machine_runtime =
  mr_storage :: machine_storage
  mr_deliveries :: "(dispense_payload \<times> delivery_phase) list"
  mr_dispensed :: "dispense_payload list"
  mr_published :: "(string \<times> out_payload) list"

text \<open>\<open>publishOrEnqueue\<close>, when it is known whether publishing succeeded; \<open>None\<close>: it throws.\<close>

definition publishOrEnqueue ::
    "ms \<Rightarrow> bool \<Rightarrow> outbox_kind \<Rightarrow> string \<Rightarrow> string \<Rightarrow> out_payload \<Rightarrow> machine_runtime \<Rightarrow>
     machine_runtime option" where
  "publishOrEnqueue now ok kind i topic payload s =
     (if ok then Some (s\<lparr>mr_published := mr_published s @ [(topic, payload)]\<rparr>)
      else map_option (\<lambda>st. s\<lparr>mr_storage := st\<rparr>)
        (enqueueOutboxEvent now [] kind (Some i) topic payload (mr_storage s)))"

text \<open>
  The turns of \<open>handleDispenseCommand\<close>. A delivery that has ended, or whose turn throws, is dropped
  from the list.
\<close>

definition drop_delivery :: "nat \<Rightarrow> machine_runtime \<Rightarrow> machine_runtime" where
  "drop_delivery n s = s\<lparr>mr_deliveries := take n (mr_deliveries s) @ drop (Suc n) (mr_deliveries s)\<rparr>"

definition set_phase :: "nat \<Rightarrow> dispense_payload \<Rightarrow> delivery_phase \<Rightarrow> machine_runtime \<Rightarrow> machine_runtime" where
  "set_phase n c p s = s\<lparr>mr_deliveries := (mr_deliveries s)[n := (c, p)]\<rparr>"

definition delivery_arrives ::
    "string \<Rightarrow> bool \<Rightarrow> ms \<Rightarrow> incoming \<Rightarrow> machine_runtime \<Rightarrow> machine_runtime" where
  "delivery_arrives machineCode signed now msg s =
     (case read_command machineCode signed msg of
        None \<Rightarrow> s
      | Some c \<Rightarrow>
          (let (existing, st) = getCommandLogEntry now (dp_commandNo c) (mr_storage s) in
           s\<lparr>mr_storage := st, mr_deliveries := mr_deliveries s @ [(c, AwaitAck existing)]\<rparr>))"

definition publish_ack :: "string \<Rightarrow> ms \<Rightarrow> bool \<Rightarrow> dispense_payload \<Rightarrow> machine_runtime \<Rightarrow> machine_runtime option" where
  "publish_ack machineCode now ok c =
     publishOrEnqueue now ok ObCommandAck (''ack:'' @ dp_commandNo c)
       (commandAckTopic machineCode (dp_commandNo c)) (AckMessage (''ack:'' @ dp_commandNo c))"

definition publish_result ::
    "string \<Rightarrow> ms \<Rightarrow> bool \<Rightarrow> dispense_payload \<Rightarrow> dispense_result \<Rightarrow> machine_runtime \<Rightarrow> machine_runtime option"
  where
  "publish_result machineCode now ok c result =
     publishOrEnqueue now ok ObDispenseResult (''result:'' @ dp_commandNo c)
       (dispenseResultTopic machineCode) (ResultMessage result)"

definition ack_settled ::
    "string \<Rightarrow> ms \<Rightarrow> bool \<Rightarrow> nat \<Rightarrow> dispense_payload \<Rightarrow> log_entry option \<Rightarrow> machine_runtime \<Rightarrow>
     machine_runtime" where
  "ack_settled machineCode now ok n c existing s =
     (case publish_ack machineCode now ok c s of
        None \<Rightarrow> drop_delivery n s
      | Some s1 \<Rightarrow>
          (case existing of
             Some x \<Rightarrow>
               (case le_resultPayload x of
                  Some result \<Rightarrow> set_phase n c (AwaitResult result) s1
                | None \<Rightarrow>
                    if isCommandInActiveWindow x now then drop_delivery n s1
                    else if le_status x = LogDispensing
                    then set_phase n c (AwaitResult (timeoutResult now c))
                      (s1\<lparr>mr_storage := markCommandResult now c (timeoutResult now c) (mr_storage s1)\<rparr>)
                    else set_phase n c AwaitHardware
                      (s1\<lparr>mr_storage := markCommandStatus now c LogDispensing (mr_storage s1),
                          mr_dispensed := mr_dispensed s1 @ [c]\<rparr>))
           | None \<Rightarrow> set_phase n c AwaitHardware
               (s1\<lparr>mr_storage := markCommandStatus now c LogDispensing (mr_storage s1),
                   mr_dispensed := mr_dispensed s1 @ [c]\<rparr>)))"

text \<open>The hardware answers with a result, or throws.\<close>

definition hardware_settled ::
    "ms \<Rightarrow> dispense_result option \<Rightarrow> nat \<Rightarrow> dispense_payload \<Rightarrow> machine_runtime \<Rightarrow> machine_runtime" where
  "hardware_settled now outcome n c s =
     (case outcome of
        None \<Rightarrow> drop_delivery n s
      | Some result \<Rightarrow>
          if \<not> dispenseResultPayloadSchema result then drop_delivery n s
          else set_phase n c (AwaitResult result)
            (s\<lparr>mr_storage := markCommandResult now c result (mr_storage s)\<rparr>))"

definition result_settled ::
    "string \<Rightarrow> ms \<Rightarrow> bool \<Rightarrow> nat \<Rightarrow> dispense_payload \<Rightarrow> dispense_result \<Rightarrow> machine_runtime \<Rightarrow> machine_runtime"
  where
  "result_settled machineCode now ok n c result s =
     (case publish_result machineCode now ok c result s of
        None \<Rightarrow> drop_delivery n s | Some s1 \<Rightarrow> drop_delivery n s1)"

text \<open>
  One step of the machine: a message arrives, what the n-th delivery waits for is there, a flush of
  the outbox ends (with what it found due), or the program restarts.
\<close>

datatype machine_op =
  DlArrive incoming
| DlPublished nat bool
| DlHardware nat "dispense_result option"
| DlFlush "(outbox_event \<times> string option) list"
| DlRestart

fun machine_step :: "string \<Rightarrow> bool \<Rightarrow> ms \<times> machine_op \<Rightarrow> machine_runtime \<Rightarrow> machine_runtime" where
  "machine_step code signed (now, DlArrive msg) s = delivery_arrives code signed now msg s"
| "machine_step code signed (now, DlPublished n ok) s =
     (if n < length (mr_deliveries s)
      then (case mr_deliveries s ! n of
          (c, AwaitAck existing) \<Rightarrow> ack_settled code now ok n c existing s
        | (c, AwaitResult result) \<Rightarrow> result_settled code now ok n c result s
        | (c, AwaitHardware) \<Rightarrow> s)
      else s)"
| "machine_step code signed (now, DlHardware n outcome) s =
     (if n < length (mr_deliveries s) \<and> snd (mr_deliveries s ! n) = AwaitHardware
      then hardware_settled now outcome n (fst (mr_deliveries s ! n)) s else s)"
| "machine_step code signed (now, DlFlush settled) s =
     s\<lparr>mr_storage := flush_settle now settled (mr_storage s)\<rparr>"
| "machine_step code signed (now, DlRestart) s = s\<lparr>mr_deliveries := []\<rparr>"

definition machine_run :: "string \<Rightarrow> bool \<Rightarrow> (ms \<times> machine_op) list \<Rightarrow> machine_runtime \<Rightarrow> machine_runtime" where
  "machine_run code signed ops s = fold (machine_step code signed) ops s"

end
