(* ===== verification/Dispense_Properties.thy ===== *)
theory Dispense_Properties
  imports Machine_Dispense
begin

text \<open>
  What the machine's command log and outbox guarantee: deliveries that are handled one after another
  dispense a command at most once, deliveries that overlap do not; the outbox stays bounded.
\<close>

subsection \<open>The log remembers\<close>

definition log_entries :: "machine_storage \<Rightarrow> log_entry list" where
  "log_entries st = (case lo_log st of Stored es \<Rightarrow> es | _ \<Rightarrow> [])"

definition numbers :: "machine_storage \<Rightarrow> string set" where
  "numbers st = le_commandNo ` set (log_entries st)"

text \<open>A log that is neither corrupt nor due for compaction at \<open>now\<close>.\<close>

definition log_kept :: "ms \<Rightarrow> machine_storage \<Rightarrow> bool" where
  "log_kept now st \<longleftrightarrow> lo_log st \<noteq> Corrupt \<and> distinct (map le_commandNo (log_entries st)) \<and>
     length (log_entries st) \<le> COMMAND_LOG_MAX_ENTRIES \<and>
     (\<forall>x\<in>set (log_entries st). now - le_updatedAtMs x \<le> COMMAND_LOG_TTL_MS)"

lemma log_compact_kept:
  assumes "log_kept now st"
  shows "\<exists>es. log_readAndCompact now st = (es, st) \<and> set es = set (log_entries st) \<and>
    distinct (map le_commandNo es)"
proof (cases "lo_log st")
  case (Stored parsed)
  have parsed: "log_entries st = parsed" by (simp add: log_entries_def Stored)
  have all: "filter (\<lambda>x. now - le_updatedAtMs x \<le> COMMAND_LOG_TTL_MS) parsed = parsed"
    using assms by (simp add: log_kept_def parsed)
  have "take COMMAND_LOG_MAX_ENTRIES (sort_key (\<lambda>x. - le_updatedAtMs x) parsed) =
      sort_key (\<lambda>x. - le_updatedAtMs x) parsed"
    using assms by (simp add: log_kept_def parsed)
  then have "log_readAndCompact now st = (sort_key (\<lambda>x. - le_updatedAtMs x) parsed, st)"
    by (simp add: log_readAndCompact_def Stored all Let_def)
  moreover have "distinct (map le_commandNo (sort_key (\<lambda>x. - le_updatedAtMs x) parsed))"
    using assms by (simp add: log_kept_def parsed distinct_map)
  ultimately show ?thesis by (simp add: parsed)
qed (use assms in \<open>simp_all add: log_kept_def log_entries_def log_readAndCompact_def\<close>)

lemma get_kept:
  assumes "log_kept now st"
  shows "\<exists>r. getCommandLogEntry now i st = (r, st) \<and> (r = None \<longrightarrow> i \<notin> numbers st) \<and>
    (\<forall>x. r = Some x \<longrightarrow> x \<in> set (log_entries st) \<and> le_commandNo x = i)"
proof -
  obtain es where es: "log_readAndCompact now st = (es, st)" "set es = set (log_entries st)"
    using log_compact_kept [OF assms] by blast
  let ?r = "List.find (\<lambda>x. le_commandNo x = i) es"
  have "?r = None \<Longrightarrow> i \<notin> le_commandNo ` set es" by (auto simp: find_None_iff)
  then have none: "?r = None \<longrightarrow> i \<notin> numbers st" by (simp add: numbers_def es(2))
  have hit: "x \<in> set (log_entries st) \<and> le_commandNo x = i" if "?r = Some x" for x
    using find_SomeD [OF that] es(2) by simp
  have "getCommandLogEntry now i st = (?r, st)" by (simp add: getCommandLogEntry_def es(1))
  then show ?thesis by (intro exI [of _ ?r] conjI none allI impI hit) simp_all
qed

lemma put_entry_set:
  assumes "distinct (map le_commandNo es)"
  shows "set (put_entry x es) = insert x {y \<in> set es. le_commandNo y \<noteq> le_commandNo x}"
    and "distinct (map le_commandNo (put_entry x es))"
proof -
  have upd: "map le_commandNo (upd_where (\<lambda>y. le_commandNo y = le_commandNo x) (\<lambda>_. x) es) = map le_commandNo es"
    by (induction es) (auto simp: upd_where_def)
  show "set (put_entry x es) = insert x {y \<in> set es. le_commandNo y \<noteq> le_commandNo x}"
    by (auto simp: put_entry_def set_upd_where list_ex_iff image_iff)
  show "distinct (map le_commandNo (put_entry x es))"
    using assms upd by (auto simp: put_entry_def list_ex_iff)
qed

lemma upsert_kept:
  assumes "log_kept now st"
  shows "set (log_entries (upsertCommandLogEntry now x st)) =
      insert x {y \<in> set (log_entries st). le_commandNo y \<noteq> le_commandNo x}"
    and "distinct (map le_commandNo (log_entries (upsertCommandLogEntry now x st)))"
    and "lo_log (upsertCommandLogEntry now x st) \<noteq> Corrupt"
    and "lo_outbox (upsertCommandLogEntry now x st) = lo_outbox st"
proof -
  obtain es where es: "log_readAndCompact now st = (es, st)" "set es = set (log_entries st)"
    "distinct (map le_commandNo es)"
    using log_compact_kept [OF assms] by blast
  have up: "upsertCommandLogEntry now x st = st\<lparr>lo_log := Stored (put_entry x es)\<rparr>"
    by (simp add: upsertCommandLogEntry_def es(1))
  have entries: "log_entries (upsertCommandLogEntry now x st) = put_entry x es"
    by (simp only: up) (simp add: log_entries_def)
  show "set (log_entries (upsertCommandLogEntry now x st)) =
      insert x {y \<in> set (log_entries st). le_commandNo y \<noteq> le_commandNo x}"
    by (simp only: entries put_entry_set [OF es(3)] es(2))
  show "distinct (map le_commandNo (log_entries (upsertCommandLogEntry now x st)))"
    by (simp only: entries put_entry_set [OF es(3)])
qed (simp_all add: upsertCommandLogEntry_def split_beta log_readAndCompact_def Let_def split: stored.split)

subsection \<open>One delivery at a time\<close>

fun phase_ok :: "machine_storage \<Rightarrow> dispense_payload \<times> delivery_phase \<Rightarrow> bool" where
  "phase_ok st (c, AwaitAck None) \<longleftrightarrow> dp_commandNo c \<notin> numbers st"
| "phase_ok st (c, AwaitAck (Some x)) \<longleftrightarrow> x \<in> set (log_entries st) \<and> le_commandNo x = dp_commandNo c"
| "phase_ok st (c, AwaitHardware) \<longleftrightarrow> dp_commandNo c \<in> numbers st"
| "phase_ok st (c, AwaitResult r) \<longleftrightarrow> True"

definition log_ok :: "ms \<Rightarrow> dispense_payload list \<Rightarrow> machine_storage \<Rightarrow> bool" where
  "log_ok t0 dispensed st \<longleftrightarrow> lo_log st \<noteq> Corrupt \<and> distinct (map le_commandNo (log_entries st)) \<and>
     numbers st = dp_commandNo ` set dispensed \<and> distinct (map dp_commandNo dispensed) \<and>
     (\<forall>x\<in>set (log_entries st). t0 \<le> le_updatedAtMs x \<and>
        (le_resultPayload x = None \<longrightarrow> le_status x = LogDispensing))"

definition log_remembers :: "ms \<Rightarrow> machine_runtime \<Rightarrow> bool" where
  "log_remembers t0 s \<longleftrightarrow> log_ok t0 (mr_dispensed s) (mr_storage s) \<and>
     (mr_deliveries s = [] \<or> (\<exists>d. mr_deliveries s = [d] \<and> phase_ok (mr_storage s) d))"

lemma log_ok_kept:
  assumes "log_ok t0 ds st" and "now \<le> t0 + COMMAND_LOG_TTL_MS" and "length ds \<le> COMMAND_LOG_MAX_ENTRIES"
  shows "log_kept now st"
proof -
  have "length (log_entries st) = card (numbers st)"
    using assms(1) distinct_card [of "map le_commandNo (log_entries st)"] by (simp add: log_ok_def numbers_def)
  also have "\<dots> \<le> length ds"
    using assms(1) card_length [of "map dp_commandNo ds"] by (simp add: log_ok_def)
  finally show ?thesis using assms by (fastforce simp: log_ok_def log_kept_def)
qed

lemma log_ok_same:
  "lo_log st' = lo_log st \<Longrightarrow> log_ok t0 ds st' = log_ok t0 ds st"
  "lo_log st' = lo_log st \<Longrightarrow> phase_ok st' d = phase_ok st d"
  by (simp_all add: log_ok_def log_entries_def numbers_def)
    (induction st d rule: phase_ok.induct; simp add: log_entries_def numbers_def)

lemma upsert_ok:
  assumes ok: "log_ok t0 ds st" and kept: "log_kept now st" and now: "t0 \<le> now"
    and x: "le_updatedAtMs x = now" "le_resultPayload x = None \<longrightarrow> le_status x = LogDispensing"
    and ds: "distinct (map dp_commandNo ds')" "dp_commandNo ` set ds' = insert (le_commandNo x) (dp_commandNo ` set ds)"
  shows "log_ok t0 ds' (upsertCommandLogEntry now x st)"
    and "numbers (upsertCommandLogEntry now x st) = insert (le_commandNo x) (numbers st)"
proof -
  note up = upsert_kept [OF kept, of x]
  show nums: "numbers (upsertCommandLogEntry now x st) = insert (le_commandNo x) (numbers st)"
    using up(1) by (auto simp: numbers_def)
  show "log_ok t0 ds' (upsertCommandLogEntry now x st)"
    unfolding log_ok_def nums using ok up(1-3) x ds now by (auto simp: log_ok_def)
qed

lemma publish_frame:
  assumes "publishOrEnqueue now ok kind i topic payload s = Some s1"
  shows "mr_deliveries s1 = mr_deliveries s" and "mr_dispensed s1 = mr_dispensed s"
    and "lo_log (mr_storage s1) = lo_log (mr_storage s)"
  using assms
  by (auto simp: publishOrEnqueue_def enqueueOutboxEvent_def outbox_readAndCompact_def Let_def
      split: if_splits stored.splits prod.splits)

lemma flush_settle_log: "lo_log (flush_settle now settled st) = lo_log st"
  by (induction now settled st rule: flush_settle.induct)
    (auto simp: removeOutboxEvent_def markOutboxFailed_def outbox_readAndCompact_def Let_def
      split: stored.splits prod.splits)

lemma mark_status_upsert:
  assumes "log_kept now st" and "dp_commandNo c \<notin> numbers st"
  shows "markCommandStatus now c status st = upsertCommandLogEntry now
    \<lparr>le_commandNo = dp_commandNo c, le_orderNo = dp_orderNo c, le_status = status, le_command = c,
     le_resultPayload = None, le_updatedAtMs = now\<rparr> st"
proof -
  obtain r where r: "getCommandLogEntry now (dp_commandNo c) st = (r, st)"
    "\<forall>x. r = Some x \<longrightarrow> x \<in> set (log_entries st) \<and> le_commandNo x = dp_commandNo c"
    using get_kept [OF assms(1)] by blast
  then have "r = None" using assms(2) unfolding numbers_def by (metis image_eqI not_None_eq)
  then show ?thesis by (simp add: markCommandStatus_def r(1))
qed

lemma dispense_ok:
  assumes ok: "log_ok t0 ds st" and kept: "log_kept now st" and now: "t0 \<le> now"
    and new: "dp_commandNo c \<notin> numbers st"
  shows "log_ok t0 (ds @ [c]) (markCommandStatus now c LogDispensing st)"
    and "dp_commandNo c \<in> numbers (markCommandStatus now c LogDispensing st)"
proof -
  let ?x = "\<lparr>le_commandNo = dp_commandNo c, le_orderNo = dp_orderNo c, le_status = LogDispensing,
    le_command = c, le_resultPayload = None, le_updatedAtMs = now\<rparr>"
  have ds: "distinct (map dp_commandNo (ds @ [c]))"
    "dp_commandNo ` set (ds @ [c]) = insert (le_commandNo ?x) (dp_commandNo ` set ds)"
    using ok new by (simp_all add: log_ok_def)
  have x: "le_updatedAtMs ?x = now" "le_resultPayload ?x = None \<longrightarrow> le_status ?x = LogDispensing" by simp_all
  note up = upsert_ok [OF ok kept now x ds]
  show "log_ok t0 (ds @ [c]) (markCommandStatus now c LogDispensing st)"
    unfolding mark_status_upsert [OF kept new] by (rule up(1))
  show "dp_commandNo c \<in> numbers (markCommandStatus now c LogDispensing st)"
    unfolding mark_status_upsert [OF kept new] up(2) by simp
qed

lemma result_ok:
  assumes ok: "log_ok t0 ds st" and kept: "log_kept now st" and now: "t0 \<le> now"
    and old: "dp_commandNo c \<in> numbers st"
  shows "log_ok t0 ds (markCommandResult now c r st)"
  unfolding markCommandResult_def
  by (rule upsert_ok(1) [OF ok kept now]) (use ok old in \<open>auto simp: log_ok_def\<close>)

lemma ack_remembers:
  assumes ok: "log_remembers t0 s" and d: "mr_deliveries s = [(c, AwaitAck existing)]"
    and kept: "log_kept now (mr_storage s)" and now: "t0 \<le> now"
  shows "log_remembers t0 (ack_settled code now ok1 0 c existing s)"
proof (cases "publish_ack code now ok1 c s")
  case None
  then show ?thesis using ok by (simp add: ack_settled_def drop_delivery_def log_remembers_def d)
next
  case (Some s1)
  note pub = Some
  note frame = publish_frame [OF pub [unfolded publish_ack_def]]
  have log1: "log_ok t0 (mr_dispensed s) (mr_storage s1)" and phase: "phase_ok (mr_storage s) (c, AwaitAck existing)"
    using ok d log_ok_same(1) [OF frame(3)] by (simp_all add: log_remembers_def)
  have kept1: "log_kept now (mr_storage s1)"
    using kept frame(3) by (simp add: log_kept_def log_entries_def)
  have nums: "numbers (mr_storage s1) = numbers (mr_storage s)" and
    entries: "log_entries (mr_storage s1) = log_entries (mr_storage s)"
    using frame(3) by (simp_all add: numbers_def log_entries_def)
  show ?thesis
  proof (cases existing)
    case None
    then show ?thesis
      using dispense_ok [OF log1 kept1 now] phase nums frame d
      by (simp add: ack_settled_def pub set_phase_def log_remembers_def)
  next
    case (Some x)
    then have x: "x \<in> set (log_entries (mr_storage s1))" "le_commandNo x = dp_commandNo c"
      using phase entries by simp_all
    then have status: "le_resultPayload x = None \<Longrightarrow> le_status x = LogDispensing" using log1 by (simp add: log_ok_def)
    have old: "dp_commandNo c \<in> numbers (mr_storage s1)" using x by (force simp: numbers_def)
    show ?thesis
      using log1 result_ok [OF log1 kept1 now old] status frame d
      by (auto simp: ack_settled_def pub Some set_phase_def drop_delivery_def log_remembers_def split: option.split)
  qed
qed

lemma step_remembers:
  assumes ok: "log_remembers t0 s" and now: "t0 \<le> now" "now \<le> t0 + COMMAND_LOG_TTL_MS"
    and few: "length (mr_dispensed s) \<le> COMMAND_LOG_MAX_ENTRIES"
    and alone: "case op of DlArrive m \<Rightarrow> mr_deliveries s = [] | _ \<Rightarrow> True"
  shows "log_remembers t0 (machine_step code signed (now, op) s)"
proof -
  have kept: "log_kept now (mr_storage s)"
    using ok log_ok_kept [OF _ now(2) few] by (simp add: log_remembers_def)
  have logok: "log_ok t0 (mr_dispensed s) (mr_storage s)" using ok by (simp add: log_remembers_def)
  show ?thesis
  proof (cases op)
    case (DlArrive msg)
    show ?thesis
    proof (cases "read_command code signed msg")
      case (Some c)
      obtain r where r: "getCommandLogEntry now (dp_commandNo c) (mr_storage s) = (r, mr_storage s)"
        "r = None \<longrightarrow> dp_commandNo c \<notin> numbers (mr_storage s)"
        "\<forall>x. r = Some x \<longrightarrow> x \<in> set (log_entries (mr_storage s)) \<and> le_commandNo x = dp_commandNo c"
        using get_kept [OF kept] by blast
      then have "phase_ok (mr_storage s) (c, AwaitAck r)" by (cases r) auto
      then show ?thesis using alone logok
        by (simp add: DlArrive delivery_arrives_def Some r(1) log_remembers_def)
    qed (use ok in \<open>simp add: DlArrive delivery_arrives_def\<close>)
  next
    case (DlPublished n ok1)
    show ?thesis
    proof (cases "n < length (mr_deliveries s)")
      case True
      then obtain c ph where d: "mr_deliveries s = [(c, ph)]" "n = 0"
        using ok by (auto simp: log_remembers_def)
      show ?thesis
      proof (cases ph)
        case (AwaitAck existing)
        then show ?thesis using ack_remembers [OF ok _ kept now(1)] d by (simp add: DlPublished)
      next
        case AwaitHardware
        then show ?thesis using ok d by (simp add: DlPublished)
      next
        case (AwaitResult r)
        show ?thesis
        proof (cases "publish_result code now ok1 c r s")
          case None
          then show ?thesis using logok d AwaitResult
            by (simp add: DlPublished result_settled_def drop_delivery_def log_remembers_def)
        next
          case (Some s1)
          note frame = publish_frame [OF Some [unfolded publish_result_def]]
          show ?thesis using logok d AwaitResult frame log_ok_same(1) [OF frame(3)]
            by (simp add: DlPublished result_settled_def Some drop_delivery_def log_remembers_def)
        qed
      qed
    qed (use ok in \<open>simp add: DlPublished\<close>)
  next
    case (DlHardware n outcome)
    show ?thesis
    proof (cases "n < length (mr_deliveries s) \<and> snd (mr_deliveries s ! n) = AwaitHardware")
      case True
      then obtain c where d: "mr_deliveries s = [(c, AwaitHardware)]" "n = 0" "dp_commandNo c \<in> numbers (mr_storage s)"
        using ok by (auto simp: log_remembers_def)
      show ?thesis
        using logok result_ok [OF logok kept now(1) d(3)] d
        by (auto simp: DlHardware hardware_settled_def set_phase_def drop_delivery_def log_remembers_def
            split: option.split)
    qed (use ok in \<open>auto simp: DlHardware\<close>)
  next
    case (DlFlush settled)
    then show ?thesis
      using ok log_ok_same [of "flush_settle now settled (mr_storage s)" "mr_storage s"] flush_settle_log
      by (auto simp: log_remembers_def)
  qed (use logok in \<open>simp add: log_remembers_def\<close>)
qed

fun one_at_a_time :: "string \<Rightarrow> bool \<Rightarrow> (ms \<times> machine_op) list \<Rightarrow> machine_runtime \<Rightarrow> bool" where
  "one_at_a_time code signed [] s \<longleftrightarrow> True"
| "one_at_a_time code signed (op # ops) s \<longleftrightarrow>
     (case snd op of DlArrive m \<Rightarrow> mr_deliveries s = [] | _ \<Rightarrow> True) \<and>
     one_at_a_time code signed ops (machine_step code signed op s)"

lemma publish_dispensed:
  "publish_ack code now ok1 c s = Some s1 \<Longrightarrow> mr_dispensed s1 = mr_dispensed s"
  "publish_result code now ok1 c r s = Some s1 \<Longrightarrow> mr_dispensed s1 = mr_dispensed s"
  by (simp_all add: publish_ack_def publish_result_def publish_frame(2))

lemma step_dispensed: "length (mr_dispensed s) \<le> length (mr_dispensed (machine_step code signed op s))"
proof -
  obtain now x where op: "op = (now, x)" by fastforce
  show ?thesis
    by (cases x)
      (auto simp: op delivery_arrives_def ack_settled_def hardware_settled_def result_settled_def
        set_phase_def drop_delivery_def split_beta publish_dispensed
        split: option.splits prod.splits delivery_phase.splits)
qed

lemma run_dispensed: "length (mr_dispensed s) \<le> length (mr_dispensed (machine_run code signed ops s))"
  unfolding machine_run_def
  by (induction ops arbitrary: s) (auto intro: order_trans [OF step_dispensed])

definition first_start :: "machine_runtime" where
  "first_start = \<lparr>mr_storage = \<lparr>lo_log = Absent, lo_outbox = Absent\<rparr>, mr_deliveries = [],
     mr_dispensed = [], mr_published = []\<rparr>"

lemma run_log_remembers:
  assumes "log_remembers t0 s" and "list_all (\<lambda>(now, _). t0 \<le> now \<and> now \<le> t0 + COMMAND_LOG_TTL_MS) ops"
    and "one_at_a_time code signed ops s"
    and "length (mr_dispensed (machine_run code signed ops s)) \<le> COMMAND_LOG_MAX_ENTRIES"
  shows "log_remembers t0 (machine_run code signed ops s)"
  using assms
proof (induction ops arbitrary: s)
  case Nil
  then show ?case by (simp add: machine_run_def)
next
  case (Cons a ops)
  obtain now op where a: "a = (now, op)" by fastforce
  let ?s1 = "machine_step code signed a s"
  have run: "machine_run code signed (a # ops) s = machine_run code signed ops ?s1"
    by (simp add: machine_run_def)
  have "length (mr_dispensed s) \<le> COMMAND_LOG_MAX_ENTRIES"
    using run_dispensed [of s code signed "a # ops"] Cons.prems(4) by linarith
  then have "log_remembers t0 ?s1"
    unfolding a using Cons.prems(1-3) a by (intro step_remembers) auto
  then show ?case using Cons.IH [of ?s1] Cons.prems by (simp add: run)
qed

text \<open>C9: a machine that handles its deliveries one after another dispenses a command at most once,
  however often it is delivered, whatever publishing and hardware answer and wherever the program
  restarts, for as long as the command log reaches back: thirty days and two thousand commands.\<close>

theorem sequential_deliveries_dispense_once:
  assumes "one_at_a_time code signed ops first_start"
    and "list_all (\<lambda>(now, _). t0 \<le> now \<and> now \<le> t0 + COMMAND_LOG_TTL_MS) ops"
    and "length (mr_dispensed (machine_run code signed ops first_start)) \<le> COMMAND_LOG_MAX_ENTRIES"
  shows "distinct (map dp_commandNo (mr_dispensed (machine_run code signed ops first_start)))"
proof -
  have "log_remembers t0 first_start"
    by (simp add: log_remembers_def first_start_def log_ok_def log_entries_def numbers_def)
  from run_log_remembers [OF this assms(2,1,3)] show ?thesis by (simp add: log_remembers_def log_ok_def)
qed

subsection \<open>The outbox\<close>

definition outbox_events :: "machine_storage \<Rightarrow> outbox_event list" where
  "outbox_events st = (case lo_outbox st of Stored es \<Rightarrow> es | _ \<Rightarrow> [])"

definition outbox_ok :: "ms \<Rightarrow> machine_storage \<Rightarrow> bool" where
  "outbox_ok t st \<longleftrightarrow> distinct (map ob_id (outbox_events st)) \<and>
     length (outbox_events st) \<le> OUTBOX_MAX_EVENTS \<and>
     (\<forall>x\<in>set (outbox_events st). ob_nextAttemptAtMs x \<le> t + 30000)"

lemma outbox_compact_sub:
  assumes "outbox_readAndCompact now st = (es, st1)" and "outbox_ok t st"
  shows "distinct (map ob_id es)" and "length es \<le> OUTBOX_MAX_EVENTS"
    and "\<forall>x\<in>set es. ob_nextAttemptAtMs x \<le> t + 30000" and "outbox_events st1 = es"
proof -
  have full: "filter p xs = xs" if "\<not> length (filter p xs) < length xs" for p and xs :: "outbox_event list"
    using that length_filter_less by (metis filter_True)
  show "distinct (map ob_id es)" and "length es \<le> OUTBOX_MAX_EVENTS"
    and "\<forall>x\<in>set es. ob_nextAttemptAtMs x \<le> t + 30000"
    using assms by (auto simp: outbox_readAndCompact_def outbox_ok_def outbox_events_def Let_def
        distinct_map_filter le_trans [OF length_filter_le] split: stored.splits)
  show "outbox_events st1 = es"
    using assms(1) by (auto simp: outbox_readAndCompact_def outbox_events_def Let_def
        intro!: full [symmetric] split: stored.splits if_splits)
qed

lemma enqueue_ok:
  assumes ok: "outbox_ok t st" and now: "now \<le> t"
    and run: "enqueueOutboxEvent now g kind (Some i) topic payload st = Some st'"
  shows "outbox_ok t st'"
proof -
  obtain es st1 where c: "outbox_readAndCompact now st = (es, st1)" by fastforce
  note sub = outbox_compact_sub [OF c ok]
  show ?thesis
    using run sub now
    by (auto simp: enqueueOutboxEvent_def c Let_def outbox_ok_def list_ex_iff
        outbox_events_def [of "_\<lparr>lo_outbox := _\<rparr>"] split: if_splits)
qed

lemma remove_ok: "outbox_ok t st \<Longrightarrow> outbox_ok t (removeOutboxEvent now i st)"
proof -
  assume ok: "outbox_ok t st"
  obtain es st1 where c: "outbox_readAndCompact now st = (es, st1)" by fastforce
  show ?thesis
    using outbox_compact_sub [OF c ok]
    by (auto simp: removeOutboxEvent_def c outbox_ok_def distinct_map_filter
        le_trans [OF length_filter_le] outbox_events_def [of "_\<lparr>lo_outbox := _\<rparr>"])
qed

lemma failed_ok:
  assumes ok: "outbox_ok t st" and now: "now \<le> t"
  shows "outbox_ok t (markOutboxFailed now i err st)"
proof -
  obtain es st1 where c: "outbox_readAndCompact now st = (es, st1)" by fastforce
  have ids: "map ob_id (upd_where (\<lambda>x. ob_id x = i) (failed_event now err) es) = map ob_id es"
    by (simp add: upd_where_def failed_event_def)
  have next_attempt: "ob_nextAttemptAtMs (failed_event now err x) \<le> t + 30000" for x
    using now by (simp add: failed_event_def)
  show ?thesis
    using outbox_compact_sub [OF c ok] ids next_attempt
    by (auto simp: markOutboxFailed_def c outbox_ok_def set_upd_where
        outbox_events_def [of "_\<lparr>lo_outbox := _\<rparr>"] simp del: map_map)
qed

lemma settle_ok: "now \<le> t \<Longrightarrow> outbox_ok t st \<Longrightarrow> outbox_ok t (flush_settle now settled st)"
  by (induction now settled st rule: flush_settle.induct) (simp_all add: remove_ok failed_ok)

lemma log_outbox:
  "lo_outbox (markCommandResult now c r st) = lo_outbox st"
  "lo_outbox (markCommandStatus now c status st) = lo_outbox st"
  "lo_outbox (snd (getCommandLogEntry now i st)) = lo_outbox st"
  by (simp_all add: markCommandResult_def markCommandStatus_def upsertCommandLogEntry_def
      getCommandLogEntry_def split_beta log_readAndCompact_def Let_def split: stored.split)

lemma outbox_ok_same: "lo_outbox st' = lo_outbox st \<Longrightarrow> outbox_ok t st' = outbox_ok t st"
  by (simp add: outbox_ok_def outbox_events_def)

lemma publish_ok:
  assumes "outbox_ok t (mr_storage s)" and "now \<le> t"
    and "publishOrEnqueue now ok1 kind i topic payload s = Some s1"
  shows "outbox_ok t (mr_storage s1)"
  using assms enqueue_ok by (auto simp: publishOrEnqueue_def split: if_splits)

lemma step_outbox:
  assumes ok: "outbox_ok t (mr_storage s)" and now: "now \<le> t"
  shows "outbox_ok t (mr_storage (machine_step code signed (now, op) s))"
proof (cases op)
  case (DlArrive msg)
  show ?thesis
  proof (cases "read_command code signed msg")
    case (Some c)
    then show ?thesis
      using ok outbox_ok_same [OF log_outbox(3) [of now "dp_commandNo c" "mr_storage s"]]
      by (simp add: DlArrive delivery_arrives_def split_beta)
  qed (use ok in \<open>simp add: DlArrive delivery_arrives_def\<close>)
next
  case (DlPublished n ok1)
  have ack: "outbox_ok t (mr_storage (ack_settled code now ok1 n c existing s))" for c existing
  proof (cases "publish_ack code now ok1 c s")
    case (Some s1)
    then have "outbox_ok t (mr_storage s1)" using publish_ok [OF ok now] by (simp add: publish_ack_def)
    then show ?thesis
      by (simp add: ack_settled_def Some set_phase_def drop_delivery_def outbox_ok_def outbox_events_def
          log_outbox split: option.split)
  qed (use ok in \<open>simp add: ack_settled_def drop_delivery_def\<close>)
  have result: "outbox_ok t (mr_storage (result_settled code now ok1 n c r s))" for c r
  proof (cases "publish_result code now ok1 c r s")
    case (Some s1)
    then have "outbox_ok t (mr_storage s1)" using publish_ok [OF ok now] by (simp add: publish_result_def)
    then show ?thesis by (simp add: result_settled_def Some drop_delivery_def)
  qed (use ok in \<open>simp add: result_settled_def drop_delivery_def\<close>)
  show ?thesis using ok ack result by (simp add: DlPublished split: prod.split delivery_phase.split)
next
  case (DlHardware n outcome)
  then show ?thesis
    using ok by (simp add: hardware_settled_def set_phase_def drop_delivery_def outbox_ok_def
        outbox_events_def log_outbox split: option.split)
qed (simp_all add: ok settle_ok [OF now])

text \<open>C40: the outbox stays bounded: however deliveries, publications and flushes interleave, it holds at
  most 500 events, never two with the same id, and each is due again at most 30 seconds after the
  last step.\<close>

theorem outbox_stays_bounded:
  assumes "list_all (\<lambda>(now, _). now \<le> t) ops"
  shows "outbox_ok t (mr_storage (machine_run code signed ops first_start))"
proof -
  have "outbox_ok t (mr_storage first_start)" by (simp add: first_start_def outbox_ok_def outbox_events_def)
  moreover have "outbox_ok t (mr_storage (fold (machine_step code signed) ops s))"
    if "outbox_ok t (mr_storage s)" for s
    using assms that by (induction ops arbitrary: s) (auto simp: step_outbox)
  ultimately show ?thesis by (simp add: machine_run_def)
qed

subsection \<open>Concrete deliveries\<close>

definition one_bottle :: dispense_payload where
  "one_bottle = \<lparr>dp_commandNo = ''CMD1'', dp_orderNo = ''ORD1'', dp_rowNo = 1, dp_cellNo = 1,
     dp_quantity = 1, dp_timeoutSeconds = 30, dp_recovery = None\<rparr>"

definition dropped :: dispense_result where
  "dropped = \<lparr>dr_commandNo = ''CMD1'', dr_success = True, dr_errorCode = None, dr_message = ''ok'',
     dr_reportedAt = 5\<rparr>"

text \<open>The result of the first delivery cannot be published, the second one is answered from the log.\<close>

definition redelivered :: "(ms \<times> machine_op) list" where
  "redelivered = [(0, DlArrive (PlainMessage one_bottle)), (1, DlPublished 0 True),
     (5, DlHardware 0 (Some dropped)), (6, DlPublished 0 False),
     (1000, DlArrive (PlainMessage one_bottle)), (1001, DlPublished 0 True), (1002, DlPublished 0 True)]"

theorem sequential_deliveries_dispense_once_witness:
  "map dp_commandNo (mr_dispensed (machine_run ''M1'' False redelivered first_start)) = [''CMD1''] \<and>
   distinct (map dp_commandNo (mr_dispensed (machine_run ''M1'' False redelivered first_start))) \<and>
   map snd (mr_published (machine_run ''M1'' False redelivered first_start)) =
     [AckMessage ''ack:CMD1'', AckMessage ''ack:CMD1'', ResultMessage dropped]"
proof -
  let ?s = "machine_run ''M1'' False redelivered first_start"
  have eval: "map dp_commandNo (mr_dispensed ?s) = [''CMD1'']" by code_simp
  have sent: "map snd (mr_published ?s) =
      [AckMessage ''ack:CMD1'', AckMessage ''ack:CMD1'', ResultMessage dropped]" by code_simp
  have alone: "one_at_a_time ''M1'' False redelivered first_start" by code_simp
  have times: "list_all (\<lambda>(now, _). 0 \<le> now \<and> now \<le> 0 + COMMAND_LOG_TTL_MS) redelivered" by code_simp
  have few: "length (mr_dispensed ?s) \<le> COMMAND_LOG_MAX_ENTRIES" by code_simp
  from sequential_deliveries_dispense_once [OF alone times few] eval sent show ?thesis by blast
qed


text \<open>A result that cannot be published is put off, and put off again by a flush that fails.\<close>

definition offline_machine :: "(ms \<times> machine_op) list" where
  "offline_machine = [(0, DlArrive (PlainMessage one_bottle)), (1, DlPublished 0 False),
     (5, DlHardware 0 (Some dropped)), (6, DlPublished 0 False),
     (100, DlFlush [(\<lparr>ob_id = ''ack:CMD1'', ob_kind = ObCommandAck, ob_topic = [],
       ob_payload = AckMessage ''ack:CMD1'', ob_createdAtMs = 1, ob_nextAttemptAtMs = 1,
       ob_attemptCount = 0, ob_lastError = None\<rparr>, Some ''offline'')])]"

theorem outbox_stays_bounded_witness:
  "map (\<lambda>x. (ob_id x, ob_nextAttemptAtMs x)) (outbox_events (mr_storage
     (machine_run ''M1'' False offline_machine first_start))) = [(''ack:CMD1'', 2100), (''result:CMD1'', 6)] \<and>
   outbox_ok 100 (mr_storage (machine_run ''M1'' False offline_machine first_start))"
proof
  show "map (\<lambda>x. (ob_id x, ob_nextAttemptAtMs x)) (outbox_events (mr_storage
     (machine_run ''M1'' False offline_machine first_start))) = [(''ack:CMD1'', 2100), (''result:CMD1'', 6)]"
    by code_simp
  have "list_all (\<lambda>(now, _). now \<le> 100) offline_machine" by code_simp
  from outbox_stays_bounded [OF this]
  show "outbox_ok 100 (mr_storage (machine_run ''M1'' False offline_machine first_start))" .
qed

end
