(* ===== verification/Sale_Capability.thy ===== *)
theory Sale_Capability
  imports Shared_Enums
begin

text \<open>
  \<open>apps/machine/src/stores/sale-capability.ts\<close>: what the machine's interface knows of its ability to
  start a sale. The daemon numbers its snapshots within a generation (one run of the daemon); the
  store takes them from refreshes that may overlap and be answered in any order, and must not fall
  back to an older one. And what holds of any such sequence.

  A refresh is a request and its answer; between them anything else happens.
\<close>

subsection \<open>Snapshots\<close>

record capability_option =
  co_optionKey :: string
  co_providerCode :: string
  co_kind :: string
  co_displayName :: string
  co_description :: string
  co_icon :: string
  co_recommended :: bool
  co_ready :: bool
  co_disabledReason :: "string option"

record capability_reason =
  cr_code :: string
  cr_component :: string
  cr_message :: string

record capability_snapshot =
  cap_generation :: string
  cap_revision :: int
  cap_observedAt :: string
  cap_canStartSale :: bool
  cap_blockers :: "capability_reason list"
  cap_degradations :: "capability_reason list"
  cap_optionsReady :: bool
  cap_defaultOptionKey :: "string option"
  cap_defaultProviderCode :: "string option"
  cap_options :: "capability_option list"

text \<open>What the interface shows of an option.\<close>

record shown_option =
  so_optionKey :: string
  so_providerCode :: string
  so_kind :: string
  so_displayName :: string
  so_description :: string
  so_icon :: string
  so_recommended :: bool
  so_disabled :: bool
  so_disabledReason :: "string option"

definition SUPPORTED_OPTION_KEYS :: "string list" where
  "SUPPORTED_OPTION_KEYS = [''mock:mock'', ''qr_code:wechat_pay'', ''qr_code:alipay'',
     ''payment_code:mock'', ''payment_code:wechat_pay'', ''payment_code:alipay'']"

definition SUPPORTED_PROVIDER_CODES :: "string list" where
  "SUPPORTED_PROVIDER_CODES = [''mock'', ''wechat_pay'', ''alipay'']"

definition SUPPORTED_PAYMENT_KINDS :: "string list" where
  "SUPPORTED_PAYMENT_KINDS = [''mock'', ''qr_code'', ''face_pay'', ''payment_code'']"

definition SUPPORTED_PAYMENT_ICONS :: "string list" where
  "SUPPORTED_PAYMENT_ICONS = [''mock'', ''wechat'', ''alipay'']"

definition asPaymentOption :: "capability_option \<Rightarrow> shown_option option" where
  "asPaymentOption x =
     (if co_optionKey x \<notin> set SUPPORTED_OPTION_KEYS \<or> co_providerCode x \<notin> set SUPPORTED_PROVIDER_CODES \<or>
         co_kind x \<notin> set SUPPORTED_PAYMENT_KINDS \<or> co_icon x \<notin> set SUPPORTED_PAYMENT_ICONS
      then None
      else Some \<lparr>so_optionKey = co_optionKey x, so_providerCode = co_providerCode x, so_kind = co_kind x,
        so_displayName = co_displayName x, so_description = co_description x, so_icon = co_icon x,
        so_recommended = co_recommended x, so_disabled = (\<not> co_ready x),
        so_disabledReason = co_disabledReason x\<rparr>)"

subsection \<open>The store\<close>

definition RETIRED_GENERATION_LIMIT :: nat where
  "RETIRED_GENERATION_LIMIT = 8"

record capability_store =
  sv_accepted :: "capability_snapshot option"
  sv_retiredGenerations :: "string list"
  sv_updating :: bool
  sv_stale :: bool
  sv_diagnostic :: "string option"
  sv_lastRejectedObservation :: "string option"
  sv_refreshSequence :: nat
  sv_latestAcceptedRefreshSequence :: nat
  sv_latestRefreshOutcomeSequence :: nat
  sv_refreshesInFlight :: nat

definition new_capability_store :: capability_store where
  "new_capability_store = \<lparr>sv_accepted = None, sv_retiredGenerations = [], sv_updating = False,
     sv_stale = False, sv_diagnostic = None, sv_lastRejectedObservation = None,
     sv_refreshSequence = 0, sv_latestAcceptedRefreshSequence = 0,
     sv_latestRefreshOutcomeSequence = 0, sv_refreshesInFlight = 0\<rparr>"

definition canStartSale :: "capability_store \<Rightarrow> bool" where
  "canStartSale s = (case sv_accepted s of None \<Rightarrow> False | Some c \<Rightarrow> cap_canStartSale c)"

definition observation_key :: "capability_snapshot \<Rightarrow> string" where
  "observation_key c = cap_generation c @ '':'' @ show_int (cap_revision c)"

definition orderingKey :: "capability_store \<Rightarrow> string option" where
  "orderingKey s = map_option observation_key (sv_accepted s)"

definition blockerCodes :: "capability_store \<Rightarrow> string list" where
  "blockerCodes s = (case sv_accepted s of None \<Rightarrow> [] | Some c \<Rightarrow> map cr_code (cap_blockers c))"

definition blockingMessages :: "capability_store \<Rightarrow> string list" where
  "blockingMessages s = (case sv_accepted s of None \<Rightarrow> [] | Some c \<Rightarrow> map cr_message (cap_blockers c))"

definition degradationMessages :: "capability_store \<Rightarrow> string list" where
  "degradationMessages s = (case sv_accepted s of None \<Rightarrow> [] | Some c \<Rightarrow> map cr_message (cap_degradations c))"

definition paymentOptions :: "capability_store \<Rightarrow> shown_option list" where
  "paymentOptions s = (case sv_accepted s of None \<Rightarrow> []
     | Some c \<Rightarrow> List.map_filter asPaymentOption (cap_options c))"

definition defaultPaymentOptionKey :: "capability_store \<Rightarrow> string option" where
  "defaultPaymentOptionKey s = Option.bind (sv_accepted s) cap_defaultOptionKey"

definition hasAcceptedCapability :: "capability_store \<Rightarrow> bool" where
  "hasAcceptedCapability s \<longleftrightarrow> sv_accepted s \<noteq> None"

definition hasBlocker :: "string \<Rightarrow> capability_store \<Rightarrow> bool" where
  "hasBlocker code s = (case sv_accepted s of None \<Rightarrow> False
     | Some c \<Rightarrow> list_ex (\<lambda>b. cr_code b = code) (cap_blockers c))"

datatype acceptance = NewerSnapshot | SameSnapshot | OlderSnapshot

definition note_sequence :: "nat option \<Rightarrow> capability_store \<Rightarrow> capability_store" where
  "note_sequence seqno s = (case seqno of None \<Rightarrow> s | Some n \<Rightarrow>
     s\<lparr>sv_latestAcceptedRefreshSequence := max (sv_latestAcceptedRefreshSequence s) n\<rparr>)"

definition retire_generation :: "string \<Rightarrow> string list \<Rightarrow> string list" where
  "retire_generation g retired = (let all = filter (\<lambda>x. x \<noteq> g) retired @ [g] in
     drop (length all - RETIRED_GENERATION_LIMIT) all)"

definition take_snapshot :: "capability_snapshot \<Rightarrow> nat option \<Rightarrow> capability_store \<Rightarrow> capability_store" where
  "take_snapshot c seqno s =
     (note_sequence seqno (s\<lparr>sv_accepted := Some c\<rparr>))\<lparr>sv_lastRejectedObservation := None\<rparr>"

definition reject_snapshot :: "capability_snapshot \<Rightarrow> capability_store \<Rightarrow> capability_store" where
  "reject_snapshot c s = s\<lparr>sv_lastRejectedObservation := Some (observation_key c)\<rparr>"

definition acceptSnapshot ::
    "capability_snapshot \<Rightarrow> nat option \<Rightarrow> capability_store \<Rightarrow> capability_store \<times> acceptance" where
  "acceptSnapshot c seqno s =
     (case sv_accepted s of
        None \<Rightarrow>
          if cap_generation c \<in> set (sv_retiredGenerations s) then (reject_snapshot c s, OlderSnapshot)
          else (take_snapshot c seqno s, NewerSnapshot)
      | Some current \<Rightarrow>
          if cap_generation current = cap_generation c then
            (if cap_revision c < cap_revision current then (reject_snapshot c s, OlderSnapshot)
             else if cap_revision c = cap_revision current
             then ((note_sequence seqno s)\<lparr>sv_lastRejectedObservation := None\<rparr>, SameSnapshot)
             else (take_snapshot c seqno s, NewerSnapshot))
          else if cap_generation c \<in> set (sv_retiredGenerations s) \<or>
            (case seqno of None \<Rightarrow> False | Some n \<Rightarrow> n < sv_latestAcceptedRefreshSequence s)
          then (reject_snapshot c s, OlderSnapshot)
          else (take_snapshot c seqno (s\<lparr>sv_retiredGenerations :=
                  retire_generation (cap_generation current) (sv_retiredGenerations s)\<rparr>), NewerSnapshot))"

text \<open>\<open>refresh\<close> up to its \<open>await\<close>, which yields the number of the request, and after it.\<close>

definition refresh_begin :: "capability_store \<Rightarrow> capability_store \<times> nat" where
  "refresh_begin s = (s\<lparr>sv_refreshSequence := sv_refreshSequence s + 1,
     sv_refreshesInFlight := sv_refreshesInFlight s + 1, sv_updating := True\<rparr>, sv_refreshSequence s + 1)"

definition refresh_outcome ::
    "nat \<Rightarrow> string + capability_snapshot \<Rightarrow> capability_store \<Rightarrow> capability_store" where
  "refresh_outcome n answer s =
     (case answer of
        Inr c \<Rightarrow>
          (case acceptSnapshot c (Some n) s of (s1, outcome) \<Rightarrow>
             if outcome \<noteq> OlderSnapshot \<and> sv_latestRefreshOutcomeSequence s1 \<le> n
             then s1\<lparr>sv_latestRefreshOutcomeSequence := n, sv_stale := False, sv_diagnostic := None\<rparr>
             else s1)
      | Inl err \<Rightarrow>
          if sv_latestRefreshOutcomeSequence s \<le> n
          then s\<lparr>sv_latestRefreshOutcomeSequence := n, sv_stale := True, sv_diagnostic := Some err\<rparr>
          else s)"

definition refresh_end :: "nat \<Rightarrow> string + capability_snapshot \<Rightarrow> capability_store \<Rightarrow> capability_store" where
  "refresh_end n answer s = (let s1 = refresh_outcome n answer s; left = sv_refreshesInFlight s1 - 1 in
     s1\<lparr>sv_refreshesInFlight := left, sv_updating := (0 < left)\<rparr>)"

definition invalidates :: "string \<Rightarrow> int \<Rightarrow> capability_store \<Rightarrow> bool" where
  "invalidates generation revision s \<longleftrightarrow>
     \<not> (case sv_accepted s of None \<Rightarrow> False
        | Some current \<Rightarrow> cap_generation current = generation \<and> revision \<le> cap_revision current) \<and>
     generation \<notin> set (sv_retiredGenerations s)"

definition markStale :: "string \<Rightarrow> capability_store \<Rightarrow> capability_store" where
  "markStale err s = s\<lparr>sv_stale := True, sv_diagnostic := Some err\<rparr>"

subsection \<open>Runs\<close>

text \<open>The state of a run: the store and the numbers of the requests under way.\<close>

datatype capability_op =
  CapRefresh
| CapAnswer nat "string + capability_snapshot"
| CapChanged string int
| CapObserved capability_snapshot
| CapStale string

fun capability_step :: "capability_store \<times> nat list \<Rightarrow> capability_op \<Rightarrow> capability_store \<times> nat list" where
  "capability_step (s, flight) CapRefresh = (let (s1, n) = refresh_begin s in (s1, flight @ [n]))"
| "capability_step (s, flight) (CapAnswer i answer) =
     (if i < length flight
      then (refresh_end (flight ! i) answer s, take i flight @ drop (Suc i) flight) else (s, flight))"
| "capability_step (s, flight) (CapChanged g r) =
     (if invalidates g r s then let (s1, n) = refresh_begin s in (s1, flight @ [n]) else (s, flight))"
| "capability_step (s, flight) (CapObserved c) = (fst (acceptSnapshot c None s), flight)"
| "capability_step (s, flight) (CapStale err) = (markStale err s, flight)"

definition capability_run :: "capability_op list \<Rightarrow> capability_store \<times> nat list \<Rightarrow> capability_store \<times> nat list"
  where "capability_run ops s = foldl capability_step s ops"

fun op_generations :: "capability_op \<Rightarrow> string list" where
  "op_generations (CapAnswer i (Inr c)) = [cap_generation c]"
| "op_generations (CapObserved c) = [cap_generation c]"
| "op_generations _ = []"

subsection \<open>No way back\<close>

text \<open>\<open>gs\<close>: the generations that occur at all. At most nine, and the store forgets none it retired.\<close>

definition store_ok :: "string set \<Rightarrow> capability_store \<Rightarrow> bool" where
  "store_ok gs s \<longleftrightarrow> distinct (sv_retiredGenerations s) \<and> set (sv_retiredGenerations s) \<subseteq> gs \<and>
     (case sv_accepted s of None \<Rightarrow> sv_retiredGenerations s = []
      | Some c \<Rightarrow> cap_generation c \<in> gs \<and> cap_generation c \<notin> set (sv_retiredGenerations s))"

definition supersedes :: "capability_snapshot \<Rightarrow> capability_store \<Rightarrow> bool" where
  "supersedes a s \<longleftrightarrow> cap_generation a \<in> set (sv_retiredGenerations s) \<or>
     (case sv_accepted s of None \<Rightarrow> False
      | Some b \<Rightarrow> cap_generation b = cap_generation a \<and> cap_revision a \<le> cap_revision b)"

definition keeps_up :: "string set \<Rightarrow> capability_store \<Rightarrow> capability_store \<Rightarrow> bool" where
  "keeps_up gs s s' \<longleftrightarrow> store_ok gs s' \<and> (\<forall>a. supersedes a s \<longrightarrow> supersedes a s')"

lemma same_view_after:
  "sv_accepted s' = sv_accepted t \<Longrightarrow> sv_retiredGenerations s' = sv_retiredGenerations t \<Longrightarrow>
   keeps_up gs s t \<Longrightarrow> keeps_up gs s s'"
  by (simp add: keeps_up_def store_ok_def supersedes_def split: option.splits)

lemma same_view:
  "sv_accepted s' = sv_accepted s \<Longrightarrow> sv_retiredGenerations s' = sv_retiredGenerations s \<Longrightarrow>
   store_ok gs s \<Longrightarrow> keeps_up gs s s'"
  by (rule same_view_after [of _ s]) (simp_all add: keeps_up_def)

lemma take_snapshot_view:
  "sv_accepted (take_snapshot c n s) = Some c"
  "sv_retiredGenerations (take_snapshot c n s) = sv_retiredGenerations s"
  by (simp_all add: take_snapshot_def note_sequence_def split: option.split)

lemma retire_keeps:
  assumes ok: "store_ok gs s" and cur: "sv_accepted s = Some cur" and gs: "finite gs" "card gs \<le> 9"
    and new: "g \<in> gs" "g \<noteq> cap_generation cur" "g \<notin> set (sv_retiredGenerations s)"
  shows "retire_generation (cap_generation cur) (sv_retiredGenerations s) =
    sv_retiredGenerations s @ [cap_generation cur]"
proof -
  let ?r = "sv_retiredGenerations s"
  have r: "distinct ?r" "set ?r \<subseteq> gs" "cap_generation cur \<in> gs" "cap_generation cur \<notin> set ?r"
    using ok cur by (simp_all add: store_ok_def)
  have all: "filter (\<lambda>x. x \<noteq> cap_generation cur) ?r @ [cap_generation cur] = ?r @ [cap_generation cur]"
    using r(4) by (auto intro!: filter_True)
  have "card (insert g (set (?r @ [cap_generation cur]))) \<le> card gs"
    using r new(1) gs(1) by (intro card_mono) auto
  then have "length ?r \<le> 7" using r new gs(2) distinct_card [of ?r] by simp
  then show ?thesis by (simp add: retire_generation_def all Let_def RETIRED_GENERATION_LIMIT_def)
qed

lemma accept_keeps_up:
  assumes ok: "store_ok gs s" and gs: "finite gs" "card gs \<le> 9" and c: "cap_generation c \<in> gs"
  shows "keeps_up gs s (fst (acceptSnapshot c n s))"
proof (cases "sv_accepted s")
  case None
  then show ?thesis using ok c
    by (auto simp: acceptSnapshot_def reject_snapshot_def keeps_up_def store_ok_def supersedes_def
        take_snapshot_view)
next
  case (Some cur)
  have seen: "keeps_up gs s (reject_snapshot c s)"
    "keeps_up gs s ((note_sequence n s)\<lparr>sv_lastRejectedObservation := None\<rparr>)"
    using ok by (auto intro!: same_view simp: reject_snapshot_def note_sequence_def split: option.split)
  have newer: "keeps_up gs s (take_snapshot c n s)"
    if "cap_generation cur = cap_generation c" "cap_revision cur \<le> cap_revision c"
    using that ok Some c by (auto simp: keeps_up_def store_ok_def supersedes_def take_snapshot_view)
  have switched: "keeps_up gs s (take_snapshot c n (s\<lparr>sv_retiredGenerations :=
      retire_generation (cap_generation cur) (sv_retiredGenerations s)\<rparr>))"
    if "cap_generation c \<noteq> cap_generation cur" "cap_generation c \<notin> set (sv_retiredGenerations s)"
    using retire_keeps [OF ok Some gs c that] ok Some c that
    by (auto simp: keeps_up_def store_ok_def supersedes_def take_snapshot_view)
  show ?thesis using seen newer switched by (auto simp: acceptSnapshot_def Some)
qed

lemma keeps_up_trans: "keeps_up gs a b \<Longrightarrow> keeps_up gs b c \<Longrightarrow> keeps_up gs a c"
  by (simp add: keeps_up_def)

lemma outcome_keeps_up:
  assumes ok: "store_ok gs s" and gs: "finite gs" "card gs \<le> 9"
    and c: "set (op_generations (CapAnswer i answer)) \<subseteq> gs"
  shows "keeps_up gs s (refresh_end n answer s)"
proof -
  have "keeps_up gs s (refresh_outcome n answer s)"
  proof (cases answer)
    case (Inl err)
    then show ?thesis using ok by (auto intro!: same_view simp: refresh_outcome_def)
  next
    case (Inr c1)
    then have "keeps_up gs s (fst (acceptSnapshot c1 (Some n) s))" using accept_keeps_up [OF ok gs] c by simp
    then show ?thesis
      by (rule same_view_after [rotated 2]) (simp_all add: refresh_outcome_def Inr split_beta)
  qed
  then show ?thesis by (rule same_view_after [rotated 2]) (simp_all add: refresh_end_def Let_def)
qed

lemma step_keeps_up:
  assumes ok: "store_ok gs (fst s)" and gs: "finite gs" "card gs \<le> 9" and c: "set (op_generations op) \<subseteq> gs"
  shows "keeps_up gs (fst s) (fst (capability_step s op))"
proof -
  obtain t flight where s: "s = (t, flight)" by fastforce
  have ok: "store_ok gs t" using ok s by simp
  show ?thesis
  proof (cases op)
    case (CapAnswer i answer)
    then show ?thesis using outcome_keeps_up [OF ok gs] c same_view [OF refl refl ok] by (auto simp: s)
  next
    case (CapObserved x)
    then show ?thesis using accept_keeps_up [OF ok gs] c by (simp add: s)
  qed (use ok in \<open>auto intro!: same_view simp: s refresh_begin_def markStale_def Let_def\<close>)
qed

lemma run_keeps_up:
  assumes "store_ok gs (fst s)" and "finite gs" and "card gs \<le> 9"
    and "\<forall>op\<in>set ops. set (op_generations op) \<subseteq> gs"
  shows "keeps_up gs (fst s) (fst (capability_run ops s))"
  using assms unfolding capability_run_def
proof (induction ops arbitrary: s)
  case Nil
  then show ?case by (simp add: keeps_up_def)
next
  case (Cons op ops)
  then have "keeps_up gs (fst s) (fst (capability_step s op))" by (intro step_keeps_up) auto
  with Cons show ?case using keeps_up_trans [of gs "fst s"] by (auto simp: keeps_up_def)
qed


text \<open>Two refreshes overlap across a restart of the daemon, and the older answer comes last.\<close>

definition capability :: "string \<Rightarrow> int \<Rightarrow> capability_snapshot" where
  "capability g r = \<lparr>cap_generation = g, cap_revision = r, cap_observedAt = ''t'', cap_canStartSale = True,
     cap_blockers = [], cap_degradations = [], cap_optionsReady = True, cap_defaultOptionKey = None,
     cap_defaultProviderCode = None, cap_options = []\<rparr>"

definition restart_race :: "capability_op list" where
  "restart_race = [CapRefresh, CapChanged ''g2'' 1, CapAnswer 1 (Inr (capability ''g2'' 1)),
     CapAnswer 0 (Inr (capability ''g1'' 8))]"


end
