(* ===== verification/Journey_Projector.thy ===== *)
theory Journey_Projector
  imports Shared_Enums
begin

text \<open>
  \<open>apps/machine/src/customer-journey/transition-projector.ts\<close>: which announcements the machine makes to
  its customer. The interface calls \<open>project\<close> with the facts of the moment, again and again; the
  projector remembers what it has announced, for the last 32 orders. And what holds of any sequence
  of such calls.

  A \<open>Map\<close> is an association list in the order of insertion, a \<open>Set\<close> a list without repetitions. Times
  are strings, an absent member is \<open>None\<close>; the \<open>restored\<close> flags are False where they are absent.
\<close>

subsection \<open>Facts\<close>

datatype transition_kind =
  TouchscreenAwakened | PresenceWelcome | CrowdDetected | PresenceDeparted | CategoryEntered
| ProductSelected | PaymentPrompt | PaymentSucceeded | PaymentFailed | DispensingStarted
| OutletOpened | PickupWaiting | PickupWarning | PickupUrgent | PickupResetting | PickupCompleted
| DispenseSuccess | DispenseFailed | RefundPending | RefundCompleted | ManualHandlingRequired

record transition =
  tr_transitionId :: string
  tr_kind :: transition_kind
  tr_presence :: bool
  tr_orderNo :: "string option"
  tr_occurredAt :: "string option"
  tr_productCategory :: "string option"

datatype pickup_stage = StOutletOpened | StPickupWaiting | StPickupCompleted | StTimeoutWarning | StResetCompleted

record pickup_progress =
  pp_eventId :: string
  pp_orderNo :: string
  pp_stage :: pickup_stage
  pp_warningNo :: "int option"
  pp_reportedAt :: string

record touch_fact =
  tf_personPresent :: bool
  tf_lastInteractionAt :: "string option"
  tf_restored :: bool

datatype vision_edge_fact = Arrival | Departure

datatype occupancy = NobodySeen | SingleSeen | MultipleSeen | UnknownSeen

record vision_fact =
  vf_personPresent :: bool
  vf_occupancyState :: occupancy
  vf_lastSeenAt :: "string option"
  vf_departedAt :: "string option"
  vf_lastChangedAt :: "string option"
  vf_edge :: "vision_edge_fact option"
  vf_edgeId :: "string option"
  vf_restored :: bool

record entry_fact =
  ef_id :: string
  ef_category :: "string option"
  ef_at :: "string option"
  ef_restored :: bool

datatype journey_action =
  JaWaitPayment | JaDispensing | JaSuccess | JaPaymentFailed | JaPaymentExpired | JaDispenseFailed
| JaRefundPending | JaRefunded | JaManualHandling | JaClosed

record pickup_reminder =
  pk_stage :: "pickup_stage option"
  pk_urgent :: bool
  pk_warningNo :: "int option"
  pk_reportedAt :: string

record transaction_fact =
  xf_orderNo :: "string option"
  xf_nextAction :: "journey_action option"
  xf_updatedAt :: string
  xf_pickupReminder :: "pickup_reminder option"
  xf_restored :: bool

record journey_facts =
  jf_pickupProgress :: "pickup_progress list"
  jf_touchscreen :: "touch_fact option"
  jf_vision :: "vision_fact option"
  jf_categoryEntry :: "entry_fact option"
  jf_selectedProduct :: "entry_fact option"
  jf_transaction :: "transaction_fact option"

subsection \<open>Memory\<close>

definition TRANSACTION_ORDER_MEMORY_LIMIT :: nat where
  "TRANSACTION_ORDER_MEMORY_LIMIT = 32"

type_synonym order_memory = "(string \<times> string list \<times> bool) list"

record journey_memory =
  jm_touchscreenActive :: bool
  jm_touchscreenEpoch :: nat
  jm_claimedVisionEdges :: "string list"
  jm_categoryEntryId :: "string option"
  jm_selectedProductId :: "string option"
  jm_greetingClaimed :: bool
  jm_orders :: order_memory

definition new_journey :: journey_memory where
  "new_journey = \<lparr>jm_touchscreenActive = False, jm_touchscreenEpoch = 0, jm_claimedVisionEdges = [],
     jm_categoryEntryId = None, jm_selectedProductId = None, jm_greetingClaimed = False, jm_orders = []\<rparr>"

definition stateFor :: "string \<Rightarrow> order_memory \<Rightarrow> order_memory" where
  "stateFor orderNo orders =
     (case map_of orders orderNo of
        Some st \<Rightarrow> filter (\<lambda>x. fst x \<noteq> orderNo) orders @ [(orderNo, st)]
      | None \<Rightarrow> (let all = orders @ [(orderNo, [], False)] in
          if TRANSACTION_ORDER_MEMORY_LIMIT < length all \<and> fst (hd all) \<noteq> [] then tl all else all))"

definition set_state :: "string \<Rightarrow> string list \<times> bool \<Rightarrow> order_memory \<Rightarrow> order_memory" where
  "set_state orderNo st = map (\<lambda>x. if fst x = orderNo then (orderNo, st) else x)"

definition state_of :: "string \<Rightarrow> order_memory \<Rightarrow> string list \<times> bool" where
  "state_of orderNo orders = (case map_of orders orderNo of None \<Rightarrow> ([], False) | Some st \<Rightarrow> st)"

definition claim_level :: "string \<Rightarrow> string \<Rightarrow> order_memory \<Rightarrow> bool \<times> order_memory" where
  "claim_level orderNo level orders =
     (let orders1 = stateFor orderNo orders; (levels, seen) = state_of orderNo orders1 in
      if level \<in> set levels then (False, orders1)
      else (True, set_state orderNo (levels @ [level], seen) orders1))"

definition markPickupSeen :: "string \<Rightarrow> order_memory \<Rightarrow> order_memory" where
  "markPickupSeen orderNo orders = (let orders1 = stateFor orderNo orders in
     set_state orderNo (fst (state_of orderNo orders1), True) orders1)"

definition hasPickupSeen :: "string \<Rightarrow> order_memory \<Rightarrow> bool \<times> order_memory" where
  "hasPickupSeen orderNo orders = (let orders1 = stateFor orderNo orders in
     (snd (state_of orderNo orders1), orders1))"

definition clear_order :: "string \<Rightarrow> order_memory \<Rightarrow> order_memory" where
  "clear_order orderNo = filter (\<lambda>x. fst x \<noteq> orderNo)"

datatype seen_edge = CrowdEdge | WelcomeEdge | DepartedEdge

definition observeVision ::
    "string option \<Rightarrow> vision_edge_fact option \<Rightarrow> occupancy \<Rightarrow> string list \<Rightarrow> seen_edge option \<times> string list" where
  "observeVision edgeId edge occ claimed =
     (case (edgeId, edge) of
        (Some i, Some x) \<Rightarrow>
          if i = [] \<or> i \<in> set claimed then (None, claimed)
          else (let all = claimed @ [i];
                    kept = (if TRANSACTION_ORDER_MEMORY_LIMIT < length all then tl all else all) in
            (Some (case x of Departure \<Rightarrow> DepartedEdge
               | Arrival \<Rightarrow> if occ = MultipleSeen then CrowdEdge else WelcomeEdge), kept))
      | _ \<Rightarrow> (None, claimed))"

subsection \<open>Presence, category and product\<close>

definition strip_suffix :: "string \<Rightarrow> string \<Rightarrow> string option" where
  "strip_suffix suffix s = (let n = length s - length suffix in
     if length suffix \<le> length s \<and> drop n s = suffix then Some (take n s) else None)"

definition visionTransitionId :: "string option \<Rightarrow> string \<Rightarrow> string" where
  "visionTransitionId edgeId kind =
     ''vision:'' @ (case edgeId of
        Some (c # cs) \<Rightarrow>
          (case strip_suffix '':arrival'' (c # cs) of Some s \<Rightarrow> s
           | None \<Rightarrow> (case strip_suffix '':departure'' (c # cs) of Some s \<Rightarrow> s | None \<Rightarrow> c # cs))
      | _ \<Rightarrow> ''presence-unknown'') @ '':'' @ kind"

definition presence_transition :: "string \<Rightarrow> transition_kind \<Rightarrow> string option \<Rightarrow> transition" where
  "presence_transition i kind at = \<lparr>tr_transitionId = i, tr_kind = kind, tr_presence = True,
     tr_orderNo = None, tr_occurredAt = at, tr_productCategory = None\<rparr>"

definition first_of :: "'a option \<Rightarrow> 'a option \<Rightarrow> 'a option" where
  "first_of a b = (case a of None \<Rightarrow> b | Some x \<Rightarrow> Some x)"

definition claim_greeting :: "journey_memory \<Rightarrow> bool \<times> journey_memory" where
  "claim_greeting m = (\<not> jm_greetingClaimed m, m\<lparr>jm_greetingClaimed := True\<rparr>)"

definition touch_active :: "journey_facts \<Rightarrow> bool" where
  "touch_active f \<longleftrightarrow> (case jf_touchscreen f of None \<Rightarrow> False | Some t \<Rightarrow> tf_personPresent t)"

definition project_touchscreen :: "journey_facts \<Rightarrow> journey_memory \<Rightarrow> transition list \<times> journey_memory" where
  "project_touchscreen f m =
     (let awakened = (touch_active f \<and> \<not> jm_touchscreenActive m);
          m1 = m\<lparr>jm_touchscreenActive := touch_active f,
             jm_touchscreenEpoch := jm_touchscreenEpoch m + (if awakened then 1 else 0)\<rparr>;
          (granted, m2) = (if awakened then claim_greeting m1 else (False, m1)) in
      (if granted then [presence_transition
          (''touchscreen:session-'' @ show_int (int (jm_touchscreenEpoch m2)) @ '':awakened'') TouchscreenAwakened
          (Option.bind (jf_touchscreen f) tf_lastInteractionAt)] else [], m2))"

definition project_vision :: "journey_facts \<Rightarrow> journey_memory \<Rightarrow> transition list \<times> journey_memory" where
  "project_vision f m =
     (let v = jf_vision f; edgeId = Option.bind v vf_edgeId;
          (edge, claimed) = observeVision edgeId (Option.bind v vf_edge)
            (case v of None \<Rightarrow> NobodySeen | Some x \<Rightarrow> vf_occupancyState x) (jm_claimedVisionEdges m);
          m1 = m\<lparr>jm_claimedVisionEdges := claimed\<rparr>;
          m2 = (if \<not> touch_active f \<and> \<not> (case v of None \<Rightarrow> False | Some x \<Rightarrow> vf_personPresent x) \<and>
                  edge \<noteq> Some DepartedEdge then m1\<lparr>jm_greetingClaimed := False\<rparr> else m1);
          seenAt = Option.bind v (\<lambda>x. first_of (vf_lastChangedAt x) (vf_lastSeenAt x)) in
      case edge of
        None \<Rightarrow> ([], m2)
      | Some CrowdEdge \<Rightarrow> (case claim_greeting m2 of (granted, m3) \<Rightarrow>
          (if granted then [presence_transition (visionTransitionId edgeId ''crowd'') CrowdDetected seenAt]
           else [], m3))
      | Some WelcomeEdge \<Rightarrow> (case claim_greeting m2 of (granted, m3) \<Rightarrow>
          (if granted then [presence_transition (visionTransitionId edgeId ''welcome'') PresenceWelcome seenAt]
           else [], m3))
      | Some DepartedEdge \<Rightarrow> ([presence_transition (visionTransitionId edgeId ''departed'') PresenceDeparted
            (Option.bind v vf_departedAt)], m2\<lparr>jm_greetingClaimed := False\<rparr>))"

definition entry_transition :: "string \<Rightarrow> transition_kind \<Rightarrow> entry_fact \<Rightarrow> transition" where
  "entry_transition prefix kind x = \<lparr>tr_transitionId = prefix @ ef_id x, tr_kind = kind,
     tr_presence = False, tr_orderNo = None, tr_occurredAt = ef_at x, tr_productCategory = ef_category x\<rparr>"

definition project_category :: "journey_facts \<Rightarrow> journey_memory \<Rightarrow> transition list \<times> journey_memory" where
  "project_category f m =
     (let i = map_option ef_id (jf_categoryEntry f) in
      (case jf_categoryEntry f of
         Some x \<Rightarrow> if i \<noteq> jm_categoryEntryId m then [entry_transition ''category:'' CategoryEntered x] else []
       | None \<Rightarrow> [], m\<lparr>jm_categoryEntryId := i\<rparr>))"

definition project_product :: "journey_facts \<Rightarrow> journey_memory \<Rightarrow> transition list \<times> journey_memory" where
  "project_product f m =
     (let i = map_option ef_id (jf_selectedProduct f) in
      (case jf_selectedProduct f of
         Some x \<Rightarrow> if i \<noteq> jm_selectedProductId m then [entry_transition ''product:'' ProductSelected x] else []
       | None \<Rightarrow> [], m\<lparr>jm_selectedProductId := i\<rparr>))"

subsection \<open>Transactions\<close>

definition transactionTransition :: "string \<Rightarrow> string \<Rightarrow> transition_kind \<Rightarrow> string \<Rightarrow> transition" where
  "transactionTransition orderNo identity kind at =
     \<lparr>tr_transitionId = ''transaction:'' @ orderNo @ '':'' @ identity, tr_kind = kind,
      tr_presence = False, tr_orderNo = Some orderNo, tr_occurredAt = Some at, tr_productCategory = None\<rparr>"

definition warning_urgent :: "bool \<Rightarrow> int option \<Rightarrow> bool" where
  "warning_urgent urgent no \<longleftrightarrow> urgent \<or> (case no of None \<Rightarrow> False | Some n \<Rightarrow> 2 \<le> n)"

definition warningTransition :: "string \<Rightarrow> bool \<Rightarrow> string \<Rightarrow> transition" where
  "warningTransition orderNo urgent =
     transactionTransition orderNo (if urgent then ''pickup-warning-2'' else ''pickup-warning-1'')
       (if urgent then PickupUrgent else PickupWarning)"

definition pickupProgressTransition :: "pickup_progress \<Rightarrow> transition" where
  "pickupProgressTransition p =
     (case pp_stage p of
        StOutletOpened \<Rightarrow> transactionTransition (pp_orderNo p) ''pickup-outlet-opened'' OutletOpened (pp_reportedAt p)
      | StPickupWaiting \<Rightarrow> transactionTransition (pp_orderNo p) ''pickup-waiting'' PickupWaiting (pp_reportedAt p)
      | StTimeoutWarning \<Rightarrow> warningTransition (pp_orderNo p) (warning_urgent False (pp_warningNo p)) (pp_reportedAt p)
      | StPickupCompleted \<Rightarrow> transactionTransition (pp_orderNo p) ''pickup-completed'' PickupCompleted (pp_reportedAt p)
      | StResetCompleted \<Rightarrow> transactionTransition (pp_orderNo p) ''pickup-resetting'' PickupResetting (pp_reportedAt p))"

definition claim_all :: "string \<Rightarrow> transition list \<Rightarrow> order_memory \<Rightarrow> transition list \<times> order_memory" where
  "claim_all orderNo ts orders = fold (\<lambda>t (out, mem).
     case claim_level orderNo (tr_transitionId t) mem of
       (True, mem1) \<Rightarrow> (out @ [t], mem1) | (False, mem1) \<Rightarrow> (out, mem1)) ts ([], orders)"

fun project_progress :: "pickup_progress list \<Rightarrow> order_memory \<Rightarrow> transition list \<times> order_memory" where
  "project_progress [] orders = ([], orders)"
| "project_progress (p # ps) orders =
     (case claim_all (pp_orderNo p) [pickupProgressTransition p] (markPickupSeen (pp_orderNo p) orders) of
        (out, orders1) \<Rightarrow> (case project_progress ps orders1 of (outs, orders2) \<Rightarrow> (out @ outs, orders2)))"

definition paymentSucceededAction :: "journey_action \<Rightarrow> bool" where
  "paymentSucceededAction a \<longleftrightarrow> a \<in> {JaDispensing, JaSuccess, JaDispenseFailed, JaRefundPending, JaRefunded, JaManualHandling}"

definition reminderTransitions :: "string \<Rightarrow> pickup_reminder \<Rightarrow> transition list" where
  "reminderTransitions orderNo r =
     (case pk_stage r of
        Some StOutletOpened \<Rightarrow> [transactionTransition orderNo ''pickup-outlet-opened'' OutletOpened (pk_reportedAt r)]
      | Some StPickupWaiting \<Rightarrow> [transactionTransition orderNo ''pickup-waiting'' PickupWaiting (pk_reportedAt r)]
      | Some StTimeoutWarning \<Rightarrow> [warningTransition orderNo (warning_urgent (pk_urgent r) (pk_warningNo r)) (pk_reportedAt r)]
      | Some StPickupCompleted \<Rightarrow> [transactionTransition orderNo ''pickup-completed'' PickupCompleted (pk_reportedAt r)]
      | _ \<Rightarrow> [])"

definition outcomeTransitions :: "string \<Rightarrow> journey_action \<Rightarrow> string \<Rightarrow> transition list" where
  "outcomeTransitions orderNo a at =
     (case a of
        JaSuccess \<Rightarrow> [transactionTransition orderNo ''pickup-completed'' PickupCompleted at,
          transactionTransition orderNo ''dispense-succeeded'' DispenseSuccess at]
      | JaPaymentFailed \<Rightarrow> [transactionTransition orderNo ''payment-failed'' PaymentFailed at]
      | JaPaymentExpired \<Rightarrow> [transactionTransition orderNo ''payment-failed'' PaymentFailed at]
      | JaDispenseFailed \<Rightarrow> [transactionTransition orderNo ''dispense-failed'' DispenseFailed at]
      | JaRefundPending \<Rightarrow> [transactionTransition orderNo ''refund-pending'' RefundPending at]
      | JaRefunded \<Rightarrow> [transactionTransition orderNo ''refund-completed'' RefundCompleted at]
      | JaManualHandling \<Rightarrow> [transactionTransition orderNo ''manual-handling'' ManualHandlingRequired at]
      | _ \<Rightarrow> [])"

definition actionTransitions :: "string \<Rightarrow> journey_action \<Rightarrow> string \<Rightarrow> transition list" where
  "actionTransitions orderNo a at =
     (if a = JaWaitPayment then [transactionTransition orderNo ''payment-prompt'' PaymentPrompt at] else []) @
     (if paymentSucceededAction a then [transactionTransition orderNo ''payment-succeeded'' PaymentSucceeded at] else []) @
     (if a = JaDispensing then [transactionTransition orderNo ''dispensing-started'' DispensingStarted at] else [])"

definition pickup_part ::
    "string \<Rightarrow> journey_action \<Rightarrow> transaction_fact \<Rightarrow> order_memory \<Rightarrow> transition list \<times> order_memory" where
  "pickup_part orderNo a x orders =
     (case xf_pickupReminder x of
        Some r \<Rightarrow> (reminderTransitions orderNo r, markPickupSeen orderNo orders)
      | None \<Rightarrow>
          if a = JaDispensing
          then (case hasPickupSeen orderNo orders of (seen, orders1) \<Rightarrow>
            (if seen then [transactionTransition orderNo ''pickup-resetting'' PickupResetting (xf_updatedAt x)] else [],
             orders1))
          else ([], orders))"

definition project_transaction :: "journey_facts \<Rightarrow> order_memory \<Rightarrow> transition list \<times> order_memory" where
  "project_transaction f orders =
     (case jf_transaction f of
        None \<Rightarrow> ([], orders)
      | Some x \<Rightarrow>
         (case (xf_orderNo x, xf_nextAction x) of
            (Some orderNo, Some a) \<Rightarrow>
              if orderNo = [] then ([], orders)
              else if a = JaClosed then ([], clear_order orderNo orders)
              else (case pickup_part orderNo a x orders of (pickup, orders1) \<Rightarrow>
                claim_all orderNo (actionTransitions orderNo a (xf_updatedAt x) @ pickup @
                  outcomeTransitions orderNo a (xf_updatedAt x)) orders1)
          | _ \<Rightarrow> ([], orders)))"

subsection \<open>Projection\<close>

definition starts_with :: "string \<Rightarrow> string \<Rightarrow> bool" where
  "starts_with p s \<longleftrightarrow> take (length p) s = p"

definition candidateRestored :: "transition \<Rightarrow> journey_facts \<Rightarrow> bool" where
  "candidateRestored t f =
     (if starts_with ''touchscreen:'' (tr_transitionId t) then (case jf_touchscreen f of None \<Rightarrow> False | Some x \<Rightarrow> tf_restored x)
      else if starts_with ''vision:'' (tr_transitionId t) then (case jf_vision f of None \<Rightarrow> False | Some x \<Rightarrow> vf_restored x)
      else if starts_with ''category:'' (tr_transitionId t) then (case jf_categoryEntry f of None \<Rightarrow> False | Some x \<Rightarrow> ef_restored x)
      else if starts_with ''product:'' (tr_transitionId t) then (case jf_selectedProduct f of None \<Rightarrow> False | Some x \<Rightarrow> ef_restored x)
      else (case jf_transaction f of None \<Rightarrow> False | Some x \<Rightarrow> xf_restored x))"

definition projectCandidates :: "journey_facts \<Rightarrow> journey_memory \<Rightarrow> transition list \<times> journey_memory" where
  "projectCandidates f m =
     (let (touch, m1) = project_touchscreen f m; (vision, m2) = project_vision f m1;
          (cat, m3) = project_category f m2; (pro, m4) = project_product f m3;
          (pickup, orders1) = project_progress (jf_pickupProgress f) (jm_orders m4);
          (sale, orders2) = project_transaction f orders1 in
      (touch @ vision @ cat @ pro @ pickup @ sale, m4\<lparr>jm_orders := orders2\<rparr>))"

definition project :: "journey_memory \<Rightarrow> journey_facts \<Rightarrow> journey_memory \<times> transition list" where
  "project m f = (let (candidates, m1) = projectCandidates f m in
     (m1, filter (\<lambda>t. \<not> candidateRestored t f) candidates))"

definition memoryUsage :: "journey_memory \<Rightarrow> nat \<times> nat" where
  "memoryUsage m = (length (jm_orders m), length (filter (\<lambda>x. snd (snd x)) (jm_orders m)))"

subsection \<open>Runs\<close>

text \<open>Whose edges the projector may touch when it is given these facts, and whose it forgets.\<close>

definition fact_orders :: "journey_facts \<Rightarrow> string list" where
  "fact_orders f = map pp_orderNo (jf_pickupProgress f) @
     (case jf_transaction f of None \<Rightarrow> [] | Some x \<Rightarrow>
        (case xf_orderNo x of None \<Rightarrow> [] | Some n \<Rightarrow> if n = [] then [] else [n]))"

definition closes_order :: "string \<Rightarrow> journey_facts \<Rightarrow> bool" where
  "closes_order ord f \<longleftrightarrow> ord \<noteq> [] \<and> (case jf_transaction f of None \<Rightarrow> False
     | Some x \<Rightarrow> xf_orderNo x = Some ord \<and> xf_nextAction x = Some JaClosed)"

fun journey_run :: "journey_facts list \<Rightarrow> journey_memory \<Rightarrow> journey_memory \<times> transition list" where
  "journey_run [] m = (m, [])"
| "journey_run (f # fs) m =
     (let (m1, out) = project m f; (m2, outs) = journey_run fs m1 in (m2, out @ outs))"

definition ids_of :: "string \<Rightarrow> transition list \<Rightarrow> string list" where
  "ids_of ord ts = map tr_transitionId (filter (\<lambda>t. tr_orderNo t = Some ord) ts)"

subsection \<open>The memory of orders\<close>

definition orders_wf :: "order_memory \<Rightarrow> bool" where
  "orders_wf orders \<longleftrightarrow> distinct (map fst orders) \<and> [] \<notin> set (map fst orders) \<and>
     length orders \<le> TRANSACTION_ORDER_MEMORY_LIMIT"

text \<open>\<open>ord\<close> is known with at least the announcements \<open>ids\<close>, and whatever came after it is in \<open>gs\<close>.\<close>

definition still_known :: "string set \<Rightarrow> string \<Rightarrow> string set \<Rightarrow> order_memory \<Rightarrow> bool" where
  "still_known gs ord ids orders \<longleftrightarrow> (\<exists>xs ys st. orders = xs @ (ord, st) # ys \<and> fst ` set ys \<subseteq> gs \<and>
     ids \<subseteq> set (fst st))"

lemma still_knownI:
  "orders = xs @ (ord, st) # ys \<Longrightarrow> fst ` set ys \<subseteq> gs \<Longrightarrow> ids \<subseteq> set (fst st) \<Longrightarrow> still_known gs ord ids orders"
  unfolding still_known_def by blast

definition few :: "string set \<Rightarrow> bool" where
  "few gs \<longleftrightarrow> finite gs \<and> card gs \<le> TRANSACTION_ORDER_MEMORY_LIMIT"

lemma set_state_keys: "map fst (set_state k st orders) = map fst orders"
  by (induction orders) (simp_all add: set_state_def)

lemma set_state_wf: "orders_wf orders \<Longrightarrow> orders_wf (set_state k st orders)"
  by (simp add: orders_wf_def set_state_keys del: set_map) (simp add: set_state_def)

lemma clear_wf: "orders_wf orders \<Longrightarrow> orders_wf (clear_order k orders)"
  by (auto simp: orders_wf_def clear_order_def distinct_map_filter intro: order.trans [OF length_filter_le])

lemma map_of_split:
  "distinct (map fst (xs @ (ord, st) # ys)) \<Longrightarrow> map_of (xs @ (ord, st) # ys) ord = Some st"
  by (rule map_of_is_SomeI) simp_all

lemma stateFor_new:
  "map_of orders k = None \<Longrightarrow> stateFor k orders =
     (if TRANSACTION_ORDER_MEMORY_LIMIT < length (orders @ [(k, [], False)]) \<and>
         fst (hd (orders @ [(k, [], False)])) \<noteq> []
      then tl (orders @ [(k, [], False)]) else orders @ [(k, [], False)])"
  by (simp add: stateFor_def Let_def)

lemma stateFor_known:
  "map_of orders k = Some st \<Longrightarrow> stateFor k orders = filter (\<lambda>x. fst x \<noteq> k) orders @ [(k, st)]"
  by (simp add: stateFor_def)

lemma stateFor_wf:
  assumes "orders_wf orders" and "k \<noteq> []"
  shows "orders_wf (stateFor k orders) \<and> k \<in> fst ` set (stateFor k orders)"
proof (cases "map_of orders k")
  case None
  let ?all = "orders @ [(k, [], False)]"
  have new: "distinct (map fst ?all)" "[] \<notin> set (map fst ?all)"
    using assms None by (auto simp: orders_wf_def map_of_eq_None_iff)
  show ?thesis
  proof (cases "TRANSACTION_ORDER_MEMORY_LIMIT < length ?all")
    case True
    then obtain x xs where xs: "orders = x # xs" by (cases orders) (simp_all add: TRANSACTION_ORDER_MEMORY_LIMIT_def)
    then have "fst (hd ?all) \<noteq> []" using new(2) by auto
    then have kept: "stateFor k orders = xs @ [(k, [], False)]" unfolding stateFor_new [OF None] using True by (simp add: xs)
    show ?thesis using new assms(1) unfolding kept by (auto simp: orders_wf_def xs)
  next
    case False
    with new show ?thesis by (simp add: stateFor_new [OF None] orders_wf_def)
  qed
next
  case (Some st)
  have "length (filter (\<lambda>x. fst x \<noteq> k) orders) < length orders"
    using Some map_of_SomeD [of orders k st] by (intro length_filter_less [of "(k, st)"]) auto
  with assms show ?thesis
    by (auto simp: stateFor_known [OF Some] orders_wf_def distinct_map_filter)
qed

lemma stateFor_remembers:
  assumes wf: "orders_wf orders" and gs: "few gs" "k \<in> gs" "ord \<in> gs" and r: "still_known gs ord ids orders"
  shows "still_known gs ord ids (stateFor k orders)"
proof -
  from r obtain xs ys st where ords: "orders = xs @ (ord, st) # ys" and ys: "fst ` set ys \<subseteq> gs"
    and ids: "ids \<subseteq> set (fst st)" by (auto simp: still_known_def)
  have dist: "distinct (map fst (xs @ (ord, st) # ys))" using wf by (simp add: orders_wf_def ords)
  show ?thesis
  proof (cases "map_of orders k")
    case None
    let ?all = "orders @ [(k, [], False)]"
    have stays: "still_known gs ord ids ?all"
      using ys ids gs(2) by (intro still_knownI [of _ xs _ st "ys @ [(k, [], False)]"]) (auto simp: ords)
    have oldest: "still_known gs ord ids (tl ?all)" if full: "TRANSACTION_ORDER_MEMORY_LIMIT < length ?all"
    proof (cases xs)
      case (Cons x xs1)
      then show ?thesis
        using ys ids gs(2) by (intro still_knownI [of _ xs1 _ st "ys @ [(k, [], False)]"]) (auto simp: ords)
    next
      case Nil
      have "k \<notin> fst ` set orders" using None by (simp add: map_of_eq_None_iff)
      then have "card (set (k # map fst orders)) = Suc (length orders)"
        using wf distinct_card [of "k # map fst orders"] by (simp add: orders_wf_def)
      moreover have "set (k # map fst orders) \<subseteq> gs" using ys gs(2,3) Nil by (auto simp: ords)
      ultimately have "Suc (length orders) \<le> card gs"
        using gs(1) card_mono [of gs "set (k # map fst orders)"] by (simp add: few_def)
      with full gs(1) show ?thesis by (simp add: few_def)
    qed
    show ?thesis using stays oldest by (simp add: stateFor_new [OF None])
  next
    case (Some kst)
    show ?thesis
    proof (cases "k = ord")
      case True
      then have "kst = st" using Some map_of_split [OF dist] by (simp add: ords)
      then show ?thesis using ids unfolding stateFor_known [OF Some]
        by (intro still_knownI [of _ "filter (\<lambda>x. fst x \<noteq> k) orders" _ st "[]"]) (simp_all add: True)
    next
      case False
      then show ?thesis using ys ids gs(2) unfolding stateFor_known [OF Some]
        by (intro still_knownI [of _ "filter (\<lambda>x. fst x \<noteq> k) xs" _ st
            "filter (\<lambda>x. fst x \<noteq> k) ys @ [(k, kst)]"]) (auto simp: ords)
    qed
  qed
qed

lemma stateFor_last:
  assumes "orders_wf orders"
  shows "\<exists>xs. stateFor k orders = xs @ [(k, state_of k (stateFor k orders))]"
proof -
  have "\<exists>xs st. stateFor k orders = xs @ [(k, st)] \<and> k \<notin> fst ` set xs"
  proof (cases "map_of orders k")
    case None
    then have "k \<notin> fst ` set orders" by (simp add: map_of_eq_None_iff)
    then show ?thesis unfolding stateFor_new [OF None]
      by (cases orders) (auto simp: TRANSACTION_ORDER_MEMORY_LIMIT_def)
  next
    case (Some st)
    then show ?thesis by (auto simp: stateFor_known [OF Some])
  qed
  then obtain xs st where s: "stateFor k orders = xs @ [(k, st)]" "k \<notin> fst ` set xs" by blast
  then have "map_of xs k = None" by (simp add: map_of_eq_None_iff)
  then have "state_of k (xs @ [(k, st)]) = st" by (simp add: state_of_def map_add_def)
  then show ?thesis unfolding s(1) by (intro exI [of _ xs]) simp
qed

lemma state_of_remembers:
  assumes "orders_wf orders" and "still_known gs ord ids orders"
  shows "ids \<subseteq> set (fst (state_of ord orders))"
proof -
  from assms(2) obtain xs ys st where o: "orders = xs @ (ord, st) # ys" and ids: "ids \<subseteq> set (fst st)"
    unfolding still_known_def by blast
  have "map_of orders ord = Some st" using assms(1) map_of_split [of xs ord st ys] by (simp only: o orders_wf_def)
  with ids show ?thesis by (simp add: state_of_def)
qed

lemma set_state_append:
  "set_state k st (xs @ ys) = set_state k st xs @ set_state k st ys"
  "set_state k st (x # xs) = (if fst x = k then (k, st) else x) # set_state k st xs"
  by (simp_all add: set_state_def)

lemma set_state_remembers:
  assumes "still_known gs ord ids orders" and "k \<noteq> ord"
  shows "still_known gs ord ids (set_state k st orders)"
proof -
  from assms obtain xs ys ost where o: "orders = xs @ (ord, ost) # ys" "fst ` set ys \<subseteq> gs" "ids \<subseteq> set (fst ost)"
    by (auto simp: still_known_def)
  have "fst ` set (set_state k st ys) = fst ` set ys"
    using arg_cong [OF set_state_keys [of k st ys], of set] by simp
  with o assms(2) show ?thesis 
    by (intro still_knownI [of _ "set_state k st xs" _ ost "set_state k st ys"]) (simp_all add: set_state_append)
qed

lemma remembers_fewer: "still_known gs ord ids orders \<Longrightarrow> ids' \<subseteq> ids \<Longrightarrow> still_known gs ord ids' orders"
  unfolding still_known_def by (metis order.trans)

lemma clear_remembers:
  assumes "still_known gs ord ids orders" and "k \<noteq> ord"
  shows "still_known gs ord ids (clear_order k orders)"
proof -
  from assms obtain xs ys ost where o: "orders = xs @ (ord, ost) # ys" "fst ` set ys \<subseteq> gs" "ids \<subseteq> set (fst ost)"
    by (auto simp: still_known_def)
  with assms(2) show ?thesis 
    by (intro still_knownI [of _ "filter (\<lambda>x. fst x \<noteq> k) xs" _ ost "filter (\<lambda>x. fst x \<noteq> k) ys"])
      (auto simp: clear_order_def)
qed

subsection \<open>What a run announces of one order\<close>

definition told :: "string set \<Rightarrow> string \<Rightarrow> string list \<Rightarrow> order_memory \<Rightarrow> bool" where
  "told gs ord ids orders \<longleftrightarrow> orders_wf orders \<and>
     (few gs \<longrightarrow> distinct ids \<and> (ids = [] \<or> ord \<in> gs \<and> still_known gs ord (set ids) orders))"

lemma told_touch:
  "told gs ord ids orders \<Longrightarrow> k \<in> gs \<Longrightarrow> [] \<notin> gs \<Longrightarrow> told gs ord ids (stateFor k orders)"
  using stateFor_wf [of orders k] stateFor_remembers [of orders gs k ord] by (auto simp: told_def)

lemma ids_of_append: "ids_of ord (ts @ us) = ids_of ord ts @ ids_of ord us"
  by (simp add: ids_of_def)

lemma ids_of_filter:
  "set (ids_of ord (filter P ts)) \<subseteq> set (ids_of ord ts)"
  "distinct (ids_of ord ts) \<Longrightarrow> distinct (ids_of ord (filter P ts))"
  by (induction ts) (auto simp: ids_of_def)

lemma told_sub:
  assumes "told gs ord ids orders" and "set ids' \<subseteq> set ids" and "distinct ids \<Longrightarrow> distinct ids'"
  shows "told gs ord ids' orders"
  using assms remembers_fewer [of gs ord "set ids" orders "set ids'"] unfolding told_def by auto

lemma told_fewer:
  assumes "told gs ord (ids @ ids_of ord ts) orders"
  shows "told gs ord (ids @ ids_of ord (filter P ts)) orders"
  using assms
proof (rule told_sub)
  show "set (ids @ ids_of ord (filter P ts)) \<subseteq> set (ids @ ids_of ord ts)"
    using ids_of_filter(1) [of ord P ts] by auto
  show "distinct (ids @ ids_of ord ts) \<Longrightarrow> distinct (ids @ ids_of ord (filter P ts))"
    using ids_of_filter [where ord = ord and P = P and ts = ts] by auto
qed

text \<open>Writing the entry of an order just touched keeps what it had, and may add to it.\<close>

lemma told_write:
  assumes told: "told gs ord ids orders" and k: "k \<in> gs" "[] \<notin> gs"
    and more: "set (fst (state_of k (stateFor k orders))) \<subseteq> set (fst st)"
    and new: "new = [] \<or> k = ord \<and> (\<exists>l. new = [l] \<and> l \<in> set (fst st) \<and>
      l \<notin> set (fst (state_of k (stateFor k orders))))"
  shows "told gs ord (ids @ new) (set_state k st (stateFor k orders))"
proof -
  let ?o = "stateFor k orders"
  have t: "told gs ord ids ?o" by (rule told_touch [OF told k])
  then have wf: "orders_wf ?o" "orders_wf (set_state k st ?o)" by (simp_all add: told_def set_state_wf)
  show ?thesis
  proof (cases "k = ord")
    case False
    then have "new = []" using new by blast
    with t wf show ?thesis using set_state_remembers [OF _ False, of gs "set ids" ?o st] by (auto simp: told_def)
  next
    case True
    obtain xs where xs: "?o = xs @ [(ord, state_of ord ?o)]"
      using stateFor_last [of orders k] told True by (auto simp: told_def)
    have here: "still_known gs ord ls (set_state k st ?o)" if "ls \<subseteq> set (fst st)" for ls
      using that arg_cong [OF xs, of "set_state k st"] True
      by (intro still_knownI [of _ "set_state k st xs" _ st "[]"]) (simp_all add: set_state_append, simp add: set_state_def)
    have old: "distinct ids \<and> set ids \<subseteq> set (fst (state_of ord ?o))" if "few gs"
      using that t state_of_remembers [OF wf(1), of gs ord "set ids"] by (auto simp: told_def)
    show ?thesis using wf(2) old more new here k(1) True by (auto simp: told_def)
  qed
qed

lemma told_mark:
  "told gs ord ids orders \<Longrightarrow> k \<in> gs \<Longrightarrow> [] \<notin> gs \<Longrightarrow> told gs ord ids (markPickupSeen k orders)"
  using told_write [of gs ord ids orders k "(fst (state_of k (stateFor k orders)), True)" "[]"]
  by (simp add: markPickupSeen_def Let_def)

lemma told_claim:
  assumes "told gs ord (ids @ ids_of ord out) orders" and "k \<in> gs" and "[] \<notin> gs" and "tr_orderNo t = Some k"
    and "claim_level k (tr_transitionId t) orders = (b, orders1)"
  shows "told gs ord (ids @ ids_of ord (if b then out @ [t] else out)) orders1"
proof -
  let ?st = "state_of k (stateFor k orders)"
  have one: "ids_of ord (out @ [t]) = ids_of ord out @ (if k = ord then [tr_transitionId t] else [])"
    using assms(4) by (simp add: ids_of_def)
  show ?thesis
  proof (cases "tr_transitionId t \<in> set (fst ?st)")
    case True
    then show ?thesis using told_touch [OF assms(1-3)] assms(5)
      by (auto simp: claim_level_def Let_def split_beta)
  next
    case False
    then have "b" and "orders1 = set_state k (fst ?st @ [tr_transitionId t], snd ?st) (stateFor k orders)"
      using assms(5) by (auto simp: claim_level_def Let_def split_beta)
    then show ?thesis
      using told_write [OF assms(1-3), of "(fst ?st @ [tr_transitionId t], snd ?st)"
          "if k = ord then [tr_transitionId t] else []"] False by (auto simp: one subset_insertI)
  qed
qed

lemma told_claim_all:
  assumes "told gs ord ids orders" and "k \<in> gs" and "[] \<notin> gs" and "\<forall>t\<in>set ts. tr_orderNo t = Some k"
    and "claim_all k ts orders = (out, orders1)"
  shows "told gs ord (ids @ ids_of ord out) orders1"
proof -
  let ?step = "\<lambda>t (out, mem). case claim_level k (tr_transitionId t) mem of
     (True, mem1) \<Rightarrow> (out @ [t], mem1) | (False, mem1) \<Rightarrow> (out, mem1)"
  have "told gs ord (ids @ ids_of ord (fst s)) (snd s) \<Longrightarrow>
      told gs ord (ids @ ids_of ord (fst (fold ?step ts s))) (snd (fold ?step ts s))" for s
    using assms(4)
  proof (induction ts arbitrary: s)
    case (Cons t ts)
    obtain b mem where c: "claim_level k (tr_transitionId t) (snd s) = (b, mem)" by fastforce
    then have "?step t s = (if b then fst s @ [t] else fst s, mem)" by (simp add: split_beta split: bool.split)
    with told_claim [OF Cons.prems(1) assms(2,3) _ c] Cons show ?case by simp
  qed simp
  from this [of "([], orders)"] show ?thesis using assms(1,5) by (simp add: claim_all_def ids_of_def)
qed

lemma progress_order: "tr_orderNo (pickupProgressTransition p) = Some (pp_orderNo p)"
  by (simp add: pickupProgressTransition_def warningTransition_def transactionTransition_def
      split: pickup_stage.split)

lemma told_progress:
  "told gs ord ids orders \<Longrightarrow> pp_orderNo ` set ps \<subseteq> gs \<Longrightarrow> [] \<notin> gs \<Longrightarrow>
   project_progress ps orders = (out, orders1) \<Longrightarrow> told gs ord (ids @ ids_of ord out) orders1"
proof (induction ps arbitrary: ids orders out orders1)
  case Nil
  then show ?case by (simp add: ids_of_def)
next
  case (Cons p ps)
  obtain c m1 where c: "claim_all (pp_orderNo p) [pickupProgressTransition p] (markPickupSeen (pp_orderNo p) orders) = (c, m1)"
    by fastforce
  obtain out2 m2 where r: "project_progress ps m1 = (out2, m2)" by fastforce
  have c1: "told gs ord (ids @ ids_of ord c) m1"
    using Cons.prems(2) by (intro told_claim_all [OF told_mark [OF Cons.prems(1)] _ Cons.prems(3) _ c])
      (simp_all add: Cons.prems(3) progress_order)
  have "told gs ord ((ids @ ids_of ord c) @ ids_of ord out2) m2"
    using Cons.IH [OF c1 _ _ r] Cons.prems(2,3) by simp
  with Cons.prems(4) show ?case by (auto simp: c r ids_of_append)
qed

lemma sale_orders:
  "t \<in> set (actionTransitions k a at) \<Longrightarrow> tr_orderNo t = Some k"
  "t \<in> set (outcomeTransitions k a at) \<Longrightarrow> tr_orderNo t = Some k"
  by (cases a; auto simp: actionTransitions_def outcomeTransitions_def transactionTransition_def split: if_splits)+

lemma reminder_orders: "t \<in> set (reminderTransitions k r) \<Longrightarrow> tr_orderNo t = Some k"
  by (cases "pk_stage r"; cases "the (pk_stage r)")
    (auto simp: reminderTransitions_def warningTransition_def transactionTransition_def)

lemma told_pickup:
  assumes "told gs ord ids orders" and "k \<in> gs" and "[] \<notin> gs" and "pickup_part k a x orders = (ts, orders1)"
  shows "told gs ord ids orders1 \<and> (\<forall>t\<in>set ts. tr_orderNo t = Some k)"
  using assms(4) told_mark [OF assms(1-3)] told_touch [OF assms(1-3)] assms(1)
  by (auto simp: pickup_part_def hasPickupSeen_def Let_def transactionTransition_def
      intro: reminder_orders split: option.splits if_splits)

lemma told_sale:
  assumes told: "told gs ord ids orders" and gs: "set (fact_orders f) \<subseteq> gs" "[] \<notin> gs" and open': "\<not> closes_order ord f"
    and p: "project_transaction f orders = (out, orders1)"
  shows "told gs ord (ids @ ids_of ord out) orders1"
proof (cases "\<exists>x k a. jf_transaction f = Some x \<and> xf_orderNo x = Some k \<and> k \<noteq> [] \<and> xf_nextAction x = Some a")
  case False
  then have "out = [] \<and> orders1 = orders" using p by (auto simp: project_transaction_def split: option.splits if_splits)
  then show ?thesis using told by (simp add: ids_of_def)
next
  case True
  then obtain x k a where x: "jf_transaction f = Some x" "xf_orderNo x = Some k" "k \<noteq> []" "xf_nextAction x = Some a"
    by blast
  then have k: "k \<in> gs" using gs(1) by (auto simp: fact_orders_def)
  show ?thesis
  proof (cases "a = JaClosed")
    case True
    then have "k \<noteq> ord" using open' x by (auto simp: closes_order_def)
    moreover have "out = []" "orders1 = clear_order k orders"
      using p x True by (auto simp: project_transaction_def)
    ultimately show ?thesis
      using told clear_wf [of orders k] clear_remembers [of gs ord "set ids" orders k]
      by (auto simp: told_def ids_of_def)
  next
    case False
    obtain ts m where ts: "pickup_part k a x orders = (ts, m)" by fastforce
    have "claim_all k (actionTransitions k a (xf_updatedAt x) @ ts @ outcomeTransitions k a (xf_updatedAt x)) m =
        (out, orders1)" using p x False by (simp add: project_transaction_def ts)
    then show ?thesis using told_pickup [OF told k gs(2) ts]
      by (intro told_claim_all [OF _ k gs(2)]) (auto intro: sale_orders)
  qed
qed

lemma presence_silent:
  "ids_of ord (fst (project_touchscreen f m)) = []" "ids_of ord (fst (project_vision f m)) = []"
  "ids_of ord (fst (project_category f m)) = []" "ids_of ord (fst (project_product f m)) = []"
  by (auto simp: project_touchscreen_def project_vision_def project_category_def project_product_def
      ids_of_def presence_transition_def entry_transition_def claim_greeting_def Let_def split_beta
      split: option.split seen_edge.split)

lemma presence_orders:
  "jm_orders (snd (project_touchscreen f m)) = jm_orders m" "jm_orders (snd (project_vision f m)) = jm_orders m"
  "jm_orders (snd (project_category f m)) = jm_orders m" "jm_orders (snd (project_product f m)) = jm_orders m"
  by (auto simp: project_touchscreen_def project_vision_def project_category_def project_product_def
      claim_greeting_def Let_def split_beta split: option.split seen_edge.split)

lemma told_project:
  assumes "told gs ord ids (jm_orders m)" and "set (fact_orders f) \<subseteq> gs" and "[] \<notin> gs" and "\<not> closes_order ord f"
  shows "told gs ord (ids @ ids_of ord (snd (project m f))) (jm_orders (fst (project m f)))"
proof -
  obtain t m1 where t: "project_touchscreen f m = (t, m1)" by fastforce
  obtain v m2 where v: "project_vision f m1 = (v, m2)" by fastforce
  obtain c m3 where c: "project_category f m2 = (c, m3)" by fastforce
  obtain p m4 where p: "project_product f m3 = (p, m4)" by fastforce
  obtain u o1 where u: "project_progress (jf_pickupProgress f) (jm_orders m4) = (u, o1)" by fastforce
  obtain s o2 where s: "project_transaction f o1 = (s, o2)" by fastforce
  have quiet: "ids_of ord t = []" "ids_of ord v = []" "ids_of ord c = []" "ids_of ord p = []"
    and same: "jm_orders m4 = jm_orders m"
    using presence_silent(1) [of ord f m] presence_silent(2) [of ord f m1] presence_silent(3) [of ord f m2]
      presence_silent(4) [of ord f m3] presence_orders(1) [of f m] presence_orders(2) [of f m1]
      presence_orders(3) [of f m2] presence_orders(4) [of f m3] by (simp_all add: t v c p)
  have "told gs ord (ids @ ids_of ord u) o1"
    using told_progress [OF _ _ assms(3) u] assms(1,2) by (auto simp: same fact_orders_def)
  then have "told gs ord ((ids @ ids_of ord u) @ ids_of ord s) o2" by (rule told_sale [OF _ assms(2-4) s])
  then have "told gs ord (ids @ ids_of ord (t @ v @ c @ p @ u @ s)) o2"
    using quiet by (simp add: ids_of_append)
  from told_fewer [OF this] show ?thesis
    by (simp add: project_def projectCandidates_def Let_def t v c p u s)
qed

lemma told_run:
  "told gs ord ids (jm_orders m) \<Longrightarrow> \<forall>f\<in>set fs. set (fact_orders f) \<subseteq> gs \<and> \<not> closes_order ord f \<Longrightarrow> [] \<notin> gs \<Longrightarrow>
   told gs ord (ids @ ids_of ord (snd (journey_run fs m))) (jm_orders (fst (journey_run fs m)))"
proof (induction fs arbitrary: ids m)
  case Nil
  then show ?case by (simp add: ids_of_def)
next
  case (Cons f fs)
  have "told gs ord (ids @ ids_of ord (snd (project m f))) (jm_orders (fst (project m f)))"
    using Cons.prems by (intro told_project) auto
  from Cons.IH [OF this] Cons.prems show ?case by (simp add: split_beta Let_def ids_of_append)
qed

text \<open>C13: of an order the machine announces each step at most once: over any stretch of its run in
  which at most 32 orders are mentioned, however often the same facts come back, whatever the other
  orders do and whatever was announced before the stretch, the announcements made for one order that
  the stretch does not close are all different; and the projector still_known at most 32 orders.\<close>

theorem order_steps_announced_once:
  assumes "[] \<notin> set (concat (map fact_orders (before @ window)))"
    and "length (remdups (concat (map fact_orders window))) \<le> 32"
    and "list_all (\<lambda>f. \<not> closes_order ord f) window"
  shows "distinct (ids_of ord (snd (journey_run window (fst (journey_run before new_journey))))) \<and>
    length (jm_orders (fst (journey_run window (fst (journey_run before new_journey))))) \<le> 32"
proof -
  let ?m = "fst (journey_run before new_journey)"
  let ?gs = "set (concat (map fact_orders window))"
  have "told (set (concat (map fact_orders before))) [] [] (jm_orders new_journey)"
    by (simp add: told_def orders_wf_def new_journey_def)
  from told_run [OF this, of before] have "orders_wf (jm_orders ?m)"
    using assms(1) by (auto simp: told_def closes_order_def)
  then have "told ?gs ord [] (jm_orders ?m)" by (simp add: told_def)
  from told_run [OF this, of window] have t: "told ?gs ord (ids_of ord (snd (journey_run window ?m)))
      (jm_orders (fst (journey_run window ?m)))"
    using assms(1,3) by (auto simp: list_all_iff)
  have "few ?gs" using assms(2) unfolding few_def TRANSACTION_ORDER_MEMORY_LIMIT_def
    by (simp add: length_remdups_card_conv)
  with t show ?thesis by (simp add: told_def orders_wf_def TRANSACTION_ORDER_MEMORY_LIMIT_def)
qed

text \<open>A sale whose facts come back, another order in between, and a pickup report that arrives twice.\<close>

definition sale_facts :: "string \<Rightarrow> journey_action \<Rightarrow> journey_facts" where
  "sale_facts ord a = \<lparr>jf_pickupProgress = [], jf_touchscreen = None, jf_vision = None, jf_categoryEntry = None,
     jf_selectedProduct = None, jf_transaction = Some \<lparr>xf_orderNo = Some ord, xf_nextAction = Some a,
       xf_updatedAt = ''t'', xf_pickupReminder = None, xf_restored = False\<rparr>\<rparr>"

definition pickup_facts :: "string \<Rightarrow> pickup_stage \<Rightarrow> journey_facts" where
  "pickup_facts ord stage = \<lparr>jf_pickupProgress = [\<lparr>pp_eventId = ''e'', pp_orderNo = ord, pp_stage = stage,
       pp_warningNo = None, pp_reportedAt = ''t''\<rparr>], jf_touchscreen = None, jf_vision = None,
     jf_categoryEntry = None, jf_selectedProduct = None, jf_transaction = None\<rparr>"

definition busy_window :: "journey_facts list" where
  "busy_window = [sale_facts ''A'' JaDispensing, sale_facts ''B'' JaWaitPayment, sale_facts ''B'' JaClosed,
     sale_facts ''A'' JaDispensing, pickup_facts ''A'' StOutletOpened, pickup_facts ''A'' StOutletOpened,
     sale_facts ''A'' JaDispensing, sale_facts ''A'' JaSuccess, sale_facts ''A'' JaSuccess]"

theorem order_steps_announced_once_witness:
  "distinct (ids_of ''A'' (snd (journey_run busy_window
      (fst (journey_run [sale_facts ''A'' JaWaitPayment] new_journey))))) \<and>
   map tr_kind (snd (journey_run busy_window (fst (journey_run [sale_facts ''A'' JaWaitPayment] new_journey)))) =
     [PaymentSucceeded, DispensingStarted, PaymentPrompt, OutletOpened, PickupResetting, PickupCompleted,
      DispenseSuccess]"
proof -
  have a: "[] \<notin> set (concat (map fact_orders ([sale_facts ''A'' JaWaitPayment] @ busy_window)))" by code_simp
  have b: "length (remdups (concat (map fact_orders busy_window))) \<le> 32" by code_simp
  have c: "list_all (\<lambda>f. \<not> closes_order ''A'' f) busy_window" by code_simp
  have "map tr_kind (snd (journey_run busy_window (fst (journey_run [sale_facts ''A'' JaWaitPayment] new_journey)))) =
     [PaymentSucceeded, DispensingStarted, PaymentPrompt, OutletOpened, PickupResetting, PickupCompleted,
      DispenseSuccess]" by code_simp
  with order_steps_announced_once [OF a b c] show ?thesis by blast
qed

text \<open>The facts of presence have no such memory: \<open>acceptPickupProgress\<close> of
  \<open>runtime/customer-journey-audio-runtime.ts\<close> projects the progress alone, so a customer who stays
  at the screen is taken for gone, and is greeted again by the next unchanged facts.\<close>

definition touching :: journey_facts where
  "touching = (sale_facts ''A'' JaDispensing)\<lparr>jf_touchscreen := Some \<lparr>tf_personPresent = True,
     tf_lastInteractionAt = Some ''t'', tf_restored = False\<rparr>\<rparr>"

theorem pickup_report_greets_customer_again:
  "map tr_kind (snd (journey_run [touching, touching] new_journey)) =
     [TouchscreenAwakened, PaymentSucceeded, DispensingStarted] \<and>
   map tr_kind (snd (journey_run [touching, pickup_facts ''A'' StOutletOpened, touching] new_journey)) =
     [TouchscreenAwakened, PaymentSucceeded, DispensingStarted, OutletOpened, TouchscreenAwakened, PickupResetting]"
  by (rule conjI; code_simp)

end
