(* ===== verification/Spec2Isabelle.thy ===== *)
theory Spec2Isabelle
  imports Order_Properties Recovery_Properties Settlement_Properties Divergences
    Reconciliation_Properties Claim_Properties Dispense_Properties
    Sale_Capability Journey_Projector
begin

text \<open>
  A verification development of the VEM vending platform: the part of the service API
  (\<open>apps/service-api/src\<close>, over the tables of \<open>packages/db\<close> and the contracts of \<open>packages/shared\<close>)
  that sells goods, and the parts of the machine (\<open>apps/machine/src\<close>) that answer dispense commands,
  know whether a sale may start and announce its steps to the customer.

  \<^bold>\<open>The program.\<close> A machine creates an order (\<open>orders/orders.service.ts\<close>): one transaction drafts the
  order, its lines and its payment and reserves the stock. The payment is opened at a provider, or
  charged with a scanned code that a worker negotiates (\<open>payments/\<close>). Provider answers, webhooks,
  jobs and operators settle the payment in one transaction, which pays the order and creates its
  dispense commands (\<open>vending/vending.service.ts\<close>) or closes the order and releases its stock. The
  commands go out over MQTT, the machine executes them (\<open>mqtt/handler.ts\<close>) and reports results and
  stock movements (\<open>inventory/machine-stock-movements.*\<close>); a failure decides a refund
  (\<open>refunds/refunds.service.ts\<close>), a doubtful report waits for an operator
  (\<open>inventory/stock-reconciliation.*\<close>), an unknown outcome for a recovery. Administrators switch
  planograms and hand out the codes machines get their credentials with
  (\<open>machines/machines.service.ts\<close>).

  \<^bold>\<open>State and errors.\<close> The services keep their state in the database only. \<open>db\<close> (\<open>Db_Schema\<close>) is a
  record of its tables, a table a list of rows in the order of insertion, a row a record with the
  columns the code reads or writes. Identifiers and times are numbers; \<open>db_next\<close> is the next fresh
  identifier. A \<open>throw\<close> is \<open>Inl\<close> of an \<open>api_error\<close>. An operation that is one transaction has the type
  \<open>db \<Rightarrow> api_error + 'a \<times> db\<close>, where \<open>Inl\<close> is the rollback; one that is several steps has the type
  \<open>db \<Rightarrow> db \<times> (api_error + 'a)\<close> and keeps what it wrote before it threw. A transaction runs alone.
  Where the code reads, leaves the database and writes later, the operation is split there: the
  later phase takes what was read as an argument, and runs put anything between the phases. What
  comes from outside (clock, random identifiers, hashes, providers, broker, cryptography) is an
  argument of the operations (\<open>env\<close>, \<open>claim_env\<close>).

  \<^bold>\<open>Theories: the library.\<close>
  \<^item> \<open>Vem_Prelude\<close>: \<open>bindR\<close>, \<open>foldR\<close>, tables (\<open>upd_where\<close>, \<open>count_where\<close>, \<open>sum_where\<close>), \<open>atomic\<close>,
    \<open>bindS\<close>, and the locales \<open>transaction\<close> and \<open>reactive_machine\<close>: an invariant of single steps is an
    invariant of runs.
  \<^item> \<open>Shared_Enums\<close>: \<open>packages/shared/src/enums\<close>, the table of hardware errors, slot coordinates.
  \<^item> \<open>Db_Schema\<close>: \<open>packages/db/.../schema.ts\<close>, the tables with their check and unique constraints.
  \<^item> \<open>Order_Projection\<close>: \<open>projectOrderStatus\<close>, business numbers, row locks. \<open>Js_Text\<close>: strings.

  \<^bold>\<open>Theories: stock.\<close>
  \<^item> \<open>Inventory\<close>: \<open>inventory.service.ts\<close>, the expiry job, hardware error policies. \<open>Stock_Invariant\<close>:
    no oversell, and the books balance (\<open>stock_ok\<close>). \<open>Stock_Properties\<close>: reservation on every branch.
  \<^item> \<open>Stock_Movements\<close>: the ingestion of machine reports. \<open>Movement_Properties\<close>: a movement id moves
    stock once whatever plan its deliveries were read with.
  \<^item> \<open>Stock_Reconciliation\<close>, \<open>Reconciliation_Properties\<close>: the cases put aside: paging, and that a case
    is settled once, whatever stale case an operator acts on.
  \<^item> \<open>Planograms\<close>, \<open>Planogram_Properties\<close>: publication and acknowledgement of a planogram, and that
    the switch keeps the books.

  \<^bold>\<open>Theories: the sale.\<close>
  \<^item> \<open>Notifications\<close>: notifications and maintenance work orders.
  \<^item> \<open>Refunds\<close>, \<open>Refund_Properties\<close>, \<open>Refund_Frame\<close>: staging, claiming, dispatching and settling
    refunds, their webhooks and reconciliation; the locale \<open>refund_phases\<close> is the contract between
    single writes and runs.
  \<^item> \<open>Vending_Commands\<close>: creation, dispatch, results, timeouts and manual resolution of commands.
    \<open>Sale_Phases\<close>, \<open>Sale_System\<close>, \<open>Sale_Properties\<close>: the contract of the writes of a sale (the locales
    \<open>sale_phases\<close>, \<open>core_phases\<close>), its interpretations, and what runs guarantee.
  \<^item> \<open>Code_Attempts\<close>, \<open>Payments\<close>, \<open>Payment_Jobs\<close>, \<open>Payment_Webhooks\<close>, \<open>Payment_Incidents\<close>,
    \<open>Code_Recovery\<close>: \<open>payments/payments.service.ts\<close> and the worker for payment codes.
  \<^item> \<open>Order_Creation\<close>, \<open>Order_Service\<close>: \<open>orders/orders.service.ts\<close>.
  \<^item> \<open>Payment_Phases\<close>, \<open>Payment_Keeps\<close>, \<open>Payment_System\<close>, \<open>Shop_System\<close>: the contract of the writes of
    payments and orders (locale \<open>payment_phases\<close>), carried through every operation, and the shop
    as one system (locale \<open>shop_phases\<close>, invariant \<open>shop_ok\<close>). \<open>Payment_Properties\<close>,
    \<open>Order_Properties\<close>, \<open>Settlement_Properties\<close>: settled payments stay, keys are idempotent, leases are
    fenced, answers settle sales. \<open>Recovery_Properties\<close>: the recovery of an order refines an
    abstract protocol (\<open>stage_step\<close>).
  \<^item> \<open>Divergences\<close>: scenarios in which the code does something else than it means to.

  \<^bold>\<open>Theories: machines.\<close>
  \<^item> \<open>Machine_Claims\<close>, \<open>Claim_Properties\<close>: claim codes and credentials, on tables of their own
    (\<open>cdb\<close>); overlapping requests are decisions that finish later (\<open>claim_step\<close>).
  \<^item> \<open>Machine_Dispense\<close>, \<open>Dispense_Properties\<close>: the machine's command log, outbox and command
    handler; a delivery is a state machine that gives up its turn at each \<open>await\<close>
    (\<open>machine_step\<close>).
  \<^item> \<open>Sale_Capability\<close>: \<open>stores/sale-capability.ts\<close>, refreshes answered in any order
    (\<open>capability_step\<close>); the accepted snapshot never goes back. \<open>Journey_Projector\<close>:
    \<open>customer-journey/transition-projector.ts\<close>, whose memory of 32 orders announces each step once.

  \<^bold>\<open>Bounds and loops.\<close> Every definition is total. Integer columns are integers whose 32-bit bounds
  are checked where they are written (\<open>INT4_MAX\<close>). Loops over rows are structural; a job that
  takes one row after the other recurses on the number it may still take, as the code counts down
  its batch. There is no fuel.

  \<^bold>\<open>Not modelled.\<close> The provider adapters (alipay, wechat, mock) and the administration of merchant
  configurations; listings, dashboards and response mappers, which only read; the audit log; access
  control, sessions and roles; media assets and try-on; environment control and the
  machine catalogue view; the administration of products; MQTT transport and signatures; the views,
  other stores, audio player and device drivers of the machine and the admin interface; the Rust daemon, the
  simulators, the deployment and testbed scripts. They are input, output or administration
  around the state modelled here, or written in another language.
\<close>

end
